(* ===== verification/Prelude.thy ===== *)
theory Prelude
  imports Main "HOL-Library.Word" "HOL-Library.Sublist"
begin

unbundle bit_operations_syntax

text \<open>
  Shared vocabulary of the development.  The Python sources raise exceptions and thread
  mutable locals through loops; here a computation that may raise is a value of a sum type
  (\<open>Inl\<close> the exception, \<open>Inr\<close> the result), \<open>require\<close> is the guard every tool of the
  repository defines for itself, \<open>bind_res\<close> sequences two computations, \<open>mapM\<close> and
  \<open>foldM\<close> are the \<open>for\<close> loops without and with state.  Python integers are unbounded and
  are modelled by \<open>int\<close>, on which HOL's bit operations agree with Python's; a byte is an
  \<open>8 word\<close>.
\<close>

section \<open>Exceptions and results\<close>

text \<open>
  An exception carries the component's own message type, one constructor per message of the
  source, so that every \<open>raise\<close> is distinguishable.  \<open>StructError\<close>, \<open>UnicodeError\<close> and the
  others are raised by the standard library.
\<close>

datatype 'm exc =
    ValueError 'm
  | RuntimeError 'm
  | KeyError
  | TypeError
  | IndexError
  | StructError
  | UnicodeError
  | OSError
  | CalledProcessError
  | TarError
  | ZipError
  | AttributeError

type_synonym ('m, 'a) res = "'m exc + 'a"

definition require :: "bool \<Rightarrow> 'e \<Rightarrow> 'e + 'a \<Rightarrow> 'e + 'a" where
  "require c e k = (if c then k else Inl e)"

definition bind_res :: "'e + 'a \<Rightarrow> ('a \<Rightarrow> 'e + 'b) \<Rightarrow> 'e + 'b" where
  "bind_res m f = (case m of Inl e \<Rightarrow> Inl e | Inr x \<Rightarrow> f x)"

fun mapM :: "('a \<Rightarrow> 'e + 'b) \<Rightarrow> 'a list \<Rightarrow> 'e + 'b list" where
  "mapM f [] = Inr []"
| "mapM f (x # xs) = bind_res (f x) (\<lambda>y. bind_res (mapM f xs) (\<lambda>ys. Inr (y # ys)))"

fun foldM :: "('s \<Rightarrow> 'a \<Rightarrow> 'e + 's) \<Rightarrow> 's \<Rightarrow> 'a list \<Rightarrow> 'e + 's" where
  "foldM f s [] = Inr s"
| "foldM f s (x # xs) = bind_res (f s x) (\<lambda>t. foldM f t xs)"

definition is_ok :: "'e + 'a \<Rightarrow> bool" where
  "is_ok r = (case r of Inl _ \<Rightarrow> False | Inr _ \<Rightarrow> True)"

definition of_option :: "'e \<Rightarrow> 'a option \<Rightarrow> 'e + 'a" where
  "of_option e x = (case x of None \<Rightarrow> Inl e | Some v \<Rightarrow> Inr v)"

named_theorems res_simps \<open>success and failure of guarded computations\<close>

lemma bind_res_Inl [simp]: "bind_res (Inl e) f = Inl e"
  by (simp add: bind_res_def)

lemma bind_res_Inr [simp]: "bind_res (Inr x) f = f x"
  by (simp add: bind_res_def)

lemma require_True [simp]: "require True e k = k"
  by (simp add: require_def)

lemma require_False [simp]: "require False e k = Inl e"
  by (simp add: require_def)

lemma require_Inr_iff [res_simps]: "require c e k = Inr y \<longleftrightarrow> c \<and> k = Inr y"
  by (simp add: require_def)

lemma require_Inl_iff: "require c e k = Inl d \<longleftrightarrow> (\<not> c \<and> d = e) \<or> (c \<and> k = Inl d)"
  by (auto simp: require_def)

lemma bind_res_Inr_iff [res_simps]:
  "bind_res m f = Inr y \<longleftrightarrow> (\<exists>x. m = Inr x \<and> f x = Inr y)"
  by (cases m) (auto simp: bind_res_def)

lemma bind_res_Inl_iff:
  "bind_res m f = Inl e \<longleftrightarrow> m = Inl e \<or> (\<exists>x. m = Inr x \<and> f x = Inl e)"
  by (cases m) (auto simp: bind_res_def)

lemma is_ok_Inr [simp]: "is_ok (Inr x)"
  by (simp add: is_ok_def)

lemma is_ok_Inl [simp]: "\<not> is_ok (Inl e)"
  by (simp add: is_ok_def)

lemma is_ok_iff: "is_ok r \<longleftrightarrow> (\<exists>x. r = Inr x)"
  by (cases r) auto

lemma is_ok_require [res_simps]: "is_ok (require c e k) \<longleftrightarrow> c \<and> is_ok k"
  by (simp add: require_def)

lemma of_option_Inr_iff [res_simps]: "of_option e x = Inr v \<longleftrightarrow> x = Some v"
  by (cases x) (auto simp: of_option_def)

lemma of_option_simps [simp]: "of_option e None = Inl e" "of_option e (Some v) = Inr v"
  by (simp_all add: of_option_def)

section \<open>Loops\<close>

lemma mapM_Inr_iff: "mapM f xs = Inr ys \<longleftrightarrow> list_all2 (\<lambda>x y. f x = Inr y) xs ys"
  by (induction xs arbitrary: ys) (auto simp: bind_res_Inr_iff list_all2_Cons1)

lemma mapM_length: "mapM f xs = Inr ys \<Longrightarrow> length ys = length xs"
  by (auto simp: mapM_Inr_iff dest: list_all2_lengthD)

lemma mapM_nth: "mapM f xs = Inr ys \<Longrightarrow> i < length xs \<Longrightarrow> f (xs ! i) = Inr (ys ! i)"
  by (auto simp: mapM_Inr_iff dest: list_all2_nthD)

lemma mapM_set: "mapM f xs = Inr ys \<Longrightarrow> x \<in> set xs \<Longrightarrow> \<exists>y \<in> set ys. f x = Inr y"
  by (metis in_set_conv_nth mapM_length mapM_nth)

lemma foldM_append: "foldM f s (xs @ ys) = bind_res (foldM f s xs) (\<lambda>t. foldM f t ys)"
  by (induction xs arbitrary: s) (auto simp: bind_res_def split: sum.splits)

lemma foldM_cong:
  "(\<And>s x. x \<in> set xs \<Longrightarrow> f s x = g s x) \<Longrightarrow> foldM f s xs = foldM g s xs"
  by (induction xs arbitrary: s) (auto simp: bind_res_def split: sum.splits)

text \<open>The loop rule: a fact every completed iteration keeps holds after the loop.\<close>

lemma foldM_invariant:
  assumes "foldM f s xs = Inr t" and "P s"
    and "\<And>a x b. x \<in> set xs \<Longrightarrow> P a \<Longrightarrow> f a x = Inr b \<Longrightarrow> P b"
  shows "P t"
  using assms
proof (induction xs arbitrary: s)
  case Nil
  then show ?case by simp
next
  case (Cons x xs)
  from Cons.prems(1) obtain u where u: "f s x = Inr u" "foldM f u xs = Inr t"
    by (auto simp: bind_res_Inr_iff)
  then have "P u" using Cons.prems(2) Cons.prems(3) [of x s u] by simp
  moreover have "P b" if "y \<in> set xs" "P a" "f a y = Inr b" for a y b
    using that Cons.prems(3) [of y a b] by simp
  ultimately show ?case by (rule Cons.IH [OF u(2)])
qed

text \<open>A loop whose every iteration only adds to what has been established.\<close>

lemma foldM_each:
  assumes "foldM f s xs = Inr t" and "x \<in> set xs"
  shows "\<exists>a b. f a x = Inr b"
  using assms
  by (induction xs arbitrary: s) (auto simp: bind_res_Inr_iff)

lemma foldM_unit_iff:
  "foldM (\<lambda>_ x. f x) () xs = Inr () \<longleftrightarrow> (\<forall>x \<in> set xs. f x = Inr ())"
  by (induction xs) (auto simp: bind_res_Inr_iff)

lemma foldM_unit_nonempty_iff:
  "foldM (\<lambda>_ x. f x) u xs = Inr v \<longleftrightarrow> (\<forall>x \<in> set xs. f x = Inr ())"
  by (induction xs arbitrary: u) (auto simp: bind_res_Inr_iff)

section \<open>Recording loops\<close>

text \<open>
  The interface of a loop whose every iteration appends what it observed to a record: a test matrix,
  an extraction, a list of built objects.  \<open>entries\<close> is the record, \<open>good\<close> what one iteration adds.
\<close>

locale recording_loop =
  fixes step :: "'s \<Rightarrow> 'a \<Rightarrow> ('m, 's) res" and entries :: "'s \<Rightarrow> 'e list" and good :: "'a \<Rightarrow> 'e list \<Rightarrow> bool"
  assumes step_records: "step s x = Inr t \<Longrightarrow> \<exists>es. entries t = entries s @ es \<and> good x es"
begin

lemma loop_records:
  "foldM step s xs = Inr t \<Longrightarrow> \<exists>ess. entries t = entries s @ concat ess \<and> list_all2 good xs ess"
proof (induction xs arbitrary: s)
  case (Cons x xs)
  then obtain u where u: "step s x = Inr u" "foldM step u xs = Inr t" by (auto simp: bind_res_Inr_iff)
  obtain es where "entries u = entries s @ es" "good x es" using step_records [OF u(1)] by blast
  moreover obtain ess where "entries t = entries u @ concat ess" "list_all2 good xs ess" using Cons.IH [OF u(2)] by blast
  ultimately have "entries t = entries s @ concat (es # ess) \<and> list_all2 good (x # xs) (es # ess)" by simp
  then show ?case by blast
qed (auto intro: exI [of _ "[]"])

lemma loop_records_each:
  assumes "foldM step s xs = Inr t" and "\<And>x es. x \<in> set xs \<Longrightarrow> good x es \<Longrightarrow> list_all P es"
  shows "list_all P (entries s) \<Longrightarrow> list_all P (entries t)"
proof -
  assume s: "list_all P (entries s)"
  obtain ess where ess: "entries t = entries s @ concat ess" "list_all2 good xs ess" using loop_records [OF assms(1)] by blast
  have "list_all P es" if "es \<in> set ess" for es
    using ess(2) that assms(2) by (metis list_all2_conv_all_nth in_set_conv_nth)
  then show ?thesis using s ess(1) by (auto simp: list_all_iff)
qed

lemma loop_records_keys:
  assumes "foldM step s xs = Inr t" and "\<And>x es. x \<in> set xs \<Longrightarrow> good x es \<Longrightarrow> map f es = g x"
  shows "map f (entries t) = map f (entries s) @ concat (map g xs)"
proof -
  obtain ess where ess: "entries t = entries s @ concat ess" "list_all2 good xs ess" using loop_records [OF assms(1)] by blast
  have "concat (map g xs) = map f (concat ess)"
    using ess(2) assms(2) by (induction rule: list_all2_induct) (simp_all, metis)
  then show ?thesis by (simp add: ess(1))
qed

end

section \<open>Python sequences\<close>

text \<open>Slicing with Python's treatment of negative and out-of-range bounds.\<close>

definition slice_index :: "nat \<Rightarrow> int \<Rightarrow> nat" where
  "slice_index n i = (if i < 0 then nat (i + int n) else min (nat i) n)"

definition py_slice :: "'a list \<Rightarrow> int \<Rightarrow> int \<Rightarrow> 'a list" where
  "py_slice xs a b =
     (let i = slice_index (length xs) a; j = slice_index (length xs) b
      in take (j - i) (drop i xs))"

lemma py_slice_nonneg:
  "0 \<le> a \<Longrightarrow> 0 \<le> b \<Longrightarrow> py_slice xs a b = take (nat b - nat a) (drop (nat a) xs)"
proof -
  assume "0 \<le> a" "0 \<le> b"
  then have "py_slice xs a b =
      take (min (nat b) (length xs) - min (nat a) (length xs)) (drop (min (nat a) (length xs)) xs)"
    by (simp add: py_slice_def slice_index_def Let_def)
  then show ?thesis
    by (cases "nat a \<le> length xs"; cases "nat b \<le> length xs") (auto simp: min_def)
qed

lemma py_slice_length:
  "0 \<le> a \<Longrightarrow> a \<le> b \<Longrightarrow> b \<le> int (length xs) \<Longrightarrow> length (py_slice xs a b) = nat (b - a)"
  by (simp add: py_slice_nonneg nat_diff_distrib')

lemma py_slice_nth:
  "0 \<le> a \<Longrightarrow> a \<le> b \<Longrightarrow> b \<le> int (length xs) \<Longrightarrow> i < nat (b - a) \<Longrightarrow>
   py_slice xs a b ! i = xs ! (nat a + i)"
  by (simp add: py_slice_nonneg nat_diff_distrib')

text \<open>\<open>range(a, b, step)\<close> for a positive step.\<close>

definition py_range :: "int \<Rightarrow> int \<Rightarrow> int \<Rightarrow> int list" where
  "py_range a b step = map (\<lambda>i. a + int i * step) [0..<nat ((b - a + step - 1) div step)]"

lemma pos_le_div_iff:
  assumes "0 < (s :: int)"
  shows "k \<le> n div s \<longleftrightarrow> k * s \<le> n"
proof
  assume "k \<le> n div s"
  then have "k * s \<le> n div s * s" using assms by simp
  also have "\<dots> \<le> n"
    using assms by (metis add_increasing2 div_mult_mod_eq order_refl pos_mod_sign)
  finally show "k * s \<le> n" .
next
  assume "k * s \<le> n"
  then have "k * s div s \<le> n div s" using assms by (rule zdiv_mono1)
  then show "k \<le> n div s" using assms by simp
qed

lemma range_count_less_iff:
  assumes "0 < (step :: int)"
  shows "i < (n + step - 1) div step \<longleftrightarrow> i * step < n"
proof -
  have "i < (n + step - 1) div step \<longleftrightarrow> i + 1 \<le> (n + step - 1) div step" by linarith
  also have "\<dots> \<longleftrightarrow> (i + 1) * step \<le> n + step - 1"
    using assms by (rule pos_le_div_iff)
  also have "\<dots> \<longleftrightarrow> i * step < n" by (simp add: algebra_simps) linarith
  finally show ?thesis .
qed

lemma in_py_range_iff:
  assumes "0 < step"
  shows "x \<in> set (py_range a b step) \<longleftrightarrow> a \<le> x \<and> x < b \<and> step dvd x - a"
proof
  assume "x \<in> set (py_range a b step)"
  then obtain i where i: "x = a + int i * step" "int i < (b - a + step - 1) div step"
    unfolding py_range_def set_map set_upt
    by (metis (no_types, lifting) atLeastLessThan_iff imageE zless_nat_eq_int_zless)
  then have "int i * step < b - a" using range_count_less_iff [OF assms] by simp
  then show "a \<le> x \<and> x < b \<and> step dvd x - a" using i(1) assms by simp
next
  assume x: "a \<le> x \<and> x < b \<and> step dvd x - a"
  then obtain k where k: "x - a = k * step" by (auto simp: dvd_def mult.commute)
  have "0 \<le> k" using x k assms by (metis diff_ge_0_iff_ge not_less mult_neg_pos)
  moreover have "k < (b - a + step - 1) div step"
    using x k range_count_less_iff [OF assms] by simp
  ultimately have "nat k \<in> set [0..<nat ((b - a + step - 1) div step)]" by simp
  moreover have "x = a + int (nat k) * step" using k \<open>0 \<le> k\<close> by simp
  ultimately show "x \<in> set (py_range a b step)" unfolding py_range_def set_map by (rule rev_image_eqI)
qed

lemma sorted_py_range: "0 < step \<Longrightarrow> sorted_wrt (<) (py_range a b step)"
  by (simp add: py_range_def sorted_wrt_map sorted_wrt_iff_nth_less)

section \<open>Dictionaries in insertion order\<close>

text \<open>
  A Python dictionary iterates in insertion order, so it is an association list; assigning
  to a present key keeps its place.
\<close>

fun dict_set :: "('k \<times> 'v) list \<Rightarrow> 'k \<Rightarrow> 'v \<Rightarrow> ('k \<times> 'v) list" where
  "dict_set [] k v = [(k, v)]"
| "dict_set ((j, w) # d) k v = (if j = k then (k, v) # d else (j, w) # dict_set d k v)"

abbreviation dict_keys :: "('k \<times> 'v) list \<Rightarrow> 'k list" where
  "dict_keys d \<equiv> map fst d"

definition dict_get :: "('k \<times> 'v) list \<Rightarrow> 'k \<Rightarrow> ('m, 'v) res" where
  "dict_get d k = of_option KeyError (map_of d k)"

lemma map_of_dict_set [simp]: "map_of (dict_set d k v) = (map_of d)(k \<mapsto> v)"
  by (induction d k v rule: dict_set.induct) auto

lemma dict_keys_set [simp]: "set (dict_keys (dict_set d k v)) = insert k (set (dict_keys d))"
  by (induction d k v rule: dict_set.induct) auto

lemma distinct_dict_set: "distinct (dict_keys d) \<Longrightarrow> distinct (dict_keys (dict_set d k v))"
proof (induction d k v rule: dict_set.induct)
  case (2 j w d k v)
  then show ?case using dict_keys_set [of d k v] by (auto simp del: dict_keys_set)
qed simp

lemma dict_set_fresh: "k \<notin> set (dict_keys d) \<Longrightarrow> dict_set d k v = d @ [(k, v)]"
  by (induction d k v rule: dict_set.induct) auto

lemma dict_set_same: "map_of d k = Some v \<Longrightarrow> dict_set d k v = d"
  by (induction d) (auto split: if_splits)

lemma dict_set_twice: "dict_set (dict_set d k v) k w = dict_set d k w"
  by (induction d k v rule: dict_set.induct) auto

lemma dict_get_Inr_iff [res_simps]: "dict_get d k = Inr v \<longleftrightarrow> map_of d k = Some v"
  by (simp add: dict_get_def of_option_Inr_iff)

end
