(* ===== verification/Py_Struct.thy ===== *)
theory Py_Struct
  imports Prelude
begin

text \<open>
  The part of Python's \<^verbatim>\<open>struct\<close> module the packaging tools use: little-endian fields
  without padding (\<^verbatim>\<open><\<close>), of the codes \<^verbatim>\<open>B H I Q q\<close> and \<^verbatim>\<open>Ns\<close>.  A format is a list of
  \<open>fmt\<close>, a tuple of values a list of \<open>sval\<close>.  A value out of its field's range, a wrong
  number of values and a buffer that is too short raise \<^verbatim>\<open>struct.error\<close>.

  The interface \<open>fixed_codec\<close> states what a fixed-width integer field promises; its laws are
  discharged for the unsigned widths and the signed quadword, and the clients (the ELF and
  Mach-O writers) use its lemmas on reading back what was written into a buffer.
\<close>

type_synonym byte = "8 word"
type_synonym bytes = "byte list"

datatype fmt = U8 | U16 | U32 | U64 | S64 | Raw nat

datatype sval = Num int | Bytes bytes

section \<open>Little-endian integers\<close>

fun le_int :: "bytes \<Rightarrow> int" where
  "le_int [] = 0"
| "le_int (b # bs) = uint b + 256 * le_int bs"

fun le_bytes :: "nat \<Rightarrow> int \<Rightarrow> bytes" where
  "le_bytes 0 v = []"
| "le_bytes (Suc n) v = word_of_int v # le_bytes n (v div 256)"

definition to_signed :: "nat \<Rightarrow> int \<Rightarrow> int" where
  "to_signed bits v = (if v < 2 ^ (bits - 1) then v else v - 2 ^ bits)"

lemma uint_byte_bounds: "0 \<le> uint (b :: byte)" "uint (b :: byte) < 256"
  using uint_bounded [of b] by simp_all

lemma uint_word_of_int_byte: "uint (word_of_int v :: byte) = v mod 256"
  by (simp add: uint_word_of_int)

lemma length_le_bytes [simp]: "length (le_bytes n v) = n"
  by (induction n arbitrary: v) auto

lemma le_int_nonneg [simp]: "0 \<le> le_int bs"
  by (induction bs) (auto simp: uint_byte_bounds)

lemma le_int_less: "le_int bs < 256 ^ length bs"
proof (induction bs)
  case Nil
  then show ?case by simp
next
  case (Cons b bs)
  then have "le_int bs + 1 \<le> 256 ^ length bs" by simp
  then show ?case using uint_byte_bounds(2) [of b] by simp
qed

lemma le_int_le_bytes: "0 \<le> v \<Longrightarrow> v < 256 ^ n \<Longrightarrow> le_int (le_bytes n v) = v"
proof (induction n arbitrary: v)
  case 0
  then show ?case by simp
next
  case (Suc n)
  have "v div 256 < 256 ^ n" using Suc.prems by (simp add: div_less_iff_less_mult mult.commute)
  then have "le_int (le_bytes n (v div 256)) = v div 256" using Suc by simp
  then show ?case by (simp add: uint_word_of_int_byte)
qed

lemma le_bytes_le_int: "le_bytes (length bs) (le_int bs) = bs"
proof (induction bs)
  case Nil
  then show ?case by simp
next
  case (Cons b bs)
  have "(uint b + 256 * le_int bs) div 256 = le_int bs"
    using uint_byte_bounds [of b] by (simp add: div_add1_eq)
  moreover have "word_of_int (uint b + 256 * le_int bs) = b"
  proof (rule word_uint_eqI)
    show "uint (word_of_int (uint b + 256 * le_int bs) :: byte) = uint b"
      unfolding uint_word_of_int_byte using uint_byte_bounds [of b] by simp
  qed
  ultimately show ?case using Cons by simp
qed

lemma le_bytes_mod: "le_bytes n (v mod 256 ^ n) = le_bytes n v"
proof (induction n arbitrary: v)
  case 0
  then show ?case by simp
next
  case (Suc n)
  have "v mod (256 * 256 ^ n) div 256 = v div 256 mod 256 ^ n"
    by (simp add: zmod_zmult2_eq div_add1_eq)
  moreover have "(word_of_int (v mod (256 * 256 ^ n)) :: byte) = word_of_int v"
    by (rule word_uint_eqI) (simp add: uint_word_of_int_byte mod_mod_cancel)
  ultimately show ?case using Suc.IH [of "v div 256"] by simp
qed

section \<open>Packing and unpacking\<close>

fun fmt_size :: "fmt \<Rightarrow> nat" where
  "fmt_size U8 = 1"
| "fmt_size U16 = 2"
| "fmt_size U32 = 4"
| "fmt_size U64 = 8"
| "fmt_size S64 = 8"
| "fmt_size (Raw n) = n"

definition calcsize :: "fmt list \<Rightarrow> nat" where
  "calcsize fs = sum_list (map fmt_size fs)"

fun unpack_field :: "fmt \<Rightarrow> bytes \<Rightarrow> sval" where
  "unpack_field (Raw n) bs = Bytes bs"
| "unpack_field S64 bs = Num (to_signed 64 (le_int bs))"
| "unpack_field f bs = Num (le_int bs)"

fun struct_unpack :: "fmt list \<Rightarrow> bytes \<Rightarrow> sval list" where
  "struct_unpack [] bs = []"
| "struct_unpack (f # fs) bs =
     unpack_field f (take (fmt_size f) bs) # struct_unpack fs (drop (fmt_size f) bs)"

definition pack_unsigned :: "nat \<Rightarrow> int \<Rightarrow> ('m, bytes) res" where
  "pack_unsigned n v = require (0 \<le> v \<and> v < 256 ^ n) StructError (Inr (le_bytes n v))"

fun pack_field :: "fmt \<Rightarrow> sval \<Rightarrow> ('m, bytes) res" where
  "pack_field (Raw n) (Bytes bs) = Inr (take n bs @ replicate (n - length bs) 0)"
| "pack_field S64 (Num v) =
     require (- (2 ^ 63) \<le> v \<and> v < 2 ^ 63) StructError (Inr (le_bytes 8 (v mod 2 ^ 64)))"
| "pack_field (Raw n) (Num v) = Inl StructError"
| "pack_field f (Bytes bs) = Inl StructError"
| "pack_field f (Num v) = pack_unsigned (fmt_size f) v"

fun struct_pack :: "fmt list \<Rightarrow> sval list \<Rightarrow> ('m, bytes) res" where
  "struct_pack [] [] = Inr []"
| "struct_pack (f # fs) (v # vs) =
     bind_res (pack_field f v) (\<lambda>b. bind_res (struct_pack fs vs) (\<lambda>bs. Inr (b @ bs)))"
| "struct_pack fs vs = Inl StructError"

text \<open>A negative offset of \<^verbatim>\<open>unpack_from\<close> and \<^verbatim>\<open>pack_into\<close> counts from the end.\<close>

definition buffer_offset :: "nat \<Rightarrow> nat \<Rightarrow> int \<Rightarrow> ('m, nat) res" where
  "buffer_offset len sz off =
     (let o' = (if off < 0 then off + int len else off)
      in require (0 \<le> o' \<and> o' + int sz \<le> int len) StructError (Inr (nat o')))"

definition unpack_from :: "fmt list \<Rightarrow> bytes \<Rightarrow> int \<Rightarrow> ('m, sval list) res" where
  "unpack_from fs data off =
     bind_res (buffer_offset (length data) (calcsize fs) off)
       (\<lambda>i. Inr (struct_unpack fs (take (calcsize fs) (drop i data))))"

text \<open>Overwrite part of a buffer, as a slice assignment of equal length does.\<close>

definition write_at :: "'a list \<Rightarrow> nat \<Rightarrow> 'a list \<Rightarrow> 'a list" where
  "write_at buf i bs = take i buf @ bs @ drop (i + length bs) buf"

definition read_at :: "'a list \<Rightarrow> nat \<Rightarrow> nat \<Rightarrow> 'a list" where
  "read_at buf i n = take n (drop i buf)"

definition pack_into :: "fmt list \<Rightarrow> bytes \<Rightarrow> int \<Rightarrow> sval list \<Rightarrow> ('m, bytes) res" where
  "pack_into fs buf off vs =
     bind_res (struct_pack fs vs)
       (\<lambda>bs. bind_res (buffer_offset (length buf) (length bs) off) (\<lambda>i. Inr (write_at buf i bs)))"

fun num :: "sval \<Rightarrow> int" where
  "num (Num v) = v"
| "num (Bytes bs) = 0"

fun raw :: "sval \<Rightarrow> bytes" where
  "raw (Bytes bs) = bs"
| "raw (Num v) = []"

section \<open>Buffers\<close>

lemma length_write_at: "i + length bs \<le> length buf \<Longrightarrow> length (write_at buf i bs) = length buf"
  by (simp add: write_at_def)

lemma read_write_same: "i + length bs \<le> length buf \<Longrightarrow> read_at (write_at buf i bs) i (length bs) = bs"
  by (simp add: write_at_def read_at_def)

lemma nth_write_at:
  assumes "i + length bs \<le> length buf" and "j < length buf"
  shows "write_at buf i bs ! j =
    (if i \<le> j \<and> j < i + length bs then bs ! (j - i) else buf ! j)"
  using assms by (auto simp: write_at_def nth_append)

lemma read_write_other:
  assumes "i + length bs \<le> length buf" and "j + n \<le> length buf"
    and "j + n \<le> i \<or> i + length bs \<le> j"
  shows "read_at (write_at buf i bs) j n = read_at buf j n"
proof (rule nth_equalityI)
  show "length (read_at (write_at buf i bs) j n) = length (read_at buf j n)"
    using assms(1) by (simp add: read_at_def length_write_at)
next
  fix k assume "k < length (read_at (write_at buf i bs) j n)"
  then have "k < n" "j + k < length buf"
    using assms by (auto simp: read_at_def length_write_at)
  then show "read_at (write_at buf i bs) j n ! k = read_at buf j n ! k"
    using assms by (auto simp: read_at_def length_write_at nth_write_at)
qed

lemma read_at_append_right: "i = length xs \<Longrightarrow> n = length ys \<Longrightarrow> read_at (xs @ ys @ zs) i n = ys"
  by (simp add: read_at_def)

lemma read_at_append_left: "i + n \<le> length xs \<Longrightarrow> read_at (xs @ ys) i n = read_at xs i n"
  by (simp add: read_at_def)

section \<open>The contract of a fixed-width field\<close>

locale fixed_codec =
  fixes enc :: "int \<Rightarrow> bytes"
    and dec :: "bytes \<Rightarrow> int"
    and width :: nat
    and valid :: "int \<Rightarrow> bool"
  assumes enc_length: "length (enc v) = width"
    and dec_enc: "valid v \<Longrightarrow> dec (enc v) = v"
    and enc_dec: "length bs = width \<Longrightarrow> enc (dec bs) = bs"
    and dec_valid: "length bs = width \<Longrightarrow> valid (dec bs)"
begin

lemma enc_inj: "valid v \<Longrightarrow> valid w \<Longrightarrow> enc v = enc w \<Longrightarrow> v = w"
  by (metis dec_enc)

lemma dec_inj: "length a = width \<Longrightarrow> length b = width \<Longrightarrow> dec a = dec b \<Longrightarrow> a = b"
  by (metis enc_dec)

lemma read_back:
  "valid v \<Longrightarrow> i + width \<le> length buf \<Longrightarrow> dec (read_at (write_at buf i (enc v)) i width) = v"
  using read_write_same [of i "enc v" buf] by (simp add: enc_length dec_enc)

lemma read_elsewhere:
  "i + width \<le> length buf \<Longrightarrow> j + n \<le> length buf \<Longrightarrow> j + n \<le> i \<or> i + width \<le> j \<Longrightarrow>
   read_at (write_at buf i (enc v)) j n = read_at buf j n"
  by (rule read_write_other) (simp_all add: enc_length)

end

lemma unsigned_codec: "fixed_codec (le_bytes n) le_int n (\<lambda>v. 0 \<le> v \<and> v < 256 ^ n)"
proof
  fix bs :: bytes
  assume "length bs = n"
  then show "le_bytes n (le_int bs) = bs" using le_bytes_le_int [of bs] by simp
  from \<open>length bs = n\<close> show "0 \<le> le_int bs \<and> le_int bs < 256 ^ n"
    using le_int_less [of bs] by simp
qed (auto simp: le_int_le_bytes)

interpretation u16_codec: fixed_codec "le_bytes 2" le_int 2 "\<lambda>v. 0 \<le> v \<and> v < 256 ^ 2"
  by (rule unsigned_codec)

interpretation u32_codec: fixed_codec "le_bytes 4" le_int 4 "\<lambda>v. 0 \<le> v \<and> v < 256 ^ 4"
  by (rule unsigned_codec)

interpretation u64_codec: fixed_codec "le_bytes 8" le_int 8 "\<lambda>v. 0 \<le> v \<and> v < 256 ^ 8"
  by (rule unsigned_codec)

lemma to_signed_mod:
  assumes "- (2 ^ 63) \<le> v" and "v < 2 ^ 63"
  shows "to_signed 64 (v mod 2 ^ 64) = v"
proof (cases "0 \<le> v")
  case True
  then show ?thesis using assms by (simp add: to_signed_def)
next
  case False
  then have "v mod 2 ^ 64 = v + 2 ^ 64"
    using assms by (intro int_mod_pos_eq [where q = "- 1"]) auto
  then show ?thesis using assms False by (simp add: to_signed_def)
qed

interpretation s64_codec: fixed_codec "\<lambda>v. le_bytes 8 (v mod 2 ^ 64)"
  "\<lambda>bs. to_signed 64 (le_int bs)" 8 "\<lambda>v. - (2 ^ 63) \<le> v \<and> v < 2 ^ 63"
proof
  fix v :: int
  assume v: "- (2 ^ 63) \<le> v \<and> v < 2 ^ 63"
  have "le_int (le_bytes 8 (v mod 2 ^ 64)) = v mod 2 ^ 64" by (rule le_int_le_bytes) simp_all
  then show "to_signed 64 (le_int (le_bytes 8 (v mod 2 ^ 64))) = v"
    using v to_signed_mod [of v] by simp
next
  fix bs :: bytes
  assume len: "length bs = 8"
  have "le_int bs < 2 ^ 64" using le_int_less [of bs] len by simp
  then have "to_signed 64 (le_int bs) mod 2 ^ 64 = le_int bs"
    by (auto simp: to_signed_def)
  then show "le_bytes 8 (to_signed 64 (le_int bs) mod 2 ^ 64) = bs"
    using le_bytes_le_int [of bs] len by simp
  from \<open>le_int bs < 2 ^ 64\<close> show "- (2 ^ 63) \<le> to_signed 64 (le_int bs) \<and> to_signed 64 (le_int bs) < 2 ^ 63"
    using le_int_nonneg [of bs] unfolding to_signed_def by (auto simp del: le_int_nonneg)
qed simp

section \<open>What a successful pack or unpack gives\<close>

text \<open>A value that fits its field exactly.\<close>

fun fits :: "fmt \<Rightarrow> sval \<Rightarrow> bool" where
  "fits (Raw n) (Bytes bs) = (length bs = n)"
| "fits (Raw n) (Num v) = False"
| "fits f (Bytes bs) = False"
| "fits S64 (Num v) = (- (2 ^ 63) \<le> v \<and> v < 2 ^ 63)"
| "fits f (Num v) = (0 \<le> v \<and> v < 256 ^ fmt_size f)"

lemma pack_field_fits:
  assumes "fits f v"
  shows "\<exists>bs. (pack_field f v :: ('m, bytes) res) = Inr bs \<and> length bs = fmt_size f \<and> unpack_field f bs = v"
proof (cases v)
  case (Num k)
  show ?thesis
  proof (cases f)
    case S64
    then show ?thesis using assms Num s64_codec.dec_enc [of k] by (simp add: require_def)
  next
    case U8
    then show ?thesis using assms Num le_int_le_bytes [of k 1] by (simp add: pack_unsigned_def)
  qed (use assms Num le_int_le_bytes in \<open>auto simp: pack_unsigned_def require_def\<close>)
next
  case (Bytes bs)
  with assms show ?thesis by (cases f) auto
qed

lemma struct_roundtrip:
  assumes "list_all2 fits fs vs"
  shows "\<exists>bs. (struct_pack fs vs :: ('m, bytes) res) = Inr bs \<and> length bs = calcsize fs \<and>
    (\<forall>rest. struct_unpack fs (bs @ rest) = vs)"
  using assms
proof (induction fs vs rule: list_all2_induct)
  case Nil
  then show ?case by (simp add: calcsize_def)
next
  case (Cons f fs v vs)
  then obtain b bs where "(pack_field f v :: ('m, bytes) res) = Inr b" "length b = fmt_size f" "unpack_field f b = v"
    "(struct_pack fs vs :: ('m, bytes) res) = Inr bs" "length bs = calcsize fs"
    "\<forall>rest. struct_unpack fs (bs @ rest) = vs"
    using pack_field_fits by blast
  then show ?case by (auto simp: calcsize_def)
qed

lemma length_struct_unpack [simp]: "length (struct_unpack fs bs) = length fs"
  by (induction fs arbitrary: bs) auto

lemma unpack_field_fits: "length bs = fmt_size f \<Longrightarrow> fits f (unpack_field f bs)"
  using le_int_less [of bs] s64_codec.dec_valid [of bs] by (cases f) auto

lemma struct_unpack_fits: "calcsize fs \<le> length bs \<Longrightarrow> list_all2 fits fs (struct_unpack fs bs)"
  by (induction fs arbitrary: bs) (auto simp: calcsize_def unpack_field_fits)

lemma struct_unpack_nth_fits:
  "calcsize fs \<le> length bs \<Longrightarrow> i < length fs \<Longrightarrow> fits (fs ! i) (struct_unpack fs bs ! i)"
  using struct_unpack_fits list_all2_nthD by blast

lemma fits_unsignedD: "fits f v \<Longrightarrow> f \<in> {U8, U16, U32, U64} \<Longrightarrow> 0 \<le> num v \<and> num v < 256 ^ fmt_size f"
  by (cases v) auto

lemma fits_RawD: "fits (Raw n) v \<Longrightarrow> length (raw v) = n"
  by (cases v) auto

lemma buffer_offset_Inr_iff:
  "0 \<le> off \<Longrightarrow> buffer_offset len sz off = Inr i \<longleftrightarrow> off + int sz \<le> int len \<and> i = nat off"
  by (auto simp: buffer_offset_def Let_def require_def)

lemma unpack_from_nonneg:
  assumes "0 \<le> off" and "off + int (calcsize fs) \<le> int (length data)"
  shows "unpack_from fs data off = Inr (struct_unpack fs (read_at data (nat off) (calcsize fs)))"
proof -
  have "(buffer_offset (length data) (calcsize fs) off :: ('a, nat) res) = Inr (nat off)"
    using assms by (subst buffer_offset_Inr_iff) auto
  then show ?thesis by (simp add: unpack_from_def read_at_def)
qed

lemma unpack_from_Inr_iff:
  "0 \<le> off \<Longrightarrow> unpack_from fs data off = Inr vs \<longleftrightarrow>
     off + int (calcsize fs) \<le> int (length data) \<and>
     vs = struct_unpack fs (read_at data (nat off) (calcsize fs))"
  by (auto simp: unpack_from_def bind_res_Inr_iff buffer_offset_Inr_iff read_at_def)

lemma unpack_from_length: "unpack_from fs data off = Inr vs \<Longrightarrow> length vs = length fs"
  by (auto simp: unpack_from_def bind_res_Inr_iff)

lemma unpack_from_fits:
  assumes "unpack_from fs data off = Inr vs" and "i < length fs"
  shows "fits (fs ! i) (vs ! i)"
proof -
  obtain k where "vs = struct_unpack fs (take (calcsize fs) (drop k data))"
    "k + calcsize fs \<le> length data"
    using assms(1)
    by (auto simp: unpack_from_def bind_res_Inr_iff buffer_offset_def Let_def require_Inr_iff)
  then show ?thesis using assms(2) by (simp add: struct_unpack_nth_fits)
qed

text \<open>The single 32-bit word at an offset, as the instruction readers use it.\<close>

definition word_at :: "bytes \<Rightarrow> nat \<Rightarrow> int" where
  "word_at img pc = le_int (read_at img pc 4)"

lemma word_at_bounds: "0 \<le> word_at img pc" "pc + 4 \<le> length img \<Longrightarrow> word_at img pc < 2 ^ 32"
  using le_int_less [of "read_at img pc 4"] by (auto simp: word_at_def read_at_def)

lemma unpack_u32:
  "0 \<le> off \<Longrightarrow> off + 4 \<le> int (length data) \<Longrightarrow>
   unpack_from [U32] data off = Inr [Num (word_at data (nat off))]"
  by (subst unpack_from_nonneg) (auto simp: calcsize_def word_at_def read_at_def)

end
