(* ===== verification/Elf_Image.thy ===== *)
theory Elf_Image
  imports Py_Struct
begin

text \<open>
  The input side of \<^verbatim>\<open>src/tools/pack_elf.py\<close>: the constants, \<open>align\<close>, \<open>signed\<close> and
  \<open>parse_elf\<close>, which accepts one kind of static AArch64 ELF file and returns its only
  segment together with the size of its text.  The theorems say what acceptance means: the
  returned image is an aligned, in-bounds part of the file, its text is a non-empty whole
  number of instructions at its start, and every retained relocation is already resolved to
  an address inside the image.
\<close>

unbundle bit_operations_syntax

section \<open>Constants and arithmetic\<close>

definition PAGE :: int where
  "PAGE = 16384"

definition LIMIT :: int where
  "LIMIT = 2 * 1024 * 1024"

datatype (plugins only: code) pack_msg =
    Truncated_ELF_structure
  | Expected_little_endian_ELF64
  | Expected_static_AArch64_ET_EXEC
  | M1_requires_one_static_image_segment
  | M1_requires_one_read_execute_PT_LOAD
  | Invalid_segment_bounds_or_BSS
  | Unsupported_entry_or_address_layout
  | Expected_16_KiB_aligned_image
  | Invalid_section_table
  | Invalid_section_names
  | Invalid_section_name_offset
  | Unterminated_section_name
  | Duplicate_section_name
  | Unsupported_section_type
  | Section_outside_file
  | Unsupported_allocated_section
  | Unexpected_allocated_permissions
  | Section_does_not_preserve_addressing
  | Invalid_section_alignment
  | Missing_text_or_constants
  | Expected_allocated_text_and_constants
  | Unsupported_text_entry_layout
  | Unsupported_constant_layout
  | Retain_relocations
  | Unsupported_relocation_table
  | Invalid_relocation_symbol_table
  | Invalid_symbol_table
  | Only_resolved_ADR_supported
  | Invalid_relocation_target
  | Undefined_relocation_symbol
  | Relocation_escapes_image
  | Mismatched_ADR_relocation
  | Text_must_end_in_branch
  | ADR_escapes_image
  | Unsupported_instruction int int
  | Reserved_register
  | Branch_escapes_text
  | No_SVC_sites
  | Veneer_out_of_range
  | Veneer_frame_size_mismatch
  | Insufficient_header_space
  | Input_exceeds_limit
  | Byte_out_of_range

definition align :: "int \<Rightarrow> int \<Rightarrow> int" where
  "align v alignment = (v + alignment - 1) AND (- alignment)"

definition signed_int :: "int \<Rightarrow> nat \<Rightarrow> int" where
  "signed_int v bits = (v XOR push_bit (bits - 1) 1) - push_bit (bits - 1) 1"

section \<open>Reading the file\<close>

definition elf_read :: "bytes \<Rightarrow> fmt list \<Rightarrow> int \<Rightarrow> (pack_msg, sval list) res" where
  "elf_read data fs offset =
     require (0 \<le> offset \<and> offset \<le> int (length data) - int (calcsize fs))
       (ValueError Truncated_ELF_structure) (unpack_from fs data offset)"

record ehdr =
  e_ident :: bytes
  e_kind :: int
  e_machine :: int
  e_version :: int
  e_entry :: int
  e_phoff :: int
  e_shoff :: int
  e_flags :: int
  e_ehsize :: int
  e_phsize :: int
  e_phnum :: int
  e_shsize :: int
  e_shnum :: int
  e_names_index :: int

record phdr =
  p_type :: int
  p_perms :: int
  p_offset :: int
  p_base :: int
  p_physical :: int
  p_size :: int
  p_memory :: int
  p_alignment :: int

record shdr =
  sh_nameoff :: int
  sh_type :: int
  sh_flags :: int
  sh_address :: int
  sh_fileoff :: int
  sh_length :: int
  sh_link :: int
  sh_target :: int
  sh_align :: int
  sh_entsize :: int

definition ehdr_fmt :: "fmt list" where
  "ehdr_fmt = [Raw 16, U16, U16, U32, U64, U64, U64, U32, U16, U16, U16, U16, U16, U16]"

definition phdr_fmt :: "fmt list" where
  "phdr_fmt = [U32, U32, U64, U64, U64, U64, U64, U64]"

definition shdr_fmt :: "fmt list" where
  "shdr_fmt = [U32, U32, U64, U64, U64, U64, U32, U32, U64, U64]"

definition ehdr_of :: "sval list \<Rightarrow> ehdr" where
  "ehdr_of vs = \<lparr>e_ident = raw (vs ! 0), e_kind = num (vs ! 1), e_machine = num (vs ! 2),
     e_version = num (vs ! 3), e_entry = num (vs ! 4), e_phoff = num (vs ! 5),
     e_shoff = num (vs ! 6), e_flags = num (vs ! 7), e_ehsize = num (vs ! 8),
     e_phsize = num (vs ! 9), e_phnum = num (vs ! 10), e_shsize = num (vs ! 11),
     e_shnum = num (vs ! 12), e_names_index = num (vs ! 13)\<rparr>"

definition phdr_of :: "sval list \<Rightarrow> phdr" where
  "phdr_of vs = \<lparr>p_type = num (vs ! 0), p_perms = num (vs ! 1), p_offset = num (vs ! 2),
     p_base = num (vs ! 3), p_physical = num (vs ! 4), p_size = num (vs ! 5),
     p_memory = num (vs ! 6), p_alignment = num (vs ! 7)\<rparr>"

definition shdr_of :: "sval list \<Rightarrow> shdr" where
  "shdr_of vs = \<lparr>sh_nameoff = num (vs ! 0), sh_type = num (vs ! 1), sh_flags = num (vs ! 2),
     sh_address = num (vs ! 3), sh_fileoff = num (vs ! 4), sh_length = num (vs ! 5),
     sh_link = num (vs ! 6), sh_target = num (vs ! 7), sh_align = num (vs ! 8),
     sh_entsize = num (vs ! 9)\<rparr>"

definition read_ehdr :: "bytes \<Rightarrow> (pack_msg, ehdr) res" where
  "read_ehdr data = bind_res (elf_read data ehdr_fmt 0) (\<lambda>vs. Inr (ehdr_of vs))"

definition read_phdr :: "bytes \<Rightarrow> int \<Rightarrow> (pack_msg, phdr) res" where
  "read_phdr data off = bind_res (elf_read data phdr_fmt off) (\<lambda>vs. Inr (phdr_of vs))"

definition read_shdr :: "bytes \<Rightarrow> int \<Rightarrow> (pack_msg, shdr) res" where
  "read_shdr data off = bind_res (elf_read data shdr_fmt off) (\<lambda>vs. Inr (shdr_of vs))"

definition read_sections :: "bytes \<Rightarrow> ehdr \<Rightarrow> (pack_msg, shdr list) res" where
  "read_sections data h =
     mapM (\<lambda>index. read_shdr data (e_shoff h + index * 64)) (py_range 0 (e_shnum h) 1)"

text \<open>\<^verbatim>\<open>bytes.find\<close> of one byte from a non-negative start, and \<^verbatim>\<open>decode("ascii")\<close>.\<close>

definition bytes_find :: "byte \<Rightarrow> bytes \<Rightarrow> int \<Rightarrow> int" where
  "bytes_find b bs start =
     (let ys = drop (nat start) bs; n = length (takeWhile (\<lambda>y. y \<noteq> b) ys)
      in if n < length ys then start + int n else - 1)"

definition decode_ascii :: "bytes \<Rightarrow> ('m, string) res" where
  "decode_ascii bs =
     require (list_all (\<lambda>b. uint b < 128) bs) UnicodeError (Inr (map (\<lambda>b. char_of (nat (uint b))) bs))"

type_synonym by_name = "(string \<times> int \<times> shdr) list"

section \<open>Validation\<close>

text \<open>An allocated section must be the text or the constants, in place within the segment.\<close>

definition check_allocated :: "phdr \<Rightarrow> string \<Rightarrow> shdr \<Rightarrow> (pack_msg, unit) res" where
  "check_allocated p name s =
     (if sh_flags s AND 2 \<noteq> 0 then
        require (name \<in> {''.text'', ''.rodata''} \<and> sh_type s = 1)
          (ValueError Unsupported_allocated_section)
       (require (sh_flags s = (if name = ''.text'' then 6 else 2))
          (ValueError Unexpected_allocated_permissions)
       (require (p_base p \<le> sh_address s \<and> sh_address s \<le> p_base p + p_size p - sh_length s \<and>
                 sh_fileoff s - p_offset p = sh_address s - p_base p)
          (ValueError Section_does_not_preserve_addressing) (Inr ())))
      else Inr ())"

text \<open>One iteration of the section loop; \<open>strings\<close> is the section name table.\<close>

definition parse_section ::
  "bytes \<Rightarrow> phdr \<Rightarrow> bytes \<Rightarrow> by_name \<Rightarrow> int \<times> shdr \<Rightarrow> (pack_msg, by_name) res" where
  "parse_section data p strings by_name isec =
     (case isec of (index, s) \<Rightarrow>
      require (sh_nameoff s < int (length strings)) (ValueError Invalid_section_name_offset)
     (let stop = bytes_find 0 strings (sh_nameoff s) in
      require (0 \<le> stop) (ValueError Unterminated_section_name)
     (bind_res (decode_ascii (py_slice strings (sh_nameoff s) stop)) (\<lambda>name.
      require (name \<notin> set (dict_keys by_name)) (ValueError Duplicate_section_name)
     (require (sh_type s \<in> {0, 1, 2, 3, 4}) (ValueError Unsupported_section_type)
     (require (sh_fileoff s \<le> int (length data) - sh_length s) (ValueError Section_outside_file)
     (bind_res (check_allocated p name s) (\<lambda>_.
      require (sh_align s = 0 \<or> sh_align s AND (sh_align s - 1) = 0)
        (ValueError Invalid_section_alignment)
     (Inr (dict_set by_name name (index, s)))))))))))"

definition adr_immediate :: "int \<Rightarrow> int" where
  "adr_immediate w = push_bit 2 (drop_bit 5 w AND 0x7ffff) OR (drop_bit 29 w AND 3)"

text \<open>The body of the relocation loop for the entry at \<open>pos\<close>.\<close>

definition check_relocation ::
  "bytes \<Rightarrow> ehdr \<Rightarrow> phdr \<Rightarrow> shdr \<Rightarrow> shdr \<Rightarrow> int \<Rightarrow> (pack_msg, unit) res" where
  "check_relocation data h p text symbols pos =
     bind_res (elf_read data [U64, U64, S64] pos) (\<lambda>r.
     let address = num (r ! 0); info = num (r ! 1); addend = num (r ! 2) in
     require (info AND 0xffffffff = 274 \<and> drop_bit 32 info < sh_length symbols div 24)
       (ValueError Only_resolved_ADR_supported)
    (require (e_entry h \<le> address \<and> address \<le> e_entry h + sh_length text - 4 \<and> address mod 4 = 0)
       (ValueError Invalid_relocation_target)
    (bind_res (elf_read data [U32, U8, U8, U16, U64, U64] (sh_fileoff symbols + drop_bit 32 info * 24))
     (\<lambda>symbol.
     require (0 < num (symbol ! 3) \<and> num (symbol ! 3) < e_shnum h)
       (ValueError Undefined_relocation_symbol)
    (let target = num (symbol ! 4) + addend in
     require (p_base p \<le> target \<and> target < p_base p + p_size p) (ValueError Relocation_escapes_image)
    (bind_res (elf_read data [U32] (p_offset p + address - p_base p)) (\<lambda>ws.
     let w = num (ws ! 0); displacement = signed_int (adr_immediate w) 21 in
     require (w AND 0x9f000000 = 0x10000000 \<and> address + displacement = target)
       (ValueError Mismatched_ADR_relocation) (Inr ()))))))))"

text \<open>The loop over the relocation sections, in the order of the section table.\<close>

definition check_relocation_section ::
  "bytes \<Rightarrow> ehdr \<Rightarrow> phdr \<Rightarrow> shdr list \<Rightarrow> int \<Rightarrow> shdr \<Rightarrow> string \<times> int \<times> shdr \<Rightarrow> (pack_msg, unit) res"
where
  "check_relocation_section data h p sections text_index text entry =
     (case entry of (name, _, s) \<Rightarrow>
      if sh_type s \<noteq> 4 then Inr () else
      require (name = ''.rela.text'' \<and> sh_target s = text_index \<and> sh_entsize s = 24 \<and>
               sh_length s mod 24 = 0) (ValueError Unsupported_relocation_table)
     (require (sh_link s < e_shnum h) (ValueError Invalid_relocation_symbol_table)
     (let symbols = sections ! nat (sh_link s) in
      require (sh_type symbols = 2 \<and> sh_entsize symbols = 24 \<and> sh_length symbols mod 24 = 0)
        (ValueError Invalid_symbol_table)
     (foldM (\<lambda>_. check_relocation data h p text symbols) ()
        (py_range (sh_fileoff s) (sh_fileoff s + sh_length s) 24)))))"

definition parse_elf :: "bytes \<Rightarrow> (pack_msg, bytes \<times> int) res" where
  "parse_elf data =
     bind_res (read_ehdr data) (\<lambda>h.
     require (py_slice (e_ident h) 0 7 = [0x7f, 0x45, 0x4c, 0x46, 2, 1, 1] \<and> e_ident h ! 7 \<in> {0, 3})
       (ValueError Expected_little_endian_ELF64)
    (require (e_kind h = 2 \<and> e_machine h = 183 \<and> e_version h = 1 \<and> e_flags h = 0 \<and> e_ehsize h = 64)
       (ValueError Expected_static_AArch64_ET_EXEC)
    (require (e_phsize h = 56 \<and> e_phnum h = 1 \<and> e_phoff h \<ge> 64)
       (ValueError M1_requires_one_static_image_segment)
    (bind_res (read_phdr data (e_phoff h)) (\<lambda>p.
     require (p_type p = 1 \<and> p_perms p = 5) (ValueError M1_requires_one_read_execute_PT_LOAD)
    (require (0 < p_size p \<and> p_size p = p_memory p \<and> p_memory p \<le> LIMIT div 2 \<and>
              p_offset p \<le> int (length data) - p_size p)
       (ValueError Invalid_segment_bounds_or_BSS)
    (require (p_base p = e_entry h \<and> p_base p + p_size p \<le> push_bit 64 1 \<and> p_physical p = p_base p)
       (ValueError Unsupported_entry_or_address_layout)
    (require (p_alignment p = PAGE \<and> p_base p mod PAGE = p_offset p mod PAGE \<and> p_offset p mod PAGE = 0)
       (ValueError Expected_16_KiB_aligned_image)
    (require (e_shsize h = 64 \<and> 0 < e_shnum h \<and> e_shnum h \<le> 64 \<and> 0 < e_names_index h \<and>
              e_names_index h < e_shnum h \<and> e_shoff h \<ge> 64)
       (ValueError Invalid_section_table)
    (bind_res (read_sections data h) (\<lambda>sections.
     let names = sections ! nat (e_names_index h) in
     require (sh_type names = 3 \<and> sh_fileoff names \<le> int (length data) - sh_length names)
       (ValueError Invalid_section_names)
    (let strings = py_slice data (sh_fileoff names) (sh_fileoff names + sh_length names) in
     bind_res (foldM (parse_section data p strings) [] (zip (py_range 0 (e_shnum h) 1) sections))
     (\<lambda>by_name.
     require (''.text'' \<in> set (dict_keys by_name) \<and> ''.rodata'' \<in> set (dict_keys by_name))
       (ValueError Missing_text_or_constants)
    (bind_res (dict_get by_name ''.text'') (\<lambda>(text_index, text).
     bind_res (dict_get by_name ''.rodata'') (\<lambda>(_, rodata).
     require (sh_flags text = 6 \<and> sh_flags rodata = 2)
       (ValueError Expected_allocated_text_and_constants)
    (require (sh_address text = e_entry h \<and> sh_fileoff text = p_offset p \<and>
              sh_length text mod 4 = 0 \<and> sh_length text > 0)
       (ValueError Unsupported_text_entry_layout)
    (require (sh_address rodata \<ge> sh_address text + sh_length text \<and>
              sh_address rodata + sh_length rodata = p_base p + p_size p)
       (ValueError Unsupported_constant_layout)
    (require (''.rela.text'' \<in> set (dict_keys by_name)) (ValueError Retain_relocations)
    (bind_res (foldM (\<lambda>_. check_relocation_section data h p sections text_index text) () by_name) (\<lambda>_.
     Inr (py_slice data (p_offset p) (p_offset p + p_size p), sh_length text))))))))))))))))))))))"

section \<open>Arithmetic of \<open>align\<close> and \<open>signed\<close>\<close>


lemma and_minus_pow2: "(x :: int) AND - (2 ^ k) = x - x mod 2 ^ k"
proof -
  have "x AND NOT (mask k) = push_bit k (drop_bit k x)"
    by (rule bit_eqI) (auto simp: bit_simps)
  then show ?thesis
    by (simp add: minus_exp_eq_not_mask push_bit_eq_mult drop_bit_eq_div minus_mod_eq_div_mult)
qed

lemma align_pow2: "align v (2 ^ k) = (v + 2 ^ k - 1) div 2 ^ k * 2 ^ k"
  unfolding align_def by (subst and_minus_pow2) (simp add: minus_mod_eq_div_mult)

lemma align_bounds: "v \<le> align v (2 ^ k)" "align v (2 ^ k) < v + 2 ^ k"
proof -
  define r where "r = (v + 2 ^ k - 1) mod 2 ^ k"
  have "r < 2 ^ k" "0 \<le> r" by (simp_all add: r_def)
  moreover have "align v (2 ^ k) = v + 2 ^ k - 1 - r"
    by (simp add: align_pow2 minus_mod_eq_div_mult [symmetric] r_def)
  ultimately show "v \<le> align v (2 ^ k)" "align v (2 ^ k) < v + 2 ^ k"
    by linarith+
qed

lemma align_dvd: "2 ^ k dvd align v (2 ^ k)"
  by (simp add: align_pow2)

lemma align_id:
  assumes "2 ^ k dvd v"
  shows "align v (2 ^ k) = v"
proof -
  obtain m where m: "v = 2 ^ k * m" using assms by (rule dvdE)
  have "(2 ^ k * m + (2 ^ k - 1)) div 2 ^ k = m + (2 ^ k - 1) div 2 ^ k"
    by (rule div_mult_self4) simp
  then have "(2 ^ k * m + 2 ^ k - 1) div 2 ^ k = m" by (simp add: algebra_simps)
  then show ?thesis by (simp add: align_pow2 m)
qed

lemma bit_top_iff:
  assumes "0 \<le> (v :: int)" and "v < 2 ^ Suc n"
  shows "bit v n \<longleftrightarrow> 2 ^ n \<le> v"
proof (cases "2 ^ n \<le> v")
  case True
  then have "v div 2 ^ n = 1" using assms by (intro div_pos_geq [THEN trans]) (auto simp: div_pos_geq)
  then show ?thesis using True by (simp add: bit_iff_odd)
next
  case False
  then show ?thesis using assms by (simp add: bit_iff_odd)
qed

lemma signed_int_eq:
  assumes "0 \<le> v" and "v < 2 ^ bits" and "0 < bits"
  shows "signed_int v bits = to_signed bits v"
proof -
  have p: "(2::int) ^ bits = 2 * 2 ^ (bits - 1)"
    using assms(3) by (cases bits) auto
  have "signed_int v bits = flip_bit (bits - 1) v - 2 ^ (bits - 1)"
    by (simp add: signed_int_def flip_bit_eq_xor push_bit_eq_mult)
  then show ?thesis
    using assms p bit_top_iff [of v "bits - 1"]
    by (auto simp: flip_bit_eq_if set_bit_eq unset_bit_eq to_signed_def not_le)
qed

lemma parse_elf_InrE:
  assumes "parse_elf data = Inr (img, n)"
  obtains h p sections by_name ti tsec ri rsec where
    "read_ehdr data = Inr h" "read_phdr data (e_phoff h) = Inr p"
    "0 < p_size p" "p_size p \<le> LIMIT div 2" "p_offset p \<le> int (length data) - p_size p"
    "p_perms p = 5" "p_base p = e_entry h" "p_base p mod PAGE = 0" "p_offset p mod PAGE = 0"
    "read_sections data h = Inr sections" "e_shnum h \<le> 64" 
    "foldM (parse_section data p (py_slice data (sh_fileoff (sections ! nat (e_names_index h)))
        (sh_fileoff (sections ! nat (e_names_index h)) + sh_length (sections ! nat (e_names_index h)))))
        [] (zip (py_range 0 (e_shnum h) 1) sections) = Inr by_name"
    "map_of by_name ''.text'' = Some (ti, tsec)"
    "map_of by_name ''.rodata'' = Some (ri, rsec)"
    "sh_flags tsec = 6" "sh_flags rsec = 2"
    "sh_address tsec = e_entry h" "sh_fileoff tsec = p_offset p" "sh_length tsec mod 4 = 0"
    "0 < sh_length tsec" "sh_address tsec + sh_length tsec \<le> sh_address rsec"
    "sh_address rsec + sh_length rsec = p_base p + p_size p"
    "foldM (\<lambda>_. check_relocation_section data h p sections ti tsec) () by_name = Inr ()"
    "img = py_slice data (p_offset p) (p_offset p + p_size p)" "n = sh_length tsec"
  using assms unfolding parse_elf_def Let_def
  apply (simp only: res_simps split_paired_Ex prod.case prod.inject sum.inject)
  apply (elim exE conjE)
  apply (rule that; (assumption | erule sym | erule (1) trans | erule (1) ord_eq_le_trans | (erule trans, simp (no_asm))))
  done

section \<open>Fields are in range\<close>

lemma elf_read_Inr_iff:
  "elf_read data fs off = Inr vs \<longleftrightarrow> 0 \<le> off \<and> off + int (calcsize fs) \<le> int (length data) \<and>
     vs = struct_unpack fs (read_at data (nat off) (calcsize fs))"
  using unpack_from_Inr_iff [of off fs data vs, where 'a = pack_msg]
  by (auto simp: elf_read_def require_Inr_iff)

lemma elf_read_num:
  assumes "elf_read data fs off = Inr vs" and "i < length fs" and "fs ! i \<in> {U8, U16, U32, U64}"
  shows "0 \<le> num (vs ! i)"
proof -
  have "(unpack_from fs data off :: (pack_msg, sval list) res) = Inr vs"
    using assms(1) by (simp add: elf_read_def require_Inr_iff)
  then show ?thesis using unpack_from_fits fits_unsignedD assms(2,3) by blast
qed

lemma read_phdr_nonneg:
  assumes "read_phdr data off = Inr p"
  shows "0 \<le> p_offset p" "0 \<le> p_base p" "0 \<le> p_size p"
  using assms elf_read_num [of data phdr_fmt off]
  by (auto simp: read_phdr_def phdr_of_def phdr_fmt_def bind_res_Inr_iff)

lemma read_shdr_nonneg:
  assumes "read_shdr data off = Inr s"
  shows "0 \<le> sh_nameoff s" "0 \<le> sh_address s" "0 \<le> sh_fileoff s" "0 \<le> sh_length s" "0 \<le> sh_link s"
  using assms elf_read_num [of data shdr_fmt off]
  by (auto simp: read_shdr_def shdr_of_def shdr_fmt_def bind_res_Inr_iff)

lemma read_sections_nonneg:
  assumes "read_sections data h = Inr ss" and "s \<in> set ss"
  shows "0 \<le> sh_length s" "0 \<le> sh_fileoff s" "0 \<le> sh_link s"
proof -
  obtain i where i: "i < length ss" "s = ss ! i" using assms(2) by (auto simp: in_set_conv_nth)
  then have "read_shdr data (e_shoff h + py_range 0 (e_shnum h) 1 ! i * 64) = Inr s"
    using assms(1) unfolding read_sections_def by (metis mapM_length mapM_nth)
  then show "0 \<le> sh_length s" "0 \<le> sh_fileoff s" "0 \<le> sh_link s"
    by (auto dest: read_shdr_nonneg)
qed

section \<open>The section table\<close>

lemma check_allocated_Inr_iff:
  "check_allocated p name s = Inr u \<longleftrightarrow>
     (sh_flags s AND 2 \<noteq> 0 \<longrightarrow> name \<in> {''.text'', ''.rodata''} \<and> sh_type s = 1 \<and>
        sh_flags s = (if name = ''.text'' then 6 else 2) \<and> p_base p \<le> sh_address s \<and>
        sh_address s + sh_length s \<le> p_base p + p_size p \<and>
        sh_fileoff s - p_offset p = sh_address s - p_base p)"
  by (simp add: check_allocated_def require_Inr_iff le_diff_eq)

lemma parse_section_InrE:
  assumes "parse_section data p strings bn (i, s) = Inr bn'"
  obtains name where "name \<notin> set (dict_keys bn)" "bn' = bn @ [(name, i, s)]"
    "sh_fileoff s \<le> int (length data) - sh_length s" "check_allocated p name s = Inr ()"
  using assms unfolding parse_section_def Let_def prod.case
  by (simp only: res_simps sum.inject, elim exE conjE)
    (rule that, assumption, metis dict_set_fresh, assumption, simp)

lemma parse_sections_Inr:
  assumes "foldM (parse_section data p strings) bn xs = Inr bn'"
  shows "map snd bn' = map snd bn @ xs" and "distinct (dict_keys bn) \<Longrightarrow> distinct (dict_keys bn')"
proof -
  have "map snd bn' = map snd bn @ xs \<and> (distinct (dict_keys bn) \<longrightarrow> distinct (dict_keys bn'))"
    using assms
  proof (induction xs arbitrary: bn)
    case (Cons x xs)
    obtain i s where "x = (i, s)" by (cases x)
    moreover obtain bn1 where "parse_section data p strings bn x = Inr bn1"
      "foldM (parse_section data p strings) bn1 xs = Inr bn'"
      using Cons.prems by (auto simp: bind_res_Inr_iff)
    ultimately show ?case using Cons.IH [of bn1] by (auto elim!: parse_section_InrE)
  qed simp
  then show "map snd bn' = map snd bn @ xs"
    "distinct (dict_keys bn) \<Longrightarrow> distinct (dict_keys bn')" by blast+
qed

lemma by_name_sections:
  assumes "foldM (parse_section data p strings) [] (zip (py_range 0 k 1) ss) = Inr bn"
    and "map_of bn name = Some (i, s)"
  shows "s \<in> set ss"
proof -
  have "(i, s) \<in> set (zip (py_range 0 k 1) ss)"
    using parse_sections_Inr(1) [OF assms(1)] map_of_SomeD [OF assms(2)]
    by (metis append_Nil imageI list.map(1) list.set_map snd_conv)
  then show ?thesis by (rule set_zip_rightD)
qed

lemma length_py_range1: "0 \<le> k \<Longrightarrow> length (py_range 0 k 1) = nat k"
  by (simp add: py_range_def)

lemma read_sections_length: "read_sections data h = Inr ss \<Longrightarrow> 0 \<le> e_shnum h \<Longrightarrow> length ss = nat (e_shnum h)"
  by (auto simp: read_sections_def length_py_range1 dest: mapM_length)

section \<open>What acceptance means\<close>

lemma parse_elf_slice:
  assumes "parse_elf data = Inr (img, n)"
  obtains h p where "read_ehdr data = Inr h" "read_phdr data (e_phoff h) = Inr p"
    "0 \<le> p_offset p" "PAGE dvd p_offset p" "p_offset p + p_size p \<le> int (length data)"
    "img = py_slice data (p_offset p) (p_offset p + p_size p)" "int (length img) = p_size p"
    "0 < p_size p" "p_size p \<le> LIMIT div 2" "0 < n" "4 dvd n" "n \<le> int (length img)"
    "e_entry h = p_base p"
  using assms
proof (cases rule: parse_elf_InrE)
  case (1 h p ss bn ti tsec ri rsec)
  have off: "0 \<le> p_offset p" using read_phdr_nonneg [OF 1(2)] by simp
  have len: "int (length img) = p_size p"
    using 1(3,5,24) off by (simp add: py_slice_length)
  have "0 \<le> sh_length rsec"
    using read_sections_nonneg [OF 1(10) by_name_sections [OF 1(12,14)]] by simp
  then have "n \<le> int (length img)" using 1 len by linarith
  then show ?thesis using 1 off len by (intro that [of h p]) auto
qed

text \<open>
  C6. What acceptance by \<^verbatim>\<open>parse_elf\<close> means: the returned image is
  the load segment, a page-aligned in-bounds part of the file of at most LIMIT/2 bytes,
  entered at its base, and the text size is a positive multiple of four that does not exceed
  it.
\<close>

theorem parse_elf_image:
  assumes "parse_elf data = Inr (img, n)"
  shows "\<exists>h p. read_ehdr data = Inr h \<and> read_phdr data (e_phoff h) = Inr p \<and>
     e_entry h = p_base p \<and> PAGE dvd p_offset p \<and>
     0 \<le> p_offset p \<and> p_offset p + p_size p \<le> int (length data) \<and>
     img = take (nat (p_size p)) (drop (nat (p_offset p)) data) \<and> int (length img) = p_size p \<and>
     0 < p_size p \<and> p_size p \<le> LIMIT div 2 \<and> 0 < n \<and> 4 dvd n \<and> n \<le> p_size p"
  using assms
proof (cases rule: parse_elf_slice)
  case (1 h p)
  then have "img = take (nat (p_size p)) (drop (nat (p_offset p)) data)"
    by (simp add: py_slice_nonneg nat_add_distrib drop_take)
  then show ?thesis using 1 by (intro exI [of _ h] exI [of _ p]) auto
qed

section \<open>Relocations are resolved\<close>

lemma read_at_py_slice:
  assumes "0 \<le> a" and "a \<le> b" and "b \<le> int (length data)" and "i + k \<le> nat (b - a)"
  shows "read_at (py_slice data a b) i k = read_at data (nat a + i) k"
proof -
  have "k \<le> nat b - nat a - i" using assms by linarith
  then show ?thesis
    using assms by (simp add: py_slice_nonneg read_at_def drop_take add.commute)
qed

lemma check_relocation_InrE:
  assumes "check_relocation data h p tsec symbols pos = Inr u"
  obtains r symbol w where "elf_read data [U64, U64, S64] pos = Inr r"
    "e_entry h \<le> num (r ! 0)" "num (r ! 0) \<le> e_entry h + sh_length tsec - 4" "num (r ! 0) mod 4 = 0"
    "elf_read data [U32, U8, U8, U16, U64, U64] (sh_fileoff symbols + drop_bit 32 (num (r ! 1)) * 24) = Inr symbol"
    "p_base p \<le> num (symbol ! 4) + num (r ! 2)" "num (symbol ! 4) + num (r ! 2) < p_base p + p_size p"
    "elf_read data [U32] (p_offset p + num (r ! 0) - p_base p) = Inr w"
    "num (w ! 0) AND 0x9f000000 = 0x10000000"
    "num (r ! 0) + signed_int (adr_immediate (num (w ! 0))) 21 = num (symbol ! 4) + num (r ! 2)"
  using assms unfolding check_relocation_def Let_def
  by (simp only: res_simps, elim exE conjE) (rule that; assumption)

lemma check_relocation_section_each:
  assumes "check_relocation_section data h p ss ti tsec (name, i, s) = Inr u" and "sh_type s = 4"
    and "pos \<in> set (py_range (sh_fileoff s) (sh_fileoff s + sh_length s) 24)"
  shows "check_relocation data h p tsec (ss ! nat (sh_link s)) pos = Inr ()"
  using assms by (simp add: check_relocation_section_def Let_def res_simps foldM_unit_nonempty_iff)

text \<open>
  C7. Every retained relocation of an accepted file is already resolved: the word at its
  place in the image is an ADR inside the text whose displacement leads to the symbol plus
  addend, an address inside the image.
\<close>

theorem parse_elf_relocations:
  assumes "parse_elf data = Inr (img, n)" and h: "read_ehdr data = Inr h"
    and p: "read_phdr data (e_phoff h) = Inr p" and ss: "read_sections data h = Inr ss"
    and s: "s \<in> set ss" "sh_type s = 4"
    and pos: "pos \<in> set (py_range (sh_fileoff s) (sh_fileoff s + sh_length s) 24)"
  shows "\<exists>r symbol. elf_read data [U64, U64, S64] pos = Inr r \<and>
    elf_read data [U32, U8, U8, U16, U64, U64]
      (sh_fileoff (ss ! nat (sh_link s)) + drop_bit 32 (num (r ! 1)) * 24) = Inr symbol \<and>
    (let pc = num (r ! 0) - p_base p; target = num (symbol ! 4) + num (r ! 2) - p_base p;
         w = word_at img (nat pc)
     in 0 \<le> pc \<and> pc + 4 \<le> n \<and> 4 dvd pc \<and> w AND 0x9f000000 = 0x10000000 \<and>
        pc + signed_int (adr_immediate w) 21 = target \<and> 0 \<le> target \<and> target < int (length img))"
  using assms(1)
proof (cases rule: parse_elf_InrE)
  case (1 h' p' ss' bn ti tsec ri rsec)
  have eqs: "h' = h" "p' = p" "ss' = ss" using 1(1,2,10) h p ss by simp_all
  have off: "0 \<le> p_offset p" using read_phdr_nonneg [OF p] by simp
  have len: "int (length img) = p_size p" using 1(3,5,24) eqs off by (simp add: py_slice_length)
  have n: "n \<le> int (length img)" using assms(1) by (cases rule: parse_elf_slice)
  have "length ss = length (py_range 0 (e_shnum h) 1)"
    using mapM_length ss unfolding read_sections_def by blast
  then obtain i where "(i, s) \<in> set (zip (py_range 0 (e_shnum h) 1) ss)"
    using s(1) by (metis in_set_impl_in_set_zip2)
  then have "(i, s) \<in> snd ` set bn"
    using parse_sections_Inr(1) [OF 1(12)] eqs by (metis append_Nil list.map(1) list.set_map)
  then obtain name where "(name, i, s) \<in> set bn" by auto
  then have "check_relocation data h p tsec (ss ! nat (sh_link s)) pos = Inr ()"
    using 1(23) eqs s(2) pos
    by (auto simp: foldM_unit_nonempty_iff intro: check_relocation_section_each)
  then show ?thesis
  proof (cases rule: check_relocation_InrE)
    case r: (1 r symbol w)
    define pc where "pc = num (r ! 0) - p_base p"
    have pc: "0 \<le> pc" "pc + 4 \<le> n" using r(2,3) 1(7,25) eqs by (simp_all add: pc_def)
    have "p_base p mod 4 = 0" using 1(8) eqs by (auto simp: PAGE_def)
    then have "4 dvd pc" using r(4) by (auto simp: pc_def dvd_diff)
    have "num (w ! 0) = word_at data (nat (p_offset p + pc))"
      using r(8) by (auto simp: elf_read_Inr_iff calcsize_def word_at_def read_at_def pc_def add_diff_eq)
    also have "\<dots> = word_at img (nat pc)"
      unfolding word_at_def 1(24) using pc n len off 1(5) eqs
      by (subst read_at_py_slice) (auto simp: nat_add_distrib)
    finally have w: "num (w ! 0) = word_at img (nat pc)" .
    show ?thesis
      using r pc \<open>4 dvd pc\<close> w len
      by (intro exI [of _ r] exI [of _ symbol]) (auto simp: Let_def pc_def)
  qed
qed

end
