(* ===== verification/Guest_Text.thy ===== *)
theory Guest_Text
  imports Elf_Image
begin

text \<open>
  The rewriting half of \<^verbatim>\<open>src/tools/pack_elf.py\<close>: \<open>inspect_text\<close> admits a small set of
  AArch64 instructions and collects the offsets of \<^verbatim>\<open>SVC #0\<close>, \<open>branch\<close> and \<open>veneer\<close> encode
  the code that replaces one, and \<open>transformed\<close> appends a veneer per site and patches it.
\<close>

unbundle bit_operations_syntax

section \<open>Inspection\<close>

text \<open>
  What the chain of mask tests finds for one word: the registers it names, its branch target
  and whether it is a system call.  \<open>immediate\<close> arithmetic is Python's on unbounded integers.
\<close>

definition field :: "int \<Rightarrow> nat \<Rightarrow> int \<Rightarrow> int" where
  "field w shift mask_value = drop_bit shift w AND mask_value"

definition inspect_word ::
  "int \<Rightarrow> int \<Rightarrow> int \<Rightarrow> (pack_msg, int list \<times> int option \<times> bool) res" where
  "inspect_word image_len pc w =
    (if w = 0xd4000001 then Inr ([], None, True)
     else if w = 0xd503201f then Inr ([], None, False)
     else if w AND 0xff800000 \<in> {0xd2800000, 0x92800000} then Inr ([w AND 31], None, False)
     else if w AND 0xffe0ffe0 = 0xaa0003e0 then Inr ([w AND 31, field w 16 31], None, False)
     else if w AND 0xffc0001f = 0xf100001f then Inr ([field w 5 31], None, False)
     else if w AND 0xffe0fc1f = 0xeb00001f then Inr ([field w 5 31, field w 16 31], None, False)
     else if w AND 0x9f000000 = 0x10000000 then
       require (0 \<le> pc + signed_int (adr_immediate w) 21 \<and>
                pc + signed_int (adr_immediate w) 21 < image_len)
         (ValueError ADR_escapes_image) (Inr ([w AND 31], None, False))
     else if w AND 0xfc000000 = 0x14000000 then
       Inr ([], Some (pc + signed_int (w AND 0x3ffffff) 26 * 4), False)
     else if w AND 0xff000010 = 0x54000000 then
       Inr ([], Some (pc + signed_int (field w 5 0x7ffff) 19 * 4), False)
     else if w AND 0x7e000000 = 0x34000000 then
       Inr ([w AND 31], Some (pc + signed_int (field w 5 0x7ffff) 19 * 4), False)
     else if w AND 0xffc00000 \<in> {0xf9400000, 0xf9000000} then
       Inr ([w AND 31, field w 5 31], None, False)
     else Inl (ValueError (Unsupported_instruction w pc)))"

text \<open>The loop body, with the list of sites found so far.\<close>

definition inspect_step :: "bytes \<Rightarrow> int \<Rightarrow> int list \<Rightarrow> int \<Rightarrow> (pack_msg, int list) res" where
  "inspect_step img text_size sites pc =
     bind_res (unpack_from [U32] img pc) (\<lambda>ws.
     bind_res (inspect_word (int (length img)) pc (num (ws ! 0))) (\<lambda>(registers, target, svc).
     require (set registers \<inter> {18, 27, 28} = {}) (ValueError Reserved_register)
    (require (case target of None \<Rightarrow> True | Some t \<Rightarrow> 0 \<le> t \<and> t < text_size)
       (ValueError Branch_escapes_text)
    (Inr (if svc then sites @ [pc] else sites)))))"

definition inspect_text :: "bytes \<Rightarrow> int \<Rightarrow> (pack_msg, int list) res" where
  "inspect_text img text_size =
     bind_res (unpack_from [U32] img (text_size - 4)) (\<lambda>ws.
     require (num (ws ! 0) AND 0xfc000000 = 0x14000000) (ValueError Text_must_end_in_branch)
    (bind_res (foldM (inspect_step img text_size) [] (py_range 0 text_size 4)) (\<lambda>sites.
     require (sites \<noteq> []) (ValueError No_SVC_sites) (Inr sites))))"

section \<open>Rewriting\<close>

definition branch :: "int \<Rightarrow> int \<Rightarrow> (pack_msg, int) res" where
  "branch source target =
     (let distance = target - source in
      require (distance mod 4 = 0 \<and> - push_bit 27 1 \<le> distance \<and> distance < push_bit 27 1)
        (ValueError Veneer_out_of_range) (Inr (0x14000000 OR (distance div 4 AND 0x3ffffff))))"

definition veneer_pairs :: "(int \<times> int) list" where
  "veneer_pairs = map (\<lambda>reg. (reg, reg + 1)) (py_range 1 17 2) @ [(17, 30)]"

definition veneer_save :: "int \<times> int \<times> int \<Rightarrow> int" where
  "veneer_save entry =
     (case entry of (index, first, second) \<Rightarrow>
      (let base = (if index = 0 then 0xa9800000 else 0xa9000000);
           immediate = (if index = 0 then - 160 div 8 AND 127 else index * 2)
       in base OR push_bit 15 immediate OR push_bit 10 second OR push_bit 5 31 OR first))"

definition veneer_restore :: "int \<times> int \<times> int \<Rightarrow> int" where
  "veneer_restore entry =
     (case entry of (index, first, second) \<Rightarrow>
      0xa9400000 OR push_bit 15 (index * 2) OR push_bit 10 second OR push_bit 5 31 OR first)"

text \<open>The words of a veneer before the final branch back.\<close>

definition veneer_body :: "int list" where
  "veneer_body =
     (let pairs = zip (py_range 0 9 1) veneer_pairs in
      map veneer_save pairs @ [0xd53b4209, 0xf9004be9] @
      map (\<lambda>(destination, source). 0xaa0003e0 OR push_bit 16 source OR destination)
        [(7, 5), (6, 4), (5, 3), (4, 2), (3, 1), (2, 0), (1, 8), (0, 27)] @
      [0xd63f0380, 0xf9404be9, 0xd51b4209] @
      map veneer_restore (tl pairs) @
      [0xa8c00000 OR push_bit 15 20 OR push_bit 10 2 OR push_bit 5 31 OR 1])"

definition veneer :: "int \<Rightarrow> int \<Rightarrow> (pack_msg, bytes) res" where
  "veneer address resume =
     bind_res (branch (address + int (length veneer_body) * 4) resume) (\<lambda>b.
     let words = veneer_body @ [b] in
     require (length words = 32) (ValueError Veneer_frame_size_mismatch)
       (struct_pack (replicate 32 U32) (map Num words)))"

definition transform_step :: "bytes \<Rightarrow> int \<Rightarrow> (pack_msg, bytes) res" where
  "transform_step payload site =
     (let address = int (length payload) in
      bind_res (veneer address (site + 4)) (\<lambda>v.
      bind_res (branch site address) (\<lambda>b.
      pack_into [U32] (payload @ v) site [Num b])))"

definition transformed :: "bytes \<Rightarrow> int \<Rightarrow> (pack_msg, bytes \<times> int list) res" where
  "transformed img text_size =
     bind_res (inspect_text img text_size) (\<lambda>sites.
     bind_res (foldM transform_step
         (img @ replicate (nat (align (int (length img)) 4 - int (length img))) 0) sites)
       (\<lambda>payload. Inr (payload, sites)))"

section \<open>Branch encoding\<close>

lemma and_mask26: "x AND 0x3ffffff = x mod 2 ^ 26" for x :: int
  using take_bit_eq_mask [of 26 x] by (simp add: mask_eq_exp_minus_1 take_bit_eq_mod)

lemma branch_Inr_iff:
  "branch s t = Inr b \<longleftrightarrow> 4 dvd t - s \<and> - (2 ^ 27) \<le> t - s \<and> t - s < 2 ^ 27 \<and>
     b = 0x14000000 OR ((t - s) div 4 AND 0x3ffffff)"
  by (auto simp: branch_def Let_def require_Inr_iff push_bit_eq_mult)

lemma branch_opcode: "branch s t = Inr b \<Longrightarrow> b AND 0xfc000000 = 0x14000000"
  by (simp add: branch_Inr_iff bit.conj_disj_distrib2 and.assoc)

lemma branch_range:
  assumes "branch s t = Inr b"
  shows "0 \<le> b" "b < 2 ^ 32"
proof -
  have "0 \<le> (t - s) div 4 AND 0x3ffffff" "(t - s) div 4 AND 0x3ffffff < 2 ^ 26"
    by (simp_all add: and_mask26)
  then show "0 \<le> b" "b < 2 ^ 32"
    using assms OR_upper [of "0x14000000" 32 "(t - s) div 4 AND 0x3ffffff"]
    by (auto simp: branch_Inr_iff)
qed

lemma signed_int_mod:
  assumes "- (2 ^ n) \<le> v" and "v < 2 ^ n"
  shows "signed_int (v mod 2 ^ Suc n) (Suc n) = v"
proof (cases "0 \<le> v")
  case True
  then have "v mod 2 ^ Suc n = v" using assms by simp
  then show ?thesis using True assms by (simp add: signed_int_eq to_signed_def)
next
  case False
  then have "v mod 2 ^ Suc n = v + 2 ^ Suc n"
    using assms by (intro int_mod_pos_eq [where q = "- 1"]) auto
  then show ?thesis using False assms by (simp add: signed_int_eq to_signed_def)
qed

text \<open>The displacement read back from an encoded branch leads to the intended target.\<close>

lemma branch_target:
  assumes "branch s t = Inr b"
  shows "s + signed_int (b AND 0x3ffffff) 26 * 4 = t"
proof -
  define q where "q = (t - s) div 4"
  have b: "4 dvd t - s" "- (2 ^ 27) \<le> t - s" "t - s < 2 ^ 27" "b = 0x14000000 OR (q AND 0x3ffffff)"
    using assms by (auto simp: branch_Inr_iff q_def)
  then have q: "t - s = 4 * q" "- (2 ^ 25) \<le> q" "q < 2 ^ 25" by (auto simp: q_def)
  have "b AND 0x3ffffff = q AND 0x3ffffff"
    by (simp add: b(4) bit.conj_disj_distrib2 and.assoc)
  then have "b AND 0x3ffffff = q mod 2 ^ Suc 25" by (simp add: and_mask26)
  then have "signed_int (b AND 0x3ffffff) 26 = q"
    using signed_int_mod [of 25 q] q by simp
  then show ?thesis using q(1) by simp
qed

section \<open>Veneers\<close>

definition veneer_words :: "int list" where
  "veneer_words = [
     0xa9b60be1, 0xa90113e3, 0xa9021be5, 0xa90323e7, 0xa9042be9, 0xa90533eb, 0xa9063bed,
     0xa90743ef, 0xa9087bf1, 0xd53b4209, 0xf9004be9, 0xaa0503e7, 0xaa0403e6, 0xaa0303e5,
     0xaa0203e4, 0xaa0103e3, 0xaa0003e2, 0xaa0803e1, 0xaa1b03e0, 0xd63f0380, 0xf9404be9,
     0xd51b4209, 0xa94113e3, 0xa9421be5, 0xa94323e7, 0xa9442be9, 0xa94533eb, 0xa9463bed,
     0xa94743ef, 0xa9487bf1, 0xa8ca0be1]"

lemma veneer_body_eq: "veneer_body = veneer_words"
  by code_simp

definition encode_words :: "int list \<Rightarrow> bytes" where
  "encode_words ws = concat (map (le_bytes 4) ws)"

lemma length_encode_words [simp]: "length (encode_words ws) = 4 * length ws"
  by (induction ws) (auto simp: encode_words_def)

lemma pack_words:
  "list_all (\<lambda>w. 0 \<le> w \<and> w < 2 ^ 32) ws \<Longrightarrow>
   struct_pack (replicate (length ws) U32) (map Num ws) = Inr (encode_words ws)"
  by (induction ws) (auto simp: encode_words_def pack_unsigned_def require_def)

lemma read_encode_word:
  assumes "k < length ws"
  shows "read_at (encode_words ws) (4 * k) 4 = le_bytes 4 (ws ! k)"
  using assms
proof (induction ws arbitrary: k)
  case (Cons w ws)
  then show ?case by (cases k) (auto simp: encode_words_def read_at_def)
qed simp

lemma veneer_Inr_iff:
  "veneer a r = Inr v \<longleftrightarrow>
     (\<exists>b. branch (a + 124) r = Inr b \<and> v = encode_words (veneer_words @ [b]))"
proof -
  have "list_all (\<lambda>w. 0 \<le> w \<and> w < 2 ^ 32) veneer_words" by (simp add: veneer_words_def)
  moreover have "length veneer_words = 31" by (simp add: veneer_words_def)
  ultimately have "struct_pack (replicate 32 U32) (map Num (veneer_words @ [b])) =
      (Inr (encode_words (veneer_words @ [b])) :: (pack_msg, bytes) res)"
    if "branch (a + 124) r = Inr b" for b
    using branch_range [OF that] pack_words [of "veneer_words @ [b]"] by simp
  then show ?thesis
    using \<open>length veneer_words = 31\<close>
    by (auto simp: veneer_def veneer_body_eq Let_def res_simps)
qed

section \<open>Inspection against a table of instructions\<close>

datatype (plugins only: code) insn_kind =
  SVC | NOP | MOVE_WIDE | MOVE_REG | CMP_IMM | CMP_REG | ADR | B | B_COND | CBZ | LDR_STR

text \<open>Mask, value and kind of every admitted encoding.\<close>

definition insn_table :: "(int \<times> int \<times> insn_kind) list" where
  "insn_table =
    [(0xffffffff, 0xd4000001, SVC), (0xffffffff, 0xd503201f, NOP),
     (0xff800000, 0xd2800000, MOVE_WIDE), (0xff800000, 0x92800000, MOVE_WIDE),
     (0xffe0ffe0, 0xaa0003e0, MOVE_REG), (0xffc0001f, 0xf100001f, CMP_IMM),
     (0xffe0fc1f, 0xeb00001f, CMP_REG), (0x9f000000, 0x10000000, ADR),
     (0xfc000000, 0x14000000, B), (0xff000010, 0x54000000, B_COND),
     (0x7e000000, 0x34000000, CBZ), (0xffc00000, 0xf9400000, LDR_STR),
     (0xffc00000, 0xf9000000, LDR_STR)]"

definition insn_matches :: "int \<Rightarrow> int \<times> int \<times> insn_kind \<Rightarrow> bool" where
  "insn_matches w row = (case row of (m, v, _) \<Rightarrow> w AND m = v)"

definition decode :: "int \<Rightarrow> insn_kind option" where
  "decode w = map_option (snd \<circ> snd) (find (insn_matches w) insn_table)"

fun insn_registers :: "insn_kind \<Rightarrow> int \<Rightarrow> int list" where
  "insn_registers MOVE_WIDE w = [w AND 31]"
| "insn_registers MOVE_REG w = [w AND 31, field w 16 31]"
| "insn_registers CMP_IMM w = [field w 5 31]"
| "insn_registers CMP_REG w = [field w 5 31, field w 16 31]"
| "insn_registers ADR w = [w AND 31]"
| "insn_registers CBZ w = [w AND 31]"
| "insn_registers LDR_STR w = [w AND 31, field w 5 31]"
| "insn_registers _ w = []"

fun insn_target :: "insn_kind \<Rightarrow> int \<Rightarrow> int \<Rightarrow> int option" where
  "insn_target B pc w = Some (pc + signed_int (w AND 0x3ffffff) 26 * 4)"
| "insn_target B_COND pc w = Some (pc + signed_int (field w 5 0x7ffff) 19 * 4)"
| "insn_target CBZ pc w = Some (pc + signed_int (field w 5 0x7ffff) 19 * 4)"
| "insn_target _ pc w = None"

text \<open>An admissible instruction at \<open>pc\<close> of an image whose first \<open>n\<close> bytes are text.\<close>

definition admissible :: "bytes \<Rightarrow> int \<Rightarrow> int \<Rightarrow> bool" where
  "admissible img n pc =
     (let w = word_at img (nat pc) in
      case decode w of None \<Rightarrow> False
      | Some k \<Rightarrow> set (insn_registers k w) \<inter> {18, 27, 28} = {} \<and>
          (case insn_target k pc w of None \<Rightarrow> True | Some t \<Rightarrow> 0 \<le> t \<and> t < n) \<and>
          (k = ADR \<longrightarrow> 0 \<le> pc + signed_int (adr_immediate w) 21 \<and>
             pc + signed_int (adr_immediate w) 21 < int (length img)))"

text \<open>No word matches two rows, so the order of the tests does not matter.\<close>

lemma table_rows_disjoint:
  "list_all (\<lambda>(m, v, k). list_all (\<lambda>(m', v', k').
     (m, v, k) = (m', v', k') \<or> v AND m' \<noteq> v' AND m) insn_table) insn_table"
  by (simp add: insn_table_def)

lemma decode_row:
  assumes "row \<in> set insn_table" and "insn_matches w row"
  shows "decode w = Some (snd (snd row))"
proof -
  obtain row' where row': "find (insn_matches w) insn_table = Some row'"
    using assms by (metis find_None_iff not_None_eq)
  then have mem: "row' \<in> set insn_table" "insn_matches w row'"
    by (auto simp: find_Some_iff)
  obtain m v k m' v' k' where rows: "row = (m, v, k)" "row' = (m', v', k')"
    by (cases row, cases row') auto
  have "v AND m' = v' AND m"
    using assms(2) mem(2) rows by (auto simp: insn_matches_def ac_simps)
  then have "row = row'"
    using table_rows_disjoint assms(1) mem(1) rows by (fastforce simp: list_all_iff)
  then show ?thesis using row' by (simp add: decode_def)
qed

lemma decode_SomeD:
  assumes "decode w = Some k"
  shows "\<exists>m v. (m, v, k) \<in> set insn_table \<and> w AND m = v"
proof -
  obtain row where "find (insn_matches w) insn_table = Some row" "snd (snd row) = k"
    using assms by (auto simp: decode_def)
  moreover obtain m v k' where "row = (m, v, k')" by (cases row) auto
  ultimately have "(m, v, k) \<in> set insn_table" "w AND m = v"
    by (auto simp: find_Some_iff insn_matches_def in_set_conv_nth)
  then show ?thesis by blast
qed

lemma word32_and_ones: "0 \<le> w \<Longrightarrow> w < 2 ^ 32 \<Longrightarrow> w AND 0xffffffff = w" for w :: int
  using take_bit_eq_mask [of 32 w] by (simp add: mask_eq_exp_minus_1 take_bit_eq_mod)

lemma inspect_word_decode:
  assumes "0 \<le> w" and "w < 2 ^ 32"
  shows "inspect_word len pc w = (case decode w of None \<Rightarrow> Inl (ValueError (Unsupported_instruction w pc))
     | Some k \<Rightarrow> require (k = ADR \<longrightarrow> 0 \<le> pc + signed_int (adr_immediate w) 21 \<and>
                           pc + signed_int (adr_immediate w) 21 < len) (ValueError ADR_escapes_image)
         (Inr (insn_registers k w, insn_target k pc w, k = SVC)))"
  using word32_and_ones [OF assms]
  by (simp add: inspect_word_def decode_def insn_table_def insn_matches_def)

lemma inspect_step_Inr_iff:
  assumes "0 \<le> pc" and "pc + 4 \<le> int (length img)"
  shows "inspect_step img n sites pc = Inr sites' \<longleftrightarrow>
     admissible img n pc \<and>
     sites' = (if decode (word_at img (nat pc)) = Some SVC then sites @ [pc] else sites)"
proof -
  define w where "w = word_at img (nat pc)"
  have w: "0 \<le> w" "w < 2 ^ 32" using word_at_bounds(1) [of img "nat pc"] word_at_bounds(2) [of "nat pc" img] assms
    by (auto simp: w_def)
  have "inspect_step img n sites pc = 
     bind_res (inspect_word (int (length img)) pc w) (\<lambda>(registers, target, svc).
     require (set registers \<inter> {18, 27, 28} = {}) (ValueError Reserved_register)
    (require (case target of None \<Rightarrow> True | Some t \<Rightarrow> 0 \<le> t \<and> t < n)
       (ValueError Branch_escapes_text)
    (Inr (if svc then sites @ [pc] else sites))))"
    using assms by (simp add: inspect_step_def unpack_u32 w_def)
  then show ?thesis
    by (auto simp: inspect_word_decode [OF w] admissible_def Let_def w_def [symmetric] res_simps
        split: option.splits)
qed

lemma inspect_loop:
  assumes "\<forall>pc \<in> set pcs. 0 \<le> pc \<and> pc + 4 \<le> int (length img)"
  shows "foldM (inspect_step img n) sites pcs = Inr sites' \<longleftrightarrow>
     (\<forall>pc \<in> set pcs. admissible img n pc) \<and>
     sites' = sites @ filter (\<lambda>pc. decode (word_at img (nat pc)) = Some SVC) pcs"
  using assms
  by (induction pcs arbitrary: sites) (auto simp: bind_res_Inr_iff inspect_step_Inr_iff)

definition svc_sites :: "bytes \<Rightarrow> int \<Rightarrow> int list" where
  "svc_sites img n = filter (\<lambda>pc. decode (word_at img (nat pc)) = Some SVC) (py_range 0 n 4)"

lemma text_pcs:
  assumes "4 dvd n" and "n \<le> int (length img)" and "pc \<in> set (py_range 0 n 4)"
  shows "0 \<le> pc" "pc + 4 \<le> n" "pc + 4 \<le> int (length img)" "4 dvd pc"
proof -
  have pc: "0 \<le> pc" "pc < n" "4 dvd pc" using assms(3) by (simp_all add: in_py_range_iff)
  then have "pc + 4 \<le> n" using assms(1) by (auto elim!: dvdE)
  then show "0 \<le> pc" "pc + 4 \<le> n" "pc + 4 \<le> int (length img)" "4 dvd pc" using pc assms(2) by auto
qed

lemma decode_B_iff: "decode w = Some B \<longleftrightarrow> w AND 0xfc000000 = 0x14000000"
proof
  assume "decode w = Some B"
  then show "w AND 0xfc000000 = 0x14000000"
    by (auto dest!: decode_SomeD simp: insn_table_def)
next
  assume "w AND 0xfc000000 = 0x14000000"
  then show "decode w = Some B"
    using decode_row [of "(0xfc000000, 0x14000000, B)" w] by (simp add: insn_table_def insn_matches_def)
qed

lemma inspect_text_iff:
  assumes "0 < n" and "4 dvd n" and "n \<le> int (length img)"
  shows "inspect_text img n = Inr sites \<longleftrightarrow>
     (\<forall>pc \<in> set (py_range 0 n 4). admissible img n pc) \<and>
     decode (word_at img (nat (n - 4))) = Some B \<and>
     sites = svc_sites img n \<and> sites \<noteq> []"
proof -
  have last: "n - 4 \<in> set (py_range 0 n 4)" using assms by (auto simp: in_py_range_iff elim!: dvdE)
  have "unpack_from [U32] img (n - 4) = (Inr [Num (word_at img (nat (n - 4)))] :: (pack_msg, sval list) res)"
    using text_pcs [OF assms(2,3) last] by (intro unpack_u32) auto
  moreover have "(foldM (inspect_step img n) [] (py_range 0 n 4) = Inr s) \<longleftrightarrow>
     (\<forall>pc \<in> set (py_range 0 n 4). admissible img n pc) \<and> s = svc_sites img n" for s
    using text_pcs [OF assms(2,3)] by (subst inspect_loop) (auto simp: svc_sites_def)
  moreover have "decode (word_at img (nat (n - 4))) = Some B \<longleftrightarrow>
     word_at img (nat (n - 4)) AND 0xfc000000 = 0x14000000"
    by (rule decode_B_iff)
  ultimately show ?thesis by (auto simp: inspect_text_def res_simps)
qed

text \<open>
  C5. The inspector against an instruction table: \<^verbatim>\<open>inspect_text\<close>
  accepts exactly the texts whose every word decodes to an admitted instruction with no
  reserved register and no escaping target, whose last word is an unconditional branch and
  which hold at least one SVC; the sites it returns are all SVC offsets in increasing order.
\<close>

theorem inspect_text_accepts:
  assumes "0 < n" and "4 dvd n" and "n \<le> int (length img)"
  shows "((\<exists>sites. inspect_text img n = Inr sites) \<longleftrightarrow>
       (\<forall>pc. 0 \<le> pc \<and> pc < n \<and> 4 dvd pc \<longrightarrow> admissible img n pc) \<and>
       decode (word_at img (nat (n - 4))) = Some B \<and>
       (\<exists>pc. 0 \<le> pc \<and> pc < n \<and> 4 dvd pc \<and> decode (word_at img (nat pc)) = Some SVC)) \<and>
     (\<forall>sites. inspect_text img n = Inr sites \<longrightarrow> sorted_wrt (<) sites \<and>
       set sites = {pc. 0 \<le> pc \<and> pc < n \<and> 4 dvd pc \<and> decode (word_at img (nat pc)) = Some SVC})"
proof -
  have range: "pc \<in> set (py_range 0 n 4) \<longleftrightarrow> 0 \<le> pc \<and> pc < n \<and> 4 dvd pc" for pc
    by (simp add: in_py_range_iff)
  have "sorted_wrt (<) (svc_sites img n)"
    using sorted_py_range [of 4 0 n] by (simp add: svc_sites_def sorted_wrt_filter)
  moreover have "set (svc_sites img n) =
      {pc. 0 \<le> pc \<and> pc < n \<and> 4 dvd pc \<and> decode (word_at img (nat pc)) = Some SVC}"
    by (auto simp: svc_sites_def range)
  moreover have "svc_sites img n \<noteq> [] \<longleftrightarrow>
      (\<exists>pc. 0 \<le> pc \<and> pc < n \<and> 4 dvd pc \<and> decode (word_at img (nat pc)) = Some SVC)"
    by (auto simp: svc_sites_def range filter_empty_conv)
  moreover have "(\<forall>pc \<in> set (py_range 0 n 4). admissible img n pc) \<longleftrightarrow>
      (\<forall>pc. 0 \<le> pc \<and> pc < n \<and> 4 dvd pc \<longrightarrow> admissible img n pc)"
    by (simp add: range Ball_def)
  ultimately show ?thesis by (simp add: inspect_text_iff [OF assms])
qed

section \<open>Control stays inside the text\<close>

text \<open>
  The places control can go after the instruction at \<open>pc\<close>: a system call returns to the next
  instruction.  A word that is not admitted has no successor.
\<close>

inductive guest_step :: "bytes \<Rightarrow> int \<Rightarrow> int \<Rightarrow> bool" for img where
  fallthrough: "decode (word_at img (nat pc)) = Some k \<Longrightarrow> k \<noteq> B \<Longrightarrow> guest_step img pc (pc + 4)"
| jump: "decode (word_at img (nat pc)) = Some k \<Longrightarrow>
     insn_target k pc (word_at img (nat pc)) = Some t \<Longrightarrow> guest_step img pc t"

inductive guest_reach :: "bytes \<Rightarrow> int \<Rightarrow> bool" for img where
  entry: "guest_reach img 0"
| step: "guest_reach img pc \<Longrightarrow> guest_step img pc pc' \<Longrightarrow> guest_reach img pc'"

lemma insn_target_aligned: "4 dvd pc \<Longrightarrow> insn_target k pc w = Some t \<Longrightarrow> 4 dvd t"
  by (cases k) auto

text \<open>
  C4. Control flow of an accepted text: every program counter reachable from the entry by
  fall-through, branches and returning system calls is aligned, inside the text and at an
  admissible instruction, so execution never falls into the constants.
\<close>

theorem guest_stays_in_text:
  assumes "0 < n" and "4 dvd n" and "n \<le> int (length img)"
    and ok: "inspect_text img n = Inr sites" and "guest_reach img pc"
  shows "0 \<le> pc \<and> pc + 4 \<le> n \<and> 4 dvd pc \<and> admissible img n pc"
proof -
  have all: "\<forall>pc \<in> set (py_range 0 n 4). admissible img n pc"
    and last: "decode (word_at img (nat (n - 4))) = Some B"
    using ok inspect_text_iff [OF assms(1-3)] by blast+
  have "pc \<in> set (py_range 0 n 4)"
    using \<open>guest_reach img pc\<close>
  proof induction
    case entry
    show ?case using assms(1) by (simp add: in_py_range_iff)
  next
    case (step pc pc')
    note pc = text_pcs [OF assms(2,3) step.IH]
    from step.hyps(2) show ?case
    proof cases
      case (fallthrough k)
      then have "pc \<noteq> n - 4" using last by auto
      then have "pc + 4 < n" using pc(2) by simp
      then show ?thesis using fallthrough pc by (simp add: in_py_range_iff)
    next
      case (jump k)
      then have "0 \<le> pc'" "pc' < n"
        using all step.IH by (auto simp: admissible_def Let_def split: option.splits)
      moreover have "4 dvd pc'" using insn_target_aligned [OF pc(4) jump(2)] .
      ultimately show ?thesis by (simp add: in_py_range_iff)
    qed
  qed
  then show ?thesis using all text_pcs [OF assms(2,3)] by blast
qed


section \<open>The rewritten payload\<close>

lemma transform_step_Inr_iff:
  assumes "0 \<le> site" and "site + 4 \<le> int (length payload)"
  shows "transform_step payload site = Inr payload' \<longleftrightarrow>
    (\<exists>v b. veneer (int (length payload)) (site + 4) = Inr v \<and>
       branch site (int (length payload)) = Inr b \<and>
       payload' = write_at (payload @ v) (nat site) (le_bytes 4 b))"
proof -
  have "pack_into [U32] (payload @ v) site [Num b] =
      (Inr (write_at (payload @ v) (nat site) (le_bytes 4 b)) :: (pack_msg, bytes) res)"
    if "branch site (int (length payload)) = Inr b" for b v
    using assms branch_range [OF that]
    by (simp add: pack_into_def pack_unsigned_def buffer_offset_def Let_def)
  then show ?thesis by (auto simp: transform_step_def Let_def bind_res_Inr_iff)
qed

lemma length_veneer: "veneer a r = Inr v \<Longrightarrow> length v = 128"
  by (auto simp: veneer_Inr_iff veneer_words_def)

text \<open>
  What a run of the rewriting loop leaves: everything outside the patched words, a branch at
  each site and a veneer per site, in order, behind the payload it started from.
\<close>

definition rewritten :: "bytes \<Rightarrow> bytes \<Rightarrow> int list \<Rightarrow> bool" where
  "rewritten payload payload' sites \<longleftrightarrow>
     length payload' = length payload + 128 * length sites \<and>
     (\<forall>i k. i + k \<le> length payload \<longrightarrow> (\<forall>s \<in> set sites. int i + int k \<le> s \<or> s + 4 \<le> int i) \<longrightarrow>
        read_at payload' i k = read_at payload i k) \<and>
     (\<forall>k < length sites.
        (\<exists>b. branch (sites ! k) (int (length payload + 128 * k)) = Inr b \<and>
             read_at payload' (nat (sites ! k)) 4 = le_bytes 4 b) \<and>
        veneer (int (length payload + 128 * k)) (sites ! k + 4) =
          Inr (read_at payload' (length payload + 128 * k) 128))"

lemma aligned_apart: "4 dvd (s :: int) \<Longrightarrow> 4 dvd t \<Longrightarrow> s \<noteq> t \<Longrightarrow> s + 4 \<le> t \<or> t + 4 \<le> s"
  by (auto elim!: dvdE)

lemma rewritten_Cons:
  assumes v: "veneer (int (length payload)) (s + 4) = Inr v"
    and b: "branch s (int (length payload)) = Inr b"
    and s: "0 \<le> s" "s + 4 \<le> int (length payload)"
    and apart: "\<forall>t \<in> set sites. t + 4 \<le> int (length payload) \<and> (s + 4 \<le> t \<or> t + 4 \<le> s)"
    and rest: "rewritten (write_at (payload @ v) (nat s) (le_bytes 4 b)) payload' sites"
  shows "rewritten payload payload' (s # sites)"
proof -
  define p1 where "p1 = write_at (payload @ v) (nat s) (le_bytes 4 b)"
  have lv: "length v = 128" using v by (rule length_veneer)
  have l1: "length p1 = length payload + 128"
    using s lv by (simp add: p1_def length_write_at)
  have keep: "read_at payload' i k = read_at p1 i k"
    if "i + k \<le> length p1" "\<forall>t \<in> set sites. int i + int k \<le> t \<or> t + 4 \<le> int i" for i k
    using rest that by (auto simp: rewritten_def p1_def)
  have p1: "read_at p1 i k = read_at (payload @ v) i k"
    if "i + k \<le> length p1" "int i + int k \<le> s \<or> s + 4 \<le> int i" for i k
    unfolding p1_def using that s l1 lv by (intro read_write_other) auto
  have word: "read_at payload' (nat s) 4 = le_bytes 4 b"
    using keep [of "nat s" 4] apart s l1 read_write_same [of "nat s" "le_bytes 4 b" "payload @ v"]
    by (auto simp: p1_def)
  have ven: "read_at payload' (length payload) 128 = v"
    using keep [of "length payload" 128] p1 [of "length payload" 128] apart s l1 lv
    by (auto simp: read_at_def)
  have old: "read_at payload' i k = read_at payload i k"
    if "i + k \<le> length payload" "\<forall>t \<in> set (s # sites). int i + int k \<le> t \<or> t + 4 \<le> int i" for i k
    using that keep [of i k] p1 [of i k] l1 by (auto simp: read_at_append_left)
  have later: "(\<exists>b. branch (sites ! k) (int (length payload + 128 * Suc k)) = Inr b \<and>
        read_at payload' (nat (sites ! k)) 4 = le_bytes 4 b) \<and>
      veneer (int (length payload + 128 * Suc k)) (sites ! k + 4) =
        Inr (read_at payload' (length payload + 128 * Suc k) 128)" if "k < length sites" for k
    using rest that unfolding rewritten_def p1_def [symmetric] l1
    by (auto simp: add.assoc)
  have "\<forall>k < length (s # sites).
     (\<exists>b. branch ((s # sites) ! k) (int (length payload + 128 * k)) = Inr b \<and>
        read_at payload' (nat ((s # sites) ! k)) 4 = le_bytes 4 b) \<and>
     veneer (int (length payload + 128 * k)) ((s # sites) ! k + 4) =
        Inr (read_at payload' (length payload + 128 * k) 128)"
    using word ven later v b by (auto simp: nth_Cons split: nat.split)
  moreover have "length payload' = length payload + 128 * length (s # sites)"
    using rest l1 by (simp add: rewritten_def p1_def)
  ultimately show ?thesis unfolding rewritten_def using old by blast
qed

lemma transform_loop:
  assumes "foldM transform_step payload sites = Inr payload'"
    and "\<forall>s \<in> set sites. 0 \<le> s \<and> s + 4 \<le> int (length payload) \<and> 4 dvd s" and "distinct sites"
  shows "rewritten payload payload' sites"
  using assms
proof (induction sites arbitrary: payload)
  case Nil
  then show ?case by (simp add: rewritten_def)
next
  case (Cons s sites)
  then have s: "0 \<le> s" "s + 4 \<le> int (length payload)" by auto
  obtain v b where vb: "veneer (int (length payload)) (s + 4) = Inr v"
    "branch s (int (length payload)) = Inr b"
    and rest: "foldM transform_step (write_at (payload @ v) (nat s) (le_bytes 4 b)) sites = Inr payload'"
    using Cons.prems(1) by (auto simp: bind_res_Inr_iff transform_step_Inr_iff [OF s])
  have "rewritten (write_at (payload @ v) (nat s) (le_bytes 4 b)) payload' sites"
    using Cons.prems(2,3) s by (intro Cons.IH [OF rest]) (auto simp: length_write_at)
  then show ?case
    using Cons.prems(2,3) vb s aligned_apart by (intro rewritten_Cons) auto
qed


lemma word_at_le_bytes: "read_at img i 4 = le_bytes 4 w \<Longrightarrow> 0 \<le> w \<Longrightarrow> w < 2 ^ 32 \<Longrightarrow> word_at img i = w"
  by (simp add: word_at_def le_int_le_bytes)

lemma read_at_read_at: "i + k \<le> n \<Longrightarrow> read_at (read_at xs a n) i k = read_at xs (a + i) k"
  by (simp add: read_at_def drop_take add.commute)

text \<open>Following the branch found at \<open>pc\<close> of an image.\<close>

definition branches_to :: "bytes \<Rightarrow> int \<Rightarrow> int \<Rightarrow> bool" where
  "branches_to img pc t \<longleftrightarrow>
     (let w = word_at img (nat pc) in decode w = Some B \<and> insn_target B pc w = Some t)"

lemma branch_branches_to:
  "branch s t = Inr b \<Longrightarrow> read_at img (nat s) 4 = le_bytes 4 b \<Longrightarrow> branches_to img s t"
  using branch_range [of s t b] branch_opcode [of s t b] branch_target [of s t b] word_at_le_bytes [of img "nat s" b]
  by (simp add: branches_to_def decode_B_iff)

lemma veneer_at:
  assumes "0 \<le> a" and "veneer a r = Inr (read_at img (nat a) 128)"
  shows "branches_to img (a + 124) r" and "\<forall>j < 31. word_at img (nat a + 4 * j) = veneer_words ! j"
proof -
  obtain b where b: "branch (a + 124) r = Inr b" "read_at img (nat a) 128 = encode_words (veneer_words @ [b])"
    using assms by (auto simp: veneer_Inr_iff)
  have len: "length veneer_words = 31" by (simp add: veneer_words_def)
  have word: "read_at img (nat a + 4 * j) 4 = le_bytes 4 ((veneer_words @ [b]) ! j)" if "j < 32" for j
    using read_encode_word [of j "veneer_words @ [b]"] b(2) len that
      read_at_read_at [of "4 * j" 4 128 img "nat a"] by simp
  have "read_at img (nat (a + 124)) 4 = le_bytes 4 b"
    using word [of 31] len assms(1) by (simp add: nat_add_distrib nth_append)
  then show "branches_to img (a + 124) r" using b(1) by (rule branch_branches_to [rotated])
  have "list_all (\<lambda>w. 0 \<le> w \<and> w < 2 ^ 32) veneer_words" by (simp add: veneer_words_def)
  then show "\<forall>j < 31. word_at img (nat a + 4 * j) = veneer_words ! j"
    using word len by (auto simp: nth_append list_all_length intro!: word_at_le_bytes)
qed

lemma svc_sites_props:
  assumes "4 dvd n" and "n \<le> int (length img)"
  shows "distinct (svc_sites img n)"
    and "s \<in> set (svc_sites img n) \<Longrightarrow> 0 \<le> s \<and> s + 4 \<le> n \<and> s + 4 \<le> int (length img) \<and> 4 dvd s"
  using text_pcs [OF assms] sorted_py_range [of 4 0 n]
  by (auto simp: svc_sites_def strict_sorted_iff)

abbreviation padded :: "bytes \<Rightarrow> bytes" where
  "padded img \<equiv> img @ replicate (nat (align (int (length img)) 4 - int (length img))) 0"

lemma length_padded: "int (length (padded img)) = align (int (length img)) 4"
  using align_bounds [of "int (length img)" 2] by simp

lemma transformed_InrE:
  assumes "0 < n" and "4 dvd n" and "n \<le> int (length img)"
    and "transformed img n = Inr (payload, sites)"
  shows "inspect_text img n = Inr sites" and "sites = svc_sites img n"
    and "rewritten (padded img) payload sites"
proof -
  from assms(4) show ok: "inspect_text img n = Inr sites"
    by (auto simp: transformed_def bind_res_Inr_iff)
  then show sites: "sites = svc_sites img n" using inspect_text_iff [OF assms(1-3)] by blast
  have "foldM transform_step (padded img) sites = Inr payload"
    using assms(4) ok by (auto simp: transformed_def bind_res_Inr_iff)
  moreover have "\<forall>s \<in> set sites. 0 \<le> s \<and> s + 4 \<le> int (length (padded img)) \<and> 4 dvd s"
    using svc_sites_props [OF assms(2,3)] sites by force
  ultimately show "rewritten (padded img) payload sites"
    using svc_sites_props [OF assms(2,3)] sites by (intro transform_loop) auto
qed

lemma transformed_sites:
  assumes "0 < n" and "4 dvd n" and "n \<le> int (length img)"
    and "transformed img n = Inr (payload, sites)" and "k < length sites"
  shows "let a = align (int (length img)) 4 + 128 * int k in
     branches_to payload (sites ! k) a \<and>
     (\<forall>j < 31. word_at payload (nat a + 4 * j) = veneer_words ! j) \<and>
     branches_to payload (a + 124) (sites ! k + 4)"
proof -
  define a where "a = align (int (length img)) 4 + 128 * int k"
  have a: "int (length (padded img) + 128 * k) = a" "0 \<le> a"
    using length_padded [of img] align_bounds [of "int (length img)" 2] by (simp_all add: a_def)
  have "rewritten (padded img) payload sites"
    using assms(1-4) by (rule transformed_InrE)
  then have "\<exists>b. branch (sites ! k) a = Inr b \<and> read_at payload (nat (sites ! k)) 4 = le_bytes 4 b"
    "veneer a (sites ! k + 4) = Inr (read_at payload (length (padded img) + 128 * k) 128)"
    using assms(5) a(1) unfolding rewritten_def by metis+
  moreover have "length (padded img) + 128 * k = nat a" using a by linarith
  ultimately show ?thesis
    using veneer_at [OF a(2)] branch_branches_to by (auto simp: Let_def a_def)
qed

lemma read_at_one: "i < length xs \<Longrightarrow> read_at xs i (Suc 0) = [xs ! i]"
  by (simp add: read_at_def take_Suc hd_drop_conv_nth)

lemma transformed_frame:
  assumes "0 < n" and "4 dvd n" and "n \<le> int (length img)"
    and "transformed img n = Inr (payload, sites)"
  shows "int (length payload) = align (int (length img)) 4 + 128 * int (length sites) \<and>
    (\<forall>i < length img. (\<forall>s \<in> set sites. int i < s \<or> s + 4 \<le> int i) \<longrightarrow> payload ! i = img ! i)"
proof -
  have r: "rewritten (padded img) payload sites" using assms by (rule transformed_InrE)
  have "payload ! i = img ! i"
    if "i < length img" "\<forall>s \<in> set sites. int i < s \<or> s + 4 \<le> int i" for i
  proof -
    have "\<forall>s \<in> set sites. int i + int 1 \<le> s \<or> s + 4 \<le> int i" using that(2) by auto
    then have "read_at payload i 1 = read_at (padded img) i 1"
      using r that(1) unfolding rewritten_def by simp
    moreover have "i < length payload" using r that(1) by (simp add: rewritten_def)
    ultimately have "payload ! i = padded img ! i"
      using that(1) by (simp add: read_at_one)
    then show ?thesis using that(1) by (simp add: nth_append)
  qed
  then show ?thesis using r length_padded [of img] by (auto simp: rewritten_def)
qed


lemma svc_word: "decode w = Some SVC \<longleftrightarrow> w AND 0xffffffff = 0xd4000001"
proof
  assume "decode w = Some SVC"
  then show "w AND 0xffffffff = 0xd4000001" by (auto dest!: decode_SomeD simp: insn_table_def)
next
  assume "w AND 0xffffffff = 0xd4000001"
  then show "decode w = Some SVC"
    using decode_row [of "(0xffffffff, 0xd4000001, SVC)" w] by (simp add: insn_table_def insn_matches_def)
qed

lemma rewritten_decode:
  assumes "0 < n" and "4 dvd n" and "n \<le> int (length img)"
    and "transformed img n = Inr (payload, sites)" and "pc \<in> set (py_range 0 n 4)"
  shows "decode (word_at payload (nat pc)) =
     (if decode (word_at img (nat pc)) = Some SVC then Some B else decode (word_at img (nat pc)))"
proof -
  note pc = text_pcs [OF assms(2,3,5)]
  note r = transformed_InrE [OF assms(1-4)]
  show ?thesis
  proof (cases "pc \<in> set sites")
    case True
    then obtain k where k: "k < length sites" "sites ! k = pc" by (auto simp: in_set_conv_nth)
    have "branches_to payload (sites ! k) (align (int (length img)) 4 + 128 * int k)"
      using transformed_sites [OF assms(1-4) k(1)] by (simp add: Let_def)
    then have "decode (word_at payload (nat pc)) = Some B"
      using k(2) by (simp add: branches_to_def decode_B_iff Let_def)
    then show ?thesis using True r(2) by (simp add: svc_sites_def)
  next
    case False
    then have "s + 4 \<le> pc \<or> pc + 4 \<le> s" if "s \<in> set sites" for s
      using that r(2) svc_sites_props [OF assms(2,3)] pc(4) aligned_apart [of s pc] by auto
    then have "\<forall>s \<in> set sites. int (nat pc) + int 4 \<le> s \<or> s + 4 \<le> int (nat pc)" using pc(1) by auto
    then have "read_at payload (nat pc) 4 = read_at (padded img) (nat pc) 4"
      using r(3) pc unfolding rewritten_def by simp
    moreover have "read_at (padded img) (nat pc) 4 = read_at img (nat pc) 4"
      using pc by (simp add: read_at_append_left)
    ultimately have "word_at payload (nat pc) = word_at img (nat pc)" by (simp add: word_at_def)
    moreover have "decode (word_at img (nat pc)) \<noteq> Some SVC"
      using False r(2) assms(5) by (simp add: svc_sites_def)
    ultimately show ?thesis by simp
  qed
qed


lemma branch_ok: "4 dvd t - s \<Longrightarrow> - (2 ^ 27) \<le> t - s \<Longrightarrow> t - s < 2 ^ 27 \<Longrightarrow> \<exists>b. branch s t = Inr b"
  by (auto simp: branch_Inr_iff)

lemma transform_loop_total:
  assumes "4 dvd length payload"
    and "\<forall>s \<in> set sites. 0 \<le> s \<and> s + 4 \<le> int (length payload) \<and> 4 dvd s"
    and "int (length payload) + 128 * int (length sites) < 2 ^ 27"
  shows "\<exists>payload'. foldM transform_step payload sites = Inr payload'"
  using assms
proof (induction sites arbitrary: payload)
  case (Cons s sites)
  have s: "0 \<le> s" "s + 4 \<le> int (length payload)" "4 dvd s" "4 dvd int (length payload)"
    using Cons.prems by auto
  have "\<exists>b. branch s (int (length payload)) = Inr b" "\<exists>b. branch (int (length payload) + 124) (s + 4) = Inr b"
    using s Cons.prems(3) by (auto intro!: branch_ok dvd_diff dvd_add)
  then obtain b v where bv: "branch s (int (length payload)) = Inr b"
      "veneer (int (length payload)) (s + 4) = Inr v"
    by (auto simp: veneer_Inr_iff)
  define p1 where "p1 = write_at (payload @ v) (nat s) (le_bytes 4 b)"
  have step: "transform_step payload s = Inr p1"
    using bv s(1,2) by (simp add: transform_step_Inr_iff p1_def)
  have len: "length p1 = length payload + 128"
    using s length_veneer [OF bv(2)] by (simp add: p1_def length_write_at)
  have "\<exists>payload'. foldM transform_step p1 sites = Inr payload'"
    using Cons.prems len by (intro Cons.IH) auto
  then show ?case using step by simp
qed simp

lemma length_svc_sites: "int (length (svc_sites img n)) \<le> max 0 ((n + 3) div 4)"
  unfolding svc_sites_def
  by (rule order_trans [OF of_nat_mono [OF length_filter_le]]) (simp add: py_range_def add.commute)

lemma transformed_ok:
  assumes "0 < n" and "4 dvd n" and "n \<le> int (length img)" and "int (length img) \<le> LIMIT div 2"
  shows "(\<exists>payload. transformed img n = Inr (payload, sites)) \<longleftrightarrow> inspect_text img n = Inr sites"
proof (intro iffI)
  assume "\<exists>payload. transformed img n = Inr (payload, sites)"
  then show "inspect_text img n = Inr sites" using transformed_InrE(1) [OF assms(1-3)] by blast
next
  assume Inr: "inspect_text img n = Inr sites"
  have sites: "sites = svc_sites img n" using Inr inspect_text_iff [OF assms(1-3)] by blast
  have "int (length sites) \<le> n div 4 + 1"
    unfolding sites using length_svc_sites [of img n] assms(1) by linarith
  moreover have "int 4 dvd int (length (padded img))"
    unfolding length_padded using align_dvd [of 2 "int (length img)"] by simp
  then have "4 dvd length (padded img)" by (simp only: int_dvd_int_iff)
  moreover have "\<forall>s \<in> set sites. 0 \<le> s \<and> s + 4 \<le> int (length (padded img)) \<and> 4 dvd s"
    using svc_sites_props(2) [OF assms(2,3)] sites by fastforce
  moreover have "int (length (padded img)) < int (length img) + 4"
    using length_padded [of img] align_bounds [of "int (length img)" 2] by simp
  ultimately have "\<exists>p. foldM transform_step (padded img) sites = Inr p"
    using assms by (intro transform_loop_total) (auto simp: LIMIT_def)
  then show "\<exists>payload. transformed img n = Inr (payload, sites)"
    using Inr by (auto simp: transformed_def)
qed


text \<open>
  C3. The rewritten payload: it is the image padded to four bytes followed by one 128-byte
  veneer per site; every byte outside the sites is unchanged; site k branches to veneer k,
  which holds the 31 fixed words and ends in a branch to the instruction after the site.
\<close>

theorem transformed_rewrites:
  assumes "0 < n" and "4 dvd n" and "n \<le> int (length img)"
    and "transformed img n = Inr (payload, sites)"
  shows "int (length payload) = align (int (length img)) 4 + 128 * int (length sites) \<and>
    (\<forall>i < length img. (\<forall>s \<in> set sites. int i < s \<or> s + 4 \<le> int i) \<longrightarrow> payload ! i = img ! i) \<and>
    (\<forall>k < length sites. let a = align (int (length img)) 4 + 128 * int k in
       branches_to payload (sites ! k) a \<and>
       (\<forall>j < 31. word_at payload (nat a + 4 * j) = veneer_body ! j) \<and>
       branches_to payload (a + 124) (sites ! k + 4))"
  using transformed_frame [OF assms] transformed_sites [OF assms] unfolding veneer_body_eq by blast

end
