(* ===== verification/Macho_Writer.thy ===== *)
theory Macho_Writer
  imports Guest_Text
begin

text \<open>
  The output side of \<^verbatim>\<open>src/tools/pack_elf.py\<close>: \<open>uleb\<close>, the Mach-O container built by
  \<open>macho\<close>, and \<open>main\<close>, which validates the whole input before it writes any of its five
  files.  The container is checked against independent readers: a load-command walk, an
  export-trie lookup and a ULEB128 decoder written from the file formats, not from the writer.
\<close>

unbundle bit_operations_syntax

section \<open>ULEB128\<close>

function uleb_loop :: "bytes \<Rightarrow> int \<Rightarrow> (pack_msg, bytes) res" where
  "uleb_loop encoded v =
     (if v \<ge> 128 then uleb_loop (encoded @ [word_of_int (v AND 127 OR 128)]) (drop_bit 7 v)
      else require (0 \<le> v) (ValueError Byte_out_of_range) (Inr (encoded @ [word_of_int v])))"
  by pat_completeness auto

termination
  by (relation "measure (\<lambda>(_, v). nat v)") (auto simp: drop_bit_eq_div)

declare uleb_loop.simps [simp del]

definition uleb :: "int \<Rightarrow> (pack_msg, bytes) res" where
  "uleb v = uleb_loop [] v"

section \<open>The container\<close>

definition ascii :: "string \<Rightarrow> bytes" where
  "ascii s = map of_char s"

text \<open>Slice assignment to a \<^verbatim>\<open>bytearray\<close>, for non-negative bounds.\<close>

definition slice_assign :: "bytes \<Rightarrow> int \<Rightarrow> int \<Rightarrow> bytes \<Rightarrow> bytes" where
  "slice_assign buf a b bs =
     (let i = slice_index (length buf) a; j = max i (slice_index (length buf) b)
      in take i buf @ bs @ drop j buf)"

definition macho_symbol :: bytes where
  "macho_symbol = ascii ''_artbox_guest_start'' @ [0]"

definition install_name :: bytes where
  "install_name = ascii ''@rpath/ARTBoxConverted.framework/ARTBoxConverted'' @ [0]"

definition segment_fmt :: "fmt list" where
  "segment_fmt = [U32, U32, Raw 16, U64, U64, U64, U64, U32, U32, U32, U32]"

definition section_fmt :: "fmt list" where
  "section_fmt = [Raw 16, Raw 16, U64, U64] @ replicate 8 U32"

definition macho_export :: "(pack_msg, bytes) res" where
  "macho_export =
     bind_res (uleb (3 + int (length macho_symbol))) (\<lambda>child.
     bind_res (uleb PAGE) (\<lambda>address.
     let terminal = [0] @ address in
     bind_res (uleb (int (length terminal))) (\<lambda>terminal_size.
     Inr ([0, 1] @ macho_symbol @ child @ terminal_size @ terminal @ [0]))))"

definition macho_text :: "bytes \<Rightarrow> int \<Rightarrow> (pack_msg, bytes) res" where
  "macho_text payload text_size =
     bind_res (struct_pack section_fmt
       ([Bytes (ascii ''__artbox''), Bytes (ascii ''__TEXT'')] @
        map Num [PAGE, int (length payload), PAGE, 14, 0, 0, 0x400, 0, 0, 0])) (\<lambda>sect.
     bind_res (struct_pack segment_fmt
       ([Num 0x19, Num 152, Bytes (ascii ''__TEXT'')] @
        map Num [0, text_size, 0, text_size, 5, 5, 1, 0])) (\<lambda>seg. Inr (seg @ sect)))"

definition macho_linkedit :: "int \<Rightarrow> (pack_msg, bytes) res" where
  "macho_linkedit text_size =
     struct_pack segment_fmt
       ([Num 0x19, Num 72, Bytes (ascii ''__LINKEDIT'')] @
        map Num [text_size, PAGE, text_size, PAGE, 1, 1, 0, 0])"

definition macho_identity :: "(pack_msg, bytes) res" where
  "macho_identity =
     (let id_size = align (24 + int (length install_name)) 8 in
      bind_res (struct_pack (replicate 6 U32) (map Num [0xd, id_size, 24, 0, 0x10000, 0x10000])) (\<lambda>h.
      Inr (h @ install_name @ replicate (nat (id_size - int (length (h @ install_name)))) 0)))"

definition macho_build :: "string \<Rightarrow> (pack_msg, bytes) res" where
  "macho_build platform =
     (let (target, minimum) = (if platform = ''ios'' then (2, push_bit 16 15) else (1, push_bit 16 11)) in
      struct_pack (replicate 6 U32) (map Num [0x32, 24, target, minimum, minimum, 0]))"

definition macho :: "bytes \<Rightarrow> string \<Rightarrow> (pack_msg, bytes) res" where
  "macho payload platform =
     (let text_size = align (PAGE + int (length payload)) PAGE in
      bind_res macho_export (\<lambda>export.
      let symoff = text_size + align (int (length export)) 8;
          stroff = symoff + 16;
          strings = [0] @ macho_symbol in
      bind_res (macho_text payload text_size) (\<lambda>txt_cmd.
      bind_res (macho_linkedit text_size) (\<lambda>linkedit.
      bind_res macho_identity (\<lambda>identity.
      bind_res (macho_build platform) (\<lambda>build.
      bind_res (struct_pack (replicate 12 U32)
        (map Num [0x80000022, 48, 0, 0, 0, 0, 0, 0, 0, 0, text_size, int (length export)])) (\<lambda>dyld.
      bind_res (struct_pack (replicate 6 U32)
        (map Num [2, 24, symoff, 1, stroff, int (length strings)])) (\<lambda>symtab.
      bind_res (struct_pack (replicate 20 U32)
        (map Num ([0xb, 80, 0, 0, 0, 1, 1, 0] @ replicate 12 0))) (\<lambda>dysymtab.
      let commands = txt_cmd @ linkedit @ identity @ build @ dyld @ symtab @ dysymtab in
      bind_res (struct_pack (replicate 8 U32)
        (map Num [0xfeedfacf, 0x100000c, 0, 6, 7, int (length commands), 0x100085, 0])) (\<lambda>header.
      require (int (length header + length commands) < PAGE) (ValueError Insufficient_header_space)
     (bind_res (struct_pack [U32, U8, U8, U16, U64] (map Num [1, 0xf, 1, 0, PAGE])) (\<lambda>nlist.
      let r0 = replicate (nat (text_size + PAGE)) 0;
          r1 = slice_assign r0 0 (int (length (header @ commands))) (header @ commands);
          r2 = slice_assign r1 PAGE (PAGE + int (length payload)) payload;
          r3 = slice_assign r2 text_size (text_size + int (length export)) export;
          r4 = slice_assign r3 symoff (symoff + 16) nlist;
          r5 = slice_assign r4 stroff (stroff + int (length strings)) strings
      in Inr r5))))))))))))"

section \<open>The command\<close>

record pack_info =
  input_sha256 :: string
  info_platform :: string
  original_segment_bytes :: nat
  text_bytes :: int
  payload_bytes :: nat
  svc_sites_count :: nat
  svc_offsets :: "int list"
  entry_offset :: int
  converted_unsigned_bytes :: nat
  packaging_ns :: int

record pack_output =
  payload_bin :: bytes
  converted_dylib :: bytes
  wrapper_S :: string
  guest_image_size :: nat
  pack_info_json :: pack_info

definition wrapper_text :: string where
  "wrapper_text =
     ''.section __TEXT,__artbox,regular'' @ [CHR 0x0A] @
     ''.p2align 14'' @ [CHR 0x0A] @
     ''.globl _artbox_guest_start'' @ [CHR 0x0A] @
     ''_artbox_guest_start:'' @ [CHR 0x0A] @
     ''    .incbin '' @ [CHR 0x22] @ ''payload.bin'' @ [CHR 0x22, CHR 0x0A]"

text \<open>
  \<open>main\<close> up to its first write: \<open>sha256\<close> is the digest of the standard library and \<open>ns\<close> the
  elapsed time, the two inputs besides the file and the platform.  The result is what the five
  \<^verbatim>\<open>write\<close> calls put under the output directory (the JSON document as its fields).
\<close>

definition pack_main :: "(bytes \<Rightarrow> string) \<Rightarrow> int \<Rightarrow> bytes \<Rightarrow> string \<Rightarrow> (pack_msg, pack_output) res" where
  "pack_main sha256 ns data platform =
     require (int (length data) \<le> LIMIT) (ValueError Input_exceeds_limit)
    (bind_res (parse_elf data) (\<lambda>(original, text_size).
     bind_res (transformed original text_size) (\<lambda>(payload, sites).
     bind_res (macho payload platform) (\<lambda>converted.
     Inr \<lparr>payload_bin = payload, converted_dylib = converted, wrapper_S = wrapper_text,
          guest_image_size = length payload,
          pack_info_json = \<lparr>input_sha256 = sha256 data, info_platform = platform,
            original_segment_bytes = length original, text_bytes = text_size,
            payload_bytes = length payload, svc_sites_count = length sites, svc_offsets = sites,
            entry_offset = 0, converted_unsigned_bytes = length converted, packaging_ns = ns\<rparr>\<rparr>))))"

section \<open>Readers of the output formats\<close>

fun uleb_decode :: "bytes \<Rightarrow> (int \<times> bytes) option" where
  "uleb_decode [] = None"
| "uleb_decode (b # bs) =
     (if uint b < 128 then Some (uint b, bs)
      else map_option (\<lambda>(v, rest). (uint b - 128 + 128 * v, rest)) (uleb_decode bs))"

fun trie_children :: "nat \<Rightarrow> bytes \<Rightarrow> (bytes \<times> int) list option" where
  "trie_children 0 bs = Some []"
| "trie_children (Suc n) bs =
     (let edge = takeWhile (\<lambda>b. b \<noteq> 0) bs in
      Option.bind (uleb_decode (drop (Suc (length edge)) bs)) (\<lambda>(child, rest).
      map_option ((#) (edge, child)) (trie_children n rest)))"

text \<open>
  A lookup in an export trie: a node is the size of its terminal information, that information
  (flags and address), the number of children and the children; \<open>depth\<close> bounds the descent.
\<close>

fun trie_find :: "nat \<Rightarrow> bytes \<Rightarrow> nat \<Rightarrow> bytes \<Rightarrow> (int \<times> int) option" where
  "trie_find 0 trie off name = None"
| "trie_find (Suc depth) trie off name =
     Option.bind (uleb_decode (drop off trie)) (\<lambda>(terminal_size, node).
     if name = [] then
       Option.bind (uleb_decode (take (nat terminal_size) node)) (\<lambda>(flags, rest).
       map_option (\<lambda>(address, _). (flags, address)) (uleb_decode rest))
     else (case drop (nat terminal_size) node of [] \<Rightarrow> None
      | n # edges \<Rightarrow>
        Option.bind (trie_children (unat n) edges) (\<lambda>children.
        Option.bind (find (\<lambda>(edge, _). prefix edge name) children) (\<lambda>(edge, child).
        trie_find depth trie (nat child) (drop (length edge) name)))))"

fun load_commands :: "nat \<Rightarrow> bytes \<Rightarrow> nat \<Rightarrow> bytes list" where
  "load_commands 0 img off = []"
| "load_commands (Suc n) img off =
     (let sz = nat (word_at img (off + 4)) in read_at img off sz # load_commands n img (off + sz))"

section \<open>ULEB128 round trip\<close>

lemma uleb_loop_append: "uleb_loop (xs @ ys) v = bind_res (uleb_loop ys v) (\<lambda>bs. Inr (xs @ bs))"
proof (induction ys v rule: uleb_loop.induct)
  case (1 ys v)
  then show ?case
    by (subst (1 2) uleb_loop.simps) (auto simp: require_def)
qed

lemma uleb_unfold:
  "uleb v = (if v \<ge> 128 then bind_res (uleb (v div 128)) (\<lambda>bs. Inr (word_of_int (v AND 127 OR 128) # bs))
     else require (0 \<le> v) (ValueError Byte_out_of_range) (Inr [word_of_int v]))"
proof (cases "v \<ge> 128")
  case True
  then have "uleb_loop [] v = uleb_loop ([word_of_int (v AND 127 OR 128)] @ []) (v div 128)"
    by (subst uleb_loop.simps) (simp add: drop_bit_eq_div)
  then show ?thesis unfolding uleb_def uleb_loop_append using True by simp
qed (simp add: uleb_def uleb_loop.simps [of _ v])

lemma group_byte: "uint (word_of_int (v AND 127 OR 128) :: byte) = v mod 128 + 128" for v :: int
proof -
  have "v AND 127 = v mod 128" using take_bit_eq_mask [of 7 v] by (simp add: mask_eq_exp_minus_1 take_bit_eq_mod)
  moreover have "(v mod 128) AND 128 = 0"
    unfolding take_bit_eq_mod [of 7 v, simplified, symmetric] by (intro bit_eqI) (auto simp: bit_simps bit_exp_iff [of 7, simplified])
  then have "v mod 128 OR 128 = v mod 128 + 128" by (rule disjunctive_add_eq_or [symmetric])
  ultimately have "v AND 127 OR 128 = v mod 128 + 128" by simp
  then show ?thesis by (simp only: uint_word_of_int_byte) simp
qed

lemma uleb_decode_uleb:
  assumes "0 \<le> v"
  shows "\<exists>bs. uleb v = Inr bs \<and> (\<forall>rest. uleb_decode (bs @ rest) = Some (v, rest)) \<and>
     v < 128 ^ length bs \<and> (v < 128 \<and> length bs = 1 \<or> 128 ^ (length bs - 1) \<le> v)"
  using assms
proof (induction "nat v" arbitrary: v rule: less_induct)
  case less
  show ?case
  proof (cases "v \<ge> 128")
    case False
    then show ?thesis using less.prems by (subst uleb_unfold) (simp add: uint_word_of_int_byte)
  next
    case True
    then have "nat (v div 128) < nat v" "0 \<le> v div 128" by auto
    from less.hyps [OF this] obtain bs where bs: "uleb (v div 128) = Inr bs"
      "\<forall>rest. uleb_decode (bs @ rest) = Some (v div 128, rest)" "v div 128 < 128 ^ length bs"
      "v div 128 < 128 \<and> length bs = 1 \<or> 128 ^ (length bs - 1) \<le> v div 128" by blast
    have "uleb v = Inr (word_of_int (v AND 127 OR 128) # bs)"
      using True bs(1) by (subst uleb_unfold) simp
    moreover have "v < 128 ^ Suc (length bs)"
      using bs(3) by (simp add: div_less_iff_less_mult mult.commute)
    moreover have "128 ^ length bs \<le> v"
    proof (cases "length bs = 1")
      case False
      then have "128 ^ (length bs - 1) \<le> v div 128" "length bs \<noteq> 0" using bs by auto
      then have "128 ^ (length bs - 1) * 128 \<le> v" by (simp add: pos_le_div_iff)
      then show ?thesis using \<open>length bs \<noteq> 0\<close> by (metis mult.commute power_eq_if)
    qed (use True in simp)
    moreover have "\<not> v mod 128 < 0" by simp
    ultimately show ?thesis using bs(2) by (simp add: group_byte)
  qed
qed

lemma uleb_roundtrip:
  "(v < 0 \<longrightarrow> uleb v = Inl (ValueError Byte_out_of_range)) \<and>
   (0 \<le> v \<longrightarrow> (\<exists>bs. uleb v = Inr bs \<and> (\<forall>rest. uleb_decode (bs @ rest) = Some (v, rest)) \<and>
      v < 128 ^ length bs \<and> (v < 128 \<and> length bs = 1 \<or> 128 ^ (length bs - 1) \<le> v)))"
  using uleb_decode_uleb [of v] by (auto simp: uleb_unfold [of v])


section \<open>Packing with padding\<close>

text \<open>The value a packed field reads back as: a short byte string is padded with zeros.\<close>

fun canon :: "fmt \<Rightarrow> sval \<Rightarrow> sval" where
  "canon (Raw n) (Bytes bs) = Bytes (take n bs @ replicate (n - length bs) 0)"
| "canon f v = v"

fun packable :: "fmt \<Rightarrow> sval \<Rightarrow> bool" where
  "packable (Raw n) (Bytes bs) = True"
| "packable f v = fits f v"

lemma pack_field_canon:
  assumes "packable f v"
  shows "\<exists>bs. (pack_field f v :: ('m, bytes) res) = Inr bs \<and> length bs = fmt_size f \<and> unpack_field f bs = canon f v"
proof (cases "fits f v")
  case True
  then have "canon f v = v" by (cases "(f, v)" rule: canon.cases) auto
  then show ?thesis using pack_field_fits [OF True] by metis
next
  case False
  then obtain n bs where "f = Raw n" "v = Bytes bs"
    using assms by (cases "(f, v)" rule: packable.cases) auto
  then show ?thesis by auto
qed

lemma pack_canon:
  assumes "list_all2 packable fs vs"
  shows "\<exists>bs. (struct_pack fs vs :: ('m, bytes) res) = Inr bs \<and> length bs = calcsize fs \<and>
      (\<forall>rest. struct_unpack fs (bs @ rest) = map2 canon fs vs)"
  using assms
proof (induction fs vs rule: list_all2_induct)
  case Nil
  then show ?case by (simp add: calcsize_def)
next
  case (Cons f fs v vs)
  then obtain b bs where "(pack_field f v :: ('m, bytes) res) = Inr b" "length b = fmt_size f"
    "unpack_field f b = canon f v" "(struct_pack fs vs :: ('m, bytes) res) = Inr bs"
    "length bs = calcsize fs" "\<forall>rest. struct_unpack fs (bs @ rest) = map2 canon fs vs"
    using pack_field_canon by blast
  then show ?case by (auto simp: calcsize_def)
qed

text \<open>The first two words of a packed command are its number and its size.\<close>

definition command_block :: "int \<Rightarrow> bytes \<Rightarrow> bool" where
  "command_block cmd b \<longleftrightarrow> 8 \<le> length b \<and> word_at b 0 = cmd \<and> word_at b 4 = int (length b)"

lemma word_at_append: "i + 4 \<le> length b \<Longrightarrow> word_at (b @ rest) i = word_at b i"
  by (simp add: word_at_def read_at_append_left)

lemma pack_command:
  assumes "list_all2 packable fs vs" and "0 \<le> cmd" "cmd < 2 ^ 32" "0 \<le> n" "n < 2 ^ 32"
  shows "\<exists>b. (struct_pack (U32 # U32 # fs) (Num cmd # Num n # vs) :: ('m, bytes) res) = Inr b \<and>
    length b = 8 + calcsize fs \<and> word_at b 0 = cmd \<and> word_at b 4 = n \<and>
    (\<forall>rest. struct_unpack (U32 # U32 # fs) (b @ rest) = Num cmd # Num n # map2 canon fs vs)"
proof -
  have "list_all2 packable (U32 # U32 # fs) (Num cmd # Num n # vs)" using assms by simp
  then obtain b where b: "(struct_pack (U32 # U32 # fs) (Num cmd # Num n # vs) :: ('m, bytes) res) = Inr b"
    "length b = calcsize (U32 # U32 # fs)"
    "\<forall>rest. struct_unpack (U32 # U32 # fs) (b @ rest) = map2 canon (U32 # U32 # fs) (Num cmd # Num n # vs)"
    using pack_canon by blast
  have "word_at b 0 = cmd" "word_at b 4 = n"
    using b(3) [rule_format, of "[]"] by (simp_all add: word_at_def read_at_def)
  then show ?thesis using b by (simp add: calcsize_def del: struct_pack.simps struct_unpack.simps)
qed

text \<open>A command made only of words.\<close>

lemma pack_word_command:
  assumes "list_all (\<lambda>w. 0 \<le> w \<and> w < 2 ^ 32) (cmd # ws)" and "length ws < 2 ^ 10"
    and n: "n = 8 + 4 * length ws" and "k = 2 + length ws"
  shows "\<exists>b. (struct_pack (replicate k U32) (map Num (cmd # int n # ws)) :: ('m, bytes) res) = Inr b \<and>
    length b = n \<and> command_block cmd b"
proof -
  have ok: "list_all2 packable (replicate (length ws) U32) (map Num ws)"
    using assms(1) by (auto simp: list_all2_conv_all_nth list_all_length)
  obtain b where b: "(struct_pack (U32 # U32 # replicate (length ws) U32) (Num cmd # Num (int n) # map Num ws) :: ('m, bytes) res) = Inr b"
    "length b = 8 + calcsize (replicate (length ws) U32)" "word_at b 0 = cmd" "word_at b 4 = int n"
    using pack_command [OF ok, of cmd "int n"] assms(1,2) n by auto
  have k: "replicate k U32 = U32 # U32 # replicate (length ws) U32" using assms(4) by simp
  have len: "length b = n" using b(2) n by (simp add: calcsize_def sum_list_replicate)
  show ?thesis
    unfolding k list.map by (intro exI [of _ b] conjI b(1) len) (use b len n in \<open>simp add: command_block_def\<close>)
qed

lemma load_commands_blocks:
  assumes "list_all2 command_block cmds bs"
  shows "load_commands (length bs) (pre @ concat bs @ post) (length pre) = bs"
  using assms
proof (induction cmds bs arbitrary: pre rule: list_all2_induct)
  case (Cons c cs b bs)
  have "read_at (pre @ (b @ concat bs) @ post) (length pre + 4) 4 = read_at b 4 4"
    using Cons(1) by (simp add: read_at_def command_block_def)
  then have "word_at (pre @ (b @ concat bs) @ post) (length pre + 4) = int (length b)"
    using Cons(1) by (simp add: word_at_def command_block_def)
  moreover have "load_commands (length bs) ((pre @ b) @ concat bs @ post) (length (pre @ b)) = bs"
    by (rule Cons.IH)
  ultimately show ?case by (simp add: Let_def read_at_def)
qed simp

lemma slice_assign_eq:
  "0 \<le> a \<Longrightarrow> b = a + int (length bs) \<Longrightarrow> b \<le> int (length buf) \<Longrightarrow>
   slice_assign buf a b bs = write_at buf (nat a) bs"
  by (auto simp: slice_assign_def slice_index_def write_at_def Let_def nat_add_distrib max_def min_def)

section \<open>The constant parts\<close>

lemma symbol_bytes: "macho_symbol = [95, 97, 114, 116, 98, 111, 120, 95, 103, 117, 101, 115, 116, 95,
    115, 116, 97, 114, 116, 0]"
  by (simp add: macho_symbol_def ascii_def of_char_def)

definition export_bytes :: bytes where
  "export_bytes = [0, 1, 95, 97, 114, 116, 98, 111, 120, 95, 103, 117, 101, 115, 116, 95, 115, 116, 97,
     114, 116, 0, 23, 4, 0, 128, 128, 1, 0]"

lemma uleb_small: "0 \<le> v \<Longrightarrow> v < 128 \<Longrightarrow> uleb v = Inr [word_of_int v]"
  by (subst uleb_unfold) simp

lemma uleb_page: "uleb PAGE = Inr [128, 128, 1]"
proof -
  have "uleb 128 = Inr [128, 1]" by (subst uleb_unfold) (simp add: uleb_small)
  then show ?thesis unfolding PAGE_def by (subst uleb_unfold) simp
qed

lemma macho_export_eq: "macho_export = Inr export_bytes"
  by (simp add: macho_export_def symbol_bytes uleb_page uleb_small export_bytes_def)

lemma export_lookup: "trie_find 2 export_bytes 0 (butlast macho_symbol) = Some (0, PAGE)"
  by code_simp

lemma install_name_length: "length install_name = 49"
  by (simp add: install_name_def ascii_def)

lemma macho_identity_ok: "\<exists>b. macho_identity = Inr b \<and> length b = 80 \<and> command_block 0xd b"
proof -
  have size: "align (24 + int (length install_name)) 8 = 80"
    by (simp add: install_name_length align_def)
  have four: "replicate 4 U32 = [U32, U32, U32, U32]" by (simp add: numeral_eq_Suc)
  have "list_all2 packable (replicate 4 U32) (map Num [24, 0, 0x10000, 0x10000])"
    unfolding four by simp
  from pack_command [OF this, of 13 80]
  obtain h where h: "(struct_pack (U32 # U32 # replicate 4 U32) (Num 0xd # Num 80 # map Num [24, 0, 0x10000, 0x10000]) ::
      (pack_msg, bytes) res) = Inr h"
    "length h = 8 + calcsize (replicate 4 U32)" "word_at h 0 = 0xd" "word_at h 4 = 80"
    by (auto simp del: struct_pack.simps)
  define b where "b = h @ install_name @ replicate 7 0"
  have len: "length h = 24" using h(2) by (simp add: calcsize_def sum_list_replicate)
  have fmt: "replicate 6 U32 = U32 # U32 # replicate 4 U32" by (simp add: numeral_eq_Suc)
  have b: "length b = 80" by (simp add: b_def len install_name_length)
  have "struct_pack (replicate 6 U32) (map Num [0xd, 80, 24, 0, 0x10000, 0x10000]) =
      (Inr h :: (pack_msg, bytes) res)"
    unfolding fmt using h(1) by simp
  then have "macho_identity = Inr b"
    by (simp only: macho_identity_def size Let_def b_def bind_res_Inr) (simp add: install_name_length len)
  moreover have "command_block 0xd b"
    using h(3,4) len b by (simp add: command_block_def b_def word_at_append)
  ultimately show ?thesis using b by blast
qed


definition name16 :: "string \<Rightarrow> sval" where
  "name16 s = canon (Raw 16) (Bytes (ascii s))"

lemma calcsize_segment: "calcsize segment_fmt = 72" "calcsize section_fmt = 80"
  by (simp_all add: segment_fmt_def section_fmt_def calcsize_def sum_list_replicate)

lemma segment_command:
  assumes "\<forall>v \<in> {vmaddr, vmsize, fileoff, filesize}. 0 \<le> v \<and> v < 2 ^ 64"
    and "\<forall>v \<in> {maxprot, initprot, nsects, flags, n}. 0 \<le> v \<and> v < 2 ^ 32"
  shows "\<exists>b. (struct_pack segment_fmt ([Num 0x19, Num n, Bytes (ascii name)] @
        map Num [vmaddr, vmsize, fileoff, filesize, maxprot, initprot, nsects, flags]) :: ('m, bytes) res) = Inr b \<and>
    length b = 72 \<and> word_at b 0 = 0x19 \<and> word_at b 4 = n \<and>
    (\<forall>rest. struct_unpack segment_fmt (b @ rest) = Num 0x19 # Num n # name16 name #
       map Num [vmaddr, vmsize, fileoff, filesize, maxprot, initprot, nsects, flags])"
proof -
  define fs where "fs = [Raw 16, U64, U64, U64, U64, U32, U32, U32, U32]"
  define vs where "vs = Bytes (ascii name) #
     map Num [vmaddr, vmsize, fileoff, filesize, maxprot, initprot, nsects, flags]"
  have "list_all2 packable fs vs" using assms by (simp add: fs_def vs_def)
  from pack_command [OF this, of 25 n] assms(2)
  obtain b where b: "(struct_pack (U32 # U32 # fs) (Num 25 # Num n # vs) :: ('m, bytes) res) = Inr b"
    "length b = 8 + calcsize fs" "word_at b 0 = 25" "word_at b 4 = n"
    "\<forall>rest. struct_unpack (U32 # U32 # fs) (b @ rest) = Num 25 # Num n # map2 canon fs vs"
    by (auto simp del: struct_pack.simps struct_unpack.simps)
  have fmt: "segment_fmt = U32 # U32 # fs" by (simp add: segment_fmt_def fs_def)
  have vals: "[Num 0x19, Num n, Bytes (ascii name)] @
      map Num [vmaddr, vmsize, fileoff, filesize, maxprot, initprot, nsects, flags] = Num 25 # Num n # vs"
    by (simp add: vs_def)
  have canon: "map2 canon fs vs = name16 name #
      map Num [vmaddr, vmsize, fileoff, filesize, maxprot, initprot, nsects, flags]"
    by (simp add: fs_def vs_def name16_def)
  have "length b = 72" using b(2) by (simp add: fs_def calcsize_def)
  then show ?thesis
    unfolding fmt vals canon [symmetric] using b by (intro exI [of _ b] conjI b(1)) auto
qed

lemma macho_text_ok:
  assumes "0 \<le> ts" and "ts < 2 ^ 32" and "int (length payload) < 2 ^ 32"
  shows "\<exists>b. macho_text payload ts = Inr b \<and> length b = 152 \<and> command_block 0x19 b \<and>
    struct_unpack segment_fmt b = Num 0x19 # Num 152 # name16 ''__TEXT'' # map Num [0, ts, 0, ts, 5, 5, 1, 0] \<and>
    struct_unpack section_fmt (drop 72 b) = name16 ''__artbox'' # name16 ''__TEXT'' #
      map Num [PAGE, int (length payload), PAGE, 14, 0, 0, 0x400, 0, 0, 0]"
proof -
  define ws where "ws = [PAGE, int (length payload), PAGE, 14, 0, 0, 0x400, 0, 0, 0]"
  have fmt: "section_fmt = [Raw 16, Raw 16, U64, U64, U32, U32, U32, U32, U32, U32, U32, U32]"
    by (simp add: section_fmt_def numeral_eq_Suc)
  have vals: "[Bytes (ascii ''__artbox''), Bytes (ascii ''__TEXT'')] @ map Num ws =
     [Bytes (ascii ''__artbox''), Bytes (ascii ''__TEXT''), Num PAGE, Num (int (length payload)), Num PAGE,
      Num 14, Num 0, Num 0, Num 0x400, Num 0, Num 0, Num 0]"
    by (simp add: ws_def)
  have "list_all2 packable section_fmt ([Bytes (ascii ''__artbox''), Bytes (ascii ''__TEXT'')] @ map Num ws)"
    unfolding vals fmt using assms by (simp add: PAGE_def)
  from pack_canon [OF this]
  obtain sect where sect: "struct_pack section_fmt ([Bytes (ascii ''__artbox''), Bytes (ascii ''__TEXT'')] @ map Num ws) =
      (Inr sect :: (pack_msg, bytes) res)" "length sect = 80"
    "\<forall>rest. struct_unpack section_fmt (sect @ rest) =
       map2 canon section_fmt ([Bytes (ascii ''__artbox''), Bytes (ascii ''__TEXT'')] @ map Num ws)"
    unfolding calcsize_segment by blast
  have "map2 canon section_fmt ([Bytes (ascii ''__artbox''), Bytes (ascii ''__TEXT'')] @ map Num ws) =
      name16 ''__artbox'' # name16 ''__TEXT'' # map Num ws"
    unfolding vals fmt by (simp add: ws_def name16_def)
  then have sect': "struct_unpack section_fmt sect = name16 ''__artbox'' # name16 ''__TEXT'' # map Num ws"
    using sect(3) by (metis append_Nil2)
  have "\<forall>v \<in> {0, ts, 0, ts}. 0 \<le> v \<and> v < 2 ^ 64" "\<forall>v \<in> {5, 5, 1, 0, 152}. 0 \<le> v \<and> v < (2 :: int) ^ 32"
    using assms by simp_all
  from segment_command [OF this, of "''__TEXT''"]
  obtain seg where seg: "struct_pack segment_fmt ([Num 0x19, Num 152, Bytes (ascii ''__TEXT'')] @
        map Num [0, ts, 0, ts, 5, 5, 1, 0]) = (Inr seg :: (pack_msg, bytes) res)"
    "length seg = 72" "word_at seg 0 = 0x19" "word_at seg 4 = 152"
    "\<forall>rest. struct_unpack segment_fmt (seg @ rest) = Num 0x19 # Num 152 # name16 ''__TEXT'' #
       map Num [0, ts, 0, ts, 5, 5, 1, 0]"
    by blast
  have "macho_text payload ts = Inr (seg @ sect)"
    unfolding macho_text_def ws_def [symmetric] using sect(1) seg(1) by simp
  moreover have "command_block 0x19 (seg @ sect)"
    using seg sect(2) by (simp add: command_block_def word_at_append)
  ultimately show ?thesis
    using seg sect(2) sect' unfolding ws_def [symmetric] by (intro exI [of _ "seg @ sect"]) auto
qed

lemma macho_linkedit_ok:
  assumes "0 \<le> ts" and "ts < 2 ^ 32"
  shows "\<exists>b. macho_linkedit ts = Inr b \<and> length b = 72 \<and> command_block 0x19 b \<and>
    struct_unpack segment_fmt b =
      Num 0x19 # Num 72 # name16 ''__LINKEDIT'' # map Num [ts, PAGE, ts, PAGE, 1, 1, 0, 0]"
proof -
  have "\<forall>v \<in> {ts, PAGE, ts, PAGE}. 0 \<le> v \<and> v < 2 ^ 64" "\<forall>v \<in> {1, 1, 0, 0, 72}. 0 \<le> v \<and> v < (2 :: int) ^ 32"
    using assms by (simp_all add: PAGE_def)
  from segment_command [OF this, of "''__LINKEDIT''"]
  obtain b where "macho_linkedit ts = Inr b" "length b = 72" "word_at b 0 = 0x19" "word_at b 4 = 72"
    "\<forall>rest. struct_unpack segment_fmt (b @ rest) = Num 0x19 # Num 72 # name16 ''__LINKEDIT'' #
       map Num [ts, PAGE, ts, PAGE, 1, 1, 0, 0]"
    unfolding macho_linkedit_def by blast
  then show ?thesis by (intro exI [of _ b]) (auto simp: command_block_def dest: spec [of _ "[]"])
qed

lemma macho_build_ok: "\<exists>b. macho_build platform = Inr b \<and> length b = 24 \<and> command_block 0x32 b"
  using pack_word_command [where 'm = pack_msg, of 50 "[2, push_bit 16 15, push_bit 16 15, 0]" 24 6]
    pack_word_command [where 'm = pack_msg, of 50 "[1, push_bit 16 11, push_bit 16 11, 0]" 24 6]
  by (simp add: macho_build_def Let_def push_bit_eq_mult)


lemma macho_dyld_ok:
  assumes "0 \<le> ts" and "ts < 2 ^ 32"
  shows "\<exists>b. struct_pack (replicate 12 U32)
      (map Num [0x80000022, 48, 0, 0, 0, 0, 0, 0, 0, 0, ts, 29]) = (Inr b :: (pack_msg, bytes) res) \<and>
    length b = 48 \<and> command_block 0x80000022 b"
proof -
  have "list_all (\<lambda>w. 0 \<le> w \<and> w < 2 ^ 32) [2147483682, 0, 0, 0, 0, 0, 0, 0, 0, ts, 29]" using assms by simp
  then show ?thesis by (rule pack_word_command [of _ _ 48 12, unfolded of_nat_numeral]; simp)
qed

lemma macho_symtab_ok:
  assumes "0 \<le> ts" and "ts + 64 < 2 ^ 32"
  shows "\<exists>b. struct_pack (replicate 6 U32)
      (map Num [2, 24, ts + 32, 1, ts + 32 + 16, 21]) = (Inr b :: (pack_msg, bytes) res) \<and>
    length b = 24 \<and> command_block 2 b"
  using pack_word_command [where 'm = pack_msg, of 2 "[ts + 32, 1, ts + 32 + 16, 21]" 24 6] assms by auto

lemma replicate_12: "replicate 12 x = [x, x, x, x, x, x, x, x, x, x, x, x]"
  by (simp add: numeral_eq_Suc)

lemma macho_dysymtab_ok:
  "\<exists>b. struct_pack (replicate 20 U32)
      (map Num ([0xb, 80, 0, 0, 0, 1, 1, 0] @ replicate 12 0)) = (Inr b :: (pack_msg, bytes) res) \<and>
    length b = 80 \<and> command_block 0xb b"
proof -
  have "list_all (\<lambda>w. 0 \<le> w \<and> w < 2 ^ 32) [11, 0, 0, 0, 1, 1, 0, 0, 0, 0, 0, 0, 0, 0, 0, 0, 0, 0, 0 :: int]" by simp
  then show ?thesis unfolding replicate_12 append.simps
    by (rule pack_word_command [of _ _ 80 20, unfolded of_nat_numeral]; simp)
qed

lemma macho_header_ok:
  "\<exists>b. struct_pack (replicate 8 U32)
      (map Num [0xfeedfacf, 0x100000c, 0, 6, 7, 480, 0x100085, 0]) = (Inr b :: (pack_msg, bytes) res) \<and>
    length b = 32 \<and>
    struct_unpack (replicate 8 U32) b = map Num [0xfeedfacf, 0x100000c, 0, 6, 7, 480, 0x100085, 0]"
proof -
  have eight: "replicate 8 U32 = [U32, U32, U32, U32, U32, U32, U32, U32]" by (simp add: numeral_eq_Suc)
  have "list_all2 packable (replicate 8 U32) (map Num [0xfeedfacf, 0x100000c, 0, 6, 7, 480, 0x100085, 0])"
    unfolding eight by simp
  from pack_canon [where 'm = pack_msg, OF this]
  obtain b where "struct_pack (replicate 8 U32)
      (map Num [0xfeedfacf, 0x100000c, 0, 6, 7, 480, 0x100085, 0]) = (Inr b :: (pack_msg, bytes) res)"
    "length b = calcsize (replicate 8 U32)" "struct_unpack (replicate 8 U32) (b @ []) =
      map2 canon (replicate 8 U32) (map Num [0xfeedfacf, 0x100000c, 0, 6, 7, 480, 0x100085, 0])"
    by blast
  moreover have "map2 canon (replicate 8 U32) (map Num [0xfeedfacf, 0x100000c, 0, 6, 7, 480, 0x100085, 0]) =
      map Num [0xfeedfacf, 0x100000c, 0, 6, 7, 480, 0x100085, 0]"
    unfolding eight by simp
  moreover have "calcsize (replicate 8 U32) = 32" by (simp add: calcsize_def sum_list_replicate)
  ultimately show ?thesis by simp
qed

lemma macho_nlist_ok:
  "\<exists>b. struct_pack [U32, U8, U8, U16, U64] (map Num [1, 0xf, 1, 0, PAGE]) = (Inr b :: (pack_msg, bytes) res) \<and>
    length b = 16 \<and> struct_unpack [U32, U8, U8, U16, U64] b = map Num [1, 0xf, 1, 0, PAGE]"
proof -
  have "list_all2 packable [U32, U8, U8, U16, U64] (map Num [1, 0xf, 1, 0, PAGE])" by (simp add: PAGE_def)
  from pack_canon [where 'm = pack_msg, OF this]
  obtain b where "struct_pack [U32, U8, U8, U16, U64] (map Num [1, 0xf, 1, 0, PAGE]) = (Inr b :: (pack_msg, bytes) res)"
    "length b = calcsize [U32, U8, U8, U16, U64]"
    "struct_unpack [U32, U8, U8, U16, U64] (b @ []) =
       map2 canon [U32, U8, U8, U16, U64] (map Num [1, 0xf, 1, 0, PAGE])" by blast
  then show ?thesis by (intro exI [of _ b] conjI) (simp_all add: calcsize_def)
qed

text \<open>The whole container, in the order of its parts.\<close>

definition container_image :: "int \<Rightarrow> bytes \<Rightarrow> bytes list \<Rightarrow> bytes \<Rightarrow> bytes \<Rightarrow> bytes" where
  "container_image ts header blocks payload nlist =
     write_at (write_at (write_at (write_at (write_at (replicate (nat (ts + PAGE)) 0)
       0 (header @ concat blocks)) (nat PAGE) payload) (nat ts) export_bytes)
       (nat (ts + 32)) nlist) (nat (ts + 48)) ([0] @ macho_symbol)"

lemma macho_parts:
  assumes "int (length payload) \<le> 2 ^ 31" and ts: "ts = align (PAGE + int (length payload)) PAGE"
  shows "\<exists>header blocks nlist. macho payload platform = Inr (container_image ts header blocks payload nlist) \<and>
     length header = 32 \<and> length nlist = 16 \<and> length (concat blocks) = 480 \<and>
     struct_unpack (replicate 8 U32) header = map Num [0xfeedfacf, 0x100000c, 0, 6, 7, 480, 0x100085, 0] \<and>
     struct_unpack [U32, U8, U8, U16, U64] nlist = map Num [1, 0xf, 1, 0, PAGE] \<and>
     list_all2 command_block [0x19, 0x19, 0xd, 0x32, 0x80000022, 2, 0xb] blocks \<and>
     struct_unpack segment_fmt (blocks ! 0) =
       Num 0x19 # Num 152 # name16 ''__TEXT'' # map Num [0, ts, 0, ts, 5, 5, 1, 0] \<and>
     struct_unpack section_fmt (drop 72 (blocks ! 0)) = name16 ''__artbox'' # name16 ''__TEXT'' #
       map Num [PAGE, int (length payload), PAGE, 14, 0, 0, 0x400, 0, 0, 0] \<and>
     struct_unpack segment_fmt (blocks ! 1) =
       Num 0x19 # Num 72 # name16 ''__LINKEDIT'' # map Num [ts, PAGE, ts, PAGE, 1, 1, 0, 0]"
proof -
  have tsb: "PAGE + int (length payload) \<le> ts" "ts < PAGE + int (length payload) + PAGE"
    using align_bounds [of "PAGE + int (length payload)" 14] ts by (simp_all add: PAGE_def)
  have small: "0 \<le> ts" "ts + 64 < 2 ^ 32" "int (length payload) < 2 ^ 32" using tsb assms(1) by (simp_all add: PAGE_def)
  then have "ts < 2 ^ 32" by simp
  have sizes: "align (int (length export_bytes)) 8 = 32" "length export_bytes = 29" "length macho_symbol = 20"
    by (simp_all add: export_bytes_def symbol_bytes align_def)
  obtain b0 where b0: "macho_text payload ts = Inr b0" "length b0 = 152" "command_block 0x19 b0"
    "struct_unpack segment_fmt b0 = Num 0x19 # Num 152 # name16 ''__TEXT'' # map Num [0, ts, 0, ts, 5, 5, 1, 0]"
    "struct_unpack section_fmt (drop 72 b0) = name16 ''__artbox'' # name16 ''__TEXT'' #
      map Num [PAGE, int (length payload), PAGE, 14, 0, 0, 0x400, 0, 0, 0]"
    using macho_text_ok [OF small(1) \<open>ts < 2 ^ 32\<close> small(3)] by blast
  obtain b1 b2 b3 where b: "macho_linkedit ts = Inr b1" "length b1 = 72" "command_block 0x19 b1"
    "struct_unpack segment_fmt b1 =
      Num 0x19 # Num 72 # name16 ''__LINKEDIT'' # map Num [ts, PAGE, ts, PAGE, 1, 1, 0, 0]"
    "macho_identity = Inr b2" "length b2 = 80" "command_block 0xd b2"
    "macho_build platform = Inr b3" "length b3 = 24" "command_block 0x32 b3"
    using macho_linkedit_ok [OF small(1) \<open>ts < 2 ^ 32\<close>] macho_identity_ok macho_build_ok by blast
  note ok = macho_dyld_ok [OF small(1) \<open>ts < 2 ^ 32\<close>] macho_symtab_ok [OF small(1,2)]
    macho_dysymtab_ok macho_header_ok macho_nlist_ok
  obtain b4 b5 b6 header nlist where w: "length b4 = 48" "command_block 0x80000022 b4"
    "length b5 = 24" "command_block 2 b5" "length b6 = 80" "command_block 0xb b6"
    and h: "length header = 32" "length nlist = 16"
    "struct_unpack (replicate 8 U32) header = map Num [0xfeedfacf, 0x100000c, 0, 6, 7, 480, 0x100085, 0]"
    "struct_unpack [U32, U8, U8, U16, U64] nlist = map Num [1, 0xf, 1, 0, PAGE]"
    and pack: "struct_pack (replicate 12 U32)
      (map Num [0x80000022, 48, 0, 0, 0, 0, 0, 0, 0, 0, ts, 29]) = (Inr b4 :: (pack_msg, bytes) res)"
    "struct_pack (replicate 6 U32)
      (map Num [2, 24, ts + 32, 1, ts + 32 + 16, 21]) = (Inr b5 :: (pack_msg, bytes) res)"
    "struct_pack (replicate 20 U32)
      (map Num ([0xb, 80, 0, 0, 0, 1, 1, 0] @ replicate 12 0)) = (Inr b6 :: (pack_msg, bytes) res)"
    "struct_pack (replicate 8 U32)
      (map Num [0xfeedfacf, 0x100000c, 0, 6, 7, 480, 0x100085, 0]) = (Inr header :: (pack_msg, bytes) res)"
    "struct_pack [U32, U8, U8, U16, U64] (map Num [1, 0xf, 1, 0, PAGE]) = (Inr nlist :: (pack_msg, bytes) res)"
    using ok by blast
  define blocks where "blocks = [b0, b1, b2, b3, b4, b5, b6]"
  define commands where "commands = b0 @ b1 @ b2 @ b3 @ b4 @ b5 @ b6"
  have commands: "int (length commands) = 480" "commands = concat blocks"
    "int (length ([0] @ macho_symbol)) = 21" "int (length export_bytes) = 29"
    using b0 b w sizes by (simp_all add: commands_def blocks_def)
  have align29: "align 29 8 = 32" using sizes(1,2) by simp
  have "macho payload platform = Inr (container_image ts header blocks payload nlist)"
    unfolding macho_def ts [symmetric] Let_def macho_export_eq bind_res_Inr b0(1) b(1,5,8)
      commands(3,4) align29 pack commands_def [symmetric] commands(1)
    using tsb small h commands sizes
    by (simp add: container_image_def slice_assign_eq length_write_at PAGE_def nat_add_distrib add.assoc)
  then show ?thesis
    using b0 b w h commands(1,2) by (intro exI [of _ header] exI [of _ blocks] exI [of _ nlist]) (simp add: blocks_def)
qed


lemma container_reads:
  assumes "length header = 32" "length (concat blocks) = 480" "length nlist = 16" "0 \<le> ts"
    "PAGE + int (length payload) \<le> ts"
  defines "img \<equiv> container_image ts header blocks payload nlist"
  shows "int (length img) = ts + PAGE" "read_at img 0 512 = header @ concat blocks"
    "read_at img (nat PAGE) (length payload) = payload" "read_at img (nat ts) 29 = export_bytes"
    "read_at img (nat (ts + 32)) 16 = nlist" "read_at img (nat (ts + 48)) 21 = 0 # macho_symbol"
proof -
  have sizes: "length export_bytes = 29" "length macho_symbol = 20"
    by (simp_all add: export_bytes_def symbol_bytes)
  have nats: "nat (ts + PAGE) = nat ts + 16384" "nat PAGE = 16384" "nat (ts + 32) = nat ts + 32"
    "nat (ts + 48) = nat ts + 48" "16384 + length payload \<le> nat ts"
    using assms(4,5) by (simp_all add: PAGE_def nat_add_distrib)
  note s = img_def container_image_def nats(1-4) length_write_at read_write_other sizes assms(1-3)
  have "length img = nat ts + 16384" using nats(5) by (simp add: s)
  then show "int (length img) = ts + PAGE" using assms(4) by (simp add: PAGE_def)
  show "read_at img 0 512 = header @ concat blocks"
    using read_write_same [of 0 "header @ concat blocks" "replicate (nat ts + 16384) 0"] nats(5) by (simp add: s)
  show "read_at img (nat PAGE) (length payload) = payload"
    using nats(5) by (simp add: s read_write_same)
  show "read_at img (nat ts) 29 = export_bytes"
    using nats(5) read_write_same [of _ export_bytes] by (simp add: s)
  show "read_at img (nat (ts + 32)) 16 = nlist"
    using nats(5) read_write_same [of _ nlist] by (simp add: s)
  show "read_at img (nat (ts + 48)) 21 = 0 # macho_symbol"
    using nats(5) read_write_same [of _ "0 # macho_symbol"] by (simp add: s)
qed



section \<open>The command\<close>

lemma transformed_small:
  assumes "0 < n" and "4 dvd n" and "n \<le> int (length img)" and "int (length img) \<le> LIMIT div 2"
    and "transformed img n = Inr (payload, sites)"
  shows "int (length payload) \<le> 2 ^ 31"
proof -
  have "int (length sites) \<le> max 0 ((n + 3) div 4)"
    using length_svc_sites [of img n] transformed_InrE(2) [OF assms(1-3,5)] by simp
  moreover have "int (length payload) = align (int (length img)) 4 + 128 * int (length sites)"
    using transformed_frame [OF assms(1-3,5)] by simp
  moreover have "align (int (length img)) 4 < int (length img) + 4"
    using align_bounds [of "int (length img)" 2] by simp
  moreover have "(n + 3) div 4 \<le> n" using assms(1) by simp
  ultimately show ?thesis using assms(1,3,4) by (simp add: LIMIT_def)
qed

text \<open>
  C2. The packer succeeds exactly when the file is within the size limit,
  \<^verbatim>\<open>parse_elf\<close> accepts it and
  \<^verbatim>\<open>inspect_text\<close> accepts its text: for such inputs no veneer is out
  of branch range, no struct field overflows and the container always has room for its
  header.
\<close>

theorem pack_main_succeeds:
  "(\<exists>out. pack_main sha256 ns data platform = Inr out) \<longleftrightarrow>
     int (length data) \<le> LIMIT \<and>
     (\<exists>img n sites. parse_elf data = Inr (img, n) \<and> inspect_text img n = Inr sites)"
proof
  assume "\<exists>out. pack_main sha256 ns data platform = Inr out"
  then obtain img n p where *: "int (length data) \<le> LIMIT" "parse_elf data = Inr (img, n)" "transformed img n = Inr p"
    by (auto simp: pack_main_def res_simps)
  from *(2) show "int (length data) \<le> LIMIT \<and>
     (\<exists>img n sites. parse_elf data = Inr (img, n) \<and> inspect_text img n = Inr sites)"
    using * by (cases p) (auto simp: transformed_def bind_res_Inr_iff)
next
  assume "int (length data) \<le> LIMIT \<and>
     (\<exists>img n sites. parse_elf data = Inr (img, n) \<and> inspect_text img n = Inr sites)"
  then obtain img n sites where *: "int (length data) \<le> LIMIT" "parse_elf data = Inr (img, n)"
    "inspect_text img n = Inr sites" by blast
  from *(2) have n: "0 < n" "4 dvd n" "n \<le> int (length img)" "int (length img) \<le> LIMIT div 2"
    by (cases rule: parse_elf_slice, simp)+
  then obtain payload where p: "transformed img n = Inr (payload, sites)"
    using transformed_ok [OF n] *(3) by blast
  obtain out where "macho payload platform = Inr out"
    using macho_parts [OF transformed_small [OF n p] refl] by blast
  then show "\<exists>out. pack_main sha256 ns data platform = Inr out"
    using * p by (simp add: pack_main_def)
qed

lemma read_at_inner: "i + k \<le> n \<Longrightarrow> read_at (read_at xs j n) i k = read_at xs (j + i) k"
  by (simp add: read_at_def drop_take add.commute min_def)

text \<open>
  C1. The packer as a whole: when \<^verbatim>\<open>main\<close> of
  \<^verbatim>\<open>tools/pack_elf.py\<close> accepts a file, the Mach-O file it produces
  holds the rewritten image at file offset PAGE, and in the text of that image every SVC
  instruction of the input, and nothing else, has become an unconditional branch; the
  reported offsets are exactly the SVC sites and there is at least one.
\<close>

theorem pack_main_no_svc:
  assumes "pack_main sha256 ns data platform = Inr out"
  shows "\<exists>img n. parse_elf data = Inr (img, n) \<and>
    svc_offsets (pack_info_json out) = svc_sites img n \<and> svc_sites img n \<noteq> [] \<and>
    guest_image_size out = length (payload_bin out) \<and>
    read_at (converted_dylib out) (nat PAGE) (length (payload_bin out)) = payload_bin out \<and>
    (\<forall>pc \<in> set (py_range 0 n 4).
       decode (word_at (converted_dylib out) (nat (PAGE + pc))) =
         (if pc \<in> set (svc_offsets (pack_info_json out)) then Some B else decode (word_at img (nat pc))))"
proof -
  obtain img n payload sites conv where *: "parse_elf data = Inr (img, n)" "transformed img n = Inr (payload, sites)"
    "macho payload platform = Inr conv" "payload_bin out = payload" "converted_dylib out = conv"
    "svc_offsets (pack_info_json out) = sites" "guest_image_size out = length payload"
    using assms by (auto simp: pack_main_def res_simps)
  from *(1) have n: "0 < n" "4 dvd n" "n \<le> int (length img)" "int (length img) \<le> LIMIT div 2"
    by (cases rule: parse_elf_slice, simp)+
  note t = transformed_InrE [OF n(1-3) *(2)]
  have "sites \<noteq> []" using t(1) inspect_text_iff [OF n(1-3)] by blast
  define ts where "ts = align (PAGE + int (length payload)) PAGE"
  have tsb: "PAGE + int (length payload) \<le> ts" "0 \<le> ts"
    using align_bounds [of "PAGE + int (length payload)" 14] by (simp_all add: ts_def PAGE_def)
  obtain header blocks nlist where h: "conv = container_image ts header blocks payload nlist"
    "length header = 32" "length nlist = 16" "length (concat blocks) = 480"
    using macho_parts [OF transformed_small [OF n *(2)] ts_def, of platform] *(3) by auto
  have conv: "read_at conv (nat PAGE) (length payload) = payload"
    using container_reads(3) [OF h(2,4,3) tsb(2,1)] h(1) by simp
  have "decode (word_at conv (nat (PAGE + pc))) = (if pc \<in> set sites then Some B else decode (word_at img (nat pc)))"
    if "pc \<in> set (py_range 0 n 4)" for pc
  proof -
    note pc = text_pcs [OF n(2,3) that]
    have "nat pc + 4 \<le> length payload"
      using conjunct1 [OF transformed_frame [OF n(1-3) *(2)]] align_bounds(1) [of "int (length img)" 2] pc by simp
    then have "word_at conv (nat PAGE + nat pc) = word_at payload (nat pc)"
      using read_at_inner [of "nat pc" 4 "length payload" conv "nat PAGE"] conv by (simp add: word_at_def)
    moreover have "nat (PAGE + pc) = nat PAGE + nat pc" using pc by (simp add: PAGE_def nat_add_distrib)
    moreover have "pc \<in> set sites \<longleftrightarrow> decode (word_at img (nat pc)) = Some SVC"
      using t(2) that by (simp add: svc_sites_def)
    ultimately show ?thesis using rewritten_decode [OF n(1-3) *(2) that] by simp
  qed
  then show ?thesis using * t(2) conv \<open>sites \<noteq> []\<close> by auto
qed

end
