(* ===== verification/Pack_Sample.thy ===== *)
theory Pack_Sample
  imports Macho_Writer
begin

text \<open>
  A complete 628-byte ELF file that \<open>parse_elf\<close> accepts: one load segment at address 0, a
  text that ends in an \<^verbatim>\<open>ADR\<close> instruction, four bytes of constants, a symbol table and one
  \<^verbatim>\<open>R_AARCH64_ADR_PREL_LO21\<close> entry.  Its parts are evaluated one read at a time, and the two
  theorems on accepted files are applied to it.
\<close>


definition sample_front :: bytes where
  "sample_front =
    [127, 69, 76, 70, 2, 1, 1, 0, 0, 0, 0, 0, 0, 0, 0, 0, 2, 0, 183, 0, 1, 0, 0, 0,
     0, 0, 0, 0, 0, 0, 0, 0, 64, 0, 0, 0, 0, 0, 0, 0, 128, 0, 0, 0, 0, 0, 0, 0,
     0, 0, 0, 0, 64, 0, 56, 0, 1, 0, 64, 0, 6, 0, 5, 0, 1, 0, 0, 0, 5, 0, 0, 0,
     0, 64, 0, 0, 0, 0, 0, 0, 0, 0, 0, 0, 0, 0, 0, 0, 0, 0, 0, 0, 0, 0, 0, 0,
     16, 0, 0, 0, 0, 0, 0, 0, 16, 0, 0, 0, 0, 0, 0, 0, 0, 64, 0, 0, 0, 0, 0, 0,
     0, 0, 0, 0, 0, 0, 0, 0, 0, 0, 0, 0, 0, 0, 0, 0, 0, 0, 0, 0, 0, 0, 0, 0,
     0, 0, 0, 0, 0, 0, 0, 0, 0, 0, 0, 0, 0, 0, 0, 0, 0, 0, 0, 0, 0, 0, 0, 0,
     0, 0, 0, 0, 0, 0, 0, 0, 0, 0, 0, 0, 0, 0, 0, 0, 0, 0, 0, 0, 0, 0, 0, 0,
     1, 0, 0, 0, 1, 0, 0, 0, 6, 0, 0, 0, 0, 0, 0, 0, 0, 0, 0, 0, 0, 0, 0, 0,
     0, 64, 0, 0, 0, 0, 0, 0, 12, 0, 0, 0, 0, 0, 0, 0, 0, 0, 0, 0, 0, 0, 0, 0,
     4, 0, 0, 0, 0, 0, 0, 0, 0, 0, 0, 0, 0, 0, 0, 0, 7, 0, 0, 0, 1, 0, 0, 0,
     2, 0, 0, 0, 0, 0, 0, 0, 12, 0, 0, 0, 0, 0, 0, 0, 12, 64, 0, 0, 0, 0, 0, 0,
     4, 0, 0, 0, 0, 0, 0, 0, 0, 0, 0, 0, 0, 0, 0, 0, 1, 0, 0, 0, 0, 0, 0, 0,
     0, 0, 0, 0, 0, 0, 0, 0, 15, 0, 0, 0, 4, 0, 0, 0, 0, 0, 0, 0, 0, 0, 0, 0,
     0, 0, 0, 0, 0, 0, 0, 0, 92, 2, 0, 0, 0, 0, 0, 0, 24, 0, 0, 0, 0, 0, 0, 0,
     4, 0, 0, 0, 1, 0, 0, 0, 8, 0, 0, 0, 0, 0, 0, 0, 24, 0, 0, 0, 0, 0, 0, 0,
     26, 0, 0, 0, 2, 0, 0, 0, 0, 0, 0, 0, 0, 0, 0, 0, 0, 0, 0, 0, 0, 0, 0, 0,
     44, 2, 0, 0, 0, 0, 0, 0, 48, 0, 0, 0, 0, 0, 0, 0, 5, 0, 0, 0, 1, 0, 0, 0,
     8, 0, 0, 0, 0, 0, 0, 0, 24, 0, 0, 0, 0, 0, 0, 0, 34, 0, 0, 0, 3, 0, 0, 0,
     0, 0, 0, 0, 0, 0, 0, 0, 0, 0, 0, 0, 0, 0, 0, 0, 0, 2, 0, 0, 0, 0, 0, 0,
     44, 0, 0, 0, 0, 0, 0, 0, 0, 0, 0, 0, 0, 0, 0, 0, 1, 0, 0, 0, 0, 0, 0, 0,
     0, 0, 0, 0, 0, 0, 0, 0, 0, 46, 116, 101, 120, 116, 0, 46, 114, 111, 100, 97, 116, 97, 0, 46,
     114, 101, 108, 97, 46, 116, 101, 120, 116, 0, 46, 115, 121, 109, 116, 97, 98, 0, 46, 115, 104, 115, 116, 114,
     116, 97, 98, 0, 0, 0, 0, 0, 0, 0, 0, 0, 0, 0, 0, 0, 0, 0, 0, 0, 0, 0, 0, 0,
     0, 0, 0, 0, 0, 0, 0, 0, 0, 0, 2, 0, 12, 0, 0, 0, 0, 0, 0, 0, 4, 0, 0, 0,
     0, 0, 0, 0, 0, 0, 0, 0, 0, 0, 0, 0, 18, 1, 0, 0, 1, 0, 0, 0, 0, 0, 0, 0,
     0, 0, 0, 0]"

text \<open>\<^verbatim>\<open>adr x0, .+12; svc #0; b .-8\<close> and a constant.\<close>

definition sample_image :: bytes where
  "sample_image =
    [96, 0, 0, 16, 1, 0, 0, 212, 254, 255, 255, 23, 42, 0, 0, 0]"

definition sample_elf :: bytes where
  "sample_elf = sample_front @ replicate 15756 0 @ sample_image"

lemma sample_front_length: "length sample_front = 628"
  by (simp add: sample_front_def)

lemma sample_length: "length sample_elf = 16400"
  by (simp add: sample_elf_def sample_front_length sample_image_def)

lemma sample_reads_front: "i + n \<le> 628 \<Longrightarrow> read_at sample_elf i n = read_at sample_front i n"
  unfolding sample_elf_def by (rule read_at_append_left) (simp add: sample_front_length)

lemma sample_slice: "py_slice sample_elf 16384 16400 = sample_image"
  by (simp add: py_slice_nonneg sample_elf_def sample_front_length) (simp add: sample_image_def)

lemma sample_reads:
  "read_at sample_elf 0 64 =
    [127, 69, 76, 70, 2, 1, 1, 0, 0, 0, 0, 0, 0, 0, 0, 0, 2, 0, 183, 0, 1, 0, 0, 0,
     0, 0, 0, 0, 0, 0, 0, 0, 64, 0, 0, 0, 0, 0, 0, 0, 128, 0, 0, 0, 0, 0, 0, 0,
     0, 0, 0, 0, 64, 0, 56, 0, 1, 0, 64, 0, 6, 0, 5, 0]"
  "read_at sample_elf 64 56 =
    [1, 0, 0, 0, 5, 0, 0, 0, 0, 64, 0, 0, 0, 0, 0, 0, 0, 0, 0, 0, 0, 0, 0, 0,
     0, 0, 0, 0, 0, 0, 0, 0, 16, 0, 0, 0, 0, 0, 0, 0, 16, 0, 0, 0, 0, 0, 0, 0,
     0, 64, 0, 0, 0, 0, 0, 0]"
  "read_at sample_elf 128 64 =
    [0, 0, 0, 0, 0, 0, 0, 0, 0, 0, 0, 0, 0, 0, 0, 0, 0, 0, 0, 0, 0, 0, 0, 0,
     0, 0, 0, 0, 0, 0, 0, 0, 0, 0, 0, 0, 0, 0, 0, 0, 0, 0, 0, 0, 0, 0, 0, 0,
     0, 0, 0, 0, 0, 0, 0, 0, 0, 0, 0, 0, 0, 0, 0, 0]"
  "read_at sample_elf 192 64 =
    [1, 0, 0, 0, 1, 0, 0, 0, 6, 0, 0, 0, 0, 0, 0, 0, 0, 0, 0, 0, 0, 0, 0, 0,
     0, 64, 0, 0, 0, 0, 0, 0, 12, 0, 0, 0, 0, 0, 0, 0, 0, 0, 0, 0, 0, 0, 0, 0,
     4, 0, 0, 0, 0, 0, 0, 0, 0, 0, 0, 0, 0, 0, 0, 0]"
  "read_at sample_elf 256 64 =
    [7, 0, 0, 0, 1, 0, 0, 0, 2, 0, 0, 0, 0, 0, 0, 0, 12, 0, 0, 0, 0, 0, 0, 0,
     12, 64, 0, 0, 0, 0, 0, 0, 4, 0, 0, 0, 0, 0, 0, 0, 0, 0, 0, 0, 0, 0, 0, 0,
     1, 0, 0, 0, 0, 0, 0, 0, 0, 0, 0, 0, 0, 0, 0, 0]"
  "read_at sample_elf 320 64 =
    [15, 0, 0, 0, 4, 0, 0, 0, 0, 0, 0, 0, 0, 0, 0, 0, 0, 0, 0, 0, 0, 0, 0, 0,
     92, 2, 0, 0, 0, 0, 0, 0, 24, 0, 0, 0, 0, 0, 0, 0, 4, 0, 0, 0, 1, 0, 0, 0,
     8, 0, 0, 0, 0, 0, 0, 0, 24, 0, 0, 0, 0, 0, 0, 0]"
  "read_at sample_elf 384 64 =
    [26, 0, 0, 0, 2, 0, 0, 0, 0, 0, 0, 0, 0, 0, 0, 0, 0, 0, 0, 0, 0, 0, 0, 0,
     44, 2, 0, 0, 0, 0, 0, 0, 48, 0, 0, 0, 0, 0, 0, 0, 5, 0, 0, 0, 1, 0, 0, 0,
     8, 0, 0, 0, 0, 0, 0, 0, 24, 0, 0, 0, 0, 0, 0, 0]"
  "read_at sample_elf 448 64 =
    [34, 0, 0, 0, 3, 0, 0, 0, 0, 0, 0, 0, 0, 0, 0, 0, 0, 0, 0, 0, 0, 0, 0, 0,
     0, 2, 0, 0, 0, 0, 0, 0, 44, 0, 0, 0, 0, 0, 0, 0, 0, 0, 0, 0, 0, 0, 0, 0,
     1, 0, 0, 0, 0, 0, 0, 0, 0, 0, 0, 0, 0, 0, 0, 0]"
  "read_at sample_elf 604 24 =
    [0, 0, 0, 0, 0, 0, 0, 0, 18, 1, 0, 0, 1, 0, 0, 0, 0, 0, 0, 0, 0, 0, 0, 0]"
  "read_at sample_elf 580 24 =
    [0, 0, 0, 0, 0, 0, 2, 0, 12, 0, 0, 0, 0, 0, 0, 0, 4, 0, 0, 0, 0, 0, 0, 0]"
  by (simp_all add: sample_reads_front, simp_all add: read_at_def sample_front_def)

lemma sample_reads_text: "read_at sample_elf 16384 4 = [96, 0, 0, 16]"
  by (simp add: read_at_def sample_elf_def sample_front_length) (simp add: sample_image_def)

lemma sample_names: "py_slice sample_elf 512 556 = [0, 46, 116, 101, 120, 116, 0, 46, 114, 111, 100, 97, 116, 97, 0, 46, 114, 101, 108, 97, 46, 116, 101, 120, 116, 0, 46, 115, 121, 109, 116, 97, 98, 0, 46, 115, 104, 115, 116, 114, 116, 97, 98, 0]"
  by (simp add: py_slice_nonneg sample_elf_def sample_front_length) (simp add: sample_front_def)

lemma elf_read_eval:
  "0 \<le> off \<Longrightarrow> off + int (calcsize fs) \<le> int (length data) \<Longrightarrow>
   elf_read data fs off = Inr (struct_unpack fs (read_at data (nat off) (calcsize fs)))"
  by (simp add: elf_read_Inr_iff)

lemma calcsizes: "calcsize ehdr_fmt = 64" "calcsize phdr_fmt = 56" "calcsize shdr_fmt = 64" "calcsize [U64, U64, S64] = 24"
  "calcsize [U32, U8, U8, U16, U64, U64] = 24" "calcsize [U32] = 4"
  by (simp_all add: calcsize_def ehdr_fmt_def phdr_fmt_def shdr_fmt_def)

lemma sample_ehdr:
  "read_ehdr sample_elf = Inr \<lparr>e_ident = [0x7f, 0x45, 0x4c, 0x46, 2, 1, 1, 0, 0, 0, 0, 0, 0, 0, 0, 0],
     e_kind = 2, e_machine = 183, e_version = 1, e_entry = 0, e_phoff = 64, e_shoff = 128,
     e_flags = 0, e_ehsize = 64, e_phsize = 56, e_phnum = 1, e_shsize = 64, e_shnum = 6,
     e_names_index = 5\<rparr>"
  by (simp add: read_ehdr_def elf_read_eval calcsizes sample_length sample_reads) (simp add: ehdr_of_def ehdr_fmt_def)

definition sample_shdrs :: "shdr list" where
  "sample_shdrs = map (shdr_of \<circ> map Num)
     [[0, 0, 0, 0, 0, 0, 0, 0, 0, 0],
      [1, 1, 6, 0, 16384, 12, 0, 0, 4, 0],
      [7, 1, 2, 12, 16396, 4, 0, 0, 1, 0],
      [15, 4, 0, 0, 604, 24, 4, 1, 8, 24],
      [26, 2, 0, 0, 556, 48, 5, 1, 8, 24],
      [34, 3, 0, 0, 512, 44, 0, 0, 1, 0]]"

lemma sample_phdr: "read_phdr sample_elf 64 = Inr \<lparr>p_type = 1, p_perms = 5, p_offset = 16384, p_base = 0,
     p_physical = 0, p_size = 16, p_memory = 16, p_alignment = 16384\<rparr>"
  by (simp add: read_phdr_def elf_read_eval calcsizes sample_length sample_reads)
    (simp add: phdr_of_def phdr_fmt_def)

lemma sample_range: "py_range 0 6 1 = [0, 1, 2, 3, 4, 5]"
  by (simp add: py_range_def upt_rec)

lemma sample_shdr:
  "read_shdr sample_elf 128 = Inr (sample_shdrs ! 0)" "read_shdr sample_elf 192 = Inr (sample_shdrs ! 1)"
  "read_shdr sample_elf 256 = Inr (sample_shdrs ! 2)" "read_shdr sample_elf 320 = Inr (sample_shdrs ! 3)"
  "read_shdr sample_elf 384 = Inr (sample_shdrs ! 4)" "read_shdr sample_elf 448 = Inr (sample_shdrs ! 5)"
  by (simp_all add: read_shdr_def elf_read_eval calcsizes sample_length sample_reads)
    (simp_all add: shdr_fmt_def sample_shdrs_def)

lemma sample_sections:
  "e_shoff h = 128 \<Longrightarrow> e_shnum h = 6 \<Longrightarrow> read_sections sample_elf h = Inr sample_shdrs"
  by (simp add: read_sections_def sample_range sample_shdr) (simp add: sample_shdrs_def)

lemma sample_find:
  "bytes_find 0 (py_slice sample_elf 512 556) 0 = 0" "bytes_find 0 (py_slice sample_elf 512 556) 1 = 6"
  "bytes_find 0 (py_slice sample_elf 512 556) 7 = 14" "bytes_find 0 (py_slice sample_elf 512 556) 15 = 25"
  "bytes_find 0 (py_slice sample_elf 512 556) 26 = 33" "bytes_find 0 (py_slice sample_elf 512 556) 34 = 43"
  unfolding sample_names by (simp_all add: bytes_find_def)

lemma sample_decode:
  "decode_ascii (py_slice (py_slice sample_elf 512 556) 0 0) = Inr ''''"
  "decode_ascii (py_slice (py_slice sample_elf 512 556) 1 6) = Inr ''.text''"
  "decode_ascii (py_slice (py_slice sample_elf 512 556) 7 14) = Inr ''.rodata''"
  "decode_ascii (py_slice (py_slice sample_elf 512 556) 15 25) = Inr ''.rela.text''"
  "decode_ascii (py_slice (py_slice sample_elf 512 556) 26 33) = Inr ''.symtab''"
  "decode_ascii (py_slice (py_slice sample_elf 512 556) 34 43) = Inr ''.shstrtab''"
  unfolding sample_names by (simp_all add: py_slice_nonneg decode_ascii_def char_of_def bit_0)

lemma sample_names_length: "length (py_slice sample_elf 512 556) = 44"
  by (simp add: sample_names)

definition sample_by_name :: by_name where
  "sample_by_name = zip ['''', ''.text'', ''.rodata'', ''.rela.text'', ''.symtab'', ''.shstrtab'']
     (zip [0, 1, 2, 3, 4, 5] sample_shdrs)"

lemma sample_by_name:
  assumes "p_base p = 0" "p_size p = 16" "p_offset p = 16384"
  shows "foldM (parse_section sample_elf p (py_slice sample_elf 512 556)) []
     (zip [0, 1, 2, 3, 4, 5] sample_shdrs) = Inr sample_by_name"
  using assms
  by (simp add: sample_shdrs_def sample_by_name_def parse_section_def shdr_of_def sample_find sample_decode
      sample_names_length sample_length check_allocated_def)

lemma sample_relocation:
  assumes "e_entry h = 0" "e_shnum h = 6" "p_base p = 0" "p_size p = 16" "p_offset p = 16384"
  shows "check_relocation sample_elf h p (sample_shdrs ! 1) (sample_shdrs ! 4) 604 = Inr ()"
  using assms
  apply (simp add: check_relocation_def elf_read_eval calcsizes sample_length sample_reads sample_reads_text to_signed_def)
  apply (simp add: elf_read_eval calcsizes sample_length sample_reads sample_reads_text sample_shdrs_def shdr_of_def adr_immediate_def signed_int_def)
  done


lemma sample_shdrs_fields:
  "sh_type (sample_shdrs ! 5) = 3" "sh_fileoff (sample_shdrs ! 5) = 512" "sh_length (sample_shdrs ! 5) = 44"
  by (simp_all add: sample_shdrs_def shdr_of_def)

lemma sample_relocations:
  assumes "e_entry h = 0" "e_shnum h = 6" "p_base p = 0" "p_size p = 16" "p_offset p = 16384"
  shows "foldM (\<lambda>_. check_relocation_section sample_elf h p sample_shdrs 1 (sample_shdrs ! 1)) ()
    sample_by_name = Inr ()"
proof -
  have "sh_fileoff (sample_shdrs ! 3) = 604" by (simp add: sample_shdrs_def shdr_of_def)
  have "py_range 604 628 24 = [604]" by (simp add: py_range_def)
  then show ?thesis using assms sample_relocation [OF assms]
    by (simp add: foldM_unit_iff check_relocation_section_def sample_by_name_def sample_shdrs_def shdr_of_def)
qed

lemma sample_by_name_get:
  "dict_get sample_by_name ''.text'' = Inr (1, sample_shdrs ! 1)"
  "dict_get sample_by_name ''.rodata'' = Inr (2, sample_shdrs ! 2)"
  "{''.text'', ''.rodata'', ''.rela.text''} \<subseteq> fst ` set sample_by_name"
  by (simp_all add: dict_get_def sample_by_name_def sample_shdrs_def)

lemma sample_text_fields:
  "sh_flags (sample_shdrs ! 1) = 6" "sh_address (sample_shdrs ! 1) = 0" "sh_fileoff (sample_shdrs ! 1) = 16384"
  "sh_length (sample_shdrs ! 1) = 12" "sh_flags (sample_shdrs ! 2) = 2"
  "sh_address (sample_shdrs ! 2) = 12" "sh_length (sample_shdrs ! 2) = 4"
  by (simp_all add: sample_shdrs_def shdr_of_def)

lemma sample_parse: "parse_elf sample_elf = Inr (sample_image, 12)"
  by (simp only: parse_elf_def sample_ehdr bind_res_Inr)
    (simp add: sample_phdr sample_sections PAGE_def LIMIT_def
      py_slice_nonneg [of 0 7] sample_range sample_length sample_slice sample_shdrs_fields sample_by_name
      sample_by_name_get [unfolded One_nat_def, simplified] sample_text_fields [unfolded One_nat_def]
      sample_relocations [unfolded One_nat_def])

theorem parse_elf_image_witness:
  "\<exists>h p. read_ehdr sample_elf = Inr h \<and> read_phdr sample_elf (e_phoff h) = Inr p \<and> e_entry h = p_base p \<and>
     sample_image = take (nat (p_size p)) (drop (nat (p_offset p)) sample_elf) \<and> p_size p = 16"
  using parse_elf_image [OF sample_parse] by (auto simp: sample_image_def)

theorem parse_elf_relocations_witness:
  "\<exists>r. elf_read sample_elf [U64, U64, S64] 604 = Inr r \<and>
    word_at sample_image (nat (num (r ! 0))) AND 0x9f000000 = 0x10000000"
proof -
  have h: "3 < length sample_shdrs" by (simp add: sample_shdrs_def)
  have s: "sample_shdrs ! 3 \<in> set sample_shdrs" "sh_type (sample_shdrs ! 3) = 4"
    "604 \<in> set (py_range (sh_fileoff (sample_shdrs ! 3)) (sh_fileoff (sample_shdrs ! 3) + sh_length (sample_shdrs ! 3)) 24)"
    using nth_mem [OF h] by (simp_all add: sample_shdrs_def shdr_of_def in_py_range_iff)
  note e = sample_ehdr
  show ?thesis
    using parse_elf_relocations [OF sample_parse e _ sample_sections s, unfolded ehdr.select_convs, OF sample_phdr]
    by (auto simp: Let_def)
qed

section \<open>Rewriting the sample\<close>

lemma sample_words:
  "word_at sample_image 0 = 0x10000060" "word_at sample_image 4 = 0xd4000001"
  "word_at sample_image 8 = 0x17fffffe" "length sample_image = 16"
  by (simp_all add: word_at_def sample_image_def read_at_def)

lemma sample_insns: "decode 0xd4000001 = Some SVC" "decode 0x10000060 = Some ADR" "decode 0x17fffffe = Some B"
  by (simp_all add: decode_def insn_table_def insn_matches_def)

lemma sample_pcs: "py_range 0 12 4 = [0, 4, 8]"
  by (simp add: py_range_def upt_rec)

lemma sample_inspect: "inspect_text sample_image 12 = Inr [4]"
proof -
  have "svc_sites sample_image 12 = [4]"
    by (simp add: svc_sites_def sample_pcs sample_words sample_insns)
  moreover have "\<forall>pc \<in> set (py_range 0 12 4). admissible sample_image 12 pc"
    by (simp add: sample_pcs admissible_def Let_def sample_words sample_insns field_def adr_immediate_def
        signed_int_def)
  ultimately show ?thesis
    by (subst inspect_text_iff) (simp_all add: sample_words sample_insns)
qed


theorem guest_stays_in_text_witness:
  "\<exists>sites. inspect_text sample_image 12 = Inr sites \<and> guest_reach sample_image 8 \<and>
     (0::int) \<le> 8 \<and> admissible sample_image 12 8"
proof -
  have "guest_reach sample_image 4"
    using guest_step.fallthrough [of sample_image 0 ADR] guest_reach.entry [of sample_image]
    by (auto intro: guest_reach.step simp: sample_words sample_insns)
  moreover have "guest_step sample_image 4 8"
    using guest_step.fallthrough [of sample_image 4 SVC] by (simp add: sample_words sample_insns)
  ultimately have "guest_reach sample_image 8" by (rule guest_reach.step)
  then show ?thesis
    using guest_stays_in_text [of 12 sample_image "[4]" 8] sample_inspect by (simp add: sample_words)
qed

theorem inspect_text_accepts_witness:
  "(\<exists>sites. inspect_text sample_image 12 = Inr sites) \<and> admissible sample_image 12 0 \<and>
     {pc. 0 \<le> pc \<and> pc < 12 \<and> 4 dvd pc \<and> decode (word_at sample_image (nat pc)) = Some SVC} = {4}"
  using inspect_text_accepts [of 12 sample_image] sample_inspect by (simp add: sample_words)

lemma sample_transformed: "\<exists>payload. transformed sample_image 12 = Inr (payload, [4])"
  using transformed_ok [of 12 sample_image "[4]"] sample_inspect by (simp add: sample_words LIMIT_def)

theorem transformed_rewrites_witness:
  "\<exists>payload. transformed sample_image 12 = Inr (payload, [4]) \<and> length payload = 144 \<and>
     branches_to payload 4 16 \<and> branches_to payload 140 8 \<and> payload ! 12 = 0x2a"
proof -
  obtain p where p: "transformed sample_image 12 = Inr (p, [4])" using sample_transformed by blast
  have "align 16 4 = 16" by (simp add: align_def)
  then show ?thesis
    using p transformed_rewrites [of 12 sample_image p "[4]"]
    by (auto simp: sample_words sample_image_def)
qed

lemma sample_pack: "\<exists>out. pack_main (\<lambda>_. '''') 0 sample_elf ''ios'' = Inr out"
proof -
  obtain p where p: "transformed sample_image 12 = Inr (p, [4])" using sample_transformed by blast
  have "int (length p) \<le> 2 ^ 31"
    by (rule transformed_small [of 12 sample_image p "[4]"]) (use p in \<open>simp_all add: sample_words LIMIT_def\<close>)
  then obtain m where "macho p ''ios'' = Inr m" using macho_parts by blast
  then show ?thesis using p by (simp add: pack_main_def sample_parse sample_length LIMIT_def)
qed

theorem pack_main_no_svc_witness:
  "\<exists>out. pack_main (\<lambda>_. '''') 0 sample_elf ''ios'' = Inr out \<and>
     read_at (converted_dylib out) (nat PAGE) (length (payload_bin out)) = payload_bin out \<and>
     svc_offsets (pack_info_json out) = [4] \<and>
     decode (word_at (converted_dylib out) 16388) = Some B"
proof -
  obtain out where out: "pack_main (\<lambda>_. '''') 0 sample_elf ''ios'' = Inr out" using sample_pack by blast
  have "svc_sites sample_image 12 = [4]"
    by (simp add: svc_sites_def sample_pcs sample_words sample_insns)
  then show ?thesis
    using pack_main_no_svc [OF out] out sample_parse by (intro exI [of _ out]) (simp add: sample_pcs PAGE_def)
qed


lemma uleb_roundtrip_witness:
  "uleb (- 1) = Inl (ValueError Byte_out_of_range) \<and>
   (\<exists>bs. uleb 624485 = Inr bs \<and> uleb_decode (bs @ [7]) = Some (624485, [7]))"
  using uleb_roundtrip [of "- 1"] uleb_roundtrip [of 624485] by auto

end
