(* ===== verification/Wrap_Dynamic.thy ===== *)
theory Wrap_Dynamic
  imports Elf_Image
begin

text \<open>
  The wrapper for shared ELF files, \<^verbatim>\<open>src/tools/wrap_dynamic.py\<close>: \<open>pack_layout\<close> splits a
  two-segment AArch64 shared object into a read-execute and a read-write image, and
  \<open>verify_macho\<close> checks the Mach-O file the platform linker made of them.  The digest is a
  parameter of both (\<^verbatim>\<open>hashlib.sha256\<close>).  The theorems relate the two images to the memory
  an ELF loader would build and show what a verified Mach-O file guarantees.
\<close>

unbundle bit_operations_syntax

section \<open>Constants and reading\<close>

definition WRAP_LIMIT :: int where
  "WRAP_LIMIT = 64 * 1024 * 1024"

datatype (plugins only: code) wrap_msg =
    Truncated_binary_structure
  | ELF_exceeds_limit
  | Wrap_expected_ELF64
  | Expected_AArch64_ET_DYN
  | Invalid_program_header_table
  | Unsupported_program_header
  | Program_header_exceeds_bounds
  | Virtual_address_overflow
  | Invalid_segment_alignment
  | Executable_guest_stack
  | Requires_two_loads_and_dynamic
  | Expected_distinct_RX_and_RW
  | Read_only_image_must_begin_at_zero
  | Header_or_entry_escapes_RX
  | Requires_16_KiB_aligned_segments
  | Overlapping_or_excessive_image
  | Overlapping_file_segments
  | Duplicate_TLS_template
  | TLS_escapes_writable_load
  | TLS_initializer_not_mapped
  | Dynamic_table_not_writable_data
  | Expected_arm64_dylib
  | Invalid_command_table
  | Invalid_load_command
  | Invalid_macho_segment_bounds
  | Writable_executable_segment
  | Duplicate_or_misplaced_section
  | Section_escapes_segment
  | Section_addressing_changed
  | Guest_bytes_changed
  | Incomplete_load_commands
  | Load_bias_not_preserved
  | Input_exceeds_wrapper_limit

definition wrap_read :: "bytes \<Rightarrow> fmt list \<Rightarrow> int \<Rightarrow> (wrap_msg, sval list) res" where
  "wrap_read data fs offset =
     require (0 \<le> offset \<and> offset \<le> int (length data) - int (calcsize fs))
       (ValueError Truncated_binary_structure) (unpack_from fs data offset)"

section \<open>The layout of a shared object\<close>

record segment =
  seg_index :: int
  seg_address :: int
  seg_offset :: int
  seg_file_size :: int
  seg_memory_size :: int
  seg_flags :: int
  seg_alignment :: int

record wrap_layout =
  lay_input_sha256 :: string
  lay_rx_bytes :: int
  lay_rw_bytes :: int
  lay_rx_sha256 :: string
  lay_rw_sha256 :: string
  lay_loads :: "segment list"

text \<open>The three lists filled by the loop over the program headers.\<close>

record headers =
  loads :: "segment list"
  dynamic :: "segment list"
  tls :: "segment list"

definition allowed_types :: "int list" where
  "allowed_types = [1, 2, 4, 6, 7, 0x6474e550, 0x6474e551, 0x6474e552]"

definition header_step :: "bytes \<Rightarrow> int \<Rightarrow> headers \<Rightarrow> int \<Rightarrow> (wrap_msg, headers) res" where
  "header_step data phoff hs index =
     bind_res (wrap_read data phdr_fmt (phoff + index * 56)) (\<lambda>vs.
     let p = phdr_of vs; len = int (length data) in
     require (p_type p \<in> set allowed_types \<and> p_perms p AND NOT 7 = 0) (ValueError Unsupported_program_header)
    (require (p_offset p \<le> len \<and> p_size p \<le> len - p_offset p \<and> p_size p \<le> p_memory p)
       (ValueError Program_header_exceeds_bounds)
    (require (p_base p + p_memory p \<le> push_bit 64 1) (ValueError Virtual_address_overflow)
    (require (p_alignment p \<in> {0, 1} \<or> p_alignment p AND (p_alignment p - 1) = 0)
       (ValueError Invalid_segment_alignment)
    (let s = \<lparr>seg_index = index, seg_address = p_base p, seg_offset = p_offset p,
               seg_file_size = p_size p, seg_memory_size = p_memory p, seg_flags = p_perms p,
               seg_alignment = p_alignment p\<rparr> in
     if p_type p = 1 then Inr (hs\<lparr>loads := loads hs @ [s]\<rparr>)
     else if p_type p = 2 then Inr (hs\<lparr>dynamic := dynamic hs @ [s]\<rparr>)
     else if p_type p = 7 then Inr (hs\<lparr>tls := tls hs @ [s]\<rparr>)
     else if p_type p = 0x6474e551 then
       require (p_perms p AND 1 = 0) (ValueError Executable_guest_stack) (Inr hs)
     else Inr hs)))))"

definition check_alignment :: "segment \<Rightarrow> (wrap_msg, unit) res" where
  "check_alignment s =
     require (seg_alignment s = PAGE \<and> seg_address s mod PAGE = seg_offset s mod PAGE \<and> seg_offset s mod PAGE = 0)
       (ValueError Requires_16_KiB_aligned_segments) (Inr ())"

definition check_tls :: "segment \<Rightarrow> segment \<Rightarrow> (wrap_msg, unit) res" where
  "check_tls writable t =
     (let relative = seg_address t - seg_address writable; sz = seg_memory_size writable in
      require (seg_flags t AND 1 = 0 \<and> 0 \<le> relative \<and> relative \<le> sz \<and> 0 < seg_memory_size t \<and>
               seg_memory_size t \<le> sz - relative \<and> seg_alignment t \<le> 1024 * 1024)
        (ValueError TLS_escapes_writable_load)
     (require (seg_file_size t = 0 \<or>
               relative \<le> seg_file_size writable \<and> seg_file_size t \<le> seg_file_size writable - relative \<and>
               seg_offset t = seg_offset writable + relative)
        (ValueError TLS_initializer_not_mapped) (Inr ())))"

definition check_dynamic :: "segment \<Rightarrow> segment \<Rightarrow> (wrap_msg, unit) res" where
  "check_dynamic writable t =
     (let relative = seg_address t - seg_address writable in
      require (seg_flags t = 6 \<and> 0 \<le> relative \<and> relative \<le> seg_file_size writable - seg_file_size t \<and>
               16 \<le> seg_file_size t \<and> seg_file_size t = seg_memory_size t \<and> seg_file_size t mod 16 = 0 \<and>
               seg_offset t = seg_offset writable + relative)
        (ValueError Dynamic_table_not_writable_data) (Inr ()))"

definition zeros :: "int \<Rightarrow> bytes" where
  "zeros n = replicate (nat n) 0"

definition pack_layout ::
  "(bytes \<Rightarrow> string) \<Rightarrow> bytes \<Rightarrow> (wrap_msg, bytes \<times> bytes \<times> wrap_layout) res" where
  "pack_layout digest data =
     require (int (length data) \<le> WRAP_LIMIT) (ValueError ELF_exceeds_limit)
    (bind_res (wrap_read data ehdr_fmt 0) (\<lambda>vs.
     let h = ehdr_of vs; phoff = e_phoff h; phnum = e_phnum h in
     require (py_slice (e_ident h) 0 7 = [0x7f, 0x45, 0x4c, 0x46, 2, 1, 1] \<and> e_ident h ! 7 \<in> {0, 3})
       (ValueError Wrap_expected_ELF64)
    (require (e_kind h = 3 \<and> e_machine h = 183 \<and> e_version h = 1 \<and> e_flags h = 0 \<and> e_ehsize h = 64 \<and>
              e_phsize h = 56) (ValueError Expected_AArch64_ET_DYN)
    (require (phoff \<ge> 64 \<and> 2 \<le> phnum \<and> phnum \<le> 16) (ValueError Invalid_program_header_table)
    (bind_res (foldM (header_step data phoff) \<lparr>loads = [], dynamic = [], tls = []\<rparr> (py_range 0 phnum 1)) (\<lambda>hs.
     require (length (loads hs) = 2 \<and> length (dynamic hs) = 1) (ValueError Requires_two_loads_and_dynamic)
    (let ordered = sort_key seg_address (loads hs); code = ordered ! 0; writable = ordered ! 1 in
     require (seg_flags code = 5 \<and> seg_flags writable = 6) (ValueError Expected_distinct_RX_and_RW)
    (require (seg_address code = seg_offset code \<and> seg_offset code = 0 \<and> seg_file_size code = seg_memory_size code)
       (ValueError Read_only_image_must_begin_at_zero)
    (require (seg_file_size code \<ge> phoff + phnum * 56 \<and> e_entry h < seg_file_size code)
       (ValueError Header_or_entry_escapes_RX)
    (bind_res (foldM (\<lambda>_. check_alignment) () (loads hs)) (\<lambda>_.
     let split = seg_address writable; sz = seg_memory_size writable in
     require (seg_memory_size code \<le> split \<and> 0 < sz \<and> sz \<le> WRAP_LIMIT \<and> split + sz \<le> WRAP_LIMIT)
       (ValueError Overlapping_or_excessive_image)
    (require (seg_offset writable \<ge> seg_file_size code) (ValueError Overlapping_file_segments)
    (require (length (tls hs) \<le> 1) (ValueError Duplicate_TLS_template)
    (bind_res (foldM (\<lambda>_. check_tls writable) () (tls hs)) (\<lambda>_.
     bind_res (check_dynamic writable (dynamic hs ! 0)) (\<lambda>_.
     let rx = py_slice data 0 (seg_file_size code) @ zeros (split - seg_file_size code);
         rw = py_slice data (seg_offset writable) (seg_offset writable + seg_file_size writable) @
              zeros (sz - seg_file_size writable) in
     Inr (rx, rw, \<lparr>lay_input_sha256 = digest data, lay_rx_bytes = int (length rx), lay_rw_bytes = int (length rw),
       lay_rx_sha256 = digest rx, lay_rw_sha256 = digest rw, lay_loads = [code, writable]\<rparr>)))))))))))))))))"

section \<open>Verification of the linked file\<close>

definition until_nul :: "bytes \<Rightarrow> bytes" where
  "until_nul bs = takeWhile (\<lambda>b. b \<noteq> 0) bs"

definition macho_segment_fmt :: "fmt list" where
  "macho_segment_fmt = [U32, U32, Raw 16, U64, U64, U64, U64, U32, U32, U32, U32]"

definition macho_section_fmt :: "fmt list" where
  "macho_section_fmt = [Raw 16, Raw 16, U64, U64] @ replicate 8 U32"

record mseg =
  ms_name :: bytes
  ms_address :: int
  ms_memory :: int
  ms_offset :: int
  ms_file_size :: int
  ms_maximum :: int
  ms_initial :: int
  ms_sections :: int

definition mseg_of :: "sval list \<Rightarrow> mseg" where
  "mseg_of vs = \<lparr>ms_name = until_nul (raw (vs ! 2)), ms_address = num (vs ! 3), ms_memory = num (vs ! 4),
     ms_offset = num (vs ! 5), ms_file_size = num (vs ! 6), ms_maximum = num (vs ! 7),
     ms_initial = num (vs ! 8), ms_sections = num (vs ! 9)\<rparr>"

type_synonym found = "(bytes \<times> int) list"

definition TEXT_SEG :: bytes where "TEXT_SEG = [95, 95, 84, 69, 88, 84]"
definition DATA_SEG :: bytes where "DATA_SEG = [95, 95, 68, 65, 84, 65]"
definition ARTBOX_SECT :: bytes where "ARTBOX_SECT = [95, 95, 97, 114, 116, 98, 111, 120]"

definition verify_section ::
  "(bytes \<Rightarrow> string) \<Rightarrow> bytes \<Rightarrow> wrap_layout \<Rightarrow> mseg \<Rightarrow> int \<Rightarrow> found \<Rightarrow> int \<Rightarrow> (wrap_msg, found) res" where
  "verify_section digest data layout m position found index =
     bind_res (wrap_read data macho_section_fmt (position + 72 + index * 80)) (\<lambda>s.
     let sname = until_nul (raw (s ! 0)); seg = until_nul (raw (s ! 1)); name = ms_name m in
     if sname \<noteq> ARTBOX_SECT then Inr found else
     require (seg = name \<and> name \<in> {TEXT_SEG, DATA_SEG} \<and> name \<notin> set (dict_keys found))
       (ValueError Duplicate_or_misplaced_section)
    (let target = num (s ! 2); len = num (s ! 3); fileoff = num (s ! 4); alignment = num (s ! 5);
         relocation_offset = num (s ! 6); relocations = num (s ! 7); flags = num (s ! 8) in
     require (ms_address m \<le> target \<and> target \<le> ms_address m + ms_memory m - len \<and>
              ms_offset m \<le> fileoff \<and> fileoff \<le> ms_offset m + ms_file_size m - len)
       (ValueError Section_escapes_segment)
    (require (target - ms_address m = fileoff - ms_offset m \<and> target mod PAGE = 0 \<and> alignment = 14 \<and>
              relocation_offset = relocations \<and> relocations = 0 \<and> flags AND 0xff = 0)
       (ValueError Section_addressing_changed)
    (let rx = (name = TEXT_SEG) in
     require (ms_initial m = (if rx then 5 else 3) \<and>
              len = (if rx then lay_rx_bytes layout else lay_rw_bytes layout) \<and>
              digest (py_slice data fileoff (fileoff + len)) =
                (if rx then lay_rx_sha256 layout else lay_rw_sha256 layout))
       (ValueError Guest_bytes_changed)
    (Inr (dict_set found name target))))))"

definition verify_segment ::
  "(bytes \<Rightarrow> string) \<Rightarrow> bytes \<Rightarrow> wrap_layout \<Rightarrow> int \<Rightarrow> int \<Rightarrow> found \<Rightarrow> (wrap_msg, found) res" where
  "verify_segment digest data layout position sz found =
     bind_res (wrap_read data macho_segment_fmt position) (\<lambda>vs.
     let m = mseg_of vs; len = int (length data) in
     require (sz = 72 + ms_sections m * 80 \<and> ms_address m + ms_memory m \<le> push_bit 64 1 \<and>
              ms_offset m \<le> len \<and> ms_file_size m \<le> len - ms_offset m \<and> ms_file_size m \<le> ms_memory m)
       (ValueError Invalid_macho_segment_bounds)
    (require (ms_initial m AND 6 \<noteq> 6 \<and> ms_maximum m AND 6 \<noteq> 6 \<and> ms_initial m AND NOT (ms_maximum m) = 0)
       (ValueError Writable_executable_segment)
    (foldM (verify_section digest data layout m position) found (py_range 0 (ms_sections m) 1))))"

definition verify_command ::
  "(bytes \<Rightarrow> string) \<Rightarrow> bytes \<Rightarrow> wrap_layout \<Rightarrow> int \<Rightarrow> int \<times> found \<Rightarrow> int \<Rightarrow> (wrap_msg, int \<times> found) res" where
  "verify_command digest data layout stop st index =
     (case st of (position, found) \<Rightarrow>
      bind_res (wrap_read data [U32, U32] position) (\<lambda>vs.
      let cmd = num (vs ! 0); sz = num (vs ! 1) in
      require (sz \<ge> 8 \<and> sz mod 8 = 0 \<and> position + sz \<le> stop) (ValueError Invalid_load_command)
     (bind_res (if cmd = 0x19 then verify_segment digest data layout position sz found else Inr found) (\<lambda>found'.
      Inr (position + sz, found')))))"

record verified =
  load_bias :: int
  rx_address :: int
  rw_address :: int
  macho_sha256 :: string

definition verify_macho ::
  "(bytes \<Rightarrow> string) \<Rightarrow> bytes \<Rightarrow> wrap_layout \<Rightarrow> (wrap_msg, verified) res" where
  "verify_macho digest data layout =
     bind_res (wrap_read data (replicate 8 U32) 0) (\<lambda>h.
     require (num (h ! 0) = 0xfeedfacf \<and> num (h ! 1) = 0x100000c \<and> num (h ! 2) = 0 \<and> num (h ! 3) = 6)
       (ValueError Expected_arm64_dylib)
    (let count = num (h ! 4); commands_size = num (h ! 5) in
     require (count \<le> 256 \<and> commands_size \<le> int (length data) - 32) (ValueError Invalid_command_table)
    (bind_res (foldM (verify_command digest data layout (32 + commands_size)) (32, []) (py_range 0 count 1))
     (\<lambda>(position, found).
     require (position = 32 + commands_size \<and> length found = 2) (ValueError Incomplete_load_commands)
    (bind_res (dict_get found TEXT_SEG) (\<lambda>bias.
     bind_res (dict_get found DATA_SEG) (\<lambda>rw.
     require (rw = bias + seg_address (lay_loads layout ! 1)) (ValueError Load_bias_not_preserved)
    (Inr \<lparr>load_bias = bias, rx_address = bias, rw_address = rw, macho_sha256 = digest data\<rparr>))))))))"

section \<open>The command\<close>

definition wrapper_asm :: string where
  "wrapper_asm =
     ''.section __TEXT,__artbox,regular'' @ [CHR 0x0A] @ ''.p2align 14'' @ [CHR 0x0A] @
     ''.globl _artbox_dynamic_rx'' @ [CHR 0x0A] @ ''_artbox_dynamic_rx:'' @ [CHR 0x0A] @
     ''.incbin '' @ [CHR 0x22] @ ''image.rx'' @ [CHR 0x22, CHR 0x0A] @
     ''.section __DATA,__artbox,regular'' @ [CHR 0x0A] @ ''.p2align 14'' @ [CHR 0x0A] @
     ''.globl _artbox_dynamic_rw'' @ [CHR 0x0A] @ ''_artbox_dynamic_rw:'' @ [CHR 0x0A] @
     ''.incbin '' @ [CHR 0x22] @ ''image.rw'' @ [CHR 0x22, CHR 0x0A]"

record wrap_output =
  image_rx :: bytes
  image_rw :: bytes
  layout_json :: wrap_layout
  wrapper_file :: string

definition wrap_main :: "(bytes \<Rightarrow> string) \<Rightarrow> bytes \<Rightarrow> (wrap_msg, wrap_output) res" where
  "wrap_main digest data =
     require (int (length data) \<le> WRAP_LIMIT) (ValueError Input_exceeds_wrapper_limit)
    (bind_res (pack_layout digest data) (\<lambda>(rx, rw, layout).
     Inr \<lparr>image_rx = rx, image_rw = rw, layout_json = layout, wrapper_file = wrapper_asm\<rparr>))"

section \<open>The memory an ELF file describes\<close>

text \<open>The program headers as the file format defines them, read without any check.\<close>

definition phdr_at :: "bytes \<Rightarrow> int \<Rightarrow> phdr" where
  "phdr_at data off = phdr_of (struct_unpack phdr_fmt (read_at data (nat off) 56))"

definition program_headers :: "bytes \<Rightarrow> phdr list" where
  "program_headers data =
     (let h = ehdr_of (struct_unpack ehdr_fmt (read_at data 0 64))
      in map (\<lambda>i. phdr_at data (e_phoff h + i * 56)) (py_range 0 (e_phnum h) 1))"

lemma wrap_read_Inr_iff:
  "wrap_read data fs off = Inr vs \<longleftrightarrow> 0 \<le> off \<and> off + int (calcsize fs) \<le> int (length data) \<and>
     vs = struct_unpack fs (read_at data (nat off) (calcsize fs))"
  using unpack_from_Inr_iff [of off fs data vs, where 'a = wrap_msg]
  by (auto simp: wrap_read_def require_Inr_iff)

lemma wrap_read_num:
  assumes "wrap_read data fs off = Inr vs" and "i < length fs" and "fs ! i \<in> {U8, U16, U32, U64}"
  shows "0 \<le> num (vs ! i)"
proof -
  have "(unpack_from fs data off :: (wrap_msg, sval list) res) = Inr vs"
    using assms(1) by (simp add: wrap_read_def require_Inr_iff)
  then show ?thesis using unpack_from_fits fits_unsignedD assms(2,3) by blast
qed

lemma calcsize_headers: "calcsize ehdr_fmt = 64" "calcsize phdr_fmt = 56"
  by (simp_all add: calcsize_def ehdr_fmt_def phdr_fmt_def)

definition seg_of :: "int \<Rightarrow> phdr \<Rightarrow> segment" where
  "seg_of index p = \<lparr>seg_index = index, seg_address = p_base p, seg_offset = p_offset p,
     seg_file_size = p_size p, seg_memory_size = p_memory p, seg_flags = p_perms p,
     seg_alignment = p_alignment p\<rparr>"

definition phdr_ok :: "bytes \<Rightarrow> phdr \<Rightarrow> bool" where
  "phdr_ok data p \<longleftrightarrow> 0 \<le> p_offset p \<and> 0 \<le> p_base p \<and> 0 \<le> p_size p \<and>
     p_offset p + p_size p \<le> int (length data) \<and> p_size p \<le> p_memory p \<and>
     (p_type p = 0x6474e551 \<longrightarrow> p_perms p AND 1 = 0)"

lemma header_step_Inr:
  assumes "header_step data phoff hs i = Inr hs'"
  shows "phdr_ok data (phdr_at data (phoff + i * 56))"
    and "loads hs' = loads hs @ (if p_type (phdr_at data (phoff + i * 56)) = 1 then [seg_of i (phdr_at data (phoff + i * 56))] else [])"
    and "dynamic hs' = dynamic hs @ (if p_type (phdr_at data (phoff + i * 56)) = 2 then [seg_of i (phdr_at data (phoff + i * 56))] else [])"
    and "tls hs' = tls hs @ (if p_type (phdr_at data (phoff + i * 56)) = 7 then [seg_of i (phdr_at data (phoff + i * 56))] else [])"
proof -
  obtain vs where vs: "wrap_read data phdr_fmt (phoff + i * 56) = Inr vs"
    using assms by (auto simp: header_step_def bind_res_Inr_iff)
  have p: "phdr_of vs = phdr_at data (phoff + i * 56)"
    using vs by (simp add: wrap_read_Inr_iff phdr_at_def calcsize_headers)
  have nonneg: "0 \<le> p_offset (phdr_of vs)" "0 \<le> p_base (phdr_of vs)" "0 \<le> p_size (phdr_of vs)"
    using wrap_read_num [OF vs] by (simp_all add: phdr_of_def phdr_fmt_def)
  note step = assms [unfolded header_step_def vs bind_res_Inr Let_def seg_of_def [symmetric] p]
  show "phdr_ok data (phdr_at data (phoff + i * 56))"
    using step nonneg unfolding p by (auto simp: phdr_ok_def res_simps split: if_splits)
  show "loads hs' = loads hs @ (if p_type (phdr_at data (phoff + i * 56)) = 1 then [seg_of i (phdr_at data (phoff + i * 56))] else [])"
    "dynamic hs' = dynamic hs @ (if p_type (phdr_at data (phoff + i * 56)) = 2 then [seg_of i (phdr_at data (phoff + i * 56))] else [])"
    "tls hs' = tls hs @ (if p_type (phdr_at data (phoff + i * 56)) = 7 then [seg_of i (phdr_at data (phoff + i * 56))] else [])"
    using step by (auto simp: res_simps split: if_splits)
qed

text \<open>The three lists hold the headers of types 1, 2 and 7, in order.\<close>

definition typed :: "bytes \<Rightarrow> int \<Rightarrow> int \<Rightarrow> int list \<Rightarrow> segment list" where
  "typed data phoff t ixs =
     map (\<lambda>i. seg_of i (phdr_at data (phoff + i * 56))) (filter (\<lambda>i. p_type (phdr_at data (phoff + i * 56)) = t) ixs)"

lemma header_loop:
  assumes "foldM (header_step data phoff) hs ixs = Inr hs'"
  shows "(\<forall>i \<in> set ixs. phdr_ok data (phdr_at data (phoff + i * 56))) \<and>
    loads hs' = loads hs @ typed data phoff 1 ixs \<and> dynamic hs' = dynamic hs @ typed data phoff 2 ixs \<and>
    tls hs' = tls hs @ typed data phoff 7 ixs"
  using assms
proof (induction "ixs" arbitrary: hs)
  case Nil
  then show ?case by (simp add: typed_def)
next
  case (Cons i "ixs")
  obtain h where h: "header_step data phoff hs i = Inr h" "foldM (header_step data phoff) h ixs = Inr hs'"
    using Cons.prems by (auto simp: bind_res_Inr_iff)
  show ?case using Cons.IH [OF h(2)] header_step_Inr [OF h(1)] by (auto simp: typed_def)
qed

lemma pack_layout_InrE:
  assumes "pack_layout digest data = Inr (rx, rw, lay)"
  obtains h hs code writable where
    "h = ehdr_of (struct_unpack ehdr_fmt (read_at data 0 64))"
    "foldM (header_step data (e_phoff h)) \<lparr>loads = [], dynamic = [], tls = []\<rparr> (py_range 0 (e_phnum h) 1) = Inr hs"
    "sort_key seg_address (loads hs) = [code, writable]" "length (dynamic hs) = 1"
    "seg_flags code = 5" "seg_flags writable = 6" "seg_address code = 0" "seg_offset code = 0"
    "seg_file_size code = seg_memory_size code" "e_phoff h + e_phnum h * 56 \<le> seg_file_size code"
    "e_entry h < seg_file_size code" "\<forall>s \<in> set (loads hs). check_alignment s = Inr ()"
    "seg_memory_size code \<le> seg_address writable" "0 < seg_memory_size writable"
    "seg_address writable + seg_memory_size writable \<le> WRAP_LIMIT"
    "\<forall>t \<in> set (tls hs). check_tls writable t = Inr ()"
    "check_dynamic writable (dynamic hs ! 0) = Inr ()"
    "rx = py_slice data 0 (seg_file_size code) @ zeros (seg_address writable - seg_file_size code)"
    "rw = py_slice data (seg_offset writable) (seg_offset writable + seg_file_size writable) @
       zeros (seg_memory_size writable - seg_file_size writable)"
    "lay = \<lparr>lay_input_sha256 = digest data, lay_rx_bytes = int (length rx), lay_rw_bytes = int (length rw),
       lay_rx_sha256 = digest rx, lay_rw_sha256 = digest rw, lay_loads = [code, writable]\<rparr>"
proof -
  obtain vs where vs: "wrap_read data ehdr_fmt 0 = Inr vs"
    using assms by (auto simp: pack_layout_def res_simps)
  have h: "ehdr_of vs = ehdr_of (struct_unpack ehdr_fmt (read_at data 0 64))"
    using vs by (simp add: wrap_read_Inr_iff calcsize_headers)
  note body = assms [unfolded pack_layout_def vs bind_res_Inr Let_def]
  obtain hs where hs: "foldM (header_step data (e_phoff (ehdr_of vs))) \<lparr>loads = [], dynamic = [], tls = []\<rparr>
      (py_range 0 (e_phnum (ehdr_of vs)) 1) = Inr hs"
    using body by (auto simp only: res_simps)
  define code where "code = sort_key seg_address (loads hs) ! 0"
  define writable where "writable = sort_key seg_address (loads hs) ! 1"
  note rest = body [unfolded hs bind_res_Inr, folded code_def writable_def]
  have two: "length (sort_key seg_address (loads hs)) = 2" using rest by (auto simp only: res_simps length_sort)
  then have ordered: "sort_key seg_address (loads hs) = [code, writable]"
    by (auto simp: code_def writable_def length_Suc_conv numeral_2_eq_2)
  have units: "foldM (\<lambda>_. f) () xs = Inr u \<longleftrightarrow> (\<forall>x \<in> set xs. f x = Inr ())"
    for f :: "segment \<Rightarrow> (wrap_msg, unit) res" and xs u by (rule foldM_unit_nonempty_iff)
  from rest show thesis
    apply (simp only: res_simps sum.inject prod.inject units)
    apply (elim exE conjE)
    apply (rule that [OF h, of hs code writable]; (rule hs | rule ordered | assumption | simp))
    done
qed


text \<open>An image agrees with the file on \<open>n\<close> bytes from \<open>address\<close> and offset \<open>off\<close>.\<close>

definition maps :: "bytes \<Rightarrow> bytes \<Rightarrow> int \<Rightarrow> int \<Rightarrow> int \<Rightarrow> bool" where
  "maps img data address off n \<longleftrightarrow>
     (\<forall>k < nat n. nat address + k < length img \<and> img ! (nat address + k) = data ! (nat off + k))"

lemma maps_part:
  assumes "maps img data a off n" and "0 \<le> a" "0 \<le> off" "0 \<le> rel" and "rel + m \<le> n"
  shows "maps img data (a + rel) (off + rel) m"
  unfolding maps_def
proof (intro allI impI)
  fix k assume "k < nat m"
  then have "nat rel + k < nat n" using assms(4,5) by linarith
  then show "nat (a + rel) + k < length img \<and> img ! (nat (a + rel) + k) = data ! (nat (off + rel) + k)"
    using assms by (auto simp: maps_def nat_add_distrib add.assoc)
qed

lemma typed_mem:
  "s \<in> set (typed data phoff t (py_range 0 n 1)) \<longleftrightarrow>
     (\<exists>i \<in> set (py_range 0 n 1). p_type (phdr_at data (phoff + i * 56)) = t \<and> s = seg_of i (phdr_at data (phoff + i * 56)))"
  by (auto simp: typed_def)

lemma seg_of_simps [simp]:
  "seg_address (seg_of i p) = p_base p" "seg_offset (seg_of i p) = p_offset p"
  "seg_file_size (seg_of i p) = p_size p" "seg_memory_size (seg_of i p) = p_memory p"
  by (simp_all add: seg_of_def)

lemma nth_padding: "length xs \<le> i \<Longrightarrow> i < length (xs @ replicate n x) \<Longrightarrow> (xs @ replicate n x) ! i = x"
  by (simp add: nth_append)

lemma two_images:
  assumes "0 \<le> fs" "fs \<le> split" "fs \<le> int (length data)" "0 \<le> off" "0 \<le> ws" "ws \<le> m" "off + ws \<le> int (length data)"
    and rx: "rx = py_slice data 0 fs @ zeros (split - fs)"
    and rw: "rw = py_slice data off (off + ws) @ zeros (m - ws)"
  shows "int (length rx) = split" "int (length rw) = m" "maps (rx @ rw) data 0 0 fs"
    "maps (rx @ rw) data split off ws"
    "a < length (rx @ rw) \<Longrightarrow> fs \<le> int a \<Longrightarrow> int a < split \<or> split + ws \<le> int a \<Longrightarrow> (rx @ rw) ! a = 0"
proof -
  have rx1: "rx = take (nat fs) data @ replicate (nat (split - fs)) 0"
    using assms(1) by (simp add: rx py_slice_nonneg zeros_def)
  have rw1: "rw = take (nat ws) (drop (nat off) data) @ replicate (nat (m - ws)) 0"
    using assms(4,5) by (simp add: rw py_slice_nonneg zeros_def nat_add_distrib)
  have len: "length rx = nat split" "length rw = nat m"
    using assms(1-7) by (auto simp: rx1 rw1 min_def nat_diff_distrib')
  then show "int (length rx) = split" "int (length rw) = m" using assms(1,2,5,6) by simp_all
  show "maps (rx @ rw) data 0 0 fs"
    using assms(1-3) len by (auto simp: maps_def rx1 nth_append)
  show "maps (rx @ rw) data split off ws"
    using assms(1-7) len by (auto simp: maps_def rw1 nth_append)
  show "(rx @ rw) ! a = 0" if "a < length (rx @ rw)" "fs \<le> int a" "int a < split \<or> split + ws \<le> int a" for a
  proof (cases "int a < split")
    case True
    then have "rx ! a = 0" using that(2) assms(1-3) by (auto simp: rx1 nth_append min_def)
    then show ?thesis using True len assms(1,2) by (auto simp: nth_append)
  next
    case False
    then have "(rx @ rw) ! a = rw ! (a - nat split)" using len assms(1,2) by (auto simp: nth_append)
    moreover have "a - nat split < length rw" "nat ws \<le> a - nat split" using that False len assms by auto
    moreover have "length (take (nat ws) (drop (nat off) data)) = nat ws" using assms(4-7) by auto
    ultimately show ?thesis using nth_padding [of "take (nat ws) (drop (nat off) data)"] by (simp add: rw1)
  qed
qed

text \<open>
  C9. The two images refine the ELF memory model: when
  \<^verbatim>\<open>pack_layout\<close> accepts a shared object, the read-execute and
  read-write images, one after the other, hold exactly the file bytes of every load, dynamic
  and TLS program header at their virtual addresses and zeros everywhere else; the split is
  page aligned and at the address of the writable load, and the total is within the limit.
\<close>

theorem pack_layout_image:
  assumes "pack_layout digest data = Inr (rx, rw, lay)"
  shows "(\<exists>code writable. lay_loads lay = [code, writable] \<and> seg_flags code = 5 \<and> seg_flags writable = 6 \<and>
       seg_address code = 0 \<and> seg_address writable = int (length rx)) \<and>
    PAGE dvd int (length rx) \<and> int (length (rx @ rw)) \<le> WRAP_LIMIT \<and>
    (\<forall>p \<in> set (program_headers data). p_type p \<in> {1, 2, 7} \<longrightarrow>
       maps (rx @ rw) data (p_base p) (p_offset p) (p_size p)) \<and>
    (\<forall>a < length (rx @ rw).
       (\<forall>p \<in> set (program_headers data). p_type p = 1 \<longrightarrow> int a < p_base p \<or> p_base p + p_size p \<le> int a) \<longrightarrow>
       (rx @ rw) ! a = 0)"
  using assms
proof (cases rule: pack_layout_InrE)
  case (1 h hs code writable)
  define ixs where "ixs = py_range 0 (e_phnum h) 1"
  define ph where "ph i = phdr_at data (e_phoff h + i * 56)" for i
  have hdrs: "program_headers data = map ph ixs"
    by (simp add: program_headers_def Let_def ph_def ixs_def 1(1))
  have ok: "\<forall>i \<in> set ixs. phdr_ok data (ph i)"
    and lists: "loads hs = typed data (e_phoff h) 1 ixs" "dynamic hs = typed data (e_phoff h) 2 ixs"
      "tls hs = typed data (e_phoff h) 7 ixs"
    using header_loop [OF 1(2)] by (simp_all add: ixs_def ph_def)
  have typed: "s \<in> set (typed data (e_phoff h) t ixs) \<longleftrightarrow> (\<exists>i \<in> set ixs. p_type (ph i) = t \<and> s = seg_of i (ph i))" for s t
    by (simp add: ixs_def ph_def typed_mem)
  have mem: "set (loads hs) = {code, writable}" using 1(3) by (metis set_sort list.set(1,2))
  have cw: "code \<in> set (typed data (e_phoff h) 1 ixs)" "writable \<in> set (typed data (e_phoff h) 1 ixs)"
    using mem lists(1) by auto
  obtain ic iw where ic: "ic \<in> set ixs" "p_type (ph ic) = 1" "code = seg_of ic (ph ic)"
    and iw: "iw \<in> set ixs" "p_type (ph iw) = 1" "writable = seg_of iw (ph iw)" using cw typed by blast
  have bounds: "0 \<le> seg_file_size code" "seg_file_size code \<le> int (length data)" "0 \<le> seg_offset writable"
    "0 \<le> seg_file_size writable" "seg_file_size writable \<le> seg_memory_size writable" "0 \<le> seg_address writable"
    "seg_offset writable + seg_file_size writable \<le> int (length data)"
    using ok ic iw 1(8) by (auto simp: phdr_ok_def)
  have cs: "seg_file_size code \<le> seg_address writable" using 1(9,13) by simp
  note im = two_images [OF bounds(1) cs bounds(2,3,4,5,7) 1(18,19)]
  have align: "seg_address writable mod PAGE = 0" using 1(12) mem by (auto simp: check_alignment_def require_Inr_iff)
  have maps1: "maps (rx @ rw) data (seg_address s) (seg_offset s) (seg_file_size s)" if "s \<in> set (loads hs)" for s
    using that mem im(3,4) 1(7,8) by auto
  have part: "maps (rx @ rw) data (seg_address t) (seg_offset t) (seg_file_size t)"
    if "0 \<le> seg_address t - seg_address writable" "seg_offset t = seg_offset writable + (seg_address t - seg_address writable)"
      "seg_address t - seg_address writable + seg_file_size t \<le> seg_file_size writable" for t
    using maps_part [OF im(4) bounds(6,3) that(1,3)] that(2) by simp
  have maps2: "maps (rx @ rw) data (seg_address s) (seg_offset s) (seg_file_size s)" if "s \<in> set (dynamic hs)" for s
  proof -
    have "s = dynamic hs ! 0" using that 1(4) by (auto simp: in_set_conv_nth)
    then show ?thesis using 1(17) by (intro part) (auto simp: check_dynamic_def Let_def require_Inr_iff)
  qed
  have maps7: "maps (rx @ rw) data (seg_address s) (seg_offset s) (seg_file_size s)" if "s \<in> set (tls hs)" for s
  proof (cases "seg_file_size s = 0")
    case False
    then show ?thesis
      using 1(16) that by (intro part) (force simp: check_tls_def Let_def require_Inr_iff)+
  qed (simp add: maps_def)
  have mapped: "maps (rx @ rw) data (p_base p) (p_offset p) (p_size p)"
    if p: "p \<in> set (program_headers data)" "p_type p \<in> {1, 2, 7}" for p
  proof -
    obtain i where i: "i \<in> set ixs" "p = ph i" using p(1) hdrs by auto
    then have "seg_of i p \<in> set (loads hs) \<union> set (dynamic hs) \<union> set (tls hs)"
      using p(2) unfolding lists Un_iff typed by blast
    then show ?thesis using maps1 [of "seg_of i p"] maps2 [of "seg_of i p"] maps7 [of "seg_of i p"] by auto
  qed
  have zero: "(rx @ rw) ! a = 0" if "a < length (rx @ rw)"
    "\<forall>p \<in> set (program_headers data). p_type p = 1 \<longrightarrow> int a < p_base p \<or> p_base p + p_size p \<le> int a" for a
    using that ic iw hdrs 1(7) by (intro im(5)) force+
  show ?thesis
    using 1(5-7,15,20) im(1,2) align mapped zero by (auto simp: dvd_eq_mod_eq_0)
qed


section \<open>What verification of the linked file guarantees\<close>

text \<open>A recorded guest section: its bytes lie in the file and have the expected size and digest.\<close>

definition section_sound :: "(bytes \<Rightarrow> string) \<Rightarrow> bytes \<Rightarrow> int \<Rightarrow> string \<Rightarrow> int \<Rightarrow> bool" where
  "section_sound digest data len sha target \<longleftrightarrow> PAGE dvd target \<and>
     (\<exists>off. 0 \<le> off \<and> off + len \<le> int (length data) \<and> digest (py_slice data off (off + len)) = sha)"

definition found_sound :: "(bytes \<Rightarrow> string) \<Rightarrow> bytes \<Rightarrow> wrap_layout \<Rightarrow> found \<Rightarrow> bool" where
  "found_sound digest data layout found \<longleftrightarrow> distinct (dict_keys found) \<and>
     set (dict_keys found) \<subseteq> {TEXT_SEG, DATA_SEG} \<and>
     (\<forall>target. (TEXT_SEG, target) \<in> set found \<longrightarrow>
        section_sound digest data (lay_rx_bytes layout) (lay_rx_sha256 layout) target) \<and>
     (\<forall>target. (DATA_SEG, target) \<in> set found \<longrightarrow>
        section_sound digest data (lay_rw_bytes layout) (lay_rw_sha256 layout) target)"

definition mseg_at :: "bytes \<Rightarrow> int \<Rightarrow> mseg" where
  "mseg_at data pos = mseg_of (struct_unpack macho_segment_fmt (read_at data (nat pos) 72))"

definition never_wx :: "mseg \<Rightarrow> bool" where
  "never_wx m \<longleftrightarrow> ms_initial m AND 6 \<noteq> 6 \<and> ms_maximum m AND 6 \<noteq> 6 \<and> ms_initial m AND NOT (ms_maximum m) = 0"

text \<open>The offsets of the load commands, following the size field of each.\<close>

fun command_offsets :: "bytes \<Rightarrow> nat \<Rightarrow> int \<Rightarrow> int list" where
  "command_offsets data 0 pos = []"
| "command_offsets data (Suc n) pos = pos # command_offsets data n (pos + word_at data (nat pos + 4))"

lemma seg_names: "TEXT_SEG \<noteq> DATA_SEG"
  by (simp add: TEXT_SEG_def DATA_SEG_def)

lemma verify_section_sound:
  assumes "verify_section digest data layout m position found i = Inr found'"
    and "found_sound digest data layout found" and "ms_offset m + ms_file_size m \<le> int (length data)"
    and "0 \<le> ms_offset m"
  shows "found_sound digest data layout found'"
proof -
  obtain s where s: "wrap_read data macho_section_fmt (position + 72 + i * 80) = Inr s"
    using assms(1) by (auto simp: verify_section_def bind_res_Inr_iff)
  note step = assms(1) [unfolded verify_section_def s bind_res_Inr Let_def]
  show ?thesis
  proof (cases "until_nul (raw (s ! 0)) = ARTBOX_SECT")
    case False
    then show ?thesis using step assms(2) by simp
  next
    case True
    have fresh: "ms_name m \<in> {TEXT_SEG, DATA_SEG}" "ms_name m \<notin> set (dict_keys found)"
      and found': "found' = dict_set found (ms_name m) (num (s ! 2))"
      and sect: "num (s ! 2) mod PAGE = 0" "ms_offset m \<le> num (s ! 4)" "num (s ! 4) \<le> ms_offset m + ms_file_size m - num (s ! 3)"
        "num (s ! 3) = (if ms_name m = TEXT_SEG then lay_rx_bytes layout else lay_rw_bytes layout)"
        "digest (py_slice data (num (s ! 4)) (num (s ! 4) + num (s ! 3))) =
          (if ms_name m = TEXT_SEG then lay_rx_sha256 layout else lay_rw_sha256 layout)"
      using step True by (auto simp only: res_simps if_False simp_thms sum.inject)
    have "section_sound digest data (num (s ! 3))
        (if ms_name m = TEXT_SEG then lay_rx_sha256 layout else lay_rw_sha256 layout) (num (s ! 2))"
      using sect assms(3,4) unfolding section_sound_def
      by (intro conjI exI [of _ "num (s ! 4)"]) auto
    moreover have "found' = found @ [(ms_name m, num (s ! 2))]" using found' fresh(2) by (simp add: dict_set_fresh)
    ultimately show ?thesis
      using assms(2) fresh sect(4) seg_names unfolding found_sound_def by auto
  qed
qed

lemma verify_segment_sound:
  assumes "verify_segment digest data layout position sz found = Inr found'"
    and "found_sound digest data layout found"
  shows "found_sound digest data layout found' \<and> never_wx (mseg_at data position)"
proof -
  obtain vs where vs: "wrap_read data macho_segment_fmt position = Inr vs"
    using assms(1) by (auto simp: verify_segment_def bind_res_Inr_iff)
  have m: "mseg_of vs = mseg_at data position"
    using vs by (simp add: wrap_read_Inr_iff mseg_at_def macho_segment_fmt_def calcsize_def)
  have off: "0 \<le> ms_offset (mseg_of vs)"
    using wrap_read_num [OF vs, of 5] by (simp add: mseg_of_def macho_segment_fmt_def)
  note step = assms(1) [unfolded verify_segment_def vs bind_res_Inr Let_def]
  have inside: "ms_offset (mseg_of vs) + ms_file_size (mseg_of vs) \<le> int (length data)"
    and "never_wx (mseg_of vs)"
    using step by (simp_all add: res_simps never_wx_def)
  moreover have "foldM (verify_section digest data layout (mseg_of vs) position) found
      (py_range 0 (ms_sections (mseg_of vs)) 1) = Inr found'"
    using step by (simp only: res_simps)
  then have "found_sound digest data layout found'"
    using assms(2) by (rule foldM_invariant) (rule verify_section_sound [OF _ _ inside off])
  ultimately show ?thesis using m by simp
qed

lemma verify_commands_sound:
  assumes "foldM (verify_command digest data layout stop) (pos, found) xs = Inr (pos', found')"
    and "found_sound digest data layout found"
  shows "found_sound digest data layout found' \<and>
    (\<forall>p \<in> set (command_offsets data (length xs) pos). word_at data (nat p) = 0x19 \<longrightarrow> never_wx (mseg_at data p))"
  using assms
proof (induction xs arbitrary: pos found)
  case (Cons x xs)
  obtain st where st: "verify_command digest data layout stop (pos, found) x = Inr st"
    "foldM (verify_command digest data layout stop) st xs = Inr (pos', found')"
    using Cons.prems(1) by (auto simp: bind_res_Inr_iff)
  obtain vs where vs: "wrap_read data [U32, U32] pos = Inr vs"
    using st(1) by (auto simp: verify_command_def bind_res_Inr_iff)
  then have w: "num (vs ! 0) = word_at data (nat pos)" "num (vs ! 1) = word_at data (nat pos + 4)"
    by (auto simp: wrap_read_Inr_iff calcsize_def word_at_def read_at_def drop_take add.commute)
  obtain found1 where f1: "(if num (vs ! 0) = 0x19 then verify_segment digest data layout pos (num (vs ! 1)) found
       else Inr found) = Inr found1" and "st = (pos + num (vs ! 1), found1)"
    using st(1) by (auto simp: verify_command_def vs Let_def res_simps simp flip: One_nat_def)
  then have rest: "foldM (verify_command digest data layout stop) (pos + num (vs ! 1), found1) xs = Inr (pos', found')"
    using st(2) by simp
  have "found_sound digest data layout found1 \<and> (num (vs ! 0) = 0x19 \<longrightarrow> never_wx (mseg_at data pos))"
    using f1 Cons.prems(2) verify_segment_sound by (auto split: if_splits)
  then show ?case using Cons.IH [OF rest] w by simp
qed simp

text \<open>What a verified linked file guarantees.\<close>

definition macho_guarantee :: "(bytes \<Rightarrow> string) \<Rightarrow> bytes \<Rightarrow> wrap_layout \<Rightarrow> verified \<Rightarrow> bool" where
  "macho_guarantee digest data layout v \<longleftrightarrow>
    section_sound digest data (lay_rx_bytes layout) (lay_rx_sha256 layout) (rx_address v) \<and>
    section_sound digest data (lay_rw_bytes layout) (lay_rw_sha256 layout) (rw_address v) \<and>
    rx_address v = load_bias v \<and> rw_address v = load_bias v + seg_address (lay_loads layout ! 1) \<and>
    macho_sha256 v = digest data \<and>
    (\<forall>p \<in> set (command_offsets data (nat (word_at data 16)) 32).
       word_at data (nat p) = 0x19 \<longrightarrow> never_wx (mseg_at data p))"

lemma verify_macho_guarantee:
  assumes "verify_macho digest data layout = Inr v"
  shows "macho_guarantee digest data layout v"
proof -
  obtain h where h: "wrap_read data (replicate 8 U32) 0 = Inr h"
    using assms by (auto simp: verify_macho_def bind_res_Inr_iff)
  have count: "num (h ! 4) = word_at data 16"
    using h by (auto simp: wrap_read_Inr_iff calcsize_def sum_list_replicate word_at_def read_at_def drop_take numeral_eq_Suc)
  obtain pos found where loop: "foldM (verify_command digest data layout (32 + num (h ! 5))) (32, [])
      (py_range 0 (num (h ! 4)) 1) = Inr (pos, found)"
    and get: "map_of found TEXT_SEG = Some (load_bias v)" "map_of found DATA_SEG = Some (rw_address v)"
    and v: "rx_address v = load_bias v" "rw_address v = load_bias v + seg_address (lay_loads layout ! 1)"
      "macho_sha256 v = digest data"
    using assms by (auto simp: verify_macho_def h Let_def res_simps)
  have sound: "found_sound digest data layout found" and wx:
    "\<forall>p \<in> set (command_offsets data (length (py_range 0 (num (h ! 4)) 1)) 32).
       word_at data (nat p) = 0x19 \<longrightarrow> never_wx (mseg_at data p)"
    using verify_commands_sound [OF loop] by (auto simp: found_sound_def)
  have "length (py_range 0 (num (h ! 4)) 1) = nat (word_at data 16)" by (simp add: py_range_def count)
  then show ?thesis
    using wx v sound get by (auto simp: macho_guarantee_def found_sound_def dest: map_of_SomeD)
qed


end
