(* ===== verification/Wrap_Sample.thy ===== *)
theory Wrap_Sample
  imports Wrap_Dynamic
begin

text \<open>
  Concrete inputs for the shared-object wrapper: a minimal two-segment shared ELF file and a
  Mach-O dylib with one guest section in each of its two segments.
\<close>

definition so_front :: bytes where
  "so_front =
    [127, 69, 76, 70, 2, 1, 1, 0, 0, 0, 0, 0, 0, 0, 0, 0, 3, 0, 183, 0, 1, 0, 0, 0,
     0, 0, 0, 0, 0, 0, 0, 0, 64, 0, 0, 0, 0, 0, 0, 0, 0, 0, 0, 0, 0, 0, 0, 0,
     0, 0, 0, 0, 64, 0, 56, 0, 3, 0, 0, 0, 0, 0, 0, 0, 1, 0, 0, 0, 5, 0, 0, 0,
     0, 0, 0, 0, 0, 0, 0, 0, 0, 0, 0, 0, 0, 0, 0, 0, 0, 0, 0, 0, 0, 0, 0, 0,
     232, 0, 0, 0, 0, 0, 0, 0, 232, 0, 0, 0, 0, 0, 0, 0, 0, 64, 0, 0, 0, 0, 0, 0,
     1, 0, 0, 0, 6, 0, 0, 0, 0, 64, 0, 0, 0, 0, 0, 0, 0, 64, 0, 0, 0, 0, 0, 0,
     0, 0, 0, 0, 0, 0, 0, 0, 16, 0, 0, 0, 0, 0, 0, 0, 24, 0, 0, 0, 0, 0, 0, 0,
     0, 64, 0, 0, 0, 0, 0, 0, 2, 0, 0, 0, 6, 0, 0, 0, 0, 64, 0, 0, 0, 0, 0, 0,
     0, 64, 0, 0, 0, 0, 0, 0, 0, 0, 0, 0, 0, 0, 0, 0, 16, 0, 0, 0, 0, 0, 0, 0,
     16, 0, 0, 0, 0, 0, 0, 0, 8, 0, 0, 0, 0, 0, 0, 0]"

definition so_data :: bytes where
  "so_data = [1, 2, 3, 4, 5, 6, 7, 8, 9, 10, 11, 12, 13, 14, 15, 16]"

definition sample_so :: bytes where
  "sample_so = so_front @ replicate 16152 0 @ so_data"

lemma so_front_length: "length so_front = 232"
  by (simp add: so_front_def)

lemma so_length: "length sample_so = 16400"
  by (simp add: sample_so_def so_front_length so_data_def)

lemma so_reads_front: "i + n \<le> 232 \<Longrightarrow> read_at sample_so i n = read_at so_front i n"
  unfolding sample_so_def by (rule read_at_append_left) (simp add: so_front_length)

lemma so_reads:
  "read_at sample_so 0 64 =
    [127, 69, 76, 70, 2, 1, 1, 0, 0, 0, 0, 0, 0, 0, 0, 0, 3, 0, 183, 0, 1, 0, 0, 0,
     0, 0, 0, 0, 0, 0, 0, 0, 64, 0, 0, 0, 0, 0, 0, 0, 0, 0, 0, 0, 0, 0, 0, 0,
     0, 0, 0, 0, 64, 0, 56, 0, 3, 0, 0, 0, 0, 0, 0, 0]"
  "read_at sample_so 64 56 =
    [1, 0, 0, 0, 5, 0, 0, 0, 0, 0, 0, 0, 0, 0, 0, 0, 0, 0, 0, 0, 0, 0, 0, 0,
     0, 0, 0, 0, 0, 0, 0, 0, 232, 0, 0, 0, 0, 0, 0, 0, 232, 0, 0, 0, 0, 0, 0, 0,
     0, 64, 0, 0, 0, 0, 0, 0]"
  "read_at sample_so 120 56 =
    [1, 0, 0, 0, 6, 0, 0, 0, 0, 64, 0, 0, 0, 0, 0, 0, 0, 64, 0, 0, 0, 0, 0, 0,
     0, 0, 0, 0, 0, 0, 0, 0, 16, 0, 0, 0, 0, 0, 0, 0, 24, 0, 0, 0, 0, 0, 0, 0,
     0, 64, 0, 0, 0, 0, 0, 0]"
  "read_at sample_so 176 56 =
    [2, 0, 0, 0, 6, 0, 0, 0, 0, 64, 0, 0, 0, 0, 0, 0, 0, 64, 0, 0, 0, 0, 0, 0,
     0, 0, 0, 0, 0, 0, 0, 0, 16, 0, 0, 0, 0, 0, 0, 0, 16, 0, 0, 0, 0, 0, 0, 0,
     8, 0, 0, 0, 0, 0, 0, 0]"
  by (simp_all add: so_reads_front, simp_all add: read_at_def so_front_def)

lemma so_ehdr_eval:
  "wrap_read sample_so ehdr_fmt 0 = Inr (struct_unpack ehdr_fmt (read_at sample_so 0 64))"
  by (simp add: wrap_read_Inr_iff calcsize_headers so_length)

lemma so_ehdr: "ehdr_of (struct_unpack ehdr_fmt (read_at sample_so 0 64)) =
   \<lparr>e_ident = [0x7f, 0x45, 0x4c, 0x46, 2, 1, 1, 0, 0, 0, 0, 0, 0, 0, 0, 0],
     e_kind = 3, e_machine = 183, e_version = 1, e_entry = 0, e_phoff = 64, e_shoff = 0,
     e_flags = 0, e_ehsize = 64, e_phsize = 56, e_phnum = 3, e_shsize = 0, e_shnum = 0,
     e_names_index = 0\<rparr>"
  unfolding so_reads by (simp add: ehdr_of_def ehdr_fmt_def)

lemma so_phdr_eval:
  "off \<in> {64, 120, 176} \<Longrightarrow>
   wrap_read sample_so phdr_fmt off = Inr (struct_unpack phdr_fmt (read_at sample_so (nat off) 56))"
  by (auto simp: wrap_read_Inr_iff calcsize_headers so_length)

lemma so_phdrs:
  "phdr_at sample_so 64 = \<lparr>p_type = 1, p_perms = 5, p_offset = 0, p_base = 0, p_physical = 0,
     p_size = 232, p_memory = 232, p_alignment = 16384\<rparr>"
  "phdr_at sample_so 120 = \<lparr>p_type = 1, p_perms = 6, p_offset = 16384, p_base = 16384, p_physical = 0,
     p_size = 16, p_memory = 24, p_alignment = 16384\<rparr>"
  "phdr_at sample_so 176 = \<lparr>p_type = 2, p_perms = 6, p_offset = 16384, p_base = 16384, p_physical = 0,
     p_size = 16, p_memory = 16, p_alignment = 8\<rparr>"
  by (simp add: phdr_at_def so_reads, simp add: phdr_of_def phdr_fmt_def)+

lemma so_range: "py_range 0 3 1 = [0, 1, 2]"
  by (simp add: py_range_def upt_rec)

definition so_headers :: headers where
  "so_headers = \<lparr>loads = [seg_of 0 (phdr_at sample_so 64), seg_of 1 (phdr_at sample_so 120)],
     dynamic = [seg_of 2 (phdr_at sample_so 176)], tls = []\<rparr>"

lemma so_phdr_of:
  "phdr_of (struct_unpack phdr_fmt (read_at sample_so 64 56)) = phdr_at sample_so 64"
  "phdr_of (struct_unpack phdr_fmt (read_at sample_so 120 56)) = phdr_at sample_so 120"
  "phdr_of (struct_unpack phdr_fmt (read_at sample_so 176 56)) = phdr_at sample_so 176"
  by (simp_all add: phdr_at_def)

lemma so_header_loop:
  "foldM (header_step sample_so 64) \<lparr>loads = [], dynamic = [], tls = []\<rparr> [0, 1, 2] = Inr so_headers"
  by (simp add: header_step_def so_phdr_eval so_phdr_of so_phdrs so_length allowed_types_def so_headers_def seg_of_def)

lemma so_pack: "\<exists>rx rw lay. pack_layout (\<lambda>_. '''') sample_so = Inr (rx, rw, lay)"
  unfolding pack_layout_def so_ehdr_eval bind_res_Inr Let_def so_ehdr ehdr.select_convs so_range so_header_loop
  by (simp add: so_length WRAP_LIMIT_def py_slice_nonneg [of 0 7] so_headers_def seg_of_def so_phdrs
      check_alignment_def PAGE_def check_dynamic_def)

theorem pack_layout_image_witness:
  "\<exists>rx rw lay. pack_layout (\<lambda>_. '''') sample_so = Inr (rx, rw, lay) \<and>
     int (length (rx @ rw)) \<le> WRAP_LIMIT \<and> maps (rx @ rw) sample_so 16384 16384 16"
proof -
  obtain rx rw lay where p: "pack_layout (\<lambda>_. '''') sample_so = Inr (rx, rw, lay)" using so_pack by blast
  have "program_headers sample_so = [phdr_at sample_so 64, phdr_at sample_so 120, phdr_at sample_so 176]"
    by (simp add: program_headers_def so_ehdr so_range)
  then show ?thesis using pack_layout_image [OF p] p by (auto simp: so_phdrs)
qed

section \<open>A linked file\<close>

definition sample_macho :: bytes where
  "sample_macho =
    [207, 250, 237, 254, 12, 0, 0, 1, 0, 0, 0, 0, 6, 0, 0, 0, 2, 0, 0, 0, 48, 1, 0, 0,
     0, 0, 0, 0, 0, 0, 0, 0, 25, 0, 0, 0, 152, 0, 0, 0, 95, 95, 84, 69, 88, 84, 0, 0,
     0, 0, 0, 0, 0, 0, 0, 0, 0, 64, 0, 0, 0, 0, 0, 0, 0, 64, 0, 0, 0, 0, 0, 0,
     80, 1, 0, 0, 0, 0, 0, 0, 4, 0, 0, 0, 0, 0, 0, 0, 5, 0, 0, 0, 5, 0, 0, 0,
     1, 0, 0, 0, 0, 0, 0, 0, 95, 95, 97, 114, 116, 98, 111, 120, 0, 0, 0, 0, 0, 0, 0, 0,
     95, 95, 84, 69, 88, 84, 0, 0, 0, 0, 0, 0, 0, 0, 0, 0, 0, 64, 0, 0, 0, 0, 0, 0,
     4, 0, 0, 0, 0, 0, 0, 0, 80, 1, 0, 0, 14, 0, 0, 0, 0, 0, 0, 0, 0, 0, 0, 0,
     0, 0, 0, 0, 0, 0, 0, 0, 0, 0, 0, 0, 0, 0, 0, 0, 25, 0, 0, 0, 152, 0, 0, 0,
     95, 95, 68, 65, 84, 65, 0, 0, 0, 0, 0, 0, 0, 0, 0, 0, 0, 128, 0, 0, 0, 0, 0, 0,
     0, 64, 0, 0, 0, 0, 0, 0, 84, 1, 0, 0, 0, 0, 0, 0, 4, 0, 0, 0, 0, 0, 0, 0,
     3, 0, 0, 0, 3, 0, 0, 0, 1, 0, 0, 0, 0, 0, 0, 0, 95, 95, 97, 114, 116, 98, 111, 120,
     0, 0, 0, 0, 0, 0, 0, 0, 95, 95, 68, 65, 84, 65, 0, 0, 0, 0, 0, 0, 0, 0, 0, 0,
     0, 128, 0, 0, 0, 0, 0, 0, 4, 0, 0, 0, 0, 0, 0, 0, 84, 1, 0, 0, 14, 0, 0, 0,
     0, 0, 0, 0, 0, 0, 0, 0, 0, 0, 0, 0, 0, 0, 0, 0, 0, 0, 0, 0, 0, 0, 0, 0,
     1, 2, 3, 4, 5, 6, 7, 8]"

lemma macho_reads:
  "read_at sample_macho 0 32 =
    [207, 250, 237, 254, 12, 0, 0, 1, 0, 0, 0, 0, 6, 0, 0, 0, 2, 0, 0, 0, 48, 1, 0, 0,
     0, 0, 0, 0, 0, 0, 0, 0]"
  "read_at sample_macho 32 8 =
    [25, 0, 0, 0, 152, 0, 0, 0]"
  "read_at sample_macho 32 72 =
    [25, 0, 0, 0, 152, 0, 0, 0, 95, 95, 84, 69, 88, 84, 0, 0, 0, 0, 0, 0, 0, 0, 0, 0,
     0, 64, 0, 0, 0, 0, 0, 0, 0, 64, 0, 0, 0, 0, 0, 0, 80, 1, 0, 0, 0, 0, 0, 0,
     4, 0, 0, 0, 0, 0, 0, 0, 5, 0, 0, 0, 5, 0, 0, 0, 1, 0, 0, 0, 0, 0, 0, 0]"
  "read_at sample_macho 104 80 =
    [95, 95, 97, 114, 116, 98, 111, 120, 0, 0, 0, 0, 0, 0, 0, 0, 95, 95, 84, 69, 88, 84, 0, 0,
     0, 0, 0, 0, 0, 0, 0, 0, 0, 64, 0, 0, 0, 0, 0, 0, 4, 0, 0, 0, 0, 0, 0, 0,
     80, 1, 0, 0, 14, 0, 0, 0, 0, 0, 0, 0, 0, 0, 0, 0, 0, 0, 0, 0, 0, 0, 0, 0,
     0, 0, 0, 0, 0, 0, 0, 0]"
  "read_at sample_macho 184 8 =
    [25, 0, 0, 0, 152, 0, 0, 0]"
  "read_at sample_macho 184 72 =
    [25, 0, 0, 0, 152, 0, 0, 0, 95, 95, 68, 65, 84, 65, 0, 0, 0, 0, 0, 0, 0, 0, 0, 0,
     0, 128, 0, 0, 0, 0, 0, 0, 0, 64, 0, 0, 0, 0, 0, 0, 84, 1, 0, 0, 0, 0, 0, 0,
     4, 0, 0, 0, 0, 0, 0, 0, 3, 0, 0, 0, 3, 0, 0, 0, 1, 0, 0, 0, 0, 0, 0, 0]"
  "read_at sample_macho 256 80 =
    [95, 95, 97, 114, 116, 98, 111, 120, 0, 0, 0, 0, 0, 0, 0, 0, 95, 95, 68, 65, 84, 65, 0, 0,
     0, 0, 0, 0, 0, 0, 0, 0, 0, 128, 0, 0, 0, 0, 0, 0, 4, 0, 0, 0, 0, 0, 0, 0,
     84, 1, 0, 0, 14, 0, 0, 0, 0, 0, 0, 0, 0, 0, 0, 0, 0, 0, 0, 0, 0, 0, 0, 0,
     0, 0, 0, 0, 0, 0, 0, 0]"
  "length sample_macho = 344"
  by (simp_all add: read_at_def sample_macho_def)

definition sample_layout :: wrap_layout where
  "sample_layout = \<lparr>lay_input_sha256 = '''', lay_rx_bytes = 4, lay_rw_bytes = 4,
     lay_rx_sha256 = [CHR 0x01, CHR 0x02, CHR 0x03, CHR 0x04],
     lay_rw_sha256 = [CHR 0x05, CHR 0x06, CHR 0x07, CHR 0x08],
     lay_loads = [seg_of 0 (phdr_at sample_so 64), seg_of 1 (phdr_at sample_so 120)]\<rparr>"

text \<open>A digest that can be evaluated: the bytes themselves.\<close>

definition plain_digest :: "bytes \<Rightarrow> string" where
  "plain_digest bs = map (\<lambda>b. char_of (unat b)) bs"

lemma macho_slices:
  "plain_digest (py_slice sample_macho 336 340) = [CHR 0x01, CHR 0x02, CHR 0x03, CHR 0x04]"
  "plain_digest (py_slice sample_macho 340 344) = [CHR 0x05, CHR 0x06, CHR 0x07, CHR 0x08]"
  by (simp_all add: plain_digest_def py_slice_nonneg sample_macho_def char_of_def bit_0)

lemma wrap_read_eval:
  "0 \<le> off \<Longrightarrow> off + int (calcsize fs) \<le> int (length data) \<Longrightarrow>
   wrap_read data fs off = Inr (struct_unpack fs (read_at data (nat off) (calcsize fs)))"
  by (simp add: wrap_read_Inr_iff)

lemma macho_sizes: "calcsize macho_segment_fmt = 72" "calcsize macho_section_fmt = 80"
  "calcsize (replicate 8 U32) = 32" "calcsize [U32, U32] = 8"
  by (simp_all add: calcsize_def macho_segment_fmt_def macho_section_fmt_def sum_list_replicate)

lemma macho_section_fmt_list:
  "macho_section_fmt = [Raw 16, Raw 16, U64, U64, U32, U32, U32, U32, U32, U32, U32, U32]"
  by (simp add: macho_section_fmt_def numeral_eq_Suc)

lemmas macho_eval = wrap_read_eval macho_sizes macho_reads

lemma macho_names: "until_nul [95, 95, 97, 114, 116, 98, 111, 120, 0, 0, 0, 0, 0, 0, 0, 0] = ARTBOX_SECT"
  "until_nul [95, 95, 84, 69, 88, 84, 0, 0, 0, 0, 0, 0, 0, 0, 0, 0] = TEXT_SEG"
  "until_nul [95, 95, 68, 65, 84, 65, 0, 0, 0, 0, 0, 0, 0, 0, 0, 0] = DATA_SEG"
  by (simp_all add: until_nul_def ARTBOX_SECT_def TEXT_SEG_def DATA_SEG_def)

lemma macho_sections:
  "ms_name m = TEXT_SEG \<Longrightarrow> ms_address m = 16384 \<Longrightarrow> ms_memory m = 16384 \<Longrightarrow> ms_offset m = 336 \<Longrightarrow>
   ms_file_size m = 4 \<Longrightarrow> ms_initial m = 5 \<Longrightarrow>
   verify_section plain_digest sample_macho sample_layout m 32 [] 0 = Inr [(TEXT_SEG, 16384)]"
  "ms_name m = DATA_SEG \<Longrightarrow> ms_address m = 32768 \<Longrightarrow> ms_memory m = 16384 \<Longrightarrow> ms_offset m = 340 \<Longrightarrow>
   ms_file_size m = 4 \<Longrightarrow> ms_initial m = 3 \<Longrightarrow>
   verify_section plain_digest sample_macho sample_layout m 184 [(TEXT_SEG, 16384)] 0 =
     Inr [(TEXT_SEG, 16384), (DATA_SEG, 32768)]"
  using seg_names
  by (simp_all add: verify_section_def macho_eval)
     (simp_all add: macho_section_fmt_list macho_names PAGE_def sample_layout_def macho_slices)

lemma macho_segments:
  "verify_segment plain_digest sample_macho sample_layout 32 152 [] = Inr [(TEXT_SEG, 16384)]"
  "verify_segment plain_digest sample_macho sample_layout 184 152 [(TEXT_SEG, 16384)] =
     Inr [(TEXT_SEG, 16384), (DATA_SEG, 32768)]"
  by (simp_all add: verify_segment_def macho_eval)
     (simp_all add: macho_segment_fmt_def mseg_of_def macho_names macho_sections py_range_def)

lemma eight_words: "replicate 8 U32 = [U32, U32, U32, U32, U32, U32, U32, U32]"
  by (simp add: numeral_eq_Suc)

lemma macho_verified: "verify_macho plain_digest sample_macho sample_layout =
   Inr \<lparr>load_bias = 16384, rx_address = 16384, rw_address = 32768, macho_sha256 = plain_digest sample_macho\<rparr>"
proof -
  have step: "verify_command plain_digest sample_macho sample_layout 336 (32, []) 0 = Inr (184, [(TEXT_SEG, 16384)])"
    "verify_command plain_digest sample_macho sample_layout 336 (184, [(TEXT_SEG, 16384)]) 1 =
      Inr (336, [(TEXT_SEG, 16384), (DATA_SEG, 32768)])"
    by (simp_all add: verify_command_def macho_eval macho_segments)
  have split_address: "seg_address (lay_loads sample_layout ! Suc 0) = 16384"
    by (simp add: sample_layout_def so_phdrs)
  have "py_range 0 2 1 = [0, 1]" by (simp add: py_range_def upt_rec)
  moreover have "wrap_read sample_macho (replicate 8 U32) 0 =
      Inr (map Num [0xfeedfacf, 0x100000c, 0, 6, 2, 304, 0, 0])"
    unfolding wrap_read_Inr_iff macho_sizes
    by (simp add: macho_reads eight_words)
  ultimately show ?thesis
    using seg_names by (simp add: verify_macho_def macho_reads step dict_get_def split_address)
qed


end
