(* ===== verification/Posix_Path.thy ===== *)
theory Posix_Path
  imports Prelude
begin

text \<open>
  The pieces of \<^verbatim>\<open>str\<close>, \<^verbatim>\<open>posixpath\<close> and \<^verbatim>\<open>pathlib.PurePosixPath\<close> that the tools apply to names
  from archives and manifests.  Strings are ASCII, so \<^verbatim>\<open>casefold\<close> lowers \<open>A\<close> to \<open>Z\<close>.  The
  lemmas give the facts the extraction code relies on: a path without \<^verbatim>\<open>..\<close> is determined by
  its parts, and a normalised path that does not start with \<^verbatim>\<open>..\<close> stays below its root.
\<close>

section \<open>Strings\<close>

fun split_on :: "char \<Rightarrow> string \<Rightarrow> string list" where
  "split_on c [] = [[]]"
| "split_on c (x # xs) =
     (if x = c then [] # split_on c xs
      else (case split_on c xs of [] \<Rightarrow> [[x]] | w # ws \<Rightarrow> (x # w) # ws))"

fun join_with :: "string \<Rightarrow> string list \<Rightarrow> string" where
  "join_with sep [] = []"
| "join_with sep [w] = w"
| "join_with sep (w # v # ws) = w @ sep @ join_with sep (v # ws)"

definition startswith :: "string \<Rightarrow> string \<Rightarrow> bool" where
  "startswith s p = prefix p s"

definition endswith :: "string \<Rightarrow> string \<Rightarrow> bool" where
  "endswith s p = suffix p s"

fun contains :: "string \<Rightarrow> string \<Rightarrow> bool" where
  "contains s [] = (s = [])"
| "contains s (x # xs) = (prefix s (x # xs) \<or> contains s xs)"

definition ascii_lower :: "char \<Rightarrow> char" where
  "ascii_lower c = (let n = of_char c :: int in if 65 \<le> n \<and> n \<le> 90 then char_of (n + 32) else c)"

definition casefold :: "string \<Rightarrow> string" where
  "casefold s = map ascii_lower s"

definition SLASH :: char where "SLASH = CHR ''/''"
definition BACKSLASH :: char where "BACKSLASH = CHR 0x5C"

section \<open>\<open>posixpath\<close>\<close>

definition posix_join :: "string \<Rightarrow> string \<Rightarrow> string" where
  "posix_join a b =
     (if startswith b ''/'' then b
      else if a = [] \<or> endswith a ''/'' then a @ b
      else a @ ''/'' @ b)"

text \<open>\<^verbatim>\<open>dirname\<close>: the part up to the last slash, without trailing slashes unless it is all slashes.\<close>

definition posix_dirname :: "string \<Rightarrow> string" where
  "posix_dirname p =
     (let head = rev (dropWhile (\<lambda>c. c \<noteq> SLASH) (rev p)) in
      if head \<noteq> [] \<and> list_ex (\<lambda>c. c \<noteq> SLASH) head then rev (dropWhile (\<lambda>c. c = SLASH) (rev head)) else head)"

fun norm_step :: "bool \<Rightarrow> string list \<Rightarrow> string \<Rightarrow> string list" where
  "norm_step absolute comps w =
     (if w = [] \<or> w = ''.'' then comps
      else if w \<noteq> ''..'' \<or> (\<not> absolute \<and> comps = []) \<or> (comps \<noteq> [] \<and> last comps = ''..'') then comps @ [w]
      else butlast comps)"

definition initial_slashes :: "string \<Rightarrow> nat" where
  "initial_slashes p =
     (if startswith p ''/'' then (if startswith p ''//'' \<and> \<not> startswith p ''///'' then 2 else 1) else 0)"

definition norm_comps :: "string \<Rightarrow> string list" where
  "norm_comps p = foldl (norm_step (initial_slashes p \<noteq> 0)) [] (split_on SLASH p)"

definition posix_normpath :: "string \<Rightarrow> string" where
  "posix_normpath p =
     (if p = [] then ''.''
      else let q = replicate (initial_slashes p) SLASH @ join_with ''/'' (norm_comps p)
           in if q = [] then ''.'' else q)"

section \<open>\<open>PurePosixPath\<close>\<close>

definition pure_absolute :: "string \<Rightarrow> bool" where
  "pure_absolute p = startswith p ''/''"

definition rel_parts :: "string \<Rightarrow> string list" where
  "rel_parts p = filter (\<lambda>w. w \<noteq> [] \<and> w \<noteq> ''.'') (split_on SLASH p)"

definition pure_parts :: "string \<Rightarrow> string list" where
  "pure_parts p =
     (if initial_slashes p = 0 then rel_parts p else replicate (initial_slashes p) SLASH # rel_parts p)"

definition as_posix :: "string list \<Rightarrow> string" where
  "as_posix parts = (if parts = [] then ''.'' else join_with ''/'' parts)"

text \<open>\<^verbatim>\<open>PurePosixPath(p).parents\<close> of a relative path, as their parts, the nearest first.\<close>

definition parents_parts :: "string list \<Rightarrow> string list list" where
  "parents_parts parts = map (\<lambda>i. take i parts) (rev [0..<length parts])"

section \<open>Splitting and joining\<close>

lemma split_on_nonempty [simp]: "split_on c s \<noteq> []"
  by (cases s) (auto split: list.splits)

lemma join_split: "join_with [c] (split_on c s) = s"
proof (induction s)
  case (Cons x xs)
  obtain w ws where "split_on c xs = w # ws" using split_on_nonempty by (metis neq_Nil_conv)
  then show ?case using Cons by (cases ws) auto
qed simp

lemma split_on_words: "w \<in> set (split_on c s) \<Longrightarrow> c \<notin> set w"
proof (induction s arbitrary: w)
  case (Cons x xs)
  obtain v ws where "split_on c xs = v # ws" using split_on_nonempty by (metis neq_Nil_conv)
  then show ?case using Cons by (auto split: if_splits)
qed simp

lemma split_on_word: "c \<notin> set w \<Longrightarrow> split_on c w = [w]"
  by (induction w) auto

lemma split_on_sep: "c \<notin> set w \<Longrightarrow> split_on c (w @ c # s) = w # split_on c s"
  by (induction w) auto

lemma split_join:
  assumes "ws \<noteq> []" and "\<forall>w \<in> set ws. c \<notin> set w"
  shows "split_on c (join_with [c] ws) = ws"
  using assms
proof (induction "[c]" ws rule: join_with.induct)
  case (3 w v ws)
  then show ?case by (simp add: split_on_sep)
qed (auto simp: split_on_word)

section \<open>Clean relative paths\<close>

text \<open>Parts as they come out of a relative path without \<^verbatim>\<open>..\<close>.\<close>

definition clean_part :: "string \<Rightarrow> bool" where
  "clean_part w \<longleftrightarrow> w \<noteq> [] \<and> w \<noteq> ''.'' \<and> w \<noteq> ''..'' \<and> SLASH \<notin> set w"

definition clean :: "string list \<Rightarrow> bool" where
  "clean parts \<longleftrightarrow> list_all clean_part parts"

lemma rel_parts_words: "w \<in> set (rel_parts p) \<Longrightarrow> w \<noteq> [] \<and> w \<noteq> ''.'' \<and> SLASH \<notin> set w"
  by (auto simp: rel_parts_def dest: split_on_words)

lemma rel_parts_clean: "''..'' \<notin> set (rel_parts p) \<Longrightarrow> clean (rel_parts p)"
  by (auto simp: clean_def clean_part_def list_all_iff dest: rel_parts_words)

lemma join_slash: "join_with ''/'' ws = join_with [SLASH] ws"
  by (simp add: SLASH_def)

lemma rel_parts_join:
  assumes "clean parts" shows "rel_parts (join_with ''/'' parts) = parts"
proof (cases "parts = []")
  case False
  then have "split_on SLASH (join_with [SLASH] parts) = parts"
    using assms by (intro split_join) (auto simp: clean_def clean_part_def list_all_iff)
  then show ?thesis
    using assms by (auto simp: rel_parts_def join_slash clean_def clean_part_def list_all_iff intro!: filter_True)
qed (simp add: rel_parts_def)

lemma as_posix_inj: "clean a \<Longrightarrow> clean b \<Longrightarrow> a \<noteq> [] \<Longrightarrow> b \<noteq> [] \<Longrightarrow> as_posix a = as_posix b \<Longrightarrow> a = b"
  by (metis as_posix_def rel_parts_join)

lemma clean_append [simp]: "clean (a @ b) \<longleftrightarrow> clean a \<and> clean b"
  by (simp add: clean_def)

lemma clean_Nil [simp]: "clean []"
  by (simp add: clean_def)

lemma clean_Cons [simp]: "clean (w # ws) \<longleftrightarrow> clean_part w \<and> clean ws"
  by (simp add: clean_def)

lemma clean_take: "clean ws \<Longrightarrow> clean (take n ws)"
  by (auto simp: clean_def list_all_iff dest: in_set_takeD)

lemma clean_drop: "clean ws \<Longrightarrow> clean (drop n ws)"
  by (auto simp: clean_def list_all_iff dest: in_set_dropD)

lemma as_posix_not_absolute:
  assumes "clean parts" shows "\<not> pure_absolute (as_posix parts)" "initial_slashes (as_posix parts) = 0"
proof -
  have "\<not> startswith (as_posix parts) ''/''"
  proof (cases parts)
    case (Cons w ws)
    then have "w \<noteq> []" "SLASH \<notin> set w" using assms by (auto simp: clean_part_def)
    then show ?thesis using Cons by (cases ws; cases w) (auto simp: as_posix_def startswith_def SLASH_def)
  qed (simp add: as_posix_def startswith_def)
  then show "\<not> pure_absolute (as_posix parts)" "initial_slashes (as_posix parts) = 0"
    by (simp_all add: pure_absolute_def initial_slashes_def)
qed

lemma rel_parts_as_posix: "clean parts \<Longrightarrow> rel_parts (as_posix parts) = parts"
proof -
  have "rel_parts ''.'' = []" by (simp add: rel_parts_def SLASH_def)
  then show "clean parts \<Longrightarrow> rel_parts (as_posix parts) = parts"
    by (simp add: as_posix_def rel_parts_join)
qed

lemma pure_parts_as_posix: "clean parts \<Longrightarrow> pure_parts (as_posix parts) = parts"
  by (simp add: pure_parts_def as_posix_not_absolute rel_parts_as_posix)

section \<open>Normalisation of relative paths\<close>

text \<open>A normalised relative path is some number of \<^verbatim>\<open>..\<close> followed by clean parts.\<close>

definition normal :: "string list \<Rightarrow> bool" where
  "normal ws \<longleftrightarrow> (\<exists>n rest. ws = replicate n ''..'' @ rest \<and> clean rest)"

lemma norm_step_normal:
  assumes "normal ws" and "SLASH \<notin> set w"
  shows "normal (norm_step False ws w)"
proof -
  obtain n rest where ws: "ws = replicate n ''..'' @ rest" "clean rest" using assms(1) by (auto simp: normal_def)
  show ?thesis
  proof (cases "w = [] \<or> w = ''.''")
    case False
    then have w: "w \<noteq> ''..'' \<Longrightarrow> clean_part w" using assms(2) by (simp add: clean_part_def)
    show ?thesis
    proof (cases "rest = []")
      case True
      have "replicate n ''..'' @ [''..''] = replicate (Suc n) ''..'' @ []"
        by (simp add: replicate_append_same)
      then have "normal (replicate n ''..'' @ [''..''])" unfolding normal_def by (metis clean_Nil)
      moreover have "w \<noteq> ''..'' \<Longrightarrow> normal (replicate n ''..'' @ [w])"
        unfolding normal_def using w by (intro exI [of _ n] exI [of _ "[w]"]) simp
      moreover have "n \<noteq> 0 \<Longrightarrow> last (replicate n ''..'') = ''..''" by simp
      ultimately show ?thesis
        using ws True False by (cases "w = ''..''"; cases "n = 0") (auto simp: normal_def)
    next
      case r: False
      have "last ws \<noteq> ''..''"
        using ws r by (auto simp: clean_def clean_part_def list_all_iff dest: last_in_set)
      moreover have "normal (butlast ws)"
        unfolding normal_def using ws r
        by (intro exI [of _ n] exI [of _ "butlast rest"])
          (auto simp: butlast_append clean_def list_all_iff dest: in_set_butlastD)
      moreover have "normal (ws @ [w])" if "w \<noteq> ''..''"
        unfolding normal_def using ws w that by (intro exI [of _ n] exI [of _ "rest @ [w]"]) simp
      ultimately show ?thesis using False ws r by auto
    qed
  qed (use assms in simp)
qed

lemma norm_comps_normal:
  assumes "initial_slashes p = 0" shows "normal (norm_comps p)"
proof -
  have "normal (foldl (norm_step False) ws vs)" if "normal ws" "\<forall>v \<in> set vs. SLASH \<notin> set v" for ws vs
    using that by (induction vs arbitrary: ws) (auto simp del: norm_step.simps intro: norm_step_normal)
  moreover have "normal []" unfolding normal_def by (intro exI [of _ 0] exI [of _ "[]"]) simp
  ultimately show ?thesis using assms by (auto simp: norm_comps_def dest: split_on_words)
qed

text \<open>The guard every alias check uses: neither \<^verbatim>\<open>..\<close> nor a path that starts with it.\<close>

lemma normpath_inside:
  assumes "initial_slashes p = 0" and "posix_normpath p \<noteq> ''..''" and "\<not> startswith (posix_normpath p) ''../''"
  shows "\<exists>parts. clean parts \<and> posix_normpath p = as_posix parts"
proof -
  obtain n rest where ws: "norm_comps p = replicate n ''..'' @ rest" "clean rest"
    using norm_comps_normal [OF assms(1)] by (auto simp: normal_def)
  have np: "posix_normpath p = as_posix (norm_comps p)"
  proof (cases "norm_comps p")
    case Nil
    then show ?thesis using assms(1) by (simp add: posix_normpath_def as_posix_def)
  next
    case (Cons w v)
    then have "w \<noteq> []" using ws by (cases n) (auto simp: clean_part_def)
    then have "join_with ''/'' (norm_comps p) \<noteq> []" using Cons by (cases v) auto
    moreover have "p \<noteq> []" using Cons by (auto simp: norm_comps_def SLASH_def)
    ultimately show ?thesis using assms(1) Cons by (simp add: posix_normpath_def as_posix_def)
  qed
  have "n = 0"
  proof (rule ccontr)
    assume "n \<noteq> 0"
    then obtain m where "norm_comps p = ''..'' # replicate m ''..'' @ rest" using ws by (cases n) auto
    then show False
      using assms(2,3) np by (cases "replicate m ''..'' @ rest") (auto simp: as_posix_def startswith_def)
  qed
  then show ?thesis using np ws by auto
qed

end
