(* ===== verification/Py_FS.thy ===== *)
theory Py_FS
  imports Posix_Path Py_Struct "HOL-Library.List_Lexorder" "HOL-Library.Char_ord"
begin

text \<open>
  The file system the installers work on: nodes at absolute paths (lists of components), with
  regular files, directories and symbolic links, and the \<^verbatim>\<open>pathlib\<close> and \<^verbatim>\<open>os\<close> operations the
  code uses.  Paths are resolved component by component through links, with the kernel's limit
  of 40 links; every failure is \<open>OSError\<close>.  A mode of \<open>None\<close> is the one a file gets when
  it is created.

  The lemmas describe the operations in a region without links below a directory, which is
  where the installers write.
\<close>

type_synonym path = "string list"

datatype node = File (node_content: bytes) (node_mode: "int option") | Dir | Link string

type_synonym fs = "(path \<times> node) list"

section \<open>Resolution\<close>

text \<open>
  \<open>strict\<close> resolution is the kernel's: every component but the last must be a directory.  The
  other is \<^verbatim>\<open>Path.resolve()\<close>, which accepts what does not exist.
\<close>

function walk :: "bool \<Rightarrow> fs \<Rightarrow> nat \<Rightarrow> path \<Rightarrow> string list \<Rightarrow> path option" where
  "walk strict fs k cur [] = Some cur"
| "walk strict fs k cur (c # rest) =
     (if c = ''..'' then walk strict fs k (butlast cur) rest
      else case map_of fs (cur @ [c]) of
        Some (Link target) \<Rightarrow>
          (case k of 0 \<Rightarrow> None
           | Suc j \<Rightarrow> walk strict fs j (if startswith target ''/'' then [] else cur) (rel_parts target @ rest))
      | Some Dir \<Rightarrow> walk strict fs k (cur @ [c]) rest
      | _ \<Rightarrow> if strict \<and> rest \<noteq> [] then None else walk strict fs k (cur @ [c]) rest)"
  by pat_completeness auto

termination
  by (relation "measures [\<lambda>(_, _, k, _, _). k, \<lambda>(_, _, _, _, rest). length rest]") auto

declare walk.simps [simp del]

definition LINKS :: nat where
  "LINKS = 40"

definition locate :: "fs \<Rightarrow> path \<Rightarrow> path option" where
  "locate fs p = walk True fs LINKS [] p"

definition node_at :: "fs \<Rightarrow> path \<Rightarrow> node option" where
  "node_at fs q = (if q = [] then Some Dir else map_of fs q)"

definition stat :: "fs \<Rightarrow> path \<Rightarrow> node option" where
  "stat fs p = Option.bind (locate fs p) (node_at fs)"

definition is_file :: "fs \<Rightarrow> path \<Rightarrow> bool" where
  "is_file fs p = (case stat fs p of Some (File _ _) \<Rightarrow> True | _ \<Rightarrow> False)"

definition is_dir :: "fs \<Rightarrow> path \<Rightarrow> bool" where
  "is_dir fs p = (stat fs p = Some Dir)"

definition path_exists :: "fs \<Rightarrow> path \<Rightarrow> bool" where
  "path_exists fs p = (stat fs p \<noteq> None)"

text \<open>The place of the last component itself, whatever it is.\<close>

definition lplace :: "fs \<Rightarrow> path \<Rightarrow> path option" where
  "lplace fs p =
     (if p = [] then Some []
      else Option.bind (locate fs (butlast p)) (\<lambda>d. if node_at fs d = Some Dir then Some (d @ [last p]) else None))"

definition lstat :: "fs \<Rightarrow> path \<Rightarrow> node option" where
  "lstat fs p = Option.bind (lplace fs p) (node_at fs)"

definition is_symlink :: "fs \<Rightarrow> path \<Rightarrow> bool" where
  "is_symlink fs p = (case lstat fs p of Some (Link _) \<Rightarrow> True | _ \<Rightarrow> False)"

definition resolve :: "fs \<Rightarrow> path \<Rightarrow> ('m, path) res" where
  "resolve fs p = of_option OSError (walk False fs LINKS [] p)"

definition has_children :: "fs \<Rightarrow> path \<Rightarrow> bool" where
  "has_children fs q = list_ex (\<lambda>(r, _). length r = Suc (length q) \<and> prefix q r) fs"

definition any_iterdir :: "fs \<Rightarrow> path \<Rightarrow> bool" where
  "any_iterdir fs p = (case locate fs p of None \<Rightarrow> False | Some q \<Rightarrow> has_children fs q)"

section \<open>Changes\<close>

definition mkdir_one :: "fs \<Rightarrow> path \<Rightarrow> ('m, fs) res" where
  "mkdir_one fs p =
     (if is_dir fs p then Inr fs
      else case lplace fs p of
        None \<Rightarrow> Inl OSError
      | Some q \<Rightarrow> require (node_at fs q = None) OSError (Inr (dict_set fs q Dir)))"

definition mkdir_parents :: "fs \<Rightarrow> path \<Rightarrow> ('m, fs) res" where
  "mkdir_parents fs p = foldM (\<lambda>fs i. mkdir_one fs (take i p)) fs [1..<Suc (length p)]"

definition write_bytes :: "fs \<Rightarrow> path \<Rightarrow> bytes \<Rightarrow> ('m, fs) res" where
  "write_bytes fs p bs =
     (case locate fs p of
        None \<Rightarrow> Inl OSError
      | Some q \<Rightarrow>
          (case node_at fs q of
             Some (File _ m) \<Rightarrow> Inr (dict_set fs q (File bs m))
           | None \<Rightarrow> require (node_at fs (butlast q) = Some Dir) OSError (Inr (dict_set fs q (File bs None)))
           | _ \<Rightarrow> Inl OSError))"

definition read_bytes :: "fs \<Rightarrow> path \<Rightarrow> ('m, bytes) res" where
  "read_bytes fs p = (case stat fs p of Some (File bs _) \<Rightarrow> Inr bs | _ \<Rightarrow> Inl OSError)"

definition chmod :: "fs \<Rightarrow> path \<Rightarrow> int \<Rightarrow> ('m, fs) res" where
  "chmod fs p m =
     (case locate fs p of
        None \<Rightarrow> Inl OSError
      | Some q \<Rightarrow>
          (case node_at fs q of
             Some (File bs _) \<Rightarrow> Inr (dict_set fs q (File bs (Some m)))
           | Some Dir \<Rightarrow> Inr fs
           | _ \<Rightarrow> Inl OSError))"

definition symlink_to :: "fs \<Rightarrow> path \<Rightarrow> string \<Rightarrow> ('m, fs) res" where
  "symlink_to fs p target =
     (case lplace fs p of
        None \<Rightarrow> Inl OSError
      | Some q \<Rightarrow> require (node_at fs q = None) OSError (Inr (dict_set fs q (Link target))))"

definition rmtree :: "fs \<Rightarrow> path \<Rightarrow> fs" where
  "rmtree fs q = filter (\<lambda>(r, _). \<not> prefix q r) fs"

definition move :: "fs \<Rightarrow> path \<Rightarrow> path \<Rightarrow> fs" where
  "move fs s d = map (\<lambda>(r, n). (if prefix s r then d @ drop (length s) r else r, n)) (rmtree fs d)"

text \<open>\<^verbatim>\<open>os.replace\<close>: a file may replace a file, a directory an empty directory.\<close>

definition replace_path :: "fs \<Rightarrow> path \<Rightarrow> path \<Rightarrow> ('m, fs) res" where
  "replace_path fs p target =
     (case (lplace fs p, lplace fs target) of
        (Some s, Some d) \<Rightarrow>
          require (\<not> prefix s d \<and> (case (node_at fs s, node_at fs d) of
             (None, _) \<Rightarrow> False
           | (_, None) \<Rightarrow> True
           | (Some Dir, Some Dir) \<Rightarrow> \<not> has_children fs d
           | (Some Dir, _) \<Rightarrow> False
           | (_, Some Dir) \<Rightarrow> False
           | _ \<Rightarrow> True)) OSError (Inr (move fs s d))
      | _ \<Rightarrow> Inl OSError)"

section \<open>Names, text and trees\<close>

text \<open>\<^verbatim>\<open>directory / name\<close>: an absolute name replaces the directory.\<close>

definition path_div :: "path \<Rightarrow> string \<Rightarrow> path" where
  "path_div d name = (if pure_absolute name then rel_parts name else d @ rel_parts name)"

text \<open>Validity of UTF-8, with the shortest-form, surrogate and range restrictions.\<close>

definition utf8_tail :: "byte \<Rightarrow> bool" where
  "utf8_tail b \<longleftrightarrow> 128 \<le> b \<and> b < 192"

fun utf8_valid :: "bytes \<Rightarrow> bool" where
  "utf8_valid [] = True"
| "utf8_valid (a # r) =
     (if a < 128 then utf8_valid r
      else if 194 \<le> a \<and> a < 224 then (case r of b # r' \<Rightarrow> utf8_tail b \<and> utf8_valid r' | _ \<Rightarrow> False)
      else if 224 \<le> a \<and> a < 240 then
        (case r of b # c # r' \<Rightarrow> utf8_tail b \<and> utf8_tail c \<and> (a = 224 \<longrightarrow> 160 \<le> b) \<and> (a = 237 \<longrightarrow> b < 160) \<and> utf8_valid r'
         | _ \<Rightarrow> False)
      else if 240 \<le> a \<and> a < 245 then
        (case r of b # c # d # r' \<Rightarrow> utf8_tail b \<and> utf8_tail c \<and> utf8_tail d \<and> (a = 240 \<longrightarrow> 144 \<le> b) \<and>
             (a = 244 \<longrightarrow> b < 144) \<and> utf8_valid r'
         | _ \<Rightarrow> False)
      else False)"

definition decode_utf8 :: "bytes \<Rightarrow> ('m, string) res" where
  "decode_utf8 bs = require (utf8_valid bs) UnicodeError (Inr (map (\<lambda>b. char_of (nat (uint b))) bs))"

text \<open>\<^verbatim>\<open>shutil.copy2\<close> of a regular file: its contents and its permission bits.\<close>

definition copy2 :: "fs \<Rightarrow> path \<Rightarrow> path \<Rightarrow> ('m, fs) res" where
  "copy2 fs source output =
     (case stat fs source of
        Some (File bs mode) \<Rightarrow>
          bind_res (write_bytes fs output bs) (\<lambda>fs1. case mode of None \<Rightarrow> Inr fs1 | Some m \<Rightarrow> chmod fs1 output m)
      | _ \<Rightarrow> Inl OSError)"

text \<open>The files below a directory, in the order of \<^verbatim>\<open>sorted\<close>.\<close>

definition rglob_files :: "fs \<Rightarrow> path \<Rightarrow> string list list" where
  "rglob_files fs d =
     (case locate fs d of None \<Rightarrow> []
      | Some q \<Rightarrow> filter (\<lambda>rel. is_file fs (d @ rel))
          (sort (map (\<lambda>(r, _). drop (length q) r) (filter (\<lambda>(r, _). strict_prefix q r) fs))))"

section \<open>Regions without links\<close>

text \<open>Every component of \<open>p\<close> after \<open>cur\<close> but the last is a directory and the last is no link.\<close>

lemma walk_plain:
  assumes "''..'' \<notin> set p"
    and "\<And>i. 0 < i \<Longrightarrow> i < length p \<Longrightarrow> map_of fs (cur @ take i p) = Some Dir"
    and "p \<noteq> [] \<Longrightarrow> \<forall>t. map_of fs (cur @ p) \<noteq> Some (Link t)"
  shows "walk strict fs k cur p = Some (cur @ p)"
  using assms
proof (induction p arbitrary: cur)
  case Nil
  then show ?case by (simp add: walk.simps)
next
  case (Cons c rest)
  have c: "c \<noteq> ''..''" using Cons.prems(1) by auto
  show ?case
  proof (cases "rest = []")
    case True
    then have "\<forall>t. map_of fs (cur @ [c]) \<noteq> Some (Link t)" using Cons.prems(3) by simp
    then show ?thesis
      using c True by (auto simp: walk.simps split: option.split node.split)
  next
    case False
    then have "map_of fs (cur @ [c]) = Some Dir" using Cons.prems(2) [of 1] by simp
    moreover have "walk strict fs k (cur @ [c]) rest = Some ((cur @ [c]) @ rest)"
    proof (rule Cons.IH)
      show "map_of fs ((cur @ [c]) @ take i rest) = Some Dir" if "0 < i" "i < length rest" for i
        using Cons.prems(2) [of "Suc i"] that by simp
    qed (use Cons.prems False in auto)
    ultimately show ?thesis using c by (simp add: walk.simps)
  qed
qed

text \<open>\<open>dirs fs p\<close>: \<open>p\<close> and all its prefixes are directories.\<close>

definition dirs :: "fs \<Rightarrow> path \<Rightarrow> bool" where
  "dirs fs p \<longleftrightarrow> ''..'' \<notin> set p \<and> (\<forall>i. 0 < i \<and> i \<le> length p \<longrightarrow> map_of fs (take i p) = Some Dir)"

lemma dirs_Nil [simp]: "dirs fs []"
  by (simp add: dirs_def)

lemma dirs_take: "dirs fs p \<Longrightarrow> dirs fs (take n p)"
  by (auto simp: dirs_def dest: in_set_takeD)

lemma dirs_snoc: "dirs fs (p @ [c]) \<longleftrightarrow> dirs fs p \<and> c \<noteq> ''..'' \<and> map_of fs (p @ [c]) = Some Dir"
  by (force simp: dirs_def le_Suc_eq all_conj_distrib)

lemma dirs_node: "dirs fs p \<Longrightarrow> node_at fs p = Some Dir"
  by (auto simp: dirs_def node_at_def)

lemma locate_below:
  assumes "dirs fs d" and "c \<noteq> ''..''" and "\<forall>t. map_of fs (d @ [c]) \<noteq> Some (Link t)"
  shows "locate fs (d @ [c]) = Some (d @ [c])"
proof -
  have "walk True fs LINKS [] (d @ [c]) = Some ([] @ (d @ [c]))"
    by (rule walk_plain) (use assms in \<open>auto simp: dirs_def less_Suc_eq_le\<close>)
  then show ?thesis by (simp add: locate_def)
qed

lemma locate_dirs: "dirs fs d \<Longrightarrow> locate fs d = Some d"
proof -
  assume d: "dirs fs d"
  then have "d \<noteq> [] \<Longrightarrow> map_of fs d = Some Dir" by (auto simp: dirs_def)
  then have "walk True fs LINKS [] d = Some ([] @ d)"
    using d by (intro walk_plain) (auto simp: dirs_def)
  then show ?thesis by (simp add: locate_def)
qed

lemma lplace_below: "dirs fs d \<Longrightarrow> lplace fs (d @ [c]) = Some (d @ [c])"
  by (simp add: lplace_def locate_dirs dirs_node)

lemma is_dir_dirs: "dirs fs d \<Longrightarrow> is_dir fs d"
  by (simp add: is_dir_def stat_def locate_dirs dirs_node)

lemma stat_below:
  "dirs fs d \<Longrightarrow> c \<noteq> ''..'' \<Longrightarrow> \<forall>t. map_of fs (d @ [c]) \<noteq> Some (Link t) \<Longrightarrow> stat fs (d @ [c]) = map_of fs (d @ [c])"
  by (simp add: stat_def locate_below node_at_def)

lemma mkdir_one_below:
  assumes "dirs fs d" and "c \<noteq> ''..''"
  shows "map_of fs (d @ [c]) = Some Dir \<Longrightarrow> mkdir_one fs (d @ [c]) = Inr fs"
    and "map_of fs (d @ [c]) = None \<Longrightarrow> mkdir_one fs (d @ [c]) = Inr (dict_set fs (d @ [c]) Dir)"
  using assms by (simp_all add: mkdir_one_def is_dir_def stat_below lplace_below node_at_def)

lemma write_below:
  assumes "dirs fs d" and "c \<noteq> ''..''"
  shows "map_of fs (d @ [c]) = None \<Longrightarrow> write_bytes fs (d @ [c]) bs = Inr (dict_set fs (d @ [c]) (File bs None))"
    and "map_of fs (d @ [c]) = Some (File old m) \<Longrightarrow> write_bytes fs (d @ [c]) bs = Inr (dict_set fs (d @ [c]) (File bs m))"
  using assms by (simp_all add: write_bytes_def locate_below node_at_def dirs_node [unfolded node_at_def])

lemma chmod_below:
  "dirs fs d \<Longrightarrow> c \<noteq> ''..'' \<Longrightarrow> map_of fs (d @ [c]) = Some (File bs old) \<Longrightarrow>
   chmod fs (d @ [c]) m = Inr (dict_set fs (d @ [c]) (File bs (Some m)))"
  by (simp add: chmod_def locate_below node_at_def)

lemma read_below:
  "dirs fs d \<Longrightarrow> c \<noteq> ''..'' \<Longrightarrow> map_of fs (d @ [c]) = Some (File bs m) \<Longrightarrow> read_bytes fs (d @ [c]) = Inr bs"
  by (simp add: read_bytes_def stat_below)

section \<open>Creating a directory with its parents\<close>

text \<open>The directories between \<open>d\<close> and \<open>d @ rel\<close>.\<close>

definition chain :: "path \<Rightarrow> path \<Rightarrow> path set" where
  "chain d rel = {d @ take i rel | i. 0 < i \<and> i \<le> length rel}"

lemma chain_snoc: "chain d (rel @ [c]) = insert (d @ rel @ [c]) (chain d rel)"
proof (intro equalityI subsetI)
  fix q assume "q \<in> chain d (rel @ [c])"
  then obtain i where "q = d @ take i (rel @ [c])" "0 < i" "i \<le> Suc (length rel)" by (auto simp: chain_def)
  then show "q \<in> insert (d @ rel @ [c]) (chain d rel)"
    by (cases "i = Suc (length rel)") (auto simp: chain_def)
next
  fix q assume "q \<in> insert (d @ rel @ [c]) (chain d rel)"
  then consider "q = d @ rel @ [c]" | i where "q = d @ take i rel" "0 < i" "i \<le> length rel"
    by (auto simp: chain_def)
  then show "q \<in> chain d (rel @ [c])"
  proof cases
    case 1
    then show ?thesis unfolding chain_def by (intro CollectI exI [of _ "Suc (length rel)"]) simp
  next
    case 2
    then show ?thesis unfolding chain_def by (intro CollectI exI [of _ i]) simp
  qed
qed

lemma chain_Nil [simp]: "chain d [] = {}"
  by (auto simp: chain_def)

lemma dirs_cong: "dirs fs p \<Longrightarrow> (\<And>i. 0 < i \<Longrightarrow> i \<le> length p \<Longrightarrow> map_of fs' (take i p) = Some Dir) \<Longrightarrow> dirs fs' p"
  by (auto simp: dirs_def)

lemma mkdirs_below:
  assumes "dirs fs d" and "''..'' \<notin> set rel" and "\<forall>q \<in> chain d rel. map_of fs q \<in> {None, Some Dir}"
  shows "\<exists>fs'. (foldM (\<lambda>fs i. mkdir_one fs (take i (d @ rel))) fs [Suc (length d)..<Suc (length d + length rel)] :: ('m, fs) res) = Inr fs' \<and>
    dirs fs' (d @ rel) \<and> (\<forall>q. map_of fs' q = (if q \<in> chain d rel then Some Dir else map_of fs q))"
  using assms(2,3)
proof (induction rel rule: rev_induct)
  case Nil
  then show ?case using assms(1) by simp
next
  case (snoc c rel)
  have "\<forall>q \<in> chain d rel. map_of fs q \<in> {None, Some Dir}" using snoc.prems by (simp add: chain_snoc)
  then obtain fs1 where fs1: "(foldM (\<lambda>fs i. mkdir_one fs (take i (d @ rel))) fs [Suc (length d)..<Suc (length d + length rel)] :: ('m, fs) res) = Inr fs1"
    "dirs fs1 (d @ rel)" "\<forall>q. map_of fs1 q = (if q \<in> chain d rel then Some Dir else map_of fs q)"
    using snoc by auto
  have c: "c \<noteq> ''..''" using snoc.prems(1) by auto
  have "d @ rel @ [c] \<notin> chain d rel" by (auto simp: chain_def dest: arg_cong [where f = length])
  then have old: "map_of fs1 ((d @ rel) @ [c]) = map_of fs (d @ rel @ [c])" using fs1(3) by simp
  have upt: "[Suc (length d)..<Suc (length d + length (rel @ [c]))] =
      [Suc (length d)..<Suc (length d + length rel)] @ [Suc (length d + length rel)]" by simp
  have pre: "(foldM (\<lambda>fs i. mkdir_one fs (take i (d @ rel @ [c]))) fs [Suc (length d)..<Suc (length d + length rel)] :: ('m, fs) res) = Inr fs1"
    unfolding fs1(1) [symmetric] by (rule foldM_cong) auto
  have last: "take (Suc (length d + length rel)) (d @ rel @ [c]) = (d @ rel) @ [c]" by simp
  show ?case
  proof (cases "map_of fs (d @ rel @ [c]) = Some Dir")
    case True
    then have "mkdir_one fs1 ((d @ rel) @ [c]) = (Inr fs1 :: ('m, fs) res)"
      using mkdir_one_below(1) [OF fs1(2) c] old by simp
    moreover have "dirs fs1 ((d @ rel) @ [c])" using fs1(2) c old True by (simp add: dirs_snoc del: append_assoc)
    ultimately show ?thesis
      unfolding upt foldM_append pre using fs1(3) True last by (auto simp: chain_snoc)
  next
    case False
    then have none: "map_of fs (d @ rel @ [c]) = None" using snoc.prems(2) by (auto simp: chain_snoc)
    then have "mkdir_one fs1 ((d @ rel) @ [c]) = (Inr (dict_set fs1 ((d @ rel) @ [c]) Dir) :: ('m, fs) res)"
      using mkdir_one_below(2) [OF fs1(2) c] old by simp
    moreover have "dirs (dict_set fs1 ((d @ rel) @ [c]) Dir) ((d @ rel) @ [c])"
      unfolding dirs_snoc using fs1(2) c by (auto intro: dirs_cong simp: dirs_def)
    ultimately show ?thesis
      unfolding upt foldM_append pre using fs1(3) last by (auto simp: chain_snoc)
  qed
qed

lemma mkdir_parents_below:
  assumes "dirs fs d"
  shows "(mkdir_parents fs (d @ rel) :: ('m, fs) res) =
     foldM (\<lambda>fs i. mkdir_one fs (take i (d @ rel))) fs [Suc (length d)..<Suc (length d + length rel)]"
proof -
  have "(foldM (\<lambda>fs i. mkdir_one fs (take i (d @ rel))) fs is :: ('m, fs) res) = Inr fs" if "\<forall>i \<in> set is. i \<le> length d" for "is"
    using that
  proof (induction "is")
    case (Cons i "is")
    then have i: "take i (d @ rel) = take i d" by simp
    have "(mkdir_one fs (take i d) :: ('m, fs) res) = Inr fs"
      using is_dir_dirs [OF dirs_take [OF assms, of i]] by (simp add: mkdir_one_def)
    then show ?case using Cons unfolding foldM.simps i by simp
  qed simp
  then have "(foldM (\<lambda>fs i. mkdir_one fs (take i (d @ rel))) fs [1..<Suc (length d)] :: ('m, fs) res) = Inr fs" by simp
  moreover have "[1..<Suc (length (d @ rel))] = [1..<Suc (length d)] @ [Suc (length d)..<Suc (length d + length rel)]"
    using upt_add_eq_append [of 1 "Suc (length d)" "length rel"] by simp
  ultimately show ?thesis unfolding mkdir_parents_def by (simp only: foldM_append bind_res_Inr)
qed

section \<open>Confinement\<close>

text \<open>
  \<open>confined fs0 d fs\<close>: the state \<open>fs\<close> differs from \<open>fs0\<close> only below the directory \<open>d\<close>, and
  nothing below \<open>d\<close> is a link, so that operations on paths below \<open>d\<close> stay below \<open>d\<close>.
\<close>

definition confined :: "fs \<Rightarrow> path \<Rightarrow> fs \<Rightarrow> bool" where
  "confined fs0 d fs \<longleftrightarrow> dirs fs d \<and> (\<forall>q t. prefix d q \<longrightarrow> map_of fs q \<noteq> Some (Link t)) \<and>
     (\<forall>q. \<not> strict_prefix d q \<longrightarrow> map_of fs q = map_of fs0 q)"

lemma walk_nolinks:
  assumes "''..'' \<notin> set p" and "\<And>i t. 0 < i \<Longrightarrow> i \<le> length p \<Longrightarrow> map_of fs (cur @ take i p) \<noteq> Some (Link t)"
  shows "walk strict fs k cur p \<in> {None, Some (cur @ p)}"
  using assms
proof (induction p arbitrary: cur)
  case Nil
  then show ?case by (simp add: walk.simps)
next
  case (Cons c rest)
  have "\<forall>t. map_of fs (cur @ [c]) \<noteq> Some (Link t)" using Cons.prems(2) [of 1] by simp
  moreover have "walk strict fs k (cur @ [c]) rest \<in> {None, Some ((cur @ [c]) @ rest)}"
  proof (rule Cons.IH)
    show "map_of fs ((cur @ [c]) @ take i rest) \<noteq> Some (Link t)" if "0 < i" "i \<le> length rest" for i t
      using Cons.prems(2) [of "Suc i"] that by simp
  qed (use Cons.prems in simp)
  moreover have "c \<noteq> ''..''" using Cons.prems(1) by auto
  ultimately show ?case by (auto simp: walk.simps split: option.split node.split)
qed

lemma locate_confined:
  assumes "confined fs0 d fs" and "''..'' \<notin> set rel"
  shows "locate fs (d @ rel) \<in> {None, Some (d @ rel)}"
proof -
  have "map_of fs (take i (d @ rel)) \<noteq> Some (Link t)" if "0 < i" "i \<le> length (d @ rel)" for i t
  proof (cases "i \<le> length d")
    case True
    then have "map_of fs (take i (d @ rel)) = Some Dir" using assms(1) that by (simp add: confined_def dirs_def)
    then show ?thesis by simp
  next
    case False
    then show ?thesis using assms(1) by (simp add: confined_def prefix_def)
  qed
  moreover have "''..'' \<notin> set (d @ rel)" using assms by (simp add: confined_def dirs_def)
  ultimately show ?thesis unfolding locate_def using walk_nolinks [of "d @ rel" fs "[]"] by simp
qed

lemma confined_update:
  assumes "confined fs0 d fs" and "strict_prefix d q" and "\<forall>t. n \<noteq> Link t"
  shows "confined fs0 d (dict_set fs q n)"
proof -
  have "take i d \<noteq> q" for i
    using assms(2) by (metis prefix_order.less_le_not_le take_is_prefix)
  then show ?thesis using assms by (auto simp: confined_def dirs_def)
qed

lemma strict_prefix_append: "rel \<noteq> [] \<Longrightarrow> strict_prefix d (d @ rel)"
  by (simp add: strict_prefix_def)

lemma lplace_confined:
  assumes "confined fs0 d fs" and "''..'' \<notin> set rel" and "rel \<noteq> []" and "lplace fs (d @ rel) = Some q"
  shows "q = d @ rel"
proof -
  have "''..'' \<notin> set (butlast rel)" using assms(2) by (auto dest: in_set_butlastD)
  then have "locate fs (d @ butlast rel) \<in> {None, Some (d @ butlast rel)}"
    using locate_confined [OF assms(1)] by blast
  moreover have "butlast (d @ rel) = d @ butlast rel" "last (d @ rel) = last rel" using assms(3) by (simp_all add: butlast_append)
  ultimately show ?thesis using assms(3,4) by (auto simp: lplace_def bind_eq_Some_conv split: if_splits)
qed

lemma mkdir_one_confined:
  assumes "confined fs0 d fs" and "''..'' \<notin> set rel" and "rel \<noteq> []" and "mkdir_one fs (d @ rel) = Inr fs'"
  shows "confined fs0 d fs'"
proof (cases "is_dir fs (d @ rel)")
  case False
  then obtain q where q: "lplace fs (d @ rel) = Some q" "fs' = dict_set fs q Dir"
    using assms(4) by (auto simp: mkdir_one_def res_simps split: option.splits)
  then have "q = d @ rel" using lplace_confined [OF assms(1-3)] by simp
  then show ?thesis
    unfolding q(2) using strict_prefix_append [OF assms(3)] by (intro confined_update [OF assms(1)]) auto
qed (use assms in \<open>simp add: mkdir_one_def\<close>)

lemma mkdir_parents_confined:
  assumes "confined fs0 d fs" and "''..'' \<notin> set rel" and "(mkdir_parents fs (d @ rel) :: ('m, fs) res) = Inr fs'"
  shows "confined fs0 d fs'"
proof -
  have "dirs fs d" using assms(1) by (simp add: confined_def)
  then have "(foldM (\<lambda>fs i. mkdir_one fs (take i (d @ rel))) fs [Suc (length d)..<Suc (length d + length rel)] :: ('m, fs) res) = Inr fs'"
    using assms(3) by (simp only: mkdir_parents_below)
  then show ?thesis
    using assms(1)
  proof (rule foldM_invariant)
    fix a i b
    assume i: "i \<in> set [Suc (length d)..<Suc (length d + length rel)]" and a: "confined fs0 d a"
      and m: "(mkdir_one a (take i (d @ rel)) :: ('m, fs) res) = Inr b"
    have "take i (d @ rel) = d @ take (i - length d) rel" using i by auto
    moreover have "take (i - length d) rel \<noteq> []" using i by auto
    moreover have "''..'' \<notin> set (take (i - length d) rel)" using assms(2) by (auto dest: in_set_takeD)
    ultimately show "confined fs0 d b" using m by (auto intro: mkdir_one_confined [OF a])
  qed
qed

lemma write_confined:
  assumes "confined fs0 d fs" and "''..'' \<notin> set rel" and "rel \<noteq> []" and "write_bytes fs (d @ rel) bs = Inr fs'"
  shows "confined fs0 d fs'"
  using assms(4) locate_confined [OF assms(1,2)] strict_prefix_append [OF assms(3), of d]
  by (auto simp: write_bytes_def res_simps split: option.splits node.splits intro: confined_update [OF assms(1)])

lemma chmod_confined:
  assumes "confined fs0 d fs" and "''..'' \<notin> set rel" and "rel \<noteq> []" and "chmod fs (d @ rel) m = Inr fs'"
  shows "confined fs0 d fs'"
  using assms(1,4) locate_confined [OF assms(1,2)] strict_prefix_append [OF assms(3), of d]
  by (auto simp: chmod_def split: option.splits node.splits intro: confined_update [OF assms(1)])

text \<open>The interface of a step of an installer: it keeps confinement for the inputs it accepts.\<close>

locale confined_step =
  fixes step :: "path \<Rightarrow> fs \<Rightarrow> 'a \<Rightarrow> ('m, fs) res" and accepts :: "'a \<Rightarrow> bool"
  assumes step_confined: "accepts x \<Longrightarrow> confined fs0 d fs \<Longrightarrow> step d fs x = Inr fs' \<Longrightarrow> confined fs0 d fs'"
begin

lemma loop_confined:
  "list_all accepts xs \<Longrightarrow> confined fs0 d fs \<Longrightarrow> foldM (step d) fs xs = Inr fs' \<Longrightarrow> confined fs0 d fs'"
  by (rule foldM_invariant [where P = "confined fs0 d"]) (auto simp: list_all_iff intro: step_confined)

end

text \<open>Well-formed states: a node has a directory above it, and a path one node.\<close>

definition wf_fs :: "fs \<Rightarrow> bool" where
  "wf_fs fs \<longleftrightarrow> distinct (map fst fs) \<and> (\<forall>q n. map_of fs q = Some n \<longrightarrow> q \<noteq> [] \<and> node_at fs (butlast q) = Some Dir)"

lemma no_children_no_descendants:
  assumes "wf_fs fs" and "\<not> has_children fs d" and "strict_prefix d q"
  shows "map_of fs q = None"
proof -
  obtain r where r: "q = d @ r" "r \<noteq> []" using assms(3) by (auto simp: strict_prefix_def prefix_def)
  have child: "map_of fs (d @ [c]) = None" for c
  proof (rule ccontr)
    assume "map_of fs (d @ [c]) \<noteq> None"
    then obtain n where "(d @ [c], n) \<in> set fs" by (auto dest: map_of_SomeD)
    then show False using assms(2) by (force simp: has_children_def list_ex_iff)
  qed
  have "r \<noteq> [] \<Longrightarrow> map_of fs (d @ r) = None"
  proof (induction r rule: rev_induct)
    case (snoc c r)
    show ?case
    proof (cases "r = []")
      case False
      then have "node_at fs (d @ r) = None" using snoc.IH by (simp add: node_at_def)
      then show ?thesis
        using assms(1) unfolding wf_fs_def
        by (metis append_assoc butlast_snoc not_None_eq option.distinct(1))
    qed (use child in simp)
  qed simp
  then show ?thesis using r by simp
qed

section \<open>Moving and removing trees\<close>

lemma map_of_rmtree: "map_of (rmtree fs d) q = (if prefix d q then None else map_of fs q)"
  unfolding rmtree_def by (induction fs) auto

lemma prefix_append_cases: "prefix d (s @ x) \<Longrightarrow> prefix d s \<or> prefix s d"
  by (metis prefixI prefix_same_cases)

lemma map_of_move:
  assumes "\<not> prefix s d" and "\<not> prefix d s"
  shows "map_of (move fs s d) q =
    (if prefix d q then map_of fs (s @ drop (length d) q) else if prefix s q then None else map_of fs q)"
proof (induction fs)
  case Nil
  then show ?case by (simp add: move_def rmtree_def)
next
  case (Cons e fs)
  obtain r n where e: "e = (r, n)" by (cases e)
  have inc: "\<not> (prefix d q \<and> prefix s q)" for q using assms prefix_same_cases by blast
  show ?case
  proof (cases "prefix d r")
    case True
    then have "move (e # fs) s d = move fs s d" by (simp add: move_def rmtree_def e)
    moreover have "s @ drop (length d) q \<noteq> r" using True assms prefix_append_cases by blast
    ultimately show ?thesis using Cons True e by auto
  next
    case nd: False
    show ?thesis
    proof (cases "prefix s r")
      case True
      then obtain y where y: "r = s @ y" by (auto simp: prefix_def)
      then have mv: "move (e # fs) s d = (d @ y, n) # move fs s d" using nd by (simp add: move_def rmtree_def e)
      show ?thesis
      proof (cases "prefix d q")
        case pq: True
        then obtain x where "q = d @ x" by (auto simp: prefix_def)
        then show ?thesis using Cons pq y unfolding mv by (simp add: e)
      next
        case False
        then have "q \<noteq> d @ y" by auto
        then show ?thesis using Cons False y unfolding mv by (auto simp: e)
      qed
    next
      case False
      then have mv: "move (e # fs) s d = (r, n) # move fs s d" using nd by (simp add: move_def rmtree_def e)
      have "s @ x \<noteq> r" for x using False by auto
      then show ?thesis using Cons nd False unfolding mv by (auto simp: e)
    qed
  qed
qed

lemma confined_rmtree:
  assumes "confined fs0 d fs" and "strict_prefix d q"
  shows "confined fs0 d (rmtree fs q)"
proof -
  have "\<not> prefix q (take i d)" for i
    using assms(2) by (metis prefix_order.dual_order.strict_trans1 prefix_order.less_irrefl take_is_prefix)
  moreover have "\<not> prefix q r" if "\<not> strict_prefix d r" for r
    using that assms(2) prefix_order.less_le_trans by blast
  ultimately show ?thesis using assms(1) by (auto simp: confined_def dirs_def map_of_rmtree)
qed

lemma confined_move:
  assumes c: "confined fs0 d fs" and s: "strict_prefix d s" and t: "strict_prefix d t"
    and "\<not> prefix s t" "\<not> prefix t s"
  shows "confined fs0 d (move fs s t)"
proof -
  have no: "\<not> prefix s r \<and> \<not> prefix t r" if "\<not> strict_prefix d r" for r
    using that s t prefix_order.less_le_trans by blast
  have "\<not> strict_prefix d (take i d)" for i by (metis prefix_order.less_le_not_le take_is_prefix)
  then have "map_of (move fs s t) (take i d) = map_of fs (take i d)" for i
    using no by (simp add: map_of_move assms(4,5))
  moreover have "map_of fs (s @ x) \<noteq> Some (Link l)" for x l
    using c s unfolding confined_def by (metis prefix_order.less_imp_le prefix_prefix)
  ultimately show ?thesis
    using c no unfolding confined_def dirs_def by (auto simp: map_of_move assms(4,5))
qed

section \<open>Reading below a directory without links\<close>

lemma walk_strict_dirs:
  assumes "''..'' \<notin> set p" and "\<And>i t. 0 < i \<Longrightarrow> i \<le> length p \<Longrightarrow> map_of fs (cur @ take i p) \<noteq> Some (Link t)"
    and "walk True fs k cur p = Some q" and "0 < i" and "i < length p"
  shows "map_of fs (cur @ take i p) = Some Dir"
  using assms
proof (induction p arbitrary: cur i)
  case (Cons c rest)
  have nl: "\<forall>t. map_of fs (cur @ [c]) \<noteq> Some (Link t)" using Cons.prems(2) [of 1] by simp
  have c: "c \<noteq> ''..''" "rest \<noteq> []" using Cons.prems by auto
  then have d: "map_of fs (cur @ [c]) = Some Dir" and w: "walk True fs k (cur @ [c]) rest = Some q"
    using Cons.prems(3) nl by (auto simp: walk.simps split: option.splits node.splits)
  show ?case
  proof (cases "i = 1")
    case False
    then obtain j where j: "i = Suc j" "0 < j" "j < length rest" using Cons.prems(4,5) by (cases i) auto
    have "map_of fs ((cur @ [c]) @ take j rest) = Some Dir"
    proof (rule Cons.IH [OF _ _ w j(2,3)])
      show "map_of fs ((cur @ [c]) @ take i rest) \<noteq> Some (Link t)" if "0 < i" "i \<le> length rest" for i t
        using Cons.prems(2) [of "Suc i"] that by simp
    qed (use Cons.prems(1) in simp)
    then show ?thesis using j by simp
  qed (use d in simp)
qed simp

lemma read_confined:
  assumes "confined fs0 d fs" and "''..'' \<notin> set rel" and "rel \<noteq> []" and "read_bytes fs (d @ rel) = Inr bs"
  shows "\<exists>m. map_of fs (d @ rel) = Some (File bs m)" and "0 < i \<Longrightarrow> i < length rel \<Longrightarrow> map_of fs (d @ take i rel) = Some Dir"
proof -
  obtain q where q: "locate fs (d @ rel) = Some q" "\<exists>m. node_at fs q = Some (File bs m)"
    using assms(4) by (auto simp: read_bytes_def stat_def bind_eq_Some_conv split: option.splits node.splits)
  then have "q = d @ rel" using locate_confined [OF assms(1,2)] by auto
  then show "\<exists>m. map_of fs (d @ rel) = Some (File bs m)" using q(2) assms(3) by (simp add: node_at_def)
  assume i: "0 < i" "i < length rel"
  have nl: "map_of fs ([] @ take j (d @ rel)) \<noteq> Some (Link t)" if "0 < j" "j \<le> length (d @ rel)" for j t
  proof (cases "j \<le> length d")
    case True
    then have "map_of fs (take j (d @ rel)) = Some Dir" using assms(1) that by (simp add: confined_def dirs_def)
    then show ?thesis by simp
  qed (use assms(1) in \<open>simp add: confined_def prefix_def\<close>)
  have "map_of fs ([] @ take (length d + i) (d @ rel)) = Some Dir"
    by (rule walk_strict_dirs [OF _ nl, of LINKS q])
      (use assms(1,2) q(1) i in \<open>auto simp: confined_def dirs_def locate_def\<close>)
  then show "map_of fs (d @ take i rel) = Some Dir" by simp
qed

lemma read_file_below:
  assumes "dirs fs d" and "''..'' \<notin> set rel" and "rel \<noteq> []"
    and "\<And>i. 0 < i \<Longrightarrow> i < length rel \<Longrightarrow> map_of fs (d @ take i rel) = Some Dir"
    and "map_of fs (d @ rel) = Some (File bs m)"
  shows "read_bytes fs (d @ rel) = Inr bs"
proof -
  have "walk True fs LINKS [] (d @ rel) = Some ([] @ (d @ rel))"
  proof (rule walk_plain)
    show "map_of fs ([] @ take i (d @ rel)) = Some Dir" if "0 < i" "i < length (d @ rel)" for i
      using that assms(1) assms(4) [of "i - length d"] by (cases "i \<le> length d") (auto simp: dirs_def)
  qed (use assms in \<open>auto simp: dirs_def\<close>)
  then show ?thesis using assms(3,5) by (simp add: read_bytes_def stat_def locate_def node_at_def)
qed

section \<open>Files in place\<close>

text \<open>A regular file at \<open>rel\<close> below \<open>d\<close>, reached through directories only.\<close>

definition stored :: "fs \<Rightarrow> path \<Rightarrow> path \<Rightarrow> bytes \<Rightarrow> int option \<Rightarrow> bool" where
  "stored fs d rel bs m \<longleftrightarrow> rel \<noteq> [] \<and> ''..'' \<notin> set rel \<and>
     (\<forall>i. 0 < i \<and> i < length rel \<longrightarrow> map_of fs (d @ take i rel) = Some Dir) \<and> map_of fs (d @ rel) = Some (File bs m)"

lemma stored_stat:
  assumes "confined fs0 d fs" and "stored fs d rel bs m"
  shows "stat fs (d @ rel) = Some (File bs m)"
proof -
  have dd: "dirs fs d" using assms(1) by (simp add: confined_def)
  have "walk True fs LINKS [] (d @ rel) = Some ([] @ (d @ rel))"
  proof (rule walk_plain)
    show "map_of fs ([] @ take i (d @ rel)) = Some Dir" if "0 < i" "i < length (d @ rel)" for i
      using that dd assms(2) by (cases "i \<le> length d") (auto simp: dirs_def stored_def)
  qed (use dd assms(2) in \<open>auto simp: dirs_def stored_def\<close>)
  then show ?thesis using assms(2) by (simp add: stat_def locate_def node_at_def stored_def)
qed

lemma stat_stored:
  assumes c: "confined fs0 d fs" and rel: "''..'' \<notin> set rel" and "stat fs (d @ rel) = Some (File bs m)"
  shows "stored fs d rel bs m"
proof -
  have rd: "read_bytes fs (d @ rel) = (Inr bs :: (unit, bytes) res)" using assms(3) by (simp add: read_bytes_def)
  have ne: "rel \<noteq> []"
  proof
    assume "rel = []"
    then have "stat fs (d @ rel) = Some Dir" using c by (simp add: confined_def stat_def locate_dirs dirs_node)
    then show False using assms(3) by simp
  qed
  obtain q where "locate fs (d @ rel) = Some q" "node_at fs q = Some (File bs m)"
    using assms(3) by (auto simp: stat_def bind_eq_Some_conv)
  then have "map_of fs (d @ rel) = Some (File bs m)" using locate_confined [OF c rel] ne by (auto simp: node_at_def)
  then show ?thesis using read_confined(2) [OF c rel ne rd] rel ne by (simp add: stored_def)
qed

lemma mkdir_one_keeps: "mkdir_one fs p = Inr fs' \<Longrightarrow> map_of fs q = Some n \<Longrightarrow> map_of fs' q = Some n"
  by (auto simp: mkdir_one_def node_at_def res_simps split: if_splits option.splits)

lemma mkdir_parents_keeps:
  assumes "mkdir_parents fs p = Inr fs'" and "map_of fs q = Some n" shows "map_of fs' q = Some n"
  using assms(1) unfolding mkdir_parents_def
  by (rule foldM_invariant [where P = "\<lambda>fs. map_of fs q = Some n"]) (use assms(2) mkdir_one_keeps in blast)+

lemma stored_keep:
  assumes "stored fs d rel bs m" and "\<And>q n. map_of fs q = Some n \<Longrightarrow> map_of fs' q = Some n"
  shows "stored fs' d rel bs m"
  using assms by (simp add: stored_def)

lemma stored_update:
  assumes "stored fs d rel bs m" and "\<forall>i. 0 < i \<and> i \<le> length rel \<longrightarrow> q \<noteq> d @ take i rel"
  shows "stored (dict_set fs q n) d rel bs m"
  using assms by (auto simp: stored_def)

lemma write_stored:
  assumes c: "confined fs0 d fs" and rel: "''..'' \<notin> set rel" "rel \<noteq> []"
    and w: "write_bytes fs (d @ rel) bs = (Inr fs' :: ('m, fs) res)"
  shows "\<exists>m. fs' = dict_set fs (d @ rel) (File bs m) \<and> stored fs' d rel bs m"
proof -
  have loc: "locate fs (d @ rel) = Some (d @ rel)"
    using w locate_confined [OF c rel(1)] by (auto simp: write_bytes_def split: option.splits)
  then obtain m where m: "fs' = dict_set fs (d @ rel) (File bs m)"
    using w rel(2) by (auto simp: write_bytes_def node_at_def res_simps split: option.splits node.splits)
  have nl: "map_of fs ([] @ take j (d @ rel)) \<noteq> Some (Link t)" if "0 < j" "j \<le> length (d @ rel)" for j t
  proof (cases "j \<le> length d")
    case True
    then have "map_of fs (take j (d @ rel)) = Some Dir" using c that by (simp add: confined_def dirs_def)
    then show ?thesis by simp
  qed (use c in \<open>simp add: confined_def prefix_def\<close>)
  have "map_of fs (d @ take i rel) = Some Dir" if "0 < i" "i < length rel" for i
  proof -
    have "map_of fs ([] @ take (length d + i) (d @ rel)) = Some Dir"
      by (rule walk_strict_dirs [OF _ nl, of LINKS "d @ rel"])
        (use c rel(1) loc that in \<open>auto simp: confined_def dirs_def locate_def\<close>)
    then show ?thesis by simp
  qed
  moreover have "take i rel \<noteq> rel" if "i < length rel" for i using that by (metis length_take min.absorb4 nat_neq_iff)
  ultimately show ?thesis using m rel by (auto simp: stored_def)
qed

lemma stored_exists:
  assumes c: "confined fs0 d fs" and s: "stored fs d rel bs m" and i: "0 < i" "i \<le> length rel"
  shows "path_exists fs (d @ take i rel)"
proof (cases "i = length rel")
  case True
  then show ?thesis using stored_stat [OF c s] by (simp add: path_exists_def)
next
  case False
  have "map_of fs (take j (d @ take i rel)) = Some Dir" if j: "0 < j" "j \<le> length (d @ take i rel)" for j
  proof (cases "j \<le> length d")
    case True
    then show ?thesis using c j by (simp add: confined_def dirs_def)
  next
    case nd: False
    then have "take j (d @ take i rel) = d @ take (j - length d) rel" "0 < j - length d" "j - length d < length rel"
      using j i False by auto
    then show ?thesis using s by (simp add: stored_def)
  qed
  then have "dirs fs (d @ take i rel)"
    using c s by (auto simp: dirs_def confined_def stored_def dest: in_set_takeD)
  then show ?thesis using is_dir_dirs by (simp add: path_exists_def is_dir_def)
qed

lemma chmod_stored:
  assumes c: "confined fs0 d fs" and s: "stored fs d rel bs m" and r: "chmod fs (d @ rel) k = (Inr fs' :: ('m, fs) res)"
  shows "fs' = dict_set fs (d @ rel) (File bs (Some k)) \<and> stored fs' d rel bs (Some k)"
proof -
  have rel: "rel \<noteq> []" "''..'' \<notin> set rel" "map_of fs (d @ rel) = Some (File bs m)" using s by (auto simp: stored_def)
  have "locate fs (d @ rel) = Some (d @ rel)"
    using r locate_confined [OF c rel(2)] by (auto simp: chmod_def split: option.splits)
  then have "fs' = dict_set fs (d @ rel) (File bs (Some k))" using r rel by (simp add: chmod_def node_at_def)
  moreover have "take i rel \<noteq> rel" if "i < length rel" for i using that by (metis length_take min.absorb4 nat_neq_iff)
  ultimately show ?thesis using s by (auto simp: stored_def)
qed

lemma copy2_stored:
  assumes c: "confined fs0 d fs" and a: "''..'' \<notin> set a" and b: "''..'' \<notin> set b" "b \<noteq> []"
    and r: "copy2 fs (d @ a) (d @ b) = (Inr fs' :: ('m, fs) res)"
  shows "confined fs0 d fs' \<and> (\<exists>bs m m'. stored fs d a bs m \<and> stored fs' d b bs m' \<and> (m \<noteq> None \<longrightarrow> m' = m)) \<and>
    (\<exists>n. fs' = dict_set fs (d @ b) n)"
proof -
  obtain bs m fs1 where src: "stat fs (d @ a) = Some (File bs m)" and w: "write_bytes fs (d @ b) bs = (Inr fs1 :: ('m, fs) res)"
    and ch: "(case m of None \<Rightarrow> Inr fs1 | Some k \<Rightarrow> chmod fs1 (d @ b) k) = (Inr fs' :: ('m, fs) res)"
    using r by (auto simp: copy2_def bind_res_Inr_iff split: option.splits node.splits)
  obtain m1 where m1: "fs1 = dict_set fs (d @ b) (File bs m1)" "stored fs1 d b bs m1"
    using write_stored [OF c b w] by blast
  have c1: "confined fs0 d fs1" using write_confined [OF c b w] .
  note sa = stat_stored [OF c a src]
  show ?thesis
  proof (cases m)
    case None
    then show ?thesis using ch c1 m1 sa by auto
  next
    case (Some k)
    then have k: "chmod fs1 (d @ b) k = (Inr fs' :: ('m, fs) res)" using ch by simp
    show ?thesis using chmod_stored [OF c1 m1(2) k] chmod_confined [OF c1 b k] sa Some m1(1) by (metis dict_set_twice)
  qed
qed

lemma write_target:
  assumes c: "confined fs0 d fs" and a: "''..'' \<notin> set a" "a \<noteq> []"
    and w: "write_bytes fs (d @ a) bs = Inr fs'"
  shows "map_of fs (d @ a) \<noteq> Some Dir \<and> (\<exists>n. fs' = dict_set fs (d @ a) n)"
  using w a locate_confined [OF c a(1)]
  by (auto simp: write_bytes_def node_at_def res_simps split: option.splits node.splits)

section \<open>Destinations checked component by component\<close>

lemma mkdirs_below_accepts:
  assumes "dirs fs d" and "''..'' \<notin> set rel" and "\<And>q t. q \<in> chain d rel \<Longrightarrow> map_of fs q \<noteq> Some (Link t)"
    and "(foldM (\<lambda>fs i. mkdir_one fs (take i (d @ rel))) fs [Suc (length d)..<Suc (length d + length rel)] :: ('m, fs) res) = Inr fs'"
  shows "\<forall>q \<in> chain d rel. map_of fs q \<in> {None, Some Dir}"
  using assms(2-4)
proof (induction rel arbitrary: fs' rule: rev_induct)
  case (snoc c rel)
  have upt: "[Suc (length d)..<Suc (length d + length (rel @ [c]))] =
      [Suc (length d)..<Suc (length d + length rel)] @ [Suc (length d + length rel)]" by simp
  obtain fs1 where fs1: "(foldM (\<lambda>fs i. mkdir_one fs (take i (d @ rel @ [c]))) fs [Suc (length d)..<Suc (length d + length rel)] :: ('m, fs) res) = Inr fs1"
    and m: "(mkdir_one fs1 ((d @ rel) @ [c]) :: ('m, fs) res) = Inr fs'"
    using snoc.prems(3) unfolding upt foldM_append by (auto simp: bind_res_Inr_iff)
  have "(foldM (\<lambda>fs i. mkdir_one fs (take i (d @ rel))) fs [Suc (length d)..<Suc (length d + length rel)] :: ('m, fs) res) = Inr fs1"
    unfolding fs1 [symmetric] by (rule foldM_cong) auto
  note f = this
  have old: "\<forall>q \<in> chain d rel. map_of fs q \<in> {None, Some Dir}"
    using snoc.prems(1,2) by (intro snoc.IH [OF _ _ f]) (auto simp: chain_snoc)
  have dots: "''..'' \<notin> set rel" "c \<noteq> ''..''" using snoc.prems(1) by auto
  obtain dd: "dirs fs1 (d @ rel)" and eq: "\<forall>q. map_of fs1 q = (if q \<in> chain d rel then Some Dir else map_of fs q)"
    using mkdirs_below [OF assms(1) dots(1) old, where 'm = 'm] f by auto
  have "d @ rel @ [c] \<notin> chain d rel" by (auto simp: chain_def dest: arg_cong [where f = length])
  then have same: "map_of fs1 ((d @ rel) @ [c]) = map_of fs (d @ rel @ [c])" using eq by simp
  have "\<forall>t. map_of fs (d @ rel @ [c]) \<noteq> Some (Link t)" using snoc.prems(2) by (simp add: chain_snoc)
  then have "map_of fs (d @ rel @ [c]) \<in> {None, Some Dir}"
    using m same stat_below [OF dd dots(2)] lplace_below [OF dd, of c]
    by (cases "map_of fs (d @ rel @ [c])"; cases "the (map_of fs (d @ rel @ [c]))") (auto simp: mkdir_one_def is_dir_def node_at_def)
  then show ?case using old by (simp add: chain_snoc)
qed simp

text \<open>In a well-formed state a directory has directories above it, and a path checked component by component has no links.\<close>

lemma wf_dirs: "wf_fs fs \<Longrightarrow> ''..'' \<notin> set p \<Longrightarrow> node_at fs p = Some Dir \<Longrightarrow> dirs fs p"
proof (induction p rule: rev_induct)
  case (snoc c p)
  then have "map_of fs (p @ [c]) = Some Dir" by (simp add: node_at_def)
  then have "node_at fs p = Some Dir" using snoc.prems(1) unfolding wf_fs_def by (metis butlast_snoc)
  then show ?case using snoc by (auto simp: dirs_snoc node_at_def)
qed simp

lemma unaliased_path:
  assumes "wf_fs fs" and "''..'' \<notin> set d" and "''..'' \<notin> set rel" and "\<And>i. 0 < i \<Longrightarrow> i \<le> length rel \<Longrightarrow> \<not> is_symlink fs (d @ take i rel)"
    and "q \<in> chain d rel"
  shows "map_of fs q \<noteq> Some (Link t)"
proof
  assume l: "map_of fs q = Some (Link t)"
  obtain i where i: "0 < i" "i \<le> length rel" "q = d @ take i rel" using assms(5) by (auto simp: chain_def)
  then have q: "q = butlast q @ [last q]" by (intro append_butlast_last_id [symmetric]) auto
  have "''..'' \<notin> set (butlast q)" using assms(2,3) i(3) by (auto dest!: in_set_butlastD in_set_takeD)
  moreover have "node_at fs (butlast q) = Some Dir" using assms(1) l by (auto simp: wf_fs_def)
  ultimately have "lplace fs q = Some q" using wf_dirs [OF assms(1)] lplace_below q by metis
  moreover have "q \<noteq> []" using assms(1) l by (auto simp: wf_fs_def)
  ultimately have "is_symlink fs q" using l by (simp add: is_symlink_def lstat_def node_at_def)
  then show False using assms(4) i by blast
qed

lemma write_below_accepts:
  assumes "dirs fs d" and "c \<noteq> ''..''" and "\<forall>t. map_of fs (d @ [c]) \<noteq> Some (Link t)" and "(write_bytes fs (d @ [c]) bs :: ('m, fs) res) = Inr fs'"
  shows "\<exists>m. fs' = dict_set fs (d @ [c]) (File bs m)"
  using assms(4) by (auto simp: write_bytes_def locate_below [OF assms(1-3)] node_at_def res_simps split: option.splits node.splits if_splits)

lemma resolve_dirs: "dirs fs d \<Longrightarrow> (resolve fs d :: ('m, path) res) = Inr d"
proof -
  assume d: "dirs fs d"
  then have "d \<noteq> [] \<Longrightarrow> map_of fs d = Some Dir" by (auto simp: dirs_def)
  then have "walk False fs LINKS [] d = Some ([] @ d)" using d by (intro walk_plain) (auto simp: dirs_def)
  then show ?thesis by (simp add: resolve_def)
qed

end
