(* ===== verification/Sources.thy ===== *)
theory Sources
  imports Py_FS
begin

text \<open>
  Pinned source archives and file sets, \<^verbatim>\<open>src/scripts/sources.py\<close>: verification of a download,
  validation and extraction of an archive, and the hash-checked installation of a selection of
  files.  What the scripts get from outside is a record of functions (\<open>host\<close>): the digests, the
  \<^verbatim>\<open>gh\<close> transport, the tar reader, the JSON printer and parser, the name of a fresh temporary
  directory and whether the platform has POSIX permissions.
\<close>

unbundle bit_operations_syntax

section \<open>Data\<close>

datatype kind = KFile | KDir | KSym | KHard | KOther

record member =
  m_name :: string
  m_kind :: kind
  m_size :: int
  m_link :: string
  m_mode :: int
  m_data :: bytes

record pinned =
  pin_path :: string
  pin_bytes :: int
  pin_sha256 :: string
  pin_git_blob :: "string option"

record source_spec =
  sp_repository :: string
  sp_commit :: string
  sp_archive :: "string option"
  sp_archive_bytes :: int
  sp_archive_sha256 :: string
  sp_files :: "pinned list option"
  sp_notice :: string
  sp_notice_sha256 :: string
  sp_exclude :: "string list"

record host =
  sha256 :: "bytes \<Rightarrow> string"
  sha1 :: "bytes \<Rightarrow> string"
  gh_api :: "string \<Rightarrow> bytes option"
  open_tar :: "bytes \<Rightarrow> member list option"
  dumps :: "source_spec \<Rightarrow> bytes"
  loads :: "bytes \<Rightarrow> source_spec option"
  tmp_name :: string
  is_posix :: bool

datatype (plugins only: code) src_msg =
    Archive_size_differs
  | Archive_digest_differs
  | Archive_name_invalid
  | Archive_cache_symlink
  | Unsafe_archive_path
  | Multiple_roots
  | Root_not_directory
  | Duplicate_or_aliased_selection
  | Selected_size_differs
  | Missing_selected
  | Extraction_not_empty
  | Duplicate_archive_path
  | Unsupported_member_type
  | Extraction_bounds
  | File_occupies_directory
  | Alias_cycle
  | Unsafe_alias
  | Alias_escapes
  | Directory_alias
  | Invalid_name_or_commit
  | Unsafe_pinned_path
  | Duplicate_or_invalid_pin
  | Invalid_git_blob
  | Empty_selection
  | Pinned_occupies_directory
  | Notice_not_pinned
  | Cached_file_missing
  | File_size_differs
  | File_digest_differs
  | Git_blob_differs
  | Cached_directory_symlink
  | Provenance_differs
  | Unknown_source string
  | Notice_differs

definition alnum :: "char \<Rightarrow> bool" where
  "alnum c = (c \<in> set ''ABCDEFGHIJKLMNOPQRSTUVWXYZabcdefghijklmnopqrstuvwxyz0123456789'')"

definition lower_alnum :: "char \<Rightarrow> bool" where
  "lower_alnum c = (c \<in> set ''abcdefghijklmnopqrstuvwxyz0123456789'')"

definition hex :: "nat \<Rightarrow> string \<Rightarrow> bool" where
  "hex n s = (length s = n \<and> list_all (\<lambda>c. c \<in> set ''0123456789abcdef'') s)"

definition cache_filename :: "string \<Rightarrow> bool" where
  "cache_filename s = (case s of [] \<Rightarrow> False | c # cs \<Rightarrow> alnum c \<and> list_all (\<lambda>c. alnum c \<or> c \<in> set ''._-'') cs)"

definition source_name :: "string \<Rightarrow> bool" where
  "source_name s =
     (case s of [] \<Rightarrow> False | c # cs \<Rightarrow> lower_alnum c \<and> list_all (\<lambda>c. lower_alnum c \<or> c \<in> set ''_-'') cs)"

text \<open>\<^verbatim>\<open>str(n)\<close> of a natural number.\<close>

fun show_nat :: "nat \<Rightarrow> string" where
  "show_nat n =
     (if n < 10 then [char_of (48 + n)] else show_nat (n div 10) @ [char_of (48 + n mod 10)])"

declare show_nat.simps [simp del]

section \<open>Downloads\<close>

definition verify_archive :: "host \<Rightarrow> fs \<Rightarrow> path \<Rightarrow> source_spec \<Rightarrow> (src_msg, unit) res" where
  "verify_archive h fs p spec =
     bind_res (read_bytes fs p) (\<lambda>data.
     require (int (length data) = sp_archive_bytes spec) (RuntimeError Archive_size_differs)
    (require (sha256 h data = sp_archive_sha256 spec) (RuntimeError Archive_digest_differs) (Inr ())))"

definition archive_url :: "source_spec \<Rightarrow> string" where
  "archive_url spec =
     ''https://codeload.github.com/'' @ sp_repository spec @ ''/legacy.tar.gz/'' @ sp_commit spec"

definition source_archive ::
  "host \<Rightarrow> fs \<Rightarrow> source_spec \<Rightarrow> string \<Rightarrow> path \<Rightarrow> (src_msg, fs \<times> path) res" where
  "source_archive h fs spec name cache =
     require (cache_filename name) (RuntimeError Archive_name_invalid)
    (let downloads = cache @ [''downloads'']; archive = downloads @ [name];
         partial = downloads @ [name @ ''.part''] in
     bind_res (mkdir_parents fs downloads) (\<lambda>fs1.
     require (\<not> is_symlink fs1 archive \<and> \<not> is_symlink fs1 partial) (RuntimeError Archive_cache_symlink)
    (bind_res (if is_file fs1 archive then Inr fs1 else
        bind_res (of_option CalledProcessError (gh_api h (archive_url spec))) (\<lambda>data.
        bind_res (write_bytes fs1 partial data) (\<lambda>fs2.
        bind_res (verify_archive h fs2 partial spec) (\<lambda>_.
        replace_path fs2 partial archive)))) (\<lambda>fs3.
     bind_res (verify_archive h fs3 archive spec) (\<lambda>_. Inr (fs3, archive))))))"

section \<open>Names of archive members\<close>

definition unsafe_name :: "string \<Rightarrow> bool" where
  "unsafe_name s \<longleftrightarrow> pure_absolute s \<or> pure_parts s = [] \<or> ''..'' \<in> set (pure_parts s) \<or>
     CHR '':'' \<in> set s \<or> BACKSLASH \<in> set s"

text \<open>
  The checks both extractions begin with: the root of the archive so far, and the name below it
  (\<open>None\<close> for the root itself).
\<close>

definition member_name :: "string option \<Rightarrow> member \<Rightarrow> (src_msg, string \<times> string option) res" where
  "member_name root m =
     (let parts = pure_parts (m_name m) in
      require (\<not> unsafe_name (m_name m)) (RuntimeError Unsafe_archive_path)
     (let root' = (case root of None \<Rightarrow> hd parts | Some r \<Rightarrow> r) in
      require (hd parts = root') (RuntimeError Multiple_roots)
     (if length parts = 1 then
        require (m_kind m = KDir) (RuntimeError Root_not_directory) (Inr (root', None))
      else Inr (root', Some (as_posix (tl parts))))))"

text \<open>
  Writing one file: its directory with its parents, its bytes and, where given and where the
  platform has them, its permission bits.
\<close>

definition extract_file :: "bool \<Rightarrow> path \<Rightarrow> fs \<Rightarrow> string list \<times> bytes \<times> int option \<Rightarrow> ('m, fs) res" where
  "extract_file posix d fs x =
     (case x of (parts, data, mode) \<Rightarrow>
      bind_res (mkdir_parents fs (d @ butlast parts)) (\<lambda>fs1.
      bind_res (write_bytes fs1 (d @ parts) data) (\<lambda>fs2.
      case mode of None \<Rightarrow> Inr fs2
      | Some m \<Rightarrow> if posix then chmod fs2 (d @ parts) (m AND 511) else Inr fs2)))"

section \<open>Streaming a selection\<close>

type_synonym selected = "(string \<times> pinned) list"

record selection_state =
  ss_fs :: fs
  ss_seen :: "string list"
  ss_root :: "string option"

definition select_step :: "path \<Rightarrow> selected \<Rightarrow> selection_state \<Rightarrow> member \<Rightarrow> (src_msg, selection_state) res" where
  "select_step stage selected st m =
     bind_res (member_name (ss_root st) m) (\<lambda>(root, below).
     let st1 = st\<lparr>ss_root := Some root\<rparr> in
     case below of None \<Rightarrow> Inr st1
     | Some name \<Rightarrow>
        let key = casefold name in
        (case map_of selected key of None \<Rightarrow> Inr st1
         | Some e \<Rightarrow>
            require (key \<notin> set (ss_seen st) \<and> name = pin_path e \<and> m_kind m = KFile)
              (RuntimeError Duplicate_or_aliased_selection)
           (require (m_size m = pin_bytes e) (RuntimeError Selected_size_differs)
           (bind_res (extract_file False stage (ss_fs st) (pure_parts (pin_path e), m_data m, None)) (\<lambda>fs.
            Inr (st1\<lparr>ss_seen := key # ss_seen st, ss_fs := fs\<rparr>))))))"

definition unpack_selected :: "host \<Rightarrow> fs \<Rightarrow> bytes \<Rightarrow> path \<Rightarrow> selected \<Rightarrow> (src_msg, fs) res" where
  "unpack_selected h fs archive stage selected =
     bind_res (of_option TarError (open_tar h archive)) (\<lambda>members.
     bind_res (foldM (select_step stage selected) \<lparr>ss_fs = fs, ss_seen = [], ss_root = None\<rparr> members) (\<lambda>st.
     require (set (ss_seen st) = set (dict_keys selected)) (RuntimeError Missing_selected) (Inr (ss_fs st))))"

section \<open>Extracting a whole archive\<close>

record plan =
  pl_entries :: "(string \<times> member) list"
  pl_names :: "string list"
  pl_root :: "string option"
  pl_total :: int

definition excluded :: "string list \<Rightarrow> string \<Rightarrow> bool" where
  "excluded exclude name = list_ex (\<lambda>v. name = v \<or> startswith name (v @ ''/'')) exclude"

definition plan_step :: "string list \<Rightarrow> plan \<Rightarrow> member \<Rightarrow> (src_msg, plan) res" where
  "plan_step exclude p m =
     bind_res (member_name (pl_root p) m) (\<lambda>(root, below).
     let p1 = p\<lparr>pl_root := Some root\<rparr> in
     case below of None \<Rightarrow> Inr p1
     | Some name \<Rightarrow>
        if excluded exclude name then Inr p1 else
        require (casefold name \<notin> set (pl_names p)) (RuntimeError Duplicate_archive_path)
       (let names = casefold name # pl_names p in
        require (m_kind m \<in> {KFile, KDir, KSym}) (RuntimeError Unsupported_member_type)
       (let total = pl_total p + m_size m in
        require (\<not> (m_size m < 0 \<or> total > 512 * 1024 * 1024 \<or> int (length names) > 100000))
          (RuntimeError Extraction_bounds)
       (Inr (p1\<lparr>pl_names := names, pl_total := total, pl_entries := dict_set (pl_entries p) name m\<rparr>)))))"

text \<open>The loop that follows a chain of symbolic links; \<open>seen\<close> bounds it to 32 rounds.\<close>

function follow :: "(string \<times> member) list \<Rightarrow> string list \<Rightarrow> string \<Rightarrow> member \<Rightarrow> (src_msg, member) res" where
  "follow entries seen current m =
     (if m_kind m \<noteq> KSym then Inr m
      else if current \<in> set seen \<or> length seen \<ge> 32 then Inl (RuntimeError Alias_cycle)
      else if pure_absolute (m_link m) \<or> CHR '':'' \<in> set (m_link m) \<or> BACKSLASH \<in> set (m_link m)
        then Inl (RuntimeError Unsafe_alias)
      else let current' = posix_normpath (posix_join (posix_dirname current) (m_link m)) in
        if current' = ''..'' \<or> startswith current' ''../'' then Inl (RuntimeError Alias_escapes)
        else (case map_of entries current' of
            None \<Rightarrow> Inl (RuntimeError Alias_escapes)
          | Some m' \<Rightarrow> if m_kind m' = KDir then Inl (RuntimeError Directory_alias)
              else follow entries (current # seen) current' m'))"
  by pat_completeness auto

termination
  by (relation "measure (\<lambda>(_, seen, _, _). 32 - length seen)") auto

declare follow.simps [simp del]

definition check_parents :: "(string \<times> member) list \<Rightarrow> string \<Rightarrow> (src_msg, unit) res" where
  "check_parents entries name =
     foldM (\<lambda>_ parent. case map_of entries (as_posix parent) of
          None \<Rightarrow> Inr ()
        | Some a \<Rightarrow> require (m_kind a = KDir) (RuntimeError File_occupies_directory) (Inr ()))
       () (parents_parts (pure_parts name))"

definition copy_step ::
  "(string \<times> member) list \<Rightarrow> (string \<times> member) list \<Rightarrow> string \<times> member \<Rightarrow> (src_msg, (string \<times> member) list) res"
where
  "copy_step entries copies x =
     (case x of (name, m) \<Rightarrow>
      bind_res (check_parents entries name) (\<lambda>_.
      bind_res (follow entries [] name m) (\<lambda>m'.
      Inr (if m_kind m' = KFile then dict_set copies name m' else copies))))"

definition plan_copies :: "string list \<Rightarrow> member list \<Rightarrow> (src_msg, (string \<times> member) list) res" where
  "plan_copies exclude members =
     bind_res (foldM (plan_step exclude) \<lparr>pl_entries = [], pl_names = [], pl_root = None, pl_total = 0\<rparr> members)
       (\<lambda>p. foldM (copy_step (pl_entries p)) [] (pl_entries p))"

definition unpack :: "host \<Rightarrow> fs \<Rightarrow> bytes \<Rightarrow> path \<Rightarrow> string list \<Rightarrow> (src_msg, fs) res" where
  "unpack h fs archive destination exclude =
     (if is_symlink fs destination then Inl (RuntimeError Extraction_not_empty)
      else if path_exists fs destination \<and> \<not> is_dir fs destination then Inl OSError
      else if any_iterdir fs destination then Inl (RuntimeError Extraction_not_empty)
      else bind_res (of_option TarError (open_tar h archive)) (\<lambda>members.
       bind_res (plan_copies exclude members) (\<lambda>copies.
       bind_res (mkdir_parents fs destination) (\<lambda>fs1.
       foldM (extract_file (is_posix h) destination) fs1
         (map (\<lambda>(name, m). (pure_parts name, m_data m, Some (m_mode m))) copies)))))"

section \<open>Installing a selection of files\<close>

definition select_pin :: "selected \<Rightarrow> pinned \<Rightarrow> (src_msg, selected) res" where
  "select_pin selected e =
     (let raw = pin_path e; key = casefold raw in
      require (\<not> (unsafe_name raw \<or> as_posix (pure_parts raw) \<noteq> raw \<or> key = ''.artbox-source.json''))
        (RuntimeError Unsafe_pinned_path)
     (require (key \<notin> set (dict_keys selected) \<and> 0 \<le> pin_bytes e \<and> hex 64 (pin_sha256 e))
        (RuntimeError Duplicate_or_invalid_pin)
     (require (case pin_git_blob e of None \<Rightarrow> True | Some b \<Rightarrow> hex 40 b) (RuntimeError Invalid_git_blob)
     (Inr (dict_set selected key e)))))"

definition select_pins :: "source_spec \<Rightarrow> pinned list \<Rightarrow> (src_msg, selected) res" where
  "select_pins spec files =
     bind_res (foldM select_pin [] files) (\<lambda>selected.
     require (selected \<noteq> []) (RuntimeError Empty_selection)
    (bind_res (foldM (\<lambda>_ key. require
          (\<not> list_ex (\<lambda>parent. as_posix parent \<in> set (dict_keys selected)) (parents_parts (pure_parts key)))
          (RuntimeError Pinned_occupies_directory) (Inr ())) () (dict_keys selected)) (\<lambda>_.
     require (case map_of selected (casefold (sp_notice spec)) of None \<Rightarrow> False
        | Some e \<Rightarrow> pin_path e = sp_notice spec \<and> pin_sha256 e = sp_notice_sha256 spec)
       (RuntimeError Notice_not_pinned) (Inr selected))))"

definition git_blob_bytes :: "bytes \<Rightarrow> bytes" where
  "git_blob_bytes data =
     map of_char (''blob '' @ show_nat (length data)) @ [0] @ data"

definition verify_pin :: "host \<Rightarrow> fs \<Rightarrow> path \<Rightarrow> pinned \<Rightarrow> (src_msg, unit) res" where
  "verify_pin h fs directory e =
     (let p = directory @ pure_parts (pin_path e) in
      bind_res (resolve fs p) (\<lambda>real.
      bind_res (resolve fs directory) (\<lambda>base.
      require (prefix base real \<and> is_file fs p) (RuntimeError Cached_file_missing)
     (bind_res (read_bytes fs p) (\<lambda>data.
      require (int (length data) = pin_bytes e) (RuntimeError File_size_differs)
     (require (sha256 h data = pin_sha256 e) (RuntimeError File_digest_differs)
     (require (case pin_git_blob e of None \<Rightarrow> True | Some b \<Rightarrow> sha1 h (git_blob_bytes data) = b)
        (RuntimeError Git_blob_differs) (Inr ()))))))))"

definition verify_pins :: "host \<Rightarrow> fs \<Rightarrow> path \<Rightarrow> selected \<Rightarrow> (src_msg, unit) res" where
  "verify_pins h fs directory selected = foldM (\<lambda>_. verify_pin h fs directory) () (map snd selected)"

definition raw_url :: "source_spec \<Rightarrow> (string \<Rightarrow> string) \<Rightarrow> pinned \<Rightarrow> string" where
  "raw_url spec quote e =
     ''https://raw.githubusercontent.com/'' @ sp_repository spec @ ''/'' @ sp_commit spec @ ''/'' @ quote (pin_path e)"

definition fetch_pin ::
  "host \<Rightarrow> (string \<Rightarrow> string) \<Rightarrow> source_spec \<Rightarrow> path \<Rightarrow> fs \<Rightarrow> pinned \<Rightarrow> (src_msg, fs) res" where
  "fetch_pin h quote spec stage fs e =
     bind_res (of_option CalledProcessError (gh_api h (raw_url spec quote e))) (\<lambda>data.
     extract_file False stage fs (pure_parts (pin_path e), data, None))"

definition marker_name :: string where
  "marker_name = ''.artbox-source.json''"

text \<open>\<^verbatim>\<open>tempfile.TemporaryDirectory\<close> makes a directory that did not exist and removes it at the end.\<close>

definition make_temporary :: "fs \<Rightarrow> path \<Rightarrow> ('m, fs) res" where
  "make_temporary fs p =
     (case lplace fs p of None \<Rightarrow> Inl OSError
      | Some q \<Rightarrow> require (node_at fs q = None) OSError (Inr (dict_set fs q Dir)))"

definition marker_matches :: "host \<Rightarrow> fs \<Rightarrow> path \<Rightarrow> source_spec \<Rightarrow> (src_msg, unit) res" where
  "marker_matches h fs marker spec =
     require (is_file fs marker) (RuntimeError Provenance_differs)
    (bind_res (read_bytes fs marker) (\<lambda>data.
     bind_res (of_option (ValueError Provenance_differs) (loads h data)) (\<lambda>found.
     require (found = spec) (RuntimeError Provenance_differs) (Inr ()))))"

text \<open>Writing the marker, publishing the stage and removing the temporary directory.\<close>

definition publish :: "host \<Rightarrow> fs \<Rightarrow> path \<Rightarrow> path \<Rightarrow> path \<Rightarrow> source_spec \<Rightarrow> (src_msg, fs) res" where
  "publish h fs temporary stage installed spec =
     bind_res (write_bytes fs (stage @ [marker_name]) (dumps h spec)) (\<lambda>fs1.
     bind_res (replace_path fs1 stage installed) (\<lambda>fs2. Inr (rmtree fs2 temporary)))"

definition installed_path :: "string \<Rightarrow> source_spec \<Rightarrow> path \<Rightarrow> path" where
  "installed_path name spec cache = cache @ [''sources'', name @ ''-'' @ take 12 (sp_commit spec)]"

text \<open>Filling the stage from the source archive, or file by file.\<close>

definition stage_files ::
  "host \<Rightarrow> (string \<Rightarrow> string) \<Rightarrow> fs \<Rightarrow> source_spec \<Rightarrow> path \<Rightarrow> path \<Rightarrow> selected \<Rightarrow> (src_msg, fs) res" where
  "stage_files h quote fs spec cache stage selected =
     (case sp_archive spec of
        Some archive \<Rightarrow>
          bind_res (source_archive h fs spec archive cache) (\<lambda>(fs1, p).
          bind_res (read_bytes fs1 p) (\<lambda>data. unpack_selected h fs1 data stage selected))
      | None \<Rightarrow> foldM (fetch_pin h quote spec stage) fs (map snd selected))"

definition obtain_files ::
  "host \<Rightarrow> (string \<Rightarrow> string) \<Rightarrow> fs \<Rightarrow> string \<Rightarrow> source_spec \<Rightarrow> pinned list \<Rightarrow> path \<Rightarrow> (src_msg, fs \<times> path) res"
where
  "obtain_files h quote fs name spec files cache =
     require (source_name name \<and> hex 40 (sp_commit spec)) (RuntimeError Invalid_name_or_commit)
    (bind_res (select_pins spec files) (\<lambda>selected.
     let parent = cache @ [''sources'']; installed = installed_path name spec cache;
         marker = installed @ [marker_name] in
     bind_res (mkdir_parents fs parent) (\<lambda>fs1.
     require (\<not> is_symlink fs1 installed) (RuntimeError Cached_directory_symlink)
    (if path_exists fs1 installed then
       bind_res (marker_matches h fs1 marker spec) (\<lambda>_.
       bind_res (verify_pins h fs1 installed selected) (\<lambda>_. Inr (fs1, installed)))
     else
       let temporary = parent @ [name @ ''-'' @ tmp_name h]; stage = temporary @ [''source''] in
       bind_res (make_temporary fs1 temporary) (\<lambda>fs2.
       bind_res (stage_files h quote fs2 spec cache stage selected) (\<lambda>fs4.
       bind_res (verify_pins h fs4 stage selected) (\<lambda>_.
       bind_res (publish h fs4 temporary stage installed spec) (\<lambda>fs5.
       Inr (fs5, installed)))))))))"

definition obtain_source ::
  "host \<Rightarrow> (string \<Rightarrow> string) \<Rightarrow> (string \<times> source_spec) list \<Rightarrow> fs \<Rightarrow> string \<Rightarrow> path \<Rightarrow> (src_msg, fs \<times> path) res"
where
  "obtain_source h quote specs fs name cache =
     bind_res (of_option (RuntimeError (Unknown_source name)) (map_of specs name)) (\<lambda>spec.
     case sp_files spec of
       Some files \<Rightarrow> obtain_files h quote fs name spec files cache
     | None \<Rightarrow>
        bind_res (of_option KeyError (sp_archive spec)) (\<lambda>archive.
        bind_res (source_archive h fs spec archive cache) (\<lambda>(fs1, p).
        let parent = cache @ [''sources'']; installed = installed_path name spec cache;
            marker = installed @ [marker_name] in
        bind_res (mkdir_parents fs1 parent) (\<lambda>fs2.
        bind_res (if path_exists fs2 installed then
            bind_res (marker_matches h fs2 marker spec) (\<lambda>_. Inr fs2)
          else
            let temporary = parent @ [name @ ''-'' @ tmp_name h]; stage = temporary @ [''source''] in
            bind_res (make_temporary fs2 temporary) (\<lambda>fs3.
            bind_res (read_bytes fs3 p) (\<lambda>data.
            bind_res (unpack h fs3 data stage (sp_exclude spec)) (\<lambda>fs4.
            publish h fs4 temporary stage installed spec)))) (\<lambda>fs5.
        bind_res (read_bytes fs5 (installed @ pure_parts (sp_notice spec))) (\<lambda>notice.
        require (sha256 h notice = sp_notice_sha256 spec) (RuntimeError Notice_differs)
          (Inr (fs5, installed))))))))"

end
