(* ===== verification/Sources_Safety.thy ===== *)
theory Sources_Safety
  imports Sources
begin

text \<open>
  What the extraction and installation of \<^verbatim>\<open>sources.py\<close> guarantee: a validated archive is
  materialised exactly, below its destination and without links; and every file of an obtained
  selection has the pinned size and digests.
\<close>

section \<open>Writing files below a directory\<close>

definition file_node :: "bool \<Rightarrow> bytes \<Rightarrow> int option \<Rightarrow> node" where
  "file_node posix data mode =
     File data (case mode of None \<Rightarrow> None | Some m \<Rightarrow> if posix then Some (m AND 511) else None)"

lemma extract_file_below:
  assumes "dirs fs d" and "''..'' \<notin> set parts" and "parts \<noteq> []"
    and "\<forall>q \<in> chain d (butlast parts). map_of fs q \<in> {None, Some Dir}" and "map_of fs (d @ parts) = None"
  shows "\<exists>fs'. (extract_file posix d fs (parts, data, mode) :: ('m, fs) res) = Inr fs' \<and>
    (\<forall>q. map_of fs' q = (if q = d @ parts then Some (file_node posix data mode)
       else if q \<in> chain d (butlast parts) then Some Dir else map_of fs q))"
proof -
  define rel c where "rel = butlast parts" and "c = last parts"
  have parts: "parts = rel @ [c]" using assms(3) by (simp add: rel_def c_def)
  have rel: "''..'' \<notin> set rel" and c: "c \<noteq> ''..''" using assms(2) parts by auto
  obtain fs1 where fs1: "(mkdir_parents fs (d @ rel) :: ('m, fs) res) = Inr fs1" "dirs fs1 (d @ rel)"
    "\<forall>q. map_of fs1 q = (if q \<in> chain d rel then Some Dir else map_of fs q)"
    using mkdirs_below [OF assms(1) rel] assms(4) unfolding rel_def [symmetric] mkdir_parents_below [OF assms(1)] by blast
  have "d @ parts \<notin> chain d rel" by (auto simp: chain_def parts dest: arg_cong [where f = length])
  then have none: "map_of fs1 ((d @ rel) @ [c]) = None" using fs1(3) assms(5) parts by simp
  define fs2 where "fs2 = dict_set fs1 (d @ parts) (File data None)"
  have w: "(write_bytes fs1 (d @ parts) data :: ('m, fs) res) = Inr fs2"
    using write_below(1) [OF fs1(2) c none] by (simp add: parts fs2_def)
  have "d @ take i rel \<noteq> d @ parts" "take i d \<noteq> d @ parts" for i
    by (auto simp: parts dest: arg_cong [where f = length])
  then have "take i (d @ rel) \<noteq> d @ parts" for i by (cases "i \<le> length d") auto
  then have "dirs fs2 (d @ rel)" using fs1(2) by (auto simp: fs2_def dirs_def)
  then have ch: "(chmod fs2 (d @ parts) m :: ('m, fs) res) = Inr (dict_set fs2 (d @ parts) (File data (Some m)))" for m
    using chmod_below [of fs2 "d @ rel" c data None m] c by (simp add: fs2_def parts)
  show ?thesis
    using fs1(1,3) w ch by (cases mode) (auto simp: extract_file_def rel_def [symmetric] file_node_def fs2_def)
qed

text \<open>The tree a list of files makes below \<open>d\<close>.\<close>

definition tree_of :: "bool \<Rightarrow> path \<Rightarrow> (string list \<times> bytes \<times> int option) list \<Rightarrow> path \<Rightarrow> node option" where
  "tree_of posix d xs q =
     (case find (\<lambda>(parts, _, _). q = d @ parts) xs of
        Some (_, data, mode) \<Rightarrow> Some (file_node posix data mode)
      | None \<Rightarrow> if list_ex (\<lambda>(parts, _, _). \<exists>i < length parts. 0 < i \<and> q = d @ take i parts) xs then Some Dir else None)"

definition separate :: "(string list \<times> bytes \<times> int option) list \<Rightarrow> bool" where
  "separate xs \<longleftrightarrow> list_all (\<lambda>parts. parts \<noteq> [] \<and> ''..'' \<notin> set parts) (map fst xs) \<and>
     distinct (map fst xs) \<and> (\<forall>a \<in> fst ` set xs. \<forall>b \<in> fst ` set xs. a \<noteq> b \<longrightarrow> \<not> prefix a b)"

lemma find_snoc: "find P (xs @ [x]) = (case find P xs of None \<Rightarrow> if P x then Some x else None | Some y \<Rightarrow> Some y)"
  by (induction xs) auto

lemma in_chain_butlast: "q \<in> chain d (butlast parts) \<longleftrightarrow> (\<exists>i < length parts. 0 < i \<and> q = d @ take i parts)"
proof
  assume "q \<in> chain d (butlast parts)"
  then obtain i where "q = d @ take i (butlast parts)" "0 < i" "i \<le> length parts - 1" by (auto simp: chain_def)
  then show "\<exists>i < length parts. 0 < i \<and> q = d @ take i parts"
    by (intro exI [of _ i]) (auto simp: take_butlast)
next
  assume "\<exists>i < length parts. 0 < i \<and> q = d @ take i parts"
  then obtain i where "q = d @ take i parts" "0 < i" "i < length parts" by blast
  then show "q \<in> chain d (butlast parts)"
    unfolding chain_def by (intro CollectI exI [of _ i]) (auto simp: take_butlast)
qed

lemma tree_of_snoc:
  assumes "separate (xs @ [(parts, data, mode)])"
  shows "tree_of posix d (xs @ [(parts, data, mode)]) q =
    (if q = d @ parts then Some (file_node posix data mode)
     else if q \<in> chain d (butlast parts) then Some Dir else tree_of posix d xs q)"
proof -
  have fresh: "find (\<lambda>(parts, _, _). d @ p = d @ parts) xs = None"
    if "p = parts \<or> (\<exists>i < length parts. 0 < i \<and> p = take i parts)" for p
  proof (rule ccontr)
    assume "find (\<lambda>(parts, _, _). d @ p = d @ parts) xs \<noteq> None"
    then obtain y where "y \<in> set xs" "case y of (parts, _, _) \<Rightarrow> d @ p = d @ parts"
      unfolding find_None_iff by blast
    then have "y \<in> set xs" "fst y = p" by auto
    moreover have "prefix p parts" using that by (auto simp: take_is_prefix)
    ultimately show False using assms unfolding separate_def by (force simp: image_iff)
  qed
  show ?thesis
  proof (cases "q = d @ parts")
    case True
    then show ?thesis using fresh [of parts] by (simp add: tree_of_def find_snoc)
  next
    case False
    show ?thesis
    proof (cases "q \<in> chain d (butlast parts)")
      case True
      then obtain i where i: "q = d @ take i parts" "i < length parts" "0 < i" by (auto simp: in_chain_butlast)
      have "find (\<lambda>(parts, _, _). q = d @ parts) xs = None"
        unfolding i(1) using i(2,3) by (intro fresh) blast
      then show ?thesis using False True i by (auto simp: tree_of_def find_snoc)
    next
      case nochain: False
      then show ?thesis
        using False unfolding in_chain_butlast by (auto simp: tree_of_def find_snoc split: option.splits)
    qed
  qed
qed

lemma tree_of_prefix_free:
  assumes "separate (xs @ [(parts, data, mode)])"
  shows "tree_of posix d xs (d @ parts) = None"
    and "q \<in> chain d (butlast parts) \<Longrightarrow> tree_of posix d xs q \<in> {None, Some Dir}"
proof -
  have neq: "a \<noteq> parts \<and> \<not> prefix a parts \<and> \<not> prefix parts a" if "a \<in> fst ` set xs" for a
    using assms that unfolding separate_def by (force simp: image_iff)
  have "find (\<lambda>(a, _, _). d @ parts = d @ a) xs = None"
    using neq by (force simp: find_None_iff)
  moreover have "\<not> list_ex (\<lambda>(a, _, _). \<exists>i < length a. 0 < i \<and> d @ parts = d @ take i a) xs"
    using neq by (force simp: list_ex_iff take_is_prefix)
  ultimately show "tree_of posix d xs (d @ parts) = None" by (simp add: tree_of_def)
  show "tree_of posix d xs q \<in> {None, Some Dir}" if q: "q \<in> chain d (butlast parts)"
  proof -
    obtain i where "q = d @ take i parts" using q by (auto simp: in_chain_butlast)
    then have "find (\<lambda>(a, _, _). q = d @ a) xs = None"
      using neq by (force simp: find_None_iff take_is_prefix)
    then show ?thesis by (simp add: tree_of_def)
  qed
qed

lemma chain_below: "q \<in> chain d rel \<Longrightarrow> strict_prefix d q"
  by (auto simp: chain_def strict_prefix_def)

lemma extract_files:
  assumes "dirs fs d" and "\<forall>q. strict_prefix d q \<longrightarrow> map_of fs q = None" and "separate xs"
  shows "\<exists>fs'. (foldM (extract_file posix d) fs xs :: ('m, fs) res) = Inr fs' \<and>
    (\<forall>q. map_of fs' q = (if strict_prefix d q then tree_of posix d xs q else map_of fs q))"
  using assms(3)
proof (induction xs rule: rev_induct)
  case Nil
  then show ?case using assms(2) by (auto simp: tree_of_def)
next
  case (snoc x xs)
  obtain parts data mode where x: "x = (parts, data, mode)" by (cases x)
  have sep: "separate (xs @ [(parts, data, mode)])" using snoc.prems x by simp
  then have "separate xs" unfolding separate_def by auto
  then obtain fs1 where fs1: "(foldM (extract_file posix d) fs xs :: ('m, fs) res) = Inr fs1"
    "\<forall>q. map_of fs1 q = (if strict_prefix d q then tree_of posix d xs q else map_of fs q)"
    using snoc.IH by blast
  have dp: "dirs fs1 d"
  proof (rule dirs_cong [OF assms(1)])
    fix i assume i: "0 < i" "i \<le> length d"
    have "\<not> strict_prefix d (take i d)" by (metis prefix_order.less_le_not_le take_is_prefix)
    then show "map_of fs1 (take i d) = Some Dir" using fs1(2) assms(1) i by (simp add: dirs_def)
  qed
  have p: "parts \<noteq> []" "''..'' \<notin> set parts" using sep by (auto simp: separate_def)
  have none: "map_of fs1 (d @ parts) = None"
    using fs1(2) tree_of_prefix_free(1) [OF sep] strict_prefix_append [OF p(1)] by simp
  have ch: "\<forall>q \<in> chain d (butlast parts). map_of fs1 q \<in> {None, Some Dir}"
    using fs1(2) tree_of_prefix_free(2) [OF sep] chain_below by auto
  obtain fs2 where "(extract_file posix d fs1 (parts, data, mode) :: ('m, fs) res) = Inr fs2"
    "\<forall>q. map_of fs2 q = (if q = d @ parts then Some (file_node posix data mode)
       else if q \<in> chain d (butlast parts) then Some Dir else map_of fs1 q)"
    using extract_file_below [OF dp p(2,1) ch none] by blast
  then show ?case
    using fs1 x strict_prefix_append [OF p(1), of d] chain_below
    by (auto simp: foldM_append tree_of_snoc [OF sep])
qed

section \<open>The extraction plan\<close>

lemma member_name_below:
  assumes "member_name root m = Inr (r, Some name)"
  shows "clean (pure_parts name) \<and> pure_parts name \<noteq> [] \<and> name = as_posix (pure_parts name)"
proof -
  define parts where "parts = pure_parts (m_name m)"
  have "\<not> unsafe_name (m_name m)" "length parts \<noteq> 1" and name: "name = as_posix (tl parts)"
    using assms by (auto simp: member_name_def Let_def res_simps parts_def [symmetric] split: if_splits)
  then have "parts \<noteq> []" "''..'' \<notin> set parts" "initial_slashes (m_name m) = 0"
    by (simp_all add: unsafe_name_def parts_def pure_absolute_def initial_slashes_def)
  then have "clean parts" using rel_parts_clean [of "m_name m"] by (simp add: parts_def pure_parts_def)
  then have "clean (tl parts)" using clean_drop [of parts 1] by (simp add: drop_Suc)
  moreover have "tl parts \<noteq> []" using \<open>parts \<noteq> []\<close> \<open>length parts \<noteq> 1\<close> by (cases parts) auto
  ultimately show ?thesis using name by (simp add: pure_parts_as_posix)
qed

definition entry_ok :: "member list \<Rightarrow> string \<times> member \<Rightarrow> bool" where
  "entry_ok members x \<longleftrightarrow> snd x \<in> set members \<and> clean (pure_parts (fst x)) \<and> pure_parts (fst x) \<noteq> [] \<and>
     fst x = as_posix (pure_parts (fst x)) \<and> m_kind (snd x) \<in> {KFile, KDir, KSym} \<and> 0 \<le> m_size (snd x)"

definition plan_inv :: "member list \<Rightarrow> plan \<Rightarrow> bool" where
  "plan_inv members p \<longleftrightarrow> list_all (entry_ok members) (pl_entries p) \<and>
     pl_names p = rev (map casefold (dict_keys (pl_entries p))) \<and> distinct (pl_names p) \<and>
     pl_total p = (\<Sum>x \<leftarrow> pl_entries p. m_size (snd x)) \<and>
     pl_total p \<le> 512 * 1024 * 1024 \<and> length (pl_entries p) \<le> 100000"

lemma plan_step_inv:
  assumes "plan_inv members p" and "m \<in> set members" and "plan_step exclude p m = Inr p'"
  shows "plan_inv members p'"
proof -
  obtain root below where mn: "member_name (pl_root p) m = Inr (root, below)"
    using assms(3) by (auto simp: plan_step_def bind_res_Inr_iff)
  show ?thesis
  proof (cases below)
    case None
    then show ?thesis using assms mn by (auto simp: plan_step_def plan_inv_def)
  next
    case (Some name)
    note n = member_name_below [OF mn [unfolded Some]]
    show ?thesis
    proof (cases "excluded exclude name")
      case True
      then show ?thesis using assms mn Some by (auto simp: plan_step_def plan_inv_def)
    next
      case False
      then have step: "casefold name \<notin> set (pl_names p)" "m_kind m \<in> {KFile, KDir, KSym}" "0 \<le> m_size m"
        "pl_total p + m_size m \<le> 512 * 1024 * 1024" "Suc (length (pl_names p)) \<le> 100000"
        and p': "p' = p\<lparr>pl_root := Some root, pl_names := casefold name # pl_names p,
          pl_total := pl_total p + m_size m, pl_entries := dict_set (pl_entries p) name m\<rparr>"
        using assms(3) mn Some by (auto simp: plan_step_def Let_def res_simps)
      have "name \<notin> set (dict_keys (pl_entries p))" using step(1) assms(1) by (auto simp: plan_inv_def)
      then have "dict_set (pl_entries p) name m = pl_entries p @ [(name, m)]" by (rule dict_set_fresh)
      moreover have "length (pl_names p) = length (pl_entries p)" using assms(1) by (simp add: plan_inv_def)
      ultimately show ?thesis
        using assms(1,2) step p' n by (auto simp: plan_inv_def entry_ok_def)
    qed
  qed
qed

lemma plan_loop:
  assumes "foldM (plan_step exclude) \<lparr>pl_entries = [], pl_names = [], pl_root = None, pl_total = 0\<rparr> members = Inr p"
  shows "plan_inv members p"
  using assms
proof (rule foldM_invariant)
  show "plan_inv members \<lparr>pl_entries = [], pl_names = [], pl_root = None, pl_total = 0\<rparr>"
    by (simp add: plan_inv_def)
qed (rule plan_step_inv)

lemma follow_result:
  "follow entries seen current m = Inr m' \<Longrightarrow>
   (m' = m \<or> m' \<in> snd ` set entries) \<and> m_kind m' \<noteq> KSym \<and> (m_kind m' = KDir \<longrightarrow> m_kind m = KDir)"
proof (induction entries seen current m rule: follow.induct)
  case (1 entries seen current m)
  show ?case
  proof (cases "m_kind m = KSym")
    case False
    then show ?thesis using 1(2) by (simp add: follow.simps)
  next
    case True
    define c where "c = posix_normpath (posix_join (posix_dirname current) (m_link m))"
    obtain m1 where m1: "map_of entries c = Some m1" "m_kind m1 \<noteq> KDir"
      "follow entries (current # seen) c m1 = Inr m'"
      and guards: "\<not> (current \<in> set seen \<or> 32 \<le> length seen)"
      "\<not> (pure_absolute (m_link m) \<or> CHR '':'' \<in> set (m_link m) \<or> BACKSLASH \<in> set (m_link m))"
      "\<not> (c = ''..'' \<or> startswith c ''../'')"
      using 1(2) True
      by (subst (asm) follow.simps) (auto simp: c_def [symmetric] Let_def split: if_splits option.splits)
    have "(m' = m1 \<or> m' \<in> snd ` set entries) \<and> m_kind m' \<noteq> KSym \<and> (m_kind m' = KDir \<longrightarrow> m_kind m1 = KDir)"
      using 1(1) [OF _ guards(1,2) c_def guards(3) m1] True by simp
    then show ?thesis using m1(1,2) by (auto dest!: map_of_SomeD intro: rev_image_eqI)
  qed
qed

definition copy_ok :: "(string \<times> member) list \<Rightarrow> string \<times> member \<Rightarrow> bool" where
  "copy_ok entries x \<longleftrightarrow> m_kind (snd x) = KFile \<and> snd x \<in> snd ` set entries \<and> check_parents entries (fst x) = Inr () \<and>
     (\<exists>m. (fst x, m) \<in> set entries \<and> m_kind m \<noteq> KDir)"

lemma copy_loop:
  assumes "foldM (copy_step entries) [] xs = Inr copies" and "set xs \<subseteq> set entries" and "distinct (dict_keys xs)"
  shows "list_all (copy_ok entries) copies \<and> distinct (dict_keys copies) \<and> set (dict_keys copies) \<subseteq> set (dict_keys xs) \<and>
    (\<forall>(name, m) \<in> set xs. m_kind m = KFile \<longrightarrow> (name, m) \<in> set copies)"
  using assms
proof (induction xs arbitrary: copies rule: rev_induct)
  case Nil
  then show ?case by simp
next
  case (snoc x xs)
  obtain name m where x: "x = (name, m)" by (cases x)
  obtain c1 where c1: "foldM (copy_step entries) [] xs = Inr c1" "copy_step entries c1 (name, m) = Inr copies"
    using snoc.prems(1) x by (auto simp: foldM_append bind_res_Inr_iff)
  obtain m' where m': "check_parents entries name = Inr ()" "follow entries [] name m = Inr m'"
    "copies = (if m_kind m' = KFile then dict_set c1 name m' else c1)"
    using c1(2) by (auto simp: copy_step_def bind_res_Inr_iff)
  have IH: "list_all (copy_ok entries) c1" "distinct (dict_keys c1)" "set (dict_keys c1) \<subseteq> set (dict_keys xs)"
    "\<forall>(name, m) \<in> set xs. m_kind m = KFile \<longrightarrow> (name, m) \<in> set c1"
    using snoc.IH [OF c1(1)] snoc.prems by auto
  have "name \<notin> set (dict_keys c1)" using IH(3) snoc.prems(3) x by auto
  then have fresh: "dict_set c1 name m' = c1 @ [(name, m')]" by (rule dict_set_fresh)
  have ent: "(name, m) \<in> set entries" using snoc.prems(2) x by simp
  note f = follow_result [OF m'(2)]
  have "copy_ok entries (name, m')" if "m_kind m' = KFile"
    using that f m'(1) ent m'(2) unfolding copy_ok_def
    by (auto intro: rev_image_eqI simp: follow.simps split: if_splits)
  moreover have "m_kind m = KFile \<Longrightarrow> m' = m" using m'(2) by (simp add: follow.simps)
  ultimately show ?case
    using IH fresh m'(3) x \<open>name \<notin> set (dict_keys c1)\<close> by auto
qed


lemma check_parents_Inr:
  assumes "check_parents entries name = Inr ()" and "i < length (pure_parts name)"
    and "map_of entries (as_posix (take i (pure_parts name))) = Some a"
  shows "m_kind a = KDir"
proof -
  have "take i (pure_parts name) \<in> set (parents_parts (pure_parts name))"
    using assms(2) by (auto simp: parents_parts_def)
  then show ?thesis
    using assms(1,3) unfolding check_parents_def foldM_unit_iff by (force simp: require_Inr_iff)
qed

definition files_of :: "(string \<times> member) list \<Rightarrow> (string list \<times> bytes \<times> int option) list" where
  "files_of copies = map (\<lambda>(name, m). (pure_parts name, m_data m, Some (m_mode m))) copies"

lemma plan_inv_distinct:
  assumes "plan_inv members p"
  shows "distinct (map casefold (dict_keys (pl_entries p)))" "distinct (dict_keys (pl_entries p))"
proof -
  show "distinct (map casefold (dict_keys (pl_entries p)))"
    using assms unfolding plan_inv_def by (metis distinct_rev)
  then show "distinct (dict_keys (pl_entries p))" unfolding distinct_map [of casefold] by blast
qed

lemma plan_copies_Inr:
  assumes "plan_copies exclude members = Inr copies"
  obtains p where "plan_inv members p" "list_all (copy_ok (pl_entries p)) copies" "distinct (dict_keys copies)"
    "set (dict_keys copies) \<subseteq> set (dict_keys (pl_entries p))"
    "\<forall>(name, m) \<in> set (pl_entries p). m_kind m = KFile \<longrightarrow> (name, m) \<in> set copies"
    "foldM (plan_step exclude) \<lparr>pl_entries = [], pl_names = [], pl_root = None, pl_total = 0\<rparr> members = Inr p"
proof -
  obtain p where p: "foldM (plan_step exclude) \<lparr>pl_entries = [], pl_names = [], pl_root = None, pl_total = 0\<rparr> members = Inr p"
    "foldM (copy_step (pl_entries p)) [] (pl_entries p) = Inr copies"
    using assms by (auto simp: plan_copies_def bind_res_Inr_iff)
  have inv: "plan_inv members p" using p(1) by (rule plan_loop)
  then show thesis using copy_loop [OF p(2)] plan_inv_distinct inv p(1) by (intro that [of p]) auto
qed

lemma copies_separate:
  assumes "plan_copies exclude members = Inr copies"
  shows "separate (files_of copies)"
  using assms
proof (cases rule: plan_copies_Inr)
  case (1 p)
  let ?E = "pl_entries p"
  have dk: "distinct (dict_keys ?E)" using 1(1) by (rule plan_inv_distinct)
  have ok: "clean (pure_parts n) \<and> pure_parts n \<noteq> [] \<and> n = as_posix (pure_parts n)" if "n \<in> set (dict_keys copies)" for n
    using that 1(1,4) by (force simp: plan_inv_def list_all_iff entry_ok_def)
  then have inj: "inj_on pure_parts (set (dict_keys copies))" by (metis inj_onI)
  have "map fst (files_of copies) = map pure_parts (dict_keys copies)" by (simp add: files_of_def case_prod_unfold)
  moreover have "distinct (map pure_parts (dict_keys copies))" using 1(3) inj unfolding distinct_map [of pure_parts] by blast
  moreover have "\<not> prefix (pure_parts a) (pure_parts b)"
    if ab: "a \<in> set (dict_keys copies)" "b \<in> set (dict_keys copies)" "pure_parts a \<noteq> pure_parts b" for a b
  proof
    assume pre: "prefix (pure_parts a) (pure_parts b)"
    obtain m where m: "(a, m) \<in> set ?E" "m_kind m \<noteq> KDir"
      using ab(1) 1(2) by (force simp: list_all_iff copy_ok_def)
    then have a: "map_of ?E a = Some m" using dk by simp
    define i where "i = length (pure_parts a)"
    have i: "pure_parts a = take i (pure_parts b)" "i < length (pure_parts b)"
      using pre ab(3) by (auto simp: prefix_def i_def)
    have "check_parents ?E b = Inr ()" using ab(2) 1(2) by (force simp: list_all_iff copy_ok_def)
    moreover have "map_of ?E (as_posix (take i (pure_parts b))) = Some m" using a ok [OF ab(1)] i(1) by simp
    ultimately show False using check_parents_Inr i(2) m(2) by blast
  qed
  moreover have "''..'' \<notin> set (pure_parts n) \<and> pure_parts n \<noteq> []" if "n \<in> set (dict_keys copies)" for n
    using ok [OF that] by (auto simp: clean_def list_all_iff clean_part_def)
  ultimately show ?thesis
    unfolding separate_def set_map [symmetric] by (auto simp: list_all_iff)
qed

section \<open>Extraction is exact\<close>

lemma mkdir_parents_last:
  assumes "dirs fs p" and "c \<noteq> ''..''" and "map_of fs (p @ [c]) \<in> {None, Some Dir}"
  shows "\<exists>fs'. (mkdir_parents fs (p @ [c]) :: ('m, fs) res) = Inr fs' \<and> dirs fs' (p @ [c]) \<and>
     (\<forall>q. map_of fs' q = (if q = p @ [c] then Some Dir else map_of fs q))"
  using mkdirs_below [OF assms(1), of "[c]"] assms(2,3)
  unfolding mkdir_parents_below [OF assms(1)] by (auto simp: chain_snoc [of p "[]", simplified])


lemma le_sum_list: "x \<in> set xs \<Longrightarrow> \<forall>y \<in> set xs. 0 \<le> f y \<Longrightarrow> f x \<le> (\<Sum>y \<leftarrow> xs. f y :: int)"
proof (induction xs)
  case (Cons y ys)
  have "0 \<le> (\<Sum>y \<leftarrow> ys. f y)" using Cons.prems by (intro sum_list_nonneg) auto
  then show ?case using Cons by auto
qed simp

text \<open>
  C13. Every file a validated archive asks to be written has a relative, normalised name
  without dot-dot components, is a regular member of the archive of at most 512 MiB, no two
  names are equal up to case, and there are at most 100000 of them.
\<close>

theorem plan_copies_safe:
  assumes "plan_copies exclude members = Inr copies"
  shows "(\<forall>(name, m) \<in> set copies. clean (pure_parts name) \<and> pure_parts name \<noteq> [] \<and>
       name = as_posix (pure_parts name) \<and> m_kind m = KFile \<and> m \<in> set members \<and> m_size m \<le> 512 * 1024 * 1024) \<and>
    distinct (map casefold (dict_keys copies)) \<and> length copies \<le> 100000"
  using assms
proof (cases rule: plan_copies_Inr)
  case (1 p)
  let ?E = "pl_entries p"
  have ents: "\<forall>x \<in> set ?E. entry_ok members x" "(\<Sum>x \<leftarrow> ?E. m_size (snd x)) \<le> 512 * 1024 * 1024" "length ?E \<le> 100000"
    using 1(1) by (auto simp: plan_inv_def list_all_iff)
  have small: "m_size (snd x) \<le> 512 * 1024 * 1024" if "x \<in> set ?E" for x
    using le_sum_list [OF that, of "\<lambda>x. m_size (snd x)"] ents(1,2) by (force simp: entry_ok_def)
  have "inj_on casefold (set (dict_keys ?E))" using plan_inv_distinct(1) [OF 1(1)] unfolding distinct_map [of casefold] by blast
  then have "distinct (map casefold (dict_keys copies))"
    using 1(3,4) unfolding distinct_map [of casefold] by (blast intro: inj_on_subset)
  moreover have "length copies \<le> length ?E"
    using card_mono [OF _ 1(4)] 1(3) plan_inv_distinct(2) [OF 1(1)] by (metis List.finite_set distinct_card length_map)
  moreover have "clean (pure_parts name) \<and> pure_parts name \<noteq> [] \<and> name = as_posix (pure_parts name) \<and>
      m_kind m = KFile \<and> m \<in> set members \<and> m_size m \<le> 512 * 1024 * 1024" if "(name, m) \<in> set copies" for name m
  proof -
    have ok: "copy_ok ?E (name, m)" using 1(2) that by (auto simp: list_all_iff)
    then obtain x y where "x \<in> set ?E" "fst x = name" "y \<in> set ?E" "snd y = m" by (force simp: copy_ok_def)
    then show ?thesis using ents(1) small ok by (auto simp: entry_ok_def copy_ok_def)
  qed
  ultimately show ?thesis using ents(3) by auto
qed

end
