(* ===== verification/Sources_Install.thy ===== *)
theory Sources_Install
  imports Sources_Safety
begin

text \<open>
  The installation of a pinned selection, \<^verbatim>\<open>obtain_files\<close>: it changes nothing outside the cache,
  and every file of the directory it returns has the pinned size and digests, whether the
  directory was cached or has just been installed.  The cache is assumed to be a real directory
  without links in it.
\<close>

section \<open>Every operation stays in the cache\<close>

lemma extract_file_confined:
  assumes "confined fs0 d fs" and "fst x \<noteq> []" and "''..'' \<notin> set (fst x)" and "''..'' \<notin> set pre"
    and "extract_file posix (d @ pre) fs x = Inr fs'"
  shows "confined fs0 d fs'"
proof -
  obtain parts data mode where x: "x = (parts, data, mode)" by (cases x)
  have ok: "''..'' \<notin> set (pre @ butlast parts)" "''..'' \<notin> set (pre @ parts)" "pre @ parts \<noteq> []"
    using assms(2-4) x by (auto dest: in_set_butlastD)
  obtain fs1 fs2 where fs1: "mkdir_parents fs (d @ pre @ butlast parts) = (Inr fs1 :: ('a, fs) res)"
    and fs2: "write_bytes fs1 (d @ pre @ parts) data = (Inr fs2 :: ('a, fs) res)"
    and fs3: "(case mode of None \<Rightarrow> Inr fs2 | Some m \<Rightarrow> if posix then chmod fs2 ((d @ pre) @ parts) (m AND 511) else Inr fs2) = (Inr fs' :: ('a, fs) res)"
    using assms(5) x by (auto simp: extract_file_def bind_res_Inr_iff)
  have "confined fs0 d fs1" using mkdir_parents_confined [OF assms(1) ok(1) fs1] .
  then have c2: "confined fs0 d fs2" using write_confined ok(2,3) fs2 by blast
  then show ?thesis
    using fs3 chmod_confined [OF c2 ok(2,3)] unfolding append_assoc by (auto split: option.splits if_splits)
qed

definition writable_file :: "string list \<times> bytes \<times> int option \<Rightarrow> bool" where
  "writable_file x \<longleftrightarrow> fst x \<noteq> [] \<and> ''..'' \<notin> set (fst x)"

interpretation extraction: confined_step "extract_file posix" writable_file
  by unfold_locales (use extract_file_confined [where pre = "[]"] in \<open>auto simp: writable_file_def\<close>)

lemma replace_confined:
  assumes c: "confined fs0 d fs" and a: "''..'' \<notin> set a" "a \<noteq> []" and b: "''..'' \<notin> set b" "b \<noteq> []"
    and r: "replace_path fs (d @ a) (d @ b) = Inr fs'"
  shows "\<not> prefix a b \<and> node_at fs (d @ a) \<noteq> None \<and> fs' = move fs (d @ a) (d @ b) \<and>
    (node_at fs (d @ b) = Some Dir \<longrightarrow> \<not> has_children fs (d @ b))"
proof -
  obtain s t where st: "lplace fs (d @ a) = Some s" "lplace fs (d @ b) = Some t"
    using r by (auto simp: replace_path_def split: option.splits)
  then have "s = d @ a" "t = d @ b" using lplace_confined [OF c] a b by auto
  then show ?thesis
    using r st by (auto simp: replace_path_def res_simps split: option.splits node.splits)
qed

lemma make_temporary_confined:
  assumes "confined fs0 d fs" and "''..'' \<notin> set rel" and "rel \<noteq> []" and "make_temporary fs (d @ rel) = Inr fs'"
  shows "confined fs0 d fs' \<and> map_of fs (d @ rel) = None \<and> fs' = dict_set fs (d @ rel) Dir"
proof -
  obtain q where q: "lplace fs (d @ rel) = Some q" "node_at fs q = None" "fs' = dict_set fs q Dir"
    using assms(4) by (auto simp: make_temporary_def res_simps split: option.splits)
  then have "q = d @ rel" using lplace_confined [OF assms(1-3)] by simp
  then show ?thesis
    using q confined_update [OF assms(1) strict_prefix_append [OF assms(3)]] assms(3) by (simp add: node_at_def)
qed

lemma cache_filename_part:
  assumes "cache_filename name" shows "name \<noteq> ''..''" "name @ ''.part'' \<noteq> ''..''" "name \<noteq> name @ ''.part''"
  using assms by (auto simp: cache_filename_def alnum_def)

lemma source_archive_confined:
  assumes c: "confined fs0 d fs" and "source_archive h fs spec name d = Inr (fs', p)"
  shows "confined fs0 d fs'"
proof -
  let ?dl = "[''downloads'']"
  have name: "cache_filename name" using assms(2) by (auto simp: source_archive_def require_Inr_iff)
  note n = cache_filename_part [OF name]
  obtain fs1 where fs1: "mkdir_parents fs (d @ ?dl) = (Inr fs1 :: (src_msg, fs) res)"
    and fs': "fs' = fs1 \<or> (\<exists>data fs2. (write_bytes fs1 (d @ ?dl @ [name @ ''.part'']) data :: (src_msg, fs) res) = Inr fs2 \<and>
       (replace_path fs2 (d @ ?dl @ [name @ ''.part'']) (d @ ?dl @ [name]) :: (src_msg, fs) res) = Inr fs')"
    using assms(2) by (auto simp: source_archive_def Let_def res_simps split: if_splits)
  have c1: "confined fs0 d fs1" using mkdir_parents_confined [OF c _ fs1] by simp
  from fs' show ?thesis
  proof (elim disjE exE conjE)
    fix data fs2
    assume w: "(write_bytes fs1 (d @ ?dl @ [name @ ''.part'']) data :: (src_msg, fs) res) = Inr fs2"
      and r: "(replace_path fs2 (d @ ?dl @ [name @ ''.part'']) (d @ ?dl @ [name]) :: (src_msg, fs) res) = Inr fs'"
    have c2: "confined fs0 d fs2" by (rule write_confined [OF c1 _ _ w]) (use n in auto)
    have "fs' = move fs2 (d @ ?dl @ [name @ ''.part'']) (d @ ?dl @ [name])"
      using replace_confined [OF c2 _ _ _ _ r] n by auto
    moreover have "confined fs0 d (move fs2 (d @ ?dl @ [name @ ''.part'']) (d @ ?dl @ [name]))"
      by (rule confined_move [OF c2]) (use n in \<open>auto simp: strict_prefix_def\<close>)
    ultimately show ?thesis by simp
  qed (use c1 in simp)
qed

section \<open>The selection\<close>

definition pin_ok :: "pinned \<Rightarrow> bool" where
  "pin_ok e \<longleftrightarrow> clean (pure_parts (pin_path e)) \<and> pure_parts (pin_path e) \<noteq> [] \<and> pure_parts (pin_path e) \<noteq> [marker_name]"

lemma safe_name_clean:
  assumes "\<not> unsafe_name s" shows "clean (pure_parts s)" "pure_parts s \<noteq> []"
proof -
  have "pure_parts s = rel_parts s" using assms by (auto simp: unsafe_name_def pure_absolute_def pure_parts_def initial_slashes_def)
  then show "clean (pure_parts s)" "pure_parts s \<noteq> []"
    using assms rel_parts_clean [of s] by (auto simp: unsafe_name_def)
qed

lemma casefold_marker: "casefold marker_name = marker_name"
  by code_simp

lemma select_pin_Inr:
  assumes "select_pin selected e = Inr selected'"
  shows "pin_ok e \<and> selected' = selected @ [(casefold (pin_path e), e)]"
proof -
  have g: "\<not> unsafe_name (pin_path e)" "as_posix (pure_parts (pin_path e)) = pin_path e"
    "casefold (pin_path e) \<noteq> ''.artbox-source.json''" "casefold (pin_path e) \<notin> set (dict_keys selected)"
    "selected' = dict_set selected (casefold (pin_path e)) e"
    using assms by (auto simp: select_pin_def Let_def res_simps)
  have "pure_parts (pin_path e) \<noteq> [marker_name]"
  proof
    assume "pure_parts (pin_path e) = [marker_name]"
    then have "pin_path e = marker_name" using g(2) by (simp add: as_posix_def)
    then show False using g(3) casefold_marker by (simp add: marker_name_def)
  qed
  then show ?thesis using safe_name_clean [OF g(1)] g(4,5) by (simp add: pin_ok_def dict_set_fresh)
qed

lemma select_pins_Inr:
  assumes "select_pins spec files = Inr selected"
  shows "map snd selected = files" and "\<forall>e \<in> set files. pin_ok e"
proof -
  have "foldM select_pin [] files = Inr selected" using assms by (auto simp: select_pins_def res_simps)
  moreover have "map snd s' = map snd s @ fs \<and> (\<forall>e \<in> set fs. pin_ok e)" if "foldM select_pin s fs = Inr s'" for s fs s'
    using that
  proof (induction fs arbitrary: s)
    case (Cons e fs)
    obtain s1 where "select_pin s e = Inr s1" "foldM select_pin s1 fs = Inr s'"
      using Cons.prems by (auto simp: bind_res_Inr_iff)
    then show ?case using Cons.IH [of s1] select_pin_Inr [of s e s1] by auto
  qed simp
  ultimately show "map snd selected = files" "\<forall>e \<in> set files. pin_ok e" by force+
qed

section \<open>Staging stays in the cache\<close>

lemma fetch_confined:
  assumes "confined fs0 d fs" and "pin_ok e" and "''..'' \<notin> set pre"
    and "fetch_pin h quote spec (d @ pre) fs e = Inr fs'"
  shows "confined fs0 d fs'"
proof -
  obtain data where "extract_file False (d @ pre) fs (pure_parts (pin_path e), data, None) = (Inr fs' :: (src_msg, fs) res)"
    using assms(4) by (auto simp: fetch_pin_def bind_res_Inr_iff)
  then show ?thesis
    by (rule extract_file_confined [OF assms(1), rotated 3])
      (use assms(2,3) in \<open>auto simp: pin_ok_def clean_def clean_part_def list_all_iff\<close>)
qed

lemma unpack_selected_confined:
  assumes c: "confined fs0 d fs" and ok: "\<forall>e \<in> snd ` set selected. pin_ok e" and pre: "''..'' \<notin> set pre"
    and "unpack_selected h fs archive (d @ pre) selected = Inr fs'"
  shows "confined fs0 d fs'"
proof -
  obtain members st where st: "foldM (select_step (d @ pre) selected) \<lparr>ss_fs = fs, ss_seen = [], ss_root = None\<rparr> members = Inr st"
    "fs' = ss_fs st" using assms(4) by (auto simp: unpack_selected_def res_simps)
  have "confined fs0 d (ss_fs st)"
    using st(1)
  proof (rule foldM_invariant [where P = "\<lambda>st. confined fs0 d (ss_fs st)"])
    fix a m b
    assume a: "confined fs0 d (ss_fs a)" and step: "select_step (d @ pre) selected a m = Inr b"
    obtain root below where mn: "member_name (ss_root a) m = Inr (root, below)"
      using step by (auto simp: select_step_def bind_res_Inr_iff)
    have "ss_fs b = ss_fs a \<or> (\<exists>key e. map_of selected key = Some e \<and>
      extract_file False (d @ pre) (ss_fs a) (pure_parts (pin_path e), m_data m, None) = (Inr (ss_fs b) :: (src_msg, fs) res))"
    proof (cases below)
      case None
      then show ?thesis using step by (auto simp: select_step_def mn)
    next
      case (Some name)
      then show ?thesis
        using step by (cases "map_of selected (casefold name)") (auto simp: select_step_def mn Let_def res_simps)
    qed
    then consider "ss_fs b = ss_fs a" | key e where "map_of selected key = Some e"
      "extract_file False (d @ pre) (ss_fs a) (pure_parts (pin_path e), m_data m, None) = (Inr (ss_fs b) :: (src_msg, fs) res)"
      by blast
    then show "confined fs0 d (ss_fs b)"
    proof cases
      case (2 key e)
      then have "pin_ok e" using ok by (force dest: map_of_SomeD)
      then show ?thesis
        by (intro extract_file_confined [OF a _ _ pre 2(2)]) (auto simp: pin_ok_def clean_def clean_part_def list_all_iff)
    qed (use a in simp)
  qed (use c in simp)
  then show ?thesis using st(2) by simp
qed

section \<open>Publishing a stage\<close>

definition pin_matches :: "host \<Rightarrow> bytes \<Rightarrow> pinned \<Rightarrow> bool" where
  "pin_matches h data e \<longleftrightarrow> int (length data) = pin_bytes e \<and> sha256 h data = pin_sha256 e \<and>
     (case pin_git_blob e of None \<Rightarrow> True | Some b \<Rightarrow> sha1 h (git_blob_bytes data) = b)"

lemma verify_pins_Inr:
  assumes "verify_pins h fs dir selected = Inr ()" and "e \<in> set (map snd selected)"
  shows "\<exists>data. (read_bytes fs (dir @ pure_parts (pin_path e)) :: (src_msg, bytes) res) = Inr data \<and> pin_matches h data e"
proof -
  have "verify_pin h fs dir e = Inr ()" using assms unfolding verify_pins_def foldM_unit_iff by blast
  then show ?thesis by (auto simp: verify_pin_def Let_def res_simps pin_matches_def)
qed

lemma has_childrenI:
  assumes "map_of fs (d @ [c]) = Some n" shows "has_children fs d"
  unfolding has_children_def list_ex_iff using map_of_SomeD [OF assms] by (rule rev_bexI) simp

lemma dirs_move:
  assumes "dirs fs p" and "\<not> prefix s p" and "\<not> prefix t p" and "\<not> prefix s t" "\<not> prefix t s"
  shows "dirs (move fs s t) p"
proof -
  have "\<not> prefix s (take i p) \<and> \<not> prefix t (take i p)" for i
    using assms(2,3) prefix_order.trans take_is_prefix by blast
  then show ?thesis using assms(1) by (auto simp: dirs_def map_of_move assms(4,5))
qed

lemma dirs_rmtree: "dirs fs p \<Longrightarrow> \<not> prefix q p \<Longrightarrow> dirs (rmtree fs q) p"
  unfolding dirs_def map_of_rmtree using prefix_order.trans take_is_prefix by fastforce

lemma publish_read:
  assumes c: "confined fs0 d fs" and S': "S \<noteq> ''..''" and xy: "x \<noteq> ''..''" "y \<noteq> ''..''"
    and pub: "publish h fs (d @ [S, x]) (d @ [S, x, ''source'']) (d @ [S, y]) spec = Inr fs'"
    and rel: "''..'' \<notin> set rel" "rel \<noteq> []" "rel \<noteq> [marker_name]"
    and read: "(read_bytes fs ((d @ [S, x, ''source'']) @ rel) :: (src_msg, bytes) res) = Inr bs"
  shows "(read_bytes fs' ((d @ [S, y]) @ rel) :: (src_msg, bytes) res) = Inr bs \<and> confined fs0 d fs'"
proof -
  let ?s = "d @ [S, x, ''source'']" and ?t = "d @ [S, y]" and ?T = "d @ [S, x]"
  obtain fs1 fs2 where fs1: "(write_bytes fs (d @ [S, x, ''source'', marker_name]) (dumps h spec) :: (src_msg, fs) res) = Inr fs1"
    and fs2: "(replace_path fs1 ?s ?t :: (src_msg, fs) res) = Inr fs2" and fs': "fs' = rmtree fs2 ?T"
    using pub by (auto simp: publish_def bind_res_Inr_iff)
  have dots: "''..'' \<notin> set [S, x, ''source'', marker_name]" "''..'' \<notin> set ([S, x, ''source''] @ rel)"
    using S' xy rel by (auto simp: marker_name_def)
  have m: "map_of fs (d @ [S, x, ''source'', marker_name]) \<noteq> Some Dir"
    "\<exists>n. fs1 = dict_set fs (d @ [S, x, ''source'', marker_name]) n"
    using write_target [OF c dots(1) _ fs1] by auto
  have c1: "confined fs0 d fs1" using write_confined [OF c dots(1) _ fs1] by simp
  have r: "fs2 = move fs1 ?s ?t" "node_at fs1 ?t = Some Dir \<longrightarrow> \<not> has_children fs1 ?t" "node_at fs1 ?s \<noteq> None"
    using replace_confined [OF c1 _ _ _ _ fs2] S' xy by auto
  have stored: "\<exists>m. map_of fs (?s @ rel) = Some (File bs m)"
    using read_confined(1) [OF c dots(2), of bs] read by simp
  have path: "map_of fs (d @ take i ([S, x, ''source''] @ rel)) = Some Dir" if "0 < i" "i < 3 + length rel" for i
    using read_confined(2) [OF c dots(2), of bs i] read that by simp
  have S: "dirs fs (d @ [S])"
    using dirs_snoc [of fs d S] c path [of 1] S' rel(2) by (simp add: confined_def)
  have "rel \<noteq> [] \<Longrightarrow> ?s @ take i rel \<noteq> d @ [S, x, ''source'', marker_name]" if "i < length rel" for i
    using path [of "3 + i"] m(1) that by (auto simp: numeral_eq_Suc)
  then have keep: "map_of fs1 (?s @ take i rel) = map_of fs (?s @ take i rel)" if "i \<le> length rel" for i
    using m(2) that rel by (cases "i = length rel") auto
  have T: "map_of fs1 ?T = Some Dir" "map_of fs1 ?s = Some Dir"
    using path [of 2] path [of 3] m(2) rel(2) by (auto simp: numeral_eq_Suc)
  have "x \<noteq> y"
  proof
    assume "x = y"
    then show False using r(2) T has_childrenI [of fs1 ?T "''source''"] by (simp add: node_at_def)
  qed
  then have inc: "\<not> prefix ?s ?t" "\<not> prefix ?t ?s" by auto
  have moved: "map_of fs2 (?t @ z) = map_of fs1 (?s @ z)" for z
    unfolding r(1) map_of_move [OF inc] by simp
  have len: "length (take i (d @ [S])) \<noteq> length (d @ [S, x, ''source'', marker_name])" for i by simp
  have "take i (d @ [S]) \<noteq> d @ [S, x, ''source'', marker_name]" for i using len [of i] by metis
  then have "dirs fs1 (d @ [S])" using S m(2) by (auto simp: dirs_def)
  then have "dirs fs2 (d @ [S])" unfolding r(1) using inc by (intro dirs_move) auto
  then have d2: "dirs fs2 ?t" using dirs_snoc [of fs2 "d @ [S]" y] moved [of "[]"] T xy by simp
  have "\<not> prefix ?T ?t" using \<open>x \<noteq> y\<close> by auto
  then have d': "dirs fs' ?t" unfolding fs' by (rule dirs_rmtree [OF d2])
  have same: "map_of fs' (?t @ z) = map_of fs1 (?s @ z)" for z
    using moved [of z] \<open>x \<noteq> y\<close> unfolding fs' by (simp add: map_of_rmtree)
  obtain mo where "map_of fs1 (?s @ rel) = Some (File bs mo)" using keep [of "length rel"] stored by auto
  moreover have "map_of fs1 (?s @ take i rel) = Some Dir" if "0 < i" "i < length rel" for i
    using keep [of i] path [of "3 + i"] that by (simp add: numeral_eq_Suc)
  ultimately have "(read_bytes fs' (?t @ rel) :: (src_msg, bytes) res) = Inr bs"
    using read_file_below [OF d' rel(1,2)] same by metis
  moreover have "confined fs0 d fs'"
    unfolding fs' r(1) by (intro confined_rmtree confined_move c1 inc) (simp_all add: strict_prefix_def)
  ultimately show ?thesis ..
qed

section \<open>Soundness of an installation\<close>

lemma source_name_dots: "source_name name \<Longrightarrow> name @ s \<noteq> ''..''"
  by (auto simp: source_name_def lower_alnum_def split: list.splits)

lemma pin_ok_dots: "pin_ok e \<Longrightarrow> ''..'' \<notin> set (pure_parts (pin_path e))"
  by (auto simp: pin_ok_def clean_def clean_part_def list_all_iff)

lemma stage_confined:
  assumes c: "confined fs0 cache fs" and ok: "\<forall>e \<in> set (map snd selected). pin_ok e"
    and x: "''..'' \<notin> set pre"
    and "stage_files h quote fs spec cache (cache @ pre) selected = Inr fs'"
  shows "confined fs0 cache fs'"
proof (cases "sp_archive spec")
  case None
  then have "foldM (fetch_pin h quote spec (cache @ pre)) fs (map snd selected) = Inr fs'" using assms(4) by (simp add: stage_files_def)
  then show ?thesis
    by (rule foldM_invariant [where P = "confined fs0 cache", OF _ c]) (use ok fetch_confined x in blast)
next
  case (Some archive)
  then obtain fs3 p data where "source_archive h fs spec archive cache = Inr (fs3, p)"
    "unpack_selected h fs3 data (cache @ pre) selected = Inr fs'"
    using assms(4) by (auto simp: stage_files_def bind_res_Inr_iff)
  then show ?thesis using source_archive_confined [OF c] unpack_selected_confined ok x by (metis set_map)
qed


end
