(* ===== verification/Sources_Sample.thy ===== *)
theory Sources_Sample
  imports Sources_Install
begin

text \<open>
  Concrete archives and pins, on which the theorems about the source installer are applied: an
  archive with a directory, two files and a symbolic link to one of them, and a pin of a single
  file that is fetched by itself.
\<close>

definition s_digest :: string where
  "s_digest = replicate 64 (CHR ''a'')"

definition s_members :: "member list" where
  "s_members =
    [\<lparr>m_name = ''r'', m_kind = KDir, m_size = 0, m_link = [], m_mode = 493, m_data = []\<rparr>,
     \<lparr>m_name = ''r/d'', m_kind = KDir, m_size = 0, m_link = [], m_mode = 493, m_data = []\<rparr>,
     \<lparr>m_name = ''r/d/run'', m_kind = KFile, m_size = 2, m_link = [], m_mode = 493, m_data = [1, 2]\<rparr>,
     \<lparr>m_name = ''r/alias'', m_kind = KSym, m_size = 0, m_link = ''d/../d/run'', m_mode = 511, m_data = []\<rparr>,
     \<lparr>m_name = ''r/skip/x'', m_kind = KOther, m_size = 0, m_link = [], m_mode = 0, m_data = []\<rparr>]"

definition s_host :: host where
  "s_host = \<lparr>sha256 = (\<lambda>_. s_digest), sha1 = (\<lambda>_. replicate 40 (CHR ''b'')), gh_api = (\<lambda>_. Some [7, 8, 9]),
     open_tar = (\<lambda>_. Some s_members), dumps = (\<lambda>_. [42]), loads = (\<lambda>_. None), tmp_name = ''t0'', is_posix = True\<rparr>"

definition s_pin :: pinned where
  "s_pin = \<lparr>pin_path = ''doc/NOTICE'', pin_bytes = 3, pin_sha256 = s_digest, pin_git_blob = Some (replicate 40 (CHR ''b''))\<rparr>"

definition s_spec :: source_spec where
  "s_spec = \<lparr>sp_repository = ''o/r'', sp_commit = replicate 40 (CHR ''c''), sp_archive = None, sp_archive_bytes = 0,
     sp_archive_sha256 = [], sp_files = Some [s_pin], sp_notice = ''doc/NOTICE'', sp_notice_sha256 = s_digest, sp_exclude = [''skip'']\<rparr>"

definition s_fs :: fs where
  "s_fs = [([''c''], Dir)]"

definition s_copies :: "(string \<times> member) list" where
  "s_copies = (let run = \<lparr>m_name = ''r/d/run'', m_kind = KFile, m_size = 2, m_link = [], m_mode = 493, m_data = [1, 2]\<rparr>
     in [(''d/run'', run), (''alias'', run)])"

definition s_installed :: fs where
  "s_installed =
    [([''c''], Dir), ([''c'', ''sources''], Dir), ([''c'', ''sources'', ''base-cccccccccccc''], Dir),
     ([''c'', ''sources'', ''base-cccccccccccc'', ''doc''], Dir),
     ([''c'', ''sources'', ''base-cccccccccccc'', ''doc'', ''NOTICE''], File [7, 8, 9] None),
     ([''c'', ''sources'', ''base-cccccccccccc'', ''.artbox-source.json''], File [42] None)]"

lemma s_plan: "plan_copies [''skip''] s_members = Inr s_copies"
  by code_simp

lemma s_obtain: "obtain_files s_host id s_fs ''base'' s_spec [s_pin] [''c''] =
    Inr (s_installed, [''c'', ''sources'', ''base-cccccccccccc''])"
  by code_simp

lemma s_dirs: "dirs s_fs [''c'']"
proof -
  have "take i [''c''] = [''c'']" if "0 < i" for i using that by (cases i) auto
  then show ?thesis by (simp add: dirs_def s_fs_def)
qed

lemma s_confined: "confined s_fs [''c''] s_fs"
  using s_dirs by (simp add: confined_def s_fs_def)

lemma s_wf: "wf_fs s_fs"
  by (auto simp: wf_fs_def s_fs_def node_at_def split: if_splits)

theorem plan_copies_safe_witness:
  "clean (pure_parts ''alias'') \<and> distinct (map casefold (dict_keys s_copies)) \<and> length s_copies \<le> 100000"
  using plan_copies_safe [OF s_plan] by (auto simp: s_copies_def Let_def)


lemma s_pin_path: "pin_path s_pin = ''doc/NOTICE''"
  by (simp add: s_pin_def)


end
