(* ===== verification/Text_Edit.thy ===== *)
theory Text_Edit
  imports Posix_Path
begin

text \<open>
  \<^verbatim>\<open>str.count\<close>, \<^verbatim>\<open>str.replace\<close> and the checked replacement every source adaptation of the
  repository performs: a context that must occur exactly once is replaced by its adaptation.
  \<^verbatim>\<open>str.count\<close> counts occurrences that do not overlap; for a context that does not overlap itself a
  count of one means that the place of the edit is determined.
\<close>

section \<open>Searching and replacing\<close>

fun split_first :: "'a list \<Rightarrow> 'a list \<Rightarrow> ('a list \<times> 'a list) option" where
  "split_first p [] = (if p = [] then Some ([], []) else None)"
| "split_first p (c # s) =
     (if prefix p (c # s) then Some ([], drop (length p) (c # s))
      else map_option (\<lambda>(a, b). (c # a, b)) (split_first p s))"

lemma split_first_Some: "split_first p s = Some (a, b) \<Longrightarrow> s = a @ p @ b"
  by (induction s arbitrary: a) (auto simp: prefix_def split: if_splits)

lemma split_first_None: "split_first p s = None \<Longrightarrow> s \<noteq> a @ p @ b"
proof (induction s arbitrary: a)
  case (Cons c s)
  then have np: "\<not> prefix p (c # s)" "split_first p s = None" by (auto split: if_splits)
  show ?case
  proof (cases a)
    case Nil
    then show ?thesis using np(1) by (auto simp: prefix_def)
  next
    case (Cons d a')
    then show ?thesis using Cons.IH [OF np(2), of a'] by auto
  qed
qed (auto split: if_splits)

lemma split_first_leftmost:
  "split_first p s = Some (a, b) \<Longrightarrow> s = a' @ p @ b' \<Longrightarrow> length a \<le> length a'"
proof (induction s arbitrary: a a')
  case (Cons c s)
  show ?case
  proof (cases "prefix p (c # s)")
    case False
    then obtain a0 where a0: "a = c # a0" "split_first p s = Some (a0, b)" using Cons.prems(1) by auto
    have "a' \<noteq> []" using Cons.prems(2) False by (auto simp: prefix_def)
    then obtain d a1 where "a' = d # a1" by (cases a') auto
    then show ?thesis using Cons.IH [OF a0(2), of a1] Cons.prems(2) a0(1) by simp
  next
    case True
    then have "a = []" using Cons.prems(1) by (simp split: if_splits)
    then show ?thesis by simp
  qed
qed (auto split: if_splits)

function count_sub :: "'a list \<Rightarrow> 'a list \<Rightarrow> nat" where
  "count_sub p s =
     (if p = [] then Suc (length s)
      else case split_first p s of None \<Rightarrow> 0 | Some (a, b) \<Rightarrow> Suc (count_sub p b))"
  by pat_completeness auto

termination
  by (relation "measure (\<lambda>(_, s). length s)") (auto dest!: split_first_Some)

declare count_sub.simps [simp del]

text \<open>\<^verbatim>\<open>s.replace(old, new, 1)\<close> and \<^verbatim>\<open>s.replace(old, new)\<close>.\<close>

definition replace_first :: "'a list \<Rightarrow> 'a list \<Rightarrow> 'a list \<Rightarrow> 'a list" where
  "replace_first p r s = (case split_first p s of None \<Rightarrow> s | Some (a, b) \<Rightarrow> a @ r @ b)"

function replace_all :: "'a list \<Rightarrow> 'a list \<Rightarrow> 'a list \<Rightarrow> 'a list" where
  "replace_all p r s =
     (if p = [] then concat (map (\<lambda>c. r @ [c]) s) @ r
      else case split_first p s of None \<Rightarrow> s | Some (a, b) \<Rightarrow> a @ r @ replace_all p r b)"
  by pat_completeness auto

termination
  by (relation "measure (\<lambda>(_, _, s). length s)") (auto dest!: split_first_Some)

declare replace_all.simps [simp del]

section \<open>Contexts that occur once\<close>

text \<open>A word that does not overlap itself.\<close>

definition unbordered :: "'a list \<Rightarrow> bool" where
  "unbordered p \<longleftrightarrow> p \<noteq> [] \<and> list_all (\<lambda>k. \<not> prefix (drop k p) p) [1..<length p]"

definition unique_edit :: "'a list \<Rightarrow> 'a list \<Rightarrow> 'a list \<Rightarrow> 'a list \<Rightarrow> bool" where
  "unique_edit p r s t \<longleftrightarrow> (\<exists>a b. s = a @ p @ b \<and> t = a @ r @ b \<and> (\<forall>a' b'. s = a' @ p @ b' \<longrightarrow> a' = a \<and> b' = b))"

lemma count_sub_pos: "p \<noteq> [] \<Longrightarrow> count_sub p (a @ p @ b) \<noteq> 0"
  using split_first_None [of p "a @ p @ b" a b] by (cases "split_first p (a @ p @ b)") (auto simp: count_sub.simps [of p "a @ p @ b"])

lemma count_one_unique:
  assumes "unbordered p" and one: "count_sub p s = 1"
  shows "\<exists>a b. split_first p s = Some (a, b) \<and> s = a @ p @ b \<and> (\<forall>a' b'. s = a' @ p @ b' \<longrightarrow> a' = a \<and> b' = b)"
proof -
  have p: "p \<noteq> []" "\<And>k. 0 < k \<Longrightarrow> k < length p \<Longrightarrow> \<not> prefix (drop k p) p"
    using assms(1) by (auto simp: unbordered_def list_all_iff)
  obtain a b where ab: "split_first p s = Some (a, b)" "count_sub p b = 0"
    using one p(1) by (auto simp: count_sub.simps [of p s] split: option.splits)
  note s = split_first_Some [OF ab(1)]
  have "a' = a \<and> b' = b" if o: "s = a' @ p @ b'" for a' b'
  proof -
    have le: "length a \<le> length a'" using split_first_leftmost [OF ab(1) o] .
    then obtain u where u: "a' = a @ u" using s o by (metis append_eq_append_conv_if append_take_drop_id)
    then have e: "p @ b = u @ p @ b'" using s o by simp
    consider "u = []" | "0 < length u" "length u < length p" | "length p \<le> length u" by (cases u) force+
    then show ?thesis
    proof cases
      case 1
      then show ?thesis using u s o by simp
    next
      case 2
      then have "p = u @ drop (length u) p" using e by (metis append_eq_append_conv_if append_take_drop_id less_imp_le)
      then have "drop (length u) p @ b = p @ b'" using e by (metis append_assoc same_append_eq)
      then have "prefix (drop (length u) p) p" by (metis length_drop diff_le_self prefixI prefix_length_prefix)
      then show ?thesis using p(2) 2 by blast
    next
      case 3
      then obtain v where "u = p @ v" using e by (metis append_eq_append_conv_if append_take_drop_id)
      then have "b = v @ p @ b'" using e by simp
      then show ?thesis using count_sub_pos [OF p(1), of v b'] ab(2) by simp
    qed
  qed
  then show ?thesis using ab(1) s by blast
qed

lemma replace_first_unique:
  assumes "unbordered p" and "count_sub p s = 1"
  shows "unique_edit p r s (replace_first p r s)"
proof -
  obtain a b where ab: "split_first p s = Some (a, b)" "s = a @ p @ b" "\<forall>a' b'. s = a' @ p @ b' \<longrightarrow> a' = a \<and> b' = b"
    using count_one_unique [OF assms] by blast
  have "replace_first p r s = a @ r @ b" unfolding replace_first_def ab(1) by simp
  then show ?thesis unfolding unique_edit_def using ab(2,3) by blast
qed

end
