(* ===== verification/Overlay.thy ===== *)
theory Overlay
  imports Sources_Install Text_Edit
begin

text \<open>
  Adapted copies of verified sources: \<^verbatim>\<open>art_host_adapt.adapt_sources\<close>, which copies a whole
  selection, \<^verbatim>\<open>bionic_adapt.adapt_sources\<close>, which overlays the edited files, the reviewed edits of
  \<^verbatim>\<open>art_reference_adapt\<close> and their composition in \<^verbatim>\<open>art_storage_adapt\<close> and \<^verbatim>\<open>art_managed_adapt\<close>.
  SHA-256 is a parameter.
\<close>

section \<open>Data\<close>

record selection_item =
  sel_path :: string
  sel_sha256 :: string

record edit_item =
  ed_path :: string
  ed_sha256 :: string
  ed_replacements :: "(string \<times> string) list"

record adapt_record =
  ar_path :: string
  ar_upstream :: string
  ar_adapted :: string

datatype (plugins only: code) adapt_msg =
    Not_separate
  | Unsafe_selection string
  | Path_escapes string
  | Source_changed string
  | Outside_selection string
  | Edit_source_changed string
  | Context_missing string
  | Stray_files
  | Unsafe_patch_path
  | Duplicate_patch_path
  | Invalid_patch_input string
  | Reference_differs
  | Reference_context

definition encode_utf8 :: "string \<Rightarrow> bytes" where
  "encode_utf8 s = map of_char s"

text \<open>The checked replacements of one file, in order.\<close>

definition apply_edit :: "adapt_msg \<Rightarrow> string \<Rightarrow> string \<times> string \<Rightarrow> (adapt_msg, string) res" where
  "apply_edit msg contents x =
     (case x of (before, after) \<Rightarrow>
      require (before \<noteq> [] \<and> count_sub before contents = 1) (RuntimeError msg) (Inr (replace_first before after contents)))"

definition apply_edits :: "adapt_msg \<Rightarrow> string \<Rightarrow> (string \<times> string) list \<Rightarrow> (adapt_msg, string) res" where
  "apply_edits msg contents xs = foldM (apply_edit msg) contents xs"

section \<open>The ART selection\<close>

type_synonym prepared = "(string \<times> bytes) list"

definition unsafe_source :: "string \<Rightarrow> bool" where
  "unsafe_source name \<longleftrightarrow> pure_absolute name \<or> pure_parts name = [] \<or> ''..'' \<in> set (pure_parts name) \<or>
     BACKSLASH \<in> set name \<or> CHR '':'' \<in> set name"

definition prepare_source ::
  "(bytes \<Rightarrow> string) \<Rightarrow> fs \<Rightarrow> path \<Rightarrow> path \<Rightarrow> prepared \<times> string list \<Rightarrow> selection_item \<Rightarrow> (adapt_msg, prepared \<times> string list) res"
where
  "prepare_source sha fs source output st item =
     (case st of (prepared, seen) \<Rightarrow>
      let name = sel_path item in
      require (\<not> (unsafe_source name \<or> casefold name \<in> set seen)) (RuntimeError (Unsafe_selection name))
     (bind_res (resolve fs (path_div source name)) (\<lambda>original.
      bind_res (resolve fs (path_div output name)) (\<lambda>target.
      require (prefix source original \<and> prefix output target) (RuntimeError (Path_escapes name))
     (bind_res (read_bytes fs (path_div source name)) (\<lambda>data.
      require (sha data = sel_sha256 item) (RuntimeError (Source_changed name))
     (Inr (dict_set prepared name data, casefold name # seen))))))))"

record edit_state =
  es_prepared :: prepared
  es_records :: "adapt_record list"
  es_edited :: "string list"

definition edit_source :: "(bytes \<Rightarrow> string) \<Rightarrow> edit_state \<Rightarrow> edit_item \<Rightarrow> (adapt_msg, edit_state) res" where
  "edit_source sha st item =
     (let name = ed_path item in
      case map_of (es_prepared st) name of
        None \<Rightarrow> Inl (RuntimeError (Outside_selection name))
      | Some original \<Rightarrow>
          require (name \<notin> set (es_edited st)) (RuntimeError (Outside_selection name))
         (require (sha original = ed_sha256 item) (RuntimeError (Edit_source_changed name))
         (bind_res (decode_utf8 original) (\<lambda>contents.
          bind_res (apply_edits (Context_missing name) contents (ed_replacements item)) (\<lambda>contents'.
          let data = encode_utf8 contents' in
          Inr \<lparr>es_prepared = dict_set (es_prepared st) name data,
               es_records = es_records st @ [\<lparr>ar_path = name, ar_upstream = ed_sha256 item, ar_adapted = sha data\<rparr>],
               es_edited = name # es_edited st\<rparr>)))))"

definition art_adapt_sources ::
  "(bytes \<Rightarrow> string) \<Rightarrow> fs \<Rightarrow> path \<Rightarrow> path \<Rightarrow> selection_item list \<Rightarrow> edit_item list \<Rightarrow> (adapt_msg, fs \<times> adapt_record list) res"
where
  "art_adapt_sources sha fs source0 output0 selection edits =
     bind_res (resolve fs source0) (\<lambda>source.
     bind_res (resolve fs output0) (\<lambda>output.
     require (\<not> (prefix output source \<or> prefix source output)) (RuntimeError Not_separate)
    (bind_res (foldM (prepare_source sha fs source output) ([], []) selection) (\<lambda>(prepared, _).
     bind_res (foldM (edit_source sha) \<lparr>es_prepared = prepared, es_records = [], es_edited = []\<rparr> edits) (\<lambda>st.
     require (\<not> (path_exists fs output \<and> list_ex (\<lambda>rel. as_posix rel \<notin> set (dict_keys (es_prepared st))) (rglob_files fs output)))
       (RuntimeError Stray_files)
    (bind_res (foldM (extract_file False output) fs (map (\<lambda>(name, data). (pure_parts name, data, None)) (es_prepared st))) (\<lambda>fs'.
     Inr (fs', es_records st))))))))"

section \<open>The Bionic overlay\<close>

definition COPY_DEPTH :: nat where
  "COPY_DEPTH = 64"

definition listdir :: "fs \<Rightarrow> path \<Rightarrow> string list" where
  "listdir fs p =
     (case locate fs p of None \<Rightarrow> []
      | Some q \<Rightarrow> map (\<lambda>(r, _). last r) (filter (\<lambda>(r, _). length r = Suc (length q) \<and> prefix q r) fs))"

fun copytree :: "nat \<Rightarrow> fs \<Rightarrow> path \<Rightarrow> path \<Rightarrow> ('m, fs) res" where
  "copytree 0 fs source output = Inl OSError"
| "copytree (Suc n) fs source output =
     require (is_dir fs source) OSError
    (bind_res (mkdir_parents fs output) (\<lambda>fs1.
     foldM (\<lambda>fs name. case stat fs (source @ [name]) of
         Some Dir \<Rightarrow> copytree n fs (source @ [name]) (output @ [name])
       | Some (File _ _) \<Rightarrow> copy2 fs (source @ [name]) (output @ [name])
       | _ \<Rightarrow> Inl OSError) fs1 (listdir fs source)))"

record overlay_state =
  os_prepared :: "(string list \<times> bytes) list"
  os_records :: "adapt_record list"
  os_seen :: "string list"

definition overlay_edit :: "(bytes \<Rightarrow> string) \<Rightarrow> fs \<Rightarrow> path \<Rightarrow> path \<Rightarrow> overlay_state \<Rightarrow> edit_item \<Rightarrow> (adapt_msg, overlay_state) res" where
  "overlay_edit sha fs source overlay st edit =
     (let parts = pure_parts (ed_path edit); name = as_posix parts in
      require (\<not> (pure_absolute (ed_path edit) \<or> parts = [] \<or> ''..'' \<in> set parts \<or> BACKSLASH \<in> set name \<or> CHR '':'' \<in> set name))
        (RuntimeError Unsafe_patch_path)
     (require (casefold name \<notin> set (os_seen st)) (RuntimeError Duplicate_patch_path)
     (bind_res (resolve fs (source @ parts)) (\<lambda>real.
      bind_res (resolve fs (overlay @ parts)) (\<lambda>target.
      require (prefix source real \<and> is_file fs (source @ parts) \<and> prefix overlay target) (RuntimeError (Invalid_patch_input name))
     (bind_res (read_bytes fs (source @ parts)) (\<lambda>original.
      require (sha original = ed_sha256 edit) (RuntimeError (Edit_source_changed name))
     (bind_res (decode_utf8 original) (\<lambda>contents.
      bind_res (apply_edits (Context_missing name) contents (ed_replacements edit)) (\<lambda>contents'.
      let data = encode_utf8 contents' in
      Inr \<lparr>os_prepared = os_prepared st @ [(parts, data)],
           os_records = os_records st @ [\<lparr>ar_path = name, ar_upstream = sha original, ar_adapted = sha data\<rparr>],
           os_seen = casefold name # os_seen st\<rparr>))))))))))"

definition bionic_adapt_sources ::
  "(bytes \<Rightarrow> string) \<Rightarrow> fs \<Rightarrow> path \<Rightarrow> path \<Rightarrow> edit_item list \<Rightarrow> (adapt_msg, fs \<times> adapt_record list) res"
where
  "bionic_adapt_sources sha fs source0 overlay0 edits =
     bind_res (resolve fs source0) (\<lambda>source.
     bind_res (resolve fs overlay0) (\<lambda>overlay.
     require (\<not> (prefix overlay source \<or> prefix source overlay)) (RuntimeError Not_separate)
    (bind_res (foldM (overlay_edit sha fs source overlay) \<lparr>os_prepared = [], os_records = [], os_seen = []\<rparr> edits) (\<lambda>st.
     bind_res (copytree COPY_DEPTH fs (source @ [''libc'', ''platform'']) (overlay @ [''libc'', ''platform''])) (\<lambda>fs1.
     bind_res (foldM (extract_file False overlay) fs1 (map (\<lambda>(parts, data). (parts, data, None)) (os_prepared st))) (\<lambda>fs2.
     Inr (fs2, os_records st)))))))"

section \<open>The reference codec\<close>

definition NL :: char where "NL = CHR 0x0A"
definition DQ :: char where "DQ = CHR 0x22"

definition REFERENCE_SOURCE :: string where
  "REFERENCE_SOURCE = ''runtime/mirror/object_reference.h''"

definition REFERENCE_SHA256 :: string where
  "REFERENCE_SHA256 = ''cb97ef1a4c0ffab7ab4cf6ba1185e26bb757e06abdcf7998baf291e7f34e5bae''"

definition atomic_include :: string where
  "atomic_include = ''#include '' @ [DQ] @ ''base/atomic.h'' @ [DQ]"

definition REPLACEMENTS :: "(string \<times> string) list" where
  "REPLACEMENTS =
    [(atomic_include,
      ''// ARTBox: heap-base-relative references for the signed native contract.'' @ [NL] @
      ''#include '' @ [DQ] @ ''artbox_art_reference_bridge.h'' @ [DQ, NL, NL] @ atomic_include),
     (''uint32_t as_bits = reinterpret_cast32<uint32_t>(mirror_ptr);'',
      ''uint32_t as_bits = artbox_art_reference_compress(mirror_ptr);''),
     (''return reinterpret_cast32<MirrorType*>(as_bits);'',
      ''return static_cast<MirrorType*>(artbox_art_reference_decompress(as_bits));'')]"

definition reference_adapt :: "(bytes \<Rightarrow> string) \<Rightarrow> bytes \<Rightarrow> (adapt_msg, bytes) res" where
  "reference_adapt sha original =
     require (sha original = REFERENCE_SHA256) (RuntimeError Reference_differs)
    (bind_res (decode_utf8 original) (\<lambda>contents.
     bind_res (foldM (\<lambda>t (before, after). require (count_sub before t = 1) (RuntimeError Reference_context)
         (Inr (replace_first before after t))) contents REPLACEMENTS) (\<lambda>contents'.
     Inr (encode_utf8 contents'))))"

definition reference_item :: edit_item where
  "reference_item = \<lparr>ed_path = REFERENCE_SOURCE, ed_sha256 = REFERENCE_SHA256, ed_replacements = REPLACEMENTS\<rparr>"

definition adapt_storage ::
  "(bytes \<Rightarrow> string) \<Rightarrow> fs \<Rightarrow> path \<Rightarrow> path \<Rightarrow> selection_item list \<Rightarrow> edit_item list \<Rightarrow> (adapt_msg, fs \<times> adapt_record list) res"
where
  "adapt_storage sha fs source output selection boundary =
     art_adapt_sources sha fs source output selection (reference_item # boundary)"

text \<open>The edits of the four boundary files, read and parsed by the function given.\<close>

definition BOUNDARIES :: "string list" where
  "BOUNDARIES = [''managed-storage-boundary.json'', ''interpreter-arguments-boundary.json'',
     ''managed-window-boundary.json'', ''class-table-boundary.json'']"

definition managed_boundary :: "(string \<Rightarrow> ('m, edit_item list) res) \<Rightarrow> ('m, edit_item list) res" where
  "managed_boundary load =
     foldM (\<lambda>files name. bind_res (load name) (\<lambda>more. Inr (files @ more))) [reference_item] BOUNDARIES"

section \<open>Writing a set of files\<close>

lemma extract_file_stored:
  assumes c: "confined fs0 d fs" and parts: "parts \<noteq> []" "''..'' \<notin> set parts"
    and e: "extract_file posix d fs (parts, data, None) = (Inr fs' :: ('m, fs) res)"
  shows "confined fs0 d fs' \<and> (\<exists>m. stored fs' d parts data m) \<and>
    (\<forall>rel bs m. stored fs d rel bs m \<and> rel \<noteq> parts \<longrightarrow> stored fs' d rel bs m)"
proof -
  obtain fs1 where fs1: "mkdir_parents fs (d @ butlast parts) = (Inr fs1 :: ('m, fs) res)"
    and w: "write_bytes fs1 (d @ parts) data = (Inr fs' :: ('m, fs) res)"
    using e by (auto simp: extract_file_def bind_res_Inr_iff)
  have "''..'' \<notin> set (butlast parts)" using parts(2) by (auto dest: in_set_butlastD)
  then have c1: "confined fs0 d fs1" using mkdir_parents_confined [OF c _ fs1] by blast
  obtain m where m: "fs' = dict_set fs1 (d @ parts) (File data m)" "stored fs' d parts data m"
    using write_stored [OF c1 parts(2,1) w] by blast
  have nd: "map_of fs1 (d @ parts) \<noteq> Some Dir" using write_target [OF c1 parts(2,1) w] by blast
  have "stored fs' d rel bs k" if st: "stored fs d rel bs k" "rel \<noteq> parts" for rel bs k
  proof -
    have s1: "stored fs1 d rel bs k" using stored_keep [OF st(1)] mkdir_parents_keeps [OF fs1] by blast
    have "d @ parts \<noteq> d @ take i rel" if "0 < i" "i \<le> length rel" for i
      using that st(2) s1 nd by (cases "i = length rel") (auto simp: stored_def)
    then show ?thesis unfolding m(1) by (intro stored_update [OF s1]) blast
  qed
  then show ?thesis using write_confined [OF c1 parts(2,1) w] m(2) by blast
qed

lemma extract_loop:
  assumes "confined fs0 d fs" and "distinct (map fst xs)"
    and "\<forall>(parts, _) \<in> set xs. parts \<noteq> [] \<and> ''..'' \<notin> set parts"
    and "foldM (extract_file posix d) fs (map (\<lambda>(parts, data). (parts, data, None)) xs) = (Inr fs' :: ('m, fs) res)"
  shows "confined fs0 d fs' \<and> (\<forall>(parts, data) \<in> set xs. \<exists>m. stored fs' d parts data m) \<and>
    (\<forall>rel bs m. stored fs d rel bs m \<and> rel \<notin> fst ` set xs \<longrightarrow> stored fs' d rel bs m)"
  using assms
proof (induction xs arbitrary: fs)
  case Nil
  then show ?case by simp
next
  case (Cons x xs)
  obtain parts data where x: "x = (parts, data)" by (cases x)
  obtain fs1 where fs1: "extract_file posix d fs (parts, data, None) = (Inr fs1 :: ('m, fs) res)"
    and rest: "foldM (extract_file posix d) fs1 (map (\<lambda>(parts, data). (parts, data, None)) xs) = (Inr fs' :: ('m, fs) res)"
    using Cons.prems(4) x by (auto simp: bind_res_Inr_iff)
  have p: "parts \<noteq> []" "''..'' \<notin> set parts" using Cons.prems(3) x by auto
  note s = extract_file_stored [OF Cons.prems(1) p fs1]
  have IH: "confined fs0 d fs'" "\<forall>(parts, data) \<in> set xs. \<exists>m. stored fs' d parts data m"
    "\<forall>rel bs m. stored fs1 d rel bs m \<and> rel \<notin> fst ` set xs \<longrightarrow> stored fs' d rel bs m"
    using Cons.IH [OF _ _ _ rest] s Cons.prems(2,3) by auto
  have "parts \<notin> fst ` set xs" using Cons.prems(2) x by simp
  then have "\<exists>m. stored fs' d parts data m" using s IH(3) by blast
  then show ?case using IH s x by auto
qed

lemma stored_read: "confined fs0 d fs \<Longrightarrow> stored fs d rel bs m \<Longrightarrow> read_bytes fs (d @ rel) = Inr bs"
  by (simp add: read_bytes_def stored_stat)

section \<open>The adapted copy is exact\<close>

definition prepared_ok :: "(bytes \<Rightarrow> string) \<Rightarrow> fs \<Rightarrow> path \<Rightarrow> selection_item list \<Rightarrow> prepared \<times> string list \<Rightarrow> bool" where
  "prepared_ok sha fs source items st \<longleftrightarrow> dict_keys (fst st) = map sel_path items \<and> snd st = rev (map casefold (map sel_path items)) \<and>
     distinct (snd st) \<and> (\<forall>i \<in> set items. \<not> unsafe_source (sel_path i) \<and>
       (\<exists>data. map_of (fst st) (sel_path i) = Some data \<and>
         (read_bytes fs (path_div source (sel_path i)) :: (adapt_msg, bytes) res) = Inr data \<and> sha data = sel_sha256 i))"

lemma prepare_loop:
  assumes "foldM (prepare_source sha fs source output) ([], []) items = Inr st"
  shows "prepared_ok sha fs source items st"
  using assms
proof (induction items arbitrary: st rule: rev_induct)
  case Nil
  then show ?case by (auto simp: prepared_ok_def)
next
  case (snoc x items)
  obtain pr seen where st1: "foldM (prepare_source sha fs source output) ([], []) items = Inr (pr, seen)"
    and step: "prepare_source sha fs source output (pr, seen) x = Inr st"
    using snoc.prems by (auto simp: foldM_append bind_res_Inr_iff)
  have ok: "prepared_ok sha fs source items (pr, seen)" using snoc.IH [OF st1] .
  obtain data where d: "\<not> unsafe_source (sel_path x)" "casefold (sel_path x) \<notin> set seen"
    "(read_bytes fs (path_div source (sel_path x)) :: (adapt_msg, bytes) res) = Inr data" "sha data = sel_sha256 x"
    "st = (dict_set pr (sel_path x) data, casefold (sel_path x) # seen)"
    using step by (auto simp: prepare_source_def Let_def res_simps)
  have "sel_path x \<notin> set (dict_keys pr)" using ok d(2) by (auto simp: prepared_ok_def)
  moreover from this have "dict_set pr (sel_path x) data = pr @ [(sel_path x, data)]" by (rule dict_set_fresh)
  ultimately show ?case using ok d by (auto simp: prepared_ok_def map_add_def map_of_eq_None_iff [symmetric])
qed

text \<open>The bytes of a file after its edits, if it has any.\<close>

definition edited_as :: "edit_item list \<Rightarrow> string \<Rightarrow> bytes \<Rightarrow> bytes \<Rightarrow> bool" where
  "edited_as edits name data data' \<longleftrightarrow>
     (case find (\<lambda>e. ed_path e = name) edits of
        None \<Rightarrow> data' = data
      | Some e \<Rightarrow> \<exists>t t'. (decode_utf8 data :: (adapt_msg, string) res) = Inr t \<and>
          apply_edits (Context_missing name) t (ed_replacements e) = Inr t' \<and> data' = encode_utf8 t')"

lemma edit_loop:
  assumes "foldM (edit_source sha) \<lparr>es_prepared = pr, es_records = [], es_edited = []\<rparr> edits = Inr st"
  shows "dict_keys (es_prepared st) = dict_keys pr \<and> set (es_edited st) = set (map ed_path edits) \<and> distinct (map ed_path edits) \<and>
    (\<forall>name data. map_of pr name = Some data \<longrightarrow> (\<exists>data'. map_of (es_prepared st) name = Some data' \<and> edited_as edits name data data'))"
  using assms
proof (induction edits arbitrary: st rule: rev_induct)
  case Nil
  then show ?case by (auto simp: edited_as_def)
next
  case (snoc x edits)
  obtain st1 where st1: "foldM (edit_source sha) \<lparr>es_prepared = pr, es_records = [], es_edited = []\<rparr> edits = Inr st1"
    and step: "edit_source sha st1 x = Inr st"
    using snoc.prems by (auto simp: foldM_append bind_res_Inr_iff)
  note IH = snoc.IH [OF st1]
  obtain original t t' where o: "map_of (es_prepared st1) (ed_path x) = Some original" "ed_path x \<notin> set (es_edited st1)"
    "(decode_utf8 original :: (adapt_msg, string) res) = Inr t"
    "apply_edits (Context_missing (ed_path x)) t (ed_replacements x) = Inr t'"
    "es_prepared st = dict_set (es_prepared st1) (ed_path x) (encode_utf8 t')" "es_edited st = ed_path x # es_edited st1"
    using step by (auto simp: edit_source_def Let_def res_simps split: option.splits)
  have fresh: "find (\<lambda>e. ed_path e = ed_path x) edits = None" using IH o(2) unfolding find_None_iff by (metis image_eqI set_map)
  have keys: "dict_keys (dict_set d k v) = dict_keys d" if "map_of d k = Some w" for d :: prepared and k v w
    using that by (induction d k v rule: dict_set.induct) (auto split: if_splits)
  have "\<exists>data'. map_of (es_prepared st) name = Some data' \<and> edited_as (edits @ [x]) name data data'"
    if n: "map_of pr name = Some data" for name data
  proof -
    obtain d1 where d1: "map_of (es_prepared st1) name = Some d1" "edited_as edits name data d1" using IH n by blast
    show ?thesis
    proof (cases "name = ed_path x")
      case True
      then have "d1 = data" using d1(2) fresh by (simp add: edited_as_def)
      then show ?thesis using True d1 o fresh by (auto simp: edited_as_def find_snoc)
    next
      case False
      then show ?thesis using d1 o(5) by (auto simp: edited_as_def find_snoc split: option.splits)
    qed
  qed
  then show ?case using IH o(2,6) keys [OF o(1)] o(5) by auto
qed

text \<open>
  C19. The adapted ART tree is exact: when \<^verbatim>\<open>adapt_sources\<close> succeeds
  on an output directory without links, nothing outside the output has changed, every
  selected source was read and has its pinned digest, and the file of the same name in the
  output holds exactly its bytes, or, for the files with edits, the text after the checked
  replacements in order.
\<close>

theorem art_adapt_exact:
  assumes c: "confined fs output fs"
    and names: "\<forall>i \<in> set selection. as_posix (pure_parts (sel_path i)) = sel_path i"
    and ok: "art_adapt_sources sha fs source0 output selection edits = Inr (fs', records)"
  shows "confined fs output fs' \<and> (\<exists>source. (resolve fs source0 :: (adapt_msg, path) res) = Inr source \<and>
    (\<forall>i \<in> set selection. \<exists>data data'. (read_bytes fs (path_div source (sel_path i)) :: (adapt_msg, bytes) res) = Inr data \<and>
       sha data = sel_sha256 i \<and> edited_as edits (sel_path i) data data' \<and>
       (read_bytes fs' (output @ pure_parts (sel_path i)) :: (adapt_msg, bytes) res) = Inr data'))"
proof -
  have "dirs fs output" using c by (simp add: confined_def)
  note out = resolve_dirs [OF this, where 'm = adapt_msg]
  obtain source pr seen st where src: "(resolve fs source0 :: (adapt_msg, path) res) = Inr source"
    and prep: "foldM (prepare_source sha fs source output) ([], []) selection = Inr (pr, seen)"
    and ed: "foldM (edit_source sha) \<lparr>es_prepared = pr, es_records = [], es_edited = []\<rparr> edits = Inr st"
    and wr: "(foldM (extract_file False output) fs (map (\<lambda>(name, data). (pure_parts name, data, None)) (es_prepared st)) :: (adapt_msg, fs) res) = Inr fs'"
    using ok out by (auto simp: art_adapt_sources_def res_simps)
  have p: "prepared_ok sha fs source selection (pr, seen)" using prepare_loop [OF prep] .
  note e = edit_loop [OF ed]
  let ?xs = "map (\<lambda>(name, data). (pure_parts name, data)) (es_prepared st)"
  have keys: "dict_keys (es_prepared st) = map sel_path selection" using p e by (simp add: prepared_ok_def)
  have "distinct (map casefold (map sel_path selection))" using p unfolding prepared_ok_def by (metis distinct_rev snd_conv)
  then have "distinct (map sel_path selection)" unfolding distinct_map [of casefold] by blast
  moreover have "inj_on pure_parts (set (map sel_path selection))" using names by (auto intro!: inj_onI) (metis)
  ultimately have "distinct (map pure_parts (dict_keys (es_prepared st)))" unfolding keys distinct_map [of pure_parts] by blast
  then have dist: "distinct (map fst ?xs)" by (simp add: comp_def case_prod_unfold)
  have safe: "pure_parts n \<noteq> [] \<and> ''..'' \<notin> set (pure_parts n)" if "n \<in> set (dict_keys (es_prepared st))" for n
    using that p unfolding keys by (auto simp: prepared_ok_def unsafe_source_def)
  then have parts: "\<forall>(parts, _) \<in> set ?xs. parts \<noteq> [] \<and> ''..'' \<notin> set parts" by fastforce
  have eq: "map (\<lambda>(parts, data). (parts, data, None)) ?xs = map (\<lambda>(name, data). (pure_parts name, data, None :: int option)) (es_prepared st)"
    by (simp add: case_prod_unfold)
  note all = extract_loop [OF c dist parts, unfolded eq, OF wr]
  then have loop: "confined fs output fs'" "\<forall>(parts, data) \<in> set ?xs. \<exists>m. stored fs' output parts data m" by blast+
  have "\<exists>data data'. (read_bytes fs (path_div source (sel_path i)) :: (adapt_msg, bytes) res) = Inr data \<and>
       sha data = sel_sha256 i \<and> edited_as edits (sel_path i) data data' \<and>
       (read_bytes fs' (output @ pure_parts (sel_path i)) :: (adapt_msg, bytes) res) = Inr data'" if i: "i \<in> set selection" for i
  proof -
    obtain data where d: "map_of pr (sel_path i) = Some data" "(read_bytes fs (path_div source (sel_path i)) :: (adapt_msg, bytes) res) = Inr data"
      "sha data = sel_sha256 i" using p i by (auto simp: prepared_ok_def)
    obtain data' where d': "map_of (es_prepared st) (sel_path i) = Some data'" "edited_as edits (sel_path i) data data'"
      using e d(1) by blast
    have "(pure_parts (sel_path i), data') \<in> set ?xs" using map_of_SomeD [OF d'(1)] by force
    then obtain m where "stored fs' output (pure_parts (sel_path i)) data' m" using loop(2) by blast
    then show ?thesis using d d' stored_read [OF loop(1)] by blast
  qed
  then show ?thesis using loop(1) src by blast
qed

section \<open>The reviewed reference edits\<close>

lemma replacements_unbordered: "list_all (\<lambda>(before, _). unbordered before) REPLACEMENTS"
  by (simp add: REPLACEMENTS_def atomic_include_def unbordered_def upt_conv_Cons DQ_def)

lemma reference_adapt_exact:
  assumes "reference_adapt sha original = Inr out"
  shows "sha original = REFERENCE_SHA256 \<and> (\<exists>t0 t1 t2 t3. (decode_utf8 original :: (adapt_msg, string) res) = Inr t0 \<and>
    unique_edit (fst (REPLACEMENTS ! 0)) (snd (REPLACEMENTS ! 0)) t0 t1 \<and>
    unique_edit (fst (REPLACEMENTS ! 1)) (snd (REPLACEMENTS ! 1)) t1 t2 \<and>
    unique_edit (fst (REPLACEMENTS ! 2)) (snd (REPLACEMENTS ! 2)) t2 t3 \<and> out = encode_utf8 t3)"
proof -
  obtain b0 a0 b1 a1 b2 a2 where R: "REPLACEMENTS = [(b0, a0), (b1, a1), (b2, a2)]" by (simp add: REPLACEMENTS_def)
  have u: "unbordered b0" "unbordered b1" "unbordered b2" using replacements_unbordered unfolding R by simp_all
  obtain t0 t3 where d: "sha original = REFERENCE_SHA256" "(decode_utf8 original :: (adapt_msg, string) res) = Inr t0" "out = encode_utf8 t3"
    and c: "count_sub b0 t0 = 1" "count_sub b1 (replace_first b0 a0 t0) = 1"
      "count_sub b2 (replace_first b1 a1 (replace_first b0 a0 t0)) = 1"
      "t3 = replace_first b2 a2 (replace_first b1 a1 (replace_first b0 a0 t0))"
    using assms by (auto simp: reference_adapt_def R res_simps)
  show ?thesis
    using d c(4) replace_first_unique [OF u(1) c(1), of a0] replace_first_unique [OF u(2) c(2), of a1]
      replace_first_unique [OF u(3) c(3), of a2]
    unfolding R by (simp add: numeral_2_eq_2) blast
qed

section \<open>Text and bytes\<close>

lemma utf8_valid_ascii: "list_all (\<lambda>b. b < 128) bs \<Longrightarrow> utf8_valid bs"
  by (induction bs) auto

lemma unat_of_char: "unat (of_char c :: byte) = of_char c"
proof -
  have "(of_char c :: byte) = of_nat (of_char c)" by (rule of_nat_of_char [symmetric])
  then show ?thesis using nat_of_char_less_256 [of c] by (simp add: unat_of_nat)
qed

text \<open>ASCII text is its own UTF-8 encoding.\<close>

definition ascii :: "string \<Rightarrow> bool" where
  "ascii s \<longleftrightarrow> list_all (\<lambda>c. \<not> digit7 c) s"

lemma byte_ascii: "\<not> digit7 c \<Longrightarrow> (of_char c :: byte) < 128"
proof -
  assume "\<not> digit7 c"
  then have "(of_char c :: nat) < 128" by (cases c) (simp add: of_char_def)
  then show ?thesis by (simp add: word_less_nat_alt unat_of_char)
qed

lemma decode_encode: "ascii s \<Longrightarrow> decode_utf8 (encode_utf8 s) = Inr s"
  by (simp add: decode_utf8_def encode_utf8_def ascii_def utf8_valid_ascii list_all_iff byte_ascii unat_of_char map_idI)

lemma count_sub_once:
  "p \<noteq> [] \<Longrightarrow> split_first p s = Some (a, b) \<Longrightarrow> split_first p b = None \<Longrightarrow> count_sub p s = 1"
  by (simp add: count_sub.simps)

section \<open>Concrete sources\<close>

definition o_sha :: "bytes \<Rightarrow> string" where
  "o_sha bs = (if length bs < 9 then ''small'' else REFERENCE_SHA256)"

definition o_fs :: fs where
  "o_fs = [([''s''], Dir), ([''s'', ''a''], Dir), ([''s'', ''a'', ''x''], File (encode_utf8 ''one two'') None),
     ([''s'', ''n''], File (encode_utf8 ''text'') None), ([''o''], Dir)]"

definition o_selection :: "selection_item list" where
  "o_selection = [\<lparr>sel_path = ''a/x'', sel_sha256 = ''small''\<rparr>, \<lparr>sel_path = ''n'', sel_sha256 = ''small''\<rparr>]"

definition o_edits :: "edit_item list" where
  "o_edits = [\<lparr>ed_path = ''a/x'', ed_sha256 = ''small'', ed_replacements = [(''two'', ''three'')]\<rparr>]"

lemma o_ok: "is_ok (art_adapt_sources o_sha o_fs [''s''] [''o''] o_selection o_edits)"
  by code_simp

theorem art_adapt_exact_witness:
  "\<exists>fs' records. art_adapt_sources o_sha o_fs [''s''] [''o''] o_selection o_edits = Inr (fs', records) \<and> confined o_fs [''o''] fs'"
proof -
  obtain fs' records where r: "art_adapt_sources o_sha o_fs [''s''] [''o''] o_selection o_edits = Inr (fs', records)"
    using o_ok by (auto simp: is_ok_iff)
  have "take i [''o''] = [''o'']" if "0 < i" for i using that by (cases i) auto
  then have c: "confined o_fs [''o''] o_fs" by (simp add: confined_def dirs_def o_fs_def)
  have "list_all (\<lambda>i. as_posix (pure_parts (sel_path i)) = sel_path i) o_selection" by code_simp
  then show ?thesis using r art_adapt_exact [OF c _ r] by (auto simp: list_all_iff)
qed

definition o_header :: string where
  "o_header = atomic_include @ fst (REPLACEMENTS ! 1) @ fst (REPLACEMENTS ! 2)"

lemma o_header_ascii: "ascii o_header"
  by (simp add: o_header_def ascii_def REPLACEMENTS_def atomic_include_def DQ_def numeral_2_eq_2)

lemma o_header_sha: "o_sha (encode_utf8 o_header) = REFERENCE_SHA256"
  by (simp add: o_sha_def encode_utf8_def o_header_def REPLACEMENTS_def atomic_include_def)

abbreviation o_before :: "nat \<Rightarrow> string" where
  "o_before i \<equiv> fst (REPLACEMENTS ! i)"

abbreviation o_after :: "nat \<Rightarrow> string" where
  "o_after i \<equiv> snd (REPLACEMENTS ! i)"

lemmas o_strings = REPLACEMENTS_def atomic_include_def DQ_def NL_def numeral_2_eq_2

lemma o_first: "split_first (o_before 0) (o_before 0 @ o_before 1 @ o_before 2) = Some ([], o_before 1 @ o_before 2)"
    "split_first (o_before 0) (o_before 1 @ o_before 2) = None"
  by (simp_all add: o_strings)

lemma o_second: "split_first (o_before 1) (o_after 0 @ o_before 1 @ o_before 2) = Some (o_after 0, o_before 2)"
    "split_first (o_before 1) (o_before 2) = None"
  by (simp_all add: o_strings)

lemma o_third: "split_first (o_before 2) (o_after 0 @ o_after 1 @ o_before 2) = Some (o_after 0 @ o_after 1, [])"
    "split_first (o_before 2) [] = None"
  by (simp_all add: o_strings)

lemma o_nonempty: "o_before 0 \<noteq> []" "o_before 1 \<noteq> []" "o_before 2 \<noteq> []"
  by (simp_all add: o_strings)

lemma o_reference: "is_ok (reference_adapt o_sha (encode_utf8 o_header))"
proof -
  have R: "REPLACEMENTS = [(o_before 0, o_after 0), (o_before 1, o_after 1), (o_before 2, o_after 2)]"
    by (simp add: REPLACEMENTS_def numeral_2_eq_2)
  have "o_before 0 = atomic_include" by (simp add: REPLACEMENTS_def)
  then have h: "o_header = o_before 0 @ o_before 1 @ o_before 2" by (simp add: o_header_def)
  note c = count_sub_once [OF o_nonempty(1) o_first] count_sub_once [OF o_nonempty(2) o_second] count_sub_once [OF o_nonempty(3) o_third]
  have r: "replace_first (o_before 0) (o_after 0) (o_before 0 @ o_before 1 @ o_before 2) = o_after 0 @ o_before 1 @ o_before 2"
    "replace_first (o_before 1) (o_after 1) (o_after 0 @ o_before 1 @ o_before 2) = o_after 0 @ o_after 1 @ o_before 2"
    by (simp_all only: replace_first_def o_first o_second option.case prod.case append_Nil)
  let ?F = "\<lambda>t (before, after). require (count_sub before t = 1) (RuntimeError Reference_context) (Inr (replace_first before after t))"
  have "foldM ?F o_header [(o_before 0, o_after 0), (o_before 1, o_after 1), (o_before 2, o_after 2)] =
      Inr (replace_first (o_before 2) (o_after 2) (o_after 0 @ o_after 1 @ o_before 2))"
    unfolding h by (simp only: foldM.simps prod.case c r simp_thms require_True bind_res_Inr)
  then have "foldM ?F o_header REPLACEMENTS = Inr (replace_first (o_before 2) (o_after 2) (o_after 0 @ o_after 1 @ o_before 2))"
    unfolding R [symmetric] .
  then show ?thesis
    unfolding reference_adapt_def o_header_sha decode_encode [OF o_header_ascii] by (simp only: simp_thms require_True bind_res_Inr is_ok_Inr)
qed

lemma reference_adapt_exact_witness:
  "\<exists>out t0. reference_adapt o_sha (encode_utf8 o_header) = Inr out \<and> (decode_utf8 (encode_utf8 o_header) :: (adapt_msg, string) res) = Inr t0"
proof -
  obtain out where r: "reference_adapt o_sha (encode_utf8 o_header) = Inr out" using o_reference by (auto simp: is_ok_iff)
  then show ?thesis using reference_adapt_exact [OF r] by blast
qed

end
