(* ===== verification/Py_Re.thy ===== *)
theory Py_Re
  imports Posix_Path
begin

text \<open>
  The part of \<^verbatim>\<open>re\<close> the scripts use: backtracking matching in Python's order of preference, with
  groups, anchors and word boundaries.  A position is the character before it and the text after
  it; \<open>rmatch\<close> lists the matches at a position, the preferred one first.  Character classes are
  those of ASCII text.
\<close>

datatype regex =
    Eps
  | Cls "char \<Rightarrow> bool"
  | Cat regex regex
  | Alt regex regex
  | Star regex
  | Grp nat regex
  | Bol
  | Eol
  | Wb

type_synonym caps = "(nat \<times> string) list"
type_synonym rpos = "char option \<times> string"

definition newline :: char where "newline = CHR 0x0A"

definition word_char :: "char \<Rightarrow> bool" where
  "word_char c \<longleftrightarrow> (let n = of_char c :: int in
     (48 \<le> n \<and> n \<le> 57) \<or> (65 \<le> n \<and> n \<le> 90) \<or> n = 95 \<or> (97 \<le> n \<and> n \<le> 122))"

definition digit_char :: "char \<Rightarrow> bool" where
  "digit_char c \<longleftrightarrow> (let n = of_char c :: int in 48 \<le> n \<and> n \<le> 57)"

definition space_char :: "char \<Rightarrow> bool" where
  "space_char c \<longleftrightarrow> (let n = of_char c :: int in n = 32 \<or> (9 \<le> n \<and> n \<le> 13) \<or> (28 \<le> n \<and> n \<le> 31))"

definition boundary :: "rpos \<Rightarrow> bool" where
  "boundary p \<longleftrightarrow> (case fst p of None \<Rightarrow> False | Some c \<Rightarrow> word_char c) \<noteq> (case snd p of [] \<Rightarrow> False | c # _ \<Rightarrow> word_char c)"

fun rstar :: "nat \<Rightarrow> (rpos \<Rightarrow> caps \<Rightarrow> (rpos \<times> caps) list) \<Rightarrow> rpos \<Rightarrow> caps \<Rightarrow> (rpos \<times> caps) list" where
  "rstar 0 f p cs = [(p, cs)]"
| "rstar (Suc n) f p cs =
     concat (map (\<lambda>(q, ds). if length (snd q) < length (snd p) then rstar n f q ds else []) (f p cs)) @ [(p, cs)]"

fun rmatch :: "regex \<Rightarrow> rpos \<Rightarrow> caps \<Rightarrow> (rpos \<times> caps) list" where
  "rmatch Eps p cs = [(p, cs)]"
| "rmatch (Cls f) p cs = (case snd p of [] \<Rightarrow> [] | c # s \<Rightarrow> if f c then [((Some c, s), cs)] else [])"
| "rmatch (Cat r t) p cs = concat (map (\<lambda>(q, ds). rmatch t q ds) (rmatch r p cs))"
| "rmatch (Alt r t) p cs = rmatch r p cs @ rmatch t p cs"
| "rmatch (Star r) p cs = rstar (length (snd p)) (rmatch r) p cs"
| "rmatch (Grp n r) p cs =
     map (\<lambda>(q, ds). (q, (n, take (length (snd p) - length (snd q)) (snd p)) # ds)) (rmatch r p cs)"
| "rmatch Bol p cs = (if fst p = None \<or> fst p = Some newline then [(p, cs)] else [])"
| "rmatch Eol p cs = (if snd p = [] \<or> hd (snd p) = newline then [(p, cs)] else [])"
| "rmatch Wb p cs = (if boundary p then [(p, cs)] else [])"

definition Plus :: "regex \<Rightarrow> regex" where
  "Plus r = Cat r (Star r)"

definition Opt :: "regex \<Rightarrow> regex" where
  "Opt r = Alt r Eps"

fun cats :: "regex list \<Rightarrow> regex" where
  "cats [] = Eps"
| "cats [r] = r"
| "cats (r # s # rs) = Cat r (cats (s # rs))"

fun alts :: "regex list \<Rightarrow> regex" where
  "alts [] = Cls (\<lambda>_. False)"
| "alts [r] = r"
| "alts (r # s # rs) = Alt r (alts (s # rs))"

definition lit :: "string \<Rightarrow> regex" where
  "lit s = cats (map (\<lambda>c. Cls ((=) c)) s)"

definition one_of :: "string \<Rightarrow> regex" where
  "one_of s = Cls (\<lambda>c. c \<in> set s)"

text \<open>\<^verbatim>\<open>re.IGNORECASE\<close>.\<close>

definition ascii_upper :: "char \<Rightarrow> char" where
  "ascii_upper c = (let n = of_char c :: int in if 97 \<le> n \<and> n \<le> 122 then char_of (n - 32) else c)"

fun icase :: "regex \<Rightarrow> regex" where
  "icase (Cls f) = Cls (\<lambda>c. f c \<or> f (ascii_lower c) \<or> f (ascii_upper c))"
| "icase (Cat r t) = Cat (icase r) (icase t)"
| "icase (Alt r t) = Alt (icase r) (icase t)"
| "icase (Star r) = Star (icase r)"
| "icase (Grp n r) = Grp n (icase r)"
| "icase r = r"

section \<open>Scanning a text\<close>

datatype piece = Gap char | Hit (hit_text: string) (hit_caps: caps)

text \<open>\<^verbatim>\<open>re.finditer\<close>: the matches from left to right without overlap, and the characters between them.\<close>

function scan :: "regex \<Rightarrow> char option \<Rightarrow> string \<Rightarrow> piece list" where
  "scan r prev s =
     (case rmatch r (prev, s) [] of
        ((prev', s'), cs) # _ \<Rightarrow>
          if length s' < length s then Hit (take (length s - length s') s) cs # scan r prev' s'
          else Hit [] cs # (case s of [] \<Rightarrow> [] | c # t \<Rightarrow> Gap c # scan r (Some c) t)
      | [] \<Rightarrow> (case s of [] \<Rightarrow> [] | c # t \<Rightarrow> Gap c # scan r (Some c) t))"
  by pat_completeness auto

termination
  by (relation "measure (\<lambda>(_, _, s). length s)") auto

declare scan.simps [simp del]

definition is_hit :: "piece \<Rightarrow> bool" where
  "is_hit p = (case p of Gap _ \<Rightarrow> False | Hit _ _ \<Rightarrow> True)"

lemma is_hit_simps [simp]: "\<not> is_hit (Gap c)" "is_hit (Hit m cs)"
  by (simp_all add: is_hit_def)

definition hits :: "regex \<Rightarrow> string \<Rightarrow> piece list" where
  "hits r s = filter is_hit (scan r None s)"

definition search :: "regex \<Rightarrow> string \<Rightarrow> bool" where
  "search r s \<longleftrightarrow> hits r s \<noteq> []"

definition group :: "caps \<Rightarrow> nat \<Rightarrow> string" where
  "group cs n = (case map_of cs n of None \<Rightarrow> [] | Some s \<Rightarrow> s)"

text \<open>\<^verbatim>\<open>re.findall\<close> of a pattern with one group.\<close>

definition findall_group :: "regex \<Rightarrow> string \<Rightarrow> string list" where
  "findall_group r s = map (\<lambda>p. group (hit_caps p) 1) (hits r s)"

definition fullmatch :: "regex \<Rightarrow> string \<Rightarrow> bool" where
  "fullmatch r s \<longleftrightarrow> list_ex (\<lambda>(q, _). snd q = []) (rmatch r (None, s) [])"

section \<open>Laws\<close>

text \<open>A match only moves forward.\<close>

definition forward :: "rpos \<Rightarrow> rpos \<Rightarrow> bool" where
  "forward p q \<longleftrightarrow> suffix (snd q) (snd p)"

lemma forward_refl [simp]: "forward p p"
  by (simp add: forward_def)

lemma forward_trans: "forward p q \<Longrightarrow> forward q r \<Longrightarrow> forward p r"
  unfolding forward_def using suffix_order.trans by blast

lemma rstar_forward:
  assumes "(q, ds) \<in> set (rstar n f p cs)" and "\<And>p cs q ds. (q, ds) \<in> set (f p cs) \<Longrightarrow> forward p q"
  shows "forward p q"
  using assms
proof (induction n f p cs arbitrary: q ds rule: rstar.induct)
  case (2 n f p cs)
  consider "(q, ds) = (p, cs)" | q1 ds1 where "(q1, ds1) \<in> set (f p cs)" "length (snd q1) < length (snd p)" "(q, ds) \<in> set (rstar n f q1 ds1)"
    using 2(2) by (auto split: if_splits)
  then show ?case
  proof cases
    case (2 q1 ds1)
    have "forward q1 q" using "2.IH" [OF 2(1) refl 2(2,3)] "2.prems"(2) by blast
    then show ?thesis using forward_trans "2.prems"(2) [OF 2(1)] by blast
  qed simp
qed simp

lemma rmatch_forward: "(q, ds) \<in> set (rmatch r p cs) \<Longrightarrow> forward p q"
proof (induction r arbitrary: p cs q ds)
  case (Cat r t)
  then obtain q1 ds1 where "(q1, ds1) \<in> set (rmatch r p cs)" "(q, ds) \<in> set (rmatch t q1 ds1)" by auto
  then show ?case using Cat.IH forward_trans by blast
next
  case (Star r)
  then show ?case using rstar_forward by (metis rmatch.simps(5))
qed (auto simp: forward_def suffix_def split: list.splits if_splits)

definition piece_text :: "piece \<Rightarrow> string" where
  "piece_text p = (case p of Gap c \<Rightarrow> [c] | Hit m _ \<Rightarrow> m)"

text \<open>The pieces of a scan are the text.\<close>

lemma scan_text: "concat (map piece_text (scan r prev s)) = s"
proof (induction r prev s rule: scan.induct)
  case (1 r prev s)
  show ?case
  proof (cases "rmatch r (prev, s) []")
    case Nil
    then show ?thesis using 1(1) [OF Nil] by (cases s) (auto simp: scan.simps [of r prev] piece_text_def)
  next
    case (Cons x xs)
    obtain prev' s' cs where x: "x = ((prev', s'), cs)" by (cases x) auto
    have "suffix s' s" using rmatch_forward [of "(prev', s')" cs r "(prev, s)" "[]"] Cons x by (simp add: forward_def)
    then obtain u where u: "s = u @ s'" by (auto simp: suffix_def)
    show ?thesis
    proof (cases "length s' < length s")
      case True
      then show ?thesis using 1(2) Cons x u by (simp add: scan.simps [of r prev] piece_text_def)
    next
      case False
      then show ?thesis using 1(3) Cons x by (cases s) (auto simp: scan.simps [of r prev] piece_text_def)
    qed
  qed
qed

text \<open>Where nothing is found, no position has a match.\<close>

lemma scan_no_hits:
  "filter is_hit (scan r prev s) = [] \<Longrightarrow> s = u @ v \<Longrightarrow> rmatch r (if u = [] then prev else Some (last u), v) [] = []"
proof (induction u arbitrary: prev s)
  case Nil
  then show ?case by (cases "rmatch r (prev, s) []") (auto simp: scan.simps [of r prev] split: if_splits)
next
  case (Cons c u)
  then have s: "s = c # u @ v" by simp
  then have "filter is_hit (scan r (Some c) (u @ v)) = []"
    using Cons.prems(1) by (cases "rmatch r (prev, s) []") (auto simp: scan.simps [of r prev] split: if_splits)
  from Cons.IH [OF this refl] show ?case by (simp split: if_splits)
qed

lemma search_False: "\<not> search r s \<Longrightarrow> s = u @ v \<Longrightarrow> rmatch r (if u = [] then None else Some (last u), v) [] = []"
  by (rule scan_no_hits) (simp_all add: search_def hits_def)

lemma scan_none:
  "(\<And>u v. s = u @ v \<Longrightarrow> rmatch r (if u = [] then prev else Some (last u), v) [] = []) \<Longrightarrow> filter is_hit (scan r prev s) = []"
proof (induction s arbitrary: prev)
  case Nil
  then show ?case using Nil [of "[]" "[]"] by (simp add: scan.simps)
next
  case (Cons c s)
  have "rmatch r (prev, c # s) [] = []" using Cons.prems [of "[]" "c # s"] by simp
  moreover have "filter is_hit (scan r (Some c) s) = []"
  proof (rule Cons.IH)
    show "rmatch r (if u = [] then Some c else Some (last u), v) [] = []" if "s = u @ v" for u v
      using Cons.prems [of "c # u" v] that by (simp split: if_splits)
  qed
  ultimately show ?case by (simp add: scan.simps)
qed

lemma not_searchI:
  assumes "\<And>u v prev. s = u @ v \<Longrightarrow> rmatch r (prev, v) [] = []" shows "\<not> search r s"
  unfolding search_def hits_def by (simp add: scan_none assms)

end
