(* ===== verification/Native_Edits.thy ===== *)
theory Native_Edits
  imports Overlay Py_Re
begin

text \<open>
  Reviewed edits of native sources: the optional Rust demangler (\<^verbatim>\<open>art_runtime_policy.py\<close>), the
  Scudo configuration (\<^verbatim>\<open>bionic_scudo.py\<close>) and the generated ARM64 system calls
  (\<^verbatim>\<open>bionic_syscalls.py\<close>), whose kernel entry becomes a call with shifted argument registers.
\<close>

section \<open>Optional demangler\<close>

datatype (plugins only: code) edit_msg =
    Demangler_differs
  | Demangler_context
  | Crc_in string
  | Crc_helper_changed
  | Scudo_differs
  | Scudo_primary_changed
  | Subsection_not_found
  | Unsupported_syscall
  | Template_drift string
  | Kernel_entry_remains
  | Syscall_source_differs string

definition DEMANGLER_SHA256 :: string where
  "DEMANGLER_SHA256 = ''48ecc10746919366b620a9bff1c7e6e729e27a952bdf6e5a9ebf11a90f3f1416''"

definition demangler_include :: string where
  "demangler_include = ''#include <rustc_demangle.h>''"

definition demangler_branch :: string where
  "demangler_branch =
     ''  } else if (name[1] == '' @ [CHR 0x27] @ ''R'' @ [CHR 0x27] @ '') {'' @ [NL] @
     ''    // Try to demangle rust name.'' @ [NL] @
     ''    demangled_str = rustc_demangle(name.c_str(), nullptr, nullptr, nullptr);''"

definition guard_open :: string where
  "guard_open = ''#if !defined(ARTBOX_NO_RUST_DEMANGLE)'' @ [NL]"

definition guard_close :: string where
  "guard_close = [NL] @ ''#endif''"

definition without_rust_demangler :: "(bytes \<Rightarrow> string) \<Rightarrow> fs \<Rightarrow> path \<Rightarrow> (edit_msg, bytes) res" where
  "without_rust_demangler sha fs source =
     bind_res (read_bytes fs source) (\<lambda>data.
     require (sha data = DEMANGLER_SHA256) (RuntimeError Demangler_differs)
    (bind_res (decode_utf8 data) (\<lambda>contents.
     require (count_sub demangler_include contents = 1 \<and> count_sub demangler_branch contents = 1) (RuntimeError Demangler_context)
    (let contents1 = replace_first demangler_include
           (''// ARTBox: keep Rust trace labels verbatim when its demangler is omitted.'' @ [NL] @
            guard_open @ demangler_include @ guard_close) contents in
     Inr (encode_utf8 (replace_first demangler_branch (guard_open @ demangler_branch @ guard_close) contents1))))))"

section \<open>Scudo configuration\<close>

definition CRC_HELPER :: string where
  "CRC_HELPER = ''scudo/standalone/crc32_hw.cpp''"

definition crc_pattern :: regex where
  "crc_pattern = cats [Wb, lit ''crc32'', Opt (lit ''c''), one_of ''bhwx'', Wb]"

definition check_crc_code :: "string \<Rightarrow> string \<Rightarrow> (edit_msg, nat) res" where
  "check_crc_code source assembly =
     (let count = length (hits crc_pattern assembly) in
      require (\<not> (source \<noteq> CRC_HELPER \<and> count \<noteq> 0)) (RuntimeError (Crc_in source))
     (require (\<not> (source = CRC_HELPER \<and> count \<noteq> 1)) (RuntimeError Crc_helper_changed) (Inr count)))"

text \<open>\<^verbatim>\<open>data.index(sub, start)\<close>.\<close>

definition index_from :: "'a list \<Rightarrow> 'a list \<Rightarrow> nat \<Rightarrow> (edit_msg, nat) res" where
  "index_from data sub start =
     (case split_first sub (drop start data) of
        None \<Rightarrow> Inl (ValueError Subsection_not_found)
      | Some (a, _) \<Rightarrow> Inr (start + length a))"

definition normal_struct :: bytes where
  "normal_struct = encode_utf8 ''struct AndroidNormalConfig {''"

definition low_memory_struct :: bytes where
  "low_memory_struct = encode_utf8 ''struct AndroidLowMemoryConfig {''"

definition region_28 :: bytes where
  "region_28 = encode_utf8 ''static const uptr RegionSizeLog = 28U;''"

definition region_24 :: bytes where
  "region_24 = encode_utf8 ''static const uptr RegionSizeLog = 24U;''"

definition scudo_adapted :: "bytes \<Rightarrow> bool \<Rightarrow> (edit_msg, bytes) res" where
  "scudo_adapted data native =
     (if native then
        bind_res (index_from data normal_struct 0) (\<lambda>start.
        bind_res (index_from data low_memory_struct start) (\<lambda>stop.
        let before = take (stop - start) (drop start data) in
        require (count_sub region_28 before = 1) (RuntimeError Scudo_primary_changed)
       (Inr (take start data @ replace_all region_28 region_24 before @ drop stop data))))
      else Inr data)"

record scudo_report =
  sc_source :: string
  sc_configured :: string
  sc_region_log :: int
  sc_classes :: int
  sc_reservation :: int
  sc_change :: string

definition scudo_prepare :: "(bytes \<Rightarrow> string) \<Rightarrow> fs \<Rightarrow> path \<Rightarrow> path \<Rightarrow> string \<Rightarrow> bool \<Rightarrow> (edit_msg, fs \<times> scudo_report) res" where
  "scudo_prepare sha fs source output expected native =
     bind_res (read_bytes fs (source @ [''config'', ''custom_scudo_config.h''])) (\<lambda>data.
     require (sha data = expected) (RuntimeError Scudo_differs)
    (bind_res (scudo_adapted data native) (\<lambda>adapted.
     bind_res (mkdir_parents fs output) (\<lambda>fs1.
     bind_res (write_bytes fs1 (output @ [''custom_scudo_config.h'']) adapted) (\<lambda>fs2.
     bind_res (write_bytes fs2 (output @ [''original_custom_scudo_config.h'']) data) (\<lambda>fs3.
     Inr (fs3, \<lparr>sc_source = expected, sc_configured = sha adapted, sc_region_log = (if native then 24 else 28), sc_classes = 33,
       sc_reservation = push_bit (if native then 24 else 28) 33,
       sc_change = (if native then ''AndroidNormalConfig primary RegionSizeLog only'' else ''none'')\<rparr>)))))))"

section \<open>System calls\<close>

record syscall =
  call_func :: string
  call_name :: string
  call_params :: "string list"
  call_aliases :: "string list"

text \<open>A register move of the entry: a general register, the zero register or the call number.\<close>

datatype operand = Reg nat | Xzr | Nr string

definition render_operand :: "operand \<Rightarrow> string" where
  "render_operand x = (case x of Reg n \<Rightarrow> ''x'' @ show_nat n | Xzr \<Rightarrow> ''xzr'' | Nr s \<Rightarrow> ''__NR_'' @ s)"

definition render_move :: "nat \<times> operand \<Rightarrow> string" where
  "render_move m = ''    mov     x'' @ show_nat (fst m) @ '', '' @ render_operand (snd m) @ [NL]"

definition moves :: "nat \<Rightarrow> string \<Rightarrow> (nat \<times> operand) list" where
  "moves count number =
     map (\<lambda>i. (i + 1, Reg i)) (rev [0..<count]) @ map (\<lambda>i. (i, Xzr)) [count + 1..<7] @ [(0, Nr number)]"

definition call_frame :: "string \<Rightarrow> string" where
  "call_frame body =
     ''    // ARTBox: fixed-width C call; preserve the caller'' @ [CHR 0x27] @ ''s frame and return address.'' @ [NL] @
     ''    stp     x29, x30, [sp, #-16]!'' @ [NL] @
     ''    .cfi_def_cfa_offset 16'' @ [NL] @ ''    .cfi_offset x29, -16'' @ [NL] @ ''    .cfi_offset x30, -8'' @ [NL] @
     ''    mov     x29, sp'' @ [NL] @ body @
     ''    bl      artbox_bionic_syscall'' @ [NL] @
     ''    ldp     x29, x30, [sp], #16'' @ [NL] @
     ''    .cfi_def_cfa_offset 0'' @ [NL] @ ''    .cfi_restore x29'' @ [NL] @ ''    .cfi_restore x30'' @ [NL]"

definition ident_pattern :: regex where
  "ident_pattern = Cat (Cls (\<lambda>c. word_char c \<and> \<not> digit_char c)) (Star (Cls word_char))"

definition entry_line :: "string \<Rightarrow> string" where
  "entry_line function_name = ''ENTRY('' @ function_name @ '')'' @ [NL]"

definition kernel_entry :: "string \<Rightarrow> string \<Rightarrow> string" where
  "kernel_entry function_name number =
     entry_line function_name @ ''    mov     x8, __NR_'' @ number @ [NL] @ ''    svc     #0'' @ [NL]"

definition bridge_entry :: "string \<Rightarrow> string \<Rightarrow> nat \<Rightarrow> string" where
  "bridge_entry function_name number count =
     entry_line function_name @ call_frame (concat (map render_move (moves count number)))"

definition adapt_call :: "string \<times> string list \<Rightarrow> syscall \<Rightarrow> (edit_msg, string \<times> string list) res" where
  "adapt_call st call =
     (case st of (source, seen) \<Rightarrow>
      let f = call_func call; number = call_name call; count = length (call_params call) in
      require (\<not> (f \<in> set seen \<or> \<not> fullmatch ident_pattern f \<or> \<not> fullmatch ident_pattern number \<or> count > 6))
        (RuntimeError Unsupported_syscall)
     (require (count_sub (kernel_entry f number) source = 1) (RuntimeError (Template_drift f))
     (Inr (replace_first (kernel_entry f number) (bridge_entry f number count) source, f # seen))))"

definition svc_pattern :: regex where
  "svc_pattern = cats [Wb, lit ''svc'', Cls space_char]"

definition adapt_generated :: "string \<Rightarrow> syscall list \<Rightarrow> (edit_msg, string) res" where
  "adapt_generated source calls =
     bind_res (foldM adapt_call (source, []) calls) (\<lambda>(source', _).
     require (\<not> search svc_pattern source') (RuntimeError Kernel_entry_remains) (Inr source'))"

text \<open>The test header: one declaration and one table row per function and alias.\<close>

definition stub_decl :: "string \<Rightarrow> string" where
  "stub_decl name = ''extern '' @ [DQ] @ ''C'' @ [DQ] @ '' void artbox_stub_'' @ name @ ''();''"

definition table_row :: "syscall \<Rightarrow> string \<Rightarrow> string" where
  "table_row call name =
     ''    {artbox_stub_'' @ name @ '', __NR_'' @ call_name call @ '', '' @ show_nat (length (call_params call)) @ '', '' @
     [DQ] @ name @ [DQ] @ ''},''"

definition test_header :: "syscall list \<Rightarrow> string" where
  "test_header calls =
     (let names = concat (map (\<lambda>c. map (\<lambda>n. (c, n)) (call_func c # call_aliases c)) calls) in
      join_with [NL]
       ([''// Generated test declarations from pinned AOSP SYSCALLS.TXT.'', ''#include <asm/unistd.h>''] @
        map (\<lambda>(_, n). stub_decl n) names @
        [stub_decl ''syscall'',
         ''struct Stub { void (*function)(); uint64_t number; unsigned arguments; const char* name; };'',
         ''static const Stub stubs[] = {''] @ map (\<lambda>(c, n). table_row c n) names @ [''};'']) @ [NL])"

record syscall_report =
  sr_stubs :: nat
  sr_aliases :: nat
  sr_upstream :: string
  sr_generated :: string
  sr_header :: string

text \<open>
  \<^verbatim>\<open>generate\<close>: the pinned generator is run by the caller's function, which gives the ARM64 calls it
  parsed and the text it printed.
\<close>

definition generate ::
  "(bytes \<Rightarrow> string) \<Rightarrow> (fs \<Rightarrow> path \<Rightarrow> syscall list \<times> string) \<Rightarrow> (string \<times> string) list \<Rightarrow> fs \<Rightarrow> path \<Rightarrow> path \<Rightarrow> bool \<Rightarrow>
   (edit_msg, fs \<times> path \<times> syscall_report) res"
where
  "generate sha generator pin_inputs fs source dir native =
     bind_res (foldM (\<lambda>_ (relative, digest). bind_res (read_bytes fs (path_div source relative)) (\<lambda>data.
         require (sha data = digest) (RuntimeError (Syscall_source_differs relative)) (Inr ()))) () pin_inputs) (\<lambda>_.
     case generator fs source of (calls, upstream) \<Rightarrow>
     bind_res (if native then adapt_generated upstream calls else Inr upstream) (\<lambda>assembly.
     bind_res (mkdir_parents fs dir) (\<lambda>fs1.
     let p = dir @ [''syscalls-arm64.S''] in
     bind_res (write_bytes fs1 p (encode_utf8 assembly)) (\<lambda>fs2.
     bind_res (write_bytes fs2 (dir @ [''syscall-test.h'']) (encode_utf8 (test_header calls))) (\<lambda>fs3.
     bind_res (read_bytes fs3 p) (\<lambda>written.
     bind_res (read_bytes fs3 (dir @ [''syscall-test.h''])) (\<lambda>header.
     Inr (fs3, p, \<lparr>sr_stubs = length calls, sr_aliases = sum_list (map (\<lambda>c. length (call_aliases c)) calls),
       sr_upstream = sha (encode_utf8 upstream), sr_generated = sha written, sr_header = sha header\<rparr>))))))))"

section \<open>The entry shifts its arguments\<close>

definition exec_move :: "(string \<Rightarrow> 'v) \<Rightarrow> 'v \<Rightarrow> (nat \<Rightarrow> 'v) \<Rightarrow> nat \<times> operand \<Rightarrow> nat \<Rightarrow> 'v" where
  "exec_move nr zero regs m = regs(fst m := (case snd m of Reg n \<Rightarrow> regs n | Xzr \<Rightarrow> zero | Nr s \<Rightarrow> nr s))"

lemma exec_move_simps [simp]:
  "exec_move nr zero regs (d, Reg n) = regs(d := regs n)" "exec_move nr zero regs (d, Xzr) = regs(d := zero)"
  "exec_move nr zero regs (d, Nr s) = regs(d := nr s)"
  by (simp_all add: exec_move_def)

lemma shift_moves:
  "foldl (exec_move nr zero) regs (map (\<lambda>i. (i + 1, Reg i)) (rev [0..<count])) =
   (\<lambda>k. if 0 < k \<and> k \<le> count then regs (k - 1) else regs k)"
proof (induction count arbitrary: regs)
  case (Suc count)
  have "foldl (exec_move nr zero) regs (map (\<lambda>i. (i + 1, Reg i)) (rev [0..<Suc count])) =
      foldl (exec_move nr zero) (regs(Suc count := regs count)) (map (\<lambda>i. (i + 1, Reg i)) (rev [0..<count]))" by simp
  then show ?case unfolding Suc by (auto simp: fun_eq_iff le_Suc_eq)
qed (simp add: fun_eq_iff)

lemma zero_moves:
  "foldl (exec_move nr zero) regs (map (\<lambda>i. (i, Xzr)) xs) = (\<lambda>k. if k \<in> set xs then zero else regs k)"
  by (induction xs arbitrary: regs) (auto simp: fun_eq_iff)

text \<open>
  C20. The register moves of an adapted system-call entry, executed in order, put the call
  number in x0, shift the arguments x0 to x(count-1) up by one register without losing any,
  clear the unused argument registers up to x6 and leave every other register alone.
\<close>

theorem moves_shift_arguments:
  "foldl (exec_move nr zero) regs (moves count number) =
   (\<lambda>k. if k = 0 then nr number else if k \<le> count then regs (k - 1) else if k < 7 then zero else regs k)"
  unfolding moves_def foldl_append shift_moves zero_moves by (auto simp: fun_eq_iff)

text \<open>
  C21. Adapted system-call stubs enter the kernel nowhere: when
  \<^verbatim>\<open>adapt_generated\<close> succeeds, no position of the assembly matches
  an SVC instruction; the adapted functions are distinct C identifiers with at most six
  parameters.
\<close>

theorem adapt_generated_no_svc:
  assumes "adapt_generated source calls = Inr out"
  shows "(\<forall>u v. out = u @ v \<longrightarrow> rmatch svc_pattern (if u = [] then None else Some (last u), v) [] = []) \<and>
    distinct (map call_func calls) \<and> (\<forall>c \<in> set calls. length (call_params c) \<le> 6 \<and> fullmatch ident_pattern (call_func c))"
proof -
  obtain seen where f: "foldM adapt_call (source, []) calls = Inr (out, seen)" and ns: "\<not> search svc_pattern out"
    using assms by (auto simp: adapt_generated_def res_simps)
  have "distinct (map call_func cs) \<and> set seen' = set (map call_func cs) \<and>
      (\<forall>c \<in> set cs. length (call_params c) \<le> 6 \<and> fullmatch ident_pattern (call_func c))"
    if "foldM adapt_call (source, []) cs = Inr (out', seen')" for cs out' seen'
    using that
  proof (induction cs arbitrary: out' seen' rule: rev_induct)
    case (snoc c cs)
    obtain o1 s1 where s1: "foldM adapt_call (source, []) cs = Inr (o1, s1)" and st: "adapt_call (o1, s1) c = Inr (out', seen')"
      using snoc.prems by (auto simp: foldM_append bind_res_Inr_iff)
    have "call_func c \<notin> set s1" "seen' = call_func c # s1" "length (call_params c) \<le> 6" "fullmatch ident_pattern (call_func c)"
      using st by (auto simp: adapt_call_def Let_def res_simps)
    then show ?case using snoc.IH [OF s1] by auto
  qed simp
  then show ?thesis using f search_False [OF ns] by blast
qed

section \<open>The Scudo edit\<close>

lemma replace_all_once:
  assumes "p \<noteq> []" and "count_sub p s = 1"
  shows "\<exists>a b. s = a @ p @ b \<and> replace_all p r s = a @ r @ b"
proof -
  obtain a b where ab: "split_first p s = Some (a, b)" "count_sub p b = 0"
    using assms by (auto simp: count_sub.simps [of p s] split: option.splits)
  then have "split_first p b = None" using assms(1) by (auto simp: count_sub.simps [of p b] split: option.splits)
  then have "replace_all p r b = b" using assms(1) by (simp add: replace_all.simps)
  then have "replace_all p r s = a @ r @ b" using ab(1) assms(1) by (simp add: replace_all.simps [of p r s])
  then show ?thesis using split_first_Some [OF ab(1)] by blast
qed

lemma index_from_Inr:
  assumes "index_from data sub start = Inr i" shows "start \<le> i \<and> prefix sub (drop i data) \<and> (sub \<noteq> [] \<longrightarrow> i < length data)"
proof -
  obtain a b where ab: "split_first sub (drop start data) = Some (a, b)" "i = start + length a"
    using assms by (auto simp: index_from_def split: option.splits)
  have "drop (length a) (drop start data) = sub @ b" using split_first_Some [OF ab(1)] by simp
  then have "drop i data = sub @ b" using ab(2) by (simp add: add.commute)
  then show ?thesis using ab(2) by (metis append_is_Nil_conv drop_eq_Nil le_add1 linorder_not_less prefixI)
qed

lemma scudo_edit_exact:
  assumes "scudo_adapted data native = Inr out"
  shows "(\<not> native \<longrightarrow> out = data) \<and> (native \<longrightarrow> (\<exists>start stop a b. prefix normal_struct (drop start data) \<and>
    prefix low_memory_struct (drop stop data) \<and> data = a @ region_28 @ b \<and> out = a @ region_24 @ b \<and>
    start \<le> length a \<and> length (a @ region_28) \<le> stop))"
proof (cases native)
  case True
  then obtain start stop where i: "index_from data normal_struct 0 = Inr start" "index_from data low_memory_struct start = Inr stop"
    and c: "count_sub region_28 (take (stop - start) (drop start data)) = 1"
    and out: "out = take start data @ replace_all region_28 region_24 (take (stop - start) (drop start data)) @ drop stop data"
    using assms by (auto simp: scudo_adapted_def Let_def res_simps)
  have ne: "normal_struct \<noteq> []" "low_memory_struct \<noteq> []" "region_28 \<noteq> []"
    by (simp_all add: normal_struct_def low_memory_struct_def region_28_def encode_utf8_def)
  have s: "prefix normal_struct (drop start data)" "start < length data" "start \<le> stop" "prefix low_memory_struct (drop stop data)" "stop < length data"
    using index_from_Inr [OF i(1)] index_from_Inr [OF i(2)] ne by auto
  obtain a b where ab: "take (stop - start) (drop start data) = a @ region_28 @ b"
    "replace_all region_28 region_24 (take (stop - start) (drop start data)) = a @ region_24 @ b"
    using replace_all_once [OF ne(3) c] by blast
  have "data = take start data @ take (stop - start) (drop start data) @ drop stop data"
    using s(3) by (metis append_take_drop_id drop_drop le_add_diff_inverse2)
  then have "data = (take start data @ a) @ region_28 @ (b @ drop stop data)" unfolding ab(1) by simp
  moreover have "out = (take start data @ a) @ region_24 @ (b @ drop stop data)" using out ab(2) by simp
  moreover have "start \<le> length (take start data @ a)" using s(2) by simp
  moreover have "length (a @ region_28) \<le> stop - start" using ab(1) by (metis append_assoc length_append length_take min.bounded_iff nat_le_linear le_add1 order_trans)
  then have "length ((take start data @ a) @ region_28) \<le> stop" using s(2,3) by simp
  ultimately show ?thesis using True s(1,4) by blast
qed (use assms in \<open>simp add: scudo_adapted_def\<close>)

section \<open>Concrete inputs\<close>

definition e_calls :: "syscall list" where
  "e_calls = [\<lparr>call_func = ''dup'', call_name = ''dup'', call_params = [''int''], call_aliases = []\<rparr>]"

lemma svc_match: "\<not> prefix ''svc'' v \<Longrightarrow> rmatch svc_pattern (prev, v) [] = []"
  by (auto simp: svc_pattern_def lit_def split: list.split)

lemma e_no_svc: "\<not> search svc_pattern (bridge_entry ''dup'' ''dup'' 1)"
proof (rule not_searchI)
  fix u v prev
  assume s: "bridge_entry ''dup'' ''dup'' 1 = u @ v"
  have "split_first ''svc'' (bridge_entry ''dup'' ''dup'' 1) = None"
    by (simp add: bridge_entry_def call_frame_def moves_def entry_line_def render_move_def render_operand_def upt_conv_Cons show_nat.simps NL_def)
  from split_first_None [OF this, of u] have "\<not> prefix ''svc'' v" using s by (auto simp: prefix_def)
  then show "rmatch svc_pattern (prev, v) [] = []" by (rule svc_match)
qed

lemma e_generated: "is_ok (adapt_generated (kernel_entry ''dup'' ''dup'') e_calls)"
proof -
  have "fullmatch ident_pattern ''dup''" by code_simp
  moreover have "split_first (kernel_entry ''dup'' ''dup'') (kernel_entry ''dup'' ''dup'') = Some ([], [])"
    by (simp add: kernel_entry_def entry_line_def)
  moreover have "kernel_entry ''dup'' ''dup'' \<noteq> []" by (simp add: kernel_entry_def entry_line_def)
  ultimately show ?thesis
    using e_no_svc by (simp add: adapt_generated_def e_calls_def adapt_call_def Let_def count_sub.simps replace_first_def)
qed

theorem adapt_generated_no_svc_witness:
  "\<exists>out. adapt_generated (kernel_entry ''dup'' ''dup'') e_calls = Inr out \<and> rmatch svc_pattern (None, out) [] = []"
proof -
  obtain out where r: "adapt_generated (kernel_entry ''dup'' ''dup'') e_calls = Inr out" using e_generated by (auto simp: is_ok_iff)
  then show ?thesis using adapt_generated_no_svc [OF r] by (metis append_Nil)
qed

definition e_config :: bytes where
  "e_config = normal_struct @ region_28 @ low_memory_struct"

lemma e_scudo: "is_ok (scudo_adapted e_config True)"
  by code_simp

lemma scudo_edit_exact_witness:
  "\<exists>out a b. scudo_adapted e_config True = Inr out \<and> e_config = a @ region_28 @ b \<and> out = a @ region_24 @ b"
proof -
  obtain out where r: "scudo_adapted e_config True = Inr out" using e_scudo by (auto simp: is_ok_iff)
  then show ?thesis using scudo_edit_exact [OF r] by blast
qed

end
