(* ===== verification/Native_Code.thy ===== *)
theory Native_Code
  imports Native_Edits
begin

text \<open>
  Checks of compiled native code: the instruction inventory of a disassembly and the acceptance of
  the Bionic objects (\<^verbatim>\<open>bionic_adapt.py\<close>), the adaptation of compiler TLS assembly
  (\<^verbatim>\<open>tls_adapt.py\<close>, \<^verbatim>\<open>art_native_tls.py\<close>).
\<close>

section \<open>Instruction inventory\<close>

definition spaces :: regex where "spaces = Star (Cls space_char)"
definition spaces1 :: regex where "spaces1 = Plus (Cls space_char)"
definition any_char :: regex where "any_char = Cls (\<lambda>c. c \<noteq> newline)"

definition instruction_pattern :: regex where
  "instruction_pattern =
     icase (cats [Bol, spaces, Plus (one_of ''0123456789abcdef''), lit '':'', spaces1, Grp 1 (Plus any_char), Eol])"

definition PATTERNS :: "(string \<times> regex) list" where
  "PATTERNS =
    [(''svc'', cats [Wb, lit ''svc'', spaces1]),
     (''tpidr_el0_read'', cats [Wb, lit ''mrs'', spaces1, Plus (Cls (\<lambda>c. c \<noteq> CHR '','' \<and> c \<noteq> newline)), lit '','', spaces, lit ''tpidr_el0'', Wb]),
     (''tpidr_el0_write'', cats [Wb, lit ''msr'', spaces1, lit ''tpidr_el0'', Wb]),
     (''tpidr_mentions'', cats [Wb, lit ''tpidr'', Star (Cls word_char), Wb]),
     (''x18_mentions'', cats [Wb, one_of ''wx'', lit ''18'', Wb]),
     (''x27_mentions'', cats [Wb, one_of ''wx'', lit ''27'', Wb]),
     (''x28_mentions'', cats [Wb, one_of ''wx'', lit ''28'', Wb]),
     (''unknown_instructions'', lit ''<unknown>'')]"

text \<open>\<^verbatim>\<open>str.splitlines\<close>: a carriage return with its line feed is one boundary, and a final boundary adds no line.\<close>

definition line_break :: "char \<Rightarrow> bool" where
  "line_break c \<longleftrightarrow> (let n = of_char c :: int in (10 \<le> n \<and> n \<le> 13) \<or> (28 \<le> n \<and> n \<le> 30))"

function splitlines :: "string \<Rightarrow> string list" where
  "splitlines [] = []"
| "splitlines (c # s) =
     (let line = takeWhile (\<lambda>c. \<not> line_break c) (c # s); rest = dropWhile (\<lambda>c. \<not> line_break c) (c # s) in
      line # (case rest of [] \<Rightarrow> []
        | b # t \<Rightarrow> if b = CHR 0x0D \<and> t \<noteq> [] \<and> hd t = newline then splitlines (tl t) else splitlines t))"
  by pat_completeness auto

termination
proof (relation "measure length", goal_cases)
  case (2 c s line rest b t)
  then have "length (b # t) \<le> length (c # s)" using length_dropWhile_le by metis
  then show ?case by simp
next
  case (3 c s line rest b t)
  then have "length (b # t) \<le> length (c # s)" using length_dropWhile_le by metis
  then show ?case by simp
qed simp

definition instructions :: "string \<Rightarrow> string" where
  "instructions disassembly = join_with [newline] (findall_group instruction_pattern disassembly)"

definition inventory :: "string \<Rightarrow> (string \<times> nat) list" where
  "inventory disassembly =
     (let text' = instructions disassembly in
      (''instruction_count'', length (splitlines text')) #
      map (\<lambda>(name, pattern). (name, length (hits (icase pattern) text'))) PATTERNS)"

text \<open>Relocations as sections of pairs of a type and a symbol.\<close>

record stack_counts =
  failure_branches :: nat
  guard_address_relocations :: nat

definition stack_reference :: "stack_counts \<Rightarrow> string \<times> string \<Rightarrow> stack_counts" where
  "stack_reference counts r =
     (case r of (kind, symbol) \<Rightarrow>
      let c1 = (if symbol = ''__stack_chk_fail'' \<and> kind \<in> set [''R_AARCH64_CALL26'', ''R_AARCH64_JUMP26'']
            then counts\<lparr>failure_branches := failure_branches counts + 1\<rparr> else counts) in
      if symbol = ''__stack_chk_guard'' \<and> kind \<in> set [''R_AARCH64_ADR_GOT_PAGE'', ''R_AARCH64_LD64_GOT_LO12_NC'',
          ''R_AARCH64_ADR_PREL_PG_HI21'', ''R_AARCH64_ADD_ABS_LO12_NC'']
      then c1\<lparr>guard_address_relocations := guard_address_relocations c1 + 1\<rparr> else c1)"

definition stack_references :: "(string \<times> string) list list \<Rightarrow> stack_counts" where
  "stack_references relocations =
     foldl (foldl stack_reference) \<lparr>failure_branches = 0, guard_address_relocations = 0\<rparr> relocations"

datatype (plugins only: code) native_msg =
    Unsupported_instructions "(string \<times> nat) list"
  | Outlined_helpers
  | Bridge_lost
  | Stack_guard_lost
  | Unsupported_tls_model
  | Reserved_register
  | Missing_tlsdesc
  | Tls_source_differs
  | Unexpected_tls_variable
  | Tls_count_changed
  | Tls_compilation_failed string
  | Not_reproduced string
  | Unsafe_tls_object string
  | Instruction_count_changed string
  | Bad_number
  | Not_in_list

definition BRIDGE :: "string list" where
  "BRIDGE = [''artbox_bionic_get_tls'', ''artbox_bionic_set_tls'', ''artbox_bionic_syscall'']"

definition check_native :: "(string \<times> nat) list \<Rightarrow> string list \<Rightarrow> stack_counts \<Rightarrow> (native_msg, unit) res" where
  "check_native counts symbols protection =
     (let unsafe = filter (\<lambda>(name, count). name \<noteq> ''instruction_count'' \<and> count \<noteq> 0) counts in
      require (unsafe = []) (RuntimeError (Unsupported_instructions unsafe))
     (bind_res (dict_get counts ''instruction_count'') (\<lambda>n.
      require (n \<noteq> 0) (RuntimeError (Unsupported_instructions unsafe))
     (require (\<not> list_ex (\<lambda>s. startswith s ''__aarch64_'') symbols) (RuntimeError Outlined_helpers)
     (require (list_all (\<lambda>b. b \<in> set symbols) BRIDGE) (RuntimeError Bridge_lost)
     (require (\<not> (failure_branches protection = 0 \<or> guard_address_relocations protection = 0)) (RuntimeError Stack_guard_lost)
     (Inr ())))))))"

section \<open>TLS assembly\<close>

definition unsupported_tls :: regex where
  "unsupported_tls = icase (Alt (Cat (lit '':'') (alts [lit ''gottprel'', lit ''tprel'', lit ''dtprel'']))
     (cats [Wb, Alt (lit ''tpidrro'') (lit ''tpidr2''), lit ''_el0'', Wb]))"

definition tlsdesc_pattern :: regex where
  "tlsdesc_pattern =
     cats [Bol, spaces, lit ''.tlsdesccall'', spaces1, Grp 1 (Plus (Cls (\<lambda>c. \<not> space_char c))), spaces, Eol]"

definition tp_read :: regex where
  "tp_read = icase (cats [Bol, spaces, lit ''mrs'', spaces1, Grp 1 (Cat (lit ''x'') (Plus (Cls digit_char))), lit '','', spaces,
     lit ''TPIDR_EL0'', spaces, Eol])"

definition tp_access :: regex where
  "tp_access = icase (cats [Wb, Alt (lit ''mrs'') (lit ''msr''), Wb, Star any_char, Wb, lit ''TPIDR''])"

definition decimal :: "string \<Rightarrow> nat" where
  "decimal s = foldl (\<lambda>n c. 10 * n + ((of_char c :: nat) - 48)) 0 s"

definition reserved :: "string \<Rightarrow> bool" where
  "reserved register \<longleftrightarrow> decimal (drop 1 register) \<in> set [18, 27, 28, 29, 30, 31]"

definition TAB :: char where "TAB = CHR 0x09"

definition zero_base :: "string \<Rightarrow> string" where
  "zero_base register = [TAB] @ ''mov'' @ [TAB] @ register @ '', xzr // ARTBox absolute TLSDESC address''"

definition replace_read :: "piece \<Rightarrow> (native_msg, string) res" where
  "replace_read p =
     (case p of Gap c \<Rightarrow> Inr [c]
      | Hit _ cs \<Rightarrow> require (\<not> reserved (group cs 1)) (ValueError Reserved_register) (Inr (zero_base (group cs 1))))"

record tls_edits =
  tlsdesc_calls :: nat
  tp_reads_replaced :: nat

definition tls_adapt :: "string \<Rightarrow> (native_msg, string \<times> tls_edits) res" where
  "tls_adapt assembly =
     require (\<not> search unsupported_tls assembly) (ValueError Unsupported_tls_model)
    (let calls = length (hits tlsdesc_pattern assembly); pieces = scan tp_read None assembly; reads = length (filter is_hit pieces) in
     bind_res (mapM replace_read pieces) (\<lambda>parts.
     let changed = concat parts in
     require (\<not> (calls = 0 \<or> reads = 0 \<or> search tp_access changed)) (ValueError Missing_tlsdesc)
       (Inr (changed, \<lparr>tlsdesc_calls = calls, tp_reads_replaced = reads\<rparr>))))"

record tls_rule =
  tr_source_sha256 :: string
  tr_symbols :: "string list"
  tr_calls :: nat
  tr_reads :: nat

definition adapt_assembly :: "(bytes \<Rightarrow> string) \<Rightarrow> bytes \<Rightarrow> string \<Rightarrow> tls_rule \<Rightarrow> (native_msg, string \<times> tls_edits) res" where
  "adapt_assembly sha source assembly rule =
     require (sha source = tr_source_sha256 rule) (ValueError Tls_source_differs)
    (let symbols = sort (remdups (findall_group tlsdesc_pattern assembly)) in
     require (symbols = tr_symbols rule) (ValueError Unexpected_tls_variable)
    (bind_res (tls_adapt assembly) (\<lambda>(changed, edits).
     require (tlsdesc_calls edits = tr_calls rule \<and> tp_reads_replaced edits = tr_reads rule) (ValueError Tls_count_changed)
       (Inr (changed, edits)))))"

section \<open>Compiling the adaptation\<close>

text \<open>A tool takes its words and the file system and gives its status, its output and the new file system.\<close>

record tool_result =
  status :: int
  out_bytes :: bytes
  err_bytes :: bytes
  after_fs :: fs

type_synonym tool = "string list \<Rightarrow> fs \<Rightarrow> tool_result"

definition abs_str :: "path \<Rightarrow> string" where
  "abs_str p = ''/'' @ join_with ''/'' p"

definition tls_run ::
  "tool \<Rightarrow> path \<Rightarrow> string \<Rightarrow> fs \<times> string list list \<Rightarrow> string list \<Rightarrow> string \<Rightarrow> (native_msg, (fs \<times> string list list) \<times> string) res"
where
  "tls_run exec output unit st words label =
     (let r = exec words (fst st) in
      bind_res (write_bytes (after_fs r) (output @ [unit @ ''-'' @ label @ ''.log'']) (out_bytes r @ err_bytes r)) (\<lambda>fs1.
      require (status r = 0) (RuntimeError (Tls_compilation_failed (unit @ ''/'' @ label)))
     (bind_res (decode_utf8 (out_bytes r)) (\<lambda>out. Inr ((fs1, snd st @ [words]), out)))))"

fun list_index :: "'a list \<Rightarrow> 'a \<Rightarrow> (native_msg, nat) res" where
  "list_index [] x = Inl (ValueError Not_in_list)"
| "list_index (y # ys) x = (if y = x then Inr 0 else bind_res (list_index ys x) (\<lambda>n. Inr (Suc n)))"

text \<open>The command with \<^verbatim>\<open>-S\<close> for \<^verbatim>\<open>-c\<close> and the assembly file as its output.\<close>

definition assembly_command :: "string list \<Rightarrow> path \<Rightarrow> (native_msg, string list) res" where
  "assembly_command command original =
     bind_res (list_index command ''-c'') (\<lambda>c.
     let command1 = command[c := ''-S''] in
     bind_res (list_index command1 ''-o'') (\<lambda>o'.
     require (Suc o' < length command1) IndexError (Inr (command1[Suc o' := abs_str original]))))"

definition unsafe_counts :: "(string \<times> nat) list \<Rightarrow> bool" where
  "unsafe_counts counts \<longleftrightarrow> map_of counts ''instruction_count'' = Some 0 \<or>
     list_ex (\<lambda>(k, v). k \<noteq> ''instruction_count'' \<and> v \<noteq> 0) counts"

definition tool_beside :: "string \<Rightarrow> string" where
  "tool_beside compiler =
     (let parts = rel_parts compiler; dir = (if pure_absolute compiler then ''/'' else []) @ join_with ''/'' (butlast parts) in
      posix_join dir (if endswith compiler ''.exe'' then ''llvm-objdump.exe'' else ''llvm-objdump''))"

record tls_mode =
  tm_sha256 :: string
  tm_inventory :: "(string \<times> nat) list"

definition compile_mode ::
  "(bytes \<Rightarrow> string) \<Rightarrow> tool \<Rightarrow> string \<Rightarrow> path \<Rightarrow> path \<Rightarrow> string \<Rightarrow> fs \<times> string list list \<Rightarrow> string \<Rightarrow>
   (native_msg, (fs \<times> string list list) \<times> tls_mode) res"
where
  "compile_mode sha exec compiler original_object output unit st mode =
     (let assembly = output @ [unit @ ''.'' @ mode @ ''.s'']; obj = output @ [unit @ ''.'' @ mode @ ''.o''] in
      bind_res (tls_run exec output unit st [compiler, ''--target=aarch64-linux-android35'', ''-march=armv8-a'', ''-c'', abs_str assembly,
          ''-o'', abs_str obj] (mode @ ''-assemble'')) (\<lambda>(st1, _).
      bind_res (tls_run exec output unit st1 [tool_beside compiler, ''-d'', ''--no-show-raw-insn'', abs_str obj] (mode @ ''-disassembly''))
        (\<lambda>(st2, listing).
      let counts = inventory listing in
      bind_res (read_bytes (fst st2) obj) (\<lambda>data.
      bind_res (if mode = ''original'' then
          bind_res (read_bytes (fst st2) original_object) (\<lambda>reference.
          require (sha data = sha reference) (RuntimeError (Not_reproduced unit)) (Inr ()))
        else Inr ()) (\<lambda>_.
      require (\<not> (mode = ''adapted'' \<and> unsafe_counts counts)) (RuntimeError (Unsafe_tls_object unit))
        (Inr (st2, \<lparr>tm_sha256 = sha data, tm_inventory = counts\<rparr>)))))))"

record tls_record =
  tl_edits :: tls_edits
  tl_source :: string
  tl_commands :: "string list list"
  tl_original :: tls_mode
  tl_adapted :: tls_mode

definition compile_adaptation ::
  "(bytes \<Rightarrow> string) \<Rightarrow> tool \<Rightarrow> fs \<Rightarrow> string list \<Rightarrow> path \<Rightarrow> path \<Rightarrow> path \<Rightarrow> string \<Rightarrow> tls_rule \<Rightarrow> (native_msg, fs \<times> tls_record) res"
where
  "compile_adaptation sha exec fs command source original_object output unit rule =
     bind_res (mkdir_parents fs output) (\<lambda>fs1.
     let original = output @ [unit @ ''.original.s''] in
     bind_res (assembly_command command original) (\<lambda>words.
     bind_res (tls_run exec output unit (fs1, []) words ''assembly'') (\<lambda>(st1, _).
     bind_res (read_bytes (fst st1) source) (\<lambda>source_data.
     bind_res (read_bytes (fst st1) original) (\<lambda>text_data.
     bind_res (decode_utf8 text_data) (\<lambda>assembly.
     bind_res (adapt_assembly sha source_data assembly rule) (\<lambda>(changed, edits).
     bind_res (write_bytes (fst st1) (output @ [unit @ ''.adapted.s'']) (encode_utf8 changed)) (\<lambda>fs2.
     let compiler = hd command in
     bind_res (compile_mode sha exec compiler original_object output unit (fs2, snd st1) ''original'') (\<lambda>(st3, original_mode).
     bind_res (compile_mode sha exec compiler original_object output unit st3 ''adapted'') (\<lambda>(st4, adapted_mode).
     require (map_of (tm_inventory original_mode) ''instruction_count'' = map_of (tm_inventory adapted_mode) ''instruction_count'')
       (RuntimeError (Instruction_count_changed unit))
    (bind_res (read_bytes (fst st4) (output @ [unit @ ''.adapted.o''])) (\<lambda>object.
     bind_res (write_bytes (fst st4) original_object object) (\<lambda>fs5.
     Inr (fs5, \<lparr>tl_edits = edits, tl_source = sha source_data, tl_commands = snd st4, tl_original = original_mode, tl_adapted = adapted_mode\<rparr>))))))))))))))"

section \<open>What accepted code is free of\<close>

text \<open>No position of a text matches a pattern.\<close>

definition nowhere :: "regex \<Rightarrow> string \<Rightarrow> bool" where
  "nowhere r s \<longleftrightarrow> (\<forall>u v. s = u @ v \<longrightarrow> rmatch r (if u = [] then None else Some (last u), v) [] = [])"

lemma hits_nowhere: "hits r s = [] \<Longrightarrow> nowhere r s"
  unfolding nowhere_def hits_def using scan_no_hits by blast

lemma inventory_clean:
  assumes "list_all (\<lambda>(k, v). k = ''instruction_count'' \<or> v = 0) (inventory d)"
  shows "list_all (\<lambda>(name, p). nowhere (icase p) (instructions d)) PATTERNS"
proof -
  have "list_all (\<lambda>(name, p). name \<noteq> ''instruction_count'') PATTERNS" by (simp add: PATTERNS_def)
  then show ?thesis
    using assms by (auto simp: inventory_def Let_def list_all_iff intro!: hits_nowhere)
qed

lemma check_native_clean:
  assumes "check_native (inventory d) symbols protection = Inr ()"
  shows "(\<forall>(name, p) \<in> set PATTERNS. nowhere (icase p) (instructions d)) \<and> instructions d \<noteq> [] \<and>
    set BRIDGE \<subseteq> set symbols \<and> (\<forall>s \<in> set symbols. \<not> startswith s ''__aarch64_'') \<and>
    0 < failure_branches protection \<and> 0 < guard_address_relocations protection"
proof -
  have g: "filter (\<lambda>(name, count). name \<noteq> ''instruction_count'' \<and> count \<noteq> 0) (inventory d) = []"
    "map_of (inventory d) ''instruction_count'' \<noteq> Some 0" "list_all (\<lambda>b. b \<in> set symbols) BRIDGE"
    "\<not> list_ex (\<lambda>s. startswith s ''__aarch64_'') symbols" "failure_branches protection \<noteq> 0" "guard_address_relocations protection \<noteq> 0"
    using assms by (auto simp: check_native_def Let_def res_simps)
  have "instructions d \<noteq> []" using g(2) by (auto simp: inventory_def Let_def)
  moreover have "list_all (\<lambda>(name, p). nowhere (icase p) (instructions d)) PATTERNS"
    by (rule inventory_clean) (use g(1) in \<open>auto simp: list_all_iff filter_empty_conv\<close>)
  ultimately show ?thesis using g(3-6) by (auto simp: list_all_iff list_ex_iff)
qed

text \<open>The pieces of an adapted text: everything but the reads is kept, a read is replaced by a move.\<close>


lemma compile_adaptation_checked:
  assumes "compile_adaptation sha exec fs command source original_object output unit rule = Inr (fs', rc)"
  shows "\<not> unsafe_counts (tm_inventory (tl_adapted rc)) \<and>
    map_of (tm_inventory (tl_original rc)) ''instruction_count'' = map_of (tm_inventory (tl_adapted rc)) ''instruction_count'' \<and>
    tl_source rc = tr_source_sha256 rule \<and> tlsdesc_calls (tl_edits rc) = tr_calls rule \<and>
    tp_reads_replaced (tl_edits rc) = tr_reads rule"
  using assms
  by (auto simp: compile_adaptation_def compile_mode_def adapt_assembly_def Let_def res_simps split: prod.splits)

section \<open>Concrete code\<close>

definition k_listing :: string where
  "k_listing = ''0: ret''"

definition k_counts :: stack_counts where
  "k_counts = stack_references [[(''R_AARCH64_CALL26'', ''__stack_chk_fail''), (''R_AARCH64_ADR_GOT_PAGE'', ''__stack_chk_guard'')]]"

lemma k_native: "check_native (inventory k_listing) BRIDGE k_counts = Inr ()"
  by code_simp

lemma check_native_clean_witness:
  "instructions k_listing \<noteq> [] \<and> list_all (\<lambda>(name, p). nowhere (icase p) (instructions k_listing)) PATTERNS"
  using check_native_clean [OF k_native] by (simp add: list_all_iff)

definition k_assembly :: string where
  "k_assembly = ''.tlsdesccall v'' @ [newline] @ '' mrs x8,TPIDR_EL0''"

lemma k_tls: "is_ok (tls_adapt k_assembly)"
  by code_simp


text \<open>A tool that writes the files the commands name and prints one instruction.\<close>

definition k_exec :: tool where
  "k_exec words fs = \<lparr>status = 0, out_bytes = encode_utf8 k_listing, err_bytes = [],
     after_fs = dict_set (dict_set (dict_set fs [''u.original.s''] (File (encode_utf8 k_assembly) None)) [''u.original.o''] (File [1] None))
       [''u.adapted.o''] (File [2] None)\<rparr>"

definition k_fs :: fs where
  "k_fs = [([''src''], File [9] None), ([''obj''], File [1] None)]"

definition k_rule :: tls_rule where
  "k_rule = \<lparr>tr_source_sha256 = ''h'', tr_symbols = [''v''], tr_calls = 1, tr_reads = 1\<rparr>"

lemma k_compile: "is_ok (compile_adaptation (\<lambda>_. ''h'') k_exec k_fs [''cc'', ''-c'', ''-o'', ''x''] [''src''] [''obj''] [] ''u'' k_rule)"
  by code_simp

lemma compile_adaptation_checked_witness:
  "\<exists>fs' record. compile_adaptation (\<lambda>_. ''h'') k_exec k_fs [''cc'', ''-c'', ''-o'', ''x''] [''src''] [''obj''] [] ''u'' k_rule = Inr (fs', record) \<and>
     \<not> unsafe_counts (tm_inventory (tl_adapted record))"
proof -
  obtain fs' rc where
    r: "compile_adaptation (\<lambda>_. ''h'') k_exec k_fs [''cc'', ''-c'', ''-o'', ''x''] [''src''] [''obj''] [] ''u'' k_rule = Inr (fs', rc)"
    using k_compile by (auto simp: is_ok_iff)
  then show ?thesis using compile_adaptation_checked [OF r] by blast
qed

end
