(* ===== verification/Guest_Link.thy ===== *)
theory Guest_Link
  imports Native_Code
begin

text \<open>
  The link boundaries of the signed guest libraries: instruction checks and dependency scopes of ICU
  (\<^verbatim>\<open>icu_guest_link.py\<close>), the reviewed TLS import of libcore (\<^verbatim>\<open>libcore_guest_link.py\<close>), and the
  imports and register snapshots of ART (\<^verbatim>\<open>art_guest_link.py\<close>).
\<close>

datatype (plugins only: code) link_msg =
    Icu_code_boundary
  | Missing_needed string
  | Unresolved_imports string "string list"
  | Tls_boundary_lost
  | JniConstants_visible string
  | Imports_differ "string list"
  | Art_code_boundary
  | Unreviewed_register "string option" string
  | Snapshot_coverage

section \<open>ICU\<close>

definition dirty :: "(string \<times> nat) list \<Rightarrow> bool" where
  "dirty counts \<longleftrightarrow> map_of counts ''instruction_count'' = Some 0 \<or> list_ex (\<lambda>(key, value). key \<noteq> ''instruction_count'' \<and> value \<noteq> 0) counts"

definition icu_check_code :: "string \<Rightarrow> (link_msg, (string \<times> nat) list) res" where
  "icu_check_code disassembly =
     (let counts = inventory disassembly in require (\<not> dirty counts) (ValueError Icu_code_boundary) (Inr counts))"

record link_image =
  li_needed :: "string list"
  li_exports :: "string list"
  li_imports :: "(string \<times> string) list"

type_synonym link_images = "(string \<times> link_image) list"

text \<open>The loop over \<^verbatim>\<open>pending\<close>: a library is visited once, its dependencies are queued.\<close>

function scope_loop :: "link_images \<Rightarrow> string list \<Rightarrow> string list \<Rightarrow> (link_msg, string list) res" where
  "scope_loop images [] scope = Inr scope"
| "scope_loop images (current # pending) scope =
     (if current \<in> set scope then scope_loop images pending scope
      else case map_of images current of
        None \<Rightarrow> Inl (ValueError (Missing_needed current))
      | Some img \<Rightarrow> scope_loop images (pending @ li_needed img) (scope @ [current]))"
  by pat_completeness auto

termination
proof (relation "measures [\<lambda>(images, pending, scope). card (set (dict_keys images) - set scope), \<lambda>(images, pending, scope). length pending]", goal_cases)
  case (3 images current pending scope img)
  then have "current \<in> set (dict_keys images)" by (metis fst_conv image_eqI list.set_map map_of_SomeD)
  then have "card (set (dict_keys images) - set (scope @ [current])) < card (set (dict_keys images) - set scope)"
    using 3(1) by (intro psubset_card_mono) auto
  then show ?case by simp
qed simp_all

declare scope_loop.simps [simp del]

definition provided :: "link_images \<Rightarrow> string list \<Rightarrow> string list" where
  "provided images scope = concat (map (\<lambda>item. case map_of images item of None \<Rightarrow> [] | Some i \<Rightarrow> li_exports i) scope)"

definition strong_missing :: "link_images \<Rightarrow> string list \<Rightarrow> link_image \<Rightarrow> string list" where
  "strong_missing images scope img = sort (map fst (filter (\<lambda>(symbol, kind). kind = ''U'' \<and> symbol \<notin> set (provided images scope)) (li_imports img)))"

definition dependency_scope ::
  "link_images \<Rightarrow> (string \<times> string list) list \<Rightarrow> string \<Rightarrow> (link_msg, (string \<times> string list) list) res"
where
  "dependency_scope images scopes name =
     bind_res (scope_loop images [name] []) (\<lambda>scope.
     bind_res (dict_get images name) (\<lambda>img.
     let missing = strong_missing images scope img in
     require (missing = []) (ValueError (Unresolved_imports name missing)) (Inr (dict_set scopes name scope))))"

definition check_dependencies :: "link_images \<Rightarrow> string list \<Rightarrow> (link_msg, (string \<times> string list) list) res" where
  "check_dependencies images checked = foldM (dependency_scope images) [] checked"

section \<open>libcore\<close>

definition TLS_IMPORT :: string where
  "TLS_IMPORT = ''artbox_bionic_get_tls''"

definition without_import :: "link_image \<Rightarrow> link_image" where
  "without_import img = img\<lparr>li_imports := filter (\<lambda>(k, _). k \<noteq> TLS_IMPORT) (li_imports img)\<rparr>"

definition libcore_check_dependencies :: "link_images \<Rightarrow> string list \<Rightarrow> (link_msg, (string \<times> string list) list) res" where
  "libcore_check_dependencies images checked =
     bind_res (if ''libopenjdkjvm.so'' \<in> set checked then
         bind_res (dict_get images ''libopenjdkjvm.so'') (\<lambda>img.
         require (map_of (li_imports img) TLS_IMPORT = Some ''U'') (ValueError Tls_boundary_lost)
           (Inr (dict_set images ''libopenjdkjvm.so'' (without_import img))))
       else Inr images) (\<lambda>reviewed.
     bind_res (check_dependencies reviewed checked) (\<lambda>scopes.
     bind_res (foldM (\<lambda>_ name. bind_res (dict_get images name) (\<lambda>img.
         require (\<not> list_ex (\<lambda>symbol. startswith symbol ''_ZN12JniConstants'') (li_exports img)) (ValueError (JniConstants_visible name)) (Inr ()))) ()
       (case map_of scopes ''libjavacore.so'' of None \<Rightarrow> [] | Some scope \<Rightarrow> scope)) (\<lambda>_.
     Inr scopes)))"

section \<open>ART\<close>

definition HOST_IMPORTS :: "string list" where
  "HOST_IMPORTS = [''artbox_bionic_get_tls'', ''artbox_vm_access'', ''artbox_vm_mmap_window'', ''artbox_vm_mprotect'', ''artbox_vm_munmap'',
     ''artbox_vm_page_size'', ''artbox_vm_reserve_window'', ''artbox_vm_reserved_bytes'']"

definition SNAPSHOTS :: "string list" where
  "SNAPSHOTS = [''_ZN3art18BacktraceCollector11CollectImplEPN11unwindstack8UnwinderE'',
     ''_ZN11unwindstack20AndroidLocalUnwinder14InternalUnwindENSt6__ndk18optionalIiEERNS_19AndroidUnwinderDataE'', ''unw_getcontext'']"

definition art_check_imports :: "(string \<times> string) list \<Rightarrow> string list \<Rightarrow> (link_msg, string list) res" where
  "art_check_imports imps dependency_exports =
     (let missing = sort (map fst (filter (\<lambda>(name, kind). kind = ''U'' \<and> name \<notin> set dependency_exports) imps)) in
      require (missing = sort HOST_IMPORTS) (ValueError (Imports_differ missing)) (Inr missing))"

text \<open>\<^verbatim>\<open>re.match\<close>: the preferred match at the start, with its groups.\<close>

definition match_at_start :: "regex \<Rightarrow> string \<Rightarrow> caps option" where
  "match_at_start r s = (case rmatch r (None, s) [] of [] \<Rightarrow> None | (_, cs) # _ \<Rightarrow> Some cs)"

definition hex_digits :: regex where
  "hex_digits = Plus (one_of ''0123456789abcdef'')"

definition label_pattern :: regex where
  "label_pattern = cats [Bol, spaces, hex_digits, lit '' <'', Grp 1 (Plus any_char), lit ''>:'', Eol]"

definition code_pattern :: regex where
  "code_pattern = cats [Bol, spaces, hex_digits, lit '':'', spaces1, Grp 1 (Plus any_char), Eol]"

definition x18_pattern :: regex where
  "x18_pattern = cats [Wb, one_of ''wx'', lit ''18'', Wb]"

definition snapshot_pattern :: regex where
  "snapshot_pattern = cats [lit ''stp'', spaces1, lit ''x18,'', spaces, lit ''x19,'', spaces, lit ''[x'', Alt (lit ''0'') (lit ''8''), lit '','',
     spaces, lit ''#0x90]'']"

definition strip_space :: "string \<Rightarrow> string" where
  "strip_space s = rev (dropWhile space_char (rev (dropWhile space_char s)))"

type_synonym art_reads = "string option \<times> (string \<times> string) list"

definition art_line :: "art_reads \<Rightarrow> string \<Rightarrow> (link_msg, art_reads) res" where
  "art_line st line =
     (case match_at_start label_pattern line of
        Some cs \<Rightarrow> Inr (Some (group cs 1), snd st)
      | None \<Rightarrow>
          (case match_at_start code_pattern line of
             None \<Rightarrow> Inr st
           | Some cs \<Rightarrow>
               if \<not> search x18_pattern (group cs 1) then Inr st
               else let txt' = strip_space (group cs 1) in
                 (case fst st of
                    Some current \<Rightarrow>
                      require (current \<in> set SNAPSHOTS \<and> fullmatch snapshot_pattern txt') (ValueError (Unreviewed_register (Some current) txt'))
                        (Inr (Some current, snd st @ [(current, txt')]))
                  | None \<Rightarrow> Inl (ValueError (Unreviewed_register None txt')))))"

record art_code =
  ac_inventory :: "(string \<times> nat) list"
  ac_reads :: "(string \<times> string) list"

definition art_check_code :: "string \<Rightarrow> (link_msg, art_code) res" where
  "art_check_code disassembly =
     (let counts = inventory disassembly in
      require (\<not> (map_of counts ''instruction_count'' = Some 0 \<or>
          list_ex (\<lambda>k. map_of counts k \<noteq> Some 0) [''svc'', ''tpidr_mentions'', ''unknown_instructions''])) (ValueError Art_code_boundary)
     (bind_res (foldM art_line (None, []) (splitlines disassembly)) (\<lambda>(_, reads).
      require (length reads = length SNAPSHOTS \<and> set (map fst reads) = set SNAPSHOTS) (ValueError Snapshot_coverage)
        (Inr \<lparr>ac_inventory = counts, ac_reads = reads\<rparr>))))"

section \<open>Scopes are closures\<close>

definition edges :: "link_images \<Rightarrow> (string \<times> string) set" where
  "edges images = {(a, b). \<exists>img. map_of images a = Some img \<and> b \<in> set (li_needed img)}"

lemma reach_needed:
  assumes "map_of images current = Some img" and "current \<in> A"
  shows "(edges images)\<^sup>* `` (A \<union> set (li_needed img)) = (edges images)\<^sup>* `` A"
proof -
  have "(current, b) \<in> edges images" if "b \<in> set (li_needed img)" for b using assms(1) that by (simp add: edges_def)
  then have "(edges images)\<^sup>* `` set (li_needed img) \<subseteq> (edges images)\<^sup>* `` A"
    using assms(2) by (blast intro: converse_rtrancl_into_rtrancl)
  then show ?thesis unfolding Image_Un by (rule Un_absorb2)
qed

lemma queue_sets:
  "set (scope @ [current]) \<union> set (pending @ deps) = (set scope \<union> set (current # pending)) \<union> set deps"
  by auto

lemma scope_loop_closure:
  assumes "scope_loop images pending scope = Inr r" and "\<And>a b. a \<in> set scope \<Longrightarrow> (a, b) \<in> edges images \<Longrightarrow> b \<in> set scope \<union> set pending"
    and "set scope \<subseteq> set (dict_keys images)" and "distinct scope"
  shows "set scope \<union> set pending \<subseteq> set r \<and> (\<forall>a b. a \<in> set r \<longrightarrow> (a, b) \<in> edges images \<longrightarrow> b \<in> set r) \<and>
    set r \<subseteq> set (dict_keys images) \<and> distinct r \<and> set r \<subseteq> (edges images)\<^sup>* `` (set scope \<union> set pending)"
  using assms
proof (induction images pending scope rule: scope_loop.induct)
  case (1 images scope)
  then show ?case by (auto simp: scope_loop.simps)
next
  case (2 images current pending scope)
  show ?case
  proof (cases "current \<in> set scope")
    case True
    have "scope_loop images pending scope = Inr r" using 2(3) True by (simp add: scope_loop.simps)
    moreover have "set scope \<union> set (current # pending) = set scope \<union> set pending" using True by auto
    ultimately show ?thesis using 2(1) [OF True] 2(4-6) by (metis (no_types, lifting))
  next
    case False
    then obtain img where i: "map_of images current = Some img"
      and r: "scope_loop images (pending @ li_needed img) (scope @ [current]) = Inr r"
      using 2(3) by (auto simp: scope_loop.simps split: option.splits)
    have e: "(current, b) \<in> edges images \<longleftrightarrow> b \<in> set (li_needed img)" for b using i by (simp add: edges_def)
    have k: "current \<in> set (dict_keys images)" using i by (metis fst_conv image_eqI list.set_map map_of_SomeD)
    have ih: "set (scope @ [current]) \<union> set (pending @ li_needed img) \<subseteq> set r \<and> (\<forall>a b. a \<in> set r \<longrightarrow> (a, b) \<in> edges images \<longrightarrow> b \<in> set r) \<and>
        set r \<subseteq> set (dict_keys images) \<and> distinct r \<and> set r \<subseteq> (edges images)\<^sup>* `` (set (scope @ [current]) \<union> set (pending @ li_needed img))"
      by (rule 2(2) [OF False i r]) (use 2(4-6) e k False in auto)
    have eq: "(edges images)\<^sup>* `` (set (scope @ [current]) \<union> set (pending @ li_needed img)) = (edges images)\<^sup>* `` (set scope \<union> set (current # pending))"
      unfolding queue_sets by (rule reach_needed [OF i]) simp
    show ?thesis using ih [unfolded eq] by auto
  qed
qed

lemma scope_loop_reachable:
  assumes "scope_loop images [name] [] = Inr scope"
  shows "set scope = (edges images)\<^sup>* `` {name} \<and> distinct scope \<and> set scope \<subseteq> set (dict_keys images)"
proof -
  have c: "name \<in> set scope" "\<And>a b. a \<in> set scope \<Longrightarrow> (a, b) \<in> edges images \<Longrightarrow> b \<in> set scope"
    "set scope \<subseteq> set (dict_keys images)" "distinct scope" "set scope \<subseteq> (edges images)\<^sup>* `` {name}"
    using scope_loop_closure [OF assms] by auto
  have "b \<in> set scope" if "(name, b) \<in> (edges images)\<^sup>*" for b
    using that by (induction rule: rtrancl_induct) (use c in auto)
  then show ?thesis using c by auto
qed

text \<open>The loop always returns; it raises exactly when a reachable library is absent.\<close>

lemma scope_loop_complete:
  assumes "(edges images)\<^sup>* `` (set scope \<union> set pending) \<subseteq> set (dict_keys images)"
  shows "\<exists>r. scope_loop images pending scope = Inr r"
  using assms
proof (induction images pending scope rule: scope_loop.induct)
  case (1 images scope)
  then show ?case by (simp add: scope_loop.simps)
next
  case (2 images current pending scope)
  show ?case
  proof (cases "current \<in> set scope")
    case True
    then have "set scope \<union> set (current # pending) = set scope \<union> set pending" by auto
    then show ?thesis using 2(1) [OF True] 2(3) True by (simp only: scope_loop.simps if_True)
  next
    case False
    have "current \<in> (edges images)\<^sup>* `` (set scope \<union> set (current # pending))" by (rule ImageI [OF rtrancl.rtrancl_refl]) simp
    then have "current \<in> set (dict_keys images)" by (rule subsetD [OF "2.prems"])
    then obtain img where i: "map_of images current = Some img" by (cases "map_of images current") (simp_all add: map_of_eq_None_iff)
    have "(edges images)\<^sup>* `` (set (scope @ [current]) \<union> set (pending @ li_needed img)) \<subseteq> set (dict_keys images)"
      using 2(3) unfolding queue_sets by (subst reach_needed [OF i]) simp_all
    then show ?thesis using 2(2) [OF False i] False i by (simp only: scope_loop.simps if_False option.case)
  qed
qed

text \<open>
  C28. The dependency walk always ends: it returns a scope if and only if every library
  reachable through \<^verbatim>\<open>DT_NEEDED\<close> entries is present, cycles
  included, and otherwise it raises for a missing one.
\<close>

theorem scope_loop_terminates:
  "(\<exists>scope. scope_loop images [name] [] = Inr scope) \<longleftrightarrow> (edges images)\<^sup>* `` {name} \<subseteq> set (dict_keys images)"
proof
  show "\<exists>scope. scope_loop images [name] [] = Inr scope" if "(edges images)\<^sup>* `` {name} \<subseteq> set (dict_keys images)"
    by (rule scope_loop_complete) (use that in simp)
qed (use scope_loop_reachable in blast)

lemma strong_missing_empty:
  "strong_missing images scope img = [] \<longleftrightarrow>
     (\<forall>(symbol, kind) \<in> set (li_imports img). kind = ''U'' \<longrightarrow> (\<exists>item \<in> set scope. \<exists>i. map_of images item = Some i \<and> symbol \<in> set (li_exports i)))"
proof -
  have p: "symbol \<in> set (provided images scope) \<longleftrightarrow> (\<exists>item \<in> set scope. \<exists>i. map_of images item = Some i \<and> symbol \<in> set (li_exports i))" for symbol
    unfolding provided_def by (induction scope) (auto split: option.splits)
  have "sort xs = [] \<longleftrightarrow> xs = []" for xs :: "string list" by (metis set_empty set_sort)
  then show ?thesis unfolding strong_missing_def p by (auto simp: filter_empty_conv)
qed

lemma dependency_scopes:
  assumes "foldM (dependency_scope images) acc checked = Inr scopes" and "name \<in> set checked \<union> dom (map_of acc)"
    and "\<And>n. n \<in> dom (map_of acc) \<Longrightarrow> \<exists>scope img. map_of acc n = Some scope \<and> scope_loop images [n] [] = Inr scope \<and>
      map_of images n = Some img \<and> strong_missing images scope img = []"
  shows "\<exists>scope img. map_of scopes name = Some scope \<and> scope_loop images [name] [] = Inr scope \<and>
      map_of images name = Some img \<and> strong_missing images scope img = []"
  using assms
proof (induction checked arbitrary: acc)
  case Nil
  then show ?case by simp
next
  case (Cons x checked)
  obtain acc' where a: "dependency_scope images acc x = Inr acc'" and f: "foldM (dependency_scope images) acc' checked = Inr scopes"
    using Cons.prems(1) by (auto simp: bind_res_Inr_iff)
  obtain scope img where s: "scope_loop images [x] [] = Inr scope" "map_of images x = Some img" "strong_missing images scope img = []"
    and r: "foldM (dependency_scope images) (dict_set acc x scope) checked = Inr scopes"
    using a f by (auto simp: dependency_scope_def Let_def res_simps)
  show ?case
  proof (rule Cons.IH [OF r])
    show "name \<in> set checked \<union> dom (map_of (dict_set acc x scope))" using Cons.prems(2) by auto
    show "\<exists>sc img. map_of (dict_set acc x scope) n = Some sc \<and> scope_loop images [n] [] = Inr sc \<and>
      map_of images n = Some img \<and> strong_missing images sc img = []" if "n \<in> dom (map_of (dict_set acc x scope))" for n
      using Cons.prems(3) [of n] s that by (cases "n = x") auto
  qed
qed

text \<open>
  C29. For every checked library the accepted scope lists each library reachable through
  \<^verbatim>\<open>DT_NEEDED\<close> exactly once, all of them are present, and every
  strong import of the checked library is exported by one of them.
\<close>

theorem check_dependencies_closed:
  assumes "check_dependencies images checked = Inr scopes" and "name \<in> set checked"
  shows "\<exists>scope img. map_of scopes name = Some scope \<and> distinct scope \<and> set scope = (edges images)\<^sup>* `` {name} \<and>
    set scope \<subseteq> set (dict_keys images) \<and> map_of images name = Some img \<and>
    (\<forall>(symbol, kind) \<in> set (li_imports img). kind = ''U'' \<longrightarrow>
       (\<exists>item i. (name, item) \<in> (edges images)\<^sup>* \<and> map_of images item = Some i \<and> symbol \<in> set (li_exports i)))"
proof -
  obtain scope img where s: "map_of scopes name = Some scope" "scope_loop images [name] [] = Inr scope" "map_of images name = Some img"
    "strong_missing images scope img = []"
    using dependency_scopes [OF assms(1) [unfolded check_dependencies_def], of name] assms(2) by auto
  then show ?thesis using scope_loop_reachable [OF s(2)] unfolding strong_missing_empty by (intro exI [of _ scope] exI [of _ img]) fastforce
qed

definition link_sample :: link_images where
  "link_sample =
    [(''a'', \<lparr>li_needed = [''b''], li_exports = [], li_imports = [(''f'', ''U''), (''g'', ''w'')]\<rparr>),
     (''b'', \<lparr>li_needed = [''a''], li_exports = [''f''], li_imports = []\<rparr>)]"

lemma link_sample_closed: "check_dependencies link_sample [''a''] = Inr [(''a'', [''a'', ''b''])]"
  by code_simp

theorem check_dependencies_closed_witness:
  "check_dependencies link_sample [''a''] = Inr [(''a'', [''a'', ''b''])] \<and> {''a'', ''b''} = (edges link_sample)\<^sup>* `` {''a''}"
  using check_dependencies_closed [OF link_sample_closed, of "''a''"] link_sample_closed by auto

end
