(* ===== verification/Py_Json.thy ===== *)
theory Py_Json
  imports Complex_Main Prelude
begin

text \<open>
  Values read by \<^verbatim>\<open>json.loads\<close> and the Python operations the acceptance checks apply to them:
  subscription, \<^verbatim>\<open>get\<close>, truth, equality (under which booleans and floats equal the integers of
  the same value), exact type tests and comparisons.  Numbers are finite.
\<close>

datatype json =
    JNull
  | JBool bool
  | JInt int
  | JFloat rat
  | JStr string
  | JList "json list"
  | JDict "(string \<times> json) list"

fun jnum :: "json \<Rightarrow> rat option" where
  "jnum (JBool b) = Some (if b then 1 else 0)"
| "jnum (JInt i) = Some (of_int i)"
| "jnum (JFloat r) = Some r"
| "jnum _ = None"

text \<open>\<^verbatim>\<open>==\<close>: dictionaries are compared by their keys, whatever their order.\<close>

fun py_eq :: "json \<Rightarrow> json \<Rightarrow> bool"
  and eq_list :: "json list \<Rightarrow> json list \<Rightarrow> bool"
  and eq_items :: "(string \<times> json) list \<Rightarrow> (string \<times> json) list \<Rightarrow> bool"
where
  "py_eq JNull w = (w = JNull)"
| "py_eq (JStr s) w = (w = JStr s)"
| "py_eq (JList xs) w = (case w of JList ys \<Rightarrow> eq_list xs ys | _ \<Rightarrow> False)"
| "py_eq (JDict d) w = (case w of JDict e \<Rightarrow> length d = length e \<and> eq_items d e | _ \<Rightarrow> False)"
| "py_eq (JBool b) w = (jnum w = Some (if b then 1 else 0))"
| "py_eq (JInt i) w = (jnum w = Some (of_int i))"
| "py_eq (JFloat r) w = (jnum w = Some r)"
| "eq_list [] ys = (ys = [])"
| "eq_list (x # xs) ys = (case ys of [] \<Rightarrow> False | y # zs \<Rightarrow> py_eq x y \<and> eq_list xs zs)"
| "eq_items [] e = True"
| "eq_items ((k, v) # d) e = ((case map_of e k of None \<Rightarrow> False | Some w \<Rightarrow> py_eq v w) \<and> eq_items d e)"

definition py_ne :: "json \<Rightarrow> json \<Rightarrow> bool" where
  "py_ne a b \<longleftrightarrow> \<not> py_eq a b"

fun truthy :: "json \<Rightarrow> bool" where
  "truthy JNull = False"
| "truthy (JBool b) = b"
| "truthy (JInt i) = (i \<noteq> 0)"
| "truthy (JFloat r) = (r \<noteq> 0)"
| "truthy (JStr s) = (s \<noteq> [])"
| "truthy (JList xs) = (xs \<noteq> [])"
| "truthy (JDict d) = (d \<noteq> [])"

text \<open>\<^verbatim>\<open>type(v) is int\<close> and \<^verbatim>\<open>type(v) is type(w)\<close>.\<close>

definition is_int :: "json \<Rightarrow> bool" where
  "is_int v = (case v of JInt _ \<Rightarrow> True | _ \<Rightarrow> False)"

fun same_type :: "json \<Rightarrow> json \<Rightarrow> bool" where
  "same_type JNull JNull = True"
| "same_type (JBool _) (JBool _) = True"
| "same_type (JInt _) (JInt _) = True"
| "same_type (JFloat _) (JFloat _) = True"
| "same_type (JStr _) (JStr _) = True"
| "same_type (JList _) (JList _) = True"
| "same_type (JDict _) (JDict _) = True"
| "same_type _ _ = False"

text \<open>\<^verbatim>\<open>v[key]\<close>, \<^verbatim>\<open>v.get(key)\<close> and the comparisons.\<close>

definition jget :: "json \<Rightarrow> string \<Rightarrow> ('m, json) res" where
  "jget v k = (case v of JDict d \<Rightarrow> dict_get d k | _ \<Rightarrow> Inl TypeError)"

definition jget_or :: "json \<Rightarrow> string \<Rightarrow> ('m, json) res" where
  "jget_or v k = (case v of JDict d \<Rightarrow> Inr (case map_of d k of None \<Rightarrow> JNull | Some w \<Rightarrow> w) | _ \<Rightarrow> Inl AttributeError)"

definition jitems :: "json \<Rightarrow> ('m, (string \<times> json) list) res" where
  "jitems v = (case v of JDict d \<Rightarrow> Inr d | _ \<Rightarrow> Inl AttributeError)"

definition num_of :: "json \<Rightarrow> ('m, rat) res" where
  "num_of v = of_option TypeError (jnum v)"

definition jle :: "json \<Rightarrow> json \<Rightarrow> ('m, bool) res" where
  "jle a b = bind_res (num_of a) (\<lambda>x. bind_res (num_of b) (\<lambda>y. Inr (x \<le> y)))"

definition jlt :: "json \<Rightarrow> json \<Rightarrow> ('m, bool) res" where
  "jlt a b = bind_res (num_of a) (\<lambda>x. bind_res (num_of b) (\<lambda>y. Inr (x < y)))"

text \<open>The elements \<^verbatim>\<open>set(v)\<close> collects.\<close>

definition hashable :: "json \<Rightarrow> bool" where
  "hashable v = (case v of JList _ \<Rightarrow> False | JDict _ \<Rightarrow> False | _ \<Rightarrow> True)"

definition jset :: "json \<Rightarrow> ('m, json list) res" where
  "jset v =
     (case v of
        JDict d \<Rightarrow> Inr (map JStr (dict_keys d))
      | JList xs \<Rightarrow> require (list_all hashable xs) TypeError (Inr xs)
      | JStr s \<Rightarrow> Inr (map (\<lambda>c. JStr [c]) s)
      | _ \<Rightarrow> Inl TypeError)"

definition set_eq :: "json list \<Rightarrow> json list \<Rightarrow> bool" where
  "set_eq xs ys \<longleftrightarrow> list_all (\<lambda>x. list_ex (py_eq x) ys) xs \<and> list_all (\<lambda>y. list_ex (py_eq y) xs) ys"

definition strs :: "string list \<Rightarrow> json list" where
  "strs xs = map JStr xs"

section \<open>Conditions that may raise\<close>

definition and_m :: "('m, bool) res \<Rightarrow> ('m, bool) res \<Rightarrow> ('m, bool) res" where
  "and_m a b = bind_res a (\<lambda>x. if x then b else Inr False)"

definition or_m :: "('m, bool) res \<Rightarrow> ('m, bool) res \<Rightarrow> ('m, bool) res" where
  "or_m a b = bind_res a (\<lambda>x. if x then Inr True else b)"

definition not_m :: "('m, bool) res \<Rightarrow> ('m, bool) res" where
  "not_m a = bind_res a (\<lambda>x. Inr (\<not> x))"

fun all_m :: "('a \<Rightarrow> ('m, bool) res) \<Rightarrow> 'a list \<Rightarrow> ('m, bool) res" where
  "all_m f [] = Inr True"
| "all_m f (x # xs) = and_m (f x) (all_m f xs)"

definition any_m :: "('a \<Rightarrow> ('m, bool) res) \<Rightarrow> 'a list \<Rightarrow> ('m, bool) res" where
  "any_m f xs = not_m (all_m (\<lambda>x. not_m (f x)) xs)"

definition ensure :: "('m, bool) res \<Rightarrow> 'm exc \<Rightarrow> ('m, 'a) res \<Rightarrow> ('m, 'a) res" where
  "ensure c e k = bind_res c (\<lambda>b. require b e k)"

text \<open>The fields the checks test: an exact value of an exact type, a value, the constant \<^verbatim>\<open>True\<close>, a positive integer.\<close>

definition field_exact :: "json \<Rightarrow> string \<times> json \<Rightarrow> ('m, bool) res" where
  "field_exact v kw = bind_res (jget v (fst kw)) (\<lambda>w. Inr (same_type w (snd kw) \<and> py_eq w (snd kw)))"

definition field_eq :: "json \<Rightarrow> string \<Rightarrow> json \<Rightarrow> ('m, bool) res" where
  "field_eq v k w = bind_res (jget v k) (\<lambda>x. Inr (py_eq x w))"

definition field_is :: "json \<Rightarrow> string \<Rightarrow> json \<Rightarrow> ('m, bool) res" where
  "field_is v k w = bind_res (jget v k) (\<lambda>x. Inr (x = w))"

definition field_int :: "json \<Rightarrow> string \<Rightarrow> ('m, bool) res" where
  "field_int v k = bind_res (jget v k) (\<lambda>x. Inr (is_int x))"

definition field_positive :: "json \<Rightarrow> string \<Rightarrow> ('m, bool) res" where
  "field_positive v k = bind_res (jget v k) (\<lambda>x. Inr (case x of JInt i \<Rightarrow> 0 < i | _ \<Rightarrow> False))"

lemma and_m_True [res_simps]: "and_m a b = Inr True \<longleftrightarrow> a = Inr True \<and> b = Inr True"
  by (auto simp: and_m_def bind_res_Inr_iff split: if_splits)

lemma not_m_Inr [res_simps]: "not_m a = Inr x \<longleftrightarrow> a = Inr (\<not> x)"
  by (auto simp: not_m_def bind_res_Inr_iff)

lemma or_m_False [res_simps]: "or_m a b = Inr False \<longleftrightarrow> a = Inr False \<and> b = Inr False"
  by (auto simp: or_m_def bind_res_Inr_iff split: if_splits)

lemma all_m_True [res_simps]: "all_m f xs = Inr True \<longleftrightarrow> (\<forall>x \<in> set xs. f x = Inr True)"
  by (induction xs) (auto simp: and_m_True)

lemma any_m_False [res_simps]: "any_m f xs = Inr False \<longleftrightarrow> (\<forall>x \<in> set xs. f x = Inr False)"
  by (auto simp: any_m_def not_m_Inr all_m_True)

lemma ensure_Inr [res_simps]: "ensure c e k = Inr y \<longleftrightarrow> c = Inr True \<and> k = Inr y"
  by (auto simp: ensure_def bind_res_Inr_iff require_Inr_iff)

lemma same_type_int: "same_type v (JInt i) \<and> py_eq v (JInt i) \<longleftrightarrow> v = JInt i"
  by (cases v) auto

lemma same_type_bool: "same_type v (JBool b) \<and> py_eq v (JBool b) \<longleftrightarrow> v = JBool b"
  by (cases v) (auto split: if_splits)

definition scalar :: "json \<Rightarrow> bool" where
  "scalar v = (case v of JInt _ \<Rightarrow> True | JBool _ \<Rightarrow> True | _ \<Rightarrow> False)"

lemma field_exact_True:
  "scalar w \<Longrightarrow> (field_exact v (k, w) :: ('m, bool) res) = Inr True \<longleftrightarrow> (jget v k :: ('m, json) res) = Inr w"
  by (cases w) (auto simp: scalar_def field_exact_def bind_res_Inr_iff same_type_int same_type_bool)

lemma jget_Inr: "jget v k = Inr w \<longleftrightarrow> (\<exists>d. v = JDict d \<and> map_of d k = Some w)"
  by (auto simp: jget_def dict_get_Inr_iff split: json.splits)

end
