(* ===== verification/Acceptance.thy ===== *)
theory Acceptance
  imports Py_Json
begin

text \<open>
  The acceptance decisions of the build: the fixed M2 denominator (\<^verbatim>\<open>m2_acceptance.py\<close>), the shared
  Looper and kernel-configuration contracts (\<^verbatim>\<open>looper_guest.py\<close>, \<^verbatim>\<open>kernel_config_guest.py\<close>) and the
  reports that allow service and ART images to be staged (\<^verbatim>\<open>service_bundle.py\<close>, \<^verbatim>\<open>art_bundle.py\<close>).
\<close>

datatype (plugins only: code) acc_msg =
    Denominator_changed
  | Unknown_control
  | Looper_differs string
  | Incomplete_ownership
  | Missing_observation string
  | Parser_differs
  | Identical_caller_required
  | Clean_inputs_required
  | All_roles_required
  | Process_failed string
  | Acceptance_incomplete string
  | Measurements_missing string
  | Incomplete_report
  | Observations_required
  | Control_failed
  | Lifecycle_incomplete
  | Measured_execution_required
  | Bounded_reservations_required
  | Collection_failed
  | Thread_state_failed
  | Worker_stack_failed

text \<open>\<^verbatim>\<open>except (KeyError, TypeError)\<close>.\<close>

definition catch_lookup :: "'m \<Rightarrow> ('m, 'a) res \<Rightarrow> ('m, 'a) res" where
  "catch_lookup msg r = (case r of Inl KeyError \<Rightarrow> Inl (RuntimeError msg) | Inl TypeError \<Rightarrow> Inl (RuntimeError msg) | _ \<Rightarrow> r)"

lemma catch_lookup_Inr [res_simps]: "catch_lookup msg r = Inr x \<longleftrightarrow> r = Inr x"
  by (auto simp: catch_lookup_def split: sum.splits exc.splits)

section \<open>The M2 denominator\<close>

definition NUMBERED :: "(string \<times> string) list" where
  "NUMBERED =
    [(''allocator_devices'', ''cases''), (''futex'', ''futex_cases''), (''regular_files'', ''file_cases''),
     (''file_mappings'', ''mapping_cases''), (''anonymous_memory'', ''vm_cases''),
     (''pthread_timeouts'', ''timeout_cases''), (''proc_commandline'', ''proc_cases'')]"

definition WORKLOADS :: "(string \<times> (string \<times> int) list) list" where
  "WORKLOADS =
    [(''pthread_workload'', [(''pthread_result'', 0), (''threads_reaped'', 6)]),
     (''elf_tls'', [(''tls_result'', 0), (''tls_modules'', 2), (''tls_threads'', 7)]),
     (''symbol_versions'', [(''version_result'', 46)]),
     (''startup_constructors'', [(''constructors'', 5), (''linked_images'', 4), (''absent_netd'', 1)])]"

record entry =
  en_id :: string
  en_count :: json
  en_mandatory :: json

record contract =
  co_version :: json
  co_entries :: "entry list"
  co_total :: json
  co_minimum :: rat

definition entry_well_typed :: "entry \<Rightarrow> bool" where
  "entry_well_typed e \<longleftrightarrow> (case en_count e of JInt n \<Rightarrow> 1 \<le> n | _ \<Rightarrow> False) \<and> (case en_mandatory e of JBool _ \<Rightarrow> True | _ \<Rightarrow> False)"

definition entry_count :: "entry \<Rightarrow> int" where
  "entry_count e = (case en_count e of JInt n \<Rightarrow> n | _ \<Rightarrow> 0)"

text \<open>
  The fields of \<^verbatim>\<open>acceptance.json\<close> are read into a record; \<^verbatim>\<open>canon_sha\<close> stands for the SHA-256 of its
  canonical JSON.
\<close>

definition manifest :: "(contract \<Rightarrow> string) \<Rightarrow> contract \<Rightarrow> (acc_msg, contract \<times> string) res" where
  "manifest canon_sha c =
     (let ids = map en_id (co_entries c) in
      require (\<not> (py_ne (co_version c) (JInt 1) \<or> set ids \<noteq> set (dict_keys NUMBERED) \<union> set (dict_keys WORKLOADS) \<or>
          length ids \<noteq> length NUMBERED + length WORKLOADS \<or> \<not> list_all entry_well_typed (co_entries c) \<or>
          py_ne (JInt (sum_list (map entry_count (co_entries c)))) (co_total c) \<or> py_ne (co_total c) (JInt 328)))
        (ValueError Denominator_changed) (Inr (c, canon_sha c)))"

record group_score =
  gs_entry :: entry
  gs_passed :: int
  gs_failed :: int
  gs_unexecuted :: int

definition expected_of :: "entry \<Rightarrow> ('m, (string \<times> int) list) res" where
  "expected_of e =
     (case map_of NUMBERED (en_id e) of
        Some key \<Rightarrow> Inr [(key, entry_count e)]
      | None \<Rightarrow> dict_get WORKLOADS (en_id e))"

definition score_group :: "(string \<times> json) list \<Rightarrow> entry \<Rightarrow> ('m, group_score) res" where
  "score_group observed e =
     bind_res (expected_of e) (\<lambda>expected.
     let count = entry_count e;
         missing = list_ex (\<lambda>(k, _). map_of observed k = None) expected;
         passed = (\<not> missing \<and> list_all (\<lambda>(k, v). map_of observed k = Some (JInt v)) expected) in
     Inr \<lparr>gs_entry = e, gs_passed = (if passed then count else 0),
          gs_failed = (if \<not> passed \<and> \<not> missing then count else 0), gs_unexecuted = (if missing then count else 0)\<rparr>)"

record score =
  sc_manifest_sha256 :: string
  sc_total :: json
  sc_passed :: int
  sc_failed :: int
  sc_unexecuted :: int
  sc_percent :: rat
  sc_success :: bool
  sc_groups :: "group_score list"

definition evaluate :: "(contract \<Rightarrow> string) \<Rightarrow> contract \<Rightarrow> (string \<times> json) list \<Rightarrow> (acc_msg, score) res" where
  "evaluate canon_sha c observed =
     bind_res (manifest canon_sha c) (\<lambda>(_, sha).
     bind_res (mapM (score_group observed) (co_entries c)) (\<lambda>groups.
     let passed = sum_list (map gs_passed groups); percentage = of_int (100 * passed) / 328 in
     Inr \<lparr>sc_manifest_sha256 = sha, sc_total = co_total c, sc_passed = passed, sc_failed = sum_list (map gs_failed groups),
          sc_unexecuted = sum_list (map gs_unexecuted groups), sc_percent = percentage,
          sc_success = (percentage \<ge> co_minimum c \<and>
            list_all (\<lambda>g. en_mandatory (gs_entry g) = JBool True \<longrightarrow> gs_passed g = entry_count (gs_entry g)) groups),
          sc_groups = groups\<rparr>))"

section \<open>Shared guest contracts\<close>

definition ints :: "(string \<times> int) list \<Rightarrow> json" where
  "ints d = JDict (map (\<lambda>(k, v). (k, JInt v)) d)"

definition LOOPER_EXPECTED :: "(string \<times> json) list" where
  "LOOPER_EXPECTED =
    [(''normal'', ints [(''status'', 0), (''cases'', 43), (''failure'', 0), (''wake_threads'', 1), (''message_calls'', 3),
        (''fd_callbacks'', 1), (''timer_callbacks'', 1)]),
     (''retain-callback'', ints [(''status'', -205), (''cases'', 17), (''failure'', 205), (''wake_threads'', 1),
        (''message_calls'', 0), (''fd_callbacks'', 1), (''timer_callbacks'', 0)]),
     (''omit-wake'', ints [(''status'', -109), (''cases'', 10), (''failure'', 109), (''wake_threads'', 0),
        (''message_calls'', 0), (''fd_callbacks'', 0), (''timer_callbacks'', 0)])]"

definition guest_exact :: "int \<Rightarrow> (string \<times> json) list" where
  "guest_exact reaped =
    [(''tls_modules'', JInt 1), (''linked_images'', JInt 5), (''registered_vms'', JInt 0),
     (''heap_binding_verified'', JBool True), (''sigchain_cases'', JInt 22), (''sigchain_mutation'', JInt (-1005)),
     (''runtime_started'', JBool False), (''dex_executed'', JBool False), (''threads_reaped'', JInt reaped), (''cleanup'', JBool True)]"

text \<open>\<^verbatim>\<open>type(result.get(k)) is not type(v) or result.get(k) != v\<close>.\<close>

definition get_differs :: "json \<Rightarrow> string \<times> json \<Rightarrow> ('m, bool) res" where
  "get_differs result kv = bind_res (jget_or result (fst kv)) (\<lambda>w. Inr (\<not> same_type w (snd kv) \<or> py_ne w (snd kv)))"

definition not_positive :: "json \<Rightarrow> string \<Rightarrow> ('m, bool) res" where
  "not_positive result key = bind_res (jget_or result key) (\<lambda>w. Inr (case w of JInt i \<Rightarrow> i \<le> 0 | _ \<Rightarrow> True))"

definition all_ints :: "json \<Rightarrow> ('m, bool) res" where
  "all_ints v = bind_res (jitems v) (\<lambda>d. Inr (list_all (\<lambda>(_, w). is_int w) d))"

definition check_observations :: "json \<Rightarrow> string list \<Rightarrow> (acc_msg, unit) res" where
  "check_observations result keys =
     foldM (\<lambda>_ key. ensure (not_m (not_positive result key)) (ValueError (Missing_observation key)) (Inr ())) () keys"

definition looper_verify :: "string \<Rightarrow> json \<Rightarrow> json \<Rightarrow> (acc_msg, json) res" where
  "looper_verify name exit_code result =
     bind_res (of_option (ValueError Unknown_control) (map_of LOOPER_EXPECTED name)) (\<lambda>expected.
     bind_res (jget_or result ''looper'') (\<lambda>observed.
     ensure (and_m (Inr (py_eq exit_code (JInt (if name = ''normal'' then 0 else 1)) \<and> py_eq observed expected)) (all_ints observed))
       (ValueError (Looper_differs name))
    (ensure (not_m (any_m (get_differs result) (guest_exact 1))) (ValueError Incomplete_ownership)
    (bind_res (check_observations result [''constructors'', ''looper_check_ns'', ''load_relocate_ns'', ''bootstrap_ns'']) (\<lambda>_. Inr result)))))"

definition PARSER_EXPECTED :: json where
  "PARSER_EXPECTED = ints [(''cases'', 89), (''comments_control'', -104), (''relaxed_control'', -105)]"

definition verify_contract :: "json \<Rightarrow> json \<Rightarrow> (acc_msg, unit) res" where
  "verify_contract exit_code result =
     ensure (and_m (Inr (is_int exit_code \<and> py_eq exit_code (JInt 0) \<and> py_eq result PARSER_EXPECTED)) (all_ints result))
       (ValueError Parser_differs) (Inr ())"

definition verify_guest :: "json \<Rightarrow> json \<Rightarrow> (acc_msg, unit) res" where
  "verify_guest exit_code result =
     bind_res (jget_or result ''kernel_config'') (\<lambda>observed.
     bind_res (verify_contract exit_code observed) (\<lambda>_.
     ensure (not_m (any_m (get_differs result) (guest_exact 0))) (ValueError Incomplete_ownership)
    (check_observations result [''constructors'', ''kernel_config_check_ns'', ''load_relocate_ns'', ''bootstrap_ns''])))"

definition get_matches :: "json \<Rightarrow> string \<Rightarrow> json \<Rightarrow> string \<Rightarrow> ('m, bool) res" where
  "get_matches reference k build l = bind_res (jget_or reference k) (\<lambda>v. bind_res (jget build l) (\<lambda>w. Inr (py_eq v w)))"

definition verify_reference :: "json \<Rightarrow> json \<Rightarrow> json \<Rightarrow> (acc_msg, unit) res" where
  "verify_reference reference build build_sha256 =
     ensure (and_m (bind_res (jget_or reference ''native_linux_execution_verified'') (\<lambda>v. Inr (v = JBool True)))
            (and_m (get_matches reference ''project_commit'' build ''project_commit'')
            (and_m (bind_res (jget_or reference ''build_result_sha256'') (\<lambda>v. Inr (py_eq v build_sha256)))
            (all_m (\<lambda>k. get_matches reference k build k) [''objects'', ''reference_sha256'', ''source_bundle_sha256'']))))
       (ValueError Identical_caller_required)
    (bind_res (jget_or reference ''exit'') (\<lambda>code.
     bind_res (jget_or reference ''native'') (\<lambda>native. verify_contract code native)))"

section \<open>Service roles\<close>

definition SERVICE_CASES :: "(string \<times> int) list" where
  "SERVICE_CASES = [(''access'', 20), (''wrong-uid'', -109), (''wrong-pid'', -107), (''roles'', 0)]"

definition service_exact :: "string \<Rightarrow> int \<Rightarrow> (string \<times> json) list" where
  "service_exact label access =
     (let roles = (label = ''roles'') in
      [(''access_cases'', JInt access), (''policy_cases'', JInt 5), (''provider'', JInt (if roles then 32 else 0)),
       (''client'', JInt (if roles then 32 else 0)), (''roles'', JInt (if roles then 3 else 1)),
       (''independent_images'', JInt (if roles then 18 else 6)), (''manager_retained'', JBool roles),
       (''finite_roles_cleaned'', JBool True), (''passed'', JBool True)])"

definition service_case :: "json \<Rightarrow> string \<times> int \<Rightarrow> (acc_msg, unit) res" where
  "service_case report x =
     (case x of (label, access) \<Rightarrow>
      bind_res (jget report ''executions'') (\<lambda>executions.
      bind_res (jget executions label) (\<lambda>execution.
      ensure (and_m (bind_res (jget_or execution ''timeout'') (\<lambda>t. Inr (\<not> truthy t)))
             (and_m (field_int execution ''exit'') (field_eq execution ''exit'' (JInt 0)))) (RuntimeError (Process_failed label))
     (bind_res (jget execution ''native'') (\<lambda>native.
      ensure (all_m (field_exact native) (service_exact label access)) (RuntimeError (Acceptance_incomplete label))
     (ensure (all_m (field_positive native) [''elapsed_ns'', ''peak_rss_bytes'']) (RuntimeError (Measurements_missing label)) (Inr ())))))))"

definition service_validate :: "json \<Rightarrow> (acc_msg, unit) res" where
  "service_validate report =
     catch_lookup Incomplete_report
      (ensure (and_m (field_is report ''guest_execution_verified'' (JBool True)) (field_is report ''working_tree_dirty'' (JBool False)))
         (RuntimeError Clean_inputs_required)
      (bind_res (jget report ''executions'') (\<lambda>executions.
       bind_res (jset executions) (\<lambda>keys.
       require (set_eq keys (strs (dict_keys SERVICE_CASES))) (RuntimeError All_roles_required)
      (foldM (\<lambda>_. service_case report) () SERVICE_CASES)))))"

section \<open>ART runtime\<close>

definition art_validate :: "json \<Rightarrow> (acc_msg, unit) res" where
  "art_validate report =
     catch_lookup Incomplete_report
      (ensure (all_m (\<lambda>k. bind_res (jget_or report k) (\<lambda>v. Inr (v = JBool True)))
           [''passed'', ''runtime_invocation_attempted'', ''runtime_started'', ''dex_executed'', ''lifecycle_verified'',
            ''console_verified'', ''console_drop_detected'', ''missing_hello_detected'']) (RuntimeError Observations_required)
      (ensure (and_m (bind_res (jget_or report ''timeout'') (\<lambda>t. Inr (\<not> truthy t))) (and_m (field_eq report ''exit'' (JInt 0))
          (and_m (field_eq report ''missing_hello_exit'' (JInt 1)) (field_eq report ''console_drop_exit'' (JInt 3)))))
         (RuntimeError Control_failed)
      (bind_res (jget report ''native'') (\<lambda>native.
       bind_res (jget report ''managed_checks'') (\<lambda>managed.
       bind_res (jget report ''vm_worker'') (\<lambda>worker.
       ensure (and_m (field_eq native ''linked_images'' (JInt 15))
          (and_m (bind_res (jget native ''constructors'') (\<lambda>v. jle (JInt 35) v))
          (and_m (bind_res (jget native ''tls_modules'') (\<lambda>v. jle (JInt 1) v))
          (and_m (field_eq native ''registered_vms'' (JInt 0))
          (all_m (\<lambda>k. field_is native k (JBool True)) [''cleanup'', ''heap_binding_verified'', ''runtime_started'', ''dex_executed''])))))
         (RuntimeError Lifecycle_incomplete)
      (ensure (all_m (field_positive native) [''startup_ns'', ''managed_bytes'', ''process_peak_rss_bytes'', ''threads_reaped''])
         (RuntimeError Measured_execution_required)
      (ensure (and_m (field_int native ''reserved_bytes'')
          (and_m (field_eq native ''vm_budget_bytes'' (JInt (1536 * 2 ^ 20)))
          (and_m (bind_res (jget native ''reserved_bytes'') (\<lambda>r. and_m (jlt (JInt 0) r)
              (bind_res (jget native ''vm_budget_bytes'') (\<lambda>b. jle r b))))
          (and_m (bind_res (jget native ''bootstrap_window_bytes'') (\<lambda>w. Inr (list_ex (\<lambda>n. py_eq w (JInt n)) [16384, 65536, 262144])))
          (field_eq native ''managed_window_bytes'' (JInt (512 * 2 ^ 20)))))))
         (RuntimeError Bounded_reservations_required)
      (ensure (and_m (field_eq managed ''heap_checksum'' (JInt 6496))
          (and_m (field_eq managed ''exceptions'' (JInt 3))
          (and_m (field_eq managed ''attachments'' (JInt 4))
          (and_m (field_int managed ''gc_before'')
          (and_m (field_int managed ''gc_after'')
          (bind_res (jget managed ''gc_before'') (\<lambda>a. and_m (jle (JInt 0) a) (bind_res (jget managed ''gc_after'') (\<lambda>b. jlt a b)))))))))
         (RuntimeError Collection_failed)
      (ensure (field_eq report ''thread_state_checks'' (JDict [(''threads'', JInt 3), (''attach_cycles'', JInt 4),
          (''tls_isolated'', JBool True), (''main_tls_restored'', JBool True)])) (RuntimeError Thread_state_failed)
      (ensure (and_m (field_is worker ''primordial'' (JBool False))
          (and_m (field_is worker ''current_in_stack'' (JBool True))
          (and_m (field_eq worker ''requested_stack_bytes'' (JInt (4 * 1024 * 1024)))
          (and_m (field_int worker ''reported_stack_bytes'')
          (and_m (field_int worker ''guard_bytes'')
          (bind_res (jget worker ''guard_bytes'') (\<lambda>g. and_m (jle (JInt 0) g)
             (bind_res (jget worker ''reported_stack_bytes'') (\<lambda>s. jlt g s)))))))))
         (RuntimeError Worker_stack_failed) (Inr ()))))))))))))"

section \<open>What acceptance means\<close>

lemma score_group_partition:
  assumes "score_group observed e = (Inr g :: ('m, group_score) res)"
  shows "gs_entry g = e \<and> gs_passed g + gs_failed g + gs_unexecuted g = entry_count e"
  using assms by (auto simp: score_group_def Let_def bind_res_Inr_iff)

lemma score_group_passed:
  assumes "score_group observed e = (Inr g :: ('m, group_score) res)" and "gs_passed g = entry_count e" and "entry_count e \<noteq> 0"
  shows "\<exists>expected. (expected_of e :: ('m, (string \<times> int) list) res) = Inr expected \<and> (\<forall>(k, v) \<in> set expected. map_of observed k = Some (JInt v))"
  using assms by (auto simp: score_group_def Let_def bind_res_Inr_iff list_all_iff split: if_splits)

lemma well_typed_count: "entry_well_typed e \<Longrightarrow> 1 \<le> entry_count e"
  by (cases "en_count e") (simp_all add: entry_well_typed_def entry_count_def)

lemma manifest_Inr:
  assumes "manifest canon_sha c = Inr c'"
  shows "sum_list (map entry_count (co_entries c)) = 328 \<and> length (co_entries c) = 11 \<and> (\<forall>e \<in> set (co_entries c). 1 \<le> entry_count e)"
proof -
  note m = assms [unfolded manifest_def Let_def require_Inr_iff py_ne_def de_Morgan_disj not_not]
  have g: "list_all entry_well_typed (co_entries c)" "length (map en_id (co_entries c)) = length NUMBERED + length WORKLOADS"
    "py_eq (JInt (sum_list (map entry_count (co_entries c)))) (co_total c)" "py_eq (co_total c) (JInt 328)"
    using m by blast+
  have "(of_int (sum_list (map entry_count (co_entries c))) :: rat) = of_int 328"
    using g(3,4) by (cases "co_total c") auto
  then have "sum_list (map entry_count (co_entries c)) = 328" by (simp only: of_int_eq_iff)
  moreover have "1 \<le> entry_count e" if "e \<in> set (co_entries c)" for e
    using g(1) that well_typed_count by (simp add: list_all_iff)
  ultimately show ?thesis using g(2) by (simp add: NUMBERED_def WORKLOADS_def)
qed


lemma service_exact_scalar: "(k, w) \<in> set (service_exact label access) \<Longrightarrow> scalar w"
  by (auto simp: service_exact_def Let_def scalar_def)

lemma positive_case: "(case x of JInt i \<Rightarrow> 0 < i | _ \<Rightarrow> False) \<longleftrightarrow> (\<exists>i > 0. x = JInt i)"
  by (cases x) auto

lemma not_positive_case: "(case x of JInt i \<Rightarrow> i \<le> 0 | _ \<Rightarrow> True) \<longleftrightarrow> \<not> (\<exists>i > 0. x = JInt i)"
  by (cases x) auto

lemma field_positive_True: "(field_positive v k :: ('m, bool) res) = Inr True \<longleftrightarrow> (\<exists>i > 0. (jget v k :: ('m, json) res) = Inr (JInt i))"
  unfolding field_positive_def positive_case bind_res_Inr_iff by auto

lemma not_positive_False: "(not_positive v k :: ('m, bool) res) = Inr False \<longleftrightarrow> (\<exists>i > 0. (jget_or v k :: ('m, json) res) = Inr (JInt i))"
  unfolding not_positive_def not_positive_case bind_res_Inr_iff by auto

text \<open>
  C24. An accepted service report records a verified guest execution from a clean tree and,
  for each of the four roles, an exit status that is the integer 0, every expected field
  with its exact type and value, and positive time and memory measurements.
\<close>

theorem service_validate_sound:
  assumes "service_validate report = Inr ()"
  shows "(jget report ''guest_execution_verified'' :: (acc_msg, json) res) = Inr (JBool True) \<and>
    (jget report ''working_tree_dirty'' :: (acc_msg, json) res) = Inr (JBool False) \<and>
    (\<forall>(label, access) \<in> set SERVICE_CASES. \<exists>executions execution native.
      (jget report ''executions'' :: (acc_msg, json) res) = Inr executions \<and> (jget executions label :: (acc_msg, json) res) = Inr execution \<and>
      (jget execution ''exit'' :: (acc_msg, json) res) = Inr (JInt 0) \<and> (jget execution ''native'' :: (acc_msg, json) res) = Inr native \<and>
      (\<forall>(k, v) \<in> set (service_exact label access). (jget native k :: (acc_msg, json) res) = Inr v) \<and>
      (\<forall>k \<in> {''elapsed_ns'', ''peak_rss_bytes''}. \<exists>i > 0. (jget native k :: (acc_msg, json) res) = Inr (JInt i)))"
proof -
  have fl: "foldM (\<lambda>_. service_case report) () SERVICE_CASES = Inr ()"
    and top: "(jget report ''guest_execution_verified'' :: (acc_msg, json) res) = Inr (JBool True)"
      "(jget report ''working_tree_dirty'' :: (acc_msg, json) res) = Inr (JBool False)"
    using assms by (auto simp: service_validate_def field_is_def res_simps)
  have "\<exists>executions execution native.
      (jget report ''executions'' :: (acc_msg, json) res) = Inr executions \<and> (jget executions label :: (acc_msg, json) res) = Inr execution \<and>
      (jget execution ''exit'' :: (acc_msg, json) res) = Inr (JInt 0) \<and> (jget execution ''native'' :: (acc_msg, json) res) = Inr native \<and>
      (\<forall>(k, v) \<in> set (service_exact label access). (jget native k :: (acc_msg, json) res) = Inr v) \<and>
      (\<forall>k \<in> {''elapsed_ns'', ''peak_rss_bytes''}. \<exists>i > 0. (jget native k :: (acc_msg, json) res) = Inr (JInt i))"
    if "(label, access) \<in> set SERVICE_CASES" for label access
  proof -
    have "service_case report (label, access) = Inr ()" using fl that unfolding foldM_unit_iff by blast
    then obtain executions execution native where x: "(jget report ''executions'' :: (acc_msg, json) res) = Inr executions"
      "(jget executions label :: (acc_msg, json) res) = Inr execution" "(jget execution ''native'' :: (acc_msg, json) res) = Inr native"
      and ex: "(field_int execution ''exit'' :: (acc_msg, bool) res) = Inr True" "(field_eq execution ''exit'' (JInt 0) :: (acc_msg, bool) res) = Inr True"
      and all: "\<forall>kv \<in> set (service_exact label access). (field_exact native kv :: (acc_msg, bool) res) = Inr True"
        "\<forall>k \<in> set [''elapsed_ns'', ''peak_rss_bytes'']. (field_positive native k :: (acc_msg, bool) res) = Inr True"
      by (auto simp: service_case_def res_simps)
    obtain e where e: "(jget execution ''exit'' :: (acc_msg, json) res) = Inr e" "is_int e" "py_eq e (JInt 0)"
      using ex by (auto simp: field_int_def field_eq_def bind_res_Inr_iff)
    then have "e = JInt 0" by (cases e) (auto simp: is_int_def)
    moreover have "(jget native k :: (acc_msg, json) res) = Inr v" if "(k, v) \<in> set (service_exact label access)" for k v
      using all(1) that field_exact_True [OF service_exact_scalar [OF that]] by blast
    ultimately show ?thesis using x e all(2) by (auto simp: field_positive_True)
  qed
  then show ?thesis using top by blast
qed

lemma guest_exact_scalar: "(k, w) \<in> set (guest_exact n) \<Longrightarrow> scalar w"
  by (auto simp: guest_exact_def scalar_def)

lemma get_differs_False:
  assumes "(get_differs result (k, w) :: ('m, bool) res) = Inr False" and "scalar w"
  shows "(jget_or result k :: ('m, json) res) = Inr w"
  using assms by (cases w) (auto simp: scalar_def get_differs_def py_ne_def bind_res_Inr_iff same_type_int same_type_bool)

lemma guest_contracts_exact:
  assumes "looper_verify name exit_code result = Inr r \<or> verify_guest exit_code result = Inr ()"
  shows "\<exists>reaped \<in> {0, 1}. (\<forall>(k, v) \<in> set (guest_exact reaped). (jget_or result k :: (acc_msg, json) res) = Inr v) \<and>
    (\<forall>k \<in> {''constructors'', ''load_relocate_ns'', ''bootstrap_ns''}. \<exists>i > 0. (jget_or result k :: (acc_msg, json) res) = Inr (JInt i))"
proof -
  have ex: "\<exists>keys reaped. reaped \<in> {0, 1} \<and> {''constructors'', ''load_relocate_ns'', ''bootstrap_ns''} \<subseteq> set keys \<and>
      check_observations result keys = Inr () \<and> (\<forall>kv \<in> set (guest_exact reaped). (get_differs result kv :: (acc_msg, bool) res) = Inr False)"
    using assms
  proof
    assume "looper_verify name exit_code result = Inr r"
    then show ?thesis
      by (intro exI [of _ "[''constructors'', ''looper_check_ns'', ''load_relocate_ns'', ''bootstrap_ns'']"] exI [of _ 1])
        (auto simp: looper_verify_def res_simps)
  next
    assume "verify_guest exit_code result = Inr ()"
    then show ?thesis
      by (intro exI [of _ "[''constructors'', ''kernel_config_check_ns'', ''load_relocate_ns'', ''bootstrap_ns'']"] exI [of _ 0])
        (auto simp: verify_guest_def res_simps)
  qed
  then obtain keys reaped where k: "reaped \<in> {0, 1}" "{''constructors'', ''load_relocate_ns'', ''bootstrap_ns''} \<subseteq> set keys"
    and obs: "check_observations result keys = Inr ()"
    and d: "\<forall>kv \<in> set (guest_exact reaped). (get_differs result kv :: (acc_msg, bool) res) = Inr False" by blast
  have "\<forall>key \<in> set keys. (ensure (not_m (not_positive result key)) (ValueError (Missing_observation key)) (Inr ()) :: (acc_msg, unit) res) = Inr ()"
    using obs unfolding check_observations_def foldM_unit_iff .
  then have "\<exists>i > 0. (jget_or result key :: (acc_msg, json) res) = Inr (JInt i)" if "key \<in> set keys" for key
    using that by (simp add: res_simps not_positive_False)
  moreover have "(jget_or result k :: (acc_msg, json) res) = Inr v" if "(k, v) \<in> set (guest_exact reaped)" for k v
    using get_differs_False d that guest_exact_scalar by blast
  ultimately show ?thesis using k by blast
qed

section \<open>Every rejection is a report of its own\<close>

definition lookup_error :: "'m exc \<Rightarrow> bool" where
  "lookup_error e = (case e of KeyError \<Rightarrow> True | TypeError \<Rightarrow> True | AttributeError \<Rightarrow> True | RuntimeError _ \<Rightarrow> True | _ \<Rightarrow> False)"

definition raises_only :: "('m exc \<Rightarrow> bool) \<Rightarrow> ('m, 'a) res \<Rightarrow> bool" where
  "raises_only P r = (case r of Inl e \<Rightarrow> P e | Inr _ \<Rightarrow> True)"

named_theorems raises_intros

lemma raises_Inr [raises_intros]: "raises_only P (Inr x)"
  by (simp add: raises_only_def)

lemma raises_bind [raises_intros]: "raises_only P a \<Longrightarrow> (\<And>x. raises_only P (f x)) \<Longrightarrow> raises_only P (bind_res a f)"
  by (cases a) (auto simp: raises_only_def bind_res_def)

lemma raises_require [raises_intros]: "P e \<Longrightarrow> raises_only P k \<Longrightarrow> raises_only P (require b e k)"
  by (auto simp: require_def raises_only_def)

lemma raises_and [raises_intros]: "raises_only P a \<Longrightarrow> raises_only P b \<Longrightarrow> raises_only P (and_m a b)"
  unfolding and_m_def by (rule raises_bind) (auto simp: raises_Inr)

lemma raises_all [raises_intros]: "(\<And>x. raises_only P (f x)) \<Longrightarrow> raises_only P (all_m f xs)"
  by (induction xs) (auto intro: raises_Inr raises_and)

lemma raises_ensure [raises_intros]: "raises_only P c \<Longrightarrow> P e \<Longrightarrow> raises_only P k \<Longrightarrow> raises_only P (ensure c e k)"
  unfolding ensure_def by (intro raises_bind raises_require)

lemma raises_foldM [raises_intros]: "(\<And>s x. raises_only P (f s x)) \<Longrightarrow> raises_only P (foldM f s xs)"
  by (induction xs arbitrary: s) (auto intro: raises_Inr raises_bind)

lemma raises_jget [raises_intros]: "raises_only lookup_error (jget v k)"
  by (cases v) (auto simp: jget_def dict_get_def raises_only_def lookup_error_def of_option_def split: option.splits)

lemma raises_jget_or [raises_intros]: "raises_only lookup_error (jget_or v k)"
  by (cases v) (auto simp: jget_or_def raises_only_def lookup_error_def)

lemma raises_num [raises_intros]: "raises_only lookup_error (num_of v)"
  by (cases v) (auto simp: num_of_def of_option_def raises_only_def lookup_error_def)

lemma raises_jset [raises_intros]: "raises_only lookup_error (jset v)"
  by (cases v) (auto simp: jset_def require_def raises_only_def lookup_error_def)

lemma raises_fields [raises_intros]:
  "raises_only lookup_error (field_exact v kw)" "raises_only lookup_error (field_eq v k w)" "raises_only lookup_error (field_is v k w)"
  "raises_only lookup_error (field_int v k)" "raises_only lookup_error (field_positive v k)"
  "raises_only lookup_error (jle a b)" "raises_only lookup_error (jlt a b)"
  unfolding field_exact_def field_eq_def field_is_def field_int_def field_positive_def jle_def jlt_def
  by (intro raises_intros)+

lemma lookup_error_Runtime [raises_intros]: "lookup_error (RuntimeError m)"
  by (simp add: lookup_error_def)

lemma catch_lookup_error:
  assumes "catch_lookup msg r = Inl e" and "raises_only lookup_error r"
  shows "e = AttributeError \<or> (\<exists>m. e = RuntimeError m)"
  using assms by (cases r) (auto simp: catch_lookup_def raises_only_def lookup_error_def split: exc.splits)

text \<open>
  C25. Whatever the JSON value, \<^verbatim>\<open>validate_acceptance\<close> of the
  service and of the ART bundle raises nothing but its own
  \<^verbatim>\<open>RuntimeError\<close>, or \<^verbatim>\<open>AttributeError\<close> for
  a value that is no dictionary: missing keys and wrong types never escape as
  \<^verbatim>\<open>KeyError\<close> or \<^verbatim>\<open>TypeError\<close>.
\<close>

theorem acceptance_rejections:
  assumes "service_validate report = Inl e \<or> art_validate report = Inl e"
  shows "e = AttributeError \<or> (\<exists>m. e = RuntimeError m)"
  using assms
proof
  assume "service_validate report = Inl e"
  then show ?thesis unfolding service_validate_def
    by (rule catch_lookup_error) (auto simp: service_case_def intro!: raises_intros split: prod.splits)
next
  assume "art_validate report = Inl e"
  then show ?thesis unfolding art_validate_def
    by (rule catch_lookup_error) (intro raises_intros)
qed

lemma is_int_iff: "is_int v \<longleftrightarrow> (\<exists>i. v = JInt i)"
  by (cases v) (auto simp: is_int_def)

lemma art_validate_sound:
  assumes "art_validate report = Inr ()"
  shows "(jget_or report ''dex_executed'' :: (acc_msg, json) res) = Inr (JBool True) \<and>
    (jget_or report ''missing_hello_detected'' :: (acc_msg, json) res) = Inr (JBool True) \<and>
    (\<exists>native r. (jget report ''native'' :: (acc_msg, json) res) = Inr native \<and>
      (jget native ''cleanup'' :: (acc_msg, json) res) = Inr (JBool True) \<and>
      (\<exists>i > 0. (jget native ''threads_reaped'' :: (acc_msg, json) res) = Inr (JInt i)) \<and>
      (jget native ''reserved_bytes'' :: (acc_msg, json) res) = Inr (JInt r) \<and> 0 < r \<and> r \<le> 1536 * 2 ^ 20)"
proof -
  note defs = art_validate_def catch_lookup_Inr ensure_Inr and_m_True all_m_True
  have top: "(jget_or report ''dex_executed'' :: (acc_msg, json) res) = Inr (JBool True)"
      "(jget_or report ''missing_hello_detected'' :: (acc_msg, json) res) = Inr (JBool True)"
    using assms unfolding defs by (auto simp: bind_res_Inr_iff)
  obtain native where n: "(jget report ''native'' :: (acc_msg, json) res) = Inr native"
    and c: "(field_is native ''cleanup'' (JBool True) :: (acc_msg, bool) res) = Inr True"
    and t: "(field_positive native ''threads_reaped'' :: (acc_msg, bool) res) = Inr True"
    and i: "(field_int native ''reserved_bytes'' :: (acc_msg, bool) res) = Inr True"
    and b: "(field_eq native ''vm_budget_bytes'' (JInt (1536 * 2 ^ 20)) :: (acc_msg, bool) res) = Inr True"
    and r: "bind_res (jget native ''reserved_bytes'') (\<lambda>r. and_m (jlt (JInt 0) r)
              (bind_res (jget native ''vm_budget_bytes'') (\<lambda>b. jle r b))) = (Inr True :: (acc_msg, bool) res)"
    using assms unfolding art_validate_def catch_lookup_Inr ensure_Inr and_m_True all_m_True bind_res_Inr_iff [of "jget report _"] by auto
  obtain x where x: "(jget native ''reserved_bytes'' :: (acc_msg, json) res) = Inr (JInt x)"
    using i by (auto simp: field_int_def bind_res_Inr_iff is_int_iff)
  obtain w where w: "(jget native ''vm_budget_bytes'' :: (acc_msg, json) res) = Inr w" "py_eq w (JInt (1536 * 2 ^ 20))"
    using b by (auto simp: field_eq_def bind_res_Inr_iff)
  have jw: "jnum w = Some (of_int (1536 * 2 ^ 20))" using w(2) by (cases w) auto
  have "0 < x \<and> (of_int x :: rat) \<le> of_int (1536 * 2 ^ 20)"
    using r by (simp add: x w jw and_m_True jle_def jlt_def num_of_def of_option_def bind_res_def del: of_int_mult of_int_power)
  then have "0 < x \<and> x \<le> 1536 * 2 ^ 20" by (simp only: of_int_le_iff)
  then show ?thesis using top n c t x by (auto simp: field_is_def field_positive_True bind_res_Inr_iff)
qed

section \<open>Concrete reports\<close>

definition sample_contract :: contract where
  "sample_contract =
    \<lparr>co_version = JInt 1,
     co_entries = map (\<lambda>(i, n). \<lparr>en_id = i, en_count = JInt n, en_mandatory = JBool True\<rparr>)
       [(''allocator_devices'', 146), (''futex'', 19), (''regular_files'', 41), (''file_mappings'', 43),
        (''anonymous_memory'', 35), (''pthread_timeouts'', 18), (''proc_commandline'', 22), (''pthread_workload'', 1),
        (''elf_tls'', 1), (''symbol_versions'', 1), (''startup_constructors'', 1)],
     co_total = JInt 328, co_minimum = 90\<rparr>"

definition sample_observed :: "(string \<times> json) list" where
  "sample_observed = map (\<lambda>(k, v). (k, JInt v))
     [(''cases'', 146), (''futex_cases'', 19), (''file_cases'', 41), (''mapping_cases'', 43), (''vm_cases'', 35),
      (''timeout_cases'', 18), (''proc_cases'', 22), (''pthread_result'', 0), (''threads_reaped'', 6), (''tls_result'', 0),
      (''tls_modules'', 2), (''tls_threads'', 7), (''version_result'', 46), (''constructors'', 5), (''linked_images'', 4)]"

lemma sample_evaluate: "\<not> isl (evaluate (\<lambda>_. ''sha'') sample_contract sample_observed)"
  by code_simp


definition sample_service :: json where
  "sample_service = JDict
    [(''guest_execution_verified'', JBool True), (''working_tree_dirty'', JBool False),
     (''executions'', JDict (map (\<lambda>(label, access). (label, JDict
        [(''exit'', JInt 0), (''native'', JDict (service_exact label access @ [(''elapsed_ns'', JInt 1), (''peak_rss_bytes'', JInt 1)]))]))
        SERVICE_CASES))]"

lemma sample_service_passes: "service_validate sample_service = Inr ()"
  by code_simp

theorem service_validate_sound_witness:
  "service_validate sample_service = Inr () \<and> (jget sample_service ''working_tree_dirty'' :: (acc_msg, json) res) = Inr (JBool False)"
  using service_validate_sound [OF sample_service_passes] sample_service_passes by blast

definition sample_guest :: json where
  "sample_guest = JDict (guest_exact 0 @
    [(''kernel_config'', PARSER_EXPECTED), (''constructors'', JInt 5), (''kernel_config_check_ns'', JInt 9),
     (''load_relocate_ns'', JInt 7), (''bootstrap_ns'', JInt 3)])"

lemma sample_guest_passes: "verify_guest (JInt 0) sample_guest = Inr ()"
  by code_simp

lemma guest_contracts_exact_witness:
  "verify_guest (JInt 0) sample_guest = Inr () \<and> (\<exists>i > 0. (jget_or sample_guest ''constructors'' :: (acc_msg, json) res) = Inr (JInt i))"
  using guest_contracts_exact [OF disjI2 [OF sample_guest_passes]] sample_guest_passes by blast

theorem acceptance_rejections_witness:
  "service_validate (JDict []) = Inl (RuntimeError Incomplete_report) \<and>
   (\<exists>m. (RuntimeError Incomplete_report :: acc_msg exc) = RuntimeError m)"
proof -
  have e: "service_validate (JDict []) = Inl (RuntimeError Incomplete_report)" by code_simp
  then show ?thesis using acceptance_rejections [OF disjI1 [OF e]] by blast
qed

definition trues :: "string list \<Rightarrow> (string \<times> json) list" where
  "trues = map (\<lambda>k. (k, JBool True))"

definition sample_art :: json where
  "sample_art = JDict (trues [''passed'', ''runtime_invocation_attempted'', ''runtime_started'', ''dex_executed'', ''lifecycle_verified'',
       ''console_verified'', ''console_drop_detected'', ''missing_hello_detected''] @
    [(''exit'', JInt 0), (''missing_hello_exit'', JInt 1), (''console_drop_exit'', JInt 3),
     (''native'', JDict (trues [''cleanup'', ''heap_binding_verified'', ''runtime_started'', ''dex_executed''] @
        [(''linked_images'', JInt 15), (''constructors'', JInt 35), (''tls_modules'', JInt 1), (''registered_vms'', JInt 0),
         (''startup_ns'', JInt 1), (''managed_bytes'', JInt 1), (''process_peak_rss_bytes'', JInt 1), (''threads_reaped'', JInt 1),
         (''reserved_bytes'', JInt 4096), (''vm_budget_bytes'', JInt 1610612736), (''bootstrap_window_bytes'', JInt 16384),
         (''managed_window_bytes'', JInt 536870912)])),
     (''managed_checks'', ints [(''heap_checksum'', 6496), (''exceptions'', 3), (''attachments'', 4), (''gc_before'', 0), (''gc_after'', 1)]),
     (''thread_state_checks'', JDict [(''threads'', JInt 3), (''attach_cycles'', JInt 4), (''tls_isolated'', JBool True),
        (''main_tls_restored'', JBool True)]),
     (''vm_worker'', JDict [(''primordial'', JBool False), (''current_in_stack'', JBool True), (''requested_stack_bytes'', JInt 4194304),
        (''reported_stack_bytes'', JInt 4194304), (''guard_bytes'', JInt 4096)])])"

lemma sample_art_passes: "art_validate sample_art = Inr ()"
  by code_simp

lemma art_validate_sound_witness:
  "art_validate sample_art = Inr () \<and> (jget_or sample_art ''dex_executed'' :: (acc_msg, json) res) = Inr (JBool True)"
  using art_validate_sound [OF sample_art_passes] sample_art_passes by blast

end
