(* ===== verification/Bundle.thy ===== *)
theory Bundle
  imports Acceptance Wrap_Dynamic Overlay
begin

text \<open>
  What the staging scripts share, the M2 device libraries (\<^verbatim>\<open>bionic_bundle.py\<close>) and the producer of the
  kernel-configuration parser (\<^verbatim>\<open>kernel_config_guest.py\<close>).  \<^verbatim>\<open>hashlib.sha256\<close>, \<^verbatim>\<open>json.loads\<close> and
  \<^verbatim>\<open>json.dumps\<close> are the fields of \<open>std\<close>.
\<close>

record std =
  std_sha :: "bytes \<Rightarrow> string"
  std_loads :: "string \<Rightarrow> json option"
  std_dumps :: "json \<Rightarrow> string"

datatype (plugins only: code) bundle_msg =
    Wrapping wrap_msg
  | Accepting acc_msg
  | Invalid_json
  | Revision_differs
  | Project_input_changed string
  | Source_bundle_changed
  | Retained_output_changed
  | Result_differs
  | Elf_set_changed
  | Role_set_changed
  | Elf_changed string
  | Signatures_required
  | Signed_code_changed string
  | Notice_changed
  | Output_not_empty
  | Manifest_changed
  | Native_suites_failed
  | Acceptance_lacking
  | Layout_mismatch string
  | Producer_differs path
  | Clean_parser_required
  | Regex_object_differs
  | Provenance_required
  | Log_lacks_observations
  | Missing_class_changed
  | Console_control_changed
  | Dependency_identity_changed
  | Executed_library_differs
  | One_root_required
  | Boot_dex_changed
  | Managed_revision_changed
  | Resource_changed string

definition lift_msg :: "('a \<Rightarrow> 'b) \<Rightarrow> ('a, 'c) res \<Rightarrow> ('b, 'c) res" where
  "lift_msg f r = map_sum (map_exc f) id r"

lemma lift_msg_Inr [res_simps]: "lift_msg f r = Inr x \<longleftrightarrow> r = Inr x"
  by (cases r) (auto simp: lift_msg_def)

section \<open>Files\<close>

definition digest_of :: "std \<Rightarrow> fs \<Rightarrow> path \<Rightarrow> ('m, json) res" where
  "digest_of std fs p = bind_res (read_bytes fs p) (\<lambda>bs. Inr (JStr (std_sha std bs)))"

definition digest_is :: "std \<Rightarrow> fs \<Rightarrow> path \<Rightarrow> json \<Rightarrow> ('m, bool) res" where
  "digest_is std fs p expected = bind_res (digest_of std fs p) (\<lambda>d. Inr (py_eq d expected))"

definition load_json :: "std \<Rightarrow> fs \<Rightarrow> path \<Rightarrow> (bundle_msg, json) res" where
  "load_json std fs p =
     bind_res (read_bytes fs p) (\<lambda>bs. bind_res (decode_utf8 bs) (\<lambda>s. of_option (ValueError Invalid_json) (std_loads std s)))"

definition dump_json :: "std \<Rightarrow> fs \<Rightarrow> path \<Rightarrow> json \<Rightarrow> ('m, fs) res" where
  "dump_json std fs p v = write_bytes fs p (encode_utf8 (std_dumps std v @ [CHR 0x0A]))"

definition copyfile :: "fs \<Rightarrow> path \<Rightarrow> path \<Rightarrow> ('m, fs) res" where
  "copyfile fs source output =
     require (locate fs source = None \<or> locate fs source \<noteq> locate fs output) OSError
       (bind_res (read_bytes fs source) (write_bytes fs output))"

text \<open>\<^verbatim>\<open>os.scandir\<close> and \<^verbatim>\<open>shutil.copytree\<close>, which follows links; \<open>DEPTH\<close> bounds the nesting a path can have.\<close>

definition child_names :: "fs \<Rightarrow> path \<Rightarrow> string list" where
  "child_names fs q = filter (\<lambda>n. n \<noteq> ''..'') (map (\<lambda>(r, _). last r) (filter (\<lambda>(r, _). length r = Suc (length q) \<and> prefix q r) fs))"

definition DEPTH :: nat where
  "DEPTH = 256"

fun copy_tree :: "nat \<Rightarrow> bool \<Rightarrow> fs \<Rightarrow> path \<Rightarrow> path \<Rightarrow> ('m, fs) res" where
  "copy_tree 0 ok fs source output = Inl OSError"
| "copy_tree (Suc n) ok fs source output =
     (case locate fs source of
        None \<Rightarrow> Inl OSError
      | Some q \<Rightarrow>
          require (node_at fs q = Some Dir \<and> (ok \<or> lstat fs output = None)) OSError
         (bind_res (mkdir_parents fs output) (\<lambda>fs1.
          foldM (\<lambda>fs2 name.
             if is_dir fs2 (source @ [name]) then copy_tree n ok fs2 (source @ [name]) (output @ [name])
             else copy2 fs2 (source @ [name]) (output @ [name])) fs1 (child_names fs q))))"

definition empty_output :: "fs \<Rightarrow> path \<Rightarrow> bool" where
  "empty_output fs output \<longleftrightarrow> \<not> path_exists fs output \<or> \<not> any_iterdir fs output"

definition not_directory :: "fs \<Rightarrow> path \<Rightarrow> bool" where
  "not_directory fs output \<longleftrightarrow> path_exists fs output \<and> \<not> is_dir fs output"

text \<open>\<^verbatim>\<open>not output.exists() or not any(output.iterdir())\<close>; listing a file raises.\<close>

definition output_free :: "fs \<Rightarrow> path \<Rightarrow> ('m, bool) res" where
  "output_free fs output = require (\<not> not_directory fs output) OSError (Inr (empty_output fs output))"

section \<open>Layouts as JSON\<close>

definition LAYOUT_SCOPE :: string where
  "LAYOUT_SCOPE = ''Controlled shared ELF wrapper; imports, relocations and startup require the runtime loader''"

definition segment_json :: "segment \<Rightarrow> json" where
  "segment_json s = JDict
     [(''index'', JInt (seg_index s)), (''address'', JInt (seg_address s)), (''offset'', JInt (seg_offset s)),
      (''file_size'', JInt (seg_file_size s)), (''memory_size'', JInt (seg_memory_size s)), (''flags'', JInt (seg_flags s)),
      (''alignment'', JInt (seg_alignment s))]"

definition layout_value :: "wrap_layout \<Rightarrow> json" where
  "layout_value l = JDict
     [(''scope'', JStr LAYOUT_SCOPE), (''input_sha256'', JStr (lay_input_sha256 l)), (''rx_bytes'', JInt (lay_rx_bytes l)),
      (''rw_bytes'', JInt (lay_rw_bytes l)), (''rx_sha256'', JStr (lay_rx_sha256 l)), (''rw_sha256'', JStr (lay_rw_sha256 l)),
      (''loads'', JList (map segment_json (lay_loads l)))]"

definition verified_value :: "verified \<Rightarrow> json" where
  "verified_value v = JDict
     [(''load_bias'', JInt (load_bias v)), (''rx_address'', JInt (rx_address v)), (''rw_address'', JInt (rw_address v)),
      (''macho_sha256'', JStr (macho_sha256 v))]"

section \<open>Checks on a bundle\<close>

definition elf_layout :: "std \<Rightarrow> fs \<Rightarrow> path \<Rightarrow> (bundle_msg, wrap_layout) res" where
  "elf_layout std fs elf =
     bind_res (read_bytes fs elf) (\<lambda>data. bind_res (lift_msg Wrapping (pack_layout (std_sha std) data)) (\<lambda>(_, _, layout). Inr layout))"

definition path_name :: "string \<Rightarrow> string" where
  "path_name s = (let ps = rel_parts s in if ps = [] then [] else last ps)"

definition plain_name :: "string \<Rightarrow> bool" where
  "plain_name s \<longleftrightarrow> path_name s = s \<and> SLASH \<notin> set s \<and> BACKSLASH \<notin> set s"

definition check_notices :: "std \<Rightarrow> fs \<Rightarrow> path \<Rightarrow> json \<Rightarrow> (bundle_msg, unit) res" where
  "check_notices std fs bundle notices =
     bind_res (jitems notices) (foldM (\<lambda>_ (notice, expected).
       ensure (and_m (Inr (plain_name notice)) (digest_is std fs (path_div bundle notice) expected)) (RuntimeError Notice_changed) (Inr ())) ())"

definition framework_dir :: "path \<Rightarrow> string \<Rightarrow> path" where
  "framework_dir d name = path_div d (name @ ''.framework'')"

text \<open>Signature, entitlements, guest bytes and layout, and notices of one framework.\<close>

definition check_signed :: "std \<Rightarrow> fs \<Rightarrow> path \<Rightarrow> string \<Rightarrow> wrap_layout \<Rightarrow> json \<Rightarrow> (bundle_msg, unit) res" where
  "check_signed std fs bundle name layout signing =
     ensure (and_m (field_is signing ''signature_verified'' (JBool True)) (field_eq signing ''entitlements'' (JDict [])))
       (RuntimeError Signatures_required)
    (ensure (bind_res (read_bytes fs (path_div bundle name)) (\<lambda>data.
         bind_res (lift_msg Wrapping (verify_macho (std_sha std) data layout)) (\<lambda>v.
         bind_res (jget signing ''layout'') (\<lambda>expected. Inr (py_eq (verified_value v) expected)))))
       (RuntimeError (Signed_code_changed name))
    (bind_res (jget signing ''notices'') (check_notices std fs bundle)))"

section \<open>The M2 device libraries\<close>

definition BIONIC_IMAGES :: "(string \<times> string \<times> string) list" where
  "BIONIC_IMAGES =
    [(''libc'', ''libc.so'', ''ARTBoxBionic''), (''client'', ''libstartup_client.so'', ''ARTBoxStartupClient''),
     (''versions'', ''libartbox_versions.so'', ''ARTBoxVersions''), (''tls'', ''libartbox_tls.so'', ''ARTBoxTLS'')]"

text \<open>\<^verbatim>\<open>binder_libc.EXPECTED\<close> and \<^verbatim>\<open>SIGNED_EXPECTED\<close>.\<close>

definition BINDER_EXPECTED :: "(string \<times> int) list" where
  "BINDER_EXPECTED = [(''cases'', 50), (''path_control'', -108), (''clock_control'', -211),
     (''regex_cases'', 120), (''regex_newline_control'', -1001), (''regex_capture_control'', -2002)]"

definition SIGNED_EXPECTED :: "(string \<times> int) list" where
  "SIGNED_EXPECTED = map (\<lambda>(key, value). ((if startswith key ''regex_'' then ''binder_'' else ''binder_libc_'') @ key, value)) BINDER_EXPECTED"

definition bionic_expected :: "(string \<times> int) list" where
  "bionic_expected =
    [(''cases'', 146), (''futex_cases'', 19), (''file_cases'', 41), (''mapping_cases'', 43), (''pthread_result'', 0), (''threads_reaped'', 6),
     (''tls_modules'', 2), (''tls_threads'', 7), (''tls_result'', 0), (''linked_images'', 4), (''version_result'', 46),
     (''vm_cases'', 35), (''timeout_cases'', 18), (''art_libc_cases'', 73), (''vfork_cases'', 30), (''libcore_frontend_cases'', 75),
     (''unlink_cases'', 29), (''signal_wait_cases'', 33),
     (''signal_realtime_cases'', 26), (''signal_interrupt_cases'', 4), (''signal_interrupt_mutation'', -1008), (''signal_interrupt_threads'', 1),
     (''cwd_cases'', 22), (''futex_requeue_cases'', 18)] @ SIGNED_EXPECTED @
    [(''allocator_pressure_cases'', 3), (''vm_budget_bytes'', 2 ^ 30)]"

text \<open>The score as the report records it; percentages are exact.\<close>

definition group_value :: "group_score \<Rightarrow> json" where
  "group_value g = JDict
     [(''id'', JStr (en_id (gs_entry g))), (''count'', en_count (gs_entry g)), (''mandatory'', en_mandatory (gs_entry g)),
      (''passed'', JInt (gs_passed g)), (''failed'', JInt (gs_failed g)), (''unexecuted'', JInt (gs_unexecuted g))]"

definition score_value :: "score \<Rightarrow> json" where
  "score_value s = JDict
     [(''manifest_sha256'', JStr (sc_manifest_sha256 s)), (''total'', sc_total s), (''passed'', JInt (sc_passed s)),
      (''failed'', JInt (sc_failed s)), (''unexecuted'', JInt (sc_unexecuted s)), (''percent'', JFloat (sc_percent s)),
      (''success'', JBool (sc_success s)), (''groups'', JList (map group_value (sc_groups s)))]"

definition bionic_mode :: "(contract \<Rightarrow> string) \<Rightarrow> contract \<Rightarrow> json \<Rightarrow> string \<Rightarrow> (bundle_msg, unit) res" where
  "bionic_mode canon_sha contract report mode =
     bind_res (jget report mode) (\<lambda>observed.
     ensure (all_m (\<lambda>(k, v). bind_res (jget_or observed k) (\<lambda>w. Inr (py_eq w (JInt v)))) bionic_expected) (RuntimeError Native_suites_failed)
    (bind_res (jitems observed) (\<lambda>items.
     bind_res (lift_msg Accepting (evaluate canon_sha contract items)) (\<lambda>scored.
     ensure (and_m (Inr (sc_success scored))
         (bind_res (jget report ''acceptance'') (\<lambda>a. bind_res (jget a mode) (\<lambda>w. Inr (py_eq w (score_value scored))))))
       (RuntimeError Acceptance_lacking) (Inr ())))))"

definition bionic_image ::
  "std \<Rightarrow> path \<Rightarrow> path \<Rightarrow> json \<Rightarrow> fs \<times> (string \<times> json) list \<Rightarrow> string \<times> string \<times> string \<Rightarrow> (bundle_msg, fs \<times> (string \<times> json) list) res"
where
  "bionic_image std source output report st x =
     (case (st, x) of ((fs, images), (key, elf_name, framework_name)) \<Rightarrow>
      bind_res (jget report ''images'') (\<lambda>all_images.
      bind_res (jget all_images key) (\<lambda>details.
      let elf = path_div source elf_name in
      ensure (bind_res (digest_of std fs elf) (\<lambda>d. bind_res (jget details ''elf_sha256'') (\<lambda>e. Inr (py_eq d e)))) (RuntimeError (Elf_changed key))
     (bind_res (elf_layout std fs elf) (\<lambda>layout.
      ensure (bind_res (jget details ''layout'') (\<lambda>e. Inr (py_eq (layout_value layout) e))) (RuntimeError (Layout_mismatch key))
     (let framework = framework_dir (source @ [key, ''ios'']) framework_name in
      bind_res (jget details ''frameworks'') (\<lambda>frameworks.
      bind_res (jget frameworks ''ios'') (\<lambda>device.
      ensure (bind_res (read_bytes fs (path_div framework framework_name)) (\<lambda>data.
           bind_res (lift_msg Wrapping (verify_macho (std_sha std) data layout)) (\<lambda>v.
           bind_res (jget device ''layout'') (\<lambda>e. Inr (py_eq (verified_value v) e))))) (RuntimeError (Signed_code_changed key))
     (bind_res (jget device ''notices'') (\<lambda>notices.
      bind_res (check_notices std fs framework notices) (\<lambda>_.
      bind_res (copy_tree DEPTH True fs framework (framework_dir output framework_name)) (\<lambda>fs1.
      bind_res (copyfile fs1 elf (output @ [''ELF'', elf_name])) (\<lambda>fs2.
      bind_res (jitems details) (\<lambda>items.
      Inr (fs2, dict_set images key (JDict (foldl (\<lambda>d (k, v). dict_set d k v)
         [(''framework'', JStr framework_name), (''elf'', JStr elf_name)] items)))))))))))))))))"

definition bionic_prepare ::
  "std \<Rightarrow> (contract \<Rightarrow> string) \<Rightarrow> contract \<Rightarrow> fs \<Rightarrow> path \<Rightarrow> path \<Rightarrow> string \<Rightarrow> (bundle_msg, fs \<times> json) res"
where
  "bionic_prepare std canon_sha contract fs evidence0 output0 revision =
     bind_res (resolve fs evidence0) (\<lambda>evidence.
     bind_res (resolve fs output0) (\<lambda>output.
     let report_path = evidence @ [''artifacts'', ''m2-bionic-startup.json''] in
     bind_res (load_json std fs report_path) (\<lambda>report.
     ensure (bind_res (jget_or report ''project_commit'') (\<lambda>v. Inr (py_eq v (JStr revision)))) (RuntimeError Revision_differs)
    (bind_res (foldM (\<lambda>_. bionic_mode canon_sha contract report) () [''native'', ''sampled_native'']) (\<lambda>_.
     let source = evidence @ [''build'', ''m2'', ''bionic-startup''] in
     bind_res (mkdir_parents fs (output @ [''ELF''])) (\<lambda>fs1.
     bind_res (digest_of std fs1 report_path) (\<lambda>report_sha.
     bind_res (mapM (\<lambda>k. bind_res (jget report k) (\<lambda>v. Inr (k, v))) [''native'', ''sampled_native'', ''tls'', ''acceptance'']) (\<lambda>copied.
     bind_res (foldM (bionic_image std source output report) (fs1, []) BIONIC_IMAGES) (\<lambda>(fs2, images).
     let staged = JDict ([(''project_commit'', JStr revision), (''source_report_sha256'', report_sha), (''images'', JDict images)] @ copied) in
     bind_res (dump_json std fs2 (output @ [''ELF'', ''manifest.json'']) staged) (\<lambda>fs3. Inr (fs3, staged)))))))))))"

section \<open>The producer of the kernel-configuration parser\<close>

definition kc_verify :: "std \<Rightarrow> fs \<Rightarrow> path \<Rightarrow> json \<Rightarrow> (bundle_msg, path) res" where
  "kc_verify std fs p expected =
     ensure (and_m (Inr (is_file fs p)) (digest_is std fs p expected)) (ValueError (Producer_differs p)) (Inr p)"

definition KC_OBJECTS :: "string list" where
  "KC_OBJECTS = [''check.o'', ''KernelConfigParser.o'', ''regex.cpp.o'', ''reference-main.o'']"

definition verify_build :: "std \<Rightarrow> path \<Rightarrow> fs \<Rightarrow> path \<Rightarrow> string \<Rightarrow> (bundle_msg, json) res" where
  "verify_build std rootdir fs d revision =
     bind_res (load_json std fs (d @ [''result.json''])) (\<lambda>build.
     ensure (and_m (field_eq build ''project_commit'' (JStr revision))
        (and_m (field_is build ''working_tree_dirty'' (JBool False))
        (and_m (bind_res (jget build ''objects'') (\<lambda>o'. bind_res (jset o') (\<lambda>names. Inr (set_eq names (strs KC_OBJECTS)))))
        (bind_res (jget build ''regex_runtime'') (\<lambda>r.
           bind_res (load_json std fs (rootdir @ [''third_party'', ''binder'', ''regex-runtime.json''])) (\<lambda>pin. Inr (py_eq r pin)))))))
       (ValueError Clean_parser_required)
    (bind_res (jget build ''project_sources'') (\<lambda>sources. bind_res (jitems sources) (\<lambda>items.
     bind_res (foldM (\<lambda>_ (name, expected). bind_res (kc_verify std fs (path_div rootdir name) expected) (\<lambda>_. Inr ())) () items) (\<lambda>_.
     bind_res (jget build ''objects'') (\<lambda>objects. bind_res (jitems objects) (\<lambda>object_items.
     bind_res (foldM (\<lambda>_ (name, expected). bind_res (kc_verify std fs (path_div d name) expected) (\<lambda>_. Inr ())) () object_items) (\<lambda>_.
     ensure (bind_res (jget objects ''regex.cpp.o'') (\<lambda>o'. bind_res (jget build ''regex_runtime'') (\<lambda>r.
         bind_res (jget r ''member_sha256'') (\<lambda>m. Inr (py_eq o' m))))) (ValueError Regex_object_differs)
    (bind_res (jget build ''reference_sha256'') (\<lambda>e. bind_res (kc_verify std fs (d @ [''linux-reference'']) e) (\<lambda>_.
     bind_res (jget build ''source_bundle_sha256'') (\<lambda>b. bind_res (kc_verify std fs (d @ [''corresponding-source.zip'']) b) (\<lambda>_.
     Inr build)))))))))))))"

text \<open>The path leads to a file with that digest.\<close>

definition has_digest :: "std \<Rightarrow> fs \<Rightarrow> path \<Rightarrow> json \<Rightarrow> bool" where
  "has_digest std fs p expected \<longleftrightarrow> (\<exists>bs m. stat fs p = Some (File bs m) \<and> expected = JStr (std_sha std bs))"

lemma read_bytes_Inr: "read_bytes fs p = Inr bs \<longleftrightarrow> (\<exists>m. stat fs p = Some (File bs m))"
  by (auto simp: read_bytes_def split: option.splits node.splits)

lemma digest_is_True [res_simps]: "digest_is std fs p expected = Inr True \<longleftrightarrow> has_digest std fs p expected"
  by (auto simp: digest_is_def digest_of_def bind_res_Inr_iff read_bytes_Inr has_digest_def)

lemma digest_of_True [res_simps]:
  "bind_res (digest_of std fs p) (\<lambda>d. bind_res (f :: ('m, json) res) (\<lambda>e. Inr (py_eq d e))) = Inr True \<longleftrightarrow> (\<exists>e. f = Inr e \<and> has_digest std fs p e)"
  by (auto simp: digest_of_def bind_res_Inr_iff read_bytes_Inr has_digest_def)

lemma digest_of_has: "digest_of std fs p = Inr d \<Longrightarrow> py_eq d e \<Longrightarrow> has_digest std fs p e"
  by (auto simp: digest_of_def bind_res_Inr_iff read_bytes_Inr has_digest_def)

lemma jitems_Inr [res_simps]: "jitems v = Inr d \<longleftrightarrow> v = JDict d"
  by (cases v) (auto simp: jitems_def)

section \<open>Staging stays in its directory\<close>

lemma rel_parts_plain: "plain_name s \<Longrightarrow> s \<noteq> [] \<Longrightarrow> rel_parts s = [s]"
  by (auto simp: plain_name_def path_name_def rel_parts_def Let_def split_on_word split: if_splits)

lemma copy2_confined:
  assumes "confined fs0 d fs" and "''..'' \<notin> set rel" and "rel \<noteq> []" and "copy2 fs source (d @ rel) = (Inr fs' :: ('m, fs) res)"
  shows "confined fs0 d fs'"
proof -
  obtain bs mode where st: "stat fs source = Some (File bs mode)"
    using assms(4) by (auto simp: copy2_def split: option.splits node.splits)
  obtain fs1 where w: "write_bytes fs (d @ rel) bs = (Inr fs1 :: ('m, fs) res)"
    and m: "(case mode of None \<Rightarrow> Inr fs1 | Some k \<Rightarrow> chmod fs1 (d @ rel) k) = (Inr fs' :: ('m, fs) res)"
    using assms(4) by (auto simp: copy2_def st bind_res_Inr_iff)
  have "confined fs0 d fs1" using write_confined [OF assms(1-3) w] .
  then show ?thesis using m chmod_confined [OF _ assms(2,3)] by (auto split: option.splits)
qed

lemma copyfile_confined:
  assumes "confined fs0 d fs" and "''..'' \<notin> set rel" and "rel \<noteq> []" and "copyfile fs source (d @ rel) = (Inr fs' :: ('m, fs) res)"
  shows "confined fs0 d fs'"
  using assms(4) write_confined [OF assms(1-3)] by (auto simp: copyfile_def res_simps)

lemma dump_confined:
  assumes "confined fs0 d fs" and "''..'' \<notin> set rel" and "rel \<noteq> []" and "dump_json std fs (d @ rel) v = (Inr fs' :: ('m, fs) res)"
  shows "confined fs0 d fs'"
  using assms(4) write_confined [OF assms(1-3)] by (simp add: dump_json_def)

lemma child_names_plain: "name \<in> set (child_names fs q) \<Longrightarrow> name \<noteq> ''..''"
  by (auto simp: child_names_def)

lemma copy_tree_confined:
  "confined fs0 d fs \<Longrightarrow> ''..'' \<notin> set rel \<Longrightarrow> rel \<noteq> [] \<Longrightarrow> copy_tree n ok fs source (d @ rel) = (Inr fs' :: ('m, fs) res) \<Longrightarrow> confined fs0 d fs'"
proof (induction n arbitrary: fs source rel fs')
  case 0
  then show ?case by simp
next
  case (Suc n)
  obtain q fs1 where mk: "mkdir_parents fs (d @ rel) = (Inr fs1 :: ('m, fs) res)"
    and loop: "foldM (\<lambda>fs2 name. if is_dir fs2 (source @ [name]) then copy_tree n ok fs2 (source @ [name]) ((d @ rel) @ [name])
         else copy2 fs2 (source @ [name]) ((d @ rel) @ [name])) fs1 (child_names fs q) = (Inr fs' :: ('m, fs) res)"
    using Suc.prems(4) by (auto simp: res_simps split: option.splits)
  have c1: "confined fs0 d fs1" using mkdir_parents_confined [OF Suc.prems(1,2) mk] .
  show ?case
    using loop c1
  proof (rule foldM_invariant [where P = "confined fs0 d"])
    fix a name b
    assume name: "name \<in> set (child_names fs q)" and a: "confined fs0 d a"
      and st: "(if is_dir a (source @ [name]) then copy_tree n ok a (source @ [name]) ((d @ rel) @ [name])
         else copy2 a (source @ [name]) ((d @ rel) @ [name])) = (Inr b :: ('m, fs) res)"
    have r: "''..'' \<notin> set (rel @ [name])" "rel @ [name] \<noteq> []" using child_names_plain [OF name] Suc.prems(2) by auto
    show "confined fs0 d b"
      using st Suc.IH [OF a r] copy2_confined [OF a r] by (simp split: if_splits)
  qed
qed

lemma path_div_word:
  assumes "SLASH \<notin> set s" and "s \<noteq> []" and "s \<noteq> ''.''"
  shows "path_div d s = d @ [s]"
proof -
  have "hd s \<noteq> CHR ''/''" using assms(1,2) by (auto simp: SLASH_def dest: hd_in_set)
  then have "\<not> pure_absolute s" using assms(2) by (cases s) (auto simp: pure_absolute_def startswith_def)
  moreover have "rel_parts s = [s]" using assms by (simp add: rel_parts_def split_on_word)
  ultimately show ?thesis by (simp add: path_div_def)
qed

lemma framework_dir_below:
  assumes "SLASH \<notin> set name"
  shows "framework_dir d name = d @ [name @ ''.framework'']"
  unfolding framework_dir_def
proof (rule path_div_word)
  have "length (name @ ''.framework'') \<noteq> length ''.''" by simp
  then show "name @ ''.framework'' \<noteq> ''.''" by metis
qed (use assms in \<open>simp_all add: SLASH_def\<close>)

lemma bionic_image_confined:
  assumes "x \<in> set BIONIC_IMAGES" and "confined fs0 output (fst st)" and "bionic_image std source output report st x = Inr st'"
  shows "confined fs0 output (fst st')"
proof -
  obtain key elf_name framework_name where x: "x = (key, elf_name, framework_name)" by (cases x)
  have ok: "SLASH \<notin> set framework_name" "elf_name \<noteq> ''..''" "framework_name @ ''.framework'' \<noteq> ''..''"
    using assms(1) by (auto simp: x BIONIC_IMAGES_def SLASH_def)
  obtain src fs1 where t: "copy_tree DEPTH True (fst st) src (framework_dir output framework_name) = (Inr fs1 :: (bundle_msg, fs) res)"
    and f: "copyfile fs1 (path_div source elf_name) (output @ [''ELF'', elf_name]) = (Inr (fst st') :: (bundle_msg, fs) res)"
    using assms(3) by (cases st) (auto simp: bionic_image_def x Let_def res_simps)
  have "confined fs0 output fs1"
    using copy_tree_confined [OF assms(2), of "[framework_name @ ''.framework'']"] t ok by (simp add: framework_dir_below)
  then show ?thesis using copyfile_confined [of fs0 "output" fs1 "[''ELF'', elf_name]"] f ok(2) by simp
qed

lemma bionic_prepare_confined:
  assumes "bionic_prepare std canon_sha contract fs evidence output0 revision = Inr (fs', staged)"
    and "resolve fs output0 = (Inr output :: (bundle_msg, path) res)" and "confined fs output fs"
  shows "confined fs output fs'"
proof -
  obtain fs1 fs2 images source report where mk: "mkdir_parents fs (output @ [''ELF'']) = (Inr fs1 :: (bundle_msg, fs) res)"
    and loop: "foldM (bionic_image std source output report) (fs1, []) BIONIC_IMAGES = Inr (fs2, images)"
    and dump: "dump_json std fs2 (output @ [''ELF'', ''manifest.json'']) staged = (Inr fs' :: (bundle_msg, fs) res)"
    using assms(1,2) by (auto simp: bionic_prepare_def Let_def res_simps split: prod.splits)
  have "confined fs output (fst (fs1, [] :: (string \<times> json) list))" using mkdir_parents_confined [OF assms(3) _ mk] by simp
  then have "confined fs output (fst (fs2, images))"
    by (rule foldM_invariant [OF loop, where P = "\<lambda>st. confined fs output (fst st)"]) (use bionic_image_confined in blast)
  then show ?thesis using dump_confined [of fs "output" fs2 "[''ELF'', ''manifest.json'']"] dump by simp
qed

lemma copy_tree_only_below_target:
  assumes "confined fs d fs" and "''..'' \<notin> set rel" and "rel \<noteq> []" and "copy_tree n ok fs source (d @ rel) = (Inr fs' :: (bundle_msg, fs) res)"
  shows "dirs fs' d \<and> (\<forall>q. \<not> strict_prefix d q \<longrightarrow> map_of fs' q = map_of fs q) \<and> (\<forall>q t. prefix d q \<longrightarrow> map_of fs' q \<noteq> Some (Link t))"
  using copy_tree_confined [OF assms] by (simp add: confined_def)

definition tree_fs :: fs where
  "tree_fs = [([''in''], Dir), ([''in'', ''a''], File [1] None), ([''in'', ''b''], Link ''../c''), ([''c''], File [2] None), ([''out''], Dir)]"

lemma tree_fs_confined: "confined tree_fs [''out''] tree_fs"
proof -
  have "map_of tree_fs q \<noteq> Some (Link t)" if "prefix [''out''] q" for q t
    using that by (auto simp: tree_fs_def prefix_def)
  moreover have "dirs tree_fs [''out'']" by (simp add: dirs_def tree_fs_def take_Cons')
  ultimately show ?thesis by (simp add: confined_def)
qed

lemma tree_fs_copies:
  "(copy_tree 3 False tree_fs [''in''] ([''out''] @ [''t'']) :: (bundle_msg, fs) res) =
     Inr (tree_fs @ [([''out'', ''t''], Dir), ([''out'', ''t'', ''a''], File [1] None), ([''out'', ''t'', ''b''], File [2] None)])"
  by code_simp

lemma copy_tree_only_below_target_witness:
  "(copy_tree 3 False tree_fs [''in''] ([''out''] @ [''t'']) :: (bundle_msg, fs) res) =
     Inr (tree_fs @ [([''out'', ''t''], Dir), ([''out'', ''t'', ''a''], File [1] None), ([''out'', ''t'', ''b''], File [2] None)]) \<and>
   dirs (tree_fs @ [([''out'', ''t''], Dir), ([''out'', ''t'', ''a''], File [1] None), ([''out'', ''t'', ''b''], File [2] None)]) [''out'']"
  using copy_tree_only_below_target [OF tree_fs_confined _ _ tree_fs_copies] tree_fs_copies by simp

end
