(* ===== verification/Jdk.thy ===== *)
theory Jdk
  imports Sources_Install
begin

text \<open>
  The portable JDK, \<^verbatim>\<open>src/scripts/jdk.py\<close>: extraction of a zip or tar archive into an empty tree
  with its file aliases materialised as copies, and the checked installation in the build cache.
  A Python string is modelled by its UTF-8 bytes, so that decoding is a check of validity.
\<close>

section \<open>Data\<close>

datatype (plugins only: code) jdk_msg =
    Jdk_not_empty
  | Jdk_unsafe_path
  | Jdk_root_not_directory
  | Jdk_duplicate
  | Jdk_bounds
  | Jdk_truncated
  | Jdk_unsafe_alias
  | Jdk_hardlink_escapes
  | Jdk_alias_escapes
  | Jdk_unsupported
  | Jdk_alias_cycle
  | Jdk_alias_not_file
  | Jdk_no_platform
  | Jdk_installation_alias
  | Jdk_provenance_differs
  | Jdk_file_changed string
  | Jdk_download_alias
  | Jdk_checksum
  | Jdk_missing_java

record zip_member =
  z_name :: string
  z_attr :: int
  z_size :: int
  z_data :: bytes

datatype archive = Zip "zip_member list" | Tar "member list"

section \<open>Extraction\<close>

record jdk_state =
  js_fs :: fs
  js_seen :: "string list"
  js_links :: "(string \<times> string) list"
  js_total :: int

text \<open>The target of an alias below the root, after normalisation.\<close>

definition alias_target :: "string \<Rightarrow> kind \<Rightarrow> string \<Rightarrow> string \<Rightarrow> (jdk_msg, string) res" where
  "alias_target root kind relative target =
     require (\<not> (target = [] \<or> pure_absolute target \<or> CHR '':'' \<in> set target \<or> BACKSLASH \<in> set target))
       (RuntimeError Jdk_unsafe_alias)
    (bind_res (if kind = KHard then
         require (pure_parts target \<noteq> [] \<and> hd (pure_parts target) = root) (RuntimeError Jdk_hardlink_escapes)
           (Inr (as_posix (tl (pure_parts target))))
       else Inr (posix_join (posix_dirname relative) target)) (\<lambda>t.
     let t' = posix_normpath t in
     require (\<not> (t' = ''..'' \<or> startswith t' ''../'')) (RuntimeError Jdk_alias_escapes) (Inr t')))"

definition jdk_entry ::
  "bool \<Rightarrow> path \<Rightarrow> string \<Rightarrow> jdk_state \<Rightarrow> string \<Rightarrow> kind \<Rightarrow> int \<Rightarrow> int \<Rightarrow> bytes \<Rightarrow> string \<Rightarrow> (jdk_msg, jdk_state) res"
where
  "jdk_entry posix destination root st name kind mode n data target =
     (let parts = pure_parts name in
      require (\<not> (pure_absolute name \<or> ''..'' \<in> set parts \<or> CHR '':'' \<in> set name \<or> BACKSLASH \<in> set name \<or>
          parts = [] \<or> hd parts \<noteq> root)) (RuntimeError Jdk_unsafe_path)
     (let relative = as_posix (tl parts); output = destination @ tl parts in
      if relative = ''.'' then require (kind = KDir) (RuntimeError Jdk_root_not_directory) (Inr st)
      else
        require (casefold relative \<notin> set (js_seen st)) (RuntimeError Jdk_duplicate)
       (let seen = casefold relative # js_seen st; total = js_total st + n;
            st1 = st\<lparr>js_seen := seen, js_total := total\<rparr> in
        require (\<not> (n < 0 \<or> total > 1024 ^ 3 \<or> int (length seen) > 100000)) (RuntimeError Jdk_bounds)
       (case kind of
          KDir \<Rightarrow> bind_res (mkdir_parents (js_fs st) output) (\<lambda>fs. Inr (st1\<lparr>js_fs := fs\<rparr>))
        | KFile \<Rightarrow>
            bind_res (mkdir_parents (js_fs st) (butlast output)) (\<lambda>fs1.
            bind_res (write_bytes fs1 output data) (\<lambda>fs2.
            require (int (length data) = n) (RuntimeError Jdk_truncated)
           (bind_res (if posix then chmod fs2 output (mode AND 511) else Inr fs2) (\<lambda>fs3. Inr (st1\<lparr>js_fs := fs3\<rparr>)))))
        | KOther \<Rightarrow> Inl (RuntimeError Jdk_unsupported)
        | _ \<Rightarrow> bind_res (alias_target root kind relative target) (\<lambda>t.
            Inr (st1\<lparr>js_links := dict_set (js_links st) relative t\<rparr>))))))"

definition S_ISLNK :: "int \<Rightarrow> bool" where
  "S_ISLNK mode \<longleftrightarrow> mode AND 61440 = 40960"

definition zip_entry :: "bool \<Rightarrow> path \<Rightarrow> string \<Rightarrow> jdk_state \<Rightarrow> zip_member \<Rightarrow> (jdk_msg, jdk_state) res" where
  "zip_entry posix destination root st m =
     (let mode = drop_bit 16 (z_attr m) in
      if endswith (z_name m) ''/'' then jdk_entry posix destination root st (z_name m) KDir mode 0 [] []
      else if S_ISLNK mode then
        bind_res (decode_utf8 (z_data m)) (\<lambda>target.
        jdk_entry posix destination root st (z_name m) KSym mode 0 [] target)
      else jdk_entry posix destination root st (z_name m) KFile mode (z_size m) (z_data m) [])"

definition tar_entry :: "bool \<Rightarrow> path \<Rightarrow> string \<Rightarrow> jdk_state \<Rightarrow> member \<Rightarrow> (jdk_msg, jdk_state) res" where
  "tar_entry posix destination root st m =
     jdk_entry posix destination root st (m_name m) (m_kind m) (m_mode m) (m_size m) (m_data m) (m_link m)"

function chase :: "(string \<times> string) list \<Rightarrow> string list \<Rightarrow> string \<Rightarrow> (jdk_msg, string) res" where
  "chase links visited target =
     (case map_of links target of
        None \<Rightarrow> Inr target
      | Some t \<Rightarrow>
          if target \<in> set visited \<or> length visited \<ge> 32 then Inl (RuntimeError Jdk_alias_cycle)
          else chase links (target # visited) t)"
  by pat_completeness auto

termination
  by (relation "measure (\<lambda>(_, visited, _). 32 - length visited)") auto

declare chase.simps [simp del]

definition alias_step :: "path \<Rightarrow> (string \<times> string) list \<Rightarrow> fs \<Rightarrow> string \<times> string \<Rightarrow> (jdk_msg, fs) res" where
  "alias_step destination links fs x =
     (case x of (name, target) \<Rightarrow>
      bind_res (chase links [name] target) (\<lambda>final.
      let source = destination @ pure_parts final; output = destination @ pure_parts name in
      require (is_file fs source \<and> \<not> path_exists fs output) (RuntimeError Jdk_alias_not_file)
     (bind_res (mkdir_parents fs (butlast output)) (\<lambda>fs1. copy2 fs1 source output))))"

definition jdk_entries :: "bool \<Rightarrow> fs \<Rightarrow> archive \<Rightarrow> path \<Rightarrow> string \<Rightarrow> (jdk_msg, jdk_state) res" where
  "jdk_entries posix fs archive destination root =
     (let st0 = \<lparr>js_fs = fs, js_seen = [], js_links = [], js_total = 0\<rparr> in
      case archive of
        Zip members \<Rightarrow> foldM (zip_entry posix destination root) st0 members
      | Tar members \<Rightarrow> foldM (tar_entry posix destination root) st0 members)"

definition jdk_extract :: "bool \<Rightarrow> fs \<Rightarrow> archive \<Rightarrow> path \<Rightarrow> string \<Rightarrow> (jdk_msg, fs) res" where
  "jdk_extract posix fs archive destination root =
     (if is_symlink fs destination then Inl (RuntimeError Jdk_not_empty)
      else if path_exists fs destination \<and> \<not> is_dir fs destination then Inl OSError
      else if any_iterdir fs destination then Inl (RuntimeError Jdk_not_empty)
      else
        bind_res (mkdir_parents fs destination) (\<lambda>fs1.
        bind_res (jdk_entries posix fs1 archive destination root) (\<lambda>st.
        foldM (alias_step destination (js_links st)) (js_fs st) (js_links st))))"

section \<open>Installation\<close>

record jdk_spec =
  jk_name :: string
  jk_bytes :: int
  jk_sha256 :: string
  jk_root :: string
  jk_home :: string

record jdk_manifest =
  jm_version :: string
  jm_repository :: string
  jm_tag :: string
  jm_archives :: "(string \<times> jdk_spec) list"

record jdk_record =
  jr_repository :: string
  jr_tag :: string
  jr_archive :: jdk_spec
  jr_files :: "(string \<times> string) list"

text \<open>
  What the script gets from outside: SHA-256, the release download of \<^verbatim>\<open>gh\<close>, the readers of the
  two archive formats, JSON, the names of fresh temporary directories and the platform.
\<close>

record jdk_host =
  jh_sha256 :: "bytes \<Rightarrow> string"
  jh_release :: "string \<Rightarrow> string \<Rightarrow> string \<Rightarrow> bytes option"
  jh_open_zip :: "bytes \<Rightarrow> zip_member list option"
  jh_open_tar :: "bytes \<Rightarrow> member list option"
  jh_dumps :: "jdk_record \<Rightarrow> bytes"
  jh_loads :: "bytes \<Rightarrow> jdk_record option"
  jh_download_tmp :: string
  jh_install_tmp :: string
  jh_posix :: bool
  jh_platform :: string
  jh_machine :: string

definition machine_key :: "jdk_host \<Rightarrow> string" where
  "machine_key h =
     (let machine = casefold (jh_machine h);
          machine' = (case map_of [(''amd64'', ''x64''), (''x86_64'', ''x64''), (''arm64'', ''aarch64'')] machine of
            None \<Rightarrow> machine | Some v \<Rightarrow> v) in
      jh_platform h @ ''-'' @ machine')"

definition digest :: "jdk_host \<Rightarrow> fs \<Rightarrow> path \<Rightarrow> ('m, string) res" where
  "digest h fs p = bind_res (read_bytes fs p) (\<lambda>data. Inr (jh_sha256 h data))"

definition jdk_verify :: "jdk_host \<Rightarrow> jdk_spec \<Rightarrow> fs \<Rightarrow> path \<Rightarrow> (jdk_msg, unit) res" where
  "jdk_verify h spec fs p =
     bind_res (read_bytes fs p) (\<lambda>data.
     require (int (length data) = jk_bytes spec \<and> jh_sha256 h data = jk_sha256 spec) (RuntimeError Jdk_checksum) (Inr ()))"

definition check_installed :: "jdk_host \<Rightarrow> jdk_spec \<Rightarrow> fs \<Rightarrow> path \<Rightarrow> (jdk_msg, unit) res" where
  "check_installed h spec fs installed =
     bind_res (read_bytes fs (installed @ [''artbox-jdk.json''])) (\<lambda>data.
     bind_res (of_option (ValueError Jdk_provenance_differs) (jh_loads h data)) (\<lambda>rec.
     require (jr_archive rec = spec) (RuntimeError Jdk_provenance_differs)
    (foldM (\<lambda>_ x. case x of (name, expected) \<Rightarrow>
        require (\<not> is_symlink fs (path_div installed name)) (RuntimeError (Jdk_file_changed name))
       (bind_res (digest h fs (path_div installed name)) (\<lambda>found.
        require (found = expected) (RuntimeError (Jdk_file_changed name)) (Inr ())))) () (jr_files rec))))"

text \<open>Obtaining the archive: the download is staged, verified and then moved into place.\<close>

definition jdk_download :: "jdk_host \<Rightarrow> jdk_manifest \<Rightarrow> jdk_spec \<Rightarrow> fs \<Rightarrow> path \<Rightarrow> (jdk_msg, fs) res" where
  "jdk_download h manifest spec fs downloads =
     (let stage = downloads @ [''jdk-download-'' @ jh_download_tmp h]; partial = path_div stage (jk_name spec) in
      bind_res (make_temporary fs stage) (\<lambda>fs1.
      bind_res (of_option CalledProcessError (jh_release h (jm_tag manifest) (jm_repository manifest) (jk_name spec))) (\<lambda>data.
      bind_res (write_bytes fs1 partial data) (\<lambda>fs2.
      bind_res (jdk_verify h spec fs2 partial) (\<lambda>_.
      bind_res (replace_path fs2 partial (path_div downloads (jk_name spec))) (\<lambda>fs3. Inr (rmtree fs3 stage)))))))"

text \<open>The files of the tree with their digests.\<close>

definition digests :: "jdk_host \<Rightarrow> fs \<Rightarrow> path \<Rightarrow> ('m, (string \<times> string) list) res" where
  "digests h fs d =
     mapM (\<lambda>rel. bind_res (digest h fs (d @ rel)) (\<lambda>x. Inr (as_posix rel, x))) (rglob_files fs d)"

definition open_archive :: "jdk_host \<Rightarrow> string \<Rightarrow> bytes \<Rightarrow> ('m, archive) res" where
  "open_archive h name data =
     (if endswith name ''.zip'' then bind_res (of_option ZipError (jh_open_zip h data)) (\<lambda>ms. Inr (Zip ms))
      else bind_res (of_option TarError (jh_open_tar h data)) (\<lambda>ms. Inr (Tar ms)))"

definition jdk_install :: "jdk_host \<Rightarrow> jdk_manifest \<Rightarrow> jdk_spec \<Rightarrow> fs \<Rightarrow> path \<Rightarrow> path \<Rightarrow> (jdk_msg, fs) res" where
  "jdk_install h manifest spec fs archive installed =
     (let stage = butlast installed @ [''jdk-install-'' @ jh_install_tmp h]; destination = stage @ [''jdk''];
          home = path_div destination (jk_home spec) in
      bind_res (mkdir_parents fs (butlast installed)) (\<lambda>fs1.
      bind_res (make_temporary fs1 stage) (\<lambda>fs2.
      bind_res (read_bytes fs2 archive) (\<lambda>data.
      bind_res (open_archive h (last archive) data) (\<lambda>entries.
      bind_res (jdk_extract (jh_posix h) fs2 entries destination (jk_root spec)) (\<lambda>fs3.
      require (is_file fs3 (home @ [''bin'', if jh_posix h then ''java'' else ''java.exe''])) (RuntimeError Jdk_missing_java)
     (bind_res (digests h fs3 destination) (\<lambda>files.
      let rec = \<lparr>jr_repository = jm_repository manifest, jr_tag = jm_tag manifest, jr_archive = spec, jr_files = files\<rparr> in
      bind_res (write_bytes fs3 (destination @ [''artbox-jdk.json'']) (jh_dumps h rec)) (\<lambda>fs4.
      bind_res (replace_path fs4 destination installed) (\<lambda>fs5. Inr (rmtree fs5 stage)))))))))))"

definition jdk_installed :: "jdk_host \<Rightarrow> jdk_manifest \<Rightarrow> path \<Rightarrow> path" where
  "jdk_installed h manifest cache = cache @ [''toolchains'', ''temurin-'' @ jm_version manifest @ ''-'' @ machine_key h]"

definition jdk_obtain ::
  "jdk_host \<Rightarrow> jdk_manifest \<Rightarrow> fs \<Rightarrow> path \<Rightarrow> (jdk_msg, fs \<times> path \<times> jdk_spec) res" where
  "jdk_obtain h manifest fs cache =
     bind_res (of_option (RuntimeError Jdk_no_platform) (map_of (jm_archives manifest) (machine_key h))) (\<lambda>spec.
     let downloads = cache @ [''downloads'', ''classlib-jdk'']; installed = jdk_installed h manifest cache;
         archive = path_div downloads (jk_name spec) in
     require (\<not> is_symlink fs installed) (RuntimeError Jdk_installation_alias)
    (if is_dir fs installed then
       bind_res (check_installed h spec fs installed) (\<lambda>_. Inr (fs, path_div installed (jk_home spec), spec))
     else
       bind_res (mkdir_parents fs downloads) (\<lambda>fs1.
       require (\<not> is_symlink fs1 archive) (RuntimeError Jdk_download_alias)
      (bind_res (if is_file fs1 archive then Inr fs1 else jdk_download h manifest spec fs1 downloads) (\<lambda>fs2.
       bind_res (jdk_verify h spec fs2 archive) (\<lambda>_.
       bind_res (jdk_install h manifest spec fs2 archive installed) (\<lambda>fs3.
       Inr (fs3, path_div installed (jk_home spec), spec))))))))"

section \<open>Aliases stay inside\<close>

lemma prefix_dropWhile_rev: "prefix (rev (dropWhile P (rev p))) p"
  by (metis dropWhile_eq_drop rev_drop rev_rev_ident take_is_prefix)

lemma prefix_dirname: "prefix (posix_dirname p) p"
proof -
  define head where "head = rev (dropWhile (\<lambda>c. c \<noteq> SLASH) (rev p))"
  have "prefix head p" "prefix (rev (dropWhile (\<lambda>c. c = SLASH) (rev head))) head"
    unfolding head_def by (rule prefix_dropWhile_rev)+
  moreover from this have "prefix (rev (dropWhile (\<lambda>c. c = SLASH) (rev head))) p" by (rule prefix_order.trans [rotated])
  ultimately show ?thesis unfolding posix_dirname_def Let_def head_def [symmetric] by simp
qed

lemma not_absolute_join:
  assumes "\<not> startswith a ''/''" and "\<not> startswith b ''/''"
  shows "\<not> startswith (posix_join a b) ''/''"
  using assms by (cases a) (auto simp: posix_join_def startswith_def)

lemma not_absolute_as_posix:
  assumes "\<forall>w \<in> set ws. w \<noteq> [] \<and> SLASH \<notin> set w"
  shows "\<not> startswith (as_posix ws) ''/''"
proof (cases ws)
  case (Cons w vs)
  then obtain c cs where "w = c # cs" "c \<noteq> SLASH" using assms by (cases w) auto
  then show ?thesis using Cons by (cases vs) (auto simp: as_posix_def startswith_def SLASH_def)
qed (simp add: as_posix_def startswith_def)

lemma alias_target_clean:
  assumes "alias_target root kind relative target = Inr t" and "\<not> startswith relative ''/''"
  shows "\<exists>parts. clean parts \<and> t = as_posix parts"
proof -
  have g: "\<not> startswith target ''/''" using assms(1) by (simp add: alias_target_def require_Inr_iff pure_absolute_def)
  define u where "u = (if kind = KHard then as_posix (tl (pure_parts target)) else posix_join (posix_dirname relative) target)"
  have u: "t = posix_normpath u" "posix_normpath u \<noteq> ''..''" "\<not> startswith (posix_normpath u) ''../''"
    using assms(1) by (auto simp: alias_target_def Let_def res_simps u_def split: if_splits)
  have "\<not> startswith (as_posix (tl (pure_parts target))) ''/''"
  proof (rule not_absolute_as_posix)
    have "pure_parts target = rel_parts target" using g by (simp add: pure_parts_def initial_slashes_def)
    then have "set (tl (pure_parts target)) \<subseteq> set (rel_parts target)" by (metis list.set_sel(2) subsetI tl_Nil)
    then show "\<forall>w \<in> set (tl (pure_parts target)). w \<noteq> [] \<and> SLASH \<notin> set w" using rel_parts_words by blast
  qed
  moreover have "\<not> startswith (posix_dirname relative) ''/''"
    using assms(2) prefix_dirname [of relative] prefix_order.trans unfolding startswith_def by blast
  ultimately have "\<not> startswith u ''/''" using g not_absolute_join by (simp add: u_def)
  then have "initial_slashes u = 0" by (simp add: initial_slashes_def)
  then show ?thesis using normpath_inside u by blast
qed

text \<open>The names and the final targets of the recorded aliases.\<close>

definition alias_ok :: "string \<times> string \<Rightarrow> bool" where
  "alias_ok x \<longleftrightarrow> (\<exists>parts. clean parts \<and> parts \<noteq> [] \<and> fst x = as_posix parts) \<and> (\<exists>parts. clean parts \<and> snd x = as_posix parts)"

lemma chase_target:
  "chase links visited target = Inr t \<Longrightarrow> (t = target \<or> t \<in> snd ` set links) \<and> map_of links t = None"
proof (induction links visited target rule: chase.induct)
  case (1 links visited target)
  show ?case
  proof (cases "map_of links target")
    case None
    then show ?thesis using 1(2) by (simp add: chase.simps)
  next
    case (Some u)
    then have c: "chase links (target # visited) u = Inr t" and g: "\<not> (target \<in> set visited \<or> 32 \<le> length visited)"
      using 1(2) by (auto simp: chase.simps [of links visited] split: if_splits)
    show ?thesis using 1(1) [OF Some g c] map_of_SomeD [OF Some] by force
  qed
qed

section \<open>The extraction stays below its destination\<close>

definition jdk_inv :: "fs \<Rightarrow> path \<Rightarrow> jdk_state \<Rightarrow> bool" where
  "jdk_inv fs0 d st \<longleftrightarrow> confined fs0 d (js_fs st) \<and> list_all alias_ok (js_links st) \<and> distinct (dict_keys (js_links st))"

lemma clean_dots: "clean ws \<Longrightarrow> ''..'' \<notin> set ws"
  by (auto simp: clean_def clean_part_def list_all_iff)

lemma list_all_dict_set: "list_all P d \<Longrightarrow> P (k, v) \<Longrightarrow> list_all P (dict_set d k v)"
  by (induction d k v rule: dict_set.induct) auto

lemma jdk_entry_inv:
  assumes inv: "jdk_inv fs0 d st" and pre: "''..'' \<notin> set pre"
    and e: "jdk_entry posix (d @ pre) root st name kind mode n data target = Inr st'"
  shows "jdk_inv fs0 d st'"
proof -
  define parts where "parts = pure_parts name"
  have g: "\<not> startswith name ''/''" "''..'' \<notin> set parts"
    using e by (auto simp: jdk_entry_def Let_def require_Inr_iff parts_def pure_absolute_def)
  then have "clean parts" using rel_parts_clean [of name] by (simp add: parts_def pure_parts_def initial_slashes_def)
  then have cl: "clean (tl parts)" using clean_drop [of parts 1] by (simp add: drop_Suc)
  note nd = clean_dots [OF cl]
  have c: "confined fs0 d (js_fs st)" and links: "list_all alias_ok (js_links st)" "distinct (dict_keys (js_links st))"
    using inv by (auto simp: jdk_inv_def)
  show ?thesis
  proof (cases "as_posix (tl parts) = ''.''")
    case True
    then show ?thesis using e inv by (auto simp: jdk_entry_def Let_def require_Inr_iff parts_def [symmetric])
  next
    case False
    then have ne: "tl parts \<noteq> []" by (auto simp: as_posix_def)
    let ?o = "d @ pre @ tl parts"
    have bo: "butlast ?o = d @ pre @ butlast (tl parts)" using ne by (simp add: butlast_append)
    have dots: "''..'' \<notin> set (pre @ tl parts)" "''..'' \<notin> set (pre @ butlast (tl parts))"
      using pre nd by (auto dest: in_set_butlastD)
    have aliased: ?thesis if k: "kind \<in> {KSym, KHard}"
    proof -
      obtain t where t: "alias_target root kind (as_posix (tl parts)) target = Inr t"
        "js_fs st' = js_fs st" "js_links st' = dict_set (js_links st) (as_posix (tl parts)) t"
        using e False k by (auto simp: jdk_entry_def Let_def res_simps parts_def [symmetric] split: kind.splits)
      then have "alias_ok (as_posix (tl parts), t)"
        using alias_target_clean [OF t(1)] cl ne as_posix_not_absolute [OF cl] by (auto simp: alias_ok_def pure_absolute_def)
      then show ?thesis
        using c links list_all_dict_set [OF links(1)] distinct_dict_set [OF links(2)] unfolding jdk_inv_def t(2,3) by blast
    qed
    show ?thesis
    proof (cases kind)
      case KDir
      then obtain fs where "mkdir_parents (js_fs st) ?o = (Inr fs :: (jdk_msg, fs) res)" "js_fs st' = fs" "js_links st' = js_links st"
        using e False by (auto simp: jdk_entry_def Let_def res_simps parts_def [symmetric])
      then show ?thesis using mkdir_parents_confined [OF c dots(1)] links by (simp add: jdk_inv_def)
    next
      case KFile
      then obtain fs1 fs2 fs3 where fs1: "mkdir_parents (js_fs st) (butlast ?o) = (Inr fs1 :: (jdk_msg, fs) res)"
        and fs2: "write_bytes fs1 ?o data = (Inr fs2 :: (jdk_msg, fs) res)"
        and fs3: "(if posix then chmod fs2 ?o (mode AND 511) else Inr fs2) = (Inr fs3 :: (jdk_msg, fs) res)"
        and st': "js_fs st' = fs3" "js_links st' = js_links st"
        using e False by (auto simp: jdk_entry_def Let_def res_simps parts_def [symmetric])
      have c1: "confined fs0 d fs1" using mkdir_parents_confined [OF c dots(2)] fs1 bo by simp
      have c2: "confined fs0 d fs2" using write_confined [OF c1 dots(1) _ fs2] ne by simp
      have "confined fs0 d fs3" using fs3 c2 chmod_confined [OF c2 dots(1)] ne by (auto split: if_splits)
      then show ?thesis using links st' by (simp add: jdk_inv_def)
    next
      case KOther
      then show ?thesis using e False by (simp add: jdk_entry_def Let_def require_Inr_iff parts_def [symmetric])
    qed (use aliased in simp_all)
  qed
qed

lemma zip_entry_inv: "jdk_inv fs0 d st \<Longrightarrow> ''..'' \<notin> set pre \<Longrightarrow> zip_entry posix (d @ pre) root st m = Inr st' \<Longrightarrow> jdk_inv fs0 d st'"
  by (auto simp: zip_entry_def Let_def bind_res_Inr_iff split: if_splits intro: jdk_entry_inv)

lemma tar_entry_inv: "jdk_inv fs0 d st \<Longrightarrow> ''..'' \<notin> set pre \<Longrightarrow> tar_entry posix (d @ pre) root st m = Inr st' \<Longrightarrow> jdk_inv fs0 d st'"
  by (auto simp: tar_entry_def intro: jdk_entry_inv)

section \<open>Aliases are copies of internal files\<close>

lemma alias_step_copies:
  assumes c: "confined fs0 d fs" and pre: "''..'' \<notin> set pre" and links: "list_all alias_ok links" and x: "alias_ok (name, target)"
    and r: "alias_step (d @ pre) links fs (name, target) = Inr fs'"
  shows "confined fs0 d fs' \<and> (\<forall>rel bs m. stored fs d rel bs m \<longrightarrow> stored fs' d rel bs m) \<and>
    (\<exists>final bs m m'. chase links [name] target = Inr final \<and> stored fs d (pre @ pure_parts final) bs m \<and>
       stored fs' d (pre @ pure_parts name) bs m' \<and> (m \<noteq> None \<longrightarrow> m' = m))"
proof -
  obtain final fs1 where final: "chase links [name] target = Inr final"
    and g: "is_file fs ((d @ pre) @ pure_parts final)" "\<not> path_exists fs (d @ pre @ pure_parts name)"
    and fs1: "mkdir_parents fs (butlast (d @ pre @ pure_parts name)) = (Inr fs1 :: (jdk_msg, fs) res)"
    and cp: "copy2 fs1 (d @ pre @ pure_parts final) (d @ pre @ pure_parts name) = (Inr fs' :: (jdk_msg, fs) res)"
    using r by (auto simp: alias_step_def Let_def res_simps)
  obtain ps where ps: "clean ps" "ps \<noteq> []" "name = as_posix ps" using x by (auto simp: alias_ok_def)
  then have nm: "pure_parts name = ps" using pure_parts_as_posix by simp
  have "\<exists>ts. clean ts \<and> final = as_posix ts"
    using chase_target [OF final] links x by (auto simp: alias_ok_def list_all_iff)
  then have fin: "''..'' \<notin> set (pure_parts final)" using pure_parts_as_posix clean_dots by auto
  have dots: "''..'' \<notin> set (pre @ pure_parts final)" "''..'' \<notin> set (pre @ pure_parts name)" "''..'' \<notin> set (pre @ butlast ps)"
    using pre fin clean_dots [OF ps(1)] nm by (auto dest: in_set_butlastD)
  have "butlast (d @ pre @ pure_parts name) = d @ pre @ butlast ps" using nm ps(2) by (simp add: butlast_append)
  then have c1: "confined fs0 d fs1" using mkdir_parents_confined [OF c dots(3)] fs1 by simp
  have keep: "stored fs1 d rel bs m" if "stored fs d rel bs m" for rel bs m
    using stored_keep [OF that] mkdir_parents_keeps [OF fs1] by blast
  obtain n bs m m' where cp': "confined fs0 d fs'" "stored fs1 d (pre @ pure_parts final) bs m"
    "stored fs' d (pre @ pure_parts name) bs m'" "m \<noteq> None \<longrightarrow> m' = m"
    "fs' = dict_set fs1 (d @ pre @ pure_parts name) n"
    using copy2_stored [OF c1 dots(1,2) _ cp] ps(2) nm by (metis append_is_Nil_conv)
  have "stored fs' d rel bs m" if st: "stored fs d rel bs m" for rel bs m
  proof -
    have "\<forall>i. 0 < i \<and> i \<le> length rel \<longrightarrow> d @ pre @ pure_parts name \<noteq> d @ take i rel"
      using stored_exists [OF c st] g(2) by metis
    then show ?thesis using cp'(5) stored_update keep [OF st] by metis
  qed
  moreover obtain b0 m0 where "stored fs d (pre @ pure_parts final) b0 m0"
    using g(1) stat_stored [OF c dots(1)] by (auto simp: is_file_def split: option.splits node.splits)
  moreover from this have "b0 = bs" "m0 = m" using keep cp'(2) by (auto simp: stored_def)
  ultimately show ?thesis using cp' final by blast
qed

lemma jdk_entries_inv:
  assumes c: "confined fs0 d fs" and pre: "''..'' \<notin> set pre" and e: "jdk_entries posix fs archive (d @ pre) root = Inr st"
  shows "jdk_inv fs0 d st"
proof -
  have "jdk_inv fs0 d \<lparr>js_fs = fs, js_seen = [], js_links = [], js_total = 0\<rparr>" using c by (simp add: jdk_inv_def)
  then show ?thesis
  proof (cases archive)
    case (Zip members)
    then have "foldM (zip_entry posix (d @ pre) root) \<lparr>js_fs = fs, js_seen = [], js_links = [], js_total = 0\<rparr> members = Inr st"
      using e by (simp add: jdk_entries_def Let_def)
    then show ?thesis by (rule foldM_invariant [where P = "jdk_inv fs0 d"]) (fact, rule zip_entry_inv [OF _ pre])
  next
    case (Tar members)
    then have "foldM (tar_entry posix (d @ pre) root) \<lparr>js_fs = fs, js_seen = [], js_links = [], js_total = 0\<rparr> members = Inr st"
      using e by (simp add: jdk_entries_def Let_def)
    then show ?thesis by (rule foldM_invariant [where P = "jdk_inv fs0 d"]) (fact, rule tar_entry_inv [OF _ pre])
  qed
qed

definition copied :: "fs \<Rightarrow> path \<Rightarrow> path \<Rightarrow> (string \<times> string) list \<Rightarrow> string \<times> string \<Rightarrow> bool" where
  "copied fs d pre links x \<longleftrightarrow> (\<exists>final bs m m'. chase links [fst x] (snd x) = Inr final \<and>
     stored fs d (pre @ pure_parts final) bs m \<and> stored fs d (pre @ pure_parts (fst x)) bs m' \<and> (m \<noteq> None \<longrightarrow> m' = m))"

lemma alias_loop:
  assumes "confined fs0 d fs" and pre: "''..'' \<notin> set pre" and links: "list_all alias_ok links" and "list_all alias_ok xs"
    and "foldM (alias_step (d @ pre) links) fs xs = Inr fs'"
  shows "confined fs0 d fs' \<and> list_all (copied fs' d pre links) xs \<and> (\<forall>rel bs m. stored fs d rel bs m \<longrightarrow> stored fs' d rel bs m)"
  using assms(1,4,5)
proof (induction xs arbitrary: fs)
  case Nil
  then show ?case by simp
next
  case (Cons x xs)
  obtain name target where x: "x = (name, target)" by (cases x)
  obtain fs1 where fs1: "alias_step (d @ pre) links fs (name, target) = Inr fs1" "foldM (alias_step (d @ pre) links) fs1 xs = Inr fs'"
    using Cons.prems(3) x by (auto simp: bind_res_Inr_iff)
  have xok: "alias_ok (name, target)" using Cons.prems(2) x by simp
  note s = alias_step_copies [OF Cons.prems(1) pre links xok fs1(1)]
  have IH: "confined fs0 d fs'" "list_all (copied fs' d pre links) xs" "\<forall>rel bs m. stored fs1 d rel bs m \<longrightarrow> stored fs' d rel bs m"
    using Cons.IH [OF _ _ fs1(2)] s Cons.prems(2) by auto
  moreover have "copied fs' d pre links x" using s IH(3) unfolding copied_def x fst_conv snd_conv by blast
  ultimately show ?case using s by auto
qed


section \<open>What an obtained JDK has passed\<close>

text \<open>
  C15. When \<^verbatim>\<open>obtain\<close> returns a JDK, it is the one pinned for this
  platform: either the installed tree was kept, its record names exactly this pin and every
  recorded file was read and has the recorded digest; or it was installed from a download
  whose length and SHA-256 are the pinned ones.
\<close>

theorem jdk_obtain_checked:
  assumes ok: "jdk_obtain h manifest fs cache = Inr (fs', home, spec)"
  shows "map_of (jm_archives manifest) (machine_key h) = Some spec \<and>
    home = path_div (jdk_installed h manifest cache) (jk_home spec) \<and>
    ((fs' = fs \<and> (\<exists>data rec. (read_bytes fs (jdk_installed h manifest cache @ [''artbox-jdk.json'']) :: (jdk_msg, bytes) res) = Inr data \<and>
        jh_loads h data = Some rec \<and> jr_archive rec = spec \<and>
        (\<forall>(name, expected) \<in> set (jr_files rec). \<exists>bs.
          (read_bytes fs (path_div (jdk_installed h manifest cache) name) :: (jdk_msg, bytes) res) = Inr bs \<and> jh_sha256 h bs = expected))) \<or>
     (\<exists>fs2 data. (read_bytes fs2 (path_div (cache @ [''downloads'', ''classlib-jdk'']) (jk_name spec)) :: (jdk_msg, bytes) res) = Inr data \<and>
        int (length data) = jk_bytes spec \<and> jh_sha256 h data = jk_sha256 spec \<and>
        jdk_install h manifest spec fs2 (path_div (cache @ [''downloads'', ''classlib-jdk'']) (jk_name spec))
          (jdk_installed h manifest cache) = Inr fs'))"
proof (cases "is_dir fs (jdk_installed h manifest cache)")
  case True
  then have r: "map_of (jm_archives manifest) (machine_key h) = Some spec" "fs' = fs"
      "home = path_div (jdk_installed h manifest cache) (jk_home spec)"
      "check_installed h spec fs (jdk_installed h manifest cache) = Inr ()"
    using ok by (auto simp: jdk_obtain_def Let_def res_simps)
  then obtain data rec where d: "(read_bytes fs (jdk_installed h manifest cache @ [''artbox-jdk.json'']) :: (jdk_msg, bytes) res) = Inr data"
      "jh_loads h data = Some rec" "jr_archive rec = spec"
    and files: "\<forall>x \<in> set (jr_files rec). (case x of (name, expected) \<Rightarrow>
        require (\<not> is_symlink fs (path_div (jdk_installed h manifest cache) name)) (RuntimeError (Jdk_file_changed name))
       (bind_res (digest h fs (path_div (jdk_installed h manifest cache) name)) (\<lambda>found.
        require (found = expected) (RuntimeError (Jdk_file_changed name)) (Inr ())))) = Inr ()"
    by (auto simp: check_installed_def res_simps foldM_unit_iff)
  have "\<exists>bs. (read_bytes fs (path_div (jdk_installed h manifest cache) name) :: (jdk_msg, bytes) res) = Inr bs \<and> jh_sha256 h bs = expected"
    if "(name, expected) \<in> set (jr_files rec)" for name expected
    using files that by (force simp: digest_def res_simps)
  then show ?thesis using r d by blast
next
  case False
  then show ?thesis using ok by (auto simp: jdk_obtain_def jdk_verify_def Let_def res_simps)
qed

section \<open>A concrete archive\<close>

definition j_archive :: archive where
  "j_archive = Tar
    [\<lparr>m_name = ''jdk'', m_kind = KDir, m_size = 0, m_link = [], m_mode = 493, m_data = []\<rparr>,
     \<lparr>m_name = ''jdk/bin/java'', m_kind = KFile, m_size = 2, m_link = [], m_mode = 493, m_data = [1, 2]\<rparr>,
     \<lparr>m_name = ''jdk/legal/a'', m_kind = KSym, m_size = 0, m_link = ''../bin/j2'', m_mode = 511, m_data = []\<rparr>,
     \<lparr>m_name = ''jdk/bin/j2'', m_kind = KHard, m_size = 0, m_link = ''jdk/bin/java'', m_mode = 493, m_data = []\<rparr>]"

definition j_fs :: fs where
  "j_fs = [([''c''], Dir)]"

definition j_links :: "(string \<times> string) list" where
  "j_links = [(''legal/a'', ''bin/j2''), (''bin/j2'', ''bin/java'')]"

definition j_spec :: jdk_spec where
  "j_spec = \<lparr>jk_name = ''jdk.tar.gz'', jk_bytes = 3, jk_sha256 = ''d'', jk_root = ''jdk'', jk_home = ''.''\<rparr>"

definition j_manifest :: jdk_manifest where
  "j_manifest = \<lparr>jm_version = ''17'', jm_repository = ''o/r'', jm_tag = ''t'', jm_archives = [(''linux-x64'', j_spec)]\<rparr>"

definition j_host :: jdk_host where
  "j_host = \<lparr>jh_sha256 = (\<lambda>_. ''d''), jh_release = (\<lambda>_ _ _. Some [7, 8, 9]), jh_open_zip = (\<lambda>_. None),
     jh_open_tar = (\<lambda>_. case j_archive of Tar ms \<Rightarrow> Some ms | _ \<Rightarrow> None), jh_dumps = (\<lambda>_. [42]), jh_loads = (\<lambda>_. None),
     jh_download_tmp = ''d0'', jh_install_tmp = ''i0'', jh_posix = True, jh_platform = ''linux'', jh_machine = ''AMD64''\<rparr>"

definition j_tree :: fs where
  "j_tree = [([''c''], Dir), ([''c'', ''out''], Dir), ([''c'', ''out'', ''bin''], Dir),
     ([''c'', ''out'', ''bin'', ''java''], File [1, 2] (Some 493)), ([''c'', ''out'', ''legal''], Dir),
     ([''c'', ''out'', ''legal'', ''a''], File [1, 2] (Some 493)), ([''c'', ''out'', ''bin'', ''j2''], File [1, 2] (Some 493))]"

lemma j_extract: "jdk_extract True j_fs j_archive ([''c''] @ [''out'']) ''jdk'' = Inr j_tree"
  by code_simp

lemma j_obtain: "is_ok (jdk_obtain j_host j_manifest j_fs [''c''])"
  by code_simp

lemma j_confined: "confined j_fs [''c''] j_fs"
proof -
  have "take i [''c''] = [''c'']" if "0 < i" for i using that by (cases i) auto
  then show ?thesis by (simp add: confined_def dirs_def j_fs_def)
qed


theorem jdk_obtain_checked_witness:
  "\<exists>fs' home. jdk_obtain j_host j_manifest j_fs [''c''] = Inr (fs', home, j_spec) \<and>
     home = path_div (jdk_installed j_host j_manifest [''c'']) (jk_home j_spec)"
proof -
  obtain fs' home spec where r: "jdk_obtain j_host j_manifest j_fs [''c''] = Inr (fs', home, spec)"
    using j_obtain by (auto simp: is_ok_iff)
  moreover have "machine_key j_host = ''linux-x64''" by code_simp
  ultimately show ?thesis using jdk_obtain_checked [OF r] by (auto simp: j_manifest_def)
qed

end
