(* ===== verification/Ndk.thy ===== *)
theory Ndk
  imports Jdk
begin

text \<open>
  The pinned NDK, \<^verbatim>\<open>src/scripts/ndk.py\<close>: extraction of a zip archive with its symbolic links kept
  as links, and the checked installation.  Downloading, digests and the zip reader are fields of
  a record.
\<close>

section \<open>The program\<close>

definition REVISION :: string where
  "REVISION = ''28.2.13676358''"

definition NDK_NAME :: string where
  "NDK_NAME = ''android-ndk-r28c''"

definition ARCHIVES :: "(string \<times> string \<times> int \<times> string) list" where
  "ARCHIVES =
    [(''win32'', ''windows'', 748118221, ''086bba43ff2f5eb0e387b15c8278bb4e0d89ba1d''),
     (''darwin'', ''darwin'', 952495160, ''fc20a6bf15a30fb3428c9b60a7308793a362dc6d''),
     (''linux'', ''linux'', 722261334, ''a7b54a5de87fecd125a17d54f73c446199e72a64'')]"

datatype (plugins only: code) ndk_msg =
    Ndk_revision
  | Ndk_unsafe_path
  | Ndk_unexpected_root
  | Ndk_symlink_escapes
  | Ndk_no_host
  | Ndk_verification_failed string

definition checked_root :: "fs \<Rightarrow> path \<Rightarrow> (ndk_msg, path) res" where
  "checked_root fs p =
     bind_res (read_bytes fs (p @ [''source.properties''])) (\<lambda>data.
     bind_res (decode_utf8 data) (\<lambda>properties.
     require (contains (''Pkg.Revision = '' @ REVISION) properties) (RuntimeError Ndk_revision) (Inr p)))"

record ndk_state =
  nx_fs :: fs
  nx_links :: "(path \<times> string) list"

text \<open>\<^verbatim>\<open>directory / target\<close>, then \<^verbatim>\<open>resolve()\<close>: the components of the target are walked after those of the directory.\<close>

definition ndk_member :: "bool \<Rightarrow> path \<Rightarrow> ndk_state \<Rightarrow> zip_member \<Rightarrow> (ndk_msg, ndk_state) res" where
  "ndk_member posix destination st m =
     (let parts = pure_parts (z_name m); p = destination @ parts; mode = drop_bit 16 (z_attr m) in
      require (\<not> (pure_absolute (z_name m) \<or> ''..'' \<in> set parts \<or> BACKSLASH \<in> set (z_name m) \<or> CHR '':'' \<in> set (z_name m)))
        (RuntimeError Ndk_unsafe_path)
     (require (parts \<noteq> [] \<and> hd parts = NDK_NAME) (RuntimeError Ndk_unexpected_root)
     (if endswith (z_name m) ''/'' then
        bind_res (mkdir_parents (nx_fs st) p) (\<lambda>fs. Inr (st\<lparr>nx_fs := fs\<rparr>))
      else if S_ISLNK mode then
        bind_res (decode_utf8 (z_data m)) (\<lambda>target.
        bind_res (resolve (nx_fs st) (path_div (butlast p) target)) (\<lambda>resolved.
        bind_res (resolve (nx_fs st) destination) (\<lambda>base.
        require (\<not> (pure_absolute target \<or> \<not> prefix base resolved)) (RuntimeError Ndk_symlink_escapes)
          (Inr (st\<lparr>nx_links := nx_links st @ [(p, target)]\<rparr>)))))
      else
        bind_res (mkdir_parents (nx_fs st) (butlast p)) (\<lambda>fs1.
        bind_res (write_bytes fs1 p (z_data m)) (\<lambda>fs2.
        bind_res (if posix \<and> mode \<noteq> 0 then chmod fs2 p (mode AND 511) else Inr fs2) (\<lambda>fs3.
        Inr (st\<lparr>nx_fs := fs3\<rparr>)))))))"

definition ndk_link :: "fs \<Rightarrow> path \<times> string \<Rightarrow> (ndk_msg, fs) res" where
  "ndk_link fs x = (case x of (p, target) \<Rightarrow>
     bind_res (mkdir_parents fs (butlast p)) (\<lambda>fs1. symlink_to fs1 p target))"

definition ndk_extract :: "bool \<Rightarrow> fs \<Rightarrow> zip_member list \<Rightarrow> path \<Rightarrow> (ndk_msg, fs) res" where
  "ndk_extract posix fs members destination =
     bind_res (foldM (ndk_member posix destination) \<lparr>nx_fs = fs, nx_links = []\<rparr> members) (\<lambda>st.
     foldM ndk_link (nx_fs st) (nx_links st))"

record ndk_host =
  nh_download :: "string \<Rightarrow> bytes option"
  nh_sha1 :: "bytes \<Rightarrow> string"
  nh_sha256 :: "bytes \<Rightarrow> string"
  nh_open_zip :: "bytes \<Rightarrow> zip_member list option"
  nh_tmp :: string
  nh_posix :: bool
  nh_platform :: string
  nh_configured :: "path option"

definition ndk_fetch :: "ndk_host \<Rightarrow> fs \<Rightarrow> path \<Rightarrow> string \<Rightarrow> (ndk_msg, fs) res" where
  "ndk_fetch h fs downloads base =
     (let archive = downloads @ [base @ ''.zip''] in
      if is_file fs archive then Inr fs
      else
        let partial = downloads @ [base @ ''.zip.part''] in
        bind_res (of_option OSError (nh_download h (''https://dl.google.com/android/repository/'' @ base @ ''.zip''))) (\<lambda>data.
        bind_res (write_bytes fs partial data) (\<lambda>fs1.
        replace_path fs1 partial archive)))"

definition ndk_install :: "ndk_host \<Rightarrow> fs \<Rightarrow> bytes \<Rightarrow> path \<Rightarrow> (ndk_msg, fs) res" where
  "ndk_install h fs data toolchains =
     (let stage = toolchains @ [''ndk-'' @ nh_tmp h] in
      bind_res (mkdir_parents fs toolchains) (\<lambda>fs1.
      bind_res (make_temporary fs1 stage) (\<lambda>fs2.
      bind_res (of_option ZipError (nh_open_zip h data)) (\<lambda>members.
      bind_res (ndk_extract (nh_posix h) fs2 members stage) (\<lambda>fs3.
      bind_res (checked_root fs3 (stage @ [NDK_NAME])) (\<lambda>root.
      bind_res (replace_path fs3 root (toolchains @ [NDK_NAME])) (\<lambda>fs4. Inr (rmtree fs4 stage))))))))"

definition ndk_obtain :: "ndk_host \<Rightarrow> fs \<Rightarrow> path \<Rightarrow> (ndk_msg, fs \<times> path) res" where
  "ndk_obtain h fs cache =
     (case nh_configured h of
        Some configured \<Rightarrow>
          bind_res (resolve fs configured) (\<lambda>real. bind_res (checked_root fs real) (\<lambda>p. Inr (fs, p)))
      | None \<Rightarrow>
          let toolchains = cache @ [''toolchains'']; installed = toolchains @ [NDK_NAME] in
          if is_dir fs installed then bind_res (checked_root fs installed) (\<lambda>p. Inr (fs, p))
          else
            bind_res (of_option (RuntimeError Ndk_no_host) (map_of ARCHIVES (nh_platform h))) (\<lambda>(host, expected_size, expected_sha1).
            let downloads = cache @ [''downloads'']; base = NDK_NAME @ ''-'' @ host; archive = downloads @ [base @ ''.zip''] in
            bind_res (mkdir_parents fs downloads) (\<lambda>fs1.
            bind_res (ndk_fetch h fs1 downloads base) (\<lambda>fs2.
            bind_res (read_bytes fs2 archive) (\<lambda>data.
            require (int (length data) = expected_size \<and> nh_sha1 h data = expected_sha1)
              (RuntimeError (Ndk_verification_failed (base @ ''.zip'')))
           (bind_res (write_bytes fs2 (downloads @ [base @ ''.zip.sha256'']) (map of_char (nh_sha256 h data @ [CHR 0x0A]))) (\<lambda>fs3.
            bind_res (ndk_install h fs3 data toolchains) (\<lambda>fs4. Inr (fs4, installed)))))))))"

section \<open>The links of an extraction\<close>

definition is_link_member :: "zip_member \<Rightarrow> bool" where
  "is_link_member m \<longleftrightarrow> \<not> endswith (z_name m) ''/'' \<and> S_ISLNK (drop_bit 16 (z_attr m))"

definition link_ok :: "zip_member list \<Rightarrow> path \<Rightarrow> path \<times> string \<Rightarrow> bool" where
  "link_ok members d x \<longleftrightarrow> (\<exists>m \<in> set members. is_link_member m \<and> fst x = d @ pure_parts (z_name m)) \<and>
     (\<exists>rel. fst x = d @ rel \<and> rel \<noteq> [] \<and> ''..'' \<notin> set rel) \<and> \<not> pure_absolute (snd x)"

definition ndk_inv :: "fs \<Rightarrow> path \<Rightarrow> zip_member list \<Rightarrow> ndk_state \<Rightarrow> bool" where
  "ndk_inv fs0 d members st \<longleftrightarrow> confined fs0 d (nx_fs st) \<and> list_all (link_ok members d) (nx_links st)"

lemma ndk_member_inv:
  assumes inv: "ndk_inv fs0 d members st" and m: "m \<in> set members" and e: "ndk_member posix d st m = Inr st'"
  shows "ndk_inv fs0 d members st'"
proof -
  define parts where "parts = pure_parts (z_name m)"
  define mode where "mode = drop_bit 16 (z_attr m)"
  have g: "''..'' \<notin> set parts" "parts \<noteq> []"
    using e by (auto simp: ndk_member_def Let_def require_Inr_iff parts_def)
  then have dots: "''..'' \<notin> set (butlast parts)" and bo: "butlast (d @ parts) = d @ butlast parts"
    by (auto dest: in_set_butlastD simp: butlast_append)
  have c: "confined fs0 d (nx_fs st)" using inv by (simp add: ndk_inv_def)
  consider (dir) "endswith (z_name m) ''/''" | (link) "is_link_member m"
    | (plain) "\<not> endswith (z_name m) ''/''" "\<not> S_ISLNK mode"
    by (auto simp: is_link_member_def mode_def)
  then show ?thesis
  proof cases
    case dir
    then obtain fs where "(mkdir_parents (nx_fs st) (d @ parts) :: (ndk_msg, fs) res) = Inr fs" "st' = st\<lparr>nx_fs := fs\<rparr>"
      using e by (auto simp: ndk_member_def Let_def res_simps parts_def [symmetric])
    then show ?thesis using mkdir_parents_confined [OF c g(1)] inv by (simp add: ndk_inv_def)
  next
    case link
    then obtain target where "st' = st\<lparr>nx_links := nx_links st @ [(d @ parts, target)]\<rparr>" "\<not> pure_absolute target"
      using e by (auto simp: ndk_member_def is_link_member_def Let_def res_simps parts_def [symmetric])
    moreover have "link_ok members d (d @ parts, target)" if "\<not> pure_absolute target" for target
      using link m g that by (auto simp: link_ok_def parts_def)
    ultimately show ?thesis using inv by (simp add: ndk_inv_def)
  next
    case plain
    then obtain fs1 fs2 fs3 where fs1: "(mkdir_parents (nx_fs st) (butlast (d @ parts)) :: (ndk_msg, fs) res) = Inr fs1"
      and fs2: "(write_bytes fs1 (d @ parts) (z_data m) :: (ndk_msg, fs) res) = Inr fs2"
      and fs3: "(if posix \<and> mode \<noteq> 0 then chmod fs2 (d @ parts) (mode AND 511) else Inr fs2 :: (ndk_msg, fs) res) = Inr fs3"
      and st': "st' = st\<lparr>nx_fs := fs3\<rparr>"
      using e by (auto simp: ndk_member_def Let_def res_simps parts_def [symmetric] mode_def [symmetric])
    have c1: "confined fs0 d fs1" using mkdir_parents_confined [OF c dots] fs1 bo by simp
    have c2: "confined fs0 d fs2" using write_confined [OF c1 g fs2] .
    have "confined fs0 d fs3" using fs3 c2 chmod_confined [OF c2 g] by (auto split: if_splits)
    then show ?thesis using inv st' by (simp add: ndk_inv_def)
  qed
qed

text \<open>While links are made, the only links below the destination are among the recorded ones.\<close>

definition inside :: "fs \<Rightarrow> path \<Rightarrow> path set \<Rightarrow> fs \<Rightarrow> bool" where
  "inside fs0 d L fs \<longleftrightarrow> dirs fs d \<and> (\<forall>q. \<not> strict_prefix d q \<longrightarrow> map_of fs q = map_of fs0 q) \<and>
     (\<forall>q t. prefix d q \<and> map_of fs q = Some (Link t) \<longrightarrow> q \<in> L)"

lemma inside_update:
  assumes "inside fs0 d L fs" and "strict_prefix d q" and "(\<exists>t. n = Link t) \<longrightarrow> q \<in> L"
  shows "inside fs0 d L (dict_set fs q n)"
proof -
  have "take i d \<noteq> q" for i
    using assms(2) by (metis prefix_order.less_le_not_le take_is_prefix)
  then show ?thesis using assms by (auto simp: inside_def dirs_def)
qed

lemma inside_locate:
  assumes inv: "inside fs0 d L fs" and rel: "''..'' \<notin> set rel" and free: "\<forall>i. 0 < i \<and> i \<le> length rel \<longrightarrow> d @ take i rel \<notin> L"
  shows "locate fs (d @ rel) \<in> {None, Some (d @ rel)}"
proof -
  have "map_of fs ([] @ take i (d @ rel)) \<noteq> Some (Link t)" if i: "0 < i" "i \<le> length (d @ rel)" for i t
  proof (cases "i \<le> length d")
    case True
    then have "map_of fs (take i (d @ rel)) = Some Dir" using inv i by (simp add: inside_def dirs_def)
    then show ?thesis by simp
  next
    case False
    then have "d @ take (i - length d) rel \<notin> L" using free i by simp
    then show ?thesis using inv False unfolding inside_def by (metis append_Nil nat_le_linear prefixI take_all take_append)
  qed
  then have "walk True fs LINKS [] (d @ rel) \<in> {None, Some ([] @ (d @ rel))}"
    using inv rel by (intro walk_nolinks) (auto simp: inside_def dirs_def)
  then show ?thesis by (simp add: locate_def)
qed

lemma inside_lplace:
  assumes inv: "inside fs0 d L fs" and rel: "''..'' \<notin> set rel" "rel \<noteq> []"
    and free: "\<forall>i. 0 < i \<and> i < length rel \<longrightarrow> d @ take i rel \<notin> L" and l: "lplace fs (d @ rel) = Some q"
  shows "q = d @ rel"
proof -
  have "''..'' \<notin> set (butlast rel)" using rel by (auto dest: in_set_butlastD)
  moreover have "d @ take i (butlast rel) \<notin> L" if "0 < i" "i \<le> length (butlast rel)" for i
    using that free rel(2) by (simp add: take_butlast)
  ultimately have "locate fs (d @ butlast rel) \<in> {None, Some (d @ butlast rel)}" using inside_locate [OF inv] by blast
  moreover have "butlast (d @ rel) = d @ butlast rel" "last (d @ rel) = last rel" using rel(2) by (simp_all add: butlast_append)
  ultimately show ?thesis using rel(2) l by (auto simp: lplace_def bind_eq_Some_conv split: if_splits)
qed

lemma inside_mkdirs:
  assumes inv: "inside fs0 d L fs" and rel: "''..'' \<notin> set rel" and free: "\<forall>i. 0 < i \<and> i \<le> length rel \<longrightarrow> d @ take i rel \<notin> L"
    and m: "(mkdir_parents fs (d @ rel) :: ('m, fs) res) = Inr fs'"
  shows "inside fs0 d L fs'"
proof -
  have "dirs fs d" using inv by (simp add: inside_def)
  then have "(foldM (\<lambda>fs i. mkdir_one fs (take i (d @ rel))) fs [Suc (length d)..<Suc (length d + length rel)] :: ('m, fs) res) = Inr fs'"
    using m by (simp only: mkdir_parents_below)
  then show ?thesis
  proof (rule foldM_invariant [where P = "inside fs0 d L", OF _ inv])
    fix a i b
    assume i: "i \<in> set [Suc (length d)..<Suc (length d + length rel)]" and a: "inside fs0 d L a"
      and mk: "(mkdir_one a (take i (d @ rel)) :: ('m, fs) res) = Inr b"
    define r where "r = take (i - length d) rel"
    have r: "take i (d @ rel) = d @ r" "r \<noteq> []" "''..'' \<notin> set r" using i rel by (auto simp: r_def dest: in_set_takeD)
    have free': "\<forall>j. 0 < j \<and> j < length r \<longrightarrow> d @ take j r \<notin> L" using free i by (auto simp: r_def min_def)
    show "inside fs0 d L b"
    proof (cases "is_dir a (d @ r)")
      case False
      then obtain q where q: "lplace a (d @ r) = Some q" "b = dict_set a q Dir"
        using mk r(1) by (auto simp: mkdir_one_def res_simps split: option.splits)
      then show ?thesis
        using inside_lplace [OF a r(3,2) free' q(1)] inside_update [OF a] strict_prefix_append [OF r(2)] by simp
    qed (use mk a r(1) in \<open>simp add: mkdir_one_def\<close>)
  qed
qed

lemma inside_link:
  assumes inv: "inside fs0 d L fs" and rel: "''..'' \<notin> set rel" "rel \<noteq> []" and L: "d @ rel \<in> L"
    and free: "\<forall>i. 0 < i \<and> i < length rel \<longrightarrow> d @ take i rel \<notin> L" and e: "ndk_link fs (d @ rel, target) = Inr fs'"
  shows "inside fs0 d L fs'"
proof -
  have bo: "butlast (d @ rel) = d @ butlast rel" using rel(2) by (simp add: butlast_append)
  obtain fs1 q where fs1: "(mkdir_parents fs (d @ butlast rel) :: (ndk_msg, fs) res) = Inr fs1"
    and q: "lplace fs1 (d @ rel) = Some q" "fs' = dict_set fs1 q (Link target)"
    using e bo by (auto simp: ndk_link_def symlink_to_def res_simps split: option.splits)
  have "''..'' \<notin> set (butlast rel)" using rel by (auto dest: in_set_butlastD)
  moreover have "d @ take i (butlast rel) \<notin> L" if "0 < i" "i \<le> length (butlast rel)" for i
    using that free rel(2) by (simp add: take_butlast)
  ultimately have i1: "inside fs0 d L fs1" using inside_mkdirs [OF inv _ _ fs1] by blast
  then show ?thesis
    using inside_lplace [OF i1 rel free q(1)] q(2) L inside_update [OF i1] strict_prefix_append [OF rel(2)] by simp
qed

text \<open>
  C16. NDK extraction, for an archive in which no symbolic link lies below another one:
  nothing outside the destination changes, and the only links below it are those of the
  archive.
\<close>

theorem ndk_extract_inside:
  assumes c: "confined fs d fs" and ok: "ndk_extract posix fs members d = Inr fs'"
    and flat: "\<forall>m \<in> set members. \<forall>k \<in> set members. is_link_member m \<and> is_link_member k \<longrightarrow>
      \<not> strict_prefix (pure_parts (z_name m)) (pure_parts (z_name k))"
  shows "(\<forall>q. \<not> strict_prefix d q \<longrightarrow> map_of fs' q = map_of fs q) \<and>
    (\<forall>q t. strict_prefix d q \<and> map_of fs' q = Some (Link t) \<longrightarrow> (\<exists>m \<in> set members. is_link_member m \<and> q = d @ pure_parts (z_name m)))"
proof -
  let ?L = "(\<lambda>m. d @ pure_parts (z_name m)) ` {m \<in> set members. is_link_member m}"
  obtain st where st: "foldM (ndk_member posix d) \<lparr>nx_fs = fs, nx_links = []\<rparr> members = Inr st"
    and ln: "foldM ndk_link (nx_fs st) (nx_links st) = Inr fs'"
    using ok by (auto simp: ndk_extract_def bind_res_Inr_iff)
  have "ndk_inv fs d members st"
    using st by (rule foldM_invariant) (use c in \<open>simp add: ndk_inv_def\<close>, rule ndk_member_inv)
  then have c1: "confined fs d (nx_fs st)" and lo: "\<forall>x \<in> set (nx_links st). link_ok members d x"
    by (auto simp: ndk_inv_def list_all_iff)
  have "inside fs d ?L fs'"
    using ln
  proof (rule foldM_invariant)
    show "inside fs d ?L (nx_fs st)" using c1 by (auto simp: inside_def confined_def)
    fix a x b
    assume x: "x \<in> set (nx_links st)" and a: "inside fs d ?L a" and s: "ndk_link a x = Inr b"
    obtain p t where xp: "x = (p, t)" by (cases x)
    obtain rel m where rel: "p = d @ rel" "rel \<noteq> []" "''..'' \<notin> set rel" and m: "m \<in> set members" "is_link_member m" "p = d @ pure_parts (z_name m)"
      using lo x xp by (auto simp: link_ok_def)
    have "d @ take i rel \<notin> ?L" if i: "0 < i" "i < length rel" for i
    proof
      assume "d @ take i rel \<in> ?L"
      then obtain k where "k \<in> set members" "is_link_member k" "pure_parts (z_name k) = take i rel" by auto
      moreover have "strict_prefix (take i rel) rel" using i by (metis length_take min.absorb4 nat_neq_iff strict_prefixI take_is_prefix)
      ultimately show False using flat m rel(1) by auto
    qed
    then show "inside fs d ?L b" using inside_link [OF a rel(3,2)] m rel(1) s xp by auto
  qed
  then show ?thesis by (auto simp: inside_def strict_prefix_def)
qed

section \<open>Concrete archives\<close>

definition n_link :: int where
  "n_link = push_bit 16 41471"

definition n_fs :: fs where
  "n_fs = [([''c''], Dir)]"

definition n_members :: "zip_member list" where
  "n_members =
    [\<lparr>z_name = NDK_NAME @ ''/bin/'', z_attr = 0, z_size = 0, z_data = []\<rparr>,
     \<lparr>z_name = NDK_NAME @ ''/bin/clang'', z_attr = n_link, z_size = 8, z_data = map of_char ''clang-19''\<rparr>,
     \<lparr>z_name = NDK_NAME @ ''/bin/clang-19'', z_attr = push_bit 16 33261, z_size = 1, z_data = [5]\<rparr>]"

text \<open>Three links, each inside the destination when it is checked, of which the third is made outside.\<close>

definition n_nested :: "zip_member list" where
  "n_nested =
    [\<lparr>z_name = NDK_NAME @ ''/a'', z_attr = n_link, z_size = 2, z_data = map of_char ''..''\<rparr>,
     \<lparr>z_name = NDK_NAME @ ''/a/up'', z_attr = n_link, z_size = 5, z_data = map of_char ''../..''\<rparr>,
     \<lparr>z_name = NDK_NAME @ ''/a/up/made'', z_attr = n_link, z_size = 1, z_data = map of_char ''x''\<rparr>]"

definition n_result :: fs where
  "n_result = [([''c''], Dir), ([''c'', NDK_NAME], Dir), ([''c'', NDK_NAME, ''bin''], Dir),
     ([''c'', NDK_NAME, ''bin'', ''clang-19''], File [5] (Some 493)), ([''c'', NDK_NAME, ''bin'', ''clang''], Link ''clang-19'')]"

lemma n_extract: "ndk_extract True n_fs n_members [''c''] = Inr n_result"
  by code_simp

lemma n_confined: "confined n_fs [''c''] n_fs"
proof -
  have "take i [''c''] = [''c'']" if "0 < i" for i using that by (cases i) auto
  then show ?thesis by (simp add: confined_def dirs_def n_fs_def)
qed

theorem ndk_extract_inside_witness:
  "ndk_extract True n_fs n_members [''c''] = Inr n_result \<and> map_of n_result [''c''] = Some Dir"
proof -
  have "\<forall>m \<in> set n_members. is_link_member m \<longrightarrow> z_name m = NDK_NAME @ ''/bin/clang''" by code_simp
  then have "\<forall>q. \<not> strict_prefix [''c''] q \<longrightarrow> map_of n_result q = map_of n_fs q"
    using ndk_extract_inside [OF n_confined n_extract] by (metis prefix_order.less_irrefl)
  then show ?thesis using n_extract by (simp add: n_fs_def)
qed

text \<open>
  C17. The escape check of NDK extraction looks at each link before any link exists: an
  archive of three links, each of which passes the check, makes
  \<^verbatim>\<open>extract\<close> succeed and create the third link outside the
  destination, because its parent path leads through the first two.
\<close>

theorem ndk_extract_nested_links_escape:
  "confined n_fs [''c''] n_fs \<and> (\<exists>fs'. ndk_extract True n_fs n_nested [''c''] = Inr fs' \<and>
     map_of fs' [''made''] = Some (Link ''x'') \<and> map_of n_fs [''made''] = None)"
proof -
  have "ndk_extract True n_fs n_nested [''c''] =
    Inr [([''c''], Dir), ([''c'', NDK_NAME], Dir), ([''c'', NDK_NAME, ''a''], Link ''..''), ([''c'', ''up''], Link ''../..''),
      ([''made''], Link ''x'')]"
    by code_simp
  then show ?thesis using n_confined by (simp add: n_fs_def)
qed

end
