(* ===== verification/Runtime_Oracles.thy ===== *)
theory Runtime_Oracles
  imports Guest_Link Bundle Ndk
begin

text \<open>
  Compiler-runtime members and native oracles: \<^verbatim>\<open>bionic_builtins.py\<close>, \<^verbatim>\<open>libcore_builtins.py\<close> and
  \<^verbatim>\<open>bionic_vfork.py\<close>.  Compilers, linkers and archivers are the function \<open>exec\<close>, from words and a file
  system to a status, an output and a file system.
\<close>

datatype (plugins only: code) oracle_msg =
    Reading bundle_msg
  | Linking link_msg
  | Selection_differs
  | Unreviewed_member
  | Member_changed string
  | Runtime_notice_changed
  | Unresolved_oracle
  | Boundary_violated
  | Control_changed
  | Mutation_target

text \<open>A command that must succeed, and its output.\<close>

definition run_tool :: "tool \<Rightarrow> fs \<Rightarrow> string list \<Rightarrow> ('m, fs \<times> bytes) res" where
  "run_tool exec fs words =
     (let r = exec words fs in require (status r = 0) CalledProcessError (Inr (after_fs r, out_bytes r)))"

definition tool_path :: "bool \<Rightarrow> path \<Rightarrow> string \<Rightarrow> string" where
  "tool_path nt tools name = abs_str (tools @ [name @ (if nt then ''.exe'' else '''')])"

definition space_byte :: "byte \<Rightarrow> bool" where
  "space_byte b \<longleftrightarrow> b = 32 \<or> (9 \<le> b \<and> b \<le> 13)"

text \<open>Truth of \<^verbatim>\<open>output.strip()\<close>.\<close>

definition blank :: "bytes \<Rightarrow> bool" where
  "blank bs \<longleftrightarrow> list_all space_byte bs"

definition json_str :: "json \<Rightarrow> ('m, string) res" where
  "json_str v = (case v of JStr s \<Rightarrow> Inr s | _ \<Rightarrow> Inl TypeError)"

definition pin_str :: "json \<Rightarrow> string \<Rightarrow> (oracle_msg, string) res" where
  "pin_str pin key = bind_res (jget pin key) json_str"

definition pin_items :: "json \<Rightarrow> string \<Rightarrow> (oracle_msg, (string \<times> json) list) res" where
  "pin_items pin key = bind_res (jget pin key) jitems"

text \<open>\<^verbatim>\<open>read_text\<close>: every line end becomes a line feed.\<close>

fun universal_newlines :: "string \<Rightarrow> string" where
  "universal_newlines [] = []"
| "universal_newlines (c # s) =
     (if c = CHR 0x0D then newline # (case s of [] \<Rightarrow> [] | b # t \<Rightarrow> if b = newline then universal_newlines t else universal_newlines s)
      else c # universal_newlines s)"

definition read_text :: "fs \<Rightarrow> path \<Rightarrow> ('m, string) res" where
  "read_text fs p = bind_res (read_bytes fs p) (\<lambda>bs. bind_res (decode_utf8 bs) (\<lambda>s. Inr (universal_newlines s)))"

section \<open>Binary128 members\<close>

definition CALLER_FLAGS :: "string list" where
  "CALLER_FLAGS = [''--target=aarch64-linux-android35'', ''-std=c11'', ''-O2'', ''-fPIC'', ''-ffreestanding'', ''-fno-builtin'',
     ''-fno-stack-protector'', ''-mbranch-protection=none'', ''-ffixed-x18'', ''-ffixed-x27'', ''-ffixed-x28'', ''-Wall'', ''-Wextra'', ''-Werror'']"

definition extract_member ::
  "std \<Rightarrow> tool \<Rightarrow> bool \<Rightarrow> path \<Rightarrow> path \<Rightarrow> path \<Rightarrow> fs \<times> path list \<Rightarrow> string \<times> json \<Rightarrow> (oracle_msg, fs \<times> path list) res"
where
  "extract_member std exec nt tools archive build st x =
     (case (st, x) of ((fs, outputs), (member, expected)) \<Rightarrow>
      require (member \<in> {''comparetf2.c.o'', ''multf3.c.o''}) (RuntimeError Unreviewed_member)
     (let output = build @ [member] in
      bind_res (write_bytes fs output []) (\<lambda>fs1.
      bind_res (run_tool exec fs1 [tool_path nt tools ''llvm-ar'', ''p'', abs_str archive, member]) (\<lambda>(fs2, data).
      bind_res (write_bytes fs2 output data) (\<lambda>fs3.
      ensure (digest_is std fs3 output expected) (RuntimeError (Member_changed member)) (Inr (fs3, outputs @ [output])))))))"

record builtins_report =
  br_pin :: json
  br_inventory :: "(string \<times> nat) list"
  br_cases :: int
  br_source_sha256 :: json
  br_object_sha256 :: json

definition BUILTIN_KEYS :: "string list" where
  "BUILTIN_KEYS = [''svc'', ''tpidr_mentions'', ''x18_mentions'', ''x27_mentions'', ''x28_mentions'', ''unknown_instructions'']"

definition bionic_builtins ::
  "std \<Rightarrow> tool \<Rightarrow> bool \<Rightarrow> path \<Rightarrow> fs \<Rightarrow> path \<Rightarrow> path \<Rightarrow> (oracle_msg, fs \<times> path list \<times> builtins_report) res"
where
  "bionic_builtins std exec nt rootdir fs tools build =
     bind_res (lift_msg Reading (load_json std fs (rootdir @ [''third_party'', ''bionic'', ''builtins.json'']))) (\<lambda>pin.
     ensure (field_eq pin ''ndk_revision'' (JStr REVISION)) (RuntimeError Selection_differs)
    (bind_res (pin_str pin ''archive'') (\<lambda>archive.
     bind_res (pin_items pin ''members'') (\<lambda>members.
     bind_res (foldM (extract_member std exec nt tools (path_div (butlast tools) archive) build) (fs, []) members) (\<lambda>(fs1, outputs).
     bind_res (pin_str pin ''notice'') (\<lambda>notice_name.
     bind_res (read_bytes fs1 (path_div (butlast tools) notice_name)) (\<lambda>notice.
     ensure (field_eq pin ''notice_sha256'' (JStr (std_sha std notice))) (RuntimeError Runtime_notice_changed)
    (bind_res (write_bytes fs1 (build @ [''COMPILER-RT-NOTICE.txt'']) notice) (\<lambda>fs2.
     let caller = build @ [''binary128-check.o'']; source = rootdir @ [''fixtures'', ''bionic-binary128'', ''check.c'']; test = build @ [''binary128-test.o''] in
     bind_res (run_tool exec fs2 ([tool_path nt tools ''clang''] @ CALLER_FLAGS @ [''-c'', abs_str source, ''-o'', abs_str caller])) (\<lambda>(fs3, _).
     bind_res (run_tool exec fs3 ([tool_path nt tools ''ld.lld'', ''-r''] @ map abs_str outputs @ [abs_str caller, ''-o'', abs_str test])) (\<lambda>(fs4, _).
     bind_res (run_tool exec fs4 [tool_path nt tools ''llvm-objcopy'', ''--prefix-symbols=artbox_quad_'', abs_str test]) (\<lambda>(fs5, _).
     bind_res (run_tool exec fs5 [tool_path nt tools ''llvm-nm'', ''--undefined-only'', abs_str test]) (\<lambda>(fs6, undefined_symbols).
     require (blank undefined_symbols) (RuntimeError Unresolved_oracle)
    (bind_res (run_tool exec fs6 [tool_path nt tools ''llvm-objdump'', ''-d'', ''--no-show-raw-insn'', abs_str test]) (\<lambda>(fs7, listing).
     bind_res (decode_utf8 listing) (\<lambda>disassembly.
     let boundary = inventory disassembly in
     require (list_all (\<lambda>k. map_of boundary k = Some 0) BUILTIN_KEYS) (RuntimeError Boundary_violated)
    (bind_res (digest_of std fs7 source) (\<lambda>source_sha.
     bind_res (digest_of std fs7 test) (\<lambda>object_sha.
     Inr (fs7, outputs, \<lparr>br_pin = pin, br_inventory = boundary, br_cases = 123, br_source_sha256 = source_sha, br_object_sha256 = object_sha\<rparr>))))))))))))))))))))"

section \<open>The vfork oracle\<close>

definition inspect_object :: "tool \<Rightarrow> bool \<Rightarrow> path \<Rightarrow> fs \<Rightarrow> path \<Rightarrow> (oracle_msg, fs \<times> (string \<times> nat) list) res" where
  "inspect_object exec nt tools fs p =
     bind_res (run_tool exec fs [tool_path nt tools ''llvm-objdump'', ''-d'', ''--no-show-raw-insn'', abs_str p]) (\<lambda>(fs1, listing).
     bind_res (decode_utf8 listing) (\<lambda>disassembly. Inr (fs1, inventory disassembly)))"

definition VFORK :: string where
  "VFORK = ''libc/arch-arm64/bionic/vfork.S''"

definition SET_ERRNO :: string where
  "SET_ERRNO = ''libc/bionic/__set_errno.cpp''"

definition SAVED_LINES :: "string list" where
  "SAVED_LINES = [''    stp     x9, x10, [sp]'' @ [newline], ''    ldp     x9, x10, [sp]'' @ [newline]]"

definition drop_saved :: "string \<Rightarrow> string \<Rightarrow> (oracle_msg, string) res" where
  "drop_saved s line = require (count_sub line s = 1) (RuntimeError Mutation_target) (Inr (replace_first line [] s))"

record vfork_variant =
  vv_object_sha256 :: json
  vv_inventory :: "(string \<times> nat) list"

record vfork_report =
  vr_cases :: int
  vr_mutation_result :: int
  vr_upstream_sha256 :: json
  vr_adapted_sha256 :: json
  vr_mutant_sha256 :: json
  vr_upstream_inventory :: "(string \<times> nat) list"
  vr_production :: "(string \<times> json) list"
  vr_fixtures :: "(string \<times> json) list"
  vr_variants :: "(string \<times> vfork_variant) list"

definition vfork_variant_of ::
  "std \<Rightarrow> tool \<Rightarrow> bool \<Rightarrow> path \<Rightarrow> path \<Rightarrow> path \<Rightarrow> fs \<times> (string \<times> vfork_variant) list \<Rightarrow> string \<times> path \<Rightarrow>
   (oracle_msg, fs \<times> (string \<times> vfork_variant) list) res"
where
  "vfork_variant_of std exec nt tools d errno_object st x =
     (case (st, x) of ((fs, variants), (name, obj)) \<Rightarrow>
      let raw_object = d @ [name @ ''-raw.o'']; prefixed = d @ [name @ ''-prefixed.o'']; output = d @ [name @ ''-test.o''] in
      bind_res (run_tool exec fs [tool_path nt tools ''ld.lld'', ''-r'', abs_str obj, abs_str errno_object, ''-o'', abs_str raw_object]) (\<lambda>(fs1, _).
      bind_res (run_tool exec fs1 [tool_path nt tools ''llvm-objcopy'', ''--prefix-symbols=artbox_vfork_'', abs_str raw_object, abs_str prefixed]) (\<lambda>(fs2, _).
      bind_res (run_tool exec fs2 [tool_path nt tools ''ld.lld'', ''-r'', abs_str prefixed, abs_str (d @ [''check.o'']), abs_str (d @ [''reply.o'']),
          ''-o'', abs_str output]) (\<lambda>(fs3, _).
      bind_res (run_tool exec fs3 [tool_path nt tools ''llvm-nm'', ''--undefined-only'', abs_str output]) (\<lambda>(fs4, undefined_symbols).
      require (blank undefined_symbols) (RuntimeError Unresolved_oracle)
     (bind_res (inspect_object exec nt tools fs4 output) (\<lambda>(fs5, boundary).
      require (\<not> dirty boundary) (RuntimeError Boundary_violated)
     (bind_res (digest_of std fs5 output) (\<lambda>sha.
      Inr (fs5, variants @ [(name, \<lparr>vv_object_sha256 = sha, vv_inventory = boundary\<rparr>)]))))))))))"

definition vfork_prepare ::
  "std \<Rightarrow> tool \<Rightarrow> bool \<Rightarrow> path \<Rightarrow> fs \<Rightarrow> path \<Rightarrow> path \<Rightarrow> path \<Rightarrow> path \<Rightarrow> (string \<times> path) list \<Rightarrow> string list \<Rightarrow> string list \<Rightarrow>
   (oracle_msg, fs \<times> vfork_report) res"
where
  "vfork_prepare std exec nt rootdir fs tools build source overlay objects assembly_flags includes =
     (let d = build @ [''vfork'']; original = d @ [''original.S'']; adapted = d @ [''adapted.S'']; mutant = d @ [''mutant.S''];
          fixture = rootdir @ [''fixtures'', ''bionic-vfork''] in
      bind_res (mkdir_parents fs d) (\<lambda>fs1.
      bind_res (read_bytes fs1 (path_div source VFORK)) (\<lambda>original_data.
      bind_res (write_bytes fs1 original original_data) (\<lambda>fs2.
      bind_res (read_bytes fs2 (path_div overlay VFORK)) (\<lambda>adapted_data.
      bind_res (write_bytes fs2 adapted adapted_data) (\<lambda>fs3.
      bind_res (read_bytes fs3 (path_div source SET_ERRNO)) (\<lambda>errno_data.
      bind_res (write_bytes fs3 (d @ [''__set_errno.cpp'']) errno_data) (\<lambda>fs4.
      bind_res (run_tool exec fs4 ([tool_path nt tools ''clang''] @ assembly_flags @ includes @ [''-c'', abs_str original, ''-o'', abs_str (d @ [''original.o''])]))
        (\<lambda>(fs5, _).
      bind_res (inspect_object exec nt tools fs5 (d @ [''original.o''])) (\<lambda>(fs6, control).
      require (map_of control ''svc'' = Some 1 \<and> map_of control ''tpidr_el0_read'' = Some 1) (RuntimeError Control_changed)
     (bind_res (read_text fs6 adapted) (\<lambda>adapted_text.
      bind_res (foldM drop_saved adapted_text SAVED_LINES) (\<lambda>changed.
      bind_res (write_bytes fs6 mutant (encode_utf8 changed)) (\<lambda>fs7.
      bind_res (run_tool exec fs7 ([tool_path nt tools ''clang''] @ assembly_flags @ includes @ [''-c'', abs_str mutant, ''-o'', abs_str (d @ [''mutant.o''])]))
        (\<lambda>(fs8, _).
      bind_res (run_tool exec fs8 ([tool_path nt tools ''clang''] @ CALLER_FLAGS @ [''-c'', abs_str (fixture @ [''check.c'']), ''-o'', abs_str (d @ [''check.o''])]))
        (\<lambda>(fs9, _).
      bind_res (run_tool exec fs9 [tool_path nt tools ''clang'', ''--target=aarch64-linux-android35'', ''-fPIC'', ''-march=armv8-a'', ''-c'',
          abs_str (fixture @ [''reply.S'']), ''-o'', abs_str (d @ [''reply.o''])]) (\<lambda>(fs10, _).
      bind_res (digest_of std fs10 original) (\<lambda>original_sha. bind_res (digest_of std fs10 adapted) (\<lambda>adapted_sha.
      bind_res (digest_of std fs10 mutant) (\<lambda>mutant_sha.
      bind_res (mapM (\<lambda>n. bind_res (dict_get objects n) (\<lambda>p. bind_res (digest_of std fs10 p) (\<lambda>h. Inr (n, h)))) [VFORK, SET_ERRNO]) (\<lambda>production.
      bind_res (mapM (\<lambda>n. bind_res (digest_of std fs10 (fixture @ [n])) (\<lambda>h. Inr (''fixtures/bionic-vfork/'' @ n, h))) [''check.c'', ''reply.S'', ''linux.c''])
        (\<lambda>fixtures.
      bind_res (dict_get objects VFORK) (\<lambda>vfork_object. bind_res (dict_get objects SET_ERRNO) (\<lambda>errno_object.
      bind_res (foldM (vfork_variant_of std exec nt tools d errno_object) (fs10, [])
          [(''native'', vfork_object), (''mutant'', d @ [''mutant.o''])]) (\<lambda>(fs11, variants).
      Inr (fs11, \<lparr>vr_cases = 28, vr_mutation_result = - 1000, vr_upstream_sha256 = original_sha, vr_adapted_sha256 = adapted_sha, vr_mutant_sha256 = mutant_sha, vr_upstream_inventory = control,
        vr_production = production, vr_fixtures = fixtures, vr_variants = variants\<rparr>))))))))))))))))))))))))))"

section \<open>The 128-bit division oracle\<close>

definition MASK128 :: int where
  "MASK128 = 2 ^ 128 - 1"

definition DIVIDENDS :: "int list" where
  "DIVIDENDS = [0, 1, 2, 2 ^ 32 - 1, 2 ^ 64 - 1, 2 ^ 64, 2 ^ 64 + 1, 2 ^ 127 - 1, 2 ^ 127, MASK128]"

definition DIVISORS :: "int list" where
  "DIVISORS = [1, 2, 3, 2 ^ 32 - 1, 2 ^ 32 + 1, 2 ^ 64 - 1, 2 ^ 64, 2 ^ 64 + 1, 2 ^ 127, MASK128]"

definition lcg :: "int \<Rightarrow> int" where
  "lcg state = (state * 6364136223846793005 + 1442695040888963407) AND MASK128"

definition random_step :: "int \<times> (int \<times> int) list \<Rightarrow> nat \<Rightarrow> int \<times> (int \<times> int) list" where
  "random_step st i =
     (let n = lcg (fst st); state = lcg n; d = drop_bit (i mod 96) state in (state, snd st @ [(n, if d \<noteq> 0 then d else 1)]))"

definition division_pairs :: "(int \<times> int) list" where
  "division_pairs =
     concat (map (\<lambda>n. map (Pair n) DIVISORS) DIVIDENDS) @ snd (foldl random_step (0x123456789abcdef0123456789abcdef, []) [0..<128])"

definition vector_of :: "int \<times> int \<Rightarrow> int \<times> int \<times> int \<times> int" where
  "vector_of x = (case x of (n, d) \<Rightarrow> (n, d, n div d, n mod d))"

definition division_vectors :: "(int \<times> int \<times> int \<times> int) list" where
  "division_vectors = map vector_of division_pairs"

text \<open>\<^verbatim>\<open>%016x\<close> and \<^verbatim>\<open>str\<close>.\<close>

definition hex_char :: "int \<Rightarrow> char" where
  "hex_char v = char_of (if v < 10 then 48 + v else 87 + v)"

fun hex_places :: "nat \<Rightarrow> int \<Rightarrow> string" where
  "hex_places 0 v = []"
| "hex_places (Suc n) v = hex_places n (v div 16) @ [hex_char (v mod 16)]"

function str_nat :: "nat \<Rightarrow> string" where
  "str_nat n = (if n < 10 then [] else str_nat (n div 10)) @ [char_of (48 + n mod 10)]"
  by pat_completeness auto

termination
  by (relation "measure id") auto

declare str_nat.simps [simp del]

definition vector_words :: "int \<times> int \<times> int \<times> int \<Rightarrow> int list" where
  "vector_words x = (case x of (n, d, q, r) \<Rightarrow> concat (map (\<lambda>v. [drop_bit 64 v, v AND (2 ^ 64 - 1)]) [n, d, q, r]))"

definition vector_row :: "int \<times> int \<times> int \<times> int \<Rightarrow> string" where
  "vector_row x = ''    {'' @ join_with '', '' (map (\<lambda>w. ''UINT64_C(0x'' @ hex_places 16 w @ '')'') (vector_words x)) @ ''},''"

definition vectors_header :: string where
  "vectors_header = ''/* Generated by ARTBox using Python integer divmod. MIT. */'' @ [newline] @
     ''static const uint64_t cases[][8] = {'' @ [newline] @ join_with [newline] (map vector_row division_vectors) @ [newline] @ ''};'' @ [newline]"

definition vector_value :: "int \<times> int \<times> int \<times> int \<Rightarrow> json" where
  "vector_value x = (case x of (n, d, q, r) \<Rightarrow> JDict
     [(''n'', JStr (str_nat (nat n))), (''d'', JStr (str_nat (nat d))), (''q'', JStr (str_nat (nat q))), (''r'', JStr (str_nat (nat r)))])"

text \<open>The commands are recorded in their order.\<close>

definition run_recorded ::
  "tool \<Rightarrow> bool \<Rightarrow> path \<Rightarrow> fs \<times> string list list \<Rightarrow> string \<Rightarrow> string list \<Rightarrow> (oracle_msg, (fs \<times> string list list) \<times> bytes) res"
where
  "run_recorded exec nt toolchain st name args =
     (let words = tool_path nt (toolchain @ [''bin'']) name # args in
      bind_res (run_tool exec (fst st) words) (\<lambda>(fs, out). Inr ((fs, snd st @ [words]), out)))"

definition checked_listing :: "tool \<Rightarrow> bool \<Rightarrow> path \<Rightarrow> fs \<times> string list list \<Rightarrow> path \<Rightarrow> (oracle_msg, (fs \<times> string list list) \<times> (string \<times> nat) list) res" where
  "checked_listing exec nt toolchain st p =
     bind_res (run_recorded exec nt toolchain st ''llvm-objdump'' [''-d'', ''--no-show-raw-insn'', abs_str p]) (\<lambda>(st1, listing).
     bind_res (decode_utf8 listing) (\<lambda>disassembly.
     bind_res (lift_msg Linking (icu_check_code disassembly)) (\<lambda>counts. Inr (st1, counts))))"

definition integer_member ::
  "std \<Rightarrow> tool \<Rightarrow> bool \<Rightarrow> path \<Rightarrow> path \<Rightarrow> path \<Rightarrow> (fs \<times> string list list) \<times> path list \<Rightarrow> string \<times> json \<Rightarrow>
   (oracle_msg, (fs \<times> string list list) \<times> path list) res"
where
  "integer_member std exec nt toolchain archive output acc x =
     (case (acc, x) of ((st, members), (name, expected)) \<Rightarrow>
      let p = path_div output name in
      bind_res (run_recorded exec nt toolchain st ''llvm-ar'' [''p'', abs_str archive, name]) (\<lambda>(st1, data).
      bind_res (write_bytes (fst st1) p data) (\<lambda>fs1.
      ensure (digest_is std fs1 p expected) (RuntimeError (Member_changed name))
     (bind_res (checked_listing exec nt toolchain (fs1, snd st1) p) (\<lambda>(st2, _). Inr (st2, members @ [p]))))))"

definition unlink_path :: "fs \<Rightarrow> path \<Rightarrow> fs" where
  "unlink_path fs p = (case lplace fs p of None \<Rightarrow> fs | Some q \<Rightarrow> filter (\<lambda>(r, _). r \<noteq> q) fs)"

definition LIBCORE_MEMBERS :: "string list" where
  "LIBCORE_MEMBERS = [''udivti3.c.o'', ''umodti3.c.o'', ''udivmodti4.c.o'']"

record integer_report =
  ir_pin :: json
  ir_cases :: nat
  ir_digests :: "(string \<times> json) list"
  ir_boundary :: "(string \<times> nat) list"
  ir_commands :: "string list list"

definition integer_report_value :: "integer_report \<Rightarrow> json" where
  "integer_report_value r = JDict ([(''pin'', ir_pin r), (''cases'', JInt (int (ir_cases r)))] @ ir_digests r @
     [(''boundary'', JDict (map (\<lambda>(k, v). (k, JInt (int v))) (ir_boundary r))), (''commands'', JList (map (\<lambda>c. JList (strs c)) (ir_commands r)))])"

definition libcore_builtins ::
  "std \<Rightarrow> tool \<Rightarrow> bool \<Rightarrow> path \<Rightarrow> fs \<Rightarrow> path \<Rightarrow> path \<Rightarrow> (oracle_msg, fs \<times> integer_report) res"
where
  "libcore_builtins std exec nt rootdir fs toolchain output =
     bind_res (mkdir_parents fs output) (\<lambda>fs0.
     bind_res (lift_msg Reading (load_json std fs0 (rootdir @ [''third_party'', ''art'', ''libcore-builtins.json'']))) (\<lambda>pin.
     ensure (and_m (field_eq pin ''ndk_revision'' (JStr REVISION))
         (bind_res (jget pin ''members'') (\<lambda>m. bind_res (jset m) (\<lambda>names. Inr (set_eq names (strs LIBCORE_MEMBERS))))))
       (RuntimeError Selection_differs)
    (bind_res (pin_str pin ''notice'') (\<lambda>notice_name.
     let notice = path_div toolchain notice_name in
     ensure (bind_res (digest_of std fs0 notice) (field_eq pin ''notice_sha256'')) (RuntimeError Runtime_notice_changed)
    (bind_res (read_bytes fs0 notice) (\<lambda>notice_data.
     bind_res (write_bytes fs0 (output @ [''COMPILER-RT-NOTICE.txt'']) notice_data) (\<lambda>fs1.
     bind_res (pin_items pin ''members'') (\<lambda>items.
     bind_res (pin_str pin ''archive'') (\<lambda>archive_name.
     bind_res (foldM (integer_member std exec nt toolchain (path_div toolchain archive_name) output) ((fs1, []), []) items) (\<lambda>((fs2, commands), members).
     let archive = output @ [''libartbox_uint128.a'']; st3 = (if path_exists fs2 archive then unlink_path fs2 archive else fs2, commands) in
     bind_res (run_recorded exec nt toolchain st3 ''llvm-ar'' ([''rcs'', abs_str archive] @ map abs_str members)) (\<lambda>(st4, _).
     let header = output @ [''vectors.h'']; source = rootdir @ [''fixtures'', ''libcore-integer128'', ''check.c'']; caller = output @ [''check.o''];
         closed = output @ [''check-closed.o''] in
     bind_res (write_bytes (fst st4) header (encode_utf8 vectors_header)) (\<lambda>fs5.
     bind_res (dump_json std fs5 (output @ [''vectors.json'']) (JList (map vector_value division_vectors))) (\<lambda>fs6.
     bind_res (run_recorded exec nt toolchain (fs6, snd st4) ''clang'' (CALLER_FLAGS @ [''-I'', abs_str output, ''-c'', abs_str source, ''-o'', abs_str caller]))
       (\<lambda>(st7, _).
     bind_res (run_recorded exec nt toolchain st7 ''ld.lld'' ([''-r'', abs_str caller] @ map abs_str members @ [''-o'', abs_str closed])) (\<lambda>(st8, _).
     bind_res (run_recorded exec nt toolchain st8 ''llvm-nm'' [''--undefined-only'', abs_str closed]) (\<lambda>(st9, undefined_symbols).
     require (blank undefined_symbols) (RuntimeError Unresolved_oracle)
    (bind_res (checked_listing exec nt toolchain st9 closed) (\<lambda>(st10, boundary).
     bind_res (mapM (\<lambda>(key, p). bind_res (digest_of std (fst st10) p) (\<lambda>h. Inr (key, h)))
        [(''source_sha256'', source), (''header_sha256'', header), (''object_sha256'', caller), (''archive_sha256'', archive), (''closed_sha256'', closed)])
       (\<lambda>digests.
     let report = \<lparr>ir_pin = pin, ir_cases = length division_vectors, ir_digests = digests, ir_boundary = boundary, ir_commands = snd st10\<rparr> in
     bind_res (dump_json std (fst st10) (output @ [''build.json'']) (integer_report_value report)) (\<lambda>fs11. Inr (fs11, report)))))))))))))))))))))"

section \<open>The oracle is right\<close>

definition pair_ok :: "int \<times> int \<Rightarrow> bool" where
  "pair_ok x \<longleftrightarrow> 0 \<le> fst x \<and> fst x < 2 ^ 128 \<and> 0 < snd x \<and> snd x < 2 ^ 128"

lemma lcg_bounds: "0 \<le> lcg s \<and> lcg s < 2 ^ 128"
proof -
  have "lcg s = (s * 6364136223846793005 + 1442695040888963407) mod 2 ^ 128"
    unfolding lcg_def MASK128_def by (simp only: take_bit_eq_mod [symmetric] mask_eq_exp_minus_1 [symmetric] take_bit_eq_mask)
  then show ?thesis by simp
qed

lemma div_le_self: "0 \<le> a \<Longrightarrow> 0 < b \<Longrightarrow> a div b \<le> a" for a b :: int
  using zdiv_mono2 [of a 1 b] by simp

lemma random_pairs_ok: "list_all pair_ok ps \<Longrightarrow> list_all pair_ok (snd (foldl random_step (s, ps) is))"
proof (induction "is" arbitrary: s ps)
  case Nil
  then show ?case by simp
next
  case (Cons i is')
  have b: "0 \<le> lcg (lcg s)" "lcg (lcg s) < 2 ^ 128" "0 \<le> lcg s" "lcg s < 2 ^ 128" using lcg_bounds by auto
  have "drop_bit (i mod 96) (lcg (lcg s)) \<le> lcg (lcg s)" "0 \<le> drop_bit (i mod 96) (lcg (lcg s))"
    using b by (simp_all add: drop_bit_eq_div div_le_self pos_imp_zdiv_nonneg_iff)
  then have "pair_ok (lcg s, if drop_bit (i mod 96) (lcg (lcg s)) \<noteq> 0 then drop_bit (i mod 96) (lcg (lcg s)) else 1)"
    using b by (auto simp: pair_ok_def simp del: drop_bit_nonnegative_int_iff)
  then obtain s' p where "random_step (s, ps) i = (s', ps @ [p])" "pair_ok p" by (simp only: random_step_def Let_def fst_conv snd_conv)
  then show ?case using Cons.IH [of "ps @ [p]" s'] Cons.prems by simp
qed

lemma length_random_step: "length (snd (random_step st i)) = Suc (length (snd st))"
  by (simp add: random_step_def Let_def)

lemma length_random: "length (snd (foldl random_step st is)) = length (snd st) + length is"
  by (induction "is" arbitrary: st) (simp_all add: length_random_step)

lemma division_pairs_ok: "list_all pair_ok division_pairs"
proof -
  have "list_all pair_ok (concat (map (\<lambda>n. map (Pair n) DIVISORS) DIVIDENDS))"
    by (simp add: DIVIDENDS_def DIVISORS_def MASK128_def pair_ok_def)
  then show ?thesis unfolding division_pairs_def list_all_append using random_pairs_ok by simp
qed

lemma words_of: "0 \<le> v \<Longrightarrow> v < 2 ^ 128 \<Longrightarrow> drop_bit 64 v < 2 ^ 64 \<and> 0 \<le> drop_bit 64 v \<and> v AND (2 ^ 64 - 1) < 2 ^ 64 \<and>
   0 \<le> v AND (2 ^ 64 - 1) \<and> drop_bit 64 v * 2 ^ 64 + (v AND (2 ^ 64 - 1)) = v" for v :: int
proof -
  assume v: "0 \<le> v" "v < 2 ^ 128"
  have "v AND (2 ^ 64 - 1) = v mod 2 ^ 64"
    by (simp only: take_bit_eq_mod [symmetric] mask_eq_exp_minus_1 [symmetric] take_bit_eq_mask)
  moreover have "v div 2 ^ 64 < 2 ^ 64" "0 \<le> v div 2 ^ 64" using v by simp_all
  ultimately show ?thesis by (simp add: drop_bit_eq_div)
qed

definition vector_ok :: "int \<times> int \<times> int \<times> int \<Rightarrow> bool" where
  "vector_ok x = (case x of (n, d, q, r) \<Rightarrow> 0 < d \<and> n = q * d + r \<and> 0 \<le> r \<and> r < d \<and>
     list_all (\<lambda>w. 0 \<le> w \<and> w < 2 ^ 64) (vector_words x) \<and>
     map (\<lambda>i. vector_words x ! (2 * i) * 2 ^ 64 + vector_words x ! (2 * i + 1)) [0, 1, 2, 3] = [n, d, q, r])"

lemma vector_of_ok:
  assumes "pair_ok x" shows "vector_ok (vector_of x)"
proof -
  obtain n d where x: "x = (n, d)" by (cases x)
  have b: "0 \<le> n" "n < 2 ^ 128" "0 < d" "d < 2 ^ 128" using assms by (simp_all add: x pair_ok_def)
  have q: "0 \<le> n div d" "n div d < 2 ^ 128" using b div_le_self [of n d] by (simp_all add: pos_imp_zdiv_nonneg_iff)
  have r: "0 \<le> n mod d" "n mod d < d" using b(3) by simp_all
  have r': "n mod d < 2 ^ 128" using r b by linarith
  show ?thesis
    using words_of [OF b(1,2)] words_of [OF less_imp_le [OF b(3)] b(4)] words_of [OF q] words_of [OF r(1) r'] r b(3)
    by (simp add: x vector_of_def vector_ok_def vector_words_def numeral_eq_Suc)
qed

lemma division_vectors_correct:
  "length division_vectors = 228 \<and> list_all vector_ok division_vectors"
proof -
  have "length division_vectors = 228"
    by (simp add: division_vectors_def division_pairs_def length_random DIVIDENDS_def DIVISORS_def)
  moreover have "list_all vector_ok division_vectors"
    using division_pairs_ok vector_of_ok by (simp add: division_vectors_def list_all_iff)
  ultimately show ?thesis by simp
qed

end
