(* ===== verification/Framework_Link.thy ===== *)
theory Framework_Link
  imports Runtime_Oracles Wrap_Sample
begin

text \<open>
  Linking and signing of the Apple frameworks: the paired M1 images (\<^verbatim>\<open>guest_bundle.py\<close>) and the wrapped
  shared objects (\<^verbatim>\<open>dynamic_bundle.py\<close>).  Xcode tools and \<^verbatim>\<open>codesign\<close> are the function \<open>exec\<close>;
  \<^verbatim>\<open>plistlib\<close>, the platform and the measured times are fields of \<open>apple\<close>.
\<close>

record apple =
  ap_darwin :: bool
  ap_python :: string
  ap_plist_dumps :: "json \<Rightarrow> bytes"
  ap_plist_loads :: "bytes \<Rightarrow> json option"
  ap_elapsed :: "string \<Rightarrow> int"

datatype (plugins only: code) frame_msg =
    Reading_json bundle_msg
  | Requires_macos
  | Unsafe_segment
  | Toolchain_differs
  | Bad_framework_name
  | Bad_notice_name
  | Duplicate_notice
  | Notice_differs_from_pin string
  | Unexpected_entitlements
  | Invalid_plist
  | Layout_moved

definition sdk_name :: "string \<Rightarrow> string" where
  "sdk_name platform = (if platform = ''ios'' then ''iphoneos'' else ''macosx'')"

definition target_name :: "string \<Rightarrow> string" where
  "target_name platform = (if platform = ''ios'' then ''arm64-apple-ios15.0'' else ''arm64-apple-macos11.0'')"

text \<open>\<^verbatim>\<open>output.decode().strip()\<close>.\<close>

definition sysroot_of :: "tool \<Rightarrow> fs \<Rightarrow> string \<Rightarrow> (frame_msg, fs \<times> string) res" where
  "sysroot_of exec fs sdk =
     bind_res (run_tool exec fs [''xcrun'', ''--sdk'', sdk, ''--show-sdk-path'']) (\<lambda>(fs1, out).
     bind_res (decode_utf8 out) (\<lambda>s. Inr (fs1, strip_space s)))"

definition framework_plist :: "string \<Rightarrow> string \<Rightarrow> string \<Rightarrow> json" where
  "framework_plist bundle_id name platform = JDict
     [(''CFBundleIdentifier'', JStr bundle_id), (''CFBundleExecutable'', JStr name), (''CFBundleName'', JStr name),
      (''CFBundlePackageType'', JStr ''FMWK''), (''CFBundleVersion'', JStr ''1''), (''CFBundleShortVersionString'', JStr ''1.0''),
      (''CFBundleInfoDictionaryVersion'', JStr ''6.0''),
      (''CFBundleSupportedPlatforms'', JList [JStr (if platform = ''ios'' then ''iPhoneOS'' else ''MacOSX'')]),
      (if platform = ''ios'' then ''MinimumOSVersion'' else ''LSMinimumSystemVersion'', JStr (if platform = ''ios'' then ''15.0'' else ''11.0''))]"

definition install_name_flag :: "string \<Rightarrow> string" where
  "install_name_flag name = ''-Wl,-install_name,@rpath/'' @ name @ ''.framework/'' @ name"

section \<open>Segment permissions\<close>

definition bytes_text :: "bytes \<Rightarrow> string" where
  "bytes_text bs = map (\<lambda>b. char_of (unat b)) bs"

definition byte_spaces1 :: regex where
  "byte_spaces1 = Plus (Cls (\<lambda>c. let n = of_char c :: int in n = 32 \<or> (9 \<le> n \<and> n \<le> 13)))"

definition hex_digit :: "char \<Rightarrow> bool" where
  "hex_digit c \<longleftrightarrow> (let n = of_char c :: int in (48 \<le> n \<and> n \<le> 57) \<or> (65 \<le> n \<and> n \<le> 70) \<or> (97 \<le> n \<and> n \<le> 102))"

definition load_command_pattern :: regex where
  "load_command_pattern = cats [lit ''Load command '', Plus (Cls digit_char)]"

definition initprot_pattern :: regex where
  "initprot_pattern = cats [lit ''initprot'', byte_spaces1, Grp 1 (cats [lit ''0x'', Plus (Cls hex_digit)])]"

text \<open>\<^verbatim>\<open>re.split\<close> and the first group of \<^verbatim>\<open>re.search\<close>.\<close>

fun split_pieces :: "piece list \<Rightarrow> string list" where
  "split_pieces [] = [[]]"
| "split_pieces (Gap c # ps) = (case split_pieces ps of [] \<Rightarrow> [[c]] | w # ws \<Rightarrow> (c # w) # ws)"
| "split_pieces (Hit _ _ # ps) = [] # split_pieces ps"

definition re_split :: "regex \<Rightarrow> string \<Rightarrow> string list" where
  "re_split r s = split_pieces (scan r None s)"

definition search_group :: "regex \<Rightarrow> string \<Rightarrow> string option" where
  "search_group r s = (case hits r s of [] \<Rightarrow> None | p # _ \<Rightarrow> Some (group (hit_caps p) 1))"

definition hex_digit_value :: "char \<Rightarrow> int" where
  "hex_digit_value c = (let n = of_char c :: int in if n \<le> 57 then n - 48 else if n \<le> 70 then n - 55 else n - 87)"

definition hex_number :: "string \<Rightarrow> int" where
  "hex_number s = foldl (\<lambda>v c. v * 16 + hex_digit_value c) 0 (drop 2 s)"

definition segment_safe :: "string \<Rightarrow> bool" where
  "segment_safe seg \<longleftrightarrow> \<not> contains ''LC_SEGMENT_64'' seg \<or>
     (case search_group initprot_pattern seg of None \<Rightarrow> False | Some h \<Rightarrow> hex_number h AND 6 \<noteq> 6)"

definition load_commands_safe :: "bytes \<Rightarrow> bool" where
  "load_commands_safe listing \<longleftrightarrow> list_all segment_safe (re_split load_command_pattern (bytes_text listing))"

section \<open>The paired frameworks\<close>

definition file_size :: "fs \<Rightarrow> path \<Rightarrow> ('m, int) res" where
  "file_size fs p = bind_res (read_bytes fs p) (\<lambda>bs. Inr (int (length bs)))"

record frame_result =
  fr_binary :: path
  fr_unsigned_bytes :: int
  fr_signed_bytes :: int
  fr_ns :: int
  fr_signed_sha256 :: json

definition guest_framework ::
  "std \<Rightarrow> apple \<Rightarrow> tool \<Rightarrow> path \<Rightarrow> path \<Rightarrow> string \<Rightarrow> string \<Rightarrow> fs \<times> (string \<times> frame_result) list \<Rightarrow> string \<Rightarrow>
   (frame_msg, fs \<times> (string \<times> frame_result) list) res"
where
  "guest_framework std ap exec packed d platform sysroot st kind =
     (let fs = fst st; name = ''ARTBox'' @ kind; framework = d @ [name @ ''.framework'']; binary = framework @ [name] in
      bind_res (mkdir_parents fs framework) (\<lambda>fs1.
      bind_res (if kind = ''Converted'' then copyfile fs1 (packed @ [''converted.dylib'']) binary
        else bind_res (run_tool exec fs1 [''xcrun'', ''--sdk'', sdk_name platform, ''clang'', ''-target'', target_name platform, ''-isysroot'', sysroot,
            ''-dynamiclib'', ''-I'', abs_str packed, abs_str (packed @ [''wrapper.S'']), install_name_flag name,
            ''-Wl,-exported_symbol,_artbox_guest_start'', ''-o'', abs_str binary]) (\<lambda>(fs2, _). Inr fs2)) (\<lambda>fs3.
      bind_res (file_size fs3 binary) (\<lambda>unsigned_bytes.
      bind_res (chmod fs3 binary 493) (\<lambda>fs4.
      bind_res (write_bytes fs4 (framework @ [''Info.plist'']) (ap_plist_dumps ap (framework_plist (''com.j0shua.'' @ name) name platform))) (\<lambda>fs5.
      bind_res (run_tool exec fs5 [''codesign'', ''--force'', ''--sign'', ''-'', ''--timestamp=none'', abs_str framework]) (\<lambda>(fs6, _).
      bind_res (run_tool exec fs6 [''codesign'', ''--verify'', ''--strict'', ''--verbose=2'', abs_str framework]) (\<lambda>(fs7, _).
      bind_res (run_tool exec fs7 [''xcrun'', ''otool'', ''-l'', abs_str binary]) (\<lambda>(fs8, listing).
      require (load_commands_safe listing) (RuntimeError Unsafe_segment)
     (bind_res (write_bytes fs8 (d @ [name @ ''-load-commands.txt'']) listing) (\<lambda>fs9.
      bind_res (resolve fs9 binary) (\<lambda>resolved.
      bind_res (file_size fs9 binary) (\<lambda>signed_bytes.
      bind_res (digest_of std fs9 binary) (\<lambda>sha.
      Inr (fs9, dict_set (snd st) (casefold kind) \<lparr>fr_binary = resolved, fr_unsigned_bytes = unsigned_bytes, fr_signed_bytes = signed_bytes,
        fr_ns = ap_elapsed ap name, fr_signed_sha256 = sha\<rparr>)))))))))))))))"

record guest_bundles =
  gb_pack :: json
  gb_toolchain :: json
  gb_frameworks :: "(string \<times> frame_result) list"

definition guest_prepare ::
  "std \<Rightarrow> apple \<Rightarrow> tool \<Rightarrow> path \<Rightarrow> fs \<Rightarrow> path \<Rightarrow> path \<Rightarrow> string \<Rightarrow> (frame_msg, fs \<times> guest_bundles) res"
where
  "guest_prepare std ap exec rootdir fs fixture d platform =
     require (ap_darwin ap) (RuntimeError Requires_macos)
    (let packed = d @ [''pack''] in
     bind_res (run_tool exec fs [ap_python ap, ''-B'', abs_str (rootdir @ [''tools'', ''pack_elf.py'']), abs_str fixture, abs_str packed, platform]) (\<lambda>(fs1, _).
     bind_res (lift_msg Reading_json (load_json std fs1 (packed @ [''pack-info.json'']))) (\<lambda>info.
     bind_res (sysroot_of exec fs1 (sdk_name platform)) (\<lambda>(fs2, sysroot).
     bind_res (foldM (guest_framework std ap exec packed d platform sysroot) (fs2, []) [''Converted'', ''Wrapped'']) (\<lambda>(fs3, results).
     bind_res (lift_msg Reading_json (load_json std fs3 (butlast fixture @ [''elf-build.json'']))) (\<lambda>toolchain.
     ensure (bind_res (jget toolchain ''elf_sha256'') (\<lambda>a. bind_res (jget info ''input_sha256'') (\<lambda>b. Inr (py_eq a b)))) (RuntimeError Toolchain_differs)
       (Inr (fs3, \<lparr>gb_pack = info, gb_toolchain = toolchain, gb_frameworks = results\<rparr>))))))))"

section \<open>Wrapped shared objects\<close>

definition ascii_alnum :: "char \<Rightarrow> bool" where
  "ascii_alnum c \<longleftrightarrow> (let n = of_char c :: int in (48 \<le> n \<and> n \<le> 57) \<or> (65 \<le> n \<and> n \<le> 90) \<or> (97 \<le> n \<and> n \<le> 122))"

definition framework_name_ok :: "string \<Rightarrow> bool" where
  "framework_name_ok name \<longleftrightarrow> name \<noteq> [] \<and> list_all ascii_alnum name \<and> startswith name ''ARTBox''"

definition valid_notice :: "string \<Rightarrow> bool" where
  "valid_notice value \<longleftrightarrow> endswith value ''.txt'' \<and> list_all (\<lambda>c. ascii_alnum c \<or> c = CHR ''-'' \<or> c = CHR ''_'' \<or> c = CHR ''.'') value"

text \<open>The layout as \<^verbatim>\<open>layout.json\<close> records it.\<close>

definition json_int :: "json \<Rightarrow> ('m, int) res" where
  "json_int v = (case v of JInt i \<Rightarrow> Inr i | _ \<Rightarrow> Inl TypeError)"

definition int_field :: "json \<Rightarrow> string \<Rightarrow> ('m, int) res" where
  "int_field v k = bind_res (jget v k) json_int"

definition str_field :: "json \<Rightarrow> string \<Rightarrow> ('m, string) res" where
  "str_field v k = bind_res (jget v k) json_str"

definition segment_of_value :: "json \<Rightarrow> ('m, segment) res" where
  "segment_of_value v =
     bind_res (int_field v ''index'') (\<lambda>i. bind_res (int_field v ''address'') (\<lambda>a. bind_res (int_field v ''offset'') (\<lambda>off.
     bind_res (int_field v ''file_size'') (\<lambda>s. bind_res (int_field v ''memory_size'') (\<lambda>m. bind_res (int_field v ''flags'') (\<lambda>f.
     bind_res (int_field v ''alignment'') (\<lambda>al.
     Inr \<lparr>seg_index = i, seg_address = a, seg_offset = off, seg_file_size = s, seg_memory_size = m, seg_flags = f, seg_alignment = al\<rparr>)))))))"

definition layout_of_value :: "json \<Rightarrow> ('m, wrap_layout) res" where
  "layout_of_value v =
     bind_res (str_field v ''input_sha256'') (\<lambda>i. bind_res (int_field v ''rx_bytes'') (\<lambda>rx. bind_res (int_field v ''rw_bytes'') (\<lambda>rw.
     bind_res (str_field v ''rx_sha256'') (\<lambda>rxs. bind_res (str_field v ''rw_sha256'') (\<lambda>rws.
     bind_res (jget v ''loads'') (\<lambda>l. bind_res (case l of JList xs \<Rightarrow> mapM segment_of_value xs | _ \<Rightarrow> Inl TypeError) (\<lambda>segs.
     Inr \<lparr>lay_input_sha256 = i, lay_rx_bytes = rx, lay_rw_bytes = rw, lay_rx_sha256 = rxs, lay_rw_sha256 = rws, lay_loads = segs\<rparr>)))))))"

definition verify_binary :: "std \<Rightarrow> fs \<Rightarrow> path \<Rightarrow> wrap_layout \<Rightarrow> (frame_msg, verified) res" where
  "verify_binary std fs binary layout =
     bind_res (read_bytes fs binary) (\<lambda>data. lift_msg (\<lambda>m. Reading_json (Wrapping m)) (verify_macho (std_sha std) data layout))"

definition add_notice ::
  "std \<Rightarrow> path \<Rightarrow> fs \<times> (string \<times> string) list \<Rightarrow> string \<times> path \<times> string \<Rightarrow> (frame_msg, fs \<times> (string \<times> string) list) res"
where
  "add_notice std framework st x =
     (case x of (name, p, expected) \<Rightarrow>
      bind_res (read_bytes (fst st) p) (\<lambda>data.
      require (std_sha std data = expected) (RuntimeError (Notice_differs_from_pin name))
     (bind_res (write_bytes (fst st) (framework @ [name]) data) (\<lambda>fs1. Inr (fs1, dict_set (snd st) name expected)))))"

record dynamic_report =
  dr_platform :: string
  dr_target :: string
  dr_layout :: verified
  dr_notices :: "(string \<times> string) list"
  dr_unsigned_bytes :: int
  dr_signed_bytes :: int
  dr_ns :: int

definition moved :: "verified \<Rightarrow> verified \<Rightarrow> bool" where
  "moved before after \<longleftrightarrow> load_bias before \<noteq> load_bias after \<or> rx_address before \<noteq> rx_address after \<or> rw_address before \<noteq> rw_address after"

definition sign_framework :: "apple \<Rightarrow> tool \<Rightarrow> fs \<Rightarrow> path \<Rightarrow> (frame_msg, fs) res" where
  "sign_framework ap exec fs framework =
     bind_res (run_tool exec fs [''codesign'', ''--force'', ''--sign'', ''-'', ''--timestamp=none'', abs_str framework]) (\<lambda>(fs1, _).
     bind_res (run_tool exec fs1 [''codesign'', ''--verify'', ''--strict'', ''--verbose=2'', abs_str framework]) (\<lambda>(fs2, _).
     bind_res (run_tool exec fs2 [''codesign'', ''--display'', ''--entitlements'', '':-'', abs_str framework]) (\<lambda>(fs3, entitlements).
     bind_res (if entitlements = [] then Inr () else
         bind_res (of_option (ValueError Invalid_plist) (ap_plist_loads ap entitlements)) (\<lambda>v.
         require (py_eq v (JDict [])) (RuntimeError Unexpected_entitlements) (Inr ()))) (\<lambda>_. Inr fs3))))"

definition dynamic_prepare ::
  "std \<Rightarrow> apple \<Rightarrow> tool \<Rightarrow> fs \<Rightarrow> path \<Rightarrow> path \<Rightarrow> string \<Rightarrow> path \<Rightarrow> string \<Rightarrow> (string \<times> path \<times> string) list \<Rightarrow> string \<Rightarrow> string \<Rightarrow>
   (frame_msg, fs \<times> path \<times> dynamic_report) res"
where
  "dynamic_prepare std ap exec fs packed d platform notice notice_sha256 extra_notices name notice_name =
     require (ap_darwin ap \<and> platform \<in> {''macos'', ''ios''}) (RuntimeError Requires_macos)
    (require (framework_name_ok name) (ValueError Bad_framework_name)
    (require (valid_notice notice_name \<and> list_all valid_notice (dict_keys extra_notices)) (ValueError Bad_notice_name)
    (let notice_names = notice_name # dict_keys extra_notices in
     require (distinct (map casefold notice_names)) (ValueError Duplicate_notice)
    (let framework = d @ [name @ ''.framework'']; binary = framework @ [name] in
     bind_res (mkdir_parents fs framework) (\<lambda>fs1.
     bind_res (sysroot_of exec fs1 (sdk_name platform)) (\<lambda>(fs2, sysroot).
     bind_res (lift_msg Reading_json (load_json std fs2 (packed @ [''layout.json'']))) (\<lambda>layout_json.
     bind_res (layout_of_value layout_json) (\<lambda>layout.
     bind_res (run_tool exec fs2 [''xcrun'', ''--sdk'', sdk_name platform, ''clang'', ''-target'', target_name platform, ''-isysroot'', sysroot, ''-dynamiclib'',
         ''-I'', abs_str packed, abs_str (packed @ [''wrapper.S'']), install_name_flag name,
         ''-Wl,-exported_symbol,_artbox_dynamic_rx'', ''-Wl,-exported_symbol,_artbox_dynamic_rw'', ''-o'', abs_str binary]) (\<lambda>(fs3, _).
     bind_res (verify_binary std fs3 binary layout) (\<lambda>before.
     bind_res (file_size fs3 binary) (\<lambda>unsigned_size.
     bind_res (write_bytes fs3 (framework @ [''Info.plist''])
        (ap_plist_dumps ap (framework_plist (''org.artbox.'' @ drop (length ''ARTBox'') name) name platform))) (\<lambda>fs4.
     bind_res (foldM (add_notice std framework) (fs4, []) ((notice_name, notice, notice_sha256) # extra_notices)) (\<lambda>(fs5, notice_hashes).
     bind_res (sign_framework ap exec fs5 framework) (\<lambda>fs6.
     bind_res (verify_binary std fs6 binary layout) (\<lambda>after.
     require (\<not> moved before after) (RuntimeError Layout_moved)
    (bind_res (run_tool exec fs6 [''xcrun'', ''otool'', ''-l'', abs_str binary]) (\<lambda>(fs7, listing).
     bind_res (write_bytes fs7 (d @ [''load-commands.txt'']) listing) (\<lambda>fs8.
     bind_res (file_size fs8 binary) (\<lambda>signed_size.
     Inr (fs8, binary, \<lparr>dr_platform = platform, dr_target = target_name platform, dr_layout = after, dr_notices = notice_hashes,
       dr_unsigned_bytes = unsigned_size, dr_signed_bytes = signed_size, dr_ns = ap_elapsed ap name\<rparr>))))))))))))))))))))"

lemma segment_roundtrip: "segment_of_value (segment_json s) = Inr s"
  by (simp add: segment_of_value_def segment_json_def int_field_def jget_def dict_get_def json_int_def)

lemma segments_roundtrip: "mapM segment_of_value (map segment_json ss) = Inr ss"
  by (induction ss) (simp_all add: segment_roundtrip)

lemma layout_roundtrip: "layout_of_value (layout_value l) = Inr l"
  by (simp add: layout_of_value_def layout_value_def int_field_def str_field_def jget_def dict_get_def json_int_def json_str_def segments_roundtrip)

section \<open>What a signed framework guarantees\<close>

lemma add_notices:
  assumes "foldM (add_notice std framework) (fs, acc) xs = Inr (fs', acc')" and "distinct (dict_keys acc @ map fst xs)"
  shows "acc' = acc @ map (\<lambda>(n, _, e). (n, e)) xs"
  using assms
proof (induction xs arbitrary: fs acc)
  case (Cons x xs)
  obtain name p expected where x: "x = (name, p, expected)" by (cases x)
  obtain st where st: "add_notice std framework (fs, acc) x = Inr st" "foldM (add_notice std framework) st xs = Inr (fs', acc')"
    using Cons.prems(1) by (auto simp: bind_res_Inr_iff)
  then obtain fs1 where "st = (fs1, dict_set acc name expected)" using x by (auto simp: add_notice_def res_simps)
  then have "foldM (add_notice std framework) (fs1, dict_set acc name expected) xs = Inr (fs', acc')" using st(2) by simp
  moreover have "dict_set acc name expected = acc @ [(name, expected)]" using Cons.prems(2) x by (intro dict_set_fresh) auto
  ultimately show ?case using Cons.IH [of fs1 "acc @ [(name, expected)]"] Cons.prems(2) x by auto
qed simp

lemma verify_binary_guarantee:
  assumes "verify_binary std fs binary layout = Inr v"
  shows "\<exists>data. read_bytes fs binary = (Inr data :: (frame_msg, bytes) res) \<and> macho_guarantee (std_sha std) data layout v"
  using assms by (auto simp: verify_binary_def res_simps intro: verify_macho_guarantee)


text \<open>A framework that is already linked and signed, and tools that find nothing to change.\<close>

definition r_framework :: path where
  "r_framework = [''ARTBoxA.framework'']"

definition r_binary :: path where
  "r_binary = [''ARTBoxA.framework'', ''ARTBoxA'']"

definition r_fs :: fs where
  "r_fs = [(r_framework, Dir), (r_binary, File sample_macho None), (r_framework @ [''Info.plist''], File [] None), (r_framework @ [''N.txt''], File [1] None),
     ([''notice''], File [1] None), ([''layout.json''], File [] None), ([''load-commands.txt''], File [] None)]"

definition r_exec :: tool where
  "r_exec words fs = \<lparr>status = 0, out_bytes = [], err_bytes = [], after_fs = fs\<rparr>"

definition r_std :: std where
  "r_std = \<lparr>std_sha = plain_digest, std_loads = (\<lambda>_. Some (layout_value sample_layout)), std_dumps = (\<lambda>_. [])\<rparr>"

definition r_apple :: apple where
  "r_apple = \<lparr>ap_darwin = True, ap_python = ''python3'', ap_plist_dumps = (\<lambda>_. []), ap_plist_loads = (\<lambda>_. None), ap_elapsed = (\<lambda>_. 1)\<rparr>"

lemma r_tool: "run_tool r_exec fs words = Inr (fs, [])"
  by (simp add: run_tool_def r_exec_def)

lemma r_places:
  "locate r_fs r_framework = Some r_framework" "locate r_fs r_binary = Some r_binary"
  "locate r_fs (r_framework @ [''Info.plist'']) = Some (r_framework @ [''Info.plist''])" "locate r_fs (r_framework @ [''N.txt'']) = Some (r_framework @ [''N.txt''])"
  "locate r_fs [''notice''] = Some [''notice'']" "locate r_fs [''layout.json''] = Some [''layout.json'']"
  "locate r_fs [''load-commands.txt''] = Some [''load-commands.txt'']"
  by code_simp+

lemma r_nodes:
  "map_of r_fs r_framework = Some Dir" "map_of r_fs r_binary = Some (File sample_macho None)" "map_of r_fs (r_framework @ [''Info.plist'']) = Some (File [] None)"
  "map_of r_fs (r_framework @ [''N.txt'']) = Some (File [1] None)" "map_of r_fs [''notice''] = Some (File [1] None)"
  "map_of r_fs [''layout.json''] = Some (File [] None)" "map_of r_fs [''load-commands.txt''] = Some (File [] None)"
  by (simp_all add: r_fs_def r_framework_def r_binary_def)

lemma r_steps:
  "(mkdir_parents r_fs r_framework :: (frame_msg, fs) res) = Inr r_fs"
  "(read_bytes r_fs r_binary :: (frame_msg, bytes) res) = Inr sample_macho"
  "(read_bytes r_fs [''notice''] :: (frame_msg, bytes) res) = Inr [1]"
  "load_json r_std r_fs [''layout.json''] = Inr (layout_value sample_layout)"
  "(write_bytes r_fs (r_framework @ [''Info.plist'']) [] :: (frame_msg, fs) res) = Inr r_fs"
  "(write_bytes r_fs (r_framework @ [''N.txt'']) [1] :: (frame_msg, fs) res) = Inr r_fs"
  "(write_bytes r_fs [''load-commands.txt''] [] :: (frame_msg, fs) res) = Inr r_fs"
proof -
  have "[1..<Suc (length r_framework)] = [1]" "take 1 r_framework = r_framework" by (simp_all add: r_framework_def)
  then show "(mkdir_parents r_fs r_framework :: (frame_msg, fs) res) = Inr r_fs"
    using r_places(1) r_nodes(1) by (simp add: mkdir_parents_def mkdir_one_def is_dir_def stat_def node_at_def)
qed (use r_places r_nodes in \<open>simp_all add: read_bytes_def write_bytes_def load_json_def stat_def node_at_def dict_set_same decode_utf8_def r_std_def r_framework_def r_binary_def\<close>)

lemma r_verified: "\<exists>v. verify_binary r_std r_fs r_binary sample_layout = Inr v"
  by (simp add: verify_binary_def r_steps r_std_def macho_verified lift_msg_def)

lemma r_dynamic:
  "\<exists>result. dynamic_prepare r_std r_apple r_exec r_fs [] [] ''ios'' [''notice''] [CHR 0x01] [] ''ARTBoxA'' ''N.txt'' = Inr (r_fs, r_binary, result)"
proof -
  obtain v where v: "verify_binary r_std r_fs r_binary sample_layout = Inr v" using r_verified by blast
  have names: "framework_name_ok ''ARTBoxA''" "valid_notice ''N.txt''" by code_simp+
  have "plain_digest [1] = [CHR 0x01]" by code_simp
  moreover have "strip_space [] = []" by code_simp
  moreover have "r_framework @ [''ARTBoxA''] = r_binary" by (simp add: r_framework_def r_binary_def)
  moreover have "std_sha r_std = plain_digest" by (simp add: r_std_def)
  ultimately show ?thesis
    unfolding dynamic_prepare_def Let_def
    using names v by (simp add: r_apple_def r_tool r_steps sysroot_of_def sign_framework_def file_size_def layout_roundtrip lift_msg_def add_notice_def
      decode_utf8_def moved_def r_framework_def [symmetric])
qed


end
