(* ===== verification/Dex_Fixture.thy ===== *)
theory Dex_Fixture
  imports Py_Struct "HOL-Library.List_Lexorder" "HOL-Library.Char_ord"
begin

text \<open>
  The DEX data fixture and its malformed variants (\<^verbatim>\<open>dex_fixture.py\<close>).  \<^verbatim>\<open>hashlib.sha1\<close> is the
  parameter \<open>sha\<close>; Adler-32 is computed.
\<close>

function dex_uleb :: "nat \<Rightarrow> bytes" where
  "dex_uleb value =
     (let b = value AND 127; rest = drop_bit 7 value in
      word_of_nat (b OR (if rest \<noteq> 0 then 128 else 0)) # (if rest = 0 then [] else dex_uleb rest))"
  by pat_completeness auto

termination
  by (relation "measure id") (auto simp: drop_bit_eq_div)

declare dex_uleb.simps [simp del]

definition adler32 :: "bytes \<Rightarrow> int" where
  "adler32 data =
     (let (a, b) = foldl (\<lambda>(a, b) x. let a' = (a + uint x) mod 65521 in (a', (b + a') mod 65521)) (1, 0) data in b * 65536 + a)"

text \<open>\<^verbatim>\<open>data[12:32] = sha1(data[32:])\<close> and the checksum over what follows it.\<close>

definition reseal :: "(bytes \<Rightarrow> bytes) \<Rightarrow> bytes \<Rightarrow> ('m, bytes) res" where
  "reseal sha data =
     (let signed_data = take 12 data @ sha (drop 32 data) @ drop 32 data in
      pack_into [U32] signed_data 8 [Num (adler32 (drop 12 signed_data) AND 0xffffffff)])"

definition ascii_bytes :: "string \<Rightarrow> bytes" where
  "ascii_bytes s = map (\<lambda>c. of_char c) s"

definition index_in :: "string list \<Rightarrow> string \<Rightarrow> nat" where
  "index_in xs s = length (takeWhile (\<lambda>x. x \<noteq> s) xs)"

definition HELLO_TEXT :: string where
  "HELLO_TEXT = ''hello from ARTBox ART''"

definition dex_strings :: "string list" where
  "dex_strings = sort [HELLO_TEXT, ''L'', ''Lartbox/Hello;'', ''Ljava/lang/Object;'', ''Ljava/lang/String;'', ''message'']"

definition dex_si :: "string \<Rightarrow> nat" where
  "dex_si s = index_in dex_strings s"

definition dex_descriptors :: "string list" where
  "dex_descriptors = sort_key dex_si [''Lartbox/Hello;'', ''Ljava/lang/Object;'', ''Ljava/lang/String;'']"

definition dex_ti :: "string \<Rightarrow> nat" where
  "dex_ti s = index_in dex_descriptors s"

definition STRING_IDS :: nat where "STRING_IDS = 112"
definition TYPE_IDS :: nat where "TYPE_IDS = STRING_IDS + 4 * length dex_strings"
definition PROTO_IDS :: nat where "PROTO_IDS = TYPE_IDS + 4 * length dex_descriptors"
definition METHOD_IDS :: nat where "METHOD_IDS = PROTO_IDS + 12"
definition CLASS_DEFS :: nat where "CLASS_DEFS = METHOD_IDS + 8"
definition DATA_OFF :: nat where "DATA_OFF = CLASS_DEFS + 32"

definition nums :: "int list \<Rightarrow> sval list" where
  "nums xs = map Num xs"

definition add_string :: "bytes \<Rightarrow> nat \<times> string \<Rightarrow> ('m, bytes) res" where
  "add_string data x =
     (case x of (i, s) \<Rightarrow>
      bind_res (pack_into [U32] data (int (STRING_IDS + 4 * i)) (nums [int (length data)])) (\<lambda>d.
      Inr (d @ dex_uleb (length s) @ ascii_bytes s @ [0])))"

definition pad4 :: "bytes \<Rightarrow> bytes" where
  "pad4 data = data @ replicate (nat ((- int (length data)) mod 4)) 0"

record dex_layout =
  dl_code_offset :: nat
  dl_class_data_offset :: nat
  dl_map_offset :: nat
  dl_method_ids_offset :: nat
  dl_string_count :: nat
  dl_instructions :: "int list"

definition dex_sections :: "nat \<Rightarrow> nat \<Rightarrow> nat \<Rightarrow> (int \<times> nat \<times> nat) list" where
  "dex_sections code_off class_data_off map_off =
    [(0, 1, 0), (1, length dex_strings, STRING_IDS), (2, length dex_descriptors, TYPE_IDS), (3, 1, PROTO_IDS),
     (5, 1, METHOD_IDS), (6, 1, CLASS_DEFS), (0x2002, length dex_strings, DATA_OFF),
     (0x2001, 1, code_off), (0x2000, 1, class_data_off), (0x1000, 1, map_off)]"

text \<open>The file before it is sealed, and the offsets it is described by.\<close>

definition hello_body :: "('m, bytes \<times> dex_layout) res" where
  "hello_body =
     bind_res (foldM add_string (replicate DATA_OFF 0) (enumerate 0 dex_strings)) (\<lambda>data1.
     bind_res (foldM (\<lambda>data (i, s). pack_into [U32] data (int (TYPE_IDS + 4 * i)) (nums [int (dex_si s)])) data1 (enumerate 0 dex_descriptors)) (\<lambda>data2.
     bind_res (pack_into [U32, U32, U32] data2 (int PROTO_IDS) (nums [int (dex_si ''L''), int (dex_ti ''Ljava/lang/String;''), 0])) (\<lambda>data3.
     bind_res (pack_into [U16, U16, U32] data3 (int METHOD_IDS) (nums [int (dex_ti ''Lartbox/Hello;''), 0, int (dex_si ''message'')])) (\<lambda>data4.
     let data5 = pad4 data4; code_off = length data5 in
     bind_res (struct_pack [U16, U16, U16, U16, U32, U32, U16, U16, U16] (nums [1, 0, 0, 0, 0, 3, 0x001a, int (dex_si HELLO_TEXT), 0x0011])) (\<lambda>code.
     let data6 = data5 @ code; class_data_off = length data6;
         data7 = data6 @ [0, 0, 1, 0] @ dex_uleb 0 @ dex_uleb 9 @ dex_uleb code_off in
     bind_res (pack_into (replicate 8 U32) data7 (int CLASS_DEFS)
        (nums [int (dex_ti ''Lartbox/Hello;''), 1, int (dex_ti ''Ljava/lang/Object;''), 0, 0xffffffff, 0, int class_data_off, 0])) (\<lambda>data8.
     let data9 = pad4 data8; map_off = length data9; sections = dex_sections code_off class_data_off map_off in
     bind_res (struct_pack [U32] (nums [int (length sections)])) (\<lambda>count.
     bind_res (foldM (\<lambda>data (kind, n, off). bind_res (struct_pack [U16, U16, U32, U32] (nums [kind, 0, int n, int off])) (\<lambda>row. Inr (data @ row)))
        (data9 @ count) sections) (\<lambda>data10.
     let data11 = [0x64, 0x65, 0x78, 0x0A, 0x30, 0x33, 0x35, 0] @ drop 8 data10 in
     bind_res (pack_into (replicate 20 U32) data11 32
        (nums [int (length data11), 112, 0x12345678, 0, 0, int map_off, int (length dex_strings), int STRING_IDS, int (length dex_descriptors), int TYPE_IDS, 1, int PROTO_IDS, 0, 0, 1, int METHOD_IDS, 1, int CLASS_DEFS, int (length data11 - DATA_OFF), int DATA_OFF])) (\<lambda>data12.
     Inr (data12, \<lparr>dl_code_offset = code_off, dl_class_data_offset = class_data_off, dl_map_offset = map_off,
        dl_method_ids_offset = METHOD_IDS, dl_string_count = length dex_strings, dl_instructions = [0x001a, int (dex_si HELLO_TEXT), 0x0011]\<rparr>))))))))))"

definition make_hello :: "(bytes \<Rightarrow> bytes) \<Rightarrow> ('m, bytes \<times> dex_layout) res" where
  "make_hello sha = bind_res hello_body (\<lambda>(data, l). bind_res (reseal sha data) (\<lambda>sealed. Inr (sealed, l)))"

section \<open>Malformed inputs\<close>

definition patched :: "(bytes \<Rightarrow> bytes) \<Rightarrow> bytes \<Rightarrow> string \<times> nat \<times> int \<Rightarrow> ('m, string \<times> bytes) res" where
  "patched sha original x =
     (case x of (name, off, value) \<Rightarrow>
      bind_res (pack_into [U32] original (int off) [Num value]) (\<lambda>data.
      bind_res (reseal sha data) (\<lambda>sealed. Inr (name, sealed))))"

definition malformed_patches :: "dex_layout \<Rightarrow> (string \<times> nat \<times> int) list" where
  "malformed_patches l =
    [(''duplicate-map-kind'', dl_map_offset l + 4 + 12, 0),
     (''method-name-out-of-range'', dl_method_ids_offset l + 4, int (dl_string_count l)),
     (''code-size-overflow'', dl_code_offset l + 12, 0xffffffff)]"

definition malformed_inputs :: "(bytes \<Rightarrow> bytes) \<Rightarrow> bytes \<Rightarrow> dex_layout \<Rightarrow> ('m, (string \<times> bytes) list) res" where
  "malformed_inputs sha original l =
     bind_res (mapM (patched sha original) (malformed_patches l)) (\<lambda>results.
     require (8 < length original) IndexError
       (Inr (results @ [(''bad-checksum'', original[8 := (original ! 8) XOR 1]), (''truncated-map'', butlast original)])))"

section \<open>Integrity\<close>

definition checksum_ok :: "bytes \<Rightarrow> bool" where
  "checksum_ok data \<longleftrightarrow> word_at data 8 = adler32 (drop 12 data)"

definition signature_ok :: "(bytes \<Rightarrow> bytes) \<Rightarrow> bytes \<Rightarrow> bool" where
  "signature_ok sha data \<longleftrightarrow> read_at data 12 20 = sha (drop 32 data)"

lemma adler_range: "0 \<le> adler32 data \<and> adler32 data < 2 ^ 32"
proof -
  have inv: "0 \<le> fst st \<Longrightarrow> fst st < 65521 \<Longrightarrow> 0 \<le> snd st \<Longrightarrow> snd st < 65521 \<Longrightarrow>
    0 \<le> fst (foldl (\<lambda>(a, b) x. let a' = (a + uint x) mod 65521 in (a', (b + a') mod 65521)) st data) \<and>
    fst (foldl (\<lambda>(a, b) x. let a' = (a + uint x) mod 65521 in (a', (b + a') mod 65521)) st data) < 65521 \<and>
    0 \<le> snd (foldl (\<lambda>(a, b) x. let a' = (a + uint x) mod 65521 in (a', (b + a') mod 65521)) st data) \<and>
    snd (foldl (\<lambda>(a, b) x. let a' = (a + uint x) mod 65521 in (a', (b + a') mod 65521)) st data) < 65521" for st :: "int \<times> int"
    by (induction data arbitrary: st) (auto simp: Let_def split: prod.splits)
  show ?thesis using inv [of "(1, 0)"] by (auto simp: adler32_def split: prod.splits)
qed

lemma reseal_eq:
  assumes "length (sha (drop 32 data)) = 20" and "32 \<le> length data"
  shows "reseal sha data = (Inr (take 8 data @ le_bytes 4 (adler32 (sha (drop 32 data) @ drop 32 data)) @ sha (drop 32 data) @ drop 32 data) :: ('m, bytes) res)"
proof -
  let ?d = "take 12 data @ sha (drop 32 data) @ drop 32 data" let ?a = "adler32 (drop 12 ?d)"
  have d: "drop 12 ?d = sha (drop 32 data) @ drop 32 data" "length ?d = length data" using assms by simp_all
  have "?a AND mask 32 = ?a" using adler_range by (simp only: take_bit_eq_mask [symmetric] take_bit_int_eq_self)
  then have mask: "?a AND 0xffffffff = ?a" by (simp add: mask_eq_exp_minus_1)
  have "(struct_pack [U32] [Num ?a] :: ('m, bytes) res) = Inr (le_bytes 4 ?a)"
    using adler_range [of "drop 12 ?d"] by (simp add: pack_unsigned_def)
  moreover have "(buffer_offset (length ?d) 4 8 :: ('m, nat) res) = Inr 8" using d(2) assms(2) by (subst buffer_offset_Inr_iff) auto
  ultimately have "reseal sha data = (Inr (write_at ?d 8 (le_bytes 4 ?a)) :: ('m, bytes) res)"
    unfolding reseal_def Let_def mask by (simp add: pack_into_def)
  then show ?thesis using assms unfolding d(1) by (simp add: write_at_def min_def)
qed

lemma reseal_Inr:
  assumes "length (sha (drop 32 data)) = 20" and "32 \<le> length data" and "reseal sha data = (Inr sealed :: ('m, bytes) res)"
  shows "checksum_ok sealed \<and> signature_ok sha sealed \<and> length sealed = length data \<and> drop 32 sealed = drop 32 data \<and> take 8 sealed = take 8 data"
proof -
  let ?a = "adler32 (sha (drop 32 data) @ drop 32 data)"
  have a: "sealed = take 8 data @ le_bytes 4 ?a @ sha (drop 32 data) @ drop 32 data" using assms(3) [unfolded reseal_eq [of sha data, OF assms(1,2)]] by simp
  have "le_int (le_bytes 4 ?a) = ?a" using adler_range by (intro le_int_le_bytes) auto
  then show ?thesis
    using assms(1,2) by (simp add: a checksum_ok_def signature_ok_def word_at_def read_at_def min_def)
qed

lemma flipped_checksum:
  assumes "32 \<le> length data" and "checksum_ok data"
  shows "\<not> checksum_ok (data[8 := (data ! 8) XOR 1])"
proof -
  let ?b = "data[8 := (data ! 8) XOR 1]"
  have "data ! 8 XOR 1 \<noteq> data ! 8" by (metis xor.assoc xor_self_eq xor.left_neutral zero_neq_one)
  then have ne: "read_at ?b 8 4 \<noteq> read_at data 8 4"
    using assms(1) by (simp add: read_at_def numeral_eq_Suc drop_Suc_Cons take_Suc_conv_app_nth Cons_nth_drop_Suc [symmetric])
  have "word_at ?b 8 \<noteq> word_at data 8"
    unfolding word_at_def using ne u32_codec.dec_inj [of "read_at ?b 8 4" "read_at data 8 4"] assms(1) by (auto simp: read_at_def)
  then show ?thesis using assms(2) by (simp add: checksum_ok_def)
qed

lemma malformed_inputs_integrity:
  assumes "\<And>bs. length (sha bs) = 20" and "32 \<le> length original" and "malformed_inputs sha original l = (Inr results :: ('m, (string \<times> bytes) list) res)"
    and "checksum_ok original"
  shows "(\<forall>name \<in> {''duplicate-map-kind'', ''method-name-out-of-range'', ''code-size-overflow''}. \<exists>data. map_of results name = Some data \<and>
      length data = length original \<and> checksum_ok data \<and> signature_ok sha data) \<and>
    (\<exists>data. map_of results ''bad-checksum'' = Some data \<and> length data = length original \<and> drop 9 data = drop 9 original \<and> \<not> checksum_ok data) \<and>
    (\<exists>data. map_of results ''truncated-map'' = Some data \<and> length data < length original)"
proof -
  have patch: "\<exists>sealed. r = (n, sealed) \<and> length sealed = length original \<and> checksum_ok sealed \<and> signature_ok sha sealed"
    if pr: "patched sha original (n, off, v) = (Inr r :: ('m, string \<times> bytes) res)" for n off v r
  proof -
    obtain data sealed where d: "pack_into [U32] original (int off) [Num v] = (Inr data :: ('m, bytes) res)"
      and s: "reseal sha data = (Inr sealed :: ('m, bytes) res)" and r: "r = (n, sealed)"
      using pr by (auto simp: patched_def bind_res_Inr_iff)
    have "length data = length original"
      using d by (auto simp: pack_into_def bind_res_Inr_iff buffer_offset_Inr_iff length_write_at)
    then show ?thesis using reseal_Inr [of sha data, OF assms(1) _ s] assms(2) r by simp
  qed
  obtain r1 r2 r3 where r: "results = [r1, r2, r3, (''bad-checksum'', original[8 := (original ! 8) XOR 1]), (''truncated-map'', butlast original)]"
    and p: "patched sha original (''duplicate-map-kind'', dl_map_offset l + 4 + 12, 0) = (Inr r1 :: ('m, string \<times> bytes) res)"
      "patched sha original (''method-name-out-of-range'', dl_method_ids_offset l + 4, int (dl_string_count l)) = (Inr r2 :: ('m, string \<times> bytes) res)"
      "patched sha original (''code-size-overflow'', dl_code_offset l + 12, 0xffffffff) = (Inr r3 :: ('m, string \<times> bytes) res)"
    using assms(3) by (auto simp: malformed_inputs_def malformed_patches_def res_simps)
  obtain d1 d2 d3 where d: "r1 = (''duplicate-map-kind'', d1)" "r2 = (''method-name-out-of-range'', d2)" "r3 = (''code-size-overflow'', d3)"
    and ok: "length d1 = length original" "checksum_ok d1" "signature_ok sha d1" "length d2 = length original" "checksum_ok d2" "signature_ok sha d2"
      "length d3 = length original" "checksum_ok d3" "signature_ok sha d3"
    using patch [OF p(1)] patch [OF p(2)] patch [OF p(3)] by blast
  note bad = flipped_checksum [OF assms(2,4)]
  show ?thesis using assms(2) bad ok by (simp add: r d)
qed

definition zero_sha :: "bytes \<Rightarrow> bytes" where
  "zero_sha bs = replicate 20 0"

definition small_layout :: dex_layout where
  "small_layout = \<lparr>dl_code_offset = 20, dl_class_data_offset = 0, dl_map_offset = 16, dl_method_ids_offset = 32, dl_string_count = 6, dl_instructions = []\<rparr>"

definition small_dex :: bytes where
  "small_dex = replicate 8 0 @ [1, 0, 28, 0] @ replicate 28 0"

lemma small_dex_ok: "is_ok (malformed_inputs zero_sha small_dex small_layout :: (unit, (string \<times> bytes) list) res)" "checksum_ok small_dex"
  by code_simp+

lemma malformed_inputs_integrity_witness:
  "\<exists>results data. malformed_inputs zero_sha small_dex small_layout = (Inr results :: (unit, (string \<times> bytes) list) res) \<and>
     map_of results ''bad-checksum'' = Some data \<and> \<not> checksum_ok data"
proof -
  obtain results where r: "malformed_inputs zero_sha small_dex small_layout = (Inr results :: (unit, (string \<times> bytes) list) res)"
    using small_dex_ok(1) by (auto simp: is_ok_iff)
  have "length (zero_sha bs) = 20" for bs by (simp add: zero_sha_def)
  moreover have "32 \<le> length small_dex" by (simp add: small_dex_def)
  ultimately show ?thesis using malformed_inputs_integrity [OF _ _ r small_dex_ok(2)] r by blast
qed

section \<open>The fixture itself\<close>

definition body_ok :: "bytes \<times> dex_layout \<Rightarrow> bool" where
  "body_ok x = (case x of (data, l) \<Rightarrow> 112 \<le> int (length data) \<and> 32 \<le> int (dl_map_offset l) \<and> take 8 data = [0x64, 0x65, 0x78, 0x0A, 0x30, 0x33, 0x35, 0] \<and>
     word_at data 32 = int (length data) \<and> word_at data 52 = int (dl_map_offset l) \<and> int (dl_map_offset l) mod 4 = 0 \<and>
     word_at data (dl_map_offset l) = 10 \<and> int (dl_map_offset l) + 4 + 10 * 12 = int (length data) \<and> int (dl_code_offset l) mod 4 = 0)"

lemma hello_body_ok: "case (hello_body :: (unit, bytes \<times> dex_layout) res) of Inl _ \<Rightarrow> False | Inr x \<Rightarrow> body_ok x"
  by code_simp

lemma make_hello_consistent:
  assumes "\<And>bs. length (sha bs) = 20"
  shows "\<exists>data l. make_hello sha = (Inr (data, l) :: (unit, bytes \<times> dex_layout) res) \<and> checksum_ok data \<and> signature_ok sha data \<and> body_ok (data, l)"
proof -
  obtain body l where b: "hello_body = (Inr (body, l) :: (unit, bytes \<times> dex_layout) res)" and ok: "body_ok (body, l)"
    using hello_body_ok by (auto split: sum.splits)
  have len: "32 \<le> length body" using ok by (simp add: body_ok_def)
  obtain data where d: "reseal sha body = (Inr data :: (unit, bytes) res)" using reseal_eq [of sha body, OF assms len] by blast
  note r = reseal_Inr [of sha body, OF assms len d]
  have at: "read_at data off n = read_at body off n" if "32 \<le> off" for off n
  proof -
    have "drop off data = drop (off - 32) (drop 32 data)" "drop off body = drop (off - 32) (drop 32 body)" using that by simp_all
    then show ?thesis using r by (simp add: read_at_def)
  qed
  have "32 \<le> dl_map_offset l"
    using ok by (simp add: body_ok_def)
  then have "body_ok (data, l)" using ok r by (simp add: body_ok_def word_at_def at)
  then show ?thesis unfolding make_hello_def b bind_res_Inr prod.case d using r by blast
qed

lemma make_hello_consistent_witness:
  "\<exists>data l. make_hello zero_sha = (Inr (data, l) :: (unit, bytes \<times> dex_layout) res) \<and> checksum_ok data"
proof -
  have "length (zero_sha bs) = 20" for bs by (simp add: zero_sha_def)
  then show ?thesis using make_hello_consistent [of zero_sha] by blast
qed

end
