(* ===== verification/Classlib_Check.thy ===== *)
theory Classlib_Check
  imports Framework_Link Dex_Fixture
begin

text \<open>
  The class-library DEX check (\<^verbatim>\<open>classlib_check.py\<close>): its verified inputs, the two corrupted ones, the
  linked verifier and its five cases.  The archive reader, SHA-1, the object compiler and the Mach-O
  inspection are parameters.
\<close>

datatype (plugins only: code) classlib_msg =
    Classlib_json bundle_msg
  | Invalid_attempt
  | Report_differs
  | Provenance_differs
  | Build_input_changed string
  | Dex_archive_changed
  | Unexpected_entries
  | Dex_input_changed
  | Case_failed string
  | Invalid_result string
  | Wrong_class_count

section \<open>Inputs\<close>

definition attempt_ok :: "json \<Rightarrow> bool" where
  "attempt_ok v = (case v of JStr s \<Rightarrow> startswith s ''attempt-'' \<and> path_name s = s | _ \<Rightarrow> False)"

definition json_list :: "json \<Rightarrow> ('m, json list) res" where
  "json_list v = (case v of JList xs \<Rightarrow> Inr xs | _ \<Rightarrow> Inl TypeError)"

definition expected_sources :: "json \<Rightarrow> json \<Rightarrow> (classlib_msg, json) res" where
  "expected_sources specs config =
     bind_res (bind_res (jget config ''java_sources'') json_list) (\<lambda>java.
     bind_res (bind_res (jget config ''build_sources'') json_list) (\<lambda>build.
     bind_res (mapM (\<lambda>v. bind_res (json_str v) (\<lambda>n. bind_res (jget specs n) (\<lambda>s. Inr (n, s)))) (java @ build)) (\<lambda>items.
     Inr (JDict (foldl (\<lambda>d (k, v). dict_set d k v) [] items)))))"

definition flip_checksum :: "bytes \<Rightarrow> ('m, bytes) res" where
  "flip_checksum data = require (8 < length data) IndexError (Inr (data[8 := (data ! 8) XOR 1]))"

definition class_index_out_of_range :: "(bytes \<Rightarrow> bytes) \<Rightarrow> bytes \<Rightarrow> ('m, bytes) res" where
  "class_index_out_of_range sha data =
     bind_res (unpack_from [U32] data 100) (\<lambda>classes_offset.
     bind_res (unpack_from [U32] data 64) (\<lambda>type_count.
     bind_res (pack_into [U32] data (num (classes_offset ! 0)) [type_count ! 0]) (\<lambda>changed. reseal sha changed)))"

definition extract_dex ::
  "std \<Rightarrow> (string \<times> bytes) list \<Rightarrow> path \<Rightarrow> fs \<times> path list \<Rightarrow> json \<Rightarrow> (classlib_msg, fs \<times> path list) res"
where
  "extract_dex std entries d st item =
     bind_res (bind_res (jget item ''name'') json_str) (\<lambda>name.
     bind_res (dict_get entries name) (\<lambda>contents.
     ensure (and_m (field_eq item ''bytes'' (JInt (int (length contents)))) (field_eq item ''sha256'' (JStr (std_sha std contents))))
       (RuntimeError Dex_input_changed)
    (bind_res (write_bytes (fst st) (path_div d name) contents) (\<lambda>fs1. Inr (fs1, snd st @ [path_div d name])))))"

type_synonym dex_case = "path list \<times> int \<times> string option"

record classlib_record =
  cr_build_report_sha256 :: json
  cr_dex_files :: json
  cr_project_sources :: "(string \<times> json) list"

definition nth_path :: "path list \<Rightarrow> nat \<Rightarrow> ('m, path) res" where
  "nth_path ps i = require (i < length ps) IndexError (Inr (ps ! i))"

definition prepare_inputs ::
  "std \<Rightarrow> (bytes \<Rightarrow> bytes) \<Rightarrow> (bytes \<Rightarrow> (string \<times> bytes) list option) \<Rightarrow> path \<Rightarrow> fs \<Rightarrow> path \<Rightarrow> path \<Rightarrow>
   (classlib_msg, fs \<times> (string \<times> dex_case) list \<times> classlib_record) res"
where
  "prepare_inputs std sha open_zip project fs rootdir d =
     bind_res (lift_msg Classlib_json (load_json std fs (rootdir @ [''result.json'']))) (\<lambda>result.
     bind_res (jget result ''attempt'') (\<lambda>attempt.
     require (attempt_ok attempt) (RuntimeError Invalid_attempt)
    (bind_res (json_str attempt) (\<lambda>name.
     let report_path = rootdir @ [name, ''report.json'']; archive_path = rootdir @ [name, ''implementation-dex.zip''] in
     bind_res (lift_msg Classlib_json (load_json std fs report_path)) (\<lambda>report.
     ensure (and_m (field_eq result ''report'' report) (bind_res (jget report ''runtime_executed'') (\<lambda>v. Inr (\<not> truthy v)))) (RuntimeError Report_differs)
    (bind_res (lift_msg Classlib_json (load_json std fs (project @ [''third_party'', ''sources.json'']))) (\<lambda>specs.
     bind_res (lift_msg Classlib_json (load_json std fs (project @ [''third_party'', ''art'', ''classlib.json'']))) (\<lambda>config.
     bind_res (expected_sources specs config) (\<lambda>expected.
     ensure (field_eq report ''sources'' expected) (RuntimeError Provenance_differs)
    (bind_res (bind_res (jget report ''project_sources'') jitems) (\<lambda>items.
     bind_res (foldM (\<lambda>_ (n, e). ensure (digest_is std fs (path_div project n) e) (RuntimeError (Build_input_changed n)) (Inr ())) () items) (\<lambda>_.
     bind_res (jget report ''artifacts'') (\<lambda>artifacts.
     bind_res (jget artifacts ''implementation-dex.zip'') (\<lambda>dex_zip.
     ensure (bind_res (digest_of std fs archive_path) (field_eq dex_zip ''sha256'')) (RuntimeError Dex_archive_changed)
    (bind_res (mkdir_parents fs d) (\<lambda>fs1.
     bind_res (read_bytes fs1 archive_path) (\<lambda>archive_data.
     bind_res (of_option ZipError (open_zip archive_data)) (\<lambda>entries.
     require (sort (map fst entries) = [''classes.dex'', ''classes2.dex'']) (RuntimeError Unexpected_entries)
    (bind_res (bind_res (jget report ''dex_files'') json_list) (\<lambda>dex_files.
     bind_res (foldM (extract_dex std entries d) (fs1, []) dex_files) (\<lambda>(fs2, paths).
     bind_res (nth_path paths 0) (\<lambda>first.
     bind_res (read_bytes fs2 first) (\<lambda>data.
     bind_res (flip_checksum data) (\<lambda>bad.
     let checksum = d @ [''bad-checksum.dex'']; structural = d @ [''class-index-out-of-range.dex''] in
     bind_res (write_bytes fs2 checksum bad) (\<lambda>fs3.
     bind_res (read_bytes fs3 first) (\<lambda>data2.
     bind_res (class_index_out_of_range sha data2) (\<lambda>changed.
     bind_res (write_bytes fs3 structural changed) (\<lambda>fs4.
     bind_res (nth_path paths 1) (\<lambda>second.
     bind_res (digest_of std fs4 report_path) (\<lambda>report_sha.
     bind_res (jget report ''dex_files'') (\<lambda>dex_value.
     bind_res (mapM (\<lambda>p. bind_res (digest_of std fs4 (path_div project p)) (\<lambda>h. Inr (p, h))) [''scripts/classlib_check.py'', ''fixtures/art-classlib/check.cpp''])
       (\<lambda>sources.
     Inr (fs4,
       [(''implementation'', paths, 0, None),
        (''bad-checksum'', [checksum, second], 2, Some ''AOSP DEX verifier:''),
        (''class-index-out-of-range'', [structural, second], 2, Some ''AOSP DEX verifier:''),
        (''duplicate-class-set'', paths @ [first], 3, Some ''Class-library contract: duplicate class''),
        (''missing-secondary-dex'', [first], 3, Some ''Class-library contract: incomplete class set'')],
       \<lparr>cr_build_report_sha256 = report_sha, cr_dex_files = dex_value, cr_project_sources = sources\<rparr>)))))))))))))))))))))))))))))))))"

section \<open>The verifier\<close>

record case_result =
  ca_result :: json
  ca_seconds :: int
  ca_inputs :: "json list"

definition run_case ::
  "std \<Rightarrow> apple \<Rightarrow> tool \<Rightarrow> path \<Rightarrow> path \<Rightarrow> fs \<times> (string \<times> case_result) list \<Rightarrow> string \<times> dex_case \<Rightarrow>
   (classlib_msg, fs \<times> (string \<times> case_result) list) res"
where
  "run_case std ap exec d binary st x =
     (case x of (name, inputs, expected, diagnostic) \<Rightarrow>
      let r = exec (abs_str binary # map abs_str inputs) (fst st) in
      bind_res (decode_utf8 (out_bytes r)) (\<lambda>out0. bind_res (decode_utf8 (err_bytes r)) (\<lambda>err0.
      let out = universal_newlines out0; err = universal_newlines err0 in
      bind_res (write_bytes (after_fs r) (d @ [name @ ''.log'']) (encode_utf8 (out @ err))) (\<lambda>fs1.
      require (status r = expected \<and> (case diagnostic of None \<Rightarrow> True | Some m \<Rightarrow> contains m err)) (RuntimeError (Case_failed name))
     (bind_res (of_option (ValueError (Classlib_json Invalid_json)) (std_loads std out)) (\<lambda>value.
      ensure (and_m (field_eq value ''result'' (JInt expected))
          (and_m (bind_res (jget value ''dex_executed'') (\<lambda>v. Inr (\<not> truthy v)))
          (field_eq value ''dex_verified'' (JBool (expected = 0))))) (RuntimeError (Invalid_result name))
     (ensure (if expected = 0 then field_eq value ''classes'' (JInt 7309) else Inr True) (RuntimeError Wrong_class_count)
     (bind_res (mapM (digest_of std fs1) inputs) (\<lambda>digests.
      Inr (fs1, dict_set (snd st) name \<lparr>ca_result = value, ca_seconds = ap_elapsed ap name, ca_inputs = digests\<rparr>))))))))))"

record target_record =
  ta_objects :: json
  ta_signed :: "json option"
  ta_binary_sha256 :: "json option"
  ta_cases :: "(string \<times> case_result) list"

definition classlib_plist :: json where
  "classlib_plist = JDict
     [(''CFBundleIdentifier'', JStr ''org.artbox.ClassLibrary''), (''CFBundleExecutable'', JStr ''ARTBoxClassLibrary''),
      (''CFBundleName'', JStr ''ARTBoxClassLibrary''), (''CFBundlePackageType'', JStr ''FMWK''), (''CFBundleVersion'', JStr ''1''),
      (''CFBundleShortVersionString'', JStr ''1.0''), (''MinimumOSVersion'', JStr ''15.0''), (''CFBundleSupportedPlatforms'', JList [JStr ''iPhoneOS''])]"

definition copy_notices :: "fs \<Rightarrow> path \<Rightarrow> path \<Rightarrow> ('m, fs) res" where
  "copy_notices fs notices framework =
     foldM (\<lambda>fs n. bind_res (read_bytes fs (notices @ [n])) (write_bytes fs (framework @ [n]))) fs
       (case locate fs notices of None \<Rightarrow> [] | Some q \<Rightarrow> filter (\<lambda>n. endswith n ''.txt'') (child_names fs q))"

definition build_target ::
  "std \<Rightarrow> apple \<Rightarrow> tool \<Rightarrow> (string list \<Rightarrow> string list \<Rightarrow> path \<Rightarrow> fs \<Rightarrow> (classlib_msg, fs \<times> path list \<times> json) res) \<Rightarrow>
   (fs \<Rightarrow> path \<Rightarrow> int \<Rightarrow> int option \<Rightarrow> (classlib_msg, json) res) \<Rightarrow> fs \<Rightarrow> string list \<Rightarrow> string list \<Rightarrow> string list \<Rightarrow> path list \<Rightarrow> string \<Rightarrow>
   path \<Rightarrow> path \<Rightarrow> (string \<times> dex_case) list \<Rightarrow> (classlib_msg, fs \<times> target_record) res"
where
  "build_target std ap exec compile_units macho fs compiler flags link_flags objects target d notices cases =
     bind_res (mkdir_parents fs d) (\<lambda>fs1.
     bind_res (compile_units compiler (flags @ (if target = ''ios'' then [] else [''-DARTBOX_CLASSLIB_EXECUTABLE''])) (d @ [''objects'']) fs1) (\<lambda>(fs2, check, metadata).
     if target = ''ios'' then
       let name = ''ARTBoxClassLibrary''; framework = d @ [name @ ''.framework'']; binary = framework @ [name] in
       bind_res (mkdir_one fs2 framework) (\<lambda>fs3.
       bind_res (run_tool exec fs3 (compiler @ link_flags @ [''-dynamiclib''] @ map abs_str objects @ map abs_str check @ [''-lz'', ''-Wl,-dead_strip'',
           ''-Wl,-exported_symbol,_artbox_classlib_inspect'', install_name_flag name, ''-o'', abs_str binary])) (\<lambda>(fs4, _).
       bind_res (write_bytes fs4 (framework @ [''Info.plist'']) (ap_plist_dumps ap classlib_plist)) (\<lambda>fs5.
       bind_res (copy_notices fs5 notices framework) (\<lambda>fs6.
       bind_res (run_tool exec fs6 [''codesign'', ''--force'', ''--sign'', ''-'', ''--timestamp=none'', abs_str framework]) (\<lambda>(fs7, _).
       bind_res (macho fs7 binary 2 None) (\<lambda>signed_binary.
       Inr (fs7, \<lparr>ta_objects = metadata, ta_signed = Some signed_binary, ta_binary_sha256 = None, ta_cases = []\<rparr>)))))))
     else
       let binary = d @ [''classlib-check''] in
       bind_res (run_tool exec fs2 (compiler @ link_flags @ map abs_str objects @ map abs_str check @ [''-lz'', ''-pthread'',
           if target = ''macos'' then ''-Wl,-dead_strip'' else ''-Wl,--gc-sections'', ''-o'', abs_str binary])) (\<lambda>(fs3, _).
       bind_res (if target = ''macos'' then
           bind_res (run_tool exec fs3 [''codesign'', ''--force'', ''--sign'', ''-'', ''--timestamp=none'', abs_str binary]) (\<lambda>(fs4, _).
           bind_res (macho fs4 binary 1 (Some (2 ^ 32))) (\<lambda>m. Inr (fs4, Some m)))
         else Inr (fs3, None)) (\<lambda>(fs5, signed_binary).
       bind_res (digest_of std fs5 binary) (\<lambda>sha.
       bind_res (foldM (run_case std ap exec d binary) (fs5, []) cases) (\<lambda>(fs6, results).
       Inr (fs6, \<lparr>ta_objects = metadata, ta_signed = signed_binary, ta_binary_sha256 = Some sha, ta_cases = results\<rparr>)))))))"

section \<open>The corrupted inputs\<close>

lemma class_index_result:
  assumes "\<And>bs. length (sha bs) = 20" and "class_index_out_of_range sha data = (Inr changed :: ('m, bytes) res)" and "32 \<le> word_at data 100"
  shows "checksum_ok changed \<and> signature_ok sha changed \<and> length changed = length data \<and>
    word_at changed (nat (word_at data 100)) = word_at data 64"
proof -
  let ?off = "nat (word_at data 100)"
  obtain co tc patched_data where co: "unpack_from [U32] data 100 = (Inr co :: ('m, sval list) res)" and tc: "unpack_from [U32] data 64 = (Inr tc :: ('m, sval list) res)"
    and p: "pack_into [U32] data (num (co ! 0)) [tc ! 0] = (Inr patched_data :: ('m, bytes) res)" and s: "reseal sha patched_data = (Inr changed :: ('m, bytes) res)"
    using assms(2) by (auto simp: class_index_out_of_range_def bind_res_Inr_iff)
  have len: "104 \<le> length data" and co0: "num (co ! 0) = word_at data 100" and tc0: "tc ! 0 = Num (word_at data 64)"
    using co tc by (auto simp: unpack_from_Inr_iff word_at_def calcsize_def read_at_def)
  have fit: "?off + 4 \<le> length data" and pd: "patched_data = write_at data ?off (le_bytes 4 (word_at data 64))"
    using p assms(3) unfolding co0 tc0 by (auto simp: pack_into_def bind_res_Inr_iff buffer_offset_Inr_iff pack_unsigned_def res_simps)
  have plen: "length patched_data = length data" using fit by (simp add: pd length_write_at)
  note r = reseal_Inr [of sha patched_data, OF assms(1) _ s]
  have "read_at changed ?off 4 = read_at patched_data ?off 4"
    using r plen len assms(3) by (simp add: read_at_def) (metis drop_drop le_add_diff_inverse2 nat_le_iff nat_numeral nat_mono)
  also have "\<dots> = le_bytes 4 (word_at data 64)" unfolding pd using read_write_same [of ?off "le_bytes 4 (word_at data 64)" data] fit by simp
  finally have "word_at changed ?off = word_at data 64"
    using le_int_less [of "read_at data 64 4"] len by (subst word_at_def) (simp add: word_at_def read_at_def le_int_le_bytes)
  then show ?thesis using r plen len by simp
qed

lemma corrupted_dex_integrity:
  assumes "\<And>bs. length (sha bs) = 20" and "checksum_ok data" and "class_index_out_of_range sha data = (Inr changed :: ('m, bytes) res)"
    and "32 \<le> word_at data 100"
  shows "(\<exists>bad. flip_checksum data = (Inr bad :: ('m, bytes) res) \<and> length bad = length data \<and> drop 9 bad = drop 9 data \<and> \<not> checksum_ok bad) \<and>
    checksum_ok changed \<and> signature_ok sha changed \<and> length changed = length data \<and> word_at changed (nat (word_at data 100)) = word_at data 64"
proof -
  have len: "32 \<le> length data"
    using assms(3) by (auto simp: class_index_out_of_range_def bind_res_Inr_iff unpack_from_Inr_iff)
  then have "\<exists>bad. flip_checksum data = (Inr bad :: ('m, bytes) res) \<and> length bad = length data \<and> drop 9 bad = drop 9 data \<and> \<not> checksum_ok bad"
    using flipped_checksum [OF len assms(2)] by (simp add: flip_checksum_def)
  then show ?thesis using class_index_result [OF assms(1,3,4)] by blast
qed

definition large_dex :: bytes where
  "large_dex = replicate 8 0 @ [105, 0, 68, 5] @ replicate 88 0 @ [104] @ replicate 11 0"

lemma large_dex_ok:
  "is_ok (class_index_out_of_range zero_sha large_dex :: (unit, bytes) res)" "checksum_ok large_dex" "word_at large_dex 100 = 104"
  by code_simp+

lemma corrupted_dex_integrity_witness:
  "\<exists>bad changed. flip_checksum large_dex = (Inr bad :: (unit, bytes) res) \<and> \<not> checksum_ok bad \<and>
     class_index_out_of_range zero_sha large_dex = (Inr changed :: (unit, bytes) res) \<and> checksum_ok changed \<and> signature_ok zero_sha changed"
proof -
  obtain changed where c: "class_index_out_of_range zero_sha large_dex = (Inr changed :: (unit, bytes) res)"
    using large_dex_ok(1) by (auto simp: is_ok_iff)
  have "length (zero_sha bs) = 20" for bs by (simp add: zero_sha_def)
  then show ?thesis using corrupted_dex_integrity [OF _ large_dex_ok(2) c] c large_dex_ok(3) by auto
qed

section \<open>The cases of a target\<close>

definition case_exact :: "string \<times> dex_case \<Rightarrow> string \<times> case_result \<Rightarrow> bool" where
  "case_exact c r = (case c of (name, inputs, expected, _) \<Rightarrow>
     fst r = name \<and> (field_eq (ca_result (snd r)) ''result'' (JInt expected) :: (classlib_msg, bool) res) = Inr True \<and>
     (field_eq (ca_result (snd r)) ''dex_verified'' (JBool (expected = 0)) :: (classlib_msg, bool) res) = Inr True \<and>
     (\<exists>v. (jget (ca_result (snd r)) ''dex_executed'' :: (classlib_msg, json) res) = Inr v \<and> \<not> truthy v) \<and>
     (expected = 0 \<longrightarrow> (field_eq (ca_result (snd r)) ''classes'' (JInt 7309) :: (classlib_msg, bool) res) = Inr True) \<and>
     length (ca_inputs (snd r)) = length inputs)"

lemma run_case_exact:
  assumes "run_case std ap exec d binary (fs, acc) c = Inr st" and "fst c \<notin> set (map fst acc)"
  shows "\<exists>fs' r. st = (fs', acc @ [r]) \<and> case_exact c r"
proof -
  obtain name inputs expected diagnostic where c: "c = (name, inputs, expected, diagnostic)" by (cases c)
  show ?thesis
    using assms unfolding c run_case_def
    by (auto simp: Let_def res_simps dict_set_fresh case_exact_def mapM_length split: if_splits)
qed

lemma run_cases_exact:
  assumes "foldM (run_case std ap exec d binary) (fs, acc) cs = Inr (fs', acc')" and "distinct (map fst acc @ map fst cs)"
  shows "\<exists>new. acc' = acc @ new \<and> list_all2 case_exact cs new"
  using assms
proof (induction cs arbitrary: fs acc)
  case (Cons c cs)
  obtain st where st: "run_case std ap exec d binary (fs, acc) c = Inr st" "foldM (run_case std ap exec d binary) st cs = Inr (fs', acc')"
    using Cons.prems(1) by (auto simp: bind_res_Inr_iff)
  obtain fs1 r where r: "st = (fs1, acc @ [r])" "case_exact c r" using run_case_exact [OF st(1)] Cons.prems(2) by auto
  have "fst r = fst c" using r(2) by (auto simp: case_exact_def split: prod.splits)
  then have "distinct (map fst (acc @ [r]) @ map fst cs)" using Cons.prems(2) by auto
  then obtain new where "acc' = (acc @ [r]) @ new" "list_all2 case_exact cs new" using Cons.IH st(2) r(1) by blast
  then show ?case using r(2) by (intro exI [of _ "r # new"]) simp
qed simp

lemma build_target_cases:
  assumes "build_target std ap exec compile_units macho fs compiler flags link_flags objects target d notices cases = Inr (fs', result)"
    and "target \<noteq> ''ios''" and "distinct (map fst cases)"
  shows "list_all2 case_exact cases (ta_cases result)"
proof -
  obtain binary fs5 results where "foldM (run_case std ap exec d binary) (fs5, []) cases = Inr (fs', results)" "ta_cases result = results"
    using assms(1,2) by (auto simp: build_target_def Let_def bind_res_Inr_iff)
  then show ?thesis using run_cases_exact [of std ap exec d binary fs5 "[]" cases fs' results] assms(3) by auto
qed

definition b_value :: json where
  "b_value = JDict [(''result'', JInt 0), (''dex_executed'', JBool False), (''dex_verified'', JBool True), (''classes'', JInt 7309)]"

definition b_std :: std where
  "b_std = \<lparr>std_sha = (\<lambda>_. ''h''), std_loads = (\<lambda>_. Some b_value), std_dumps = (\<lambda>_. [])\<rparr>"

definition b_apple :: apple where
  "b_apple = \<lparr>ap_darwin = False, ap_python = ''python3'', ap_plist_dumps = (\<lambda>_. []), ap_plist_loads = (\<lambda>_. None), ap_elapsed = (\<lambda>_. 1)\<rparr>"

definition b_exec :: tool where
  "b_exec words fs = \<lparr>status = 0, out_bytes = [], err_bytes = [], after_fs = dict_set fs [''d'', ''classlib-check''] (File [1] None)\<rparr>"

definition b_fs :: fs where
  "b_fs = [([''d''], Dir), ([''x''], File [7] None)]"

definition b_target :: "(classlib_msg, fs \<times> target_record) res" where
  "b_target = build_target b_std b_apple b_exec (\<lambda>_ _ _ fs. Inr (fs, [], JNull)) (\<lambda>_ _ _ _. Inl TypeError) b_fs [''c++''] [] [] [] ''linux'' [''d''] []
     [(''implementation'', [[''x'']], 0, None)]"

lemma b_target_ok: "is_ok b_target"
  by code_simp

lemma build_target_cases_witness:
  "\<exists>fs' result. b_target = Inr (fs', result) \<and> list_all2 case_exact [(''implementation'', [[''x'']], 0, None)] (ta_cases result)"
proof -
  obtain fs' result where r: "b_target = Inr (fs', result)" using b_target_ok by (auto simp: is_ok_iff)
  have "list_all2 case_exact [(''implementation'', [[''x'']], 0, None)] (ta_cases result)"
    using build_target_cases [OF r [unfolded b_target_def]] by simp
  then show ?thesis using r by blast
qed

end
