(* ===== verification/Native_Probes.thy ===== *)
theory Native_Probes
  imports Runtime_Oracles Sources
begin

text \<open>
  Generated inputs and Linux oracles: the Android account table (\<^verbatim>\<open>bionic_ids.py\<close>), the ART source
  selection (\<^verbatim>\<open>art_runtime_sources.py\<close>), the \<^verbatim>\<open>mremap\<close> capability probe (\<^verbatim>\<open>art_mremap_probe.py\<close>) and the
  Binder libc reference (\<^verbatim>\<open>binder_libc.py\<close>).
\<close>

datatype (plugins only: code) probe_msg =
    From_sources src_msg
  | From_json bundle_msg
  | From_edit edit_msg
  | Account_table_differs
  | Probe_regression string string
  | Binder_pin_differs
  | Regex_selection_differs
  | Binder_source_changed string
  | Binder_build_failed string
  | Binder_license_changed

section \<open>The account table\<close>

definition crlf_to_lf :: "bytes \<Rightarrow> bytes" where
  "crlf_to_lf bs = replace_all [13, 10] [10] bs"

definition retain_input ::
  "std \<Rightarrow> path \<Rightarrow> string \<Rightarrow> path \<Rightarrow> fs \<times> (string \<times> json) list \<Rightarrow> string \<Rightarrow> (probe_msg, fs \<times> (string \<times> json) list) res"
where
  "retain_input std d name source st item =
     (let p = path_div (d @ [''inputs'', name]) item in
      bind_res (mkdir_parents (fst st) (butlast p)) (\<lambda>fs1.
      bind_res (read_bytes fs1 (path_div source item)) (\<lambda>data.
      bind_res (write_bytes fs1 p data) (\<lambda>fs2.
      bind_res (digest_of std fs2 p) (\<lambda>sha. Inr (fs2, dict_set (snd st) (name @ ''/'' @ item) sha))))))"

definition spec_paths :: "(string \<times> source_spec) list \<Rightarrow> string \<Rightarrow> (probe_msg, string list) res" where
  "spec_paths specs name =
     bind_res (dict_get specs name) (\<lambda>spec. bind_res (of_option KeyError (sp_files spec)) (\<lambda>files. Inr (map pin_path files)))"

definition notice_part :: "path \<Rightarrow> fs \<Rightarrow> bytes \<Rightarrow> string \<times> string \<Rightarrow> (probe_msg, bytes) res" where
  "notice_part d fs acc x =
     (case x of (name, relative) \<Rightarrow>
      bind_res (read_bytes fs (path_div (d @ [''inputs'', name]) relative)) (\<lambda>data.
      Inr (acc @ encode_utf8 ([newline] @ ''--- '' @ name @ ''/'' @ relative @ '' ---'' @ [newline]) @ data)))"

record ids_report =
  id_pin :: json
  id_inputs :: "(string \<times> json) list"
  id_tested :: bool
  id_raw_sha256 :: string
  id_notice_sha256 :: json
  id_output_sha256 :: json

definition HEADERS_COMPONENT :: string where
  "HEADERS_COMPONENT = ''bionic-libcore-headers''"

definition upstream_tests :: "tool \<Rightarrow> string \<Rightarrow> path \<Rightarrow> path \<Rightarrow> fs \<Rightarrow> (probe_msg, fs) res" where
  "upstream_tests exec python d generator fs =
     (let r = exec [python, ''-B'', abs_str (generator @ [''tools'', ''fs_config'', ''test_fs_config_generator.py''])] fs in
      bind_res (write_bytes (after_fs r) (d @ [''upstream-tests.log'']) (out_bytes r @ err_bytes r)) (\<lambda>fs1.
      require (status r = 0) CalledProcessError (Inr fs1)))"

definition ids_prepare ::
  "std \<Rightarrow> tool \<Rightarrow> bool \<Rightarrow> string \<Rightarrow> host \<Rightarrow> (string \<Rightarrow> string) \<Rightarrow> (string \<times> source_spec) list \<Rightarrow> path \<Rightarrow> path \<Rightarrow> fs \<Rightarrow> path \<Rightarrow> bool \<Rightarrow>
   (probe_msg, fs \<times> path \<times> path \<times> ids_report) res"
where
  "ids_prepare std exec nt python h quote specs cache rootdir fs build run_tests =
     bind_res (lift_msg From_json (load_json std fs (rootdir @ [''third_party'', ''bionic'', ''android-ids.json'']))) (\<lambda>pin.
     bind_res (bind_res (jget pin ''generator'') json_str) (\<lambda>generator_name.
     bind_res (lift_msg From_sources (obtain_source h quote specs fs generator_name cache)) (\<lambda>(fs1, generator).
     bind_res (bind_res (jget pin ''header_component'') json_str) (\<lambda>header_name.
     bind_res (lift_msg From_sources (obtain_source h quote specs fs1 header_name cache)) (\<lambda>(fs2, header_root).
     bind_res (lift_msg From_sources (obtain_source h quote specs fs2 HEADERS_COMPONENT cache)) (\<lambda>(fs3, cutils).
     let d = build @ [''android-ids''] in
     bind_res (mkdir_parents fs3 d) (\<lambda>fs4.
     bind_res (spec_paths specs generator_name) (\<lambda>generator_files.
     bind_res (foldM (retain_input std d generator_name generator) (fs4, []) generator_files) (\<lambda>st5.
     bind_res (spec_paths specs HEADERS_COMPONENT) (\<lambda>cutils_files.
     bind_res (foldM (retain_input std d HEADERS_COMPONENT cutils) st5 cutils_files) (\<lambda>st6.
     bind_res (bind_res (jget pin ''header'') json_str) (\<lambda>header_file.
     bind_res (retain_input std d header_name header_root st6 header_file) (\<lambda>(fs7, inputs).
     bind_res (if run_tests \<and> \<not> nt then upstream_tests exec python d generator fs7 else Inr fs7) (\<lambda>fs8.
     bind_res (bind_res (jget pin ''command'') json_str) (\<lambda>command.
     bind_res (run_tool exec fs8 [python, ''-B'', abs_str (generator @ [''tools'', ''fs_config'', ''fs_config_generator.py'']), command,
         abs_str (path_div header_root header_file)]) (\<lambda>(fs9, raw_output).
     let generated = crlf_to_lf raw_output in
     ensure (field_eq pin ''output_sha256'' (JStr (std_sha std generated))) (RuntimeError Account_table_differs)
    (bind_res (write_bytes fs9 (d @ [''generated_android_ids.h'']) generated) (\<lambda>fs10.
     bind_res (foldM (notice_part d fs10) [] [(generator_name, ''Android.bp''), (generator_name, ''tools/fs_config/Android.bp''), (header_name, header_file),
         (HEADERS_COMPONENT, ''libcutils/include/cutils/misc.h''), (HEADERS_COMPONENT, ''libcutils/NOTICE'')]) (\<lambda>notice.
     bind_res (write_bytes fs10 (build @ [''FSCONFIG-NOTICE.txt'']) notice) (\<lambda>fs11.
     bind_res (digest_of std fs11 (build @ [''FSCONFIG-NOTICE.txt''])) (\<lambda>notice_sha.
     bind_res (jget pin ''output_sha256'') (\<lambda>output_sha.
     Inr (fs11, d, cutils, \<lparr>id_pin = pin, id_inputs = inputs, id_tested = (run_tests \<and> \<not> nt), id_raw_sha256 = std_sha std raw_output,
       id_notice_sha256 = notice_sha, id_output_sha256 = output_sha\<rparr>)))))))))))))))))))))))"

section \<open>The ART source selection\<close>

definition obtain_runtime_sources ::
  "host \<Rightarrow> (string \<Rightarrow> string) \<Rightarrow> (string \<times> source_spec) list \<Rightarrow> fs \<Rightarrow> path \<Rightarrow> (src_msg, fs \<times> (string \<times> path) list) res"
where
  "obtain_runtime_sources h quote catalog fs cache =
     foldM (\<lambda>(fs, sources) (name, spec).
        bind_res (of_option KeyError (sp_files spec)) (\<lambda>files.
        bind_res (obtain_files h quote fs name spec files cache) (\<lambda>(fs1, p). Inr (fs1, dict_set sources name p)))) (fs, []) catalog"

definition component_value :: "(string \<times> source_spec) list \<Rightarrow> string \<times> path \<Rightarrow> ('m, string \<times> json) res" where
  "component_value catalog x =
     (case x of (name, p) \<Rightarrow>
      bind_res (dict_get catalog name) (\<lambda>spec.
      bind_res (of_option KeyError (sp_files spec)) (\<lambda>files.
      Inr (name, JDict [(''directory'', JStr (abs_str p)), (''commit'', JStr (sp_commit spec)), (''files'', JInt (int (length files))),
        (''notice'', JStr (sp_notice spec)), (''notice_sha256'', JStr (sp_notice_sha256 spec))]))))"

definition runtime_sources_main ::
  "std \<Rightarrow> host \<Rightarrow> (string \<Rightarrow> string) \<Rightarrow> (string \<times> source_spec) list \<Rightarrow> path \<Rightarrow> fs \<Rightarrow> path \<Rightarrow> path \<Rightarrow> path option \<Rightarrow> (probe_msg, fs \<times> nat) res"
where
  "runtime_sources_main std h quote catalog rootdir fs cache build output_arg =
     bind_res (lift_msg From_sources (obtain_runtime_sources h quote catalog fs cache)) (\<lambda>(fs1, sources).
     let output = (case output_arg of Some p \<Rightarrow> p | None \<Rightarrow> build @ [''m3'', ''runtime'', ''source-inventory.json'']) in
     bind_res (mkdir_parents fs1 (butlast output)) (\<lambda>fs2.
     bind_res (digest_of std fs2 (rootdir @ [''third_party'', ''art'', ''runtime-sources.json''])) (\<lambda>catalog_sha.
     bind_res (mapM (component_value catalog) sources) (\<lambda>components.
     bind_res (dump_json std fs2 output (JDict
        [(''scope'', JStr ''Verified original source selection; no runtime compilation or execution''), (''catalog_sha256'', catalog_sha),
         (''components'', JDict components), (''runtime_executed'', JBool False)])) (\<lambda>fs3.
     Inr (fs3, length sources))))))"

section \<open>The mremap probe\<close>

definition PROBE_SOURCE :: string where
  "PROBE_SOURCE = ''runtime/gc/collector/mark_compact.cc''"

definition PROBE_CASES :: "string list" where
  "PROBE_CASES = [''map-unsupported'', ''map-unimplemented'', ''map-no-memory'', ''remap-unsupported'', ''remap-no-memory'',
     ''old-unmap-fails'', ''new-unmap-fails'', ''success'']"

text \<open>The function and the notice as they stand in the source.\<close>

definition probe_extract :: "string \<Rightarrow> (edit_msg, string) res" where
  "probe_extract source =
     bind_res (index_from source ''static bool HaveMremapDontunmap() {'' 0) (\<lambda>start.
     bind_res (index_from source ([newline] @ ''}'' @ [newline]) start) (\<lambda>e.
     bind_res (index_from source ''*/'' 0) (\<lambda>n.
     Inr (take (n + 2) source @ [newline] @ take (e + 3 - start) (drop start source)))))"

definition probe_fatal :: "string \<Rightarrow> string \<Rightarrow> bool" where
  "probe_fatal label name \<longleftrightarrow> name \<in> {''map-no-memory'', ''old-unmap-fails'', ''new-unmap-fails''} \<or>
     (label = ''original'' \<and> name \<in> {''map-unsupported'', ''map-unimplemented''})"

definition probe_output :: "string \<Rightarrow> string \<Rightarrow> string" where
  "probe_output label name =
     (if probe_fatal label name then '''' else if name = ''success'' then ''supported'' @ [newline] else ''unsupported'' @ [newline])"

record probe_row =
  pr_profile :: string
  pr_case :: string
  pr_exit :: int
  pr_stdout :: string
  pr_stderr :: string
  pr_expected_exit :: int
  pr_digests :: "json list"

definition probe_case ::
  "std \<Rightarrow> tool \<Rightarrow> string \<Rightarrow> path list \<Rightarrow> path \<Rightarrow> fs \<times> probe_row list \<Rightarrow> string \<Rightarrow> (probe_msg, fs \<times> probe_row list) res"
where
  "probe_case std exec label digested binary st name =
     (let expected = (if probe_fatal label name then 90 else 0); r = exec [abs_str binary, name] (fst st) in
      bind_res (decode_utf8 (out_bytes r)) (\<lambda>out.
      bind_res (decode_utf8 (err_bytes r)) (\<lambda>err.
      bind_res (mapM (digest_of std (after_fs r)) digested) (\<lambda>digests.
      let out' = universal_newlines out; err' = universal_newlines err in
      require (status r = expected \<and> out' = probe_output label name \<and> err' = []) (RuntimeError (Probe_regression label name))
        (Inr (after_fs r, snd st @ [\<lparr>pr_profile = label, pr_case = name, pr_exit = status r, pr_stdout = out', pr_stderr = err',
          pr_expected_exit = expected, pr_digests = digests\<rparr>]))))))"

definition probe_profile ::
  "std \<Rightarrow> tool \<Rightarrow> bool \<Rightarrow> path \<Rightarrow> path \<Rightarrow> string \<Rightarrow> fs \<times> probe_row list \<Rightarrow> string \<times> path \<Rightarrow> (probe_msg, fs \<times> probe_row list) res"
where
  "probe_profile std exec nt rootdir output cxx st x =
     (case x of (label, source) \<Rightarrow>
      bind_res (read_text (fst st) source) (\<lambda>s.
      bind_res (lift_msg From_edit (probe_extract s)) (\<lambda>extracted.
      let d = output @ [label]; include = d @ [''mremap_probe.inc'']; binary = d @ [if nt then ''probe.exe'' else ''probe''] in
      bind_res (mkdir_one (fst st) d) (\<lambda>fs1.
      bind_res (write_bytes fs1 include (encode_utf8 extracted)) (\<lambda>fs2.
      let r = exec [cxx, ''-std=c++17'', ''-O2'', ''-Wall'', ''-Wextra'', ''-Werror'', ''-I'', abs_str d,
            abs_str (rootdir @ [''fixtures'', ''art-runtime'', ''mremap_probe.cpp'']), ''-o'', abs_str binary] fs2 in
      bind_res (decode_utf8 (out_bytes r)) (\<lambda>out. bind_res (decode_utf8 (err_bytes r)) (\<lambda>err.
      bind_res (write_bytes (after_fs r) (d @ [''build.log'']) (encode_utf8 (universal_newlines out @ universal_newlines err))) (\<lambda>fs3.
      require (status r = 0) CalledProcessError
     (foldM (probe_case std exec label [source, include, binary] binary) (fs3, snd st) PROBE_CASES)))))))))"

definition check_probe ::
  "std \<Rightarrow> tool \<Rightarrow> bool \<Rightarrow> path \<Rightarrow> fs \<Rightarrow> path \<Rightarrow> path \<Rightarrow> path \<Rightarrow> string \<Rightarrow> (probe_msg, fs \<times> probe_row list) res"
where
  "check_probe std exec nt rootdir fs original adapted output cxx =
     bind_res (mkdir_parents fs output) (\<lambda>fs1.
     foldM (probe_profile std exec nt rootdir output cxx) (fs1, [])
       [(''original'', path_div original PROBE_SOURCE), (''adapted'', path_div adapted PROBE_SOURCE)])"

section \<open>The Binder libc reference\<close>

definition REGEX_SOURCES :: "string list" where
  "REGEX_SOURCES = map (\<lambda>n. ''libc/upstream-netbsd/lib/libc/regex/'' @ n) [''regcomp.c'', ''regexec.c'', ''regfree.c'', ''regerror.c'']"

definition REGEX_FLAGS :: "string list" where
  "REGEX_FLAGS = [''-Wno-sign-compare'', ''-Wno-unused-parameter'', ''-DPOSIX_MISTAKE'', ''-include'', ''netbsd-compat.h'']"

definition binder_selection :: "json \<Rightarrow> json \<Rightarrow> (probe_msg, bool) res" where
  "binder_selection selection pin =
     and_m (bind_res (jget selection ''source_commit'') (\<lambda>a. bind_res (jget pin ''bionic_commit'') (\<lambda>b. Inr (py_eq a b))))
       (all_m (\<lambda>name.
          and_m (bind_res (jget selection ''sources'') (\<lambda>s. bind_res (jset s) (\<lambda>names. Inr (list_ex (py_eq (JStr name)) names))))
         (and_m (bind_res (jget selection ''art_runtime_sources'') (\<lambda>s. bind_res (jget_or s name) (\<lambda>a.
            bind_res (jget pin ''files'') (\<lambda>f. bind_res (jget f name) (\<lambda>b. Inr (py_eq a b))))))
          (bind_res (jget selection ''source_flags'') (\<lambda>s. bind_res (jget_or s name) (\<lambda>a. Inr (py_eq a (JList (strs REGEX_FLAGS)))))))) REGEX_SOURCES)"

type_synonym binder_state = "fs \<times> string list list"

definition binder_run :: "tool \<Rightarrow> path \<Rightarrow> path \<Rightarrow> binder_state \<Rightarrow> string list \<Rightarrow> string \<Rightarrow> (probe_msg, binder_state) res" where
  "binder_run exec rootdir output st words label =
     (let r = exec words (fst st) in
      bind_res (write_bytes (after_fs r) (output @ [label @ ''.log'']) (out_bytes r @ err_bytes r)) (\<lambda>fs1.
      require (status r = 0) (RuntimeError (Binder_build_failed label))
        (Inr (fs1, snd st @ [map (replace_all (abs_str rootdir) ''${ARTBOX_ROOT}'') words]))))"

definition binder_flags :: "path \<Rightarrow> string list" where
  "binder_flags rootdir = [''--target=aarch64-linux-android35'', ''-O2'', ''-fPIC'', ''-fno-builtin'', ''-fno-stack-protector'',
     ''-ffixed-x18'', ''-ffixed-x27'', ''-ffixed-x28'', ''-march=armv8-a'', ''-mno-outline-atomics'',
     ''-ffile-prefix-map='' @ abs_str rootdir @ ''=.'', ''-Wall'', ''-Wextra'', ''-Werror'']"

definition binder_object ::
  "tool \<Rightarrow> bool \<Rightarrow> path \<Rightarrow> path \<Rightarrow> path \<Rightarrow> path \<Rightarrow> binder_state \<times> path list \<Rightarrow> string \<Rightarrow> (probe_msg, binder_state \<times> path list) res"
where
  "binder_object exec exe rootdir output source tools acc name =
     (let obj = output @ [path_name name @ ''.o'']; cpp = endswith name ''.cpp'';
          language = (if cpp then [''-std=c++20'', ''-fno-exceptions'', ''-fno-rtti''] else [''-std=gnu99'']);
          selected = (if name \<in> set REGEX_SOURCES then REGEX_FLAGS @ [''-I'', abs_str (source @ [''libc'', ''upstream-netbsd'', ''android'', ''include'']),
              ''-I'', abs_str (source @ [''libc'', ''upstream-netbsd'', ''lib'', ''libc'', ''include''])] else []) in
      bind_res (binder_run exec rootdir output (fst acc) ([tool_path exe tools (if cpp then ''clang++'' else ''clang'')] @ binder_flags rootdir @ language @ selected @
          [''-c'', abs_str (path_div source name), ''-o'', abs_str obj]) (path_name name @ ''.o'')) (\<lambda>st. Inr (st, snd acc @ [obj])))"

definition BINDER_PROJECT :: "string list" where
  "BINDER_PROJECT = [''LICENSE'', ''THIRD_PARTY.md'', ''fixtures/binder-libc/check.c'', ''fixtures/binder-libc/regex.c'', ''fixtures/binder-libc/linux.c'',
     ''platform/include/artbox/binder_libc_result.h'', ''scripts/binder_libc.py'', ''scripts/test_binder_libc.py'', ''scripts/environment.py'',
     ''third_party/bionic/binder-libc.json'', ''third_party/bionic/m2-objects.json'']"

definition digest_each :: "std \<Rightarrow> fs \<Rightarrow> (string \<times> path) list \<Rightarrow> ('m, (string \<times> json) list) res" where
  "digest_each std fs files = mapM (\<lambda>(name, p). bind_res (digest_of std fs p) (\<lambda>h. Inr (name, h))) files"

definition binder_reference_prepare ::
  "std \<Rightarrow> tool \<Rightarrow> ((string \<times> bytes) list \<Rightarrow> bytes) \<Rightarrow> path \<Rightarrow> fs \<Rightarrow> path \<Rightarrow> path \<Rightarrow> path \<Rightarrow> path \<Rightarrow> path \<Rightarrow> path \<Rightarrow>
   (probe_msg, fs \<times> (string \<times> json) list) res"
where
  "binder_reference_prepare std exec zip_files rootdir fs output source tools ndk caller regex_caller =
     bind_res (mkdir_parents fs output) (\<lambda>fs1.
     bind_res (lift_msg From_json (load_json std fs1 (rootdir @ [''third_party'', ''bionic'', ''binder-libc.json'']))) (\<lambda>pin.
     bind_res (lift_msg From_json (load_json std fs1 (rootdir @ [''third_party'', ''sources.json'']))) (\<lambda>all_sources.
     bind_res (jget all_sources ''bionic'') (\<lambda>bionic.
     ensure (and_m (bind_res (jget pin ''bionic_commit'') (\<lambda>a. bind_res (jget bionic ''commit'') (\<lambda>b. Inr (py_eq a b))))
         (bind_res (jget pin ''files'') (\<lambda>f. bind_res (bind_res (jget bionic ''notice'') json_str) (\<lambda>n. bind_res (jget f n) (\<lambda>a.
            bind_res (jget bionic ''notice_sha256'') (\<lambda>b. Inr (py_eq a b))))))) (RuntimeError Binder_pin_differs)
    (bind_res (lift_msg From_json (load_json std fs1 (rootdir @ [''third_party'', ''bionic'', ''m2-objects.json'']))) (\<lambda>selection.
     ensure (binder_selection selection pin) (RuntimeError Regex_selection_differs)
    (bind_res (bind_res (jget pin ''files'') jitems) (\<lambda>pinned_files.
     bind_res (foldM (\<lambda>_ (name, expected). ensure (digest_is std fs1 (path_div source name) expected)
        (RuntimeError (Binder_source_changed name)) (Inr ())) () pinned_files) (\<lambda>_.
     let exe = is_file fs1 (tools @ [''clang.exe'']) in
     bind_res (foldM (binder_object exec exe rootdir output source tools) ((fs1, []), [])
        ([''libc/bionic/time.cpp'', ''libc/upstream-openbsd/lib/libc/gen/fnmatch.c''] @ REGEX_SOURCES)) (\<lambda>(st2, objects).
     let binary = output @ [''binder-libc-linux''] in
     bind_res (binder_run exec rootdir output st2 ([tool_path exe tools ''clang''] @ binder_flags rootdir @
         [''-std=c11'', ''-I'', abs_str (rootdir @ [''platform'', ''include'']), ''-static'', ''-Wl,-z,max-page-size=65536'',
          ''-Wl,-Map,'' @ abs_str (output @ [''reference.map'']), abs_str (rootdir @ [''fixtures'', ''binder-libc'', ''linux.c'']),
          abs_str caller, abs_str regex_caller] @ map abs_str objects @ [''-o'', abs_str binary]) ''link'') (\<lambda>(fs3, commands).
     let notices = [(''NDK-NOTICE.txt'', ndk @ [''NOTICE'']), (''NDK-TOOLCHAIN-NOTICE.txt'', butlast tools @ [''NOTICE''])];
         files = foldl (\<lambda>d (k, v). dict_set d k v) [] (map (\<lambda>(n, _). (n, path_div source n)) pinned_files @
           map (\<lambda>n. (''artbox/'' @ n, path_div rootdir n)) BINDER_PROJECT @ notices) in
     bind_res (lift_msg From_json (load_json std fs3 (rootdir @ [''third_party'', ''bionic'', ''builtins.json'']))) (\<lambda>builtins.
     bind_res (jget builtins ''notice_sha256'') (\<lambda>expected_notice.
     ensure (digest_is std fs3 (butlast tools @ [''NOTICE'']) expected_notice) (RuntimeError Binder_license_changed)
    (bind_res (mapM (\<lambda>(n, p). bind_res (read_bytes fs3 p) (\<lambda>bs. Inr (n, bs))) (sort_key fst files)) (\<lambda>entries.
     bind_res (write_bytes fs3 (output @ [''corresponding-source.zip'']) (zip_files entries)) (\<lambda>fs4.
     bind_res (digest_each std fs4 [(''caller_sha256'', caller), (''regex_caller_sha256'', regex_caller), (''executable_sha256'', binary)]) (\<lambda>digests.
     bind_res (digest_each std fs4 (map (\<lambda>p. (last p, p)) objects)) (\<lambda>object_digests.
     bind_res (digest_of std fs4 (output @ [''corresponding-source.zip''])) (\<lambda>bundle_sha.
     bind_res (digest_each std fs4 files) (\<lambda>file_digests.
     bind_res (dump_json std fs4 (output @ [''build.json'']) (JDict ([(''scope'', JStr ''Native Linux ARM64 static oracle; shared caller plus original Bionic functions''),
         (''pin'', pin), (''expected'', ints BINDER_EXPECTED), (''commands'', JList (map (\<lambda>c. JList (strs c)) commands))] @ digests @
         [(''objects'', JDict object_digests), (''source_bundle_sha256'', bundle_sha), (''source_files'', JDict file_digests), (''execution_verified'', JBool False)]))) (\<lambda>fs5.
     bind_res (digest_each std fs5 [(''source_sha256'', rootdir @ [''fixtures'', ''binder-libc'', ''check.c'']), (''object_sha256'', caller),
         (''regex_source_sha256'', rootdir @ [''fixtures'', ''binder-libc'', ''regex.c'']), (''regex_object_sha256'', regex_caller),
         (''reference_manifest_sha256'', output @ [''build.json''])]) (\<lambda>summary.
     Inr (fs5, (''expected'', ints BINDER_EXPECTED) # summary)))))))))))))))))))))))"

section \<open>The probe matrix is complete\<close>

definition row_exact :: "probe_row \<Rightarrow> bool" where
  "row_exact r \<longleftrightarrow> pr_exit r = (if probe_fatal (pr_profile r) (pr_case r) then 90 else 0) \<and> pr_expected_exit r = pr_exit r \<and>
     pr_stdout r = probe_output (pr_profile r) (pr_case r) \<and> pr_stderr r = []"

definition row_key :: "probe_row \<Rightarrow> string \<times> string" where
  "row_key r = (pr_profile r, pr_case r)"

interpretation probe_cases: recording_loop "probe_case std exec label digested binary" snd
  "\<lambda>name rows. map row_key rows = [(label, name)] \<and> list_all row_exact rows" for std exec label digested binary
  by unfold_locales (auto simp: probe_case_def Let_def res_simps row_key_def row_exact_def)

lemma probe_profile_records:
  assumes "probe_profile std exec nt rootdir output cxx st (label, source) = Inr st'"
  shows "\<exists>rows. snd st' = snd st @ rows \<and> map row_key rows = map (Pair label) PROBE_CASES \<and> list_all row_exact rows"
proof -
  obtain fs3 digested binary where
    l: "foldM (probe_case std exec label digested binary) (fs3, snd st) PROBE_CASES = Inr st'"
    using assms by (auto simp: probe_profile_def Let_def res_simps)
  obtain ess where ess: "snd st' = snd st @ concat ess"
      "list_all2 (\<lambda>name rows. map row_key rows = [(label, name)] \<and> list_all row_exact rows) PROBE_CASES ess"
    using probe_cases.loop_records [OF l] by auto
  have "map row_key (concat ess) = map (Pair label) PROBE_CASES \<and> list_all row_exact (concat ess)"
    using ess(2) by (induction rule: list_all2_induct) simp_all
  then show ?thesis using ess(1) by blast
qed

interpretation probe_profiles: recording_loop "probe_profile std exec nt rootdir out cxx" snd
  "\<lambda>x rows. map row_key rows = map (Pair (fst x)) PROBE_CASES \<and> list_all row_exact rows" for std exec nt rootdir out cxx
  by unfold_locales (use probe_profile_records in \<open>force simp: split_paired_all\<close>)

lemma check_probe_exact:
  assumes "check_probe std exec nt rootdir fs original adapted output cxx = Inr (fs', rows)"
  shows "map row_key rows = List.product [''original'', ''adapted''] PROBE_CASES \<and> list_all row_exact rows"
proof -
  obtain fs1 where l: "foldM (probe_profile std exec nt rootdir output cxx) (fs1, [])
      [(''original'', path_div original PROBE_SOURCE), (''adapted'', path_div adapted PROBE_SOURCE)] = Inr (fs', rows)"
    using assms by (auto simp only: check_probe_def bind_res_Inr_iff)
  have "list_all row_exact rows"
    using probe_profiles.loop_records_each [OF l, of row_exact] by simp
  moreover have "map row_key rows = concat (map (\<lambda>x. map (Pair (fst x)) PROBE_CASES)
      [(''original'', path_div original PROBE_SOURCE), (''adapted'', path_div adapted PROBE_SOURCE)])"
    using probe_profiles.loop_records_keys [OF l, of row_key "\<lambda>x. map (Pair (fst x)) PROBE_CASES"] by simp
  ultimately show ?thesis by simp
qed

text \<open>A compiler that succeeds and a probe that behaves as the table says.\<close>

definition q_exec :: tool where
  "q_exec words fs = (case words of [b, name] \<Rightarrow>
       let label = (if contains ''original'' b then ''original'' else ''adapted'') in
       \<lparr>status = (if probe_fatal label name then 90 else 0), out_bytes = encode_utf8 (probe_output label name), err_bytes = [], after_fs = fs\<rparr>
     | _ \<Rightarrow> \<lparr>status = 0, out_bytes = [], err_bytes = [], after_fs = fs\<rparr>)"

definition q_source :: string where
  "q_source = ''/**/'' @ [newline] @ ''static bool HaveMremapDontunmap() {'' @ [newline] @ ''}'' @ [newline]"

definition q_fs :: fs where
  "q_fs = map (\<lambda>p. (p, Dir)) [[''a''], [''a'', ''runtime''], [''a'', ''runtime'', ''gc''], [''a'', ''runtime'', ''gc'', ''collector''],
       [''o''], [''o'', ''original''], [''o'', ''adapted'']] @
     [([''a'', ''runtime'', ''gc'', ''collector'', ''mark_compact.cc''], File (encode_utf8 q_source) None),
      ([''o'', ''original'', ''probe''], File [1] None), ([''o'', ''original'', ''mremap_probe.inc''], File (encode_utf8 q_source) None),
      ([''o'', ''original'', ''build.log''], File [] None), ([''o'', ''adapted'', ''probe''], File [2] None),
      ([''o'', ''adapted'', ''mremap_probe.inc''], File (encode_utf8 q_source) None), ([''o'', ''adapted'', ''build.log''], File [] None)]"

definition q_std :: std where
  "q_std = \<lparr>std_sha = (\<lambda>_. ''h''), std_loads = (\<lambda>_. None), std_dumps = (\<lambda>_. [])\<rparr>"

lemma q_exec_reads:
  "(decode_utf8 (encode_utf8 (probe_output label name)) :: (probe_msg, string) res) = Inr (probe_output label name)"
  "universal_newlines (probe_output label name) = probe_output label name"
proof -
  have "(decode_utf8 (encode_utf8 s) :: (probe_msg, string) res) = Inr s \<and> universal_newlines s = s"
    if "s \<in> {[], ''supported'' @ [newline], ''unsupported'' @ [newline]}" for s
    using that by (elim insertE emptyE) (simp_all only:, code_simp+)
  then show "(decode_utf8 (encode_utf8 (probe_output label name)) :: (probe_msg, string) res) = Inr (probe_output label name)"
    "universal_newlines (probe_output label name) = probe_output label name"
    unfolding probe_output_def by auto
qed

lemma q_exec_silent: "(decode_utf8 [] :: (probe_msg, string) res) = Inr []"
  by (simp add: decode_utf8_def)

lemma q_cases:
  assumes "label = (if contains ''original'' (abs_str binary) then ''original'' else ''adapted'')"
    and "is_ok (mapM (digest_of q_std fs) digested :: (probe_msg, json list) res)"
  shows "\<exists>rows'. foldM (probe_case q_std q_exec label digested binary) (fs, rows) names = Inr (fs, rows')"
proof (induction names arbitrary: rows)
  case (Cons name names)
  obtain ds where "(mapM (digest_of q_std fs) digested :: (probe_msg, json list) res) = Inr ds" using assms(2) by (auto simp: is_ok_iff)
  then have "\<exists>r. probe_case q_std q_exec label digested binary (fs, rows) name = Inr (fs, rows @ [r])"
    using assms(1) by (simp add: probe_case_def q_exec_def Let_def q_exec_reads q_exec_silent)
  then show ?case using Cons.IH by fastforce
qed simp
lemma q_reads:
  "(read_text q_fs (path_div [''a''] PROBE_SOURCE) :: (probe_msg, string) res) = Inr q_source"
  "probe_extract q_source = Inr q_source"
  by code_simp+

lemma q_places:
  assumes "label \<in> {''original'', ''adapted''}"
  shows "locate q_fs [''o'', label] = Some [''o'', label]"
    "locate q_fs [''o'', label, ''mremap_probe.inc''] = Some [''o'', label, ''mremap_probe.inc'']"
    "locate q_fs [''o'', label, ''build.log''] = Some [''o'', label, ''build.log'']"
    "locate q_fs [''o'', label, ''probe''] = Some [''o'', label, ''probe'']"
    "label = (if contains ''original'' (abs_str [''o'', label, ''probe'']) then ''original'' else ''adapted'')"
  using assms by (elim insertE emptyE; simp only:; code_simp)+

lemma q_nodes:
  assumes "label \<in> {''original'', ''adapted''}"
  shows "node_at q_fs [''o'', label] = Some Dir"
    "node_at q_fs [''o'', label, ''mremap_probe.inc''] = Some (File (encode_utf8 q_source) None)"
    "node_at q_fs [''o'', label, ''build.log''] = Some (File [] None)"
    "\<exists>bs. node_at q_fs [''o'', label, ''probe''] = Some (File bs None)"
  using assms by (auto simp: node_at_def q_fs_def)

lemma q_writes:
  assumes "label \<in> {''original'', ''adapted''}"
  shows "(mkdir_one q_fs [''o'', label] :: (probe_msg, fs) res) = Inr q_fs"
    "(write_bytes q_fs [''o'', label, ''mremap_probe.inc''] (encode_utf8 q_source) :: (probe_msg, fs) res) = Inr q_fs"
    "(write_bytes q_fs [''o'', label, ''build.log''] [] :: (probe_msg, fs) res) = Inr q_fs"
  using q_nodes [OF assms] q_places [OF assms]
  by (simp_all add: mkdir_one_def is_dir_def stat_def write_bytes_def dict_set_same node_at_def)

lemma q_digests:
  assumes "label \<in> {''original'', ''adapted''}"
  shows "is_ok (mapM (digest_of q_std q_fs) [path_div [''a''] PROBE_SOURCE, [''o'', label, ''mremap_probe.inc''], [''o'', label, ''probe'']] :: (probe_msg, json list) res)"
proof -
  have "is_ok (read_bytes q_fs (path_div [''a''] PROBE_SOURCE) :: (probe_msg, bytes) res)" by code_simp
  then show ?thesis
    using q_nodes [OF assms] q_places(2,4) [OF assms] by (auto simp: digest_of_def read_bytes_def stat_def is_ok_iff)
qed

lemma q_exec_compiles: "q_exec (a # b # c # ws) fs = \<lparr>status = 0, out_bytes = [], err_bytes = [], after_fs = fs\<rparr>"
  by (simp add: q_exec_def)

lemma q_profile:
  assumes "label \<in> {''original'', ''adapted''}"
  shows "\<exists>rows'. probe_profile q_std q_exec False [] [''o''] ''c++'' (q_fs, rows) (label, path_div [''a''] PROBE_SOURCE) = Inr (q_fs, rows')"
proof -
  have "encode_utf8 [] = []" by (simp add: encode_utf8_def)
  then have "probe_profile q_std q_exec False [] [''o''] ''c++'' (q_fs, rows) (label, path_div [''a''] PROBE_SOURCE) =
      foldM (probe_case q_std q_exec label [path_div [''a''] PROBE_SOURCE, [''o'', label, ''mremap_probe.inc''], [''o'', label, ''probe'']] [''o'', label, ''probe''])
        (q_fs, rows) PROBE_CASES"
    unfolding probe_profile_def Let_def prod.case fst_conv snd_conv append_Cons append_Nil if_False q_exec_compiles
    by (simp del: foldM.simps add: lift_msg_def q_reads q_writes [OF assms] q_exec_silent)
  then show ?thesis using q_cases [OF q_places(5) q_digests, OF assms assms, of rows PROBE_CASES] by simp
qed

lemma q_probe: "\<exists>fs' rows. check_probe q_std q_exec False [] q_fs [''a''] [''a''] [''o''] ''c++'' = Inr (fs', rows)"
proof -
  have "is_dir q_fs [''o'']" by code_simp
  then have "(mkdir_parents q_fs [''o''] :: (probe_msg, fs) res) = Inr q_fs" by (simp add: mkdir_parents_def mkdir_one_def)
  moreover obtain rows where "probe_profile q_std q_exec False [] [''o''] ''c++'' (q_fs, []) (''original'', path_div [''a''] PROBE_SOURCE) = Inr (q_fs, rows)"
    using q_profile [of "''original''" "[]"] by auto
  moreover obtain rows' where "probe_profile q_std q_exec False [] [''o''] ''c++'' (q_fs, rows) (''adapted'', path_div [''a''] PROBE_SOURCE) = Inr (q_fs, rows')"
    using q_profile [of "''adapted''" rows] by auto
  ultimately have "check_probe q_std q_exec False [] q_fs [''a''] [''a''] [''o''] ''c++'' = Inr (q_fs, rows')"
    unfolding check_probe_def by simp
  then show ?thesis by blast
qed

lemma check_probe_exact_witness:
  "\<exists>fs' rows. check_probe q_std q_exec False [] q_fs [''a''] [''a''] [''o''] ''c++'' = Inr (fs', rows) \<and> length rows = 16 \<and> list_all row_exact rows"
proof -
  obtain fs' rows where r: "check_probe q_std q_exec False [] q_fs [''a''] [''a''] [''o''] ''c++'' = Inr (fs', rows)"
    using q_probe by blast
  have "map row_key rows = List.product [''original'', ''adapted''] PROBE_CASES" using check_probe_exact [OF r] by blast
  then have "length rows = 16" by (drule_tac f = length in arg_cong) (simp add: PROBE_CASES_def)
  then show ?thesis using r check_probe_exact [OF r] by blast
qed

end
