(* ===== verification/Schema_Tools.thy ===== *)
theory Schema_Tools
  imports Native_Probes Framework_Link Jdk
begin

text \<open>
  The XSD compiler of the APEX parser (\<^verbatim>\<open>xsdc.py\<close>): verified inputs, generation that is repeated, writes
  that stay inside the output, negative controls and the evidence that is checked afterwards.  Pins
  are parsed records; the Java tools, the zip reader and writer and the transport are parameters.
\<close>

datatype (plugins only: code) xsdc_msg =
    Xsdc_sources src_msg
  | Xsdc_jdk jdk_msg
  | Xsdc_json bundle_msg
  | Not_a_real_directory
  | Generated_alias
  | Invalid_destination
  | Destination_alias
  | Evidence_differs
  | Generated_differs
  | Commons_alias
  | Commons_download
  | Commons_archive
  | Commons_invalid
  | Commons_notice
  | Java_selection
  | Command_failed string
  | Inventory_changed
  | Source_differs string
  | Not_repeatable
  | Unrelated_failure
  | Root_control
  | Source_changed

record commons_spec =
  cs_url :: string
  cs_bytes :: int
  cs_sha256 :: string

record xsdc_pin =
  xp_sources :: "(string \<times> source_spec) list"
  xp_commons :: "(string \<times> commons_spec) list"
  xp_notices :: "(string \<times> string) list"
  xp_options :: "string list"
  xp_generated :: "(string \<times> string) list"

section \<open>Generated trees\<close>

text \<open>\<^verbatim>\<open>sorted(directory.rglob('*'))\<close> of a real directory, as relative paths.\<close>

definition rglob_all :: "fs \<Rightarrow> path \<Rightarrow> string list list" where
  "rglob_all fs d =
     (case locate fs d of None \<Rightarrow> []
      | Some q \<Rightarrow> sort (map (\<lambda>(r, _). drop (length q) r) (filter (\<lambda>(r, _). strict_prefix q r) fs)))"

definition generated_files :: "std \<Rightarrow> fs \<Rightarrow> path \<Rightarrow> (xsdc_msg, (string \<times> json) list) res" where
  "generated_files std fs d =
     require (\<not> is_symlink fs d \<and> is_dir fs d) (RuntimeError Not_a_real_directory)
    (foldM (\<lambda>found rel.
       require (\<not> is_symlink fs (d @ rel)) (RuntimeError Generated_alias)
      (if is_file fs (d @ rel) then bind_res (digest_of std fs (d @ rel)) (\<lambda>h. Inr (dict_set found (as_posix rel) h))
       else Inr found)) [] (rglob_all fs d))"

definition safe_destination :: "string \<Rightarrow> bool" where
  "safe_destination name \<longleftrightarrow> \<not> (pure_absolute name \<or> ''..'' \<in> set (pure_parts name) \<or> CHR '':'' \<in> set name \<or> BACKSLASH \<in> set name)"

definition no_alias :: "fs \<Rightarrow> path \<Rightarrow> path \<Rightarrow> (xsdc_msg, unit) res" where
  "no_alias fs output p =
     (if is_symlink fs p then Inl (RuntimeError Destination_alias)
      else bind_res (resolve fs p) (\<lambda>real. require (prefix output real) (RuntimeError Destination_alias) (Inr ())))"

definition write_generated :: "fs \<Rightarrow> path \<Rightarrow> string \<Rightarrow> bytes \<Rightarrow> (xsdc_msg, fs) res" where
  "write_generated fs output_arg name data =
     require (safe_destination name) (RuntimeError Invalid_destination)
    (bind_res (resolve fs output_arg) (\<lambda>out.
     let parts = pure_parts name in
     bind_res (foldM (\<lambda>_ i. no_alias fs out (out @ take i parts)) () [1..<Suc (length parts)]) (\<lambda>_.
     bind_res (mkdir_parents fs (butlast (out @ parts))) (\<lambda>fs1.
     write_bytes fs1 (out @ parts) data))))"

definition XSDC_PIN :: "path \<Rightarrow> path" where
  "XSDC_PIN rootdir = rootdir @ [''third_party'', ''binder'', ''xsdc.json'']"

definition pin_generated_value :: "xsdc_pin \<Rightarrow> json" where
  "pin_generated_value pin = JDict (map (\<lambda>(n, h). (n, JStr h)) (xp_generated pin))"

definition negative_controls :: json where
  "negative_controls = JDict [(''malformed_schema'', JBool True), (''unknown_root'', JBool True)]"

definition verify_generation :: "std \<Rightarrow> path \<Rightarrow> xsdc_pin \<Rightarrow> fs \<Rightarrow> path \<Rightarrow> (xsdc_msg, json) res" where
  "verify_generation std rootdir pin fs d =
     bind_res (lift_msg Xsdc_json (load_json std fs (d @ [''generation.json'']))) (\<lambda>evidence.
     bind_res (digest_of std fs (XSDC_PIN rootdir)) (\<lambda>pin_sha.
     ensure (all_m (\<lambda>(key, value). bind_res (jget_or evidence key) (\<lambda>v. Inr (py_eq v value)))
         [(''pin_sha256'', pin_sha), (''compiler_options'', JList (strs (xp_options pin))), (''generated_files'', pin_generated_value pin),
          (''deterministic_generation_verified'', JBool True), (''negative_controls'', negative_controls)]) (RuntimeError Evidence_differs)
    (bind_res (generated_files std fs (d @ [''generated''])) (\<lambda>found.
     require (py_eq (JDict found) (pin_generated_value pin)) (RuntimeError Generated_differs) (Inr evidence)))))"

section \<open>Preparation\<close>

definition commons_cli ::
  "std \<Rightarrow> host \<Rightarrow> (bytes \<Rightarrow> (string \<times> bytes) list option) \<Rightarrow> (bytes \<Rightarrow> bool) \<Rightarrow> xsdc_pin \<Rightarrow> path \<Rightarrow> fs \<times> (string \<times> bytes) list \<Rightarrow> string \<times> commons_spec \<Rightarrow>
   (xsdc_msg, fs \<times> (string \<times> bytes) list) res"
where
  "commons_cli std h open_zip testzip pin commons st x =
     (case x of (name, spec) \<Rightarrow>
      let p = path_div commons name; matches = (\<lambda>data. int (length data) = cs_bytes spec \<and> std_sha std data = cs_sha256 spec) in
      require (\<not> is_symlink (fst st) p) (RuntimeError Commons_alias)
     (bind_res (if is_file (fst st) p then Inr (fst st)
        else bind_res (of_option CalledProcessError (gh_api h (cs_url spec))) (\<lambda>data.
          require (matches data) (RuntimeError Commons_download) (write_bytes (fst st) p data))) (\<lambda>fs1.
      bind_res (read_bytes fs1 p) (\<lambda>data.
      require (matches data) (RuntimeError Commons_archive)
     (bind_res (of_option ZipError (open_zip data)) (\<lambda>entries.
      require (testzip data) (RuntimeError Commons_invalid)
     (bind_res (foldM (\<lambda>notices (notice, expected).
         bind_res (dict_get entries (''META-INF/'' @ notice)) (\<lambda>d.
         require (std_sha std d = expected) (RuntimeError Commons_notice) (Inr (dict_set notices notice d)))) (snd st) (xp_notices pin)) (\<lambda>notices.
      Inr (fs1, notices)))))))))"

type_synonym xsdc_state = "fs \<times> string list list"

definition xsdc_run :: "tool \<Rightarrow> path \<Rightarrow> xsdc_state \<Rightarrow> string list \<Rightarrow> string \<Rightarrow> bool \<Rightarrow> (xsdc_msg, xsdc_state \<times> bytes \<times> bytes) res" where
  "xsdc_run exec out st words label negative =
     (let r = exec words (fst st) in
      bind_res (write_bytes (after_fs r) (out @ [label @ ''.stdout'']) (out_bytes r)) (\<lambda>fs1.
      bind_res (write_bytes fs1 (out @ [label @ ''.stderr'']) (err_bytes r)) (\<lambda>fs2.
      require ((status r = 0) \<noteq> negative) (RuntimeError (Command_failed label))
        (Inr ((fs2, snd st @ [words]), out_bytes r, err_bytes r)))))"

definition keep_generated ::
  "std \<Rightarrow> path \<Rightarrow> path \<Rightarrow> nat \<Rightarrow> fs \<times> (string \<times> string) list \<Rightarrow> string \<times> string \<Rightarrow> (xsdc_msg, fs \<times> (string \<times> string) list) res"
where
  "keep_generated std out raw_dir attempt st x =
     (case x of (name, expected) \<Rightarrow>
      bind_res (read_bytes (fst st) (path_div raw_dir name)) (\<lambda>data.
      let normalized = crlf_to_lf data in
      require (13 \<notin> set normalized \<and> std_sha std normalized = expected) (RuntimeError (Source_differs name))
     (if attempt = 0 then
        bind_res (write_generated (fst st) out (''raw-generated/'' @ name) data) (\<lambda>fs1.
        bind_res (write_generated fs1 out (''generated/'' @ name) normalized) (\<lambda>fs2.
        Inr (fs2, dict_set (snd st) name (std_sha std data))))
      else
        bind_res (dict_get (snd st) name) (\<lambda>first.
        require (first = std_sha std data) (RuntimeError Not_repeatable) (Inr st)))))"

definition xsdc_attempt ::
  "std \<Rightarrow> tool \<Rightarrow> xsdc_pin \<Rightarrow> path \<Rightarrow> path \<Rightarrow> string list \<Rightarrow> path \<Rightarrow> xsdc_state \<times> (string \<times> string) list \<Rightarrow> nat \<Rightarrow>
   (xsdc_msg, xsdc_state \<times> (string \<times> string) list) res"
where
  "xsdc_attempt std exec pin out scratch command schema st attempt =
     (let raw_dir = scratch @ [''raw-'' @ str_nat attempt] in
      bind_res (make_temporary (fst (fst st)) raw_dir) (\<lambda>fs1.
      bind_res (xsdc_run exec out (fs1, snd (fst st)) (command @ xp_options pin @ [''-o'', abs_str raw_dir, abs_str schema]) (''generate-'' @ str_nat attempt) False)
        (\<lambda>((fs2, commands), _, _).
      bind_res (generated_files std fs2 raw_dir) (\<lambda>found.
      require (set (dict_keys found) = set (dict_keys (xp_generated pin))) (RuntimeError Inventory_changed)
     (bind_res (foldM (keep_generated std out raw_dir attempt) (fs2, snd st) (xp_generated pin)) (\<lambda>(fs3, raw_hashes).
      Inr ((fs3, commands), raw_hashes)))))))"

definition xsdc_controls :: "std \<Rightarrow> tool \<Rightarrow> xsdc_pin \<Rightarrow> path \<Rightarrow> path \<Rightarrow> string list \<Rightarrow> path \<Rightarrow> xsdc_state \<Rightarrow> (xsdc_msg, xsdc_state) res" where
  "xsdc_controls std exec pin out scratch command schema st =
     (let malformed = scratch @ [''malformed.xsd'']; controls = scratch @ [''controls''] in
      bind_res (write_bytes (fst st) malformed (encode_utf8 ''<broken'')) (\<lambda>fs1.
      bind_res (make_temporary fs1 controls) (\<lambda>fs2.
      bind_res (xsdc_run exec out (fs2, snd st) (command @ xp_options pin @ [''-o'', abs_str controls, abs_str malformed]) ''malformed-schema'' True) (\<lambda>(st3, _, err).
      require (contains ''SAXParseException'' (bytes_text err)) (RuntimeError Unrelated_failure)
     (let invalid_options = map (\<lambda>v. if v \<noteq> ''apex-info-list'' then v else ''artbox-no-such-root'') (xp_options pin) in
      bind_res (xsdc_run exec out st3 (command @ invalid_options @ [''-o'', abs_str controls, abs_str schema]) ''unknown-root'' True) (\<lambda>(st4, _, err2).
      require (contains ''Invalid root element'' (bytes_text err2)) (RuntimeError Root_control)
     (bind_res (generated_files std (fst st4) controls) (\<lambda>left.
      require (left = []) (RuntimeError Root_control) (Inr st4)))))))))"
definition XSDC_PROJECT :: "string list" where
  "XSDC_PROJECT = [''LICENSE'', ''THIRD_PARTY.md'', ''scripts/xsdc.py'', ''scripts/sources.py'', ''scripts/environment.py'', ''scripts/jdk.py'',
     ''tests/test_xsdc.py'', ''third_party/binder/xsdc.json'', ''third_party/jdk.json'']"

definition xsdc_sources ::
  "host \<Rightarrow> (string \<Rightarrow> string) \<Rightarrow> path \<Rightarrow> fs \<times> (string \<times> path) list \<Rightarrow> string \<times> source_spec \<Rightarrow> (xsdc_msg, fs \<times> (string \<times> path) list) res"
where
  "xsdc_sources h quote cache st x =
     (case x of (name, spec) \<Rightarrow>
      bind_res (of_option KeyError (sp_files spec)) (\<lambda>files.
      bind_res (lift_msg Xsdc_sources (obtain_files h quote (fst st) (''binder-'' @ name) spec files cache)) (\<lambda>(fs1, p).
      Inr (fs1, dict_set (snd st) name p))))"

definition spec_rows :: "(string \<times> source_spec) list \<Rightarrow> string \<Rightarrow> (xsdc_msg, pinned list) res" where
  "spec_rows specs name = bind_res (dict_get specs name) (\<lambda>spec. of_option KeyError (sp_files spec))"

definition java_file :: "string \<Rightarrow> bool" where
  "java_file p \<longleftrightarrow> startswith p ''src/main/java/'' \<and> endswith p ''.java''"

definition quoted_line :: "path \<Rightarrow> string" where
  "quoted_line p = [CHR 0x22] @ replace_all [CHR 0x22] [BACKSLASH, CHR 0x22] (abs_str p) @ [CHR 0x22]"

text \<open>The compiler and both generations in the scratch directory, which is removed at the end.\<close>

definition xsdc_generate ::
  "std \<Rightarrow> tool \<Rightarrow> xsdc_pin \<Rightarrow> string \<Rightarrow> string \<Rightarrow> path \<Rightarrow> path \<Rightarrow> string \<Rightarrow> string \<Rightarrow> path \<Rightarrow> path list \<Rightarrow> path \<Rightarrow> xsdc_state \<Rightarrow>
   (xsdc_msg, xsdc_state \<times> (string \<times> string) list) res"
where
  "xsdc_generate std exec pin tmpdir pathsep out scratch java javac cli java_files schema st =
     bind_res (make_temporary (fst st) scratch) (\<lambda>fs1.
     let classes = scratch @ [''classes'']; args = scratch @ [''sources.txt''] in
     bind_res (make_temporary fs1 classes) (\<lambda>fs2.
     bind_res (write_bytes fs2 args (encode_utf8 (join_with [newline] (map quoted_line java_files) @ [newline]))) (\<lambda>fs3.
     bind_res (xsdc_run exec out (fs3, snd st) [javac, ''-J-Xmx256m'', ''-J-Djava.io.tmpdir='' @ tmpdir, ''-encoding'', ''UTF-8'', ''--release'', ''17'',
         ''-cp'', abs_str cli, ''-d'', abs_str classes, ''@'' @ abs_str args] ''compile'' False) (\<lambda>(st4, _, _).
     let command = [java, ''-Xmx128m'', ''-Djava.io.tmpdir='' @ tmpdir, ''-Dfile.encoding=UTF-8'', ''-cp'', abs_str classes @ pathsep @ abs_str cli,
         ''com.android.xsdc.Main''] in
     bind_res (foldM (xsdc_attempt std exec pin out scratch command schema) (st4, []) [0, 1]) (\<lambda>(st5, raw_hashes).
     bind_res (xsdc_controls std exec pin out scratch command schema st5) (\<lambda>(fs6, commands).
     Inr ((rmtree fs6 scratch, commands), raw_hashes)))))))"

definition upstream_rows :: "std \<Rightarrow> (string \<times> path) list \<Rightarrow> fs \<Rightarrow> string \<times> source_spec \<Rightarrow> (xsdc_msg, (string \<times> bytes) list) res" where
  "upstream_rows std sources fs x =
     (case x of (name, spec) \<Rightarrow>
      bind_res (dict_get sources name) (\<lambda>d. bind_res (of_option KeyError (sp_files spec)) (mapM (\<lambda>row.
        bind_res (read_bytes fs (path_div d (pin_path row))) (\<lambda>data.
        require (std_sha std data = pin_sha256 row) (RuntimeError Source_changed) (Inr (''upstream/'' @ name @ ''/'' @ pin_path row, data)))))))"

definition read_each :: "fs \<Rightarrow> (string \<times> path) list \<Rightarrow> (xsdc_msg, (string \<times> bytes) list) res" where
  "read_each fs xs = mapM (\<lambda>(name, p). bind_res (read_bytes fs p) (\<lambda>data. Inr (name, data))) xs"

definition xsdc_bundle ::
  "std \<Rightarrow> xsdc_pin \<Rightarrow> (string \<times> path) list \<Rightarrow> (string \<times> bytes) list \<Rightarrow> path \<Rightarrow> path \<Rightarrow> path \<Rightarrow> fs \<Rightarrow> (xsdc_msg, (string \<times> bytes) list) res"
where
  "xsdc_bundle std pin sources notices rootdir commons out fs =
     bind_res (read_each fs (map (\<lambda>n. (''artbox/'' @ n, path_div rootdir n)) XSDC_PROJECT)) (\<lambda>project.
     bind_res (mapM (upstream_rows std sources fs) (xp_sources pin)) (\<lambda>upstream.
     bind_res (read_each fs (map (\<lambda>(n, _). (''commons-cli/'' @ n, path_div commons n)) (xp_commons pin))) (\<lambda>jars.
     bind_res (read_each fs (map (\<lambda>(n, _). (''generated/'' @ n, path_div (out @ [''generated'']) n)) (xp_generated pin))) (\<lambda>generated.
     Inr (foldl (\<lambda>d (k, v). dict_set d k v) []
       (project @ concat upstream @ jars @ map (\<lambda>(n, d). (''notices/COMMONS-CLI-'' @ n, d)) notices @ generated))))))"

definition xsdc_prepare ::
  "std \<Rightarrow> host \<Rightarrow> (string \<Rightarrow> string) \<Rightarrow> jdk_host \<Rightarrow> jdk_manifest \<Rightarrow> tool \<Rightarrow> (bytes \<Rightarrow> (string \<times> bytes) list option) \<Rightarrow> (bytes \<Rightarrow> bool) \<Rightarrow>
   ((string \<times> bytes) list \<Rightarrow> bytes) \<Rightarrow> xsdc_pin \<Rightarrow> bool \<Rightarrow> string \<Rightarrow> string \<Rightarrow> path \<Rightarrow> path \<Rightarrow> fs \<Rightarrow> path \<Rightarrow> path option \<Rightarrow> (xsdc_msg, fs \<times> json) res"
where
  "xsdc_prepare std h quote jh jm exec open_zip testzip zip_files pin nt tmpdir pathsep rootdir cache fs output_arg java_arg =
     bind_res (resolve fs output_arg) (\<lambda>out.
     bind_res (mkdir_parents fs out) (\<lambda>fs1.
     let result_path = out @ [''generation.json'']; fs2 = (if path_exists fs1 result_path then unlink_path fs1 result_path else fs1) in
     bind_res (foldM (xsdc_sources h quote cache) (fs2, []) (xp_sources pin)) (\<lambda>(fs3, sources).
     bind_res (case java_arg of Some p \<Rightarrow> bind_res (resolve fs3 p) (\<lambda>q. Inr (fs3, q))
         | None \<Rightarrow> bind_res (lift_msg Xsdc_jdk (jdk_obtain jh jm fs3 cache)) (\<lambda>(fs4, home, _). Inr (fs4, home))) (\<lambda>(fs4, java_home).
     let exe = (if nt then ''.exe'' else []); java = abs_str (java_home @ [''bin'', ''java'' @ exe]); javac = abs_str (java_home @ [''bin'', ''javac'' @ exe]);
         commons = cache @ [''downloads'', ''binder-xsdc'']; cli = commons @ [''commons-cli-1.2.jar''] in
     bind_res (mkdir_parents fs4 commons) (\<lambda>fs5.
     bind_res (foldM (commons_cli std h open_zip testzip pin commons) (fs5, []) (xp_commons pin)) (\<lambda>(fs6, notices).
     bind_res (dict_get sources ''xsdc'') (\<lambda>xsdc_root.
     bind_res (spec_rows (xp_sources pin) ''xsdc'') (\<lambda>rows.
     let java_files = map (path_div xsdc_root) (filter java_file (map pin_path rows)) in
     require (int (length java_files) = 39) (RuntimeError Java_selection)
    (bind_res (xsdc_run exec out (fs6, []) [javac, ''-version''] ''javac-version'' False) (\<lambda>(st7, version_out, version_err).
     bind_res (decode_utf8 (version_out @ version_err)) (\<lambda>version.
     bind_res (dict_get sources ''apex-schema'') (\<lambda>schema_root.
     let schema = schema_root @ [''apexd'', ''ApexInfoList.xsd'']; scratch = out @ [''compiler-'' @ tmp_name h] in
     bind_res (xsdc_generate std exec pin tmpdir pathsep out scratch java javac cli java_files schema st7) (\<lambda>((fs8, commands), raw_hashes).
     bind_res (xsdc_bundle std pin sources notices rootdir commons out fs8) (\<lambda>files.
     bind_res (write_bytes fs8 (out @ [''corresponding-source.zip'']) (zip_files (sort_key fst files))) (\<lambda>fs9.
     bind_res (digest_of std fs9 (XSDC_PIN rootdir)) (\<lambda>pin_sha.
     bind_res (generated_files std fs9 (out @ [''generated''])) (\<lambda>generated.
     bind_res (digest_of std fs9 (out @ [''corresponding-source.zip''])) (\<lambda>bundle_sha.
     bind_res (digest_each std fs9 (map (\<lambda>n. (n, path_div rootdir n)) XSDC_PROJECT)) (\<lambda>project_files.
     bind_res (run_tool exec fs9 [''git'', ''rev-parse'', ''HEAD'']) (\<lambda>(fs10, head).
     bind_res (decode_utf8 head) (\<lambda>commit.
     let canonical = (\<lambda>s. replace_all (abs_str rootdir) ''${ARTBOX_ROOT}'' (replace_all (abs_str java_home) ''${JAVA_HOME}'' s));
         result = JDict [(''pin_sha256'', pin_sha), (''compiler_options'', JList (strs (xp_options pin))), (''generated_files'', JDict generated),
           (''raw_generated_files'', JDict (map (\<lambda>(n, x). (n, JStr x)) raw_hashes)), (''deterministic_generation_verified'', JBool True),
           (''negative_controls'', negative_controls), (''source_bundle_sha256'', bundle_sha), (''project_files'', JDict project_files),
           (''java_units'', JInt (int (length java_files))), (''compiler_version'', JStr (strip_space version)),
           (''commands'', JList (map (\<lambda>c. JList (strs (map canonical c))) commands)), (''project_commit'', JStr (strip_space commit)),
           (''scope'', JStr ''Original AOSP XSdc and APEX schema; LF-normalized output, no guest or device execution'')] in
     bind_res (dump_json std fs10 result_path result) (\<lambda>fs11.
     bind_res (verify_generation std rootdir pin fs11 out) (\<lambda>_.
     Inr (fs11, result))))))))))))))))))))))))"

section \<open>Generated files stay inside the output\<close>

text \<open>
  C31. Generated files stay inside the output even when the tree holds links: when
  \<^verbatim>\<open>write_generated\<close> succeeds on a real output directory, exactly
  the destination holds the data, the directories leading to it exist, and no other path has
  changed, whatever links there are beside it.
\<close>

theorem write_generated_exact:
  assumes "wf_fs fs" and "dirs fs out" and "write_generated fs out name data = Inr fs'"
  shows "\<exists>m. safe_destination name \<and> pure_parts name \<noteq> [] \<and> (\<forall>q. map_of fs' q =
    (if q = out @ pure_parts name then Some (File data m) else if q \<in> chain out (butlast (pure_parts name)) then Some Dir else map_of fs q))"
proof -
  define parts where "parts = pure_parts name"
  obtain fs1 where safe: "safe_destination name"
    and c: "foldM (\<lambda>_ i. no_alias fs out (out @ take i parts)) () [1..<Suc (length parts)] = Inr ()"
    and m: "mkdir_parents fs (butlast (out @ parts)) = (Inr fs1 :: (xsdc_msg, fs) res)" and w: "write_bytes fs1 (out @ parts) data = (Inr fs' :: (xsdc_msg, fs) res)"
    using assms(3) by (auto simp: write_generated_def resolve_dirs [OF assms(2)] Let_def res_simps parts_def)
  have dots: "''..'' \<notin> set parts" "''..'' \<notin> set out" using safe assms(2) by (auto simp: safe_destination_def dirs_def parts_def)
  have na: "no_alias fs out (out @ take i parts) = Inr ()" if "0 < i" "i \<le> length parts" for i
  proof -
    have "i \<in> set [1..<Suc (length parts)]" unfolding set_upt using that by auto
    then show ?thesis using c unfolding foldM_unit_iff by blast
  qed
  have "\<not> is_symlink fs (out @ take i parts)" if "0 < i" "i \<le> length parts" for i
    using na [OF that] by (simp add: no_alias_def split: if_splits)
  then have nolink: "map_of fs q \<noteq> Some (Link t)" if "q \<in> chain out parts" for q t
    using unaliased_path [OF assms(1) dots(2,1)] that by blast
  have ne: "parts \<noteq> []"
  proof
    assume e: "parts = []"
    have "mkdir_parents fs (butlast out) = (Inr fs :: (xsdc_msg, fs) res)"
      using mkdir_parents_below [OF dirs_take [OF assms(2), of "length out - 1"], of "[]", where 'm = xsdc_msg] by (simp add: butlast_conv_take)
    then show False
      using m w e locate_dirs [OF assms(2)] dirs_node [OF assms(2)] by (simp add: write_bytes_def)
  qed
  then obtain rel c where p: "parts = rel @ [c]" by (metis rev_exhaust)
  have rel: "''..'' \<notin> set rel" "c \<noteq> ''..''" using dots(1) p by auto
  have f: "(foldM (\<lambda>fs i. mkdir_one fs (take i (out @ rel))) fs [Suc (length out)..<Suc (length out + length rel)] :: (xsdc_msg, fs) res) = Inr fs1"
    using m mkdir_parents_below [OF assms(2), of rel, where 'm = xsdc_msg] p by (simp add: butlast_append)
  have ok: "\<forall>q \<in> chain out rel. map_of fs q \<in> {None, Some Dir}"
    using nolink p by (intro mkdirs_below_accepts [OF assms(2) rel(1) _ f]) (auto simp: chain_snoc)
  obtain dd: "dirs fs1 (out @ rel)" and eq: "\<forall>q. map_of fs1 q = (if q \<in> chain out rel then Some Dir else map_of fs q)"
    using mkdirs_below [OF assms(2) rel(1) ok, where 'm = xsdc_msg] f by auto
  have nl: "\<forall>t. map_of fs1 ((out @ rel) @ [c]) \<noteq> Some (Link t)" using eq nolink p by (auto simp: chain_snoc)
  have "(write_bytes fs1 ((out @ rel) @ [c]) data :: (xsdc_msg, fs) res) = Inr fs'" using w p by simp
  from write_below_accepts [OF dd rel(2) nl this] obtain m where "fs' = dict_set fs1 (out @ parts) (File data m)" using p by auto
  then show ?thesis using safe ne eq p unfolding parts_def [symmetric] by (intro exI [of _ m]) auto
qed

text \<open>An output with a link beside the destination.\<close>

definition g_fs :: fs where
  "g_fs = [([''o''], Dir), ([''o'', ''l''], Link ''/etc''), ([''etc''], Dir)]"

lemma g_fs_ok: "wf_fs g_fs" "dirs g_fs [''o'']" "is_ok (write_generated g_fs [''o''] ''generated/a.h'' [7])"
proof -
  show "wf_fs g_fs" by (auto simp: wf_fs_def g_fs_def node_at_def split: if_splits)
  show "dirs g_fs [''o'']" by (simp add: dirs_def g_fs_def take_Cons')
  show "is_ok (write_generated g_fs [''o''] ''generated/a.h'' [7])" by code_simp
qed

theorem write_generated_exact_witness:
  "\<exists>fs' m. write_generated g_fs [''o''] ''generated/a.h'' [7] = Inr fs' \<and> map_of fs' [''o'', ''generated'', ''a.h''] = Some (File [7] m) \<and> map_of fs' [''etc''] = Some Dir"
proof -
  obtain fs' where r: "write_generated g_fs [''o''] ''generated/a.h'' [7] = Inr fs'" using g_fs_ok(3) by (auto simp: is_ok_iff)
  have p: "pure_parts ''generated/a.h'' = [''generated'', ''a.h'']" by code_simp
  have "chain [''o''] [''generated''] = {[''o'', ''generated'']}" by (auto simp: chain_def take_Cons' intro: exI [of _ 1])
  then show ?thesis using write_generated_exact [OF g_fs_ok(1,2) r] r unfolding p by (auto simp: g_fs_def)
qed

end
