(* ===== verification/Binder_Aidl.thy ===== *)
theory Binder_Aidl
  imports Schema_Tools
begin

text \<open>
  The AIDL compiler and its generated bindings (\<^verbatim>\<open>binder_aidl.py\<close>): pinned files fetched into a cache, the
  build manifest, two generations that must agree and two inputs that must be rejected.  The pin is a
  parsed record, \<open>parse_manifest\<close> reads the projects of the XML manifest with their revisions, and
  \<open>exec d\<close> runs a tool in the directory \<open>d\<close>.
\<close>

datatype (plugins only: code) aidl_msg =
    Aidl_sources src_msg
  | Aidl_json bundle_msg
  | Unsafe_relative
  | No_native_profile
  | Pinned_missing
  | Pinned_differs
  | Invalid_repository
  | Cache_escapes
  | Cache_symlink
  | Profile_omits
  | Invalid_xml
  | Compiler_revision
  | Notice_revision
  | File_set_differs
  | Output_changes
  | Not_rejected
  | Existing_differ
  | Requires_native_profile

definition INTERFACES :: "string list" where
  "INTERFACES = [''IServiceManager'', ''IServiceCallback'', ''IClientCallback'']"

definition PARCELABLES :: "string list" where
  "PARCELABLES = [''ConnectionInfo'', ''ServiceDebugInfo'']"

definition COMPILER_OPTIONS :: "string list" where
  "COMPILER_OPTIONS = [''--lang=cpp'', ''--structured'', ''--min_sdk_version=29'', ''--omit_invocation'']"

section \<open>Pinned inputs\<close>

definition safe_relative :: "string \<Rightarrow> (aidl_msg, string list) res" where
  "safe_relative name =
     (let parts = pure_parts name in
      require (name \<noteq> [] \<and> parts \<noteq> [] \<and> \<not> pure_absolute name \<and> as_posix parts = name \<and> ''..'' \<notin> set parts \<and> CHR '':'' \<notin> set name \<and> BACKSLASH \<notin> set name)
        (RuntimeError Unsafe_relative) (Inr parts))"

definition native_profile :: "string \<Rightarrow> string \<Rightarrow> (aidl_msg, string) res" where
  "native_profile system machine =
     (let m = casefold machine; m' = (case map_of [(''amd64'', ''x86_64''), (''aarch64'', ''arm64'')] m of None \<Rightarrow> m | Some x \<Rightarrow> x);
          key = casefold system @ ''-'' @ m' in
      require (key \<in> {''darwin-arm64'', ''darwin-x86_64'', ''linux-x86_64''}) (RuntimeError No_native_profile) (Inr key))"

definition matches_pin :: "host \<Rightarrow> pinned \<Rightarrow> bytes \<Rightarrow> bool" where
  "matches_pin h item data \<longleftrightarrow> int (length data) = pin_bytes item \<and> sha256 h data = pin_sha256 item \<and> Some (sha1 h (git_blob_bytes data)) = pin_git_blob item"

definition verify_file :: "host \<Rightarrow> fs \<Rightarrow> path \<Rightarrow> pinned \<Rightarrow> (aidl_msg, unit) res" where
  "verify_file h fs p item =
     require (\<not> is_symlink fs p \<and> is_file fs p) (RuntimeError Pinned_missing)
    (bind_res (read_bytes fs p) (\<lambda>data.
     require (int (length data) = pin_bytes item) (RuntimeError Pinned_missing)
    (require (sha256 h data = pin_sha256 item) (RuntimeError Pinned_differs)
    (bind_res (of_option KeyError (pin_git_blob item)) (\<lambda>blob.
     require (sha1 h (git_blob_bytes data) = blob) (RuntimeError Pinned_differs) (Inr ()))))))"

definition repository_ok :: "string \<Rightarrow> bool" where
  "repository_ok s = (case split_on SLASH s of [a, b] \<Rightarrow> a \<noteq> [] \<and> b \<noteq> [] \<and> list_all (\<lambda>c. word_char c \<or> c \<in> {CHR ''.'', CHR ''-''}) (a @ b) | _ \<Rightarrow> False)"

definition fetch_file ::
  "host \<Rightarrow> (string \<Rightarrow> string) \<Rightarrow> path \<Rightarrow> string \<Rightarrow> string \<Rightarrow> fs \<Rightarrow> pinned \<Rightarrow> (aidl_msg, fs \<times> path) res"
where
  "fetch_file h quote rootdir repository commit fs item =
     require (repository_ok repository \<and> hex 40 commit) (RuntimeError Invalid_repository)
    (bind_res (safe_relative (pin_path item)) (\<lambda>parts.
     let target = rootdir @ parts in
     bind_res (resolve fs target) (\<lambda>real. bind_res (resolve fs rootdir) (\<lambda>base.
     require (prefix base real) (RuntimeError Cache_escapes)
    (if path_exists fs target \<or> is_symlink fs target then bind_res (verify_file h fs target item) (\<lambda>_. Inr (fs, target))
     else
       bind_res (mkdir_parents fs (butlast target)) (\<lambda>fs1.
       let temporary = butlast target @ [''.aidl-'' @ tmp_name h] in
       bind_res (of_option CalledProcessError (gh_api h (''https://raw.githubusercontent.com/'' @ repository @ ''/'' @ commit @ ''/'' @ quote (pin_path item)))) (\<lambda>data.
       require (lstat fs1 temporary = None) OSError
      (bind_res (write_bytes fs1 temporary data) (\<lambda>fs2.
       bind_res (verify_file h fs2 temporary item) (\<lambda>_.
       bind_res (replace_path fs2 temporary target) (\<lambda>fs3. Inr (fs3, target))))))))))))"

record aidl_profile =
  pf_directory :: string
  pf_executable :: string
  pf_library :: string

record aidl_notice =
  an_project :: string
  an_repository :: string
  an_commit :: string
  an_item :: pinned

record aidl_spec =
  al_repository :: string
  al_commit :: string
  al_compiler_source_commit :: string
  al_files :: "pinned list"
  al_notices :: "aidl_notice list"
  al_profiles :: "(string \<times> aidl_profile) list"

definition fetch_all ::
  "host \<Rightarrow> (string \<Rightarrow> string) \<Rightarrow> aidl_spec \<Rightarrow> path \<Rightarrow> string list \<Rightarrow> fs \<times> (string \<times> path) list \<Rightarrow> string \<times> pinned \<Rightarrow> (aidl_msg, fs \<times> (string \<times> path) list) res"
where
  "fetch_all h quote spec rootdir wanted st x =
     (case x of (name, item) \<Rightarrow>
      if name \<in> set wanted \<or> SLASH \<notin> set name then
        bind_res (fetch_file h quote rootdir (al_repository spec) (al_commit spec) (fst st) item) (\<lambda>(fs1, p). Inr (fs1, dict_set (snd st) name p))
      else Inr st)"

definition fetch_notice ::
  "host \<Rightarrow> (string \<Rightarrow> string) \<Rightarrow> path \<Rightarrow> (string \<times> string) list \<Rightarrow> fs \<times> (string \<times> path) list \<Rightarrow> aidl_notice \<Rightarrow> (aidl_msg, fs \<times> (string \<times> path) list) res"
where
  "fetch_notice h quote rootdir revisions st n =
     require (map_of revisions (an_project n) = Some (an_commit n)) (RuntimeError Notice_revision)
    (bind_res (safe_relative (an_project n)) (\<lambda>parts.
     bind_res (fetch_file h quote (rootdir @ [''notices''] @ parts) (an_repository n) (an_commit n) (fst st) (an_item n)) (\<lambda>(fs1, p).
     Inr (fs1, dict_set (snd st) (''notices/'' @ an_project n @ ''/'' @ pin_path (an_item n)) p))))"

definition add_executable_bits :: "int \<Rightarrow> fs \<Rightarrow> path \<Rightarrow> (aidl_msg, fs) res" where
  "add_executable_bits created_mode fs p =
     (case stat fs p of
        Some (File _ mode) \<Rightarrow> chmod fs p ((case mode of None \<Rightarrow> created_mode | Some m \<Rightarrow> m) OR 73)
      | _ \<Rightarrow> Inl OSError)"

definition aidl_prepare ::
  "host \<Rightarrow> (string \<Rightarrow> string) \<Rightarrow> (bytes \<Rightarrow> (string \<times> string) list option) \<Rightarrow> int \<Rightarrow> aidl_spec \<Rightarrow> fs \<Rightarrow> string \<Rightarrow> path \<Rightarrow>
   (aidl_msg, fs \<times> path \<times> (string \<times> path) list) res"
where
  "aidl_prepare h quote parse_manifest created_mode spec fs profile cache =
     bind_res (dict_get (al_profiles spec) profile) (\<lambda>selected.
     let rootdir = cache @ [''toolchains'', ''binder-aidl-'' @ take 12 (al_commit spec)] in
     require (\<not> is_symlink fs rootdir) (RuntimeError Cache_symlink)
    (bind_res (safe_relative (pf_directory selected)) (\<lambda>d.
     bind_res (safe_relative (pf_executable selected)) (\<lambda>executable.
     bind_res (safe_relative (pf_library selected)) (\<lambda>library.
     let wanted = [as_posix (d @ executable), as_posix (d @ library)];
         records = foldl (\<lambda>acc item. dict_set acc (pin_path item) item) [] (al_files spec) in
     require (set wanted \<subseteq> set (dict_keys records)) (RuntimeError Profile_omits)
    (bind_res (foldM (fetch_all h quote spec rootdir wanted) (fs, []) records) (\<lambda>(fs1, paths).
     bind_res (dict_get paths ''manifest.xml'') (\<lambda>manifest_path.
     bind_res (read_bytes fs1 manifest_path) (\<lambda>xml.
     bind_res (of_option (ValueError Invalid_xml) (parse_manifest xml)) (\<lambda>revisions.
     require (map_of revisions ''system/tools/aidl'' = Some (al_compiler_source_commit spec)) (RuntimeError Compiler_revision)
    (bind_res (foldM (fetch_notice h quote rootdir revisions) (fs1, paths) (al_notices spec)) (\<lambda>(fs2, paths2).
     bind_res (dict_get paths2 (as_posix (d @ pure_parts (pf_executable selected)))) (\<lambda>program.
     bind_res (add_executable_bits created_mode fs2 program) (\<lambda>fs3.
     Inr (fs3, program, paths2)))))))))))))))"

section \<open>Generation\<close>

definition aidl_expected :: "string list" where
  "aidl_expected =
     map (\<lambda>n. ''src/android/os/'' @ n @ ''.cpp'') (INTERFACES @ PARCELABLES) @
     map (\<lambda>n. ''include/android/os/'' @ n @ ''.h'') (INTERFACES @ PARCELABLES) @
     concat (map (\<lambda>n. map (\<lambda>p. ''include/android/os/'' @ p @ tl n @ ''.h'') [''Bn'', ''Bp'']) INTERFACES) @
     concat (map (\<lambda>n. map (\<lambda>p. ''include/android/os/'' @ p @ n @ ''.h'') [''Bn'', ''Bp'']) PARCELABLES)"

definition aidl_entry :: "std \<Rightarrow> fs \<Rightarrow> path \<Rightarrow> string list \<Rightarrow> (aidl_msg, string \<times> json) res" where
  "aidl_entry std fs rootdir rel =
     (let p = rootdir @ rel in
      require (\<not> is_symlink fs p) (RuntimeError File_set_differs)
     (bind_res (read_bytes fs p) (\<lambda>data.
      require (data \<noteq> []) (RuntimeError File_set_differs) (Inr (as_posix rel, JStr (std_sha std data))))))"

definition aidl_generated :: "std \<Rightarrow> fs \<Rightarrow> path \<Rightarrow> (aidl_msg, (string \<times> json) list) res" where
  "aidl_generated std fs rootdir =
     (let found = filter (\<lambda>rel. is_file fs (rootdir @ rel) \<or> is_symlink fs (rootdir @ rel)) (rglob_all fs rootdir) in
      require (set (map as_posix found) = set aidl_expected) (RuntimeError File_set_differs)
        (mapM (aidl_entry std fs rootdir) (sort_key as_posix found)))"

definition append_log :: "fs \<Rightarrow> path \<Rightarrow> bytes \<Rightarrow> (aidl_msg, fs) res" where
  "append_log fs logfile data = bind_res (read_bytes fs logfile) (\<lambda>old. write_bytes fs logfile (old @ data))"

definition compile_aidl ::
  "(path \<Rightarrow> tool) \<Rightarrow> path \<Rightarrow> path \<Rightarrow> path \<Rightarrow> string list \<Rightarrow> path \<Rightarrow> fs \<Rightarrow> (aidl_msg, fs \<times> int \<times> bytes) res"
where
  "compile_aidl exec program source destination inputs logfile fs =
     bind_res (mkdir_parents fs (butlast destination)) (\<lambda>fs0.
     bind_res (make_temporary fs0 destination) (\<lambda>fs1.
     bind_res (make_temporary fs1 (destination @ [''src''])) (\<lambda>fs2.
     bind_res (make_temporary fs2 (destination @ [''include''])) (\<lambda>fs3.
     let r = exec source ([abs_str program] @ COMPILER_OPTIONS @ [''--out='' @ abs_str (destination @ [''src'']),
           ''--header_out='' @ abs_str (destination @ [''include'']), ''-I'', ''.''] @ inputs) fs3 in
     bind_res (append_log (after_fs r) logfile (out_bytes r @ err_bytes r)) (\<lambda>fs4.
     Inr (fs4, status r, out_bytes r @ err_bytes r))))))"

definition MALFORMED :: "string list" where
  "MALFORMED = [''package android.os; interface IInvalid { void broken( ; }'', ''package android.os; interface IInvalid { MissingType broken(); }'']"

definition reject_malformed :: "(path \<Rightarrow> tool) \<Rightarrow> path \<Rightarrow> path \<Rightarrow> path \<Rightarrow> fs \<Rightarrow> nat \<times> string \<Rightarrow> (aidl_msg, fs) res" where
  "reject_malformed exec program stage logfile fs x =
     (case x of (index, source) \<Rightarrow>
      let invalid = stage @ [''invalid-'' @ str_nat index] in
      bind_res (mkdir_parents fs (invalid @ [''android''])) (\<lambda>fs0.
      bind_res (make_temporary fs0 (invalid @ [''android'', ''os''])) (\<lambda>fs1.
      bind_res (write_bytes fs1 (invalid @ [''android'', ''os'', ''IInvalid.aidl'']) (encode_utf8 source)) (\<lambda>fs2.
      bind_res (compile_aidl exec program invalid (stage @ [''rejected-'' @ str_nat index]) [''android/os/IInvalid.aidl''] logfile fs2) (\<lambda>(fs3, code, printed).
      require (0 < code \<and> contains ''ERROR:'' (bytes_text printed)) (RuntimeError Not_rejected) (Inr fs3))))))"

definition aidl_generate ::
  "std \<Rightarrow> (path \<Rightarrow> tool) \<Rightarrow> path \<Rightarrow> path \<Rightarrow> path \<Rightarrow> path \<Rightarrow> fs \<Rightarrow> (aidl_msg, fs \<times> (string \<times> json) list) res"
where
  "aidl_generate std exec stage program source out fs =
     bind_res (mkdir_parents fs out) (\<lambda>fs1.
     let logfile = out @ [''compiler.log'']; evidence = out @ [''generation.json'']; generated = out @ [''generated''];
         inputs = map (\<lambda>n. ''android/os/'' @ n @ ''.aidl'') (INTERFACES @ PARCELABLES) in
     bind_res (write_bytes fs1 logfile []) (\<lambda>fs2.
     let fs3 = (if path_exists fs2 evidence then unlink_path fs2 evidence else fs2) in
     bind_res (make_temporary fs3 stage) (\<lambda>fs4.
     bind_res (foldM (\<lambda>fs round_name.
         bind_res (compile_aidl exec program source (stage @ [round_name]) inputs logfile fs) (\<lambda>(fs', code, _).
         require (code = 0) CalledProcessError (Inr fs'))) fs4 [''first'', ''second'']) (\<lambda>fs5.
     bind_res (aidl_generated std fs5 (stage @ [''first''])) (\<lambda>first.
     bind_res (aidl_generated std fs5 (stage @ [''second''])) (\<lambda>second.
     require (py_eq (JDict second) (JDict first)) (RuntimeError Output_changes)
    (bind_res (foldM (reject_malformed exec program stage logfile) fs5 (enumerate 0 MALFORMED)) (\<lambda>fs6.
     bind_res (if path_exists fs6 generated then
         bind_res (aidl_generated std fs6 generated) (\<lambda>old. require (py_eq (JDict old) (JDict first)) (RuntimeError Existing_differ) (Inr fs6))
       else copy_tree DEPTH False fs6 (stage @ [''first'']) generated) (\<lambda>fs7.
     Inr (rmtree fs7 stage, first))))))))))"

section \<open>The command\<close>

text \<open>A usage error of \<^verbatim>\<open>argparse\<close> ends the command like an exception.\<close>

definition copy_into :: "path \<Rightarrow> fs \<Rightarrow> string \<times> path \<Rightarrow> (aidl_msg, fs) res" where
  "copy_into d fs x =
     (case x of (name, p) \<Rightarrow> let target = path_div d name in bind_res (mkdir_parents fs (butlast target)) (\<lambda>fs1. copyfile fs1 p target))"

definition AIDL_PROJECT :: "string list" where
  "AIDL_PROJECT = [''scripts/binder_aidl.py'', ''scripts/sources.py'', ''scripts/environment.py'', ''third_party/binder/aidl-tools.json'',
     ''third_party/sources.json'', ''tests/test_binder_aidl.py'']"

definition aidl_main ::
  "std \<Rightarrow> host \<Rightarrow> (string \<Rightarrow> string) \<Rightarrow> (path \<Rightarrow> tool) \<Rightarrow> (bytes \<Rightarrow> (string \<times> string) list option) \<Rightarrow> int \<Rightarrow> aidl_spec \<Rightarrow> (string \<times> source_spec) list \<Rightarrow>
   string \<Rightarrow> string \<Rightarrow> path \<Rightarrow> path \<Rightarrow> path \<Rightarrow> path \<Rightarrow> fs \<Rightarrow> bool \<Rightarrow> string option \<Rightarrow> path option \<Rightarrow> (aidl_msg, fs \<times> json option) res"
where
  "aidl_main std h quote exec parse_manifest created_mode spec specs system machine rootdir cache build temp fs prepare_only profile_arg output_arg =
     bind_res (case profile_arg of Some p \<Rightarrow> Inr p | None \<Rightarrow> native_profile system machine) (\<lambda>profile.
     bind_res (if prepare_only then Inr () else bind_res (native_profile system machine) (\<lambda>native.
         require (profile = native) (RuntimeError Requires_native_profile) (Inr ()))) (\<lambda>_.
     bind_res (aidl_prepare h quote parse_manifest created_mode spec fs profile cache) (\<lambda>(fs1, program, tools).
     bind_res (lift_msg Aidl_sources (obtain_source h quote specs fs1 ''binder-aidl'' cache)) (\<lambda>(fs2, source).
     if prepare_only then Inr (fs2, None) else
     bind_res (resolve fs2 (case output_arg of Some p \<Rightarrow> p | None \<Rightarrow> build @ [''m4'', ''binder-aidl'', profile])) (\<lambda>out.
     bind_res (aidl_generate std exec (temp @ [''binder-aidl-'' @ tmp_name h]) program (source @ [''libs'', ''binder'', ''aidl'']) out fs2) (\<lambda>(fs3, hashes).
     bind_res (dict_get specs ''binder-aidl'') (\<lambda>source_spec.
     bind_res (of_option KeyError (sp_files source_spec)) (\<lambda>files.
     bind_res (foldM (copy_into (out @ [''source-inputs''])) fs3 (map (\<lambda>i. (pin_path i, path_div source (pin_path i))) files)) (\<lambda>fs4.
     bind_res (foldM (copy_into (out @ [''tool-provenance''])) fs4 (filter (\<lambda>(name, _). startswith name ''notices/'' \<or> SLASH \<notin> set name) tools)) (\<lambda>fs5.
     bind_res (digest_of std fs5 program) (\<lambda>compiler_sha.
     bind_res (run_tool (exec rootdir) fs5 [''git'', ''rev-parse'', ''HEAD'']) (\<lambda>(fs6, head).
     bind_res (decode_utf8 head) (\<lambda>commit.
     bind_res (digest_each std fs6 (map (\<lambda>n. (n, path_div rootdir n)) AIDL_PROJECT)) (\<lambda>project_files.
     bind_res (digest_each std fs6 (filter (\<lambda>(name, _). startswith name ''notices/'') tools)) (\<lambda>notice_files.
     let result = JDict [(''profile'', JStr profile), (''compiler_source_commit'', JStr (al_compiler_source_commit spec)),
         (''compiler_options'', JList (strs COMPILER_OPTIONS)), (''compiler_sha256'', compiler_sha), (''tool_commit'', JStr (al_commit spec)),
         (''project_commit'', JStr (strip_space commit)), (''project_files'', JDict project_files),
         (''source_files'', JDict (map (\<lambda>i. (pin_path i, JStr (pin_sha256 i))) files)), (''generated_files'', JDict hashes),
         (''notice_files'', JDict notice_files), (''native_execution_verified'', JBool True), (''deterministic_generation_verified'', JBool True),
         (''malformed_inputs_rejected'', JInt 2), (''compiler_redistributed'', JBool False), (''servicemanager_execution_verified'', JBool False),
         (''device_execution_verified'', JBool False)] in
     bind_res (dump_json std fs6 (out @ [''generation.json'']) result) (\<lambda>fs7. Inr (fs7, Some result)))))))))))))))))"

section \<open>Fetched files are the pinned ones\<close>

lemma verify_file_Inr:
  assumes "verify_file h fs p item = Inr u"
  shows "\<exists>data. read_bytes fs p = (Inr data :: (aidl_msg, bytes) res) \<and> matches_pin h item data"
  using assms by (auto simp: verify_file_def matches_pin_def res_simps)

lemma verify_file_confined:
  assumes "confined fs0 d fs" and "''..'' \<notin> set rel" and "rel \<noteq> []" and "verify_file h fs (d @ rel) item = Inr u"
  shows "\<exists>data m. map_of fs (d @ rel) = Some (File data m) \<and> matches_pin h item data"
  using verify_file_Inr [OF assms(4)] read_confined(1) [OF assms(1-3)] by blast

lemma safe_relative_Inr: "safe_relative name = Inr parts \<Longrightarrow> parts = pure_parts name \<and> parts \<noteq> [] \<and> ''..'' \<notin> set parts"
  by (auto simp: safe_relative_def Let_def res_simps)

lemma fetch_file_checked:
  assumes c: "confined fs0 cache fs" and rel: "''..'' \<notin> set rel" and f: "fetch_file h quote (cache @ rel) repository commit fs item = Inr (fs', p)"
  shows "confined fs0 cache fs' \<and> p = cache @ rel @ pure_parts (pin_path item) \<and> (\<exists>data m. map_of fs' p = Some (File data m) \<and> matches_pin h item data)"
proof -
  define parts where "parts = pure_parts (pin_path item)"
  have parts: "parts \<noteq> []" "''..'' \<notin> set parts" and p: "p = cache @ rel @ parts"
    using f safe_relative_Inr by (auto simp: fetch_file_def Let_def res_simps parts_def split: if_splits)
  have all: "''..'' \<notin> set (rel @ parts)" "rel @ parts \<noteq> []" using rel parts by auto
  show ?thesis
  proof (cases "path_exists fs p \<or> is_symlink fs p")
    case True
    then obtain u where "fs' = fs" "verify_file h fs (cache @ rel @ parts) item = Inr u"
      using f safe_relative_Inr p by (auto simp: fetch_file_def Let_def res_simps parts_def)
    then show ?thesis using c verify_file_confined [OF c all] p by (auto simp: parts_def)
  next
    case False
    define temporary where "temporary = butlast (rel @ parts) @ [''.aidl-'' @ tmp_name h]"
    have b: "butlast (cache @ rel @ parts) = cache @ butlast (rel @ parts)" using parts by (simp add: butlast_append)
    obtain fs1 fs2 data u where m: "mkdir_parents fs (cache @ butlast (rel @ parts)) = (Inr fs1 :: (aidl_msg, fs) res)"
      and w: "write_bytes fs1 (cache @ temporary) data = (Inr fs2 :: (aidl_msg, fs) res)" and v: "verify_file h fs2 (cache @ temporary) item = Inr u"
      and r: "replace_path fs2 (cache @ temporary) (cache @ rel @ parts) = (Inr fs' :: (aidl_msg, fs) res)"
      using f False safe_relative_Inr p b by (auto simp: fetch_file_def Let_def res_simps parts_def temporary_def)
    have t: "''..'' \<notin> set temporary" "temporary \<noteq> []" using all(1) by (auto simp: temporary_def dest: in_set_butlastD)
    have "''..'' \<notin> set (butlast (rel @ parts))" using all(1) in_set_butlastD by fast
    then have "confined fs0 cache fs1" using mkdir_parents_confined [OF c _ m] by blast
    then have c2: "confined fs0 cache fs2" using write_confined [OF _ t w] by blast
    have mv: "\<not> prefix temporary (rel @ parts)" "fs' = move fs2 (cache @ temporary) (cache @ rel @ parts)"
      using replace_confined [OF c2 t all r] by auto
    have len: "length temporary = length (rel @ parts)" using all(2) by (simp add: temporary_def)
    have "rel @ parts = temporary" if "prefix (rel @ parts) temporary" using that len by (auto simp: prefix_def)
    then have np: "\<not> prefix (cache @ temporary) (cache @ rel @ parts)" "\<not> prefix (cache @ rel @ parts) (cache @ temporary)" using mv(1) by auto
    obtain data m where d: "map_of fs2 (cache @ temporary) = Some (File data m)" "matches_pin h item data"
      using verify_file_confined [OF c2 t v] by blast
    have "map_of fs' p = Some (File data m)" using d(1) map_of_move [OF np] mv(2) p by simp
    moreover have "confined fs0 cache fs'"
      unfolding mv(2) using confined_move [OF c2 strict_prefix_append [OF t(2)] strict_prefix_append [OF all(2)]] np by simp
    ultimately show ?thesis using d(2) p parts_def by blast
  qed
qed

text \<open>An empty cache and a file of one byte.\<close>

definition a_host :: host where
  "a_host = \<lparr>sha256 = (\<lambda>_. ''h''), sha1 = (\<lambda>_. ''g''), gh_api = (\<lambda>_. Some [7]), open_tar = (\<lambda>_. None), dumps = (\<lambda>_. []), loads = (\<lambda>_. None),
     tmp_name = ''t'', is_posix = True\<rparr>"

definition a_item :: pinned where
  "a_item = \<lparr>pin_path = ''bin/aidl'', pin_bytes = 1, pin_sha256 = ''h'', pin_git_blob = Some ''g''\<rparr>"

definition a_fs :: fs where
  "a_fs = [([''c''], Dir)]"

definition a_fetch :: "(aidl_msg, fs \<times> path) res" where
  "a_fetch = fetch_file a_host id ([''c''] @ [''tools'']) ''a/b'' (replicate 40 CHR ''0'') a_fs a_item"

lemma a_fs_ok: "confined a_fs [''c''] a_fs" "is_ok a_fetch"
proof -
  show "confined a_fs [''c''] a_fs" by (auto simp: confined_def dirs_def a_fs_def take_Cons')
  show "is_ok a_fetch" by code_simp
qed

lemma fetch_file_checked_witness:
  "\<exists>fs' p data m. a_fetch = Inr (fs', p) \<and> map_of fs' p = Some (File data m) \<and> matches_pin a_host a_item data"
proof -
  obtain fs' p where r: "a_fetch = Inr (fs', p)" using a_fs_ok(2) by (auto simp: is_ok_iff)
  then show ?thesis using fetch_file_checked [OF a_fs_ok(1) _ r [unfolded a_fetch_def]] by auto
qed

section \<open>The generated file set\<close>

lemma aidl_generated_exact:
  assumes "aidl_generated std fs rootdir = Inr hashes"
  shows "set (map fst hashes) = set aidl_expected \<and>
    list_all (\<lambda>(name, h). \<exists>rel data. name = as_posix rel \<and> \<not> is_symlink fs (rootdir @ rel) \<and>
      read_bytes fs (rootdir @ rel) = (Inr data :: (aidl_msg, bytes) res) \<and> data \<noteq> [] \<and> h = JStr (std_sha std data)) hashes"
proof -
  obtain found where set: "set (map as_posix found) = set aidl_expected" and m: "mapM (aidl_entry std fs rootdir) (sort_key as_posix found) = Inr hashes"
    using assms unfolding aidl_generated_def Let_def require_Inr_iff by blast
  have entry: "fst y = as_posix x \<and> (\<exists>data. \<not> is_symlink fs (rootdir @ x) \<and> read_bytes fs (rootdir @ x) = (Inr data :: (aidl_msg, bytes) res) \<and>
      data \<noteq> [] \<and> snd y = JStr (std_sha std data))" if "aidl_entry std fs rootdir x = Inr y" for x y
    using that by (auto simp: aidl_entry_def Let_def res_simps)
  have l: "list_all2 (\<lambda>x y. aidl_entry std fs rootdir x = Inr y) (sort_key as_posix found) hashes" using m by (simp add: mapM_Inr_iff)
  then have "map fst hashes = map as_posix (sort_key as_posix found)"
    by (induction rule: list_all2_induct) (use entry in auto)
  moreover have "list_all (\<lambda>(name, h). \<exists>rel data. name = as_posix rel \<and> \<not> is_symlink fs (rootdir @ rel) \<and>
      read_bytes fs (rootdir @ rel) = (Inr data :: (aidl_msg, bytes) res) \<and> data \<noteq> [] \<and> h = JStr (std_sha std data)) hashes"
    using l by (induction rule: list_all2_induct) (use entry in fastforce)+
  ultimately show ?thesis using set by simp
qed


end
