(* ===== verification/Native_Build.thy ===== *)
theory Native_Build
  imports Binder_Aidl Ndk
begin

text \<open>
  The Android Binder libraries (\<^verbatim>\<open>build_binder.py\<close>): the generated bindings are checked against their pins,
  every object against the native instruction boundary, archives against the compiled objects, and
  the sources are bundled.  The helpers serve the other native builds too.  Pins and the library graph
  are parsed records, compilers a parameter; units are compiled one after the other, as the threads
  of the pool write disjoint files.
\<close>

datatype (plugins only: code) build_msg =
    Build_aidl aidl_msg
  | Build_json bundle_msg
  | Build_sources src_msg
  | Build_ndk ndk_msg
  | Build_tls native_msg
  | Unreviewed_profile
  | Stop_iteration
  | Generation_differs string
  | Generated_bytes_differ
  | Not_arm64_object string
  | Invalid_section_table string
  | Invalid_code_section string
  | Boundary_violated string
  | Build_failed string
  | Toolchain_license
  | Source_changed_in_build string
  | Duplicate_project_source
  | Invalid_extra_member
  | Archive_differs
  | Jobs_not_positive

section \<open>Generated bindings\<close>

definition aidl_profile_of :: "aidl_spec \<Rightarrow> json \<Rightarrow> (build_msg, aidl_profile) res" where
  "aidl_profile_of spec v =
     (case v of
        JStr p \<Rightarrow> of_option (RuntimeError Unreviewed_profile) (map_of (al_profiles spec) p)
      | JList _ \<Rightarrow> Inl TypeError
      | JDict _ \<Rightarrow> Inl TypeError
      | _ \<Rightarrow> Inl (RuntimeError Unreviewed_profile))"

definition expected_generation :: "aidl_spec \<Rightarrow> pinned list \<Rightarrow> string \<Rightarrow> (string \<times> json) list" where
  "expected_generation spec files compiler_sha256 =
     [(''tool_commit'', JStr (al_commit spec)), (''compiler_source_commit'', JStr (al_compiler_source_commit spec)),
      (''compiler_options'', JList (strs COMPILER_OPTIONS)), (''compiler_sha256'', JStr compiler_sha256),
      (''source_files'', JDict (map (\<lambda>i. (pin_path i, JStr (pin_sha256 i))) files)),
      (''native_execution_verified'', JBool True), (''deterministic_generation_verified'', JBool True), (''malformed_inputs_rejected'', JInt 2)]"

definition verify_aidl :: "std \<Rightarrow> aidl_spec \<Rightarrow> source_spec \<Rightarrow> fs \<Rightarrow> path \<Rightarrow> (build_msg, json) res" where
  "verify_aidl std spec source fs d =
     bind_res (lift_msg Build_json (load_json std fs (d @ [''generation.json'']))) (\<lambda>generation.
     bind_res (jget_or generation ''profile'') (\<lambda>v.
     bind_res (aidl_profile_of spec v) (\<lambda>profile.
     let executable = pf_directory profile @ ''/'' @ pf_executable profile in
     bind_res (of_option (RuntimeError Stop_iteration) (find (\<lambda>i. pin_path i = executable) (al_files spec))) (\<lambda>pinned_executable.
     bind_res (of_option KeyError (sp_files source)) (\<lambda>files.
     bind_res (foldM (\<lambda>_ (key, value).
         ensure (bind_res (jget_or generation key) (\<lambda>w. Inr (py_eq w value))) (RuntimeError (Generation_differs key)) (Inr ())) ()
         (expected_generation spec files (pin_sha256 pinned_executable))) (\<lambda>_.
     bind_res (jget_or generation ''generated_files'') (\<lambda>recorded.
     bind_res (lift_msg Build_aidl (aidl_generated std fs (d @ [''generated'']))) (\<lambda>found.
     require (py_eq recorded (JDict found)) (RuntimeError Generated_bytes_differ) (Inr generation)))))))))"

section \<open>Objects and symbols\<close>

definition verify_object_architecture :: "fs \<Rightarrow> path \<Rightarrow> (build_msg, unit) res" where
  "verify_object_architecture fs p =
     bind_res (read_bytes fs p) (\<lambda>data.
     let header = take 64 data in
     require (length header = 64 \<and> take 7 header = [0x7f, 0x45, 0x4c, 0x46, 2, 1, 1]) (RuntimeError (Not_arm64_object (last p)))
    (bind_res (unpack_from [U16, U16, U32] header 16) (\<lambda>vs.
     require (vs = [Num 1, Num 183, Num 1]) (RuntimeError (Not_arm64_object (last p))) (Inr ()))))"

definition object_section_fmt :: "fmt list" where
  "object_section_fmt = [U32, U32, U64, U64, U64, U64, U32, U32, U64, U64]"

definition code_section :: "string \<Rightarrow> bytes \<Rightarrow> int \<Rightarrow> int \<Rightarrow> int \<Rightarrow> int \<Rightarrow> (build_msg, int) res" where
  "code_section name data offset stride acc index =
     bind_res (unpack_from object_section_fmt data (offset + index * stride)) (\<lambda>vs.
     if num (vs ! 2) AND 4 \<noteq> 0 then
       require (num (vs ! 1) = 1 \<and> num (vs ! 5) mod 4 = 0 \<and> num (vs ! 4) + num (vs ! 5) \<le> int (length data)) (RuntimeError (Invalid_code_section name))
         (Inr (acc + num (vs ! 5)))
     else Inr acc)"

record object_code =
  oc_executable_bytes :: int
  oc_counts :: "(string \<times> nat) list"

definition clean_counts :: "(string \<times> nat) list \<Rightarrow> bool" where
  "clean_counts counts \<longleftrightarrow> list_all (\<lambda>(k, v). k = ''instruction_count'' \<or> v = 0) counts"

definition verify_object_code :: "fs \<Rightarrow> path \<Rightarrow> string \<Rightarrow> (build_msg, object_code) res" where
  "verify_object_code fs p disassembly =
     bind_res (verify_object_architecture fs p) (\<lambda>_.
     bind_res (read_bytes fs p) (\<lambda>data.
     bind_res (unpack_from [U64] data 40) (\<lambda>a.
     bind_res (unpack_from [U16, U16] data 58) (\<lambda>b.
     let name = last p; offset = num (a ! 0); stride = num (b ! 0); count = num (b ! 1) in
     require (64 \<le> offset \<and> stride = 64 \<and> count \<noteq> 0 \<and> offset + stride * count \<le> int (length data)) (RuntimeError (Invalid_section_table name))
    (bind_res (foldM (code_section name data offset stride) 0 (py_range 0 count 1)) (\<lambda>executable_bytes.
     let boundary = inventory disassembly in
     bind_res (dict_get boundary ''instruction_count'') (\<lambda>n.
     require (int n * 4 = executable_bytes \<and> clean_counts boundary) (RuntimeError (Boundary_violated name))
       (Inr \<lparr>oc_executable_bytes = executable_bytes, oc_counts = boundary\<rparr>))))))))"

text \<open>\<^verbatim>\<open>str.split()\<close>.\<close>

fun split_fields :: "string \<Rightarrow> string \<Rightarrow> string list" where
  "split_fields cur [] = (if cur = [] then [] else [rev cur])"
| "split_fields cur (c # s) =
     (if space_char c then (if cur = [] then split_fields [] s else rev cur # split_fields [] s) else split_fields (c # cur) s)"

definition upper_letter :: "char \<Rightarrow> bool" where
  "upper_letter c \<longleftrightarrow> (let n = of_char c :: int in 65 \<le> n \<and> n \<le> 90)"

record symbol_sets =
  sy_defined :: "string list"
  sy_required :: "string list"
  sy_optional :: "string list"

definition symbol_line :: "symbol_sets \<Rightarrow> string \<Rightarrow> symbol_sets" where
  "symbol_line st line =
     (case split_fields [] line of
        name # [kind] # _ \<Rightarrow>
          if kind = CHR ''U'' then st\<lparr>sy_required := List.insert name (sy_required st)\<rparr>
          else if kind = CHR ''w'' \<or> kind = CHR ''v'' then st\<lparr>sy_optional := List.insert name (sy_optional st)\<rparr>
          else if upper_letter kind then st\<lparr>sy_defined := List.insert name (sy_defined st)\<rparr>
          else st
      | _ \<Rightarrow> st)"

definition symbol_inventory :: "string \<Rightarrow> symbol_sets" where
  "symbol_inventory listing =
     (let st = foldl symbol_line \<lparr>sy_defined = [], sy_required = [], sy_optional = []\<rparr> (splitlines listing);
          outside = (\<lambda>xs. sort (filter (\<lambda>n. n \<notin> set (sy_defined st)) xs)) in
      \<lparr>sy_defined = sort (sy_defined st), sy_required = outside (sy_required st), sy_optional = outside (sy_optional st)\<rparr>)"

section \<open>Commands, notices and sources\<close>

definition build_run :: "tool \<Rightarrow> fs \<Rightarrow> string list \<Rightarrow> path \<Rightarrow> (build_msg, fs \<times> string) res" where
  "build_run exec fs words logfile =
     (let r = exec words fs in
      bind_res (write_bytes (after_fs r) logfile (out_bytes r @ err_bytes r)) (\<lambda>fs1.
      require (status r = 0) (RuntimeError (Build_failed (abs_str logfile)))
     (bind_res (decode_utf8 (out_bytes r)) (\<lambda>s. Inr (fs1, s)))))"

definition ndk_notices :: "std \<Rightarrow> path \<Rightarrow> fs \<Rightarrow> path \<Rightarrow> path \<Rightarrow> (build_msg, (string \<times> path) list) res" where
  "ndk_notices std rootdir fs ndk toolchain =
     bind_res (digest_of std fs (toolchain @ [''NOTICE''])) (\<lambda>sha.
     bind_res (lift_msg Build_json (load_json std fs (rootdir @ [''third_party'', ''bionic'', ''builtins.json'']))) (\<lambda>builtins.
     ensure (field_eq builtins ''notice_sha256'' sha) (RuntimeError Toolchain_license)
       (Inr [(''NDK-NOTICE.txt'', ndk @ [''NOTICE'']), (''NDK-TOOLCHAIN-NOTICE.txt'', toolchain @ [''NOTICE''])])))"

definition catalog_files :: "std \<Rightarrow> (string \<times> path) list \<Rightarrow> fs \<Rightarrow> string \<times> source_spec \<Rightarrow> (build_msg, (string \<times> path) list) res" where
  "catalog_files std sources fs x =
     (case x of (name, spec) \<Rightarrow>
      bind_res (of_option KeyError (sp_files spec)) (mapM (\<lambda>item.
        bind_res (dict_get sources name) (\<lambda>d.
        let p = path_div d (pin_path item) in
        ensure (digest_is std fs p (JStr (pin_sha256 item))) (RuntimeError (Source_changed_in_build (pin_path item)))
          (Inr (''upstream/'' @ name @ ''/'' @ pin_path item, p))))))"

definition BINDER_BUNDLE :: "string list" where
  "BINDER_BUNDLE = [''LICENSE'', ''THIRD_PARTY.md'', ''docs/binder-build.md'', ''scripts/build_binder.py'', ''scripts/binder_aidl.py'',
     ''scripts/bionic_adapt.py'', ''scripts/art_native_tls.py'', ''scripts/tls_adapt.py'', ''scripts/sources.py'', ''scripts/environment.py'', ''scripts/ndk.py'',
     ''tests/test_binder_build.py'', ''tests/test_art_native_tls.py'', ''tests/test_tls_adapt.py'', ''third_party/binder/native-sources.json'',
     ''third_party/binder/native-libraries.json'', ''third_party/binder/aidl-tools.json'', ''third_party/bionic/builtins.json'', ''third_party/sources.json'']"

definition dict_update :: "('k \<times> 'v) list \<Rightarrow> ('k \<times> 'v) list \<Rightarrow> ('k \<times> 'v) list" where
  "dict_update d xs = foldl (\<lambda>d (k, v). dict_set d k v) d xs"

definition extra_member :: "(string \<times> path) list \<Rightarrow> string \<times> path \<Rightarrow> (build_msg, (string \<times> path) list) res" where
  "extra_member files x =
     (case x of (name, p) \<Rightarrow>
      require (map_of files name = None \<and> startswith name ''generated/'' \<and> ''..'' \<notin> set (pure_parts name)) (RuntimeError Invalid_extra_member)
        (Inr (dict_set files name p)))"

text \<open>A zip file with sorted names and fixed times is a function of the names and contents.\<close>

definition write_bundle :: "((string \<times> bytes) list \<Rightarrow> bytes) \<Rightarrow> fs \<Rightarrow> path \<Rightarrow> (string \<times> path) list \<Rightarrow> (build_msg, fs) res" where
  "write_bundle zip_files fs p files =
     bind_res (mapM (\<lambda>(name, q). bind_res (read_bytes fs q) (\<lambda>data. Inr (name, data))) (sort_key fst files)) (\<lambda>entries.
     write_bytes fs p (zip_files entries))"

record bundle_record =
  br_source_bundle_sha256 :: json
  br_project_files :: "(string \<times> json) list"
  br_source_notices :: "(string \<times> string \<times> string) list"
  br_ndk_notice_hashes :: "(string \<times> json) list"

definition source_notices :: "(string \<times> source_spec) list \<Rightarrow> (string \<times> string \<times> string) list" where
  "source_notices catalog = map (\<lambda>(n, s). (n, sp_notice s, sp_notice_sha256 s)) catalog"

definition bundle_sources ::
  "std \<Rightarrow> ((string \<times> bytes) list \<Rightarrow> bytes) \<Rightarrow> path \<Rightarrow> fs \<Rightarrow> path \<Rightarrow> (string \<times> source_spec) list \<Rightarrow> (string \<times> path) list \<Rightarrow> path \<Rightarrow> (string \<times> path) list \<Rightarrow>
   string list \<Rightarrow> (string \<times> path) list \<Rightarrow> (build_msg, fs \<times> bundle_record) res"
where
  "bundle_sources std zip_files rootdir fs out catalog sources aidl notices extra_project extra_files =
     bind_res (mapM (catalog_files std sources fs) catalog) (\<lambda>upstream.
     bind_res (lift_msg Build_aidl (aidl_generated std fs (aidl @ [''generated'']))) (\<lambda>generated.
     let project = BINDER_BUNDLE @ extra_project in
     require (distinct project) (RuntimeError Duplicate_project_source)
    (let files = dict_update [] (concat upstream @ [(''aidl/generation.json'', aidl @ [''generation.json''])] @
           map (\<lambda>(n, _). (''aidl/generated/'' @ n, path_div (aidl @ [''generated'']) n)) generated @
           map (\<lambda>(n, p). (''notices/'' @ n, p)) notices @ map (\<lambda>n. (''artbox/'' @ n, path_div rootdir n)) project) in
     bind_res (foldM extra_member files extra_files) (\<lambda>all_files.
     let archive = out @ [''corresponding-source.zip''] in
     bind_res (write_bundle zip_files fs archive all_files) (\<lambda>fs1.
     bind_res (digest_of std fs1 archive) (\<lambda>sha.
     bind_res (digest_each std fs1 (map (\<lambda>n. (n, path_div rootdir n)) project)) (\<lambda>project_files.
     bind_res (digest_each std fs1 notices) (\<lambda>notice_hashes.
     Inr (fs1, \<lparr>br_source_bundle_sha256 = sha, br_project_files = project_files, br_source_notices = source_notices catalog,
       br_ndk_notice_hashes = notice_hashes\<rparr>)))))))))"

section \<open>The build\<close>

record library_spec =
  lb_source :: string
  lb_units :: "string list"
  lb_generated :: bool
  lb_unit_flags :: "(string \<times> string list) list"
  lb_compiler_tls :: "(string \<times> tls_rule) list"

record library_graph =
  gr_target :: string
  gr_cpp_standard :: string
  gr_includes :: "(string \<times> string list) list"
  gr_libraries :: "(string \<times> library_spec) list"

definition TOOL_HOSTS :: "(string \<times> string) list" where
  "TOOL_HOSTS = [(''win32'', ''windows-x86_64''), (''darwin'', ''darwin-x86_64''), (''linux'', ''linux-x86_64'')]"

definition tools_of :: "string \<Rightarrow> path \<Rightarrow> (build_msg, path) res" where
  "tools_of platform ndk = bind_res (dict_get TOOL_HOSTS platform) (\<lambda>host. Inr (ndk @ [''toolchains'', ''llvm'', ''prebuilt'', host, ''bin'']))"

definition binder_cxx_flags :: "path \<Rightarrow> library_graph \<Rightarrow> string list" where
  "binder_cxx_flags rootdir graph =
     [''--target='' @ gr_target graph, ''-std='' @ gr_cpp_standard graph, ''-O1'', ''-DNDEBUG'', ''-fPIC'', ''-fno-exceptions'', ''-fno-rtti'',
      ''-ffixed-x18'', ''-ffixed-x27'', ''-ffixed-x28'', ''-ffunction-sections'', ''-fdata-sections'', ''-march=armv8-a'', ''-mno-outline-atomics'',
      ''-ffile-prefix-map='' @ abs_str rootdir @ ''=.'', ''-fdebug-prefix-map='' @ abs_str rootdir @ ''=.'',
      ''-DANDROID_UTILS_CALLSTACK_ENABLED=0'', ''-DANDROID_UTILS_REF_BASE_DISABLE_IMPLICIT_CONSTRUCTION'',
      ''-DANDROID_BASE_UNIQUE_FD_DISABLE_IMPLICIT_CONVERSION'', ''-DBINDER_WITH_KERNEL_IPC'', ''-Wall'', ''-Wextra'', ''-Werror'',
      ''-Wno-unused-parameter'', ''-Wno-missing-field-initializers'', ''-Wno-c99-designator'', ''-Wno-error=unused-but-set-variable'']"

definition include_paths :: "(string \<times> path) list \<Rightarrow> (string \<times> string list) list \<Rightarrow> (build_msg, path list) res" where
  "include_paths sources includes =
     bind_res (mapM (\<lambda>(name, ps). mapM (\<lambda>p. bind_res (dict_get sources name) (\<lambda>d. Inr (path_div d p))) ps) includes) (\<lambda>pss. Inr (concat pss))"

definition include_words :: "path list \<Rightarrow> string list" where
  "include_words ps = concat (map (\<lambda>p. [''-I'', abs_str p]) ps)"

type_synonym unit_job = "string \<times> string \<times> path \<times> path"

definition stem_of :: "string \<Rightarrow> string" where
  "stem_of name = replace_all ''/'' ''__'' name"

definition library_units :: "(string \<times> path) list \<Rightarrow> path \<Rightarrow> string list \<Rightarrow> library_spec \<Rightarrow> (build_msg, (string \<times> path) list) res" where
  "library_units sources generated_dir generated spec =
     bind_res (mapM (\<lambda>n. bind_res (dict_get sources (lb_source spec)) (\<lambda>d. Inr (n, path_div d n))) (lb_units spec)) (\<lambda>units.
     Inr (units @ (if lb_generated spec then map (\<lambda>n. (n, path_div generated_dir n)) (filter (\<lambda>n. endswith n ''.cpp'') generated) else [])))"

definition add_jobs ::
  "(string \<times> path) list \<Rightarrow> path \<Rightarrow> string list \<Rightarrow> path \<Rightarrow> fs \<times> unit_job list \<Rightarrow> string \<times> library_spec \<Rightarrow> (build_msg, fs \<times> unit_job list) res"
where
  "add_jobs sources generated_dir generated out st x =
     (case x of (library, spec) \<Rightarrow>
      bind_res (library_units sources generated_dir generated spec) (\<lambda>units.
      foldM (\<lambda>(fs, jobs) (name, p).
        let obj = out @ [''objects'', library, stem_of name @ ''.o''] in
        bind_res (mkdir_parents fs (butlast obj)) (\<lambda>fs1. Inr (fs1, jobs @ [(library, name, p, obj)]))) st units))"

record compiled_unit =
  cu_object :: string
  cu_sha256 :: json
  cu_boundary :: object_code
  cu_tls :: "tls_record option"

definition checked_object :: "tool \<Rightarrow> string \<Rightarrow> path \<Rightarrow> path \<Rightarrow> fs \<Rightarrow> (build_msg, fs \<times> object_code) res" where
  "checked_object exec objdump obj listing fs =
     bind_res (build_run exec fs [objdump, ''-d'', ''--disassemble-zeroes'', ''--no-show-raw-insn'', abs_str obj] listing) (\<lambda>(fs1, disassembly).
     bind_res (verify_object_code fs1 obj disassembly) (\<lambda>boundary. Inr (fs1, boundary)))"

definition compile_unit ::
  "std \<Rightarrow> tool \<Rightarrow> library_graph \<Rightarrow> string \<Rightarrow> string \<Rightarrow> string list \<Rightarrow> string list \<Rightarrow> path \<Rightarrow> fs \<times> compiled_unit list \<Rightarrow> unit_job \<Rightarrow>
   (build_msg, fs \<times> compiled_unit list) res"
where
  "compile_unit std exec graph cxx objdump flags include_flags out st job =
     (case job of (library, name, source, obj) \<Rightarrow>
      bind_res (dict_get (gr_libraries graph) library) (\<lambda>spec.
      let unit_flags = (case map_of (lb_unit_flags spec) name of None \<Rightarrow> [] | Some fl \<Rightarrow> fl);
          command = [cxx] @ flags @ unit_flags @ include_flags @ [''-c'', abs_str source, ''-o'', abs_str obj] in
      bind_res (build_run exec (fst st) command (butlast obj @ [stem_of name @ ''.log''])) (\<lambda>(fs1, _).
      bind_res (case map_of (lb_compiler_tls spec) name of
          None \<Rightarrow> Inr (fs1, None)
        | Some rule \<Rightarrow> bind_res (lift_msg Build_tls (compile_adaptation (std_sha std) exec fs1 command source obj (out @ [''compiler-tls'']) (stem_of name) rule))
            (\<lambda>(fs2, r). Inr (fs2, Some r))) (\<lambda>(fs2, tls_result).
      bind_res (checked_object exec objdump obj (butlast obj @ [stem_of name @ ''.asm'']) fs2) (\<lambda>(fs3, boundary).
      bind_res (digest_of std fs3 obj) (\<lambda>sha.
      Inr (fs3, snd st @ [\<lparr>cu_object = join_with ''/'' (drop (length out) obj), cu_sha256 = sha, cu_boundary = boundary, cu_tls = tls_result\<rparr>])))))))"

definition make_archive ::
  "std \<Rightarrow> tool \<Rightarrow> string \<Rightarrow> path \<Rightarrow> unit_job list \<Rightarrow> fs \<times> (string \<times> json) list \<Rightarrow> string \<Rightarrow> (build_msg, fs \<times> (string \<times> json) list) res"
where
  "make_archive std exec ar out jobs st library =
     (let p = out @ [library @ ''.a'']; fs0 = (if path_exists (fst st) p then unlink_path (fst st) p else fst st);
          members = map (\<lambda>(_, _, _, obj). obj) (filter (\<lambda>(lib, _). lib = library) jobs) in
      bind_res (build_run exec fs0 ([ar, ''rcsD'', abs_str p] @ map abs_str members) (out @ [library @ ''-archive.log''])) (\<lambda>(fs1, _).
      bind_res (build_run exec fs1 [ar, ''t'', abs_str p] (out @ [library @ ''-members.log''])) (\<lambda>(fs2, listing).
      require (splitlines listing = map last members) (RuntimeError Archive_differs)
     (bind_res (digest_of std fs2 p) (\<lambda>sha. Inr (fs2, dict_set (snd st) (library @ ''.a'') sha))))))"

definition obtain_catalog ::
  "host \<Rightarrow> (string \<Rightarrow> string) \<Rightarrow> string \<Rightarrow> path \<Rightarrow> fs \<times> (string \<times> path) list \<Rightarrow> string \<times> source_spec \<Rightarrow> (build_msg, fs \<times> (string \<times> path) list) res"
where
  "obtain_catalog h quote prefix_name cache st x =
     (case x of (name, spec) \<Rightarrow>
      bind_res (of_option KeyError (sp_files spec)) (\<lambda>files.
      bind_res (lift_msg Build_sources (obtain_files h quote (fst st) (prefix_name @ name) spec files cache)) (\<lambda>(fs1, p).
      Inr (fs1, dict_set (snd st) name p))))"

type_synonym catalog_state = "fs \<times> (string \<times> source_spec) list \<times> (string \<times> path) list"

definition add_common ::
  "host \<Rightarrow> (string \<Rightarrow> string) \<Rightarrow> (string \<times> source_spec) list \<Rightarrow> path \<Rightarrow> catalog_state \<Rightarrow> string \<Rightarrow> (build_msg, catalog_state) res"
where
  "add_common h quote common cache st name =
     (case st of (fs, catalog, sources) \<Rightarrow>
      bind_res (dict_get common name) (\<lambda>spec.
      bind_res (lift_msg Build_sources (obtain_source h quote common fs name cache)) (\<lambda>(fs1, p).
      Inr (fs1, dict_set catalog name spec, dict_set sources name p))))"

record binder_report =
  bp_target :: string
  bp_units :: "compiled_unit list"
  bp_archives :: "(string \<times> json) list"
  bp_generation_sha256 :: json
  bp_generated_files :: json
  bp_symbols :: symbol_sets
  bp_symbols_sha256 :: json
  bp_compiler_version :: string
  bp_flags :: "string list"
  bp_project_commit :: string
  bp_bundle :: bundle_record

definition symbols_value :: "symbol_sets \<Rightarrow> json" where
  "symbols_value s = JDict [(''defined'', JList (strs (sy_defined s))), (''required_external'', JList (strs (sy_required s))),
     (''optional_external'', JList (strs (sy_optional s)))]"

definition build_libraries ::
  "std \<Rightarrow> tool \<Rightarrow> library_graph \<Rightarrow> string list \<Rightarrow> string list \<Rightarrow> path \<Rightarrow> path \<Rightarrow> string \<Rightarrow> unit_job list \<Rightarrow> fs \<Rightarrow>
   (build_msg, fs \<times> compiled_unit list \<times> (string \<times> json) list \<times> symbol_sets) res"
where
  "build_libraries std exec graph flags include_flags out tools exe jobs fs =
     (let program = (\<lambda>n. abs_str (tools @ [n @ exe])) in
      bind_res (foldM (compile_unit std exec graph (program ''clang++'') (program ''llvm-objdump'') flags include_flags out) (fs, []) jobs) (\<lambda>(fs1, compiled).
      bind_res (foldM (make_archive std exec (program ''llvm-ar'') out jobs) (fs1, []) (dict_keys (gr_libraries graph))) (\<lambda>(fs2, archives).
      bind_res (build_run exec fs2 ([program ''llvm-nm'', ''--format=posix'', ''--extern-only''] @ map (\<lambda>(n, _). abs_str (out @ [n])) archives) (out @ [''symbols.log''])) (\<lambda>(fs3, listing).
      let symbols = symbol_inventory listing in
      bind_res (dump_json std fs3 (out @ [''symbols.json'']) (symbols_value symbols)) (\<lambda>fs4.
      Inr (fs4, compiled, archives, symbols))))))"

definition binder_main ::
  "std \<Rightarrow> host \<Rightarrow> (string \<Rightarrow> string) \<Rightarrow> ndk_host \<Rightarrow> tool \<Rightarrow> ((string \<times> bytes) list \<Rightarrow> bytes) \<Rightarrow> (binder_report \<Rightarrow> json) \<Rightarrow> aidl_spec \<Rightarrow>
   (string \<times> source_spec) list \<Rightarrow> (string \<times> source_spec) list \<Rightarrow> library_graph \<Rightarrow> path \<Rightarrow> path \<Rightarrow> fs \<Rightarrow> path \<Rightarrow> path \<Rightarrow> int \<Rightarrow> (build_msg, fs \<times> binder_report) res"
where
  "binder_main std h quote nh exec zip_files encode spec catalog0 common graph rootdir cache fs aidl_arg output_arg jobs_arg =
     require (1 \<le> jobs_arg) (RuntimeError Jobs_not_positive)
    (bind_res (resolve fs aidl_arg) (\<lambda>aidl.
     bind_res (dict_get common ''binder-aidl'') (\<lambda>aidl_source.
     bind_res (verify_aidl std spec aidl_source fs aidl) (\<lambda>generation.
     bind_res (resolve fs output_arg) (\<lambda>out.
     bind_res (mkdir_parents fs out) (\<lambda>fs1.
     let result_path = out @ [''build.json'']; fs2 = (if path_exists fs1 result_path then unlink_path fs1 result_path else fs1) in
     bind_res (foldM (obtain_catalog h quote [] cache) (fs2, []) catalog0) (\<lambda>(fs3, sources0).
     bind_res (foldM (add_common h quote common cache) (fs3, catalog0, sources0) [''libbase-dex'', ''liblog-dex'', ''binder-aidl'']) (\<lambda>(fs4, catalog, sources).
     bind_res (lift_msg Build_ndk (ndk_obtain nh fs4 cache)) (\<lambda>(fs5, ndk).
     bind_res (tools_of (nh_platform nh) ndk) (\<lambda>tools.
     bind_res (ndk_notices std rootdir fs5 ndk (butlast tools)) (\<lambda>notices.
     let exe = (if nh_platform nh = ''win32'' then ''.exe'' else []); flags = binder_cxx_flags rootdir graph in
     bind_res (include_paths sources (gr_includes graph)) (\<lambda>includes.
     let include_flags = include_words (includes @ [aidl @ [''generated'', ''include'']]) in
     bind_res (jget generation ''generated_files'') (\<lambda>generated_files.
     bind_res (jitems generated_files) (\<lambda>generated.
     bind_res (foldM (add_jobs sources (aidl @ [''generated'']) (dict_keys generated) out) (fs5, []) (gr_libraries graph)) (\<lambda>(fs6, jobs).
     bind_res (build_libraries std exec graph flags include_flags out tools exe jobs fs6) (\<lambda>(fs7, compiled, archives, symbols).
     bind_res (digest_of std fs7 (aidl @ [''generation.json''])) (\<lambda>generation_sha.
     bind_res (digest_of std fs7 (out @ [''symbols.json''])) (\<lambda>symbols_sha.
     bind_res (build_run exec fs7 [abs_str (tools @ [''clang++'' @ exe]), ''--version''] (out @ [''compiler.log''])) (\<lambda>(fs8, version).
     bind_res (run_tool exec fs8 [''git'', ''rev-parse'', ''HEAD'']) (\<lambda>(fs9, head).
     bind_res (decode_utf8 head) (\<lambda>commit.
     bind_res (bundle_sources std zip_files rootdir fs9 out catalog sources aidl notices [] []) (\<lambda>(fs10, bundle).
     let result = \<lparr>bp_target = gr_target graph, bp_units = compiled, bp_archives = archives, bp_generation_sha256 = generation_sha,
         bp_generated_files = generated_files, bp_symbols = symbols, bp_symbols_sha256 = symbols_sha, bp_compiler_version = strip_space version,
         bp_flags = map (replace_all (abs_str rootdir) ''${ARTBOX_ROOT}'') flags, bp_project_commit = strip_space commit, bp_bundle = bundle\<rparr> in
     bind_res (dump_json std fs10 result_path (encode result)) (\<lambda>fs11.
     Inr (fs11, result))))))))))))))))))))))))"

section \<open>Accepted objects\<close>

text \<open>The executable sections of an object, read from its section headers field by field.\<close>

definition int_at :: "bytes \<Rightarrow> nat \<Rightarrow> nat \<Rightarrow> int" where
  "int_at data i n = le_int (read_at data i n)"

definition code_spans :: "bytes \<Rightarrow> (int \<times> int) list" where
  "code_spans data =
     (let headers = map (\<lambda>i. nat (int_at data 40 8) + 64 * i) [0..<nat (int_at data 60 2)] in
      map (\<lambda>h. (int_at data (h + 24) 8, int_at data (h + 32) 8)) (filter (\<lambda>h. bit (int_at data (h + 8) 8) 2) headers))"

definition whole_words :: "bytes \<Rightarrow> int \<times> int \<Rightarrow> bool" where
  "whole_words data x \<longleftrightarrow> (case x of (start, len) \<Rightarrow> 4 dvd len \<and> start + len \<le> int (length data))"

lemma and_four_iff: "(n :: int) AND 4 \<noteq> 0 \<longleftrightarrow> bit n 2"
  using and_exp_eq_0_iff_not_bit [of n 2] by simp

lemma code_section_step:
  assumes "code_section name data off 64 acc i = Inr acc'" and "0 \<le> off" and "0 \<le> i"
  defines "h \<equiv> nat off + 64 * nat i"
  shows "acc' = acc + (if bit (int_at data (h + 8) 8) 2 then int_at data (h + 32) 8 else 0)"
    and "bit (int_at data (h + 8) 8) 2 \<Longrightarrow> whole_words data (int_at data (h + 24) 8, int_at data (h + 32) 8)"
proof -
  have h: "nat (off + i * 64) = h" using assms(2,3) by (simp add: h_def nat_add_distrib nat_mult_distrib)
  obtain vs where vs: "unpack_from object_section_fmt data (off + i * 64) = (Inr vs :: (build_msg, sval list) res)"
    using assms(1) by (auto simp: code_section_def res_simps)
  have "calcsize object_section_fmt = 64" by (simp add: object_section_fmt_def calcsize_def)
  then have "vs = struct_unpack object_section_fmt (read_at data h 64)"
    using vs assms(2,3) h by (simp add: unpack_from_Inr_iff)
  then have "num (vs ! 2) = int_at data (h + 8) 8" "num (vs ! 4) = int_at data (h + 24) 8" "num (vs ! 5) = int_at data (h + 32) 8"
    by (simp_all add: object_section_fmt_def int_at_def read_at_def drop_take add.commute)
  then show "acc' = acc + (if bit (int_at data (h + 8) 8) 2 then int_at data (h + 32) 8 else 0)"
    and "bit (int_at data (h + 8) 8) 2 \<Longrightarrow> whole_words data (int_at data (h + 24) 8, int_at data (h + 32) 8)"
    using assms(1) vs by (auto simp: code_section_def and_four_iff whole_words_def res_simps dvd_eq_mod_eq_0 split: if_splits)
qed

lemma code_sections_total:
  assumes "foldM (code_section name data off 64) acc (map int [0..<n]) = Inr acc'" and "0 \<le> off"
  defines "headers \<equiv> \<lambda>n. filter (\<lambda>h. bit (int_at data (h + 8) 8) 2) (map (\<lambda>i. nat off + 64 * i) [0..<n])"
  shows "acc' = acc + sum_list (map (\<lambda>h. int_at data (h + 32) 8) (headers n)) \<and>
    list_all (\<lambda>h. whole_words data (int_at data (h + 24) 8, int_at data (h + 32) 8)) (headers n)"
  using assms(1)
proof (induction n arbitrary: acc')
  case (Suc n)
  obtain u where u: "foldM (code_section name data off 64) acc (map int [0..<n]) = Inr u" "code_section name data off 64 u (int n) = Inr acc'"
    using Suc.prems by (auto simp: foldM_append bind_res_Inr_iff)
  show ?case using Suc.IH [OF u(1)] code_section_step [OF u(2) assms(2)] by (simp add: headers_def)
qed (simp add: headers_def)

lemma py_range_up: "py_range 0 n 1 = map int [0..<nat n]"
  by (simp add: py_range_def)


section \<open>Symbols and reports\<close>

definition names_of_kind :: "(char \<Rightarrow> bool) \<Rightarrow> string list \<Rightarrow> string set" where
  "names_of_kind P lines = {name. \<exists>line \<in> set lines. \<exists>kind rest. split_fields [] line = name # [kind] # rest \<and> P kind}"

definition defining :: "char \<Rightarrow> bool" where
  "defining kind \<longleftrightarrow> upper_letter kind \<and> kind \<noteq> CHR ''U''"

lemma symbol_line_sets:
  "set (sy_required (symbol_line st line)) = set (sy_required st) \<union> names_of_kind (\<lambda>k. k = CHR ''U'') [line]"
  "set (sy_optional (symbol_line st line)) = set (sy_optional st) \<union> names_of_kind (\<lambda>k. k = CHR ''w'' \<or> k = CHR ''v'') [line]"
  "set (sy_defined (symbol_line st line)) = set (sy_defined st) \<union> names_of_kind defining [line]"
  by (auto simp: symbol_line_def names_of_kind_def defining_def upper_letter_def split: list.splits)

lemma names_of_kind_Cons: "names_of_kind P (line # lines) = names_of_kind P [line] \<union> names_of_kind P lines"
  by (auto simp: names_of_kind_def)

lemma symbol_lines_sets:
  "set (sy_required (foldl symbol_line st lines)) = set (sy_required st) \<union> names_of_kind (\<lambda>k. k = CHR ''U'') lines \<and>
   set (sy_optional (foldl symbol_line st lines)) = set (sy_optional st) \<union> names_of_kind (\<lambda>k. k = CHR ''w'' \<or> k = CHR ''v'') lines \<and>
   set (sy_defined (foldl symbol_line st lines)) = set (sy_defined st) \<union> names_of_kind defining lines"
proof (induction lines arbitrary: st)
  case Nil
  then show ?case by (simp add: names_of_kind_def)
next
  case (Cons line lines)
  then show ?case by (simp add: symbol_line_sets names_of_kind_Cons [of _ line lines] Un_assoc)
qed

lemma symbol_lines_distinct:
  "distinct (sy_required st) \<and> distinct (sy_optional st) \<and> distinct (sy_defined st) \<Longrightarrow>
   distinct (sy_required (foldl symbol_line st lines)) \<and> distinct (sy_optional (foldl symbol_line st lines)) \<and> distinct (sy_defined (foldl symbol_line st lines))"
proof (induction lines arbitrary: st)
  case (Cons line lines)
  then show ?case by (simp add: symbol_line_def distinct_insert split: list.splits)
qed simp

definition strictly_sorted :: "string list \<Rightarrow> bool" where
  "strictly_sorted xs \<longleftrightarrow> sorted xs \<and> distinct xs"

lemma symbol_inventory_exact:
  "let lines = splitlines listing; s = symbol_inventory listing in
    set (sy_defined s) = names_of_kind defining lines \<and>
    set (sy_required s) = names_of_kind (\<lambda>k. k = CHR ''U'') lines - names_of_kind defining lines \<and>
    set (sy_optional s) = names_of_kind (\<lambda>k. k = CHR ''w'' \<or> k = CHR ''v'') lines - names_of_kind defining lines \<and>
    strictly_sorted (sy_defined s) \<and> strictly_sorted (sy_required s) \<and> strictly_sorted (sy_optional s)"
  using symbol_lines_sets [of "\<lparr>sy_defined = [], sy_required = [], sy_optional = []\<rparr>" "splitlines listing"]
    symbol_lines_distinct [of "\<lparr>sy_defined = [], sy_required = [], sy_optional = []\<rparr>" "splitlines listing"]
  by (auto simp: symbol_inventory_def Let_def strictly_sorted_def)

section \<open>The report covers every unit\<close>

definition within_boundary :: "object_code \<Rightarrow> bool" where
  "within_boundary oc \<longleftrightarrow> clean_counts (oc_counts oc) \<and>
     map_option (\<lambda>n. 4 * int n) (map_of (oc_counts oc) ''instruction_count'') = Some (oc_executable_bytes oc)"

lemma verify_object_code_boundary: "verify_object_code fs p disassembly = Inr oc \<Longrightarrow> within_boundary oc"
  by (auto simp: verify_object_code_def Let_def res_simps within_boundary_def dict_get_def of_option_def split: option.splits)

lemma checked_object_boundary: "checked_object exec objdump obj listing fs = Inr (fs', oc) \<Longrightarrow> within_boundary oc"
  by (auto simp: checked_object_def res_simps intro: verify_object_code_boundary)

interpretation compiled_units: recording_loop "compile_unit std exec graph cxx objdump flags include_flags out" snd
  "\<lambda>(library, name, source, obj) us. map cu_object us = [join_with ''/'' (drop (length out) obj)] \<and>
     list_all (\<lambda>u. within_boundary (cu_boundary u)) us" for std exec graph cxx objdump flags include_flags out
  by unfold_locales
    (auto simp: compile_unit_def Let_def bind_res_Inr_iff split_paired_all intro: checked_object_boundary)

definition job_object :: "path \<Rightarrow> unit_job \<Rightarrow> string" where
  "job_object out job = (case job of (library, name, source, obj) \<Rightarrow> join_with ''/'' (drop (length out) obj))"

lemma compiled_units_covered:
  assumes "foldM (compile_unit std exec graph cxx objdump flags include_flags out) (fs, []) jobs = Inr (fs', us)"
  shows "map cu_object us = map (job_object out) jobs \<and> list_all (\<lambda>u. within_boundary (cu_boundary u)) us"
  using compiled_units.loop_records_keys [OF assms, of cu_object "\<lambda>j. [job_object out j]"]
    compiled_units.loop_records_each [OF assms, of "\<lambda>u. within_boundary (cu_boundary u)"]
  by (auto simp: job_object_def)

lemma make_archive_record: "make_archive std exec ar out jobs st l = Inr st' \<Longrightarrow> \<exists>sha. snd st' = dict_set (snd st) (l @ ''.a'') sha"
  by (auto simp: make_archive_def Let_def res_simps)

lemma archives_covered:
  assumes "foldM (make_archive std exec ar out jobs) (fs, archives) libraries = Inr (fs', archives')"
  shows "set (dict_keys archives') = set (dict_keys archives) \<union> (\<lambda>l. l @ ''.a'') ` set libraries"
  using assms
proof (induction libraries arbitrary: fs archives)
  case (Cons l libraries)
  obtain fs1 d where u: "make_archive std exec ar out jobs (fs, archives) l = Inr (fs1, d)" "foldM (make_archive std exec ar out jobs) (fs1, d) libraries = Inr (fs', archives')"
    using Cons.prems by (auto simp: bind_res_Inr_iff)
  then obtain sha where "d = dict_set archives (l @ ''.a'') sha" using make_archive_record by fastforce
  then show ?case using Cons.IH [OF u(2)] by (simp only: dict_keys_set list.set image_insert Un_insert_left Un_insert_right)
qed simp


text \<open>One unit whose object is a header and one executable section of one instruction.\<close>

definition nb_object :: bytes where
  "nb_object = [0x7f, 0x45, 0x4c, 0x46, 2, 1, 1] @ replicate 9 0 @ [1, 0, 183, 0, 1, 0, 0, 0] @ replicate 16 0 @ [64] @ replicate 17 0 @ [64, 0, 1, 0, 0, 0] @
     replicate 4 0 @ [1, 0, 0, 0, 4] @ replicate 23 0 @ [4] @ replicate 31 0"

definition nb_fs :: fs where
  "nb_fs = [([''o''], Dir), ([''o'', ''s''], Dir), ([''o'', ''s'', ''u.o''], File nb_object None), ([''o'', ''s'', ''u.asm''], File (encode_utf8 k_listing) None),
     ([''o'', ''s'', ''u.log''], File [] None), ([''o'', ''l-archive.log''], File [] None), ([''o'', ''l-members.log''], File (encode_utf8 ''u.o'') None),
     ([''o'', ''symbols.log''], File [] None), ([''o'', ''symbols.json''], File [10] None), ([''o'', ''l.a''], File [] None)]"

lemma nb_code: "is_ok (verify_object_code nb_fs [''o'', ''s'', ''u.o''] k_listing)"
  by code_simp


definition nb_exec :: tool where
  "nb_exec words fs =
     \<lparr>status = 0, out_bytes = (if length words = 5 then encode_utf8 k_listing else if length words = 3 then encode_utf8 ''u.o'' else []), err_bytes = [],
      after_fs = (if length words = 4 then dict_set fs [''o'', ''l.a''] (File [] None) else fs)\<rparr>"

definition nb_std :: std where
  "nb_std = \<lparr>std_sha = (\<lambda>_. ''h''), std_loads = (\<lambda>_. None), std_dumps = (\<lambda>_. [])\<rparr>"

definition nb_graph :: library_graph where
  "nb_graph = \<lparr>gr_target = [], gr_cpp_standard = [], gr_includes = [],
     gr_libraries = [(''l'', \<lparr>lb_source = [], lb_units = [''u''], lb_generated = False, lb_unit_flags = [], lb_compiler_tls = []\<rparr>)]\<rparr>"

definition nb_jobs :: "unit_job list" where
  "nb_jobs = [(''l'', ''u'', [''u''], [''o'', ''s'', ''u.o''])]"

lemma nb_libraries: "is_ok (build_libraries nb_std nb_exec nb_graph [''-O1'', ''-g''] [] [''o''] [''t''] [] nb_jobs nb_fs)"
  by code_simp


end
