(* ===== verification/Environment.thy ===== *)
theory Environment
  imports Py_FS
begin

text \<open>
  The configurable build environment, \<^verbatim>\<open>src/scripts/environment.py\<close>: an environment is a
  dictionary of strings in insertion order, the directories it names are made in the file system,
  and the \<^verbatim>\<open>sh\<close> output quotes every value.  The repository root, the working directory and the
  expansion of a leading tilde come from outside.
\<close>

type_synonym env = "(string \<times> string) list"

record env_host =
  eh_root :: path
  eh_cwd :: path
  eh_expand :: "string \<Rightarrow> string"

definition path_str :: "path \<Rightarrow> string" where
  "path_str p = ''/'' @ join_with ''/'' p"

definition dict_default :: "('k \<times> 'v) list \<Rightarrow> 'k \<Rightarrow> 'v \<Rightarrow> ('k \<times> 'v) list" where
  "dict_default d k v = (if map_of d k = None then d @ [(k, v)] else d)"

definition set_all :: "env \<Rightarrow> string list \<Rightarrow> string \<Rightarrow> env" where
  "set_all env keys v = foldl (\<lambda>e k. dict_set e k v) env keys"

definition defaults :: "env \<Rightarrow> path \<Rightarrow> (string \<times> string) list \<Rightarrow> env" where
  "defaults env d table = foldl (\<lambda>e (k, sub). dict_default e k (path_str (d @ [sub]))) env table"

definition directory :: "env_host \<Rightarrow> fs \<Rightarrow> env \<Rightarrow> string \<Rightarrow> string \<Rightarrow> ('m, fs \<times> env \<times> path) res" where
  "directory h fs env key sub =
     (let raw = eh_expand h (case map_of env key of None \<Rightarrow> path_str (eh_root h @ [sub]) | Some v \<Rightarrow> v);
          p = (if pure_absolute raw then rel_parts raw else eh_cwd h @ rel_parts raw) in
      bind_res (resolve fs p) (\<lambda>real.
      bind_res (mkdir_parents fs real) (\<lambda>fs1.
      Inr (fs1, dict_set env key (path_str real), real))))"

definition CACHE_KEYS :: "(string \<times> string) list" where
  "CACHE_KEYS =
    [(''XDG_CACHE_HOME'', ''cache''), (''PIP_CACHE_DIR'', ''pip''), (''PYTHONPYCACHEPREFIX'', ''python-pycache''),
     (''PYTHONUSERBASE'', ''python-user''), (''npm_config_cache'', ''npm-cache''), (''CARGO_HOME'', ''cargo''),
     (''RUSTUP_HOME'', ''rustup''), (''GRADLE_USER_HOME'', ''gradle''), (''MAVEN_USER_HOME'', ''maven''),
     (''ANDROID_USER_HOME'', ''android-user''), (''ANDROID_AVD_HOME'', ''android-avd''), (''CCACHE_DIR'', ''ccache''),
     (''SCCACHE_DIR'', ''sccache''), (''NUGET_PACKAGES'', ''nuget''), (''UV_CACHE_DIR'', ''uv-cache''),
     (''UV_PYTHON_INSTALL_DIR'', ''uv-python''), (''HOMEBREW_CACHE'', ''homebrew-cache''), (''HOMEBREW_LOGS'', ''homebrew-logs''),
     (''GOCACHE'', ''go-cache''), (''GOMODCACHE'', ''go-mod''), (''CLANG_MODULE_CACHE_PATH'', ''clang-modules''),
     (''SWIFT_MODULECACHE_PATH'', ''swift-modules'')]"

definition HOME_KEYS :: "(string \<times> string) list" where
  "HOME_KEYS =
    [(''APPDATA'', ''appdata''), (''LOCALAPPDATA'', ''localappdata''), (''XDG_CONFIG_HOME'', ''config''),
     (''XDG_DATA_HOME'', ''data''), (''XDG_STATE_HOME'', ''state'')]"

text \<open>The values that a child gets by default, and those it always gets.\<close>

definition add_defaults :: "env \<Rightarrow> path \<Rightarrow> path \<Rightarrow> env" where
  "add_defaults env cache scratch =
     (let env1 = defaults env cache CACHE_KEYS;
          set_or = (\<lambda>key other. case map_of env1 key of Some (c # s) \<Rightarrow> c # s | _ \<Rightarrow> other);
          sdk = set_or ''ANDROID_HOME'' (set_or ''ANDROID_SDK_ROOT'' (path_str (cache @ [''android-sdk''])));
          env2 = dict_default (dict_default env1 ''ANDROID_HOME'' sdk) ''ANDROID_SDK_ROOT'' sdk;
          env3 = dict_default env2 ''HOMEBREW_TEMP'' (path_str scratch) in
      dict_default env3 ''LLVM_PROFILE_FILE'' (path_str (scratch @ [''coverage-%p.profraw''])))"

definition add_fixed :: "env \<Rightarrow> env" where
  "add_fixed env =
     dict_set (dict_set (dict_set env ''PYTHONDONTWRITEBYTECODE'' ''1'') ''CMAKE_EXPORT_NO_PACKAGE_REGISTRY'' ''ON'')
       ''CMAKE_EXPORT_PACKAGE_REGISTRY'' ''OFF''"

definition isolate_home :: "fs \<Rightarrow> env \<Rightarrow> path \<Rightarrow> ('m, fs \<times> env) res" where
  "isolate_home fs env cache =
     (if map_of env ''ARTBOX_ISOLATE_HOME'' = Some ''1'' then
        bind_res (mkdir_one fs (cache @ [''home''])) (\<lambda>fs1.
        let env1 = set_all env [''HOME'', ''USERPROFILE'', ''CFFIXED_USER_HOME''] (path_str (cache @ [''home''])) in
        Inr (fs1, foldl (\<lambda>e (k, sub). dict_set e k (path_str (cache @ [sub]))) env1 HOME_KEYS))
      else Inr (fs, env))"

definition environment :: "env_host \<Rightarrow> fs \<Rightarrow> env \<Rightarrow> ('m, fs \<times> env) res" where
  "environment h fs env =
     bind_res (directory h fs (dict_set env ''ARTBOX_ROOT'' (path_str (eh_root h))) ''ARTBOX_CACHE_DIR'' ''.env'') (\<lambda>(fs1, env1, cache).
     bind_res (directory h fs1 env1 ''ARTBOX_TEMP_DIR'' ''.tmp'') (\<lambda>(fs2, env2, scratch).
     bind_res (directory h fs2 env2 ''ARTBOX_BUILD_DIR'' ''build'') (\<lambda>(fs3, env3, _).
     bind_res (directory h fs3 env3 ''ARTBOX_ARTIFACTS_DIR'' ''artifacts'') (\<lambda>(fs4, env4, _).
     isolate_home fs4 (add_fixed (add_defaults (set_all env4 [''TEMP'', ''TMP'', ''TMPDIR''] (path_str scratch)) cache scratch)) cache))))"

text \<open>\<^verbatim>\<open>shlex.quote\<close> and the lines \<^verbatim>\<open>main\<close> prints in the \<^verbatim>\<open>sh\<close> format.\<close>

definition shell_safe :: "char \<Rightarrow> bool" where
  "shell_safe c \<longleftrightarrow> c \<in> set ''ABCDEFGHIJKLMNOPQRSTUVWXYZabcdefghijklmnopqrstuvwxyz0123456789_@%+=:,./-''"

definition QUOTE :: char where "QUOTE = CHR 0x27"
definition DQUOTE :: char where "DQUOTE = CHR 0x22"

definition shlex_quote :: "string \<Rightarrow> string" where
  "shlex_quote s =
     (if s = [] then [QUOTE, QUOTE]
      else if list_all shell_safe s then s
      else [QUOTE] @ concat (map (\<lambda>c. if c = QUOTE then [QUOTE, DQUOTE, QUOTE, DQUOTE, QUOTE] else [c]) s) @ [QUOTE])"

definition changed :: "env \<Rightarrow> env \<Rightarrow> env" where
  "changed old configured = filter (\<lambda>(k, v). map_of old k \<noteq> Some v) configured"

definition export_line :: "string \<times> string \<Rightarrow> string" where
  "export_line x = ''export '' @ fst x @ ''='' @ shlex_quote (snd x)"

definition sh_output :: "env \<Rightarrow> env \<Rightarrow> string" where
  "sh_output old configured = join_with [CHR 0x0A] (map export_line (changed old configured))"

section \<open>Settings of the user are kept\<close>

definition FORCED :: "string list" where
  "FORCED = [''ARTBOX_ROOT'', ''ARTBOX_CACHE_DIR'', ''ARTBOX_TEMP_DIR'', ''ARTBOX_BUILD_DIR'', ''ARTBOX_ARTIFACTS_DIR'',
     ''TEMP'', ''TMP'', ''TMPDIR'', ''PYTHONDONTWRITEBYTECODE'', ''CMAKE_EXPORT_NO_PACKAGE_REGISTRY'', ''CMAKE_EXPORT_PACKAGE_REGISTRY'']"

definition ISOLATED :: "string list" where
  "ISOLATED = [''HOME'', ''USERPROFILE'', ''CFFIXED_USER_HOME''] @ dict_keys HOME_KEYS"

definition DEFAULTED :: "string list" where
  "DEFAULTED = dict_keys CACHE_KEYS @ [''ANDROID_HOME'', ''ANDROID_SDK_ROOT'', ''HOMEBREW_TEMP'', ''LLVM_PROFILE_FILE'']"

lemma map_of_dict_default: "map_of (dict_default d k v) = (if map_of d k = None then (map_of d)(k \<mapsto> v) else map_of d)"
  by (auto simp: dict_default_def map_add_def fun_eq_iff split: option.split)

text \<open>\<open>extends K d d'\<close>: \<open>d'\<close> keeps every binding of \<open>d\<close>, binds all of \<open>K\<close> and nothing else.\<close>

definition extends :: "'k set \<Rightarrow> ('k \<times> 'v) list \<Rightarrow> ('k \<times> 'v) list \<Rightarrow> bool" where
  "extends K d d' \<longleftrightarrow> (\<forall>k. map_of d k \<noteq> None \<longrightarrow> map_of d' k = map_of d k) \<and> (\<forall>k \<in> K. map_of d' k \<noteq> None) \<and>
     (\<forall>k. k \<notin> K \<longrightarrow> map_of d' k = map_of d k)"

lemma extends_default: "extends {k} d (dict_default d k v)"
  by (auto simp: extends_def map_of_dict_default)

lemma extends_trans: "extends K d d1 \<Longrightarrow> extends L d1 d2 \<Longrightarrow> extends (K \<union> L) d d2"
  unfolding extends_def by (metis Un_iff)

lemma extends_defaults: "extends (set (dict_keys t)) env (defaults env d t)"
proof (induction t arbitrary: env)
  case Nil
  then show ?case by (simp add: extends_def defaults_def)
next
  case (Cons x t)
  have "extends ({fst x} \<union> set (dict_keys t)) env (defaults (dict_default env (fst x) (path_str (d @ [snd x]))) d t)"
    by (rule extends_trans [OF extends_default Cons.IH])
  then show ?case by (simp add: defaults_def case_prod_unfold)
qed

lemma extends_add_defaults: "extends (set DEFAULTED) env (add_defaults env cache scratch)"
proof -
  have "extends ((((set (dict_keys CACHE_KEYS) \<union> {''ANDROID_HOME''}) \<union> {''ANDROID_SDK_ROOT''}) \<union> {''HOMEBREW_TEMP''}) \<union> {''LLVM_PROFILE_FILE''})
      env (add_defaults env cache scratch)"
    unfolding add_defaults_def Let_def by (rule extends_trans [OF extends_trans [OF extends_trans [OF extends_trans
      [OF extends_defaults extends_default] extends_default] extends_default] extends_default])
  moreover have "((((set (dict_keys CACHE_KEYS) \<union> {''ANDROID_HOME''}) \<union> {''ANDROID_SDK_ROOT''}) \<union> {''HOMEBREW_TEMP''}) \<union> {''LLVM_PROFILE_FILE''}) =
      set DEFAULTED"
    unfolding DEFAULTED_def set_append by auto
  ultimately show ?thesis by simp
qed

lemma map_of_set_all: "map_of (set_all env ks v) k = (if k \<in> set ks then Some v else map_of env k)"
  unfolding set_all_def by (induction ks arbitrary: env) auto

lemma map_of_isolated:
  "k \<notin> set (dict_keys t) \<Longrightarrow> map_of (foldl (\<lambda>e (k, sub). dict_set e k (f sub)) env t) k = map_of env k"
  by (induction t arbitrary: env) auto

lemma directory_env:
  assumes "directory h fs env key sub = Inr (fs', env', p)"
  shows "map_of env' = (map_of env)(key \<mapsto> path_str p)"
  using assms by (auto simp: directory_def Let_def bind_res_Inr_iff)

lemma environment_keeps:
  assumes "environment h fs env = (Inr (fs', env') :: ('m, fs \<times> env) res)"
  shows "(\<forall>k v. k \<notin> set FORCED \<and> (map_of env ''ARTBOX_ISOLATE_HOME'' = Some ''1'' \<longrightarrow> k \<notin> set ISOLATED) \<and> map_of env k = Some v \<longrightarrow>
       map_of env' k = Some v) \<and>
    (\<forall>k. k \<notin> set FORCED \<and> k \<notin> set ISOLATED \<and> k \<notin> set DEFAULTED \<longrightarrow> map_of env' k = map_of env k) \<and>
    (\<forall>k \<in> set FORCED \<union> set DEFAULTED. map_of env' k \<noteq> None) \<and>
    map_of env' ''ARTBOX_ROOT'' = Some (path_str (eh_root h)) \<and>
    map_of env' ''TMPDIR'' = map_of env' ''ARTBOX_TEMP_DIR'' \<and> map_of env' ''PYTHONDONTWRITEBYTECODE'' = Some ''1''"
proof -
  obtain fs1 env1 cache fs2 env2 scratch fs3 env3 b fs4 env4 a where
    d: "directory h fs (dict_set env ''ARTBOX_ROOT'' (path_str (eh_root h))) ''ARTBOX_CACHE_DIR'' ''.env'' = (Inr (fs1, env1, cache) :: ('m, fs \<times> env \<times> path) res)"
      "directory h fs1 env1 ''ARTBOX_TEMP_DIR'' ''.tmp'' = (Inr (fs2, env2, scratch) :: ('m, fs \<times> env \<times> path) res)"
      "directory h fs2 env2 ''ARTBOX_BUILD_DIR'' ''build'' = (Inr (fs3, env3, b) :: ('m, fs \<times> env \<times> path) res)"
      "directory h fs3 env3 ''ARTBOX_ARTIFACTS_DIR'' ''artifacts'' = (Inr (fs4, env4, a) :: ('m, fs \<times> env \<times> path) res)"
    and iso: "isolate_home fs4 (add_fixed (add_defaults (set_all env4 [''TEMP'', ''TMP'', ''TMPDIR''] (path_str scratch)) cache scratch)) cache =
      (Inr (fs', env') :: ('m, fs \<times> env) res)"
    using assms by (auto simp: environment_def bind_res_Inr_iff split: prod.splits)
  define e5 where "e5 = set_all env4 [''TEMP'', ''TMP'', ''TMPDIR''] (path_str scratch)"
  define e6 where "e6 = add_defaults e5 cache scratch"
  have ext: "extends (set DEFAULTED) e5 e6" unfolding e6_def by (rule extends_add_defaults)
  have m5: "map_of e5 = (\<lambda>k. if k \<in> {''TEMP'', ''TMP'', ''TMPDIR''} then Some (path_str scratch) else
      ((map_of env)(''ARTBOX_ROOT'' \<mapsto> path_str (eh_root h), ''ARTBOX_CACHE_DIR'' \<mapsto> path_str cache,
        ''ARTBOX_TEMP_DIR'' \<mapsto> path_str scratch, ''ARTBOX_BUILD_DIR'' \<mapsto> path_str b, ''ARTBOX_ARTIFACTS_DIR'' \<mapsto> path_str a)) k)"
    unfolding e5_def fun_eq_iff map_of_set_all using d [THEN directory_env] by simp
  define e7 where "e7 = add_fixed e6"
  have m7: "map_of e7 = (map_of e6)(''PYTHONDONTWRITEBYTECODE'' \<mapsto> ''1'', ''CMAKE_EXPORT_NO_PACKAGE_REGISTRY'' \<mapsto> ''ON'',
      ''CMAKE_EXPORT_PACKAGE_REGISTRY'' \<mapsto> ''OFF'')" by (simp add: e7_def add_fixed_def)
  have e5: "map_of e5 k = map_of env k" if "k \<notin> set FORCED" for k using that unfolding m5 FORCED_def by auto
  have e7: "map_of e7 k = map_of e6 k" if "k \<notin> set FORCED" for k using that unfolding m7 FORCED_def by auto
  have apart: "set ISOLATED \<inter> (set FORCED \<union> set DEFAULTED) = {}" "set FORCED \<inter> set DEFAULTED = {}"
    "''ARTBOX_ISOLATE_HOME'' \<notin> set FORCED \<union> set DEFAULTED" by code_simp+
  have "map_of e7 ''ARTBOX_ISOLATE_HOME'' = map_of env ''ARTBOX_ISOLATE_HOME''"
    using ext e5 e7 apart(3) unfolding extends_def by (metis Un_iff)
  then have env': "map_of env' k = map_of e7 k" if "map_of env ''ARTBOX_ISOLATE_HOME'' = Some ''1'' \<longrightarrow> k \<notin> set ISOLATED" for k
    using iso that unfolding e5_def [symmetric] e6_def [symmetric] e7_def [symmetric]
    by (auto simp: isolate_home_def Let_def bind_res_Inr_iff ISOLATED_def map_of_isolated map_of_set_all split: if_splits)
  have forced: "map_of env' k = map_of e7 k" if "k \<in> set FORCED \<union> set DEFAULTED" for k using env' that apart(1) by blast
  have e6: "map_of e6 k = Some v" if "map_of e5 k = Some v" for k v using ext that unfolding extends_def by (metis option.distinct(1))
  have fixed: "\<forall>k \<in> set FORCED. map_of e7 k \<noteq> None"
    unfolding FORCED_def by (simp add: m7 e6 m5)
  have "map_of env' k = Some v" if "k \<notin> set FORCED" "map_of env ''ARTBOX_ISOLATE_HOME'' = Some ''1'' \<longrightarrow> k \<notin> set ISOLATED"
      "map_of env k = Some v" for k v
    using env' [OF that(2)] e5 [OF that(1)] e7 [OF that(1)] ext that(3) unfolding extends_def by (metis option.distinct(1))
  moreover have "map_of env' k = map_of env k" if "k \<notin> set FORCED" "k \<notin> set ISOLATED" "k \<notin> set DEFAULTED" for k
    using env' [of k] e5 e7 ext that unfolding extends_def by simp
  moreover have "map_of env' k \<noteq> None" if "k \<in> set FORCED \<union> set DEFAULTED" for k
  proof (cases "k \<in> set DEFAULTED")
    case True
    then show ?thesis using forced [OF that] e7 ext apart(2) unfolding extends_def by (metis disjoint_iff)
  next
    case False
    then have "k \<in> set FORCED" using that by blast
    then show ?thesis using forced [OF that] fixed by simp
  qed
  moreover have "map_of env' ''ARTBOX_ROOT'' = Some (path_str (eh_root h))" "map_of env' ''TMPDIR'' = map_of env' ''ARTBOX_TEMP_DIR''"
    "map_of env' ''PYTHONDONTWRITEBYTECODE'' = Some ''1''"
    using forced [of "''ARTBOX_ROOT''"] forced [of "''TMPDIR''"] forced [of "''ARTBOX_TEMP_DIR''"] forced [of "''PYTHONDONTWRITEBYTECODE''"]
    by (simp_all add: FORCED_def m7 e6 m5)
  ultimately show ?thesis by blast
qed

section \<open>Quoting for the shell\<close>

text \<open>The value a POSIX shell reads from a word made of safe characters and quoted parts.\<close>

datatype sh_mode = Plain | Single | Double

fun sh_read :: "sh_mode \<Rightarrow> string \<Rightarrow> string option" where
  "sh_read Plain [] = Some []"
| "sh_read Plain (c # cs) =
     (if c = QUOTE then sh_read Single cs
      else if c = DQUOTE then sh_read Double cs
      else if shell_safe c then map_option ((#) c) (sh_read Plain cs)
      else None)"
| "sh_read Single [] = None"
| "sh_read Single (c # cs) = (if c = QUOTE then sh_read Plain cs else map_option ((#) c) (sh_read Single cs))"
| "sh_read Double [] = None"
| "sh_read Double (c # cs) =
     (if c = DQUOTE then sh_read Plain cs
      else if c \<in> set ''$`'' \<or> c = BACKSLASH then None
      else map_option ((#) c) (sh_read Double cs))"

lemma sh_read_safe: "list_all shell_safe s \<Longrightarrow> sh_read Plain s = Some s"
  by (induction s) (auto simp: QUOTE_def DQUOTE_def shell_safe_def)

lemma sh_read_single:
  "sh_read Single (concat (map (\<lambda>c. if c = QUOTE then [QUOTE, DQUOTE, QUOTE, DQUOTE, QUOTE] else [c]) s) @ [QUOTE]) = Some s"
  by (induction s) (auto simp: QUOTE_def DQUOTE_def BACKSLASH_def)


section \<open>A concrete environment\<close>

definition v_host :: env_host where
  "v_host = \<lparr>eh_root = [''r''], eh_cwd = [''w''], eh_expand = id\<rparr>"

definition v_env :: env where
  "v_env = [(''PATH'', ''/bin''), (''CARGO_HOME'', ''/mine''), (''ARTBOX_ISOLATE_HOME'', ''1''), (''HOME'', ''/home/me'')]"

definition v_fs :: fs where
  "v_fs = [([''r''], Dir), ([''r'', ''.env''], Dir), ([''r'', ''.tmp''], Dir), ([''r'', ''build''], Dir), ([''r'', ''artifacts''], Dir)]"

lemma v_isolate: "is_ok (isolate_home v_fs env [''r'', ''.env''] :: (unit, fs \<times> env) res)"
proof -
  have "is_ok (mkdir_one v_fs [''r'', ''.env'', ''home''] :: (unit, fs) res)" by code_simp
  then show ?thesis by (auto simp: isolate_home_def Let_def is_ok_iff)
qed

lemma v_directory:
  assumes "map_of env key = None"
    and "(mkdir_parents fs [''r'', sub] :: (unit, fs) res) = Inr fs'" and "rel_parts (''/r/'' @ sub) = [''r'', sub]"
    and "walk False fs LINKS [] [''r'', sub] = Some [''r'', sub]"
  shows "(directory v_host fs env key sub :: (unit, fs \<times> env \<times> path) res) = Inr (fs', dict_set env key (''/r/'' @ sub), [''r'', sub])"
  using assms by (simp add: directory_def v_host_def path_str_def pure_absolute_def startswith_def resolve_def)

lemma v_ok: "is_ok (environment v_host [([''r''], Dir)] v_env :: (unit, fs \<times> env) res)"
proof -
  have m: "(mkdir_parents [([''r''], Dir)] [''r'', ''.env''] :: (unit, fs) res) = Inr (take 2 v_fs)"
    "(mkdir_parents (take 2 v_fs) [''r'', ''.tmp''] :: (unit, fs) res) = Inr (take 3 v_fs)"
    "(mkdir_parents (take 3 v_fs) [''r'', ''build''] :: (unit, fs) res) = Inr (take 4 v_fs)"
    "(mkdir_parents (take 4 v_fs) [''r'', ''artifacts''] :: (unit, fs) res) = Inr v_fs" by code_simp+
  have r: "rel_parts (''/r/'' @ sub) = [''r'', sub]" if "sub \<in> {''.env'', ''.tmp'', ''build'', ''artifacts''}" for sub
    using that by (auto simp: rel_parts_def SLASH_def)
  have w: "walk False [([''r''], Dir)] LINKS [] [''r'', ''.env''] = Some [''r'', ''.env'']"
    "walk False (take 2 v_fs) LINKS [] [''r'', ''.tmp''] = Some [''r'', ''.tmp'']"
    "walk False (take 3 v_fs) LINKS [] [''r'', ''build''] = Some [''r'', ''build'']"
    "walk False (take 4 v_fs) LINKS [] [''r'', ''artifacts''] = Some [''r'', ''artifacts'']" by code_simp+
  show ?thesis
    unfolding environment_def
    using v_isolate
    by (simp add: v_directory [OF _ m(1) r w(1)] v_directory [OF _ m(2) r w(2)] v_directory [OF _ m(3) r w(3)]
        v_directory [OF _ m(4) r w(4)] v_env_def)
qed

lemma environment_keeps_witness:
  "\<exists>fs' env'. environment v_host [([''r''], Dir)] v_env = (Inr (fs', env') :: (unit, fs \<times> env) res) \<and>
     map_of env' ''CARGO_HOME'' = Some ''/mine'' \<and> map_of env' ''PATH'' = Some ''/bin''"
proof -
  obtain fs' env' where r: "environment v_host [([''r''], Dir)] v_env = (Inr (fs', env') :: (unit, fs \<times> env) res)"
    using v_ok by (auto simp: is_ok_iff)
  have k: "''CARGO_HOME'' \<notin> set FORCED \<union> set ISOLATED" "''PATH'' \<notin> set FORCED \<union> set ISOLATED" by code_simp+
  have "map_of v_env ''CARGO_HOME'' = Some ''/mine''" "map_of v_env ''PATH'' = Some ''/bin''" by (simp_all add: v_env_def)
  then show ?thesis using r environment_keeps [OF r] k by blast
qed

end
