(* ===== verification/Tool_Commands.thy ===== *)
theory Tool_Commands
  imports Framework_Link Macho_Writer Environment
begin

text \<open>
  The two packing commands as programs: \<^verbatim>\<open>main\<close> of \<^verbatim>\<open>pack_elf.py\<close> and of \<^verbatim>\<open>wrap_dynamic.py\<close> with
  the files they read and write.  What they write is read back by the framework builders.
\<close>

section \<open>Writing several files\<close>

definition write_files :: "path \<Rightarrow> fs \<Rightarrow> (string \<times> bytes) list \<Rightarrow> ('m, fs) res" where
  "write_files d fs files = foldM (\<lambda>fs (name, data). write_bytes fs (d @ [name]) data) fs files"

definition plain_entries :: "fs \<Rightarrow> path \<Rightarrow> string list \<Rightarrow> bool" where
  "plain_entries fs d names \<longleftrightarrow> dirs fs d \<and> distinct names \<and> (\<forall>n \<in> set names. n \<noteq> ''..'' \<and> (\<forall>t. map_of fs (d @ [n]) \<noteq> Some (Link t)))"

lemma dirs_set_file: "dirs fs d \<Longrightarrow> dirs (dict_set fs (d @ [c]) n) d"
proof -
  have "take i d \<noteq> d @ [c]" for i by (auto dest: arg_cong [where f = length])
  then show "dirs fs d \<Longrightarrow> dirs (dict_set fs (d @ [c]) n) d" by (auto simp: dirs_def)
qed

lemma write_files_cases:
  assumes "write_files d fs files = (Inr fs' :: ('m, fs) res)" and "plain_entries fs d (map fst files)"
  shows "dirs fs' d \<and> (\<forall>q. (\<forall>n \<in> fst ` set files. q \<noteq> d @ [n]) \<longrightarrow> map_of fs' q = map_of fs q) \<and>
    (\<forall>(n, data) \<in> set files. \<exists>m. map_of fs' (d @ [n]) = Some (File data m))"
  using assms
proof (induction files arbitrary: fs)
  case Nil
  then show ?case by (simp add: write_files_def plain_entries_def)
next
  case (Cons x files)
  obtain n data where x: "x = (n, data)" by fastforce
  obtain fs1 where w: "write_bytes fs (d @ [n]) data = (Inr fs1 :: ('m, fs) res)" "write_files d fs1 files = (Inr fs' :: ('m, fs) res)"
    using Cons.prems(1) by (auto simp: write_files_def x bind_res_Inr_iff)
  have p: "dirs fs d" "n \<noteq> ''..''" "\<forall>t. map_of fs (d @ [n]) \<noteq> Some (Link t)" "n \<notin> fst ` set files"
    using Cons.prems(2) by (auto simp: plain_entries_def x)
  obtain m where m: "fs1 = dict_set fs (d @ [n]) (File data m)" using write_below_accepts [OF p(1-3) w(1)] by blast
  have "plain_entries fs1 d (map fst files)" using Cons.prems(2) p(1) by (auto simp: plain_entries_def m x dirs_set_file)
  note IH = Cons.IH [OF w(2) this]
  have "map_of fs' (d @ [n]) = Some (File data m)" using IH [THEN conjunct2, THEN conjunct1, rule_format, of "d @ [n]"] p(4) by (auto simp: m)
  then show ?case using IH by (auto simp: m x)
qed

lemma write_files_read:
  assumes "write_files d fs files = (Inr fs' :: ('m, fs) res)" and "plain_entries fs d (map fst files)" and "(n, data) \<in> set files"
  shows "read_bytes fs' (d @ [n]) = (Inr data :: ('k, bytes) res)"
proof -
  have "n \<noteq> ''..''" using assms(2,3) by (force simp: plain_entries_def)
  then show ?thesis using write_files_cases [OF assms(1,2)] assms(3) by (auto intro: read_below)
qed

section \<open>The static packer\<close>

definition pack_info_value :: "pack_info \<Rightarrow> json" where
  "pack_info_value i = JDict
     [(''input_sha256'', JStr (input_sha256 i)), (''platform'', JStr (info_platform i)), (''original_segment_bytes'', JInt (int (original_segment_bytes i))),
      (''text_bytes'', JInt (text_bytes i)), (''payload_bytes'', JInt (int (payload_bytes i))), (''svc_sites'', JInt (int (svc_sites_count i))),
      (''svc_offsets'', JList (map JInt (svc_offsets i))), (''entry_offset'', JInt (entry_offset i)),
      (''converted_unsigned_bytes'', JInt (int (converted_unsigned_bytes i))), (''packaging_ns'', JInt (packaging_ns i)),
      (''signature'', JStr ''unsigned build input; Apple signing is required before execution'')]"

definition pack_files :: "std \<Rightarrow> pack_output \<Rightarrow> (string \<times> bytes) list" where
  "pack_files std r =
     [(''payload.bin'', payload_bin r), (''converted.dylib'', converted_dylib r), (''wrapper.S'', encode_utf8 (wrapper_S r)),
      (''guest_image.h'', encode_utf8 (''#define ARTBOX_GUEST_IMAGE_SIZE '' @ show_nat (guest_image_size r) @ ''u'' @ [newline])),
      (''pack-info.json'', encode_utf8 (std_dumps std (pack_info_value (pack_info_json r)) @ [newline]))]"

definition pack_command :: "std \<Rightarrow> int \<Rightarrow> fs \<Rightarrow> path \<Rightarrow> path \<Rightarrow> string \<Rightarrow> (pack_msg, fs) res" where
  "pack_command std ns fs elf out platform =
     bind_res (read_bytes fs elf) (\<lambda>data.
     bind_res (pack_main (std_sha std) ns data platform) (\<lambda>r.
     bind_res (mkdir_parents fs out) (\<lambda>fs1.
     write_files out fs1 (pack_files std r))))"

section \<open>The shared-object wrapper\<close>

definition wrap_files :: "std \<Rightarrow> wrap_output \<Rightarrow> (string \<times> bytes) list" where
  "wrap_files std r =
     [(''image.rx'', image_rx r), (''image.rw'', image_rw r), (''layout.json'', encode_utf8 (std_dumps std (layout_value (layout_json r)) @ [newline])),
      (''wrapper.S'', encode_utf8 (wrapper_file r))]"

definition wrap_command :: "std \<Rightarrow> env_host \<Rightarrow> env \<Rightarrow> fs \<Rightarrow> path \<Rightarrow> path \<Rightarrow> (wrap_msg, fs) res" where
  "wrap_command std eh environ fs elf out =
     bind_res (environment eh fs environ) (\<lambda>(fs1, _).
     bind_res (read_bytes fs1 elf) (\<lambda>data.
     bind_res (wrap_main (std_sha std) data) (\<lambda>r.
     bind_res (mkdir_parents fs1 out) (\<lambda>fs2.
     write_files out fs2 (wrap_files std r)))))"

section \<open>What is read back\<close>

lemma mkdir_parents_dirs: "dirs fs d \<Longrightarrow> (mkdir_parents fs d :: ('m, fs) res) = Inr fs"
  using mkdir_parents_below [of fs d "[]"] by simp

text \<open>Setting up the environment only makes directories.\<close>

definition only_directories :: "fs \<Rightarrow> fs \<Rightarrow> bool" where
  "only_directories fs fs' \<longleftrightarrow> (\<forall>q. map_of fs' q = map_of fs q \<or> (map_of fs q = None \<and> map_of fs' q = Some Dir))"

lemma only_directories_trans: "only_directories a b \<Longrightarrow> only_directories b c \<Longrightarrow> only_directories a c"
  unfolding only_directories_def by (rule allI, drule spec, drule spec) auto

lemma mkdir_one_only: "mkdir_one fs p = (Inr fs' :: ('m, fs) res) \<Longrightarrow> only_directories fs fs'"
  by (auto simp: mkdir_one_def only_directories_def node_at_def res_simps split: if_splits option.splits)

lemma mkdir_parents_only:
  assumes "mkdir_parents fs p = (Inr fs' :: ('m, fs) res)"
  shows "only_directories fs fs'"
proof -
  have "only_directories fs fs" by (simp add: only_directories_def)
  then show ?thesis
    using assms unfolding mkdir_parents_def
    by - (rule foldM_invariant [where P = "only_directories fs"], assumption, assumption, blast intro: only_directories_trans mkdir_one_only)
qed

lemma directory_only: "directory h fs e key sub = (Inr (fs', e', p) :: ('m, fs \<times> env \<times> path) res) \<Longrightarrow> only_directories fs fs'"
  by (auto simp: directory_def Let_def bind_res_Inr_iff dest: mkdir_parents_only)

lemma isolate_home_only: "isolate_home fs e p = (Inr (fs', e') :: ('m, fs \<times> env) res) \<Longrightarrow> only_directories fs fs'"
  by (auto simp: isolate_home_def Let_def bind_res_Inr_iff dest: mkdir_one_only split: if_splits) (simp add: only_directories_def)

lemma environment_only:
  assumes "environment h fs e = (Inr (fs', e') :: ('m, fs \<times> env) res)"
  shows "only_directories fs fs'"
proof -
  obtain fs1 e1 a fs2 e2 b fs3 e3 c fs4 e4 d where
      "directory h fs (dict_set e ''ARTBOX_ROOT'' (path_str (eh_root h))) ''ARTBOX_CACHE_DIR'' ''.env'' = (Inr (fs1, e1, a) :: ('m, fs \<times> env \<times> path) res)"
      "directory h fs1 e1 ''ARTBOX_TEMP_DIR'' ''.tmp'' = (Inr (fs2, e2, b) :: ('m, fs \<times> env \<times> path) res)"
      "directory h fs2 e2 ''ARTBOX_BUILD_DIR'' ''build'' = (Inr (fs3, e3, c) :: ('m, fs \<times> env \<times> path) res)"
      "directory h fs3 e3 ''ARTBOX_ARTIFACTS_DIR'' ''artifacts'' = (Inr (fs4, e4, d) :: ('m, fs \<times> env \<times> path) res)"
      "isolate_home fs4 (add_fixed (add_defaults (set_all e4 [''TEMP'', ''TMP'', ''TMPDIR''] (path_str b)) a b)) a = (Inr (fs', e') :: ('m, fs \<times> env) res)"
    using assms by (auto simp: environment_def bind_res_Inr_iff)
  note steps = this
  show ?thesis
    using steps(1-4) [THEN directory_only] steps(5) [THEN isolate_home_only] by (blast intro: only_directories_trans)
qed

lemma plain_entries_kept: "plain_entries fs d names \<Longrightarrow> only_directories fs fs' \<Longrightarrow> plain_entries fs' d names"
  unfolding plain_entries_def dirs_def only_directories_def by (metis node.distinct(3) node.distinct(5) option.inject option.distinct(1))

text \<open>
  C38. What the wrapper command writes is what the framework builder reads: if the output is
  a real directory whose four entries are no links, the two image files hold exactly the two
  images of the shared object, and wherever JSON text is parsed back as printed the layout
  read from \<^verbatim>\<open>layout.json\<close> is the one computed from the ELF file.
  Nothing else changes but the directories made for the environment.
\<close>

theorem wrap_command_readback:
  assumes "wrap_command std eh environ fs elf out = Inr fs'" and "plain_entries fs out [''image.rx'', ''image.rw'', ''layout.json'', ''wrapper.S'']"
  shows "\<exists>fs1 data rx rw layout. read_bytes fs1 elf = (Inr data :: (wrap_msg, bytes) res) \<and> only_directories fs fs1 \<and>
    pack_layout (std_sha std) data = Inr (rx, rw, layout) \<and>
    read_bytes fs' (out @ [''image.rx'']) = (Inr rx :: (wrap_msg, bytes) res) \<and> read_bytes fs' (out @ [''image.rw'']) = (Inr rw :: (wrap_msg, bytes) res) \<and>
    (std_loads std (std_dumps std (layout_value layout) @ [newline]) = Some (layout_value layout) \<and> Overlay.ascii (std_dumps std (layout_value layout) @ [newline]) \<longrightarrow>
       bind_res (lift_msg Reading_json (load_json std fs' (out @ [''layout.json'']))) layout_of_value = Inr layout) \<and>
    (\<forall>q. q \<notin> (\<lambda>n. out @ [n]) ` {''image.rx'', ''image.rw'', ''layout.json'', ''wrapper.S''} \<longrightarrow> map_of fs' q = map_of fs1 q)"
proof -
  obtain fs1 e data r fs2 where c: "environment eh fs environ = (Inr (fs1, e) :: (wrap_msg, fs \<times> env) res)"
      "read_bytes fs1 elf = (Inr data :: (wrap_msg, bytes) res)" "wrap_main (std_sha std) data = Inr r"
      "mkdir_parents fs1 out = (Inr fs2 :: (wrap_msg, fs) res)" "write_files out fs2 (wrap_files std r) = (Inr fs' :: (wrap_msg, fs) res)"
    using assms(1) by (auto simp: wrap_command_def bind_res_Inr_iff)
  have made: "only_directories fs fs1" by (rule environment_only [OF c(1)])
  have plain: "plain_entries fs1 out (map fst (wrap_files std r))" using plain_entries_kept [OF assms(2) made] by (simp add: wrap_files_def)
  then have "dirs fs1 out" by (simp add: plain_entries_def)
  then have "fs2 = fs1" using c(4) by (simp add: mkdir_parents_dirs)
  then have w: "write_files out fs1 (wrap_files std r) = (Inr fs' :: (wrap_msg, fs) res)" using c(5) by simp
  obtain rx rw layout where l: "pack_layout (std_sha std) data = Inr (rx, rw, layout)"
      "r = \<lparr>image_rx = rx, image_rw = rw, layout_json = layout, wrapper_file = wrapper_asm\<rparr>"
    using c(3) by (auto simp: wrap_main_def res_simps)
  have img: "read_bytes fs' (out @ [''image.rx'']) = (Inr rx :: (wrap_msg, bytes) res)" "read_bytes fs' (out @ [''image.rw'']) = (Inr rw :: (wrap_msg, bytes) res)"
    by (rule write_files_read [OF w plain], simp add: wrap_files_def l(2))+
  have "read_bytes fs' (out @ [''layout.json'']) = (Inr (encode_utf8 (std_dumps std (layout_value layout) @ [newline])) :: (bundle_msg, bytes) res)"
    by (rule write_files_read [OF w plain]) (simp add: wrap_files_def l(2))
  then have "bind_res (lift_msg Reading_json (load_json std fs' (out @ [''layout.json'']))) layout_of_value = Inr layout"
    if "std_loads std (std_dumps std (layout_value layout) @ [newline]) = Some (layout_value layout)" "Overlay.ascii (std_dumps std (layout_value layout) @ [newline])"
    using that by (simp add: load_json_def decode_encode of_option_def lift_msg_def layout_roundtrip)
  moreover have "\<forall>q. q \<notin> (\<lambda>n. out @ [n]) ` {''image.rx'', ''image.rw'', ''layout.json'', ''wrapper.S''} \<longrightarrow> map_of fs' q = map_of fs1 q"
    using write_files_cases [OF w plain] by (simp add: wrap_files_def)
  ultimately show ?thesis using c(2) made l(1) img by blast
qed

text \<open>The sample shared object, wrapped into a directory that holds older outputs.\<close>

lemma directory_existing:
  assumes "map_of e key = Some v" and "eh_expand h v = v" and "pure_absolute v" and "dirs fs (rel_parts v)"
  shows "(directory h fs e key sub :: ('m, fs \<times> env \<times> path) res) = Inr (fs, dict_set e key (path_str (rel_parts v)), rel_parts v)"
  using assms by (simp add: directory_def resolve_dirs mkdir_parents_dirs)

definition z_env :: env where
  "z_env = map (\<lambda>k. (k, ''/o'')) [''ARTBOX_CACHE_DIR'', ''ARTBOX_TEMP_DIR'', ''ARTBOX_BUILD_DIR'', ''ARTBOX_ARTIFACTS_DIR'']"

definition z_fs :: fs where
  "z_fs = [([''o''], Dir), ([''o'', ''home''], Dir), ([''e''], File sample_so None)]"

lemma z_dirs: "dirs z_fs [''o'']" "dirs z_fs [''o'', ''home'']"
  using dirs_snoc [of z_fs "[]" "''o''"] dirs_snoc [of z_fs "[''o'']" "''home''"] by (simp_all add: z_fs_def)

lemma z_parts: "rel_parts ''/o'' = [''o'']" "pure_absolute ''/o''"
  by code_simp+

lemma z_environment: "\<exists>e. (environment v_host z_fs z_env :: (wrap_msg, fs \<times> env) res) = Inr (z_fs, e)"
proof -
  have d: "(directory v_host z_fs e key sub :: (wrap_msg, fs \<times> env \<times> path) res) = Inr (z_fs, dict_set e key ''/o'', [''o''])"
    if "map_of e key = Some ''/o''" for e key sub
    using directory_existing [of e key "''/o''" v_host z_fs sub] that z_parts z_dirs(1) by (simp add: v_host_def path_str_def)
  have i: "\<exists>e'. (isolate_home z_fs e [''o''] :: (wrap_msg, fs \<times> env) res) = Inr (z_fs, e')" for e
    using is_dir_dirs [OF z_dirs(2)] by (simp add: isolate_home_def mkdir_one_def)
  show ?thesis by (simp add: environment_def z_env_def d i)
qed

definition z_std :: "json \<Rightarrow> std" where
  "z_std v = \<lparr>std_sha = (\<lambda>_. []), std_loads = (\<lambda>_. Some v), std_dumps = (\<lambda>_. [])\<rparr>"

lemma z_plain: "plain_entries z_fs [''o''] [''image.rx'', ''image.rw'', ''layout.json'', ''wrapper.S'']"
  using z_dirs by (simp add: plain_entries_def z_fs_def)

lemma write_files_new:
  assumes "dirs fs d" and "distinct (map fst files)" and "\<forall>n \<in> fst ` set files. n \<noteq> ''..'' \<and> map_of fs (d @ [n]) = None"
  shows "\<exists>fs'. write_files d fs files = (Inr fs' :: ('m, fs) res)"
  using assms
proof (induction files arbitrary: fs)
  case (Cons x files)
  obtain n data where x: "x = (n, data)" by fastforce
  have "(write_bytes fs (d @ [n]) data :: ('m, fs) res) = Inr (dict_set fs (d @ [n]) (File data None))"
    using Cons.prems by (intro write_below(1)) (auto simp: x)
  moreover have "\<exists>fs'. write_files d (dict_set fs (d @ [n]) (File data None)) files = (Inr fs' :: ('m, fs) res)"
    using Cons.prems by (intro Cons.IH) (auto simp: x dirs_set_file)
  ultimately show ?case by (simp add: write_files_def x)
qed (simp add: write_files_def)

lemma z_wrap:
  assumes "pack_layout (\<lambda>_. []) sample_so = Inr (rx, rw, layout)"
  shows "\<exists>fs'. wrap_command (z_std v) v_host z_env z_fs [''e''] [''o''] = Inr fs'"
proof -
  obtain e where e: "(environment v_host z_fs z_env :: (wrap_msg, fs \<times> env) res) = Inr (z_fs, e)" using z_environment by blast
  have r: "(read_bytes z_fs [''e''] :: (wrap_msg, bytes) res) = Inr sample_so"
    using read_below [of z_fs "[]" "''e''"] by (simp add: z_fs_def)
  have w: "\<exists>fs'. write_files [''o''] z_fs (wrap_files (z_std v) x) = (Inr fs' :: (wrap_msg, fs) res)" for x
    by (rule write_files_new [OF z_dirs(1)]) (simp_all add: wrap_files_def z_fs_def)
  show ?thesis
    using w assms by (simp add: wrap_command_def e r wrap_main_def z_std_def so_length WRAP_LIMIT_def mkdir_parents_dirs [OF z_dirs(1)])
qed

theorem wrap_command_readback_witness:
  "\<exists>fs' rx rw layout. pack_layout (\<lambda>_. []) sample_so = Inr (rx, rw, layout) \<and>
     wrap_command (z_std (layout_value layout)) v_host z_env z_fs [''e''] [''o''] = Inr fs' \<and> read_bytes fs' [''o'', ''image.rx''] = (Inr rx :: (wrap_msg, bytes) res) \<and>
     bind_res (lift_msg Reading_json (load_json (z_std (layout_value layout)) fs' [''o'', ''layout.json''])) layout_of_value = Inr layout"
proof -
  obtain rx rw layout where p: "pack_layout (\<lambda>_. []) sample_so = Inr (rx, rw, layout)" using so_pack by blast
  let ?std = "z_std (layout_value layout)"
  obtain fs' where c: "wrap_command ?std v_host z_env z_fs [''e''] [''o''] = Inr fs'" using z_wrap [OF p] by blast
  obtain fs1 data rx' rw' layout' where r: "read_bytes fs1 [''e''] = (Inr data :: (wrap_msg, bytes) res)" "only_directories z_fs fs1"
      "pack_layout (std_sha ?std) data = Inr (rx', rw', layout')" "read_bytes fs' ([''o''] @ [''image.rx'']) = (Inr rx' :: (wrap_msg, bytes) res)"
      "std_loads ?std (std_dumps ?std (layout_value layout') @ [newline]) = Some (layout_value layout') \<and> Overlay.ascii (std_dumps ?std (layout_value layout') @ [newline]) \<longrightarrow>
       bind_res (lift_msg Reading_json (load_json ?std fs' ([''o''] @ [''layout.json'']))) layout_of_value = Inr layout'"
    using wrap_command_readback [OF c z_plain] by (elim exE conjE) (rule that; assumption)
  have "map_of fs1 [''e''] = Some (File sample_so None)" using r(2) [unfolded only_directories_def, rule_format, of "[''e'']"] by (simp add: z_fs_def)
  then have "data = sample_so" using r(1) read_below [of fs1 "[]" "''e''" sample_so None, where 'a = wrap_msg] by simp
  then have l: "rx' = rx" "layout' = layout" using r(3) p by (simp_all add: z_std_def)
  have "Overlay.ascii [newline]" by code_simp
  then show ?thesis using p c r(4,5) l by (auto simp: z_std_def)
qed

end
