(* ===== verification/Managed_Build.thy ===== *)
theory Managed_Build
  imports Classlib_Check Native_Build Tool_Commands
begin

text \<open>
  The Java side of the class library: \<^verbatim>\<open>build_art_classlib.py\<close> compiles the pinned sources to DEX files, and
  \<^verbatim>\<open>build_art_managed_fixture.py\<close> builds the managed checks and, in \<^verbatim>\<open>prepare_fixture\<close>, validates them before any
  of their code reaches the runtime.  What they take from outside is the record \<open>managed_kit\<close>.
\<close>

record managed_kit =
  mk_std :: std
  mk_host :: host
  mk_quote :: "string \<Rightarrow> string"
  mk_jdk :: jdk_host
  mk_jdk_manifest :: jdk_manifest
  mk_exec :: tool
  mk_zip :: "(string \<times> bytes) list \<Rightarrow> bytes"
  mk_open_zip :: "bytes \<Rightarrow> (string \<times> bytes) list option"
  mk_sha1 :: "bytes \<Rightarrow> bytes"
  mk_specs :: "(string \<times> source_spec) list"
  mk_spec_value :: "source_spec \<Rightarrow> json"
  mk_jdk_value :: "jdk_spec \<Rightarrow> json"
  mk_nt :: bool
  mk_pathsep :: string
  mk_tmp :: "fs \<Rightarrow> path \<Rightarrow> string"
  mk_which :: "string \<Rightarrow> string option"
  mk_root :: path
  mk_cwd :: path
  mk_environ :: "(string \<times> string) list"

datatype (plugins only: code) managed_msg =
    Managed_json bundle_msg
  | Managed_source src_msg
  | Managed_jdk jdk_msg
  | Managed_command string int
  | Flags_differ
  | Annotation_keys_differ
  | Invalid_envelope string
  | Bundle_changed
  | Fixture_provenance
  | Fixture_input_changed string
  | Payload_changed string
  | Envelope_differs
  | Invalid_claim
  | No_java_home
  | Java_missing
  | Not_jdk_17 string
  | Host_logic_failed
  | Dexer_diagnostic
  | Unexpected_dex
  | No_native_compiler
  | Constants_differ
  | Java_input_count
  | Class_absent string
  | Class_count
  | Dex_class_count
  | Arguments_out_of_range

section \<open>Commands, archives and envelopes\<close>

definition managed_run :: "tool \<Rightarrow> fs \<Rightarrow> string list \<Rightarrow> path \<Rightarrow> (managed_msg, fs \<times> string) res" where
  "managed_run exec fs words logfile =
     (let r = exec words fs in
      bind_res (decode_utf8 (out_bytes r)) (\<lambda>a.
      bind_res (decode_utf8 (err_bytes r)) (\<lambda>b.
      let printed = universal_newlines a in
      bind_res (write_bytes (after_fs r) logfile (encode_utf8 (printed @ universal_newlines b))) (\<lambda>fs1.
      require (status r = 0) (RuntimeError (Managed_command (last logfile) (status r))) (Inr (fs1, printed))))))"

definition lower_or_digit :: "char \<Rightarrow> bool" where
  "lower_or_digit c \<longleftrightarrow> CHR ''a'' \<le> c \<and> c \<le> CHR ''z'' \<or> digit_char c \<or> c = CHR ''_''"

definition package_pattern :: regex where
  "package_pattern = cats [Bol, lit ''package:'', Star (Cls space_char), lit [DQ], Grp 1 (Plus (Cls (\<lambda>c. lower_or_digit c \<or> c = CHR ''.''))), lit [DQ], Star (Cls space_char), Eol]"

definition flag_pattern :: regex where
  "flag_pattern = cats [Bol, Plus (Cls space_char), lit ''name:'', Star (Cls space_char), lit [DQ], Grp 1 (Plus (Cls lower_or_digit)), lit [DQ], Star (Cls space_char), Eol]"

definition flag_line :: "string \<times> string \<Rightarrow> string" where
  "flag_line x = ''    public static final String FLAG_'' @ map ascii_upper (fst x) @ '' = '' @ [DQ] @ snd x @ [DQ] @ '';'' @ [newline]"

record classlib_config =
  cg_scope :: string
  cg_icu_aconfig_sha256 :: string
  cg_icu_annotation_keys :: "(string \<times> string) list"
  cg_java_sources :: "string list"
  cg_build_sources :: "string list"
  cg_conscrypt_generator :: string
  cg_conscrypt_constants :: "(string \<times> string) list"
  cg_expected_java_inputs :: nat
  cg_required_classes :: "string list"
  cg_expected_class_files :: nat
  cg_android_min_api :: nat
  cg_expected_dex_classes :: int

definition str_dict :: "(string \<times> string) list \<Rightarrow> json" where
  "str_dict d = JDict (map (\<lambda>(k, v). (k, JStr v)) d)"

definition annotation_keys :: "std \<Rightarrow> bytes \<Rightarrow> classlib_config \<Rightarrow> (managed_msg, string) res" where
  "annotation_keys std aconfig config =
     require (std_sha std aconfig = cg_icu_aconfig_sha256 config) (RuntimeError Flags_differ)
    (bind_res (decode_utf8 aconfig) (\<lambda>s.
     let packages = findall_group package_pattern s; names = findall_group flag_pattern s in
     require (length packages = 1 \<and>
         py_eq (str_dict (dict_update [] (map (\<lambda>n. (n, packages ! 0 @ ''.'' @ n)) names))) (str_dict (cg_icu_annotation_keys config)))
       (RuntimeError Annotation_keys_differ)
      (Inr (''// ARTBox generated annotation keys from the pinned ICU aconfig declarations.'' @ [newline] @
         ''// No runtime flag accessor is supplied.'' @ [newline] @ ''package '' @ packages ! 0 @ '';'' @ [newline] @
         ''public final class Flags {'' @ [newline] @ concat (map flag_line (cg_icu_annotation_keys config)) @ ''    private Flags'' @ [CHR 0x28, CHR 0x29] @ '' {}'' @ [newline] @ ''}'' @ [newline]))))"

record dex_info =
  di_name :: string
  di_bytes :: int
  di_sha256 :: string
  di_classes :: int
  di_methods :: int

definition DEX_MAGIC :: bytes where
  "DEX_MAGIC = [0x64, 0x65, 0x78, 0x0A, 0x30, 0x33, 0x39, 0]"

definition header_word :: "bytes \<Rightarrow> int \<Rightarrow> ('m, int) res" where
  "header_word data off = bind_res (unpack_from [U32] data off) (\<lambda>v. Inr (num (v ! 0)))"

definition header_is :: "bytes \<Rightarrow> int \<Rightarrow> int \<Rightarrow> ('m, bool) res" where
  "header_is data off v = bind_res (header_word data off) (\<lambda>w. Inr (w = v))"

definition dex_envelope :: "managed_kit \<Rightarrow> string \<Rightarrow> bytes \<Rightarrow> (managed_msg, dex_info) res" where
  "dex_envelope kit name data =
     ensure (and_m (Inr (112 \<le> length data \<and> take 8 data = DEX_MAGIC)) (and_m (header_is data 32 (int (length data))) (and_m (header_is data 36 112)
         (and_m (header_is data 40 0x12345678) (and_m (Inr (mk_sha1 kit (drop 32 data) = py_slice data 12 32)) (header_is data 8 (adler32 (drop 12 data))))))))
       (RuntimeError (Invalid_envelope name))
      (bind_res (header_word data 96) (\<lambda>classes.
       bind_res (header_word data 88) (\<lambda>methods.
       Inr \<lparr>di_name = name, di_bytes = int (length data), di_sha256 = std_sha (mk_std kit) data, di_classes = classes, di_methods = methods\<rparr>)))"

definition envelope_value :: "dex_info \<Rightarrow> json" where
  "envelope_value d = JDict [(''name'', JStr (di_name d)), (''bytes'', JInt (di_bytes d)), (''sha256'', JStr (di_sha256 d)), (''classes'', JInt (di_classes d)),
     (''methods'', JInt (di_methods d)), (''version'', JStr ''039'')]"

definition write_zip :: "managed_kit \<Rightarrow> fs \<Rightarrow> path \<Rightarrow> (string \<times> path) list \<Rightarrow> (managed_msg, fs) res" where
  "write_zip kit fs p files =
     bind_res (mapM (\<lambda>(name, q). bind_res (read_bytes fs q) (\<lambda>data. Inr (name, data))) (sort_key fst files)) (\<lambda>members.
     write_bytes fs p (mk_zip kit members))"

section \<open>The Java environment\<close>

definition attempt_below :: "managed_kit \<Rightarrow> fs \<Rightarrow> path \<Rightarrow> (managed_msg, fs \<times> path) res" where
  "attempt_below kit fs folder =
     bind_res (mkdir_parents fs folder) (\<lambda>fs1.
     let p = folder @ [''attempt-'' @ mk_tmp kit fs1 folder] in
     bind_res (make_temporary fs1 p) (\<lambda>fs2. Inr (fs2, p)))"

definition environ_path :: "managed_kit \<Rightarrow> string \<Rightarrow> (managed_msg, path) res" where
  "environ_path kit key = bind_res (dict_get (mk_environ kit) key) (\<lambda>s. Inr (path_div (mk_cwd kit) s))"

fun first_set :: "(string \<times> string) list \<Rightarrow> string list \<Rightarrow> string option" where
  "first_set environ [] = None"
| "first_set environ (k # ks) = (case map_of environ k of Some v \<Rightarrow> if v = [] then first_set environ ks else Some v | None \<Rightarrow> first_set environ ks)"

definition choose_java ::
  "managed_kit \<Rightarrow> string list \<Rightarrow> bool \<Rightarrow> path option \<Rightarrow> fs \<Rightarrow> (managed_msg, fs \<times> path \<times> json) res"
where
  "choose_java kit keys fetch java_home fs =
     (if fetch then
        bind_res (environ_path kit ''ARTBOX_CACHE_DIR'') (\<lambda>cache.
        bind_res (lift_msg Managed_jdk (jdk_obtain (mk_jdk kit) (mk_jdk_manifest kit) fs cache)) (\<lambda>(fs1, home, spec). Inr (fs1, home, mk_jdk_value kit spec)))
      else case java_home of
        Some p \<Rightarrow> Inr (fs, p, JNull)
      | None \<Rightarrow> bind_res (of_option (RuntimeError No_java_home) (first_set (mk_environ kit) keys)) (\<lambda>s. Inr (fs, path_div (mk_cwd kit) s, JNull)))"

definition java_vm :: "managed_kit \<Rightarrow> nat \<Rightarrow> fs \<Rightarrow> path \<Rightarrow> (managed_msg, fs \<times> string list) res" where
  "java_vm kit heap fs attempt =
     bind_res (environ_path kit ''ARTBOX_CACHE_DIR'') (\<lambda>cache.
     let home = cache @ [''java-home''] in
     bind_res (mkdir_one fs home) (\<lambda>fs1.
     bind_res (dict_get (mk_environ kit) ''ARTBOX_TEMP_DIR'') (\<lambda>tmp.
     Inr (fs1, [''-Xmx'' @ show_nat heap @ ''m'', ''-XX:-UsePerfData'', ''-Dfile.encoding=UTF-8'', ''-Duser.home='' @ abs_str home, ''-Djava.io.tmpdir='' @ tmp,
       ''-XX:ErrorFile='' @ abs_str (attempt @ [''java-error-%p.log''])]))))"

definition JAVAC :: "string list" where
  "JAVAC = [''-m'', ''jdk.compiler/com.sun.tools.javac.Main'']"

definition jdk_17_pattern :: regex where
  "jdk_17_pattern = cats [lit ''javac 17'', Star (Cat (lit ''.'') (Plus (Cls digit_char))), Opt (Cat (one_of ''+-'') (Plus (Cls (\<lambda>c. \<not> space_char c))))]"

definition checked_javac :: "managed_kit \<Rightarrow> fs \<Rightarrow> string list \<Rightarrow> path \<Rightarrow> (managed_msg, fs \<times> string) res" where
  "checked_javac kit fs java attempt =
     bind_res (managed_run (mk_exec kit) fs (java @ JAVAC @ [''-version'']) (attempt @ [''javac-version.log''])) (\<lambda>(fs1, printed).
     let version = strip_space printed in
     require (fullmatch jdk_17_pattern version) (RuntimeError (Not_jdk_17 version)) (Inr (fs1, version)))"

section \<open>The managed checks\<close>

definition PROJECT_INPUTS :: "string list" where
  "PROJECT_INPUTS = [''LICENSE'', ''THIRD_PARTY.md'', ''docs/m3-managed-checks.md'', ''fixtures/art-runtime/RuntimeChecks.java'',
     ''fixtures/art-runtime/RuntimeChecksHost.java'', ''fixtures/art-runtime/managed_checks.cpp'', ''fixtures/art-runtime/linux_reference.cpp'',
     ''fixtures/art-runtime/record.h'', ''fixtures/art-runtime/record_guest.h'', ''scripts/build_art_managed_fixture.py'', ''scripts/build_art_classlib.py'',
     ''scripts/environment.py'', ''scripts/sources.py'', ''scripts/jdk.py'', ''third_party/jdk.json'', ''third_party/sources.json'']"

text \<open>The elements of \<^verbatim>\<open>set(value)\<close>; what is not a string is \<open>None\<close>.\<close>

definition iterated :: "json \<Rightarrow> ('m, string option list) res" where
  "iterated v =
     (case v of JDict d \<Rightarrow> Inr (map (\<lambda>(k, _). Some k) d)
      | JStr s \<Rightarrow> Inr (map (\<lambda>c. Some [c]) s)
      | JList xs \<Rightarrow> mapM (\<lambda>x. case x of JStr s \<Rightarrow> Inr (Some s) | JList _ \<Rightarrow> Inl TypeError | JDict _ \<Rightarrow> Inl TypeError | _ \<Rightarrow> Inr None) xs
      | _ \<Rightarrow> Inl TypeError)"

definition payload_ok :: "std \<Rightarrow> json \<Rightarrow> string \<times> bytes \<Rightarrow> (managed_msg, unit) res" where
  "payload_ok std report x =
     bind_res (bind_res (jget report ''artifacts'') (\<lambda>a. jget a (fst x))) (\<lambda>expected.
     ensure (and_m (field_eq expected ''bytes'' (JInt (int (length (snd x))))) (field_eq expected ''sha256'' (JStr (std_sha std (snd x)))))
       (RuntimeError (Payload_changed (fst x))) (Inr ()))"

definition prepare_fixture :: "managed_kit \<Rightarrow> fs \<Rightarrow> path \<Rightarrow> path \<Rightarrow> (managed_msg, fs \<times> path \<times> json) res" where
  "prepare_fixture kit fs folder out =
     (let std = mk_std kit; bundle = folder @ [''artbox-runtime-checks.zip'']; dex = out @ [''runtime-checks.dex''] in
      bind_res (lift_msg Managed_json (load_json std fs (folder @ [''result.json'']))) (\<lambda>result.
      ensure (bind_res (digest_of std fs bundle) (field_eq result ''bundle_sha256'')) (RuntimeError Bundle_changed)
     (bind_res (read_bytes fs bundle) (\<lambda>zipped.
      bind_res (of_option ZipError (mk_open_zip kit zipped)) (\<lambda>members.
      bind_res (dict_get members ''report.json'') (\<lambda>report_data.
      bind_res (decode_utf8 report_data) (\<lambda>s.
      bind_res (of_option (ValueError (Managed_json Invalid_json)) (std_loads std s)) (\<lambda>report.
      ensure (and_m (field_eq result ''report'' report)
          (bind_res (bind_res (jget report ''project_sources'') iterated) (\<lambda>names. Inr (set names = Some ` set PROJECT_INPUTS))))
        (RuntimeError Fixture_provenance)
     (bind_res (bind_res (jget report ''project_sources'') jitems) (\<lambda>items.
      bind_res (foldM (\<lambda>_ (name, expected). ensure (digest_is std fs (path_div (mk_root kit) name) expected) (RuntimeError (Fixture_input_changed name)) (Inr ())) () items) (\<lambda>_.
      bind_res (dict_get members ''runtime-checks.dex'') (\<lambda>data.
      bind_res (dict_get members ''corresponding-source.zip'') (\<lambda>source.
      bind_res (foldM (\<lambda>_. payload_ok std report) () [(''runtime-checks.dex'', data), (''corresponding-source.zip'', source)]) (\<lambda>_.
      bind_res (dex_envelope kit ''runtime-checks.dex'' data) (\<lambda>d.
      ensure (field_eq report ''dex'' (envelope_value d)) (RuntimeError Envelope_differs)
     (ensure (and_m (bind_res (jget report ''host_logic_checked'') (\<lambda>v. Inr (truthy v))) (bind_res (jget report ''art_execution_verified'') (\<lambda>v. Inr (\<not> truthy v))))
        (RuntimeError Invalid_claim)
     (bind_res (write_bytes fs dex data) (\<lambda>fs1.
      bind_res (write_bytes fs1 (out @ [''managed-corresponding-source.zip'']) source) (\<lambda>fs2.
      Inr (fs2, dex, report))))))))))))))))))))"

definition fixture_commands :: "managed_kit \<Rightarrow> string list \<Rightarrow> path \<Rightarrow> path \<Rightarrow> (string \<times> string list) list" where
  "fixture_commands kit java classes hostdir =
     (let compiler = java @ JAVAC @ [''-encoding'', ''UTF-8'', ''-source'', ''17'', ''-target'', ''17'', ''-proc:none'', ''-XDstringConcat=inline''];
          sources = mk_root kit @ [''fixtures'', ''art-runtime''] in
      [(''payload-javac'', compiler @ [''-d'', abs_str classes, abs_str (sources @ [''RuntimeChecks.java''])]),
       (''host-javac'', compiler @ [''-cp'', abs_str classes, ''-d'', abs_str hostdir, abs_str (sources @ [''RuntimeChecksHost.java''])]),
       (''host-logic'', java @ [''-Xint'', ''-cp'', abs_str classes @ mk_pathsep kit @ abs_str hostdir, ''artbox.RuntimeChecksHost''])])"

definition HOST_PASSED :: string where
  "HOST_PASSED = ''Host JDK fixture logic passed; ART execution unverified''"

definition fixture_dex ::
  "managed_kit \<Rightarrow> fs \<Rightarrow> string list \<Rightarrow> path \<Rightarrow> path \<Rightarrow> path \<Rightarrow> (managed_msg, fs \<times> string \<times> string list \<times> path \<times> bytes) res"
where
  "fixture_dex kit fs java attempt r8 jar =
     (let dex_zip = attempt @ [''runtime-checks-dex.zip'']; logfile = attempt @ [''d8.log'']; d8 = java @ [''-cp'', abs_str r8, ''com.android.tools.r8.D8''];
          command = d8 @ [''--min-api'', ''31'', ''--thread-count'', ''1'', ''--release'', ''--output'', abs_str dex_zip, abs_str jar] in
      bind_res (managed_run (mk_exec kit) fs (d8 @ [''--version'']) (attempt @ [''d8-version.log''])) (\<lambda>(fs1, version).
      bind_res (managed_run (mk_exec kit) fs1 command logfile) (\<lambda>(fs2, _).
      bind_res (read_text fs2 logfile) (\<lambda>diagnostics.
      require (\<not> contains ''Warning:'' diagnostics) (RuntimeError Dexer_diagnostic)
     (bind_res (read_bytes fs2 dex_zip) (\<lambda>zipped.
      bind_res (of_option ZipError (mk_open_zip kit zipped)) (\<lambda>members.
      require (map fst members = [''classes.dex'']) (RuntimeError Unexpected_dex)
     (bind_res (dict_get members ''classes.dex'') (\<lambda>data.
      let dex = attempt @ [''runtime-checks.dex''] in
      bind_res (write_bytes fs2 dex data) (\<lambda>fs3.
      Inr (fs3, strip_space version, command, dex, data)))))))))))"

definition artifact_rows :: "std \<Rightarrow> fs \<Rightarrow> path list \<Rightarrow> ('m, (string \<times> json) list) res" where
  "artifact_rows std fs ps =
     mapM (\<lambda>p. bind_res (read_bytes fs p) (\<lambda>data. Inr (last p, JDict [(''bytes'', JInt (int (length data))), (''sha256'', JStr (std_sha std data))]))) ps"

definition fixture_build ::
  "managed_kit \<Rightarrow> fs \<Rightarrow> path \<Rightarrow> bool \<Rightarrow> path option \<Rightarrow> (managed_msg, fs \<times> path \<times> json) res"
where
  "fixture_build kit fs build_dir fetch java_arg =
     (let std = mk_std kit; exec = mk_exec kit; rootdir = mk_root kit in
      bind_res (resolve fs build_dir) (\<lambda>folder.
      bind_res (attempt_below kit fs folder) (\<lambda>(fs1, attempt).
      bind_res (choose_java kit [''ARTBOX_JAVA_HOME'', ''JAVA_HOME''] fetch java_arg fs1) (\<lambda>(fs2, java_home, distribution).
      bind_res (resolve fs2 java_home) (\<lambda>home.
      let program = home @ [''bin'', if mk_nt kit then ''java.exe'' else ''java''] in
      require (is_file fs2 program) (RuntimeError Java_missing)
     (bind_res (java_vm kit 512 fs2 attempt) (\<lambda>(fs3, vm).
      let java = abs_str program # vm in
      bind_res (checked_javac kit fs3 java attempt) (\<lambda>(fs4, version).
      let classes = attempt @ [''payload-classes'']; hostdir = attempt @ [''host-classes'']; commands = fixture_commands kit java classes hostdir in
      bind_res (make_temporary fs4 classes) (\<lambda>fs5.
      bind_res (make_temporary fs5 hostdir) (\<lambda>fs6.
      bind_res (foldM (\<lambda>(f, printed) (label, command). bind_res (managed_run exec f command (attempt @ [label @ ''.log''])) (\<lambda>(f1, s). Inr (f1, printed @ [s]))) (fs6, []) commands)
        (\<lambda>(fs7, printed).
      require (strip_space (last printed) = HOST_PASSED) (RuntimeError Host_logic_failed)
     (let jar = attempt @ [''runtime-checks.jar''] in
      bind_res (write_zip kit fs7 jar (map (\<lambda>rel. (as_posix rel, classes @ rel)) (filter (\<lambda>rel. endswith (last rel) ''.class'') (rglob_files fs7 classes)))) (\<lambda>fs8.
      bind_res (environ_path kit ''ARTBOX_CACHE_DIR'') (\<lambda>cache.
      bind_res (lift_msg Managed_source (obtain_source (mk_host kit) (mk_quote kit) (mk_specs kit) fs8 ''r8-classlib'' cache)) (\<lambda>(fs9, tools).
      let r8 = tools @ [''r8.jar''] in
      bind_res (fixture_dex kit fs9 java attempt r8 jar) (\<lambda>(fs10, d8_version, command, dex, data).
      bind_res (dex_envelope kit (last dex) data) (\<lambda>d.
      let source = attempt @ [''corresponding-source.zip'']; sources = map (\<lambda>n. (n, path_div rootdir n)) PROJECT_INPUTS in
      bind_res (write_zip kit fs10 source (dict_update (map (\<lambda>(n, p). (''artbox/'' @ n, p)) sources)
          [(''notices/R8-LICENSE.txt'', tools @ [''LICENSE'']), (''notices/R8-NOTICE.txt'', tools @ [''NOTICE''])])) (\<lambda>fs11.
      bind_res (run_tool exec fs11 [''git'', ''rev-parse'', ''HEAD'']) (\<lambda>(fs12, head).
      bind_res (decode_utf8 head) (\<lambda>commit.
      bind_res (dict_get (mk_specs kit) ''r8-classlib'') (\<lambda>r8_spec.
      bind_res (digest_of std fs12 r8) (\<lambda>r8_sha.
      bind_res (digest_each std fs12 sources) (\<lambda>project_sources.
      bind_res (artifact_rows std fs12 [dex, jar, source]) (\<lambda>artifacts.
      let report = JDict [(''project_commit'', JStr (strip_space commit)), (''host_logic_checked'', JBool True), (''art_execution_verified'', JBool False),
            (''jdk'', JStr version), (''jdk_distribution'', distribution), (''d8'', JStr d8_version), (''r8'', mk_spec_value kit r8_spec), (''r8_jar_sha256'', r8_sha),
            (''commands'', JList (map (\<lambda>c. JList (strs c)) (map snd commands @ [command]))), (''dex'', envelope_value d),
            (''project_sources'', JDict project_sources), (''artifacts'', JDict artifacts)];
          report_path = attempt @ [''report.json'']; bundle = folder @ [''artbox-runtime-checks.zip''] in
      bind_res (dump_json std fs12 report_path report) (\<lambda>fs13.
      bind_res (write_zip kit fs13 bundle (map (\<lambda>p. (last p, p)) [dex, jar, source, report_path])) (\<lambda>fs14.
      bind_res (digest_of std fs14 bundle) (\<lambda>bundle_sha.
      bind_res (dump_json std fs14 (folder @ [''result.json'']) (JDict [(''attempt'', JStr (last attempt)), (''bundle_sha256'', bundle_sha), (''report'', report)])) (\<lambda>fs15.
      Inr (fs15, folder, report)))))))))))))))))))))))))))))"

section \<open>The class library\<close>

record classlib_args =
  cl_build_dir :: path
  cl_fetch_jdk :: bool
  cl_java_home :: "path option"
  cl_cxx :: "string option"
  cl_jobs :: nat
  cl_java_heap_mb :: nat
  cl_dex_heap_mb :: nat

definition or_else :: "string option \<Rightarrow> string option \<Rightarrow> string option" where
  "or_else a b = (case a of Some s \<Rightarrow> if s = [] then b else a | None \<Rightarrow> b)"

definition choose_cxx :: "managed_kit \<Rightarrow> string option \<Rightarrow> (managed_msg, string) res" where
  "choose_cxx kit cxx =
     of_option (RuntimeError No_native_compiler)
       (or_else cxx (or_else (map_of (mk_environ kit) ''CXX'') (or_else (mk_which kit ''c++'') (or_else (mk_which kit ''clang++'') None))))"

definition constant_pattern :: regex where
  "constant_pattern = cats [lit ''static final int '', Grp 1 (Plus (Cls (\<lambda>c. CHR ''A'' \<le> c \<and> c \<le> CHR ''Z'' \<or> digit_char c \<or> c = CHR ''_''))), lit '' = '',
     Grp 2 (Cat (Opt (lit ''-'')) (Plus (Cls digit_char))), lit '';'']"

definition constants_of :: "string \<Rightarrow> (string \<times> string) list" where
  "constants_of s = dict_update [] (map (\<lambda>p. (group (hit_caps p) 1, group (hit_caps p) 2)) (hits constant_pattern s))"

definition classlib_source :: "(string \<times> path) list \<Rightarrow> string \<Rightarrow> string \<Rightarrow> ('m, path) res" where
  "classlib_source sources name p = bind_res (dict_get sources name) (\<lambda>d. Inr (path_div d p))"

definition native_constants ::
  "managed_kit \<Rightarrow> classlib_config \<Rightarrow> string \<Rightarrow> (string \<times> path) list \<Rightarrow> path \<Rightarrow> fs \<Rightarrow> (managed_msg, fs \<times> string) res"
where
  "native_constants kit config cxx sources attempt fs =
     (let generator = attempt @ [if mk_nt kit then ''conscrypt-constants.exe'' else ''conscrypt-constants''] in
      bind_res (classlib_source sources ''boringssl-classlib'' ''src/include'') (\<lambda>inc.
      bind_res (classlib_source sources ''conscrypt-classlib'' (cg_conscrypt_generator config)) (\<lambda>source.
      bind_res (managed_run (mk_exec kit) fs [cxx, ''-std=c++17'', ''-O2'', ''-I'', abs_str inc, abs_str source, ''-o'', abs_str generator] (attempt @ [''constants-compile.log''])) (\<lambda>(fs1, _).
      bind_res (managed_run (mk_exec kit) fs1 [abs_str generator, ''com.android.org.conscrypt''] (attempt @ [''constants-output.log''])) (\<lambda>(fs2, printed).
      require (py_eq (str_dict (constants_of printed)) (str_dict (cg_conscrypt_constants config))) (RuntimeError Constants_differ) (Inr (fs2, printed)))))))"

definition spec_files :: "managed_kit \<Rightarrow> string \<Rightarrow> (managed_msg, string list) res" where
  "spec_files kit name = bind_res (dict_get (mk_specs kit) name) (\<lambda>spec. bind_res (of_option KeyError (sp_files spec)) (\<lambda>rows. Inr (map pin_path rows)))"

definition java_inputs_of :: "managed_kit \<Rightarrow> classlib_config \<Rightarrow> (string \<times> path) list \<Rightarrow> (managed_msg, path list) res" where
  "java_inputs_of kit config sources =
     bind_res (mapM (\<lambda>name. bind_res (spec_files kit name) (mapM (classlib_source sources name) \<circ> filter (\<lambda>p. endswith p ''.java''))) (cg_java_sources config)) (\<lambda>rows.
     Inr (sort (concat rows)))"

definition argument_line :: "string \<Rightarrow> string" where
  "argument_line arg = [DQ] @ replace_all [DQ] [CHR 0x5C, DQ] (replace_all [CHR 0x5C] [CHR 0x5C, CHR 0x5C] arg) @ [DQ]"

definition javac_arguments :: "managed_kit \<Rightarrow> path list \<Rightarrow> path \<Rightarrow> path \<Rightarrow> path list \<Rightarrow> string list" where
  "javac_arguments kit patches classes nothing inputs =
     [''-encoding'', ''UTF-8'', ''-source'', ''17'', ''-target'', ''17'', ''-g'', ''-XDstringConcat=inline'', ''--system'', ''none'',
      ''--patch-module'', ''java.base='' @ join_with (mk_pathsep kit) (map abs_str patches), ''-classpath'', abs_str nothing, ''-sourcepath'', abs_str nothing,
      ''-proc:none'', ''-d'', abs_str classes] @ map abs_str inputs"

definition compile_classes ::
  "managed_kit \<Rightarrow> classlib_config \<Rightarrow> string list \<Rightarrow> path \<Rightarrow> path list \<Rightarrow> path list \<Rightarrow> fs \<Rightarrow> (managed_msg, fs \<times> (string \<times> path) list) res"
where
  "compile_classes kit config java attempt patches inputs fs =
     (let classes = attempt @ [''classes'']; nothing = attempt @ [''empty'']; argfile = attempt @ [''javac.args''] in
      bind_res (make_temporary fs classes) (\<lambda>fs1.
      bind_res (make_temporary fs1 nothing) (\<lambda>fs2.
      bind_res (write_bytes fs2 argfile (encode_utf8 (join_with [newline] (map argument_line (javac_arguments kit patches classes nothing inputs)) @ [newline]))) (\<lambda>fs3.
      bind_res (managed_run (mk_exec kit) fs3 (java @ JAVAC @ [''@'' @ abs_str argfile]) (attempt @ [''javac.log''])) (\<lambda>(fs4, _).
      bind_res (foldM (\<lambda>_ name. require (is_file fs4 (path_div classes (name @ ''.class''))) (RuntimeError (Class_absent name)) (Inr ())) () (cg_required_classes config)) (\<lambda>_.
      let class_files = map (\<lambda>rel. (as_posix rel, classes @ rel)) (filter (\<lambda>rel. endswith (last rel) ''.class'' \<and> last rel \<noteq> ''module-info.class'') (rglob_files fs4 classes)) in
      require (length class_files = cg_expected_class_files config) (RuntimeError Class_count) (Inr (fs4, class_files))))))))"

definition dex_arguments :: "classlib_args \<Rightarrow> classlib_config \<Rightarrow> path \<Rightarrow> path \<Rightarrow> string list" where
  "dex_arguments args config dex_zip jar =
     [''--android-platform-build'', ''--min-api'', show_nat (cg_android_min_api config), ''--thread-count'', show_nat (cl_jobs args), ''--release'',
      ''--output'', abs_str dex_zip, abs_str jar]"

definition dex_files_of :: "managed_kit \<Rightarrow> classlib_config \<Rightarrow> fs \<Rightarrow> path \<Rightarrow> (managed_msg, dex_info list) res" where
  "dex_files_of kit config fs dex_zip =
     bind_res (read_bytes fs dex_zip) (\<lambda>zipped.
     bind_res (of_option ZipError (mk_open_zip kit zipped)) (\<lambda>members.
     require (sort (map fst members) = [''classes.dex'', ''classes2.dex'']) (RuntimeError Unexpected_dex)
    (bind_res (mapM (\<lambda>name. bind_res (dict_get members name) (dex_envelope kit name)) (filter (\<lambda>n. endswith n ''.dex'') (sort (map fst members)))) (\<lambda>found.
     require (sum_list (map di_classes found) = cg_expected_dex_classes config) (RuntimeError Dex_class_count) (Inr found)))))"

definition classlib_dex ::
  "managed_kit \<Rightarrow> classlib_args \<Rightarrow> classlib_config \<Rightarrow> string \<Rightarrow> string list \<Rightarrow> path \<Rightarrow> path \<Rightarrow> path \<Rightarrow> fs \<Rightarrow> (managed_msg, fs \<times> string \<times> path \<times> dex_info list) res"
where
  "classlib_dex kit args config java vm r8 attempt jar fs =
     (let d8 = [''-cp'', abs_str r8, ''com.android.tools.r8.D8'']; logfile = attempt @ [''d8.log'']; dex_zip = attempt @ [''implementation-dex.zip''];
          d8_vm = filter (\<lambda>a. \<not> startswith a ''-Xmx'') vm @ [''-Xmx'' @ show_nat (cl_dex_heap_mb args) @ ''m'', ''-XX:TieredStopAtLevel=1'',
            ''-Dcom.android.tools.r8.emitRecordAnnotationsInDex'', ''-Dcom.android.tools.r8.emitPermittedSubclassesAnnotationsInDex''] in
      bind_res (managed_run (mk_exec kit) fs ([java] @ vm @ d8 @ [''--version'']) (attempt @ [''d8-version.log''])) (\<lambda>(fs1, version).
      bind_res (managed_run (mk_exec kit) fs1 ([java] @ d8_vm @ d8 @ dex_arguments args config dex_zip jar) logfile) (\<lambda>(fs2, _).
      bind_res (read_text fs2 logfile) (\<lambda>diagnostics.
      require (\<not> contains ''Warning:'' diagnostics) (RuntimeError Dexer_diagnostic)
     (bind_res (dex_files_of kit config fs2 dex_zip) (\<lambda>found. Inr (fs2, strip_space version, dex_zip, found)))))))"

definition CLASSLIB_PROJECT :: "string list" where
  "CLASSLIB_PROJECT = [''LICENSE'', ''THIRD_PARTY.md'', ''docs/m3-classlib.md'', ''scripts/build_art_classlib.py'', ''scripts/environment.py'', ''scripts/sources.py'',
     ''scripts/jdk.py'', ''third_party/jdk.json'', ''third_party/sources.json'', ''third_party/art/classlib.json'']"

definition CLASSLIB_NOTICES :: "(string \<times> string \<times> string) list" where
  "CLASSLIB_NOTICES = [(''LIBCORE-LICENSE.txt'', ''libcore-classlib'', ''LICENSE''), (''LIBCORE-NOTICE.txt'', ''libcore-classlib'', ''NOTICE''),
     (''OPENJDK-NOTICE.txt'', ''libcore-classlib'', ''ojluni/src/main/NOTICE''), (''ICU-LICENSE.txt'', ''icu-classlib'', ''LICENSE''),
     (''APACHE-2.0.txt'', ''conscrypt-classlib'', ''LICENSE''), (''CONSCRYPT-NOTICE.txt'', ''conscrypt-classlib'', ''NOTICE''),
     (''OKHTTP-LICENSE.txt'', ''okhttp-classlib'', ''LICENSE.txt''), (''OKIO-LICENSE.txt'', ''okhttp-classlib'', ''okio/LICENSE.txt''),
     (''BORINGSSL-NOTICE.txt'', ''boringssl-classlib'', ''NOTICE''), (''R8-LICENSE.txt'', ''r8-classlib'', ''LICENSE''), (''R8-NOTICE.txt'', ''r8-classlib'', ''NOTICE'')]"

definition classlib_notices :: "managed_kit \<Rightarrow> (string \<times> path) list \<Rightarrow> (managed_msg, (string \<times> path) list) res" where
  "classlib_notices kit sources =
     bind_res (mapM (\<lambda>(name, source, p). bind_res (classlib_source sources source p) (\<lambda>q. Inr (name, q))) CLASSLIB_NOTICES) (\<lambda>rows.
     Inr ((''ARTBOX-LICENSE.txt'', path_div (mk_root kit) ''LICENSE'') # rows))"

definition upstream_files :: "managed_kit \<Rightarrow> (string \<times> path) list \<Rightarrow> (managed_msg, (string \<times> path) list) res" where
  "upstream_files kit sources =
     bind_res (mapM (\<lambda>(name, d). bind_res (spec_files kit name) (\<lambda>ps.
       Inr (map (\<lambda>p. (''upstream/'' @ name @ ''/'' @ p, path_div d p)) (filter (\<lambda>p. p \<noteq> ''r8.jar'') ps)))) sources) (\<lambda>rows.
     Inr (dict_update [] (concat rows)))"

record classlib_report =
  lr_scope :: string
  lr_project_commit :: string
  lr_jdk :: string
  lr_native_compiler :: string
  lr_d8 :: string
  lr_jdk_distribution :: json
  lr_java_inputs :: nat
  lr_class_files :: nat
  lr_dex_files :: "dex_info list"
  lr_min_android_api :: nat
  lr_configuration_sha256 :: json
  lr_sources :: "(string \<times> source_spec) list"
  lr_project_sources :: "(string \<times> json) list"
  lr_generated_sha256 :: "(string \<times> json) list"
  lr_notices :: "(string \<times> json) list"
  lr_artifacts :: "(string \<times> json) list"

text \<open>The generated sources, the compiled classes and their DEX files, before anything is bundled.\<close>

definition generated_sources ::
  "managed_kit \<Rightarrow> classlib_config \<Rightarrow> string \<Rightarrow> (string \<times> path) list \<Rightarrow> path \<Rightarrow> fs \<Rightarrow> (managed_msg, fs \<times> (string \<times> path) list) res"
where
  "generated_sources kit config cxx sources attempt fs =
     (let generated = attempt @ [''generated'']; constants = ''com/android/org/conscrypt/NativeConstants.java''; flags = ''com/android/icu/Flags.java'' in
      bind_res (mkdir_parents fs (butlast (path_div generated constants))) (\<lambda>fs1.
      bind_res (mkdir_parents fs1 (butlast (path_div generated flags))) (\<lambda>fs2.
      bind_res (native_constants kit config cxx sources attempt fs2) (\<lambda>(fs3, printed).
      bind_res (write_bytes fs3 (path_div generated constants) (encode_utf8 printed)) (\<lambda>fs4.
      bind_res (classlib_source sources ''icu-classlib'' ''icu.aconfig'') (\<lambda>p.
      bind_res (read_bytes fs4 p) (\<lambda>aconfig.
      bind_res (annotation_keys (mk_std kit) aconfig config) (\<lambda>keys.
      bind_res (write_bytes fs4 (path_div generated flags) (encode_utf8 keys)) (\<lambda>fs5.
      Inr (fs5, [(constants, path_div generated constants), (flags, path_div generated flags)]))))))))))"

definition classlib_build ::
  "managed_kit \<Rightarrow> (classlib_report \<Rightarrow> json) \<Rightarrow> classlib_config \<Rightarrow> classlib_args \<Rightarrow> fs \<Rightarrow> (managed_msg, fs \<times> classlib_report) res"
where
  "classlib_build kit encode config args fs =
     (let std = mk_std kit; exec = mk_exec kit; rootdir = mk_root kit; folder = cl_build_dir args in
      bind_res (attempt_below kit fs folder) (\<lambda>(fs1, attempt).
      bind_res (choose_java kit [''ARTBOX_JAVA_HOME'', ''JAVA_HOME_17_ARM64'', ''JAVA_HOME_17_X64'', ''JAVA_HOME''] (cl_fetch_jdk args) (cl_java_home args) fs1) (\<lambda>(fs2, java_home, distribution).
      let program = java_home @ [''bin'', if mk_nt kit then ''java.exe'' else ''java''] in
      require (is_file fs2 program) (RuntimeError Java_missing)
     (bind_res (choose_cxx kit (cl_cxx args)) (\<lambda>cxx.
      bind_res (java_vm kit (cl_java_heap_mb args) fs2 attempt) (\<lambda>(fs3, vm).
      let java = abs_str program in
      bind_res (checked_javac kit fs3 (java # vm) attempt) (\<lambda>(fs4, version).
      bind_res (managed_run exec fs4 [cxx, ''--version''] (attempt @ [''cxx-version.log''])) (\<lambda>(fs5, native).
      require (splitlines native \<noteq> []) IndexError
     (bind_res (environ_path kit ''ARTBOX_CACHE_DIR'') (\<lambda>cache.
      bind_res (foldM (\<lambda>(f, sources) name. bind_res (lift_msg Managed_source (obtain_source (mk_host kit) (mk_quote kit) (mk_specs kit) f name cache))
          (\<lambda>(f1, p). Inr (f1, dict_set sources name p))) (fs5, []) (cg_java_sources config @ cg_build_sources config)) (\<lambda>(fs6, sources).
      bind_res (generated_sources kit config cxx sources attempt fs6) (\<lambda>(fs7, generated).
      bind_res (java_inputs_of kit config sources) (\<lambda>pinned_inputs.
      let inputs = pinned_inputs @ map snd generated in
      require (length inputs = cg_expected_java_inputs config) (RuntimeError Java_input_count)
     (bind_res (mapM (dict_get sources) (cg_java_sources config)) (\<lambda>java_roots.
      bind_res (compile_classes kit config (java # vm) attempt (java_roots @ [attempt @ [''generated'']]) inputs fs7) (\<lambda>(fs8, class_files).
      let jar = attempt @ [''implementation-classes.jar''] in
      bind_res (write_zip kit fs8 jar class_files) (\<lambda>fs9.
      bind_res (classlib_source sources ''r8-classlib'' ''r8.jar'') (\<lambda>r8.
      bind_res (classlib_dex kit args config java vm r8 attempt jar fs9) (\<lambda>(fs10, d8, dex_zip, found).
      bind_res (upstream_files kit sources) (\<lambda>upstream.
      let project = map (\<lambda>n. (n, path_div rootdir n)) CLASSLIB_PROJECT; kit_zip = attempt @ [''corresponding-source.zip''] in
      bind_res (write_zip kit fs10 kit_zip (dict_update upstream (map (\<lambda>(n, p). (''artbox/'' @ n, p)) project @ map (\<lambda>(n, p). (''generated/'' @ n, p)) generated))) (\<lambda>fs11.
      bind_res (classlib_notices kit sources) (\<lambda>notices.
      bind_res (foldM (\<lambda>f (n, p). bind_res (read_bytes f p) (write_bytes f (attempt @ [n]))) fs11 notices) (\<lambda>fs12.
      bind_res (run_tool exec fs12 [''git'', ''rev-parse'', ''HEAD'']) (\<lambda>(fs13, head).
      bind_res (decode_utf8 head) (\<lambda>commit.
      bind_res (digest_of std fs13 (path_div rootdir ''third_party/art/classlib.json'')) (\<lambda>configuration.
      bind_res (mapM (\<lambda>(n, _). bind_res (dict_get (mk_specs kit) n) (\<lambda>s. Inr (n, s))) sources) (\<lambda>source_specs.
      bind_res (digest_each std fs13 project) (\<lambda>project_sources.
      bind_res (digest_each std fs13 generated) (\<lambda>generated_sha.
      bind_res (digest_each std fs13 notices) (\<lambda>notice_sha.
      bind_res (artifact_rows std fs13 [jar, dex_zip, kit_zip]) (\<lambda>artifacts.
      let result = \<lparr>lr_scope = cg_scope config, lr_project_commit = strip_space commit, lr_jdk = version, lr_native_compiler = hd (splitlines native), lr_d8 = d8,
            lr_jdk_distribution = distribution, lr_java_inputs = length inputs, lr_class_files = length class_files, lr_dex_files = found, lr_min_android_api = cg_android_min_api config,
            lr_configuration_sha256 = configuration, lr_sources = source_specs, lr_project_sources = project_sources, lr_generated_sha256 = generated_sha,
            lr_notices = notice_sha, lr_artifacts = artifacts\<rparr>;
          report_path = attempt @ [''report.json'']; bundle = folder @ [''artbox-classlib.zip''] in
      bind_res (dump_json std fs13 report_path (encode result)) (\<lambda>fs14.
      bind_res (write_zip kit fs14 bundle (map (\<lambda>p. (last p, p)) ([dex_zip, kit_zip, report_path] @ map (\<lambda>(n, _). attempt @ [n]) notices))) (\<lambda>fs15.
      bind_res (digest_of std fs15 bundle) (\<lambda>bundle_sha.
      bind_res (dump_json std fs15 (folder @ [''result.json'']) (JDict [(''attempt'', JStr (last attempt)), (''bundle_sha256'', bundle_sha), (''report'', encode result)])) (\<lambda>fs16.
      Inr (fs16, result))))))))))))))))))))))))))))))))))))"

definition classlib_main ::
  "managed_kit \<Rightarrow> (classlib_report \<Rightarrow> json) \<Rightarrow> classlib_config \<Rightarrow> classlib_args \<Rightarrow> fs \<Rightarrow> (managed_msg, fs \<times> classlib_report) res"
where
  "classlib_main kit encode config args fs =
     require (1 \<le> cl_jobs args \<and> cl_jobs args \<le> 8 \<and> 512 \<le> cl_java_heap_mb args \<and> cl_java_heap_mb args \<le> 8192 \<and> 512 \<le> cl_dex_heap_mb args \<and> cl_dex_heap_mb args \<le> 8192)
       (RuntimeError Arguments_out_of_range) (classlib_build kit encode config args fs)"

section \<open>Envelopes are exact\<close>

definition valid_dex :: "(bytes \<Rightarrow> bytes) \<Rightarrow> bytes \<Rightarrow> bool" where
  "valid_dex sha data \<longleftrightarrow> 112 \<le> length data \<and> take 8 data = DEX_MAGIC \<and> word_at data 32 = int (length data) \<and> word_at data 36 = 112 \<and>
     word_at data 40 = 0x12345678 \<and> signature_ok sha data \<and> checksum_ok data"

lemma header_word_at: "nat off + 4 \<le> length data \<Longrightarrow> 0 \<le> off \<Longrightarrow> header_word data off = Inr (word_at data (nat off))"
  by (simp add: header_word_def unpack_from_nonneg calcsize_def word_at_def read_at_def)

text \<open>A malformed DEX file raises the error meant for it and no other, and a well-formed one is described.\<close>

lemma dex_envelope_cases:
  "dex_envelope kit name data =
     (if valid_dex (mk_sha1 kit) data
      then Inr \<lparr>di_name = name, di_bytes = int (length data), di_sha256 = std_sha (mk_std kit) data, di_classes = word_at data 96, di_methods = word_at data 88\<rparr>
      else Inl (RuntimeError (Invalid_envelope name)))"
proof (cases "112 \<le> length data")
  case True
  then show ?thesis
    by (auto simp: dex_envelope_def valid_dex_def header_is_def header_word_at ensure_def and_m_def require_def signature_ok_def checksum_ok_def py_slice_nonneg read_at_def)
next
  case False
  then show ?thesis by (simp add: dex_envelope_def valid_dex_def ensure_def and_m_def require_def)
qed

lemma flipped_dex_rejected:
  assumes "dex_envelope kit name data = Inr d" and "flip_checksum data = (Inr bad :: (classlib_msg, bytes) res)"
  shows "dex_envelope kit name' bad = Inl (RuntimeError (Invalid_envelope name'))"
proof -
  have v: "valid_dex (mk_sha1 kit) data" using assms(1) by (simp add: dex_envelope_cases split: if_splits)
  then have "\<not> checksum_ok bad"
    using assms(2) flipped_checksum [of data] by (auto simp: flip_checksum_def require_Inr_iff valid_dex_def)
  then show ?thesis by (simp add: dex_envelope_cases valid_dex_def)
qed

section \<open>Validated before use\<close>

text \<open>What a report says of a payload and of a project input.\<close>

definition recorded_payload :: "std \<Rightarrow> json \<Rightarrow> string \<Rightarrow> bytes \<Rightarrow> bool" where
  "recorded_payload std report name data \<longleftrightarrow> (\<exists>a e b s. jget report ''artifacts'' = (Inr a :: (managed_msg, json) res) \<and> jget a name = (Inr e :: (managed_msg, json) res) \<and>
     jget e ''bytes'' = (Inr b :: (managed_msg, json) res) \<and> jget e ''sha256'' = (Inr s :: (managed_msg, json) res) \<and>
     py_eq b (JInt (int (length data))) \<and> py_eq s (JStr (std_sha std data)))"

definition recorded_input :: "std \<Rightarrow> json \<Rightarrow> string \<Rightarrow> bytes \<Rightarrow> bool" where
  "recorded_input std report name data \<longleftrightarrow> (\<exists>items e. jget report ''project_sources'' = (Inr (JDict items) :: (managed_msg, json) res) \<and> (name, e) \<in> set items \<and>
     py_eq (JStr (std_sha std data)) e)"

lemma payload_ok_recorded: "payload_ok std report x = Inr () \<longleftrightarrow> recorded_payload std report (fst x) (snd x)"
  by (auto simp: payload_ok_def recorded_payload_def res_simps and_m_def field_eq_def split: if_splits)

lemma digest_is_read: "digest_is std fs p e = (Inr True :: ('m, bool) res) \<longleftrightarrow> (\<exists>bs. read_bytes fs p = (Inr bs :: ('m, bytes) res) \<and> py_eq (JStr (std_sha std bs)) e)"
  by (auto simp: digest_is_def digest_of_def bind_res_Inr_iff)

text \<open>
  C39. No managed code reaches the runtime unchecked: when
  \<^verbatim>\<open>prepare_fixture\<close> returns and the output is a real directory
  whose two entries are no links, the DEX file and the source archive it wrote are of the
  recorded size and digest, the DEX file has a well-formed header with valid checksum and
  signature, all sixteen project inputs are as they were when the fixture was built, the
  report claims a host check and no execution, and nothing else has changed.
\<close>

theorem prepare_fixture_sound:
  assumes "prepare_fixture kit fs folder out = Inr (fs', dex, report)"
    and "plain_entries fs out [''runtime-checks.dex'', ''managed-corresponding-source.zip'']"
  shows "\<exists>data source. dex = out @ [''runtime-checks.dex''] \<and> read_bytes fs' dex = (Inr data :: (managed_msg, bytes) res) \<and>
    read_bytes fs' (out @ [''managed-corresponding-source.zip'']) = (Inr source :: (managed_msg, bytes) res) \<and>
    valid_dex (mk_sha1 kit) data \<and> recorded_payload (mk_std kit) report ''runtime-checks.dex'' data \<and>
    recorded_payload (mk_std kit) report ''corresponding-source.zip'' source \<and>
    (\<forall>name \<in> set PROJECT_INPUTS. \<exists>bs. read_bytes fs (path_div (mk_root kit) name) = (Inr bs :: (managed_msg, bytes) res) \<and> recorded_input (mk_std kit) report name bs) \<and>
    (\<exists>h a. jget report ''host_logic_checked'' = (Inr h :: (managed_msg, json) res) \<and> truthy h \<and>
       jget report ''art_execution_verified'' = (Inr a :: (managed_msg, json) res) \<and> \<not> truthy a) \<and>
    (\<forall>q. q \<noteq> dex \<and> q \<noteq> out @ [''managed-corresponding-source.zip''] \<longrightarrow> map_of fs' q = map_of fs q)"
proof -
  obtain fs1 data source d names sources items where p:
      "dex = out @ [''runtime-checks.dex'']" "write_bytes fs dex data = (Inr fs1 :: (managed_msg, fs) res)"
      "write_bytes fs1 (out @ [''managed-corresponding-source.zip'']) source = (Inr fs' :: (managed_msg, fs) res)"
      "dex_envelope kit ''runtime-checks.dex'' data = Inr d"
      "payload_ok (mk_std kit) report (''runtime-checks.dex'', data) = Inr ()" "payload_ok (mk_std kit) report (''corresponding-source.zip'', source) = Inr ()"
      "jget report ''project_sources'' = (Inr sources :: (managed_msg, json) res)" "iterated sources = (Inr names :: (managed_msg, string option list) res)"
      "set names = Some ` set PROJECT_INPUTS" "jitems sources = (Inr items :: (managed_msg, (string \<times> json) list) res)"
    and claims: "and_m (bind_res (jget report ''host_logic_checked'') (\<lambda>v. Inr (truthy v))) (bind_res (jget report ''art_execution_verified'') (\<lambda>v. Inr (\<not> truthy v))) = (Inr True :: (managed_msg, bool) res)"
    and inputs: "foldM (\<lambda>_ (name, expected). ensure (digest_is (mk_std kit) fs (path_div (mk_root kit) name) expected) (RuntimeError (Fixture_input_changed name)) (Inr ())) () items = Inr ()"
    using assms(1) by (auto simp: prepare_fixture_def Let_def res_simps and_m_True)
  have w: "write_files out fs [(''runtime-checks.dex'', data), (''managed-corresponding-source.zip'', source)] = (Inr fs' :: (managed_msg, fs) res)"
    using p(1-3) by (simp add: write_files_def)
  note files = write_files_cases [OF w]
  have items: "sources = JDict items" using p(10) by (auto simp: jitems_def split: json.splits)
  then have "set names = Some ` (fst ` set items)" using p(8) by (force simp: iterated_def image_image)
  then have keys: "fst ` set items = set PROJECT_INPUTS" using p(9) by (simp add: inj_image_eq_iff)
  have "\<exists>bs. read_bytes fs (path_div (mk_root kit) name) = (Inr bs :: (managed_msg, bytes) res) \<and> recorded_input (mk_std kit) report name bs" if "name \<in> set PROJECT_INPUTS" for name
  proof -
    have "name \<in> fst ` set items" using that by (simp only: keys)
    then obtain e where e: "(name, e) \<in> set items" by (rule imageE) (metis prod.collapse)
    then have "digest_is (mk_std kit) fs (path_div (mk_root kit) name) e = (Inr True :: (managed_msg, bool) res)" using inputs by (auto simp: foldM_unit_iff ensure_Inr)
    then show ?thesis using e p(7) items by (auto simp: digest_is_read recorded_input_def)
  qed
  moreover have "valid_dex (mk_sha1 kit) data" using p(4) by (simp add: dex_envelope_cases split: if_splits)
  moreover have "\<exists>h a. jget report ''host_logic_checked'' = (Inr h :: (managed_msg, json) res) \<and> truthy h \<and> jget report ''art_execution_verified'' = (Inr a :: (managed_msg, json) res) \<and> \<not> truthy a"
    using claims by (auto simp: and_m_True bind_res_Inr_iff)
  moreover have "map_of fs' q = map_of fs q" if "q \<noteq> dex" "q \<noteq> out @ [''managed-corresponding-source.zip'']" for q
    using files assms(2) that p(1) by simp
  moreover have "read_bytes fs' dex = (Inr data :: (managed_msg, bytes) res)" "read_bytes fs' (out @ [''managed-corresponding-source.zip'']) = (Inr source :: (managed_msg, bytes) res)"
    using assms(2) by (auto simp: p(1) intro!: write_files_read [OF w])
  ultimately show ?thesis using p(1,5,6) by (intro exI [of _ data] exI [of _ source]) (simp add: payload_ok_recorded)
qed

text \<open>A bundle whose DEX file is a bare header.\<close>

definition w_dex :: bytes where
  "w_dex = DEX_MAGIC @ [0xf5, 0x01, 0x50, 0x91] @ replicate 20 0 @ le_bytes 4 112 @ le_bytes 4 112 @ le_bytes 4 0x12345678 @ replicate 68 0"

definition w_report :: json where
  "w_report = JDict [(''project_sources'', JDict (map (\<lambda>n. (n, JStr ''h'')) PROJECT_INPUTS)),
     (''artifacts'', JDict [(''runtime-checks.dex'', JDict [(''bytes'', JInt 112), (''sha256'', JStr ''h'')]), (''corresponding-source.zip'', JDict [(''bytes'', JInt 0), (''sha256'', JStr ''h'')])]),
     (''dex'', envelope_value \<lparr>di_name = ''runtime-checks.dex'', di_bytes = 112, di_sha256 = ''h'', di_classes = 0, di_methods = 0\<rparr>),
     (''host_logic_checked'', JBool True), (''art_execution_verified'', JBool False)]"

definition w_std :: std where
  "w_std = \<lparr>std_sha = \<lambda>_. ''h'', std_loads = \<lambda>s. Some (if s = ''R'' then JDict [(''bundle_sha256'', JStr ''h''), (''report'', w_report)] else w_report), std_dumps = \<lambda>_. []\<rparr>"

definition w_fs :: fs where
  "w_fs = map (\<lambda>p. (p, Dir)) [[], [''d''], [''o''], [''docs''], [''fixtures''], [''fixtures'', ''art-runtime''], [''scripts''], [''third_party'']] @
     [([''d'', ''result.json''], File [0x52] None), ([''d'', ''artbox-runtime-checks.zip''], File [] None)] @ map (\<lambda>n. (rel_parts n, File [] None)) PROJECT_INPUTS"

definition w_kit :: "managed_kit \<Rightarrow> managed_kit" where
  "w_kit k = k\<lparr>mk_std := w_std, mk_open_zip := \<lambda>_. Some [(''report.json'', [0x50]), (''runtime-checks.dex'', w_dex), (''corresponding-source.zip'', [])],
     mk_sha1 := \<lambda>_. replicate 20 0, mk_root := []\<rparr>"

lemma w_dex_valid: "valid_dex (\<lambda>_. replicate 20 0) w_dex" by code_simp

lemma w_inputs: "list_all (\<lambda>n. is_ok (read_bytes w_fs (path_div [] n) :: (managed_msg, bytes) res)) PROJECT_INPUTS" by code_simp

lemma w_inputs_match:
  "foldM (\<lambda>_ (name, expected). ensure (digest_is w_std w_fs (path_div [] name) expected) (RuntimeError (Fixture_input_changed name)) (Inr ())) () (map (\<lambda>n. (n, JStr ''h'')) PROJECT_INPUTS) = (Inr () :: (managed_msg, unit) res)"
proof -
  have "digest_is w_std w_fs (path_div [] n) (JStr ''h'') = (Inr True :: (managed_msg, bool) res)" if "n \<in> set PROJECT_INPUTS" for n
    using w_inputs that unfolding digest_is_read by (auto simp: list_all_iff is_ok_def w_std_def split: sum.splits) (metis sum.exhaust)
  then show ?thesis by (auto simp: foldM_unit_iff ensure_Inr)
qed

lemma w_files:
  "load_json w_std w_fs [''d'', ''result.json''] = Inr (JDict [(''bundle_sha256'', JStr ''h''), (''report'', w_report)])"
  "read_bytes w_fs [''d'', ''artbox-runtime-checks.zip''] = (Inr [] :: (managed_msg, bytes) res)"
  "decode_utf8 [0x50] = (Inr ''P'' :: (managed_msg, string) res)"
  "py_eq w_report w_report"
  "payload_ok w_std w_report (''runtime-checks.dex'', w_dex) = Inr ()" "payload_ok w_std w_report (''corresponding-source.zip'', []) = Inr ()"
  by code_simp+

lemma w_written:
  "write_bytes w_fs [''o'', ''runtime-checks.dex''] w_dex = (Inr (w_fs @ [([''o'', ''runtime-checks.dex''], File w_dex None)]) :: (managed_msg, fs) res)"
  "write_bytes (w_fs @ [([''o'', ''runtime-checks.dex''], File w_dex None)]) [''o'', ''managed-corresponding-source.zip''] [] =
     (Inr (w_fs @ [([''o'', ''runtime-checks.dex''], File w_dex None), ([''o'', ''managed-corresponding-source.zip''], File [] None)]) :: (managed_msg, fs) res)"
  by code_simp+

theorem prepare_fixture_sound_witness:
  "\<forall>k. \<exists>fs' dex report. prepare_fixture (w_kit k) w_fs [''d''] [''o''] = Inr (fs', dex, report) \<and> plain_entries w_fs [''o''] [''runtime-checks.dex'', ''managed-corresponding-source.zip''] \<and>
     (\<exists>data. read_bytes fs' [''o'', ''runtime-checks.dex''] = (Inr data :: (managed_msg, bytes) res) \<and> valid_dex (\<lambda>_. replicate 20 0) data)"
proof
  fix k
  have kit: "mk_std (w_kit k) = w_std" "mk_open_zip (w_kit k) x = Some [(''report.json'', [0x50]), (''runtime-checks.dex'', w_dex), (''corresponding-source.zip'', [])]"
      "mk_sha1 (w_kit k) = (\<lambda>_. replicate 20 0)" "mk_root (w_kit k) = []" for x
    by (simp_all add: w_kit_def)
  have "map_of w_fs [] = Some Dir" "map_of w_fs [''o''] = Some Dir" "map_of w_fs [''o'', ''runtime-checks.dex''] = None" "map_of w_fs [''o'', ''managed-corresponding-source.zip''] = None"
    by code_simp+
  then have plain: "plain_entries w_fs [''o''] [''runtime-checks.dex'', ''managed-corresponding-source.zip'']" by (auto simp: plain_entries_def dirs_def le_Suc_eq)
  have "word_at w_dex 96 = 0" "word_at w_dex 88 = 0" "length w_dex = 112" by code_simp+
  then have envelope: "dex_envelope (w_kit k) ''runtime-checks.dex'' w_dex = Inr \<lparr>di_name = ''runtime-checks.dex'', di_bytes = 112, di_sha256 = ''h'', di_classes = 0, di_methods = 0\<rparr>"
    using w_dex_valid by (simp add: dex_envelope_cases kit w_std_def)
  have fields: "jget w_report ''project_sources'' = (Inr (JDict (map (\<lambda>n. (n, JStr ''h'')) PROJECT_INPUTS)) :: (managed_msg, json) res)"
      "jget w_report ''host_logic_checked'' = (Inr (JBool True) :: (managed_msg, json) res)" "jget w_report ''art_execution_verified'' = (Inr (JBool False) :: (managed_msg, json) res)"
      "jget w_report ''dex'' = (Inr (envelope_value \<lparr>di_name = ''runtime-checks.dex'', di_bytes = 112, di_sha256 = ''h'', di_classes = 0, di_methods = 0\<rparr>) :: (managed_msg, json) res)"
    by (simp_all add: w_report_def jget_def dict_get_def)
  have jget_top: "jget (JDict d) key = (dict_get d key :: (managed_msg, json) res)" for d key by (simp add: jget_def)
  have same: "py_eq (envelope_value \<lparr>di_name = ''runtime-checks.dex'', di_bytes = 112, di_sha256 = ''h'', di_classes = 0, di_methods = 0\<rparr>)
      (envelope_value \<lparr>di_name = ''runtime-checks.dex'', di_bytes = 112, di_sha256 = ''h'', di_classes = 0, di_methods = 0\<rparr>)" by code_simp
  have loads: "std_loads w_std ''P'' = Some w_report" by (simp add: w_std_def)
  have sha: "digest_of w_std w_fs [''d'', ''artbox-runtime-checks.zip''] = (Inr (JStr ''h'') :: (managed_msg, json) res)" by (simp add: digest_of_def w_files w_std_def)
  have r: "prepare_fixture (w_kit k) w_fs [''d''] [''o''] =
      Inr (w_fs @ [([''o'', ''runtime-checks.dex''], File w_dex None), ([''o'', ''managed-corresponding-source.zip''], File [] None)], [''o'', ''runtime-checks.dex''], w_report)"
    unfolding prepare_fixture_def Let_def kit append.simps w_files lift_msg_def
    by (simp add: ensure_def require_def and_m_def field_eq_def jget_top dict_get_def iterated_def jitems_def image_image w_files w_written w_inputs_match [unfolded ensure_def require_def] envelope fields same loads sha)
  then show "\<exists>fs' dex report. prepare_fixture (w_kit k) w_fs [''d''] [''o''] = Inr (fs', dex, report) \<and> plain_entries w_fs [''o''] [''runtime-checks.dex'', ''managed-corresponding-source.zip''] \<and>
     (\<exists>data. read_bytes fs' [''o'', ''runtime-checks.dex''] = (Inr data :: (managed_msg, bytes) res) \<and> valid_dex (\<lambda>_. replicate 20 0) data)"
    using r prepare_fixture_sound [OF r plain] plain by (auto simp: kit)
qed

end
