(* ===== verification/Bundle_Service.thy ===== *)
theory Bundle_Service
  imports Bundle "HOL-Library.Product_Lexorder"
begin

text \<open>
  \<^verbatim>\<open>service_bundle.py\<close>: the signed Binder roles are staged for the device only after complete native
  acceptance, and checked again inside the built application.
\<close>

definition SERVICE_ELFS :: "string list" where
  "SERVICE_ELFS = [''libc.so'', ''libart.so'', ''libm.so'', ''libdl.so'', ''libdl_android.so'', ''libartbox_servicemanager.so'']"

definition digit :: "nat \<Rightarrow> string" where
  "digit i = [char_of (48 + i)]"

record service_image =
  si_role :: nat
  si_index :: nat
  si_elf :: string
  si_framework :: string
  si_elf_sha256 :: json
  si_layout :: wrap_layout
  si_frameworks :: "(string \<times> json) list"

definition service_image_value :: "service_image \<Rightarrow> json" where
  "service_image_value i = JDict
     [(''role'', JInt (int (si_role i))), (''index'', JInt (int (si_index i))), (''elf'', JStr (si_elf i)),
      (''framework'', JStr (si_framework i)), (''elf_sha256'', si_elf_sha256 i), (''layout'', layout_value (si_layout i)),
      (''frameworks'', JDict (si_frameworks i))]"

record service_staged =
  ss_commit :: string
  ss_images :: "service_image list"
  ss_acceptance :: json
  ss_report_sha256 :: json

definition service_staged_value :: "service_staged \<Rightarrow> json" where
  "service_staged_value s = JDict
     [(''project_commit'', JStr (ss_commit s)), (''images'', JList (map service_image_value (ss_images s))),
      (''acceptance'', ss_acceptance s), (''producer_report_sha256'', ss_report_sha256 s), (''device_execution_verified'', JBool False)]"

definition service_source :: "std \<Rightarrow> path \<Rightarrow> fs \<Rightarrow> string \<times> json \<Rightarrow> (bundle_msg, unit) res" where
  "service_source std rootdir fs x =
     (case x of (name, expected) \<Rightarrow>
      ensure (digest_is std fs (path_div rootdir name) expected) (RuntimeError (Project_input_changed name)) (Inr ()))"

definition service_output :: "std \<Rightarrow> fs \<Rightarrow> path \<Rightarrow> json \<Rightarrow> string \<Rightarrow> (bundle_msg, unit) res" where
  "service_output std fs base report label =
     bind_res (jget report ''executions'') (\<lambda>executions.
     bind_res (jget executions label) (\<lambda>execution.
     bind_res (foldM (\<lambda>_ stream.
        ensure (bind_res (digest_of std fs (base @ [label @ ''.'' @ stream])) (\<lambda>d.
            bind_res (jget execution (stream @ ''_sha256'')) (\<lambda>e. Inr (py_eq d e))))
          (RuntimeError Retained_output_changed) (Inr ())) () [''stdout'', ''stderr'']) (\<lambda>_.
     ensure (bind_res (load_json std fs (base @ [label @ ''.stdout''])) (\<lambda>v.
         bind_res (jget execution ''native'') (\<lambda>native. Inr (py_eq v native)))) (RuntimeError Result_differs) (Inr ()))))"

definition role_key :: "string \<Rightarrow> nat \<Rightarrow> nat \<Rightarrow> string" where
  "role_key target role index = target @ ''-'' @ digit role @ ''-'' @ digit index"

definition role_keys :: "string list" where
  "role_keys = concat (map (\<lambda>target. concat (map (\<lambda>role. map (role_key target role) [0, 1, 2, 3, 4, 5]) [0, 1, 2])) [''macos'', ''ios''])"

definition role_name :: "nat \<Rightarrow> nat \<Rightarrow> string" where
  "role_name role index = ''ARTBoxServiceR'' @ digit role @ ''M'' @ digit index"

text \<open>One signed framework of a role, for one platform.\<close>

definition service_framework ::
  "std \<Rightarrow> fs \<Rightarrow> path \<Rightarrow> json \<Rightarrow> wrap_layout \<Rightarrow> nat \<Rightarrow> nat \<Rightarrow> string \<Rightarrow> (bundle_msg, string \<times> json) res"
where
  "service_framework std fs base report layout index role target =
     bind_res (jget report ''frameworks'') (\<lambda>frameworks.
     bind_res (jget frameworks (role_key target role index)) (\<lambda>signing.
     bind_res (check_signed std fs (framework_dir (base @ [target, role_name role index]) (role_name role index)) (role_name role index)
        layout signing) (\<lambda>_. Inr (target, signing))))"

definition service_role ::
  "std \<Rightarrow> fs \<Rightarrow> path \<Rightarrow> json \<Rightarrow> wrap_layout \<Rightarrow> json \<Rightarrow> nat \<Rightarrow> string \<Rightarrow> nat \<Rightarrow> (bundle_msg, service_image) res"
where
  "service_role std fs base report layout sha index elf role =
     bind_res (mapM (service_framework std fs base report layout index role) [''macos'', ''ios'']) (\<lambda>signings.
     Inr \<lparr>si_role = role, si_index = index, si_elf = elf, si_framework = role_name role index, si_elf_sha256 = sha,
          si_layout = layout, si_frameworks = signings\<rparr>)"

definition service_elf :: "std \<Rightarrow> fs \<Rightarrow> path \<Rightarrow> json \<Rightarrow> nat \<times> string \<Rightarrow> (bundle_msg, service_image list) res" where
  "service_elf std fs base report x =
     (case x of (index, elf) \<Rightarrow>
      let source = base @ [''ELF'', elf] in
      bind_res (jget report ''elf_sha256'') (\<lambda>shas.
      ensure (bind_res (digest_of std fs source) (\<lambda>d. bind_res (jget shas elf) (\<lambda>e. Inr (py_eq d e)))) (RuntimeError (Elf_changed elf))
     (bind_res (elf_layout std fs source) (\<lambda>layout.
      bind_res (jget shas elf) (\<lambda>sha.
      mapM (service_role std fs base report layout sha index elf) [0, 1, 2])))))"

text \<open>Every check of \<^verbatim>\<open>prepare\<close>, in its order.\<close>

definition service_checks :: "std \<Rightarrow> path \<Rightarrow> fs \<Rightarrow> path \<Rightarrow> string \<Rightarrow> json \<Rightarrow> (bundle_msg, service_image list) res" where
  "service_checks std rootdir fs evidence revision report =
     bind_res (lift_msg Accepting (service_validate report)) (\<lambda>_.
     ensure (field_eq report ''project_commit'' (JStr revision)) (RuntimeError Revision_differs)
    (bind_res (jget report ''project_sources'') (\<lambda>sources.
     bind_res (jitems sources) (\<lambda>items.
     bind_res (foldM (\<lambda>_. service_source std rootdir fs) () items) (\<lambda>_.
     let base = evidence @ [''build'', ''m4'', ''service-guest''] in
     ensure (bind_res (digest_of std fs (base @ [''corresponding-source.zip''])) (\<lambda>d.
         bind_res (jget report ''source_bundle_sha256'') (\<lambda>e. Inr (py_eq d e)))) (RuntimeError Source_bundle_changed)
    (bind_res (foldM (\<lambda>_. service_output std fs base report) () (dict_keys SERVICE_CASES)) (\<lambda>_.
     ensure (bind_res (jget report ''elf_sha256'') (\<lambda>e. bind_res (jset e) (\<lambda>names. Inr (set_eq names (strs SERVICE_ELFS)))))
       (RuntimeError Elf_set_changed)
    (ensure (bind_res (jget report ''frameworks'') (\<lambda>f. bind_res (jset f) (\<lambda>names. Inr (set_eq names (strs role_keys)))))
       (RuntimeError Role_set_changed)
    (bind_res (mapM (service_elf std fs base report) (enumerate 0 SERVICE_ELFS)) (\<lambda>images.
     Inr (sort_key (\<lambda>i. (si_role i, si_index i)) (concat images))))))))))))"

definition service_write ::
  "path \<Rightarrow> path \<Rightarrow> fs \<Rightarrow> service_image list \<Rightarrow> (bundle_msg, fs) res"
where
  "service_write base output fs images =
     bind_res (mkdir_parents fs (output @ [''Resources'', ''ELF''])) (\<lambda>fs1.
     bind_res (foldM (\<lambda>fs elf. copyfile fs (base @ [''ELF'', elf]) (output @ [''Resources'', ''ELF'', elf])) fs1 SERVICE_ELFS) (\<lambda>fs2.
     foldM (\<lambda>fs i. copy_tree DEPTH False fs (framework_dir (base @ [''ios'', si_framework i]) (si_framework i))
        (framework_dir output (si_framework i))) fs2 images))"

definition service_prepare ::
  "std \<Rightarrow> path \<Rightarrow> fs \<Rightarrow> path \<Rightarrow> path \<Rightarrow> string \<Rightarrow> (bundle_msg, fs \<times> service_staged) res"
where
  "service_prepare std rootdir fs evidence0 output0 revision =
     bind_res (resolve fs evidence0) (\<lambda>evidence.
     bind_res (resolve fs output0) (\<lambda>output.
     let report_path = evidence @ [''artifacts'', ''m4-service-guest.json''] in
     bind_res (load_json std fs report_path) (\<lambda>report.
     bind_res (service_checks std rootdir fs evidence revision report) (\<lambda>images.
     ensure (output_free fs output) (RuntimeError Output_not_empty)
    (bind_res (service_write (evidence @ [''build'', ''m4'', ''service-guest'']) output fs images) (\<lambda>fs1.
     bind_res (digest_of std fs1 report_path) (\<lambda>report_sha.
     let staged = \<lparr>ss_commit = revision, ss_images = images, ss_acceptance = report, ss_report_sha256 = report_sha\<rparr> in
     bind_res (dump_json std fs1 (output @ [''Resources'', ''manifest.json'']) (service_staged_value staged)) (\<lambda>fs2.
     Inr (fs2, staged)))))))))"

section \<open>The built application\<close>

text \<open>The checks on one embedded image, and on the \<^verbatim>\<open>ios\<close> framework it was staged with.\<close>

definition embedded_image :: "std \<Rightarrow> fs \<Rightarrow> path \<Rightarrow> path \<Rightarrow> string \<Rightarrow> string \<Rightarrow> json \<Rightarrow> wrap_layout \<Rightarrow> (string \<times> json) list \<Rightarrow> (bundle_msg, unit) res"
where
  "embedded_image std fs app resources elf name sha layout frameworks =
     (let bundle = framework_dir (app @ [''Frameworks'']) name in
      ensure (digest_is std fs (path_div (resources @ [''ELF'']) elf) sha) (RuntimeError (Elf_changed elf))
     (ensure (bind_res (read_bytes fs (path_div bundle name)) (\<lambda>data.
          bind_res (lift_msg Wrapping (verify_macho (std_sha std) data layout)) (\<lambda>v.
          bind_res (dict_get frameworks ''ios'') (\<lambda>signing. field_eq signing ''layout'' (verified_value v))))) (RuntimeError (Signed_code_changed name))
     (bind_res (dict_get frameworks ''ios'') (\<lambda>signing.
      bind_res (jget signing ''notices'') (\<lambda>notices.
      bind_res (jitems notices) (foldM (\<lambda>_ (notice, expected).
        ensure (digest_is std fs (path_div bundle notice) expected) (RuntimeError Notice_changed) (Inr ())) ()))))))"

definition service_verify_embedded :: "std \<Rightarrow> fs \<Rightarrow> path \<Rightarrow> service_staged \<Rightarrow> (bundle_msg, unit) res" where
  "service_verify_embedded std fs app staged =
     (let resources = app @ [''ARTBoxM4''] in
      ensure (bind_res (load_json std fs (resources @ [''manifest.json''])) (\<lambda>v. Inr (py_eq v (service_staged_value staged))))
        (RuntimeError Manifest_changed)
     (foldM (\<lambda>_ i. embedded_image std fs app resources (si_elf i) (si_framework i) (si_elf_sha256 i) (si_layout i) (si_frameworks i)) ()
        (ss_images staged)))"

lemma embedded_image_Inr:
  "embedded_image std fs app resources elf name sha layout frameworks = Inr () \<longleftrightarrow>
     has_digest std fs (path_div (resources @ [''ELF'']) elf) sha \<and>
     (\<exists>data m v signing items. stat fs (path_div (framework_dir (app @ [''Frameworks'']) name) name) = Some (File data m) \<and>
        verify_macho (std_sha std) data layout = Inr v \<and> map_of frameworks ''ios'' = Some signing \<and>
        (field_eq signing ''layout'' (verified_value v) :: (bundle_msg, bool) res) = Inr True \<and>
        (jget signing ''notices'' :: (bundle_msg, json) res) = Inr (JDict items) \<and>
        (\<forall>x \<in> set items. has_digest std fs (path_div (framework_dir (app @ [''Frameworks'']) name) (fst x)) (snd x)))"
proof -
  have step: "(case x of (notice, expected) \<Rightarrow> ensure (digest_is std fs (path_div b notice) expected) (RuntimeError Notice_changed) (Inr ())) =
      (Inr () :: (bundle_msg, unit) res) \<longleftrightarrow> has_digest std fs (path_div b (fst x)) (snd x)" for b x
    by (cases x) (simp add: ensure_Inr digest_is_True)
  show ?thesis
    unfolding embedded_image_def Let_def ensure_Inr digest_is_True bind_res_Inr_iff foldM_unit_iff step
    by (auto simp: res_simps read_bytes_Inr)
qed


section \<open>Nothing is staged without acceptance\<close>

lemma service_checks_Inr:
  assumes "service_checks std rootdir fs evidence revision report = Inr images"
  shows "service_validate report = Inr () \<and> (field_eq report ''project_commit'' (JStr revision) :: (bundle_msg, bool) res) = Inr True \<and>
    (\<exists>groups. mapM (service_elf std fs (evidence @ [''build'', ''m4'', ''service-guest'']) report) (enumerate 0 SERVICE_ELFS) = Inr groups)"
  using assms unfolding service_checks_def Let_def bind_res_Inr_iff ensure_Inr lift_msg_Inr by (elim exE conjE) (intro conjI exI; simp)

lemma service_elf_Inr:
  assumes "service_elf std fs base report (index, elf) = Inr images"
  shows "\<exists>shas sha layout. (jget report ''elf_sha256'' :: (bundle_msg, json) res) = Inr shas \<and> (jget shas elf :: (bundle_msg, json) res) = Inr sha \<and>
    has_digest std fs (base @ [''ELF'', elf]) sha \<and> elf_layout std fs (base @ [''ELF'', elf]) = Inr layout \<and>
    (\<forall>role \<in> {0, 1, 2}. \<forall>target \<in> {''macos'', ''ios''}. \<exists>frameworks signing.
       (jget report ''frameworks'' :: (bundle_msg, json) res) = Inr frameworks \<and>
       (jget frameworks (role_key target role index) :: (bundle_msg, json) res) = Inr signing \<and>
       check_signed std fs (framework_dir (base @ [target, role_name role index]) (role_name role index)) (role_name role index) layout signing = Inr ())"
proof -
  obtain shas sha layout d where x: "(jget report ''elf_sha256'' :: (bundle_msg, json) res) = Inr shas" "(jget shas elf :: (bundle_msg, json) res) = Inr sha"
      "elf_layout std fs (base @ [''ELF'', elf]) = Inr layout"
    and d: "digest_of std fs (base @ [''ELF'', elf]) = (Inr d :: (bundle_msg, json) res)" "py_eq d sha"
    and roles: "mapM (service_role std fs base report layout sha index elf) [0, 1, 2] = Inr images"
    using assms by (auto simp: service_elf_def Let_def res_simps simp del: mapM.simps)
  note a = x digest_of_has [OF d]
  have "\<exists>frameworks signing. (jget report ''frameworks'' :: (bundle_msg, json) res) = Inr frameworks \<and>
       (jget frameworks (role_key target role index) :: (bundle_msg, json) res) = Inr signing \<and>
       check_signed std fs (framework_dir (base @ [target, role_name role index]) (role_name role index)) (role_name role index) layout signing = Inr ()"
    if "role \<in> {0, 1, 2}" "target \<in> {''macos'', ''ios''}" for role target
  proof -
    obtain i where "service_role std fs base report layout sha index elf role = Inr i"
      using mapM_set [OF roles, of role] \<open>role \<in> {0, 1, 2}\<close> by auto
    then obtain ys where m: "mapM (service_framework std fs base report layout index role) [''macos'', ''ios''] = Inr ys"
      by (auto simp: service_role_def bind_res_Inr_iff simp del: mapM.simps)
    have "target \<in> set [''macos'', ''ios'']" using \<open>target \<in> {''macos'', ''ios''}\<close> by simp
    then obtain y where "service_framework std fs base report layout index role target = Inr y" using mapM_set [OF m] by blast
    then show ?thesis by (auto simp: service_framework_def res_simps)
  qed
  then show ?thesis using a by blast
qed

text \<open>
  C26. The service roles are not staged when the report is not accepted, comes from another
  revision, or names an ELF file whose bytes do not have the recorded digest:
  \<^verbatim>\<open>prepare\<close> raises.
\<close>

theorem service_prepare_refuses:
  assumes "resolve fs evidence0 = (Inr evidence :: (bundle_msg, path) res)"
    and "load_json std fs (evidence @ [''artifacts'', ''m4-service-guest.json'']) = Inr report"
    and "service_validate report \<noteq> Inr () \<or> (field_eq report ''project_commit'' (JStr revision) :: (bundle_msg, bool) res) \<noteq> Inr True \<or>
      (\<exists>elf \<in> set SERVICE_ELFS. \<exists>shas sha. (jget report ''elf_sha256'' :: (bundle_msg, json) res) = Inr shas \<and>
         (jget shas elf :: (bundle_msg, json) res) = Inr sha \<and> \<not> has_digest std fs (evidence @ [''build'', ''m4'', ''service-guest'', ''ELF'', elf]) sha)"
  shows "\<exists>e. service_prepare std rootdir fs evidence0 output0 revision = Inl e"
proof (rule ccontr)
  assume "\<nexists>e. service_prepare std rootdir fs evidence0 output0 revision = Inl e"
  then obtain r where "service_prepare std rootdir fs evidence0 output0 revision = Inr r"
    by (cases "service_prepare std rootdir fs evidence0 output0 revision") auto
  then obtain images where c: "service_checks std rootdir fs evidence revision report = Inr images"
    using assms(1,2) unfolding service_prepare_def Let_def bind_res_Inr_iff by auto
  obtain groups where g: "mapM (service_elf std fs (evidence @ [''build'', ''m4'', ''service-guest'']) report) (enumerate 0 SERVICE_ELFS) = Inr groups"
    using service_checks_Inr [OF c] by blast
  obtain elf shas sha where e: "elf \<in> set SERVICE_ELFS" "(jget report ''elf_sha256'' :: (bundle_msg, json) res) = Inr shas"
    "(jget shas elf :: (bundle_msg, json) res) = Inr sha" "\<not> has_digest std fs (evidence @ [''build'', ''m4'', ''service-guest'', ''ELF'', elf]) sha"
    using service_checks_Inr [OF c] assms(3) by blast
  obtain n where "n < length SERVICE_ELFS" "SERVICE_ELFS ! n = elf" using e(1) by (auto simp: in_set_conv_nth)
  then have "(n, elf) \<in> set (enumerate 0 SERVICE_ELFS)" by (auto simp: in_set_enumerate_eq)
  then obtain y where "service_elf std fs (evidence @ [''build'', ''m4'', ''service-guest'']) report (n, elf) = Inr y"
    using mapM_set [OF g] by blast
  then show False using service_elf_Inr e by fastforce
qed

definition empty_report_fs :: fs where
  "empty_report_fs = [([''artifacts''], Dir), ([''artifacts'', ''m4-service-guest.json''], File [123, 125] None)]"

definition empty_report_std :: std where
  "empty_report_std = \<lparr>std_sha = \<lambda>_. ''00'', std_loads = \<lambda>s. if s = ''{}'' then Some (JDict []) else None, std_dumps = \<lambda>_. ''{}''\<rparr>"

lemma empty_report_loads:
  "load_json empty_report_std empty_report_fs ([] @ [''artifacts'', ''m4-service-guest.json'']) = Inr (JDict [])"
  "resolve empty_report_fs [] = (Inr [] :: (bundle_msg, path) res)"
  "service_validate (JDict []) \<noteq> Inr ()"
  by code_simp+

theorem service_prepare_refuses_witness:
  "\<exists>e. service_prepare empty_report_std [] empty_report_fs [] [''out''] ''c0ffee'' = Inl e"
  by (rule service_prepare_refuses [OF empty_report_loads(2,1)]) (simp add: empty_report_loads(3))

end
