(* ===== verification/Bundle_Art.thy ===== *)
theory Bundle_Art
  imports Bundle_Service Native_Code
begin

text \<open>
  \<^verbatim>\<open>art_bundle.py\<close>: the iOS inputs of the ART runtime are staged from one evidence tree, after the
  managed execution, its logs and controls, and every signed image have been checked.
\<close>

definition ART_REPORTS :: "string list" where
  "ART_REPORTS = [''m2-bionic-startup'', ''m3-art-guest-link'', ''m3-art-math'', ''m3-guest-loader'', ''m3-icu-guest-link'',
     ''m3-libcore-guest-link'', ''m3-art-runtime-guest'']"

text \<open>The names and frameworks of \<^verbatim>\<open>LIBRARIES\<close> in \<^verbatim>\<open>link_icu_guest.py\<close> and \<^verbatim>\<open>link_libcore_guest.py\<close>.\<close>

definition ICU_LIBRARIES :: "(string \<times> string) list" where
  "ICU_LIBRARIES = [(''libnativehelper.so'', ''ARTBoxNativeHelper''), (''libicuuc.so'', ''ARTBoxICUCommon''),
     (''libicui18n.so'', ''ARTBoxICUI18N''), (''libicu.so'', ''ARTBoxICU''), (''libicu_jni.so'', ''ARTBoxICUJNI'')]"

definition LIBCORE_LIBRARIES :: "(string \<times> string) list" where
  "LIBCORE_LIBRARIES = [(''libexpat.so'', ''ARTBoxExpat''), (''libandroidio.so'', ''ARTBoxAndroidIO''),
     (''libopenjdkjvm.so'', ''ARTBoxOpenJDKJVM''), (''libjavacore.so'', ''ARTBoxJavaCore''), (''libopenjdk.so'', ''ARTBoxOpenJDK'')]"

record art_module =
  am_elf :: string
  am_framework :: string
  am_path :: path
  am_dir :: path
  am_signed :: json

record art_image =
  ai_elf :: string
  ai_framework :: string
  ai_elf_sha256 :: json
  ai_layout :: wrap_layout
  ai_frameworks :: json

record art_staged =
  as_commit :: string
  as_images :: "art_image list"
  as_resources :: "(string \<times> json) list"
  as_acceptance :: json
  as_reports :: "(string \<times> json) list"

definition art_image_value :: "art_image \<Rightarrow> json" where
  "art_image_value i = JDict
     [(''elf'', JStr (ai_elf i)), (''framework'', JStr (ai_framework i)), (''elf_sha256'', ai_elf_sha256 i),
      (''layout'', layout_value (ai_layout i)), (''frameworks'', ai_frameworks i)]"

definition art_staged_value :: "art_staged \<Rightarrow> json" where
  "art_staged_value s = JDict
     [(''project_commit'', JStr (as_commit s)), (''images'', JList (map art_image_value (as_images s))),
      (''resources'', JDict (as_resources s)), (''acceptance'', as_acceptance s), (''device_execution_verified'', JBool False),
      (''producer_reports'', JDict (as_reports s))]"

section \<open>Logs\<close>

definition text_lines :: "fs \<Rightarrow> path \<Rightarrow> (bundle_msg, string list) res" where
  "text_lines fs p = bind_res (read_bytes fs p) (\<lambda>bs. bind_res (decode_utf8 bs) (\<lambda>s. Inr (splitlines s)))"

definition ART_STARTED :: string where
  "ART_STARTED = ''ARTBox: signed ART started; switch interpreter, no JIT, no profiling cache''"

definition ART_MESSAGES :: "string list" where
  "ART_MESSAGES = [''ARTBox: entering signed ART JNI_CreateJavaVM'', ART_STARTED, ''hello from ARTBox ART'',
     ''ARTBox: signed ART method returned the expected string'', ''ARTBox: signed ART lifecycle checks passed'',
     ''ARTBox console: hello and lifecycle observed'']"

definition art_logs :: "std \<Rightarrow> fs \<Rightarrow> path \<Rightarrow> json \<Rightarrow> (bundle_msg, unit) res" where
  "art_logs std fs run_dir runtime =
     ensure (bind_res (load_json std fs (run_dir @ [''native.stdout''])) (\<lambda>v. field_eq runtime ''native'' v)) (RuntimeError Result_differs)
    (bind_res (text_lines fs (run_dir @ [''native.stderr''])) (\<lambda>lines.
     require (list_all (\<lambda>message. message \<in> set lines) ART_MESSAGES) (RuntimeError Log_lacks_observations)
    (bind_res (text_lines fs (run_dir @ [''missing-hello.stderr''])) (\<lambda>negative.
     ensure (bind_res (read_bytes fs (run_dir @ [''missing-hello.stdout''])) (\<lambda>bs.
         Inr (bs = [] \<and> ART_STARTED \<in> set negative \<and> ''signed ART runtime result: 3'' \<in> set negative))) (RuntimeError Missing_class_changed)
    (bind_res (load_json std fs (run_dir @ [''missing-console.stdout''])) (\<lambda>dropped.
     ensure (and_m (all_m (\<lambda>k. field_is dropped k (JBool True)) [''runtime_started'', ''dex_executed'', ''cleanup''])
         (bind_res (text_lines fs (run_dir @ [''missing-console.stderr''])) (\<lambda>lines2.
            Inr (''ARTBox console: missing guest output'' \<in> set lines2)))) (RuntimeError Console_control_changed) (Inr ())))))))"

section \<open>Images\<close>

definition platform_dict :: "json \<Rightarrow> string \<Rightarrow> (bundle_msg, json) res" where
  "platform_dict report ending =
     bind_res (jget report ''frameworks'') (\<lambda>f.
     bind_res (mapM (\<lambda>p. bind_res (jget f (p @ ending)) (\<lambda>v. Inr (p, v))) [''macos'', ''ios'']) (\<lambda>d. Inr (JDict d)))"

definition dependency_module :: "path \<Rightarrow> json \<Rightarrow> json \<Rightarrow> string \<Rightarrow> string \<times> string \<Rightarrow> (bundle_msg, art_module) res" where
  "dependency_module base runtime report d x =
     (case x of (elf, framework) \<Rightarrow>
      bind_res (jget report ''libraries'') (\<lambda>libraries.
      bind_res (jget libraries elf) (\<lambda>item.
      ensure (and_m (field_eq item ''framework_name'' (JStr framework))
          (bind_res (jget item ''elf_sha256'') (\<lambda>a. bind_res (jget runtime ''elf_sha256'') (\<lambda>shas.
             bind_res (jget shas elf) (\<lambda>b. Inr (py_eq a b)))))) (RuntimeError Dependency_identity_changed)
     (bind_res (jget item ''frameworks'') (\<lambda>frameworks.
      Inr \<lparr>am_elf = elf, am_framework = framework, am_path = base @ [''m3'', d, elf], am_dir = base @ [''m3'', d], am_signed = frameworks\<rparr>)))))"

definition art_modules :: "path \<Rightarrow> (string \<times> json) list \<Rightarrow> json \<Rightarrow> (bundle_msg, art_module list) res" where
  "art_modules base reports runtime =
     bind_res (dict_get reports ''m2-bionic-startup'') (\<lambda>bionic.
     bind_res (dict_get reports ''m3-art-guest-link'') (\<lambda>art.
     bind_res (dict_get reports ''m3-art-math'') (\<lambda>math.
     bind_res (dict_get reports ''m3-guest-loader'') (\<lambda>loader.
     bind_res (jget bionic ''images'') (\<lambda>images. bind_res (jget images ''libc'') (\<lambda>libc. bind_res (jget libc ''frameworks'') (\<lambda>libc_frameworks.
     bind_res (jget art ''frameworks'') (\<lambda>art_frameworks.
     bind_res (platform_dict math ''-library'') (\<lambda>math_frameworks.
     bind_res (platform_dict loader ''-libdl'') (\<lambda>loader_frameworks.
     bind_res (dict_get reports ''m3-icu-guest-link'') (\<lambda>icu.
     bind_res (dict_get reports ''m3-libcore-guest-link'') (\<lambda>libcore.
     bind_res (mapM (dependency_module base runtime icu ''icu-guest-link'') ICU_LIBRARIES) (\<lambda>icu_modules.
     bind_res (mapM (dependency_module base runtime libcore ''libcore-guest-link'')
        (LIBCORE_LIBRARIES @ [(''libartbox_libcore_check.so'', ''ARTBoxLibcoreCheck'')])) (\<lambda>libcore_modules.
     Inr ([\<lparr>am_elf = ''libc.so'', am_framework = ''ARTBoxBionic'', am_path = base @ [''m2'', ''bionic-startup'', ''libc.so''],
            am_dir = base @ [''m2'', ''bionic-startup'', ''libc''], am_signed = libc_frameworks\<rparr>,
           \<lparr>am_elf = ''libart.so'', am_framework = ''ARTBoxRuntime'', am_path = base @ [''m3'', ''art-guest-link'', ''libart.so''],
            am_dir = base @ [''m3'', ''art-guest-link''], am_signed = art_frameworks\<rparr>,
           \<lparr>am_elf = ''libm.so'', am_framework = ''ARTBoxMath'', am_path = base @ [''m3'', ''art-math'', ''libm.so''],
            am_dir = base @ [''m3'', ''art-math''], am_signed = math_frameworks\<rparr>,
           \<lparr>am_elf = ''libdl.so'', am_framework = ''ARTBoxLoaderLibdl'', am_path = base @ [''m3'', ''guest-loader'', ''libdl.so''],
            am_dir = base @ [''m3'', ''guest-loader''], am_signed = loader_frameworks\<rparr>] @ icu_modules @ libcore_modules)))))))))))))))"

definition art_suffix :: "string \<Rightarrow> string" where
  "art_suffix elf = (if elf = ''libm.so'' then ''library'' else if elf = ''libdl.so'' then ''libdl'' else '''')"

definition art_framework :: "art_module \<Rightarrow> string \<Rightarrow> path" where
  "art_framework m platform = framework_dir (path_div (am_dir m @ [platform]) (art_suffix (am_elf m))) (am_framework m)"

definition art_platform :: "std \<Rightarrow> fs \<Rightarrow> json \<Rightarrow> wrap_layout \<Rightarrow> art_module \<Rightarrow> string \<Rightarrow> (bundle_msg, unit) res" where
  "art_platform std fs runtime layout m platform =
     (let bundle = art_framework m platform; name = am_framework m in
      bind_res (jget (am_signed m) platform) (\<lambda>signing.
      ensure (and_m (field_is signing ''signature_verified'' (JBool True)) (field_eq signing ''entitlements'' (JDict [])))
        (RuntimeError Signatures_required)
     (ensure (bind_res (read_bytes fs (path_div bundle name)) (\<lambda>data.
          bind_res (lift_msg Wrapping (verify_macho (std_sha std) data layout)) (\<lambda>v. field_eq signing ''layout'' (verified_value v))))
        (RuntimeError (Signed_code_changed name))
     (bind_res (if platform = ''macos'' then
          bind_res (digest_of std fs (path_div bundle name)) (\<lambda>d.
          bind_res (jget runtime ''framework_sha256'') (\<lambda>shas.
          ensure (field_eq shas (am_elf m) d) (RuntimeError Executed_library_differs) (Inr ())))
        else Inr ()) (\<lambda>_.
      bind_res (jget signing ''notices'') (check_notices std fs bundle))))))"

definition art_image_of :: "std \<Rightarrow> fs \<Rightarrow> json \<Rightarrow> art_module \<Rightarrow> (bundle_msg, art_image) res" where
  "art_image_of std fs runtime m =
     bind_res (jget runtime ''elf_sha256'') (\<lambda>shas.
     bind_res (jget shas (am_elf m)) (\<lambda>expected.
     ensure (digest_is std fs (am_path m) expected) (RuntimeError (Elf_changed (am_elf m)))
    (bind_res (elf_layout std fs (am_path m)) (\<lambda>layout.
     bind_res (foldM (\<lambda>_. art_platform std fs runtime layout m) () [''macos'', ''ios'']) (\<lambda>_.
     Inr \<lparr>ai_elf = am_elf m, ai_framework = am_framework m, ai_elf_sha256 = expected, ai_layout = layout, ai_frameworks = am_signed m\<rparr>)))))"

section \<open>Runtime resources\<close>

definition art_root :: "fs \<Rightarrow> path \<Rightarrow> (bundle_msg, path) res" where
  "art_root fs run_dir =
     (let roots = (case locate fs run_dir of None \<Rightarrow> [] | Some q \<Rightarrow> filter (\<lambda>n. startswith n ''root-'') (child_names fs q)) in
      require (length roots = 1 \<and> is_dir fs (run_dir @ [hd roots])) (RuntimeError One_root_required) (Inr (run_dir @ [hd roots])))"

definition dex_resource :: "json \<Rightarrow> (bundle_msg, string \<times> json) res" where
  "dex_resource item =
     bind_res (jget item ''name'') (\<lambda>n. bind_res (jget item ''sha256'') (\<lambda>sha.
     case n of JStr s \<Rightarrow> Inr (''system/framework/'' @ s, sha) | _ \<Rightarrow> Inl TypeError))"

definition art_resources :: "json \<Rightarrow> (bundle_msg, (string \<times> json) list) res" where
  "art_resources runtime =
     bind_res (jget runtime ''boot_dex'') (\<lambda>dex.
     bind_res (case dex of JList xs \<Rightarrow> Inr xs | _ \<Rightarrow> Inl TypeError) (\<lambda>items.
     bind_res (mapM (\<lambda>i. jget i ''name'') items) (\<lambda>names.
     require (eq_list names [JStr ''classes.dex'', JStr ''classes2.dex'']) (RuntimeError Boot_dex_changed)
    (bind_res (mapM dex_resource items) (\<lambda>boot.
     bind_res (jget runtime ''hello_sha256'') (\<lambda>hello.
     bind_res (jget runtime ''managed_fixture'') (\<lambda>managed. bind_res (jget managed ''dex'') (\<lambda>mdex. bind_res (jget mdex ''sha256'') (\<lambda>checks.
     bind_res (jget runtime ''data_sha256'') (\<lambda>icu_data.
     Inr (boot @ [(''data/hello.dex'', hello), (''data/runtime-checks.dex'', checks), (''system/i18n/etc/icu/icudt75l.dat'', icu_data)])))))))))))"

definition art_resource :: "std \<Rightarrow> fs \<Rightarrow> path \<Rightarrow> string \<times> json \<Rightarrow> (bundle_msg, unit) res" where
  "art_resource std fs d x = ensure (digest_is std fs (path_div d (fst x)) (snd x)) (RuntimeError (Resource_changed (fst x))) (Inr ())"

section \<open>Staging\<close>

definition art_write :: "path \<Rightarrow> path \<Rightarrow> fs \<Rightarrow> art_module list \<Rightarrow> (string \<times> json) list \<Rightarrow> (bundle_msg, fs) res" where
  "art_write output rootdir fs modules resources =
     bind_res (mkdir_parents fs (output @ [''Resources'', ''ELF''])) (\<lambda>fs1.
     bind_res (foldM (\<lambda>fs m.
        bind_res (copy_tree DEPTH False fs (art_framework m ''ios'') (framework_dir output (am_framework m))) (\<lambda>fs2.
        copyfile fs2 (am_path m) (output @ [''Resources'', ''ELF'', am_elf m]))) fs1 modules) (\<lambda>fs3.
     foldM (\<lambda>fs (name, _).
        let target = path_div (output @ [''Resources'', ''root'']) name in
        bind_res (mkdir_parents fs (butlast target)) (\<lambda>fs4. copyfile fs4 (path_div rootdir name) target)) fs3 resources))"

record art_evidence =
  ae_reports :: "(string \<times> json) list"
  ae_runtime :: json
  ae_modules :: "art_module list"
  ae_images :: "art_image list"
  ae_root :: path
  ae_resources :: "(string \<times> json) list"

text \<open>Every check of \<^verbatim>\<open>prepare\<close>, in its order.\<close>

definition art_checks :: "std \<Rightarrow> fs \<Rightarrow> path \<Rightarrow> string \<Rightarrow> (bundle_msg, art_evidence) res" where
  "art_checks std fs evidence revision =
     bind_res (mapM (\<lambda>n. bind_res (load_json std fs (evidence @ [''artifacts'', n @ ''.json''])) (\<lambda>v. Inr (n, v))) ART_REPORTS) (\<lambda>reports.
     ensure (all_m (\<lambda>(_, r). field_eq r ''project_commit'' (JStr revision)) reports) (RuntimeError Revision_differs)
    (bind_res (dict_get reports ''m3-art-runtime-guest'') (\<lambda>runtime.
     bind_res (lift_msg Accepting (art_validate runtime)) (\<lambda>_.
     bind_res (foldM (\<lambda>_ n. bind_res (dict_get reports n) (\<lambda>r.
        ensure (and_m (field_eq r ''input_revision'' (JStr revision)) (field_is r ''working_tree_dirty'' (JBool False)))
          (RuntimeError Provenance_required) (Inr ()))) () [''m3-art-guest-link'', ''m3-icu-guest-link'', ''m3-libcore-guest-link'']) (\<lambda>_.
     let run_dir = evidence @ [''build'', ''m3'', ''art-runtime-guest''] in
     bind_res (art_logs std fs run_dir runtime) (\<lambda>_.
     bind_res (art_modules (evidence @ [''build'']) reports runtime) (\<lambda>modules.
     bind_res (jget runtime ''elf_sha256'') (\<lambda>shas. bind_res (jset shas) (\<lambda>elf_names.
     bind_res (if set_eq elf_names (strs (map am_elf modules)) then
         bind_res (jget runtime ''framework_sha256'') (\<lambda>f. bind_res (jset f) (\<lambda>names. Inr (set_eq names elf_names)))
       else Inr False) (\<lambda>same.
     require same (RuntimeError Elf_set_changed)
    (bind_res (mapM (art_image_of std fs runtime) modules) (\<lambda>images.
     bind_res (art_root fs run_dir) (\<lambda>rootdir.
     bind_res (art_resources runtime) (\<lambda>resources.
     ensure (bind_res (jget runtime ''managed_fixture'') (\<lambda>m. field_eq m ''project_commit'' (JStr revision)))
       (RuntimeError Managed_revision_changed)
    (bind_res (foldM (\<lambda>_. art_resource std fs rootdir) () resources) (\<lambda>_.
     Inr \<lparr>ae_reports = reports, ae_runtime = runtime, ae_modules = modules, ae_images = images, ae_root = rootdir, ae_resources = resources\<rparr>))))))))))))))))"

definition art_prepare :: "std \<Rightarrow> fs \<Rightarrow> path \<Rightarrow> path \<Rightarrow> string \<Rightarrow> (bundle_msg, fs \<times> art_staged) res" where
  "art_prepare std fs evidence0 output0 revision =
     bind_res (resolve fs evidence0) (\<lambda>evidence.
     bind_res (resolve fs output0) (\<lambda>output.
     bind_res (art_checks std fs evidence revision) (\<lambda>e.
     ensure (output_free fs output) (RuntimeError Output_not_empty)
    (bind_res (art_write output (ae_root e) fs (ae_modules e) (ae_resources e)) (\<lambda>fs1.
     bind_res (mapM (\<lambda>n. bind_res (digest_of std fs1 (evidence @ [''artifacts'', n @ ''.json''])) (\<lambda>d. Inr (n, d))) ART_REPORTS) (\<lambda>reports.
     let staged = \<lparr>as_commit = revision, as_images = ae_images e, as_resources = ae_resources e, as_acceptance = ae_runtime e, as_reports = reports\<rparr> in
     bind_res (dump_json std fs1 (output @ [''Resources'', ''manifest.json'']) (art_staged_value staged)) (\<lambda>fs2. Inr (fs2, staged))))))))"

section \<open>The built application\<close>

definition art_verify_embedded :: "std \<Rightarrow> fs \<Rightarrow> path \<Rightarrow> art_staged \<Rightarrow> (bundle_msg, unit) res" where
  "art_verify_embedded std fs app staged =
     (let resources = app @ [''ARTBoxM3''] in
      ensure (bind_res (load_json std fs (resources @ [''manifest.json''])) (\<lambda>v. Inr (py_eq v (art_staged_value staged))))
        (RuntimeError Manifest_changed)
     (bind_res (foldM (\<lambda>_ i. bind_res (jitems (ai_frameworks i)) (embedded_image std fs app resources (ai_elf i) (ai_framework i)
          (ai_elf_sha256 i) (ai_layout i))) () (as_images staged)) (\<lambda>_.
      foldM (\<lambda>_. art_resource std fs (resources @ [''root''])) () (as_resources staged))))"

section \<open>Nothing is staged without managed execution\<close>

lemma mapM_origin: "mapM f xs = Inr ys \<Longrightarrow> y \<in> set ys \<Longrightarrow> \<exists>x \<in> set xs. f x = Inr y"
  by (metis in_set_conv_nth mapM_length mapM_nth)

lemma art_checks_Inr:
  assumes "art_checks std fs evidence revision = Inr e"
  shows "(\<forall>n \<in> set ART_REPORTS. \<exists>r. load_json std fs (evidence @ [''artifacts'', n @ ''.json'']) = Inr r \<and>
      (field_eq r ''project_commit'' (JStr revision) :: (bundle_msg, bool) res) = Inr True) \<and>
    (\<exists>runtime. load_json std fs (evidence @ [''artifacts'', ''m3-art-runtime-guest.json'']) = Inr runtime \<and> art_validate runtime = Inr () \<and>
      art_logs std fs (evidence @ [''build'', ''m3'', ''art-runtime-guest'']) runtime = Inr ())"
proof -
  obtain reports runtime where r: "mapM (\<lambda>n. bind_res (load_json std fs (evidence @ [''artifacts'', n @ ''.json''])) (\<lambda>v. Inr (n, v))) ART_REPORTS = Inr reports"
    and c: "(all_m (\<lambda>(_, r). field_eq r ''project_commit'' (JStr revision)) reports :: (bundle_msg, bool) res) = Inr True"
    and g: "(dict_get reports ''m3-art-runtime-guest'' :: (bundle_msg, json) res) = Inr runtime"
    and v: "art_validate runtime = Inr ()" "art_logs std fs (evidence @ [''build'', ''m3'', ''art-runtime-guest'']) runtime = Inr ()"
    using assms unfolding art_checks_def Let_def bind_res_Inr_iff ensure_Inr lift_msg_Inr by (elim exE conjE) simp
  have l: "load_json std fs (evidence @ [''artifacts'', fst x @ ''.json'']) = Inr (snd x)" if x: "x \<in> set reports" for x
    using mapM_origin [OF r x] by (auto simp: bind_res_Inr_iff)
  have "\<exists>r. load_json std fs (evidence @ [''artifacts'', n @ ''.json'']) = Inr r \<and>
      (field_eq r ''project_commit'' (JStr revision) :: (bundle_msg, bool) res) = Inr True" if n: "n \<in> set ART_REPORTS" for n
  proof -
    obtain y where y: "y \<in> set reports" "bind_res (load_json std fs (evidence @ [''artifacts'', n @ ''.json''])) (\<lambda>v. Inr (n, v)) = Inr y"
      using mapM_set [OF r n] by blast
    then have "fst y = n" by (auto simp: bind_res_Inr_iff)
    then show ?thesis using l [OF y(1)] c y(1) by (auto simp: all_m_True split_beta)
  qed
  moreover have "(''m3-art-runtime-guest'', runtime) \<in> set reports" using g by (auto simp: dict_get_Inr_iff dest: map_of_SomeD)
  then have "load_json std fs (evidence @ [''artifacts'', ''m3-art-runtime-guest.json'']) = Inr runtime" using l by fastforce
  ultimately show ?thesis using v by blast
qed

lemma art_prepare_refuses:
  assumes "resolve fs evidence0 = (Inr evidence :: (bundle_msg, path) res)"
    and "(\<exists>runtime. load_json std fs (evidence @ [''artifacts'', ''m3-art-runtime-guest.json'']) = Inr runtime \<and> art_validate runtime \<noteq> Inr ()) \<or>
      (\<exists>n \<in> set ART_REPORTS. \<exists>r. load_json std fs (evidence @ [''artifacts'', n @ ''.json'']) = Inr r \<and>
         (field_eq r ''project_commit'' (JStr revision) :: (bundle_msg, bool) res) \<noteq> Inr True) \<or>
      (\<exists>lines. text_lines fs (evidence @ [''build'', ''m3'', ''art-runtime-guest'', ''native.stderr'']) = Inr lines \<and>
         \<not> set ART_MESSAGES \<subseteq> set lines)"
  shows "\<exists>e. art_prepare std fs evidence0 output0 revision = Inl e"
proof (rule ccontr)
  assume "\<nexists>e. art_prepare std fs evidence0 output0 revision = Inl e"
  then obtain r where "art_prepare std fs evidence0 output0 revision = Inr r"
    by (cases "art_prepare std fs evidence0 output0 revision") auto
  then obtain e where c: "art_checks std fs evidence revision = Inr e"
    using assms(1) unfolding art_prepare_def Let_def bind_res_Inr_iff by auto
  obtain runtime where rt: "load_json std fs (evidence @ [''artifacts'', ''m3-art-runtime-guest.json'']) = Inr runtime" "art_validate runtime = Inr ()"
    and lg: "art_logs std fs (evidence @ [''build'', ''m3'', ''art-runtime-guest'']) runtime = Inr ()"
    using art_checks_Inr [OF c] by blast
  obtain lines where "text_lines fs (evidence @ [''build'', ''m3'', ''art-runtime-guest'', ''native.stderr'']) = Inr lines"
    "set ART_MESSAGES \<subseteq> set lines"
    using lg by (auto simp: art_logs_def ensure_Inr bind_res_Inr_iff require_Inr_iff list_all_iff simp del: mapM.simps)
  then show False using art_checks_Inr [OF c] rt assms(2) by auto
qed

lemma art_verify_embedded_iff:
  "art_verify_embedded std fs app staged = Inr () \<longleftrightarrow>
     (\<exists>v. load_json std fs (app @ [''ARTBoxM3'', ''manifest.json'']) = Inr v \<and> py_eq v (art_staged_value staged)) \<and>
     (\<forall>i \<in> set (as_images staged). \<exists>frameworks. ai_frameworks i = JDict frameworks \<and>
        has_digest std fs (path_div (app @ [''ARTBoxM3'', ''ELF'']) (ai_elf i)) (ai_elf_sha256 i) \<and>
        (\<exists>data m v signing items.
           stat fs (path_div (framework_dir (app @ [''Frameworks'']) (ai_framework i)) (ai_framework i)) = Some (File data m) \<and>
           verify_macho (std_sha std) data (ai_layout i) = Inr v \<and> map_of frameworks ''ios'' = Some signing \<and>
           (field_eq signing ''layout'' (verified_value v) :: (bundle_msg, bool) res) = Inr True \<and>
           (jget signing ''notices'' :: (bundle_msg, json) res) = Inr (JDict items) \<and>
           (\<forall>x \<in> set items. has_digest std fs (path_div (framework_dir (app @ [''Frameworks'']) (ai_framework i)) (fst x)) (snd x)))) \<and>
     (\<forall>x \<in> set (as_resources staged). has_digest std fs (path_div (app @ [''ARTBoxM3'', ''root'']) (fst x)) (snd x))"
proof -
  have unit: "(\<exists>x :: unit. P x) \<longleftrightarrow> P ()" for P by (metis (full_types) old.unit.exhaust)
  show ?thesis
    unfolding art_verify_embedded_def Let_def ensure_Inr bind_res_Inr_iff unit foldM_unit_iff art_resource_def embedded_image_Inr
    by (simp add: jitems_Inr digest_is_True)
qed

definition art_started_fs :: fs where
  "art_started_fs = [([''artifacts''], Dir), ([''artifacts'', ''m3-art-runtime-guest.json''], File [123, 125] None)]"

lemma art_started_loads:
  "load_json empty_report_std art_started_fs ([] @ [''artifacts'', ''m3-art-runtime-guest.json'']) = Inr (JDict [])"
  "resolve art_started_fs [] = (Inr [] :: (bundle_msg, path) res)"
  "art_validate (JDict []) \<noteq> Inr ()"
  by code_simp+

lemma art_prepare_refuses_witness:
  "\<exists>e. art_prepare empty_report_std art_started_fs [] [''out''] ''c0ffee'' = Inl e"
  by (rule art_prepare_refuses [OF art_started_loads(2)]) (use art_started_loads(1,3) in blast)

end
