(* ===== verification/App_Build.thy ===== *)
theory App_Build
  imports Framework_Link Bundle_Service Bundle_Art Environment
begin

text \<open>
  The application build (\<^verbatim>\<open>build.py\<close>): the host program with its timed launches, and the iOS
  application with the optional guest content, its signature and the checks before the archive is
  written.  Tools run through \<open>exec\<close>; the names of temporary directories, the clock, the platform
  names and the bytes of an archive of listed files are fields of \<open>app_host\<close>.  A usage error is a value
  like the other errors.
\<close>

record app_host =
  ah_nt :: bool
  ah_platform :: string
  ah_machine :: string
  ah_elapsed :: "nat \<Rightarrow> int"
  ah_temp :: "fs \<Rightarrow> path \<Rightarrow> string \<Rightarrow> string"
  ah_zip :: "fs \<Rightarrow> (string \<times> path) list \<Rightarrow> bytes"
  ah_canon_sha :: "contract \<Rightarrow> string"
  ah_contract :: contract

record app_args =
  aa_target :: string
  aa_build_dir :: "path option"
  aa_dirs :: "(string \<times> path option) list"
  aa_config :: string
  aa_generator :: string
  aa_jobs :: nat
  aa_deployment_target :: string
  aa_bundle_id :: string
  aa_with_guest :: bool
  aa_m2_evidence :: "path option"
  aa_m3_evidence :: "path option"
  aa_m4_evidence :: "path option"
  aa_cmake_arg :: "string list"

datatype (plugins only: code) app_msg =
    App_frame frame_msg
  | App_bundle bundle_msg
  | Startup_contract
  | Requires_xcode
  | Unexpected_location
  | Bad_plist
  | Unexpected_app
  | Framework_differs
  | Not_ios string
  | Library_differs
  | License_missing
  | Elf_differs
  | Manifest_differs
  | App_entitlements
  | Wrong_architecture string
  | Wrong_build_version string
  | Unreadable_permissions
  | Writable_executable
  | Entry_not_linked string
  | Separate_service_build
  | Separate_art_build

section \<open>The host program\<close>

text \<open>\<^verbatim>\<open>statistics.median\<close>; times in milliseconds are exact.\<close>

definition median :: "rat list \<Rightarrow> rat" where
  "median xs =
     (let s = sort xs; n = length xs in
      if odd n then s ! (n div 2) else (s ! (n div 2 - 1) + s ! (n div 2)) / 2)"

definition ready_output :: bytes where
  "ready_output = map (\<lambda>c. of_char c) (''ARTBox ready'' @ [newline])"

definition startup_sample :: "app_host \<Rightarrow> tool \<Rightarrow> path \<Rightarrow> fs \<times> rat list \<Rightarrow> nat \<Rightarrow> (app_msg, fs \<times> rat list) res" where
  "startup_sample ah exec executable st i =
     (let r = exec [abs_str executable] (fst st) in
      require (status r = 0) CalledProcessError
     (let timings = snd st @ [of_int (ah_elapsed ah i) / 1000000] in
      require (replace_all [13, 10] [10] (out_bytes r) = ready_output \<and> err_bytes r = []) (RuntimeError Startup_contract)
        (Inr (after_fs r, timings))))"

record host_metrics =
  hm_samples :: nat
  hm_milliseconds :: "rat list"
  hm_median :: rat
  hm_minimum :: rat
  hm_maximum :: rat
  hm_executable_bytes :: int

definition metrics_value :: "app_host \<Rightarrow> host_metrics \<Rightarrow> json" where
  "metrics_value ah m = JDict
     [(''scope'', JStr ''Host CLI launch through exit, including process/capture overhead; not iOS startup''),
      (''platform'', JStr (ah_platform ah)), (''architecture'', JStr (ah_machine ah)), (''samples'', JInt (int (hm_samples m))),
      (''milliseconds'', JList (map JFloat (hm_milliseconds m))), (''median_ms'', JFloat (hm_median m)), (''minimum_ms'', JFloat (hm_minimum m)),
      (''maximum_ms'', JFloat (hm_maximum m)), (''executable_bytes'', JInt (hm_executable_bytes m))]"

definition host_build :: "std \<Rightarrow> app_host \<Rightarrow> tool \<Rightarrow> path \<Rightarrow> fs \<Rightarrow> app_args \<Rightarrow> path \<Rightarrow> path \<Rightarrow> (app_msg, fs \<times> host_metrics) res" where
  "host_build std ah exec rootdir fs args build artifacts =
     bind_res (run_tool exec fs ([''cmake'', ''-S'', abs_str rootdir, ''-B'', abs_str build, ''-DCMAKE_BUILD_TYPE='' @ aa_config args] @
         (if aa_generator args \<noteq> [] then [''-G'', aa_generator args] else []) @ aa_cmake_arg args)) (\<lambda>(fs1, _).
     bind_res (run_tool exec fs1 [''cmake'', ''--build'', abs_str build, ''--config'', aa_config args, ''--parallel'', show_nat (aa_jobs args)]) (\<lambda>(fs2, _).
     bind_res (run_tool exec fs2 [''ctest'', ''--test-dir'', abs_str build, ''-C'', aa_config args, ''--output-on-failure'']) (\<lambda>(fs3, _).
     let name = ''artbox_host'' @ (if ah_nt ah then ''.exe'' else []);
         executable = (if is_file fs3 (build @ [name]) then build @ [name] else path_div build (aa_config args) @ [name]) in
     bind_res (foldM (startup_sample ah exec executable) (fs3, []) [0..<20]) (\<lambda>(fs4, timings).
     bind_res (file_size fs4 executable) (\<lambda>bytes.
     let m = \<lparr>hm_samples = length timings, hm_milliseconds = timings, hm_median = median timings, hm_minimum = Min (set timings),
         hm_maximum = Max (set timings), hm_executable_bytes = bytes\<rparr> in
     bind_res (dump_json std fs4 (artifacts @ [''host-metrics.json'']) (metrics_value ah m)) (\<lambda>fs5. Inr (fs5, m)))))))"

section \<open>Guest content\<close>

text \<open>\<^verbatim>\<open>run(..., capture=True).decode().strip()\<close>.\<close>

definition captured :: "tool \<Rightarrow> fs \<Rightarrow> string list \<Rightarrow> ('m, fs \<times> string) res" where
  "captured exec fs words =
     bind_res (run_tool exec fs words) (\<lambda>(fs1, out). bind_res (decode_utf8 out) (\<lambda>s. Inr (fs1, strip_space s)))"

definition head_revision :: "tool \<Rightarrow> fs \<Rightarrow> ('m, fs \<times> string) res" where
  "head_revision exec fs = captured exec fs [''git'', ''rev-parse'', ''HEAD'']"

text \<open>\<^verbatim>\<open>tempfile.mkdtemp\<close> in a directory that is made first.\<close>

definition fresh_below :: "app_host \<Rightarrow> fs \<Rightarrow> path \<Rightarrow> string \<Rightarrow> ('m, fs \<times> path) res" where
  "fresh_below ah fs d start =
     bind_res (mkdir_parents fs d) (\<lambda>fs1.
     let p = d @ [start @ ah_temp ah fs1 d start] in
     bind_res (make_temporary fs1 p) (\<lambda>fs2. Inr (fs2, p)))"

record app_staged =
  st_guest :: "(path \<times> guest_bundles) option"
  st_bionic :: "(path \<times> json) option"
  st_art :: "(path \<times> art_staged) option"
  st_service :: "(path \<times> service_staged) option"

definition stage_guest :: "std \<Rightarrow> apple \<Rightarrow> tool \<Rightarrow> path \<Rightarrow> app_args \<Rightarrow> path \<Rightarrow> fs \<Rightarrow> (app_msg, fs \<times> (path \<times> guest_bundles) option) res" where
  "stage_guest std ap exec rootdir args build fs =
     (if aa_with_guest args then
        let fixture_build = build @ [''guest'', ''fixture'']; bundles = build @ [''guest'', ''ios''] in
        bind_res (run_tool exec fs [ap_python ap, ''-B'', abs_str (rootdir @ [''scripts'', ''test_pack.py'']), ''--build-dir'', abs_str fixture_build]) (\<lambda>(fs1, _).
        bind_res (lift_msg App_frame (guest_prepare std ap exec rootdir fs1 (fixture_build @ [''hello.elf'']) bundles ''ios'')) (\<lambda>(fs2, info).
        Inr (fs2, Some (bundles, info))))
      else Inr (fs, None))"

definition stage_bionic :: "std \<Rightarrow> app_host \<Rightarrow> tool \<Rightarrow> app_args \<Rightarrow> path \<Rightarrow> fs \<Rightarrow> (app_msg, fs \<times> (path \<times> json) option) res" where
  "stage_bionic std ah exec args build fs =
     (case aa_m2_evidence args of
        None \<Rightarrow> Inr (fs, None)
      | Some evidence \<Rightarrow>
          let bundles = build @ [''bionic'', ''ios''] in
          bind_res (head_revision exec fs) (\<lambda>(fs1, revision).
          bind_res (lift_msg App_bundle (bionic_prepare std (ah_canon_sha ah) (ah_contract ah) fs1 evidence bundles revision)) (\<lambda>(fs2, info).
          Inr (fs2, Some (bundles, info)))))"

definition stage_art :: "std \<Rightarrow> app_host \<Rightarrow> tool \<Rightarrow> app_args \<Rightarrow> path \<Rightarrow> fs \<Rightarrow> (app_msg, fs \<times> (path \<times> art_staged) option) res" where
  "stage_art std ah exec args build fs =
     (case aa_m3_evidence args of
        None \<Rightarrow> Inr (fs, None)
      | Some evidence \<Rightarrow>
          bind_res (fresh_below ah fs (build @ [''art'']) ''ios-'') (\<lambda>(fs1, bundles).
          bind_res (head_revision exec fs1) (\<lambda>(fs2, revision).
          bind_res (lift_msg App_bundle (art_prepare std fs2 evidence bundles revision)) (\<lambda>(fs3, info).
          Inr (fs3, Some (bundles, info))))))"

definition stage_service :: "std \<Rightarrow> app_host \<Rightarrow> tool \<Rightarrow> path \<Rightarrow> app_args \<Rightarrow> path \<Rightarrow> fs \<Rightarrow> (app_msg, fs \<times> (path \<times> service_staged) option) res" where
  "stage_service std ah exec rootdir args build fs =
     (case aa_m4_evidence args of
        None \<Rightarrow> Inr (fs, None)
      | Some evidence \<Rightarrow>
          bind_res (fresh_below ah fs (build @ [''service'']) ''ios-'') (\<lambda>(fs1, bundles).
          bind_res (head_revision exec fs1) (\<lambda>(fs2, revision).
          bind_res (lift_msg App_bundle (service_prepare std rootdir fs2 evidence bundles revision)) (\<lambda>(fs3, info).
          Inr (fs3, Some (bundles, info))))))"

definition stage_content :: "std \<Rightarrow> app_host \<Rightarrow> apple \<Rightarrow> tool \<Rightarrow> path \<Rightarrow> app_args \<Rightarrow> path \<Rightarrow> fs \<Rightarrow> (app_msg, fs \<times> app_staged) res" where
  "stage_content std ah ap exec rootdir args build fs =
     bind_res (stage_guest std ap exec rootdir args build fs) (\<lambda>(fs1, guest).
     bind_res (stage_bionic std ah exec args build fs1) (\<lambda>(fs2, bionic).
     bind_res (stage_art std ah exec args build fs2) (\<lambda>(fs3, art).
     bind_res (stage_service std ah exec rootdir args build fs3) (\<lambda>(fs4, service).
     Inr (fs4, \<lparr>st_guest = guest, st_bionic = bionic, st_art = art, st_service = service\<rparr>)))))"

section \<open>The application bundle\<close>

definition bundle_flag :: "string \<Rightarrow> (path \<times> 'a) option \<Rightarrow> string" where
  "bundle_flag name staged = ''-DARTBOX_'' @ name @ ''_BUNDLES='' @ (case staged of None \<Rightarrow> [] | Some (p, _) \<Rightarrow> abs_str p)"

definition configure_words :: "path \<Rightarrow> app_args \<Rightarrow> path \<Rightarrow> app_staged \<Rightarrow> string list" where
  "configure_words rootdir args build staged =
     [''cmake'', ''-S'', abs_str rootdir, ''-B'', abs_str build, ''-G'', ''Xcode'', ''-DCMAKE_SYSTEM_NAME=iOS'', ''-DCMAKE_OSX_SYSROOT=iphoneos'',
      ''-DCMAKE_OSX_ARCHITECTURES=arm64'', ''-DCMAKE_OSX_DEPLOYMENT_TARGET='' @ aa_deployment_target args, ''-DARTBOX_BUNDLE_ID='' @ aa_bundle_id args,
      bundle_flag ''GUEST'' (st_guest staged), bundle_flag ''BIONIC'' (st_bionic staged), bundle_flag ''ART'' (st_art staged),
      bundle_flag ''SERVICE'' (st_service staged), ''-DCMAKE_TRY_COMPILE_TARGET_TYPE=STATIC_LIBRARY'', ''-DCMAKE_XCODE_ATTRIBUTE_CODE_SIGNING_ALLOWED=NO''] @
     aa_cmake_arg args"

definition xcode_words :: "app_args \<Rightarrow> path \<Rightarrow> string \<Rightarrow> string list" where
  "xcode_words args build module_cache =
     [''xcodebuild'', ''-project'', abs_str (build @ [''ARTBox.xcodeproj'']), ''-scheme'', ''ARTBox'', ''-configuration'', aa_config args, ''-sdk'', ''iphoneos'',
      ''-destination'', ''generic/platform=iOS'', ''-derivedDataPath'', abs_str (build @ [''derived-data'']), ''OBJROOT='' @ abs_str (build @ [''intermediates'']),
      ''SYMROOT='' @ abs_str (build @ [''products'']), ''CLANG_MODULE_CACHE_PATH='' @ module_cache, ''CODE_SIGNING_ALLOWED=NO'', ''CODE_SIGNING_REQUIRED=NO'',
      ''CODE_SIGN_IDENTITY='', ''build'']"

definition app_path :: "app_args \<Rightarrow> path \<Rightarrow> path" where
  "app_path args build = path_div build (aa_config args @ ''-iphoneos/ARTBox.app'')"

text \<open>A stale bundle is removed, unless it is a link or lies elsewhere.\<close>

definition remove_stale :: "fs \<Rightarrow> path \<Rightarrow> path \<Rightarrow> (app_msg, fs) res" where
  "remove_stale fs build app =
     (if path_exists fs app then
        require (\<not> is_symlink fs app) (RuntimeError Unexpected_location)
       (bind_res (resolve fs app) (\<lambda>real.
        bind_res (resolve fs build) (\<lambda>real_build.
        require (prefix real_build real) (RuntimeError Unexpected_location) (Inr (rmtree fs real)))))
      else Inr fs)"

definition read_plist :: "apple \<Rightarrow> bytes \<Rightarrow> (app_msg, json) res" where
  "read_plist ap data = of_option (ValueError Bad_plist) (ap_plist_loads ap data)"

definition check_info :: "apple \<Rightarrow> fs \<Rightarrow> path \<Rightarrow> app_args \<Rightarrow> path \<Rightarrow> (app_msg, unit) res" where
  "check_info ap fs rootdir args app =
     bind_res (read_bytes fs (rootdir @ [''app'', ''ARTBox.entitlements''])) (\<lambda>d.
     bind_res (read_plist ap d) (\<lambda>declared.
     bind_res (read_bytes fs (app @ [''Info.plist''])) (\<lambda>i.
     bind_res (read_plist ap i) (\<lambda>info.
     ensure (if truthy declared then Inr False else
         all_m (\<lambda>(k, v). bind_res (jget_or info k) (\<lambda>w. Inr (py_eq w (JStr v))))
           [(''CFBundleIdentifier'', aa_bundle_id args), (''MinimumOSVersion'', aa_deployment_target args), (''CFBundleExecutable'', ''ARTBox'')])
       (RuntimeError Unexpected_app) (Inr ())))))"

definition codesign_verify :: "tool \<Rightarrow> fs \<Rightarrow> path \<Rightarrow> ('m, fs) res" where
  "codesign_verify exec fs p =
     bind_res (run_tool exec fs [''codesign'', ''--verify'', ''--strict'', ''--verbose=2'', abs_str p]) (\<lambda>(fs1, _). Inr fs1)"

definition make_app :: "apple \<Rightarrow> tool \<Rightarrow> path \<Rightarrow> env \<Rightarrow> app_args \<Rightarrow> path \<Rightarrow> app_staged \<Rightarrow> fs \<Rightarrow> (app_msg, fs \<times> path) res" where
  "make_app ap exec rootdir environ args build staged fs =
     (let app = app_path args build in
      bind_res (run_tool exec fs (configure_words rootdir args build staged)) (\<lambda>(fs1, _).
      bind_res (remove_stale fs1 build app) (\<lambda>fs2.
      bind_res (dict_get environ ''CLANG_MODULE_CACHE_PATH'') (\<lambda>module_cache.
      bind_res (run_tool exec fs2 (xcode_words args build module_cache)) (\<lambda>(fs3, _).
      bind_res (check_info ap fs3 rootdir args app) (\<lambda>_.
      bind_res (run_tool exec fs3 [''codesign'', ''--force'', ''--sign'', ''-'', ''--timestamp=none'', ''--entitlements'',
          abs_str (rootdir @ [''app'', ''ARTBox.entitlements'']), abs_str app]) (\<lambda>(fs4, _).
      bind_res (codesign_verify exec fs4 app) (\<lambda>fs5. Inr (fs5, app)))))))))"

section \<open>Embedded content\<close>

definition platform_pattern :: regex where
  "platform_pattern = cats [lit ''platform'', spaces1, lit ''IOS'', Cls space_char]"

definition minos_pattern :: "string \<Rightarrow> regex" where
  "minos_pattern version = cats [lit ''minos'', spaces1, lit version, Cls space_char]"

definition built_for :: "string \<Rightarrow> string \<Rightarrow> bool" where
  "built_for version commands \<longleftrightarrow> search platform_pattern commands \<and> search (minos_pattern version) commands"

definition vtool_check :: "tool \<Rightarrow> fs \<Rightarrow> path \<Rightarrow> string \<Rightarrow> (app_msg, fs) res" where
  "vtool_check exec fs binary label =
     bind_res (run_tool exec fs [''xcrun'', ''vtool'', ''-show-build'', abs_str binary]) (\<lambda>(fs1, out).
     bind_res (decode_utf8 out) (\<lambda>commands.
     require (built_for ''15.0'' commands) (RuntimeError (Not_ios label)) (Inr fs1)))"

text \<open>\<^verbatim>\<open>str.capitalize\<close>.\<close>

definition capitalize :: "string \<Rightarrow> string" where
  "capitalize s = (case s of [] \<Rightarrow> [] | c # t \<Rightarrow> ascii_upper c # map ascii_lower t)"

definition embedded_guest :: "std \<Rightarrow> tool \<Rightarrow> path \<Rightarrow> fs \<Rightarrow> string \<times> frame_result \<Rightarrow> (app_msg, fs) res" where
  "embedded_guest std exec app fs x =
     (case x of (kind, details) \<Rightarrow>
      let name = ''ARTBox'' @ capitalize kind; embedded = framework_dir (app @ [''Frameworks'']) name in
      bind_res (codesign_verify exec fs embedded) (\<lambda>fs1.
      ensure (digest_is std fs1 (path_div embedded name) (fr_signed_sha256 details)) (RuntimeError Framework_differs)
        (vtool_check exec fs1 (path_div embedded name) ''guest'')))"

definition frame_value :: "string \<times> frame_result \<Rightarrow> string \<times> json" where
  "frame_value x =
     (case x of (kind, details) \<Rightarrow>
      (kind, JDict [(''binary'', JStr (''ARTBox'' @ capitalize kind)), (''unsigned_bytes'', JInt (fr_unsigned_bytes details)),
        (''signed_bytes'', JInt (fr_signed_bytes details)), (''link_or_copy_and_sign_ns'', JInt (fr_ns details)), (''signed_sha256'', fr_signed_sha256 details)]))"

definition guest_value :: "guest_bundles \<Rightarrow> json" where
  "guest_value g = JDict [(''pack'', gb_pack g), (''toolchain'', gb_toolchain g), (''frameworks'', JDict (map frame_value (gb_frameworks g)))]"

definition verify_hello :: "std \<Rightarrow> tool \<Rightarrow> path \<Rightarrow> path \<Rightarrow> app_staged \<Rightarrow> fs \<Rightarrow> (app_msg, fs) res" where
  "verify_hello std exec app artifacts staged fs =
     (case st_guest staged of
        None \<Rightarrow> Inr fs
      | Some (_, info) \<Rightarrow>
          bind_res (foldM (embedded_guest std exec app) fs (gb_frameworks info)) (\<lambda>fs1.
          dump_json std fs1 (artifacts @ [''guest-bundles.json'']) (guest_value info)))"

definition embedded_bionic :: "std \<Rightarrow> tool \<Rightarrow> path \<Rightarrow> fs \<Rightarrow> string \<times> json \<Rightarrow> (app_msg, fs) res" where
  "embedded_bionic std exec app fs x =
     (let details = snd x in
      bind_res (str_field details ''framework'') (\<lambda>name.
      let embedded = framework_dir (app @ [''Frameworks'']) name in
      bind_res (codesign_verify exec fs embedded) (\<lambda>fs1.
      bind_res (read_bytes fs1 (path_div embedded name)) (\<lambda>data.
      bind_res (jget details ''layout'') (\<lambda>layout_json.
      bind_res (layout_of_value layout_json) (\<lambda>layout.
      bind_res (lift_msg (\<lambda>m. App_bundle (Wrapping m)) (verify_macho (std_sha std) data layout)) (\<lambda>v.
      bind_res (jget details ''frameworks'') (\<lambda>frameworks.
      bind_res (jget frameworks ''ios'') (\<lambda>device.
      ensure (field_eq device ''layout'' (verified_value v)) (RuntimeError Library_differs)
     (bind_res (jget device ''notices'') (\<lambda>notices.
      bind_res (jitems notices) (\<lambda>items.
      bind_res (foldM (\<lambda>_ (notice, sha). ensure (digest_is std fs1 (path_div embedded notice) sha) (RuntimeError License_missing) (Inr ())) () items) (\<lambda>_.
      bind_res (str_field details ''elf'') (\<lambda>elf.
      bind_res (jget details ''elf_sha256'') (\<lambda>elf_sha.
      ensure (digest_is std fs1 (path_div (app @ [''ARTBoxM2'']) elf) elf_sha) (RuntimeError Elf_differs)
        (vtool_check exec fs1 (path_div embedded name) ''M2''))))))))))))))))"

definition verify_bionic :: "std \<Rightarrow> tool \<Rightarrow> path \<Rightarrow> path \<Rightarrow> app_staged \<Rightarrow> fs \<Rightarrow> (app_msg, fs) res" where
  "verify_bionic std exec app artifacts staged fs =
     (case st_bionic staged of
        None \<Rightarrow> Inr fs
      | Some (bundles, info) \<Rightarrow>
          bind_res (jget info ''images'') (\<lambda>images.
          bind_res (jitems images) (\<lambda>items.
          bind_res (foldM (embedded_bionic std exec app) fs items) (\<lambda>fs1.
          bind_res (read_bytes fs1 (app @ [''ARTBoxM2'', ''manifest.json''])) (\<lambda>a.
          bind_res (read_bytes fs1 (bundles @ [''ELF'', ''manifest.json''])) (\<lambda>b.
          require (a = b) (RuntimeError Manifest_differs)
            (dump_json std fs1 (artifacts @ [''m2-bundles.json'']) info)))))))"

definition embedded_signed :: "tool \<Rightarrow> path \<Rightarrow> string \<Rightarrow> fs \<Rightarrow> string \<Rightarrow> (app_msg, fs) res" where
  "embedded_signed exec app label fs name =
     (let embedded = framework_dir (app @ [''Frameworks'']) name in
      bind_res (codesign_verify exec fs embedded) (\<lambda>fs1. vtool_check exec fs1 (path_div embedded name) label))"

definition verify_art :: "std \<Rightarrow> tool \<Rightarrow> path \<Rightarrow> path \<Rightarrow> app_staged \<Rightarrow> fs \<Rightarrow> (app_msg, fs) res" where
  "verify_art std exec app artifacts staged fs =
     (case st_art staged of
        None \<Rightarrow> Inr fs
      | Some (_, info) \<Rightarrow>
          bind_res (lift_msg App_bundle (art_verify_embedded std fs app info)) (\<lambda>_.
          bind_res (foldM (embedded_signed exec app ''ART'') fs (map ai_framework (as_images info))) (\<lambda>fs1.
          dump_json std fs1 (artifacts @ [''m3-bundles.json'']) (art_staged_value info))))"

definition verify_service :: "std \<Rightarrow> tool \<Rightarrow> path \<Rightarrow> path \<Rightarrow> app_staged \<Rightarrow> fs \<Rightarrow> (app_msg, fs) res" where
  "verify_service std exec app artifacts staged fs =
     (case st_service staged of
        None \<Rightarrow> Inr fs
      | Some (_, info) \<Rightarrow>
          bind_res (lift_msg App_bundle (service_verify_embedded std fs app info)) (\<lambda>_.
          bind_res (foldM (embedded_signed exec app ''Service'') fs (map si_framework (ss_images info))) (\<lambda>fs1.
          dump_json std fs1 (artifacts @ [''m4-bundles.json'']) (service_staged_value info))))"

definition verify_content :: "std \<Rightarrow> tool \<Rightarrow> path \<Rightarrow> path \<Rightarrow> app_staged \<Rightarrow> fs \<Rightarrow> (app_msg, fs) res" where
  "verify_content std exec app artifacts staged fs =
     bind_res (verify_hello std exec app artifacts staged fs) (\<lambda>fs1.
     bind_res (verify_bionic std exec app artifacts staged fs1) (\<lambda>fs2.
     bind_res (verify_art std exec app artifacts staged fs2) (verify_service std exec app artifacts staged)))"

section \<open>Reports on the binary\<close>

record app_reports =
  rp_entitlements :: bytes
  rp_build :: bytes
  rp_load_commands :: bytes
  rp_dependencies :: bytes
  rp_symbols :: bytes

definition collect_reports :: "tool \<Rightarrow> path \<Rightarrow> path \<Rightarrow> fs \<Rightarrow> (app_msg, fs \<times> app_reports) res" where
  "collect_reports exec app artifacts fs =
     (let binary = app @ [''ARTBox''] in
      bind_res (run_tool exec fs [''codesign'', ''--display'', ''--entitlements'', '':-'', abs_str app]) (\<lambda>(fs1, entitlements).
      bind_res (run_tool exec fs1 [''xcrun'', ''vtool'', ''-show-build'', abs_str binary]) (\<lambda>(fs2, build_version).
      bind_res (run_tool exec fs2 [''xcrun'', ''otool'', ''-l'', abs_str binary]) (\<lambda>(fs3, load_commands).
      bind_res (run_tool exec fs3 [''xcrun'', ''otool'', ''-L'', abs_str binary]) (\<lambda>(fs4, dependencies).
      bind_res (run_tool exec fs4 [''xcrun'', ''nm'', abs_str binary]) (\<lambda>(fs5, symbols).
      bind_res (foldM (\<lambda>fs (name, data). write_bytes fs (artifacts @ [name]) data) fs5
          [(''embedded-entitlements.plist'', entitlements), (''macho-build.txt'', build_version), (''macho-load-commands.txt'', load_commands),
           (''macho-dependencies.txt'', dependencies), (''macho-symbols.txt'', symbols)]) (\<lambda>fs6.
      Inr (fs6, \<lparr>rp_entitlements = entitlements, rp_build = build_version, rp_load_commands = load_commands, rp_dependencies = dependencies,
        rp_symbols = symbols\<rparr>))))))))"

definition app_initprot_pattern :: regex where
  "app_initprot_pattern = cats [lit ''initprot'', spaces1, Grp 1 (cats [lit ''0x'', Plus (Cls hex_digit)])]"

definition check_segment :: "string \<Rightarrow> (app_msg, unit) res" where
  "check_segment seg =
     (if \<not> contains ''LC_SEGMENT_64'' seg then Inr ()
      else case search_group app_initprot_pattern seg of
        None \<Rightarrow> Inl (RuntimeError Unreadable_permissions)
      | Some h \<Rightarrow> require (hex_number h AND 6 \<noteq> 6) (RuntimeError Writable_executable) (Inr ()))"

definition entry_pattern :: "string \<Rightarrow> regex" where
  "entry_pattern name = cats [Wb, lit name, Eol]"

definition required_entries :: "app_staged \<Rightarrow> string list" where
  "required_entries staged =
     [''_artbox_start''] @ (if st_guest staged \<noteq> None then [''_artbox_run_native_hello''] else []) @
     (if st_bionic staged \<noteq> None then [''_artbox_run_native_bionic''] else []) @
     (if st_art staged \<noteq> None then [''_artbox_run_native_art_runtime_logged''] else []) @
     (if st_service staged \<noteq> None then [''_artbox_run_native_service''] else [])"

definition check_reports :: "apple \<Rightarrow> tool \<Rightarrow> path \<Rightarrow> string \<Rightarrow> app_staged \<Rightarrow> app_reports \<Rightarrow> fs \<Rightarrow> (app_msg, fs) res" where
  "check_reports ap exec app target staged reports fs =
     bind_res (read_plist ap (rp_entitlements reports)) (\<lambda>entitlements.
     require (py_eq entitlements (JDict [])) (RuntimeError App_entitlements)
    (bind_res (captured exec fs [''xcrun'', ''lipo'', ''-archs'', abs_str (app @ [''ARTBox''])]) (\<lambda>(fs1, arch).
     require (arch = ''arm64'') (RuntimeError (Wrong_architecture arch))
    (bind_res (decode_utf8 (rp_build reports)) (\<lambda>build_commands.
     require (built_for target build_commands) (RuntimeError (Wrong_build_version target))
    (bind_res (decode_utf8 (rp_load_commands reports)) (\<lambda>load_commands.
     bind_res (foldM (\<lambda>_. check_segment) () (re_split load_command_pattern load_commands)) (\<lambda>_.
     bind_res (decode_utf8 (rp_symbols reports)) (\<lambda>symbols.
     bind_res (foldM (\<lambda>_ name. require (search (entry_pattern name) symbols) (RuntimeError (Entry_not_linked name)) (Inr ())) () (required_entries staged)) (\<lambda>_.
     Inr fs1))))))))))"

section \<open>The archive and its provenance\<close>

definition payload :: "fs \<Rightarrow> path \<Rightarrow> (string \<times> path) list" where
  "payload fs app = map (\<lambda>rel. (as_posix ([''Payload'', last app] @ rel), app @ rel)) (rglob_files fs app)"

definition write_ipa :: "app_host \<Rightarrow> path \<Rightarrow> path \<Rightarrow> path \<Rightarrow> fs \<Rightarrow> (app_msg, fs) res" where
  "write_ipa ah scratch_dir app ipa fs =
     (let scratch = scratch_dir @ [''ipa-'' @ ah_temp ah fs scratch_dir ''ipa-'']; staged_ipa = scratch @ [last ipa] in
      bind_res (make_temporary fs scratch) (\<lambda>fs1.
      bind_res (write_bytes fs1 staged_ipa (ah_zip ah fs1 (payload fs1 app))) (\<lambda>fs2.
      bind_res (copyfile fs2 staged_ipa ipa) (\<lambda>fs3.
      bind_res (resolve fs3 scratch) (\<lambda>real. Inr (rmtree fs3 real))))))"

record app_info =
  in_commit :: string
  in_dirty :: bool
  in_xcode :: string
  in_sdk :: string
  in_target :: string
  in_bundle_id :: string
  in_ipa_sha256 :: json
  in_ipa_bytes :: int
  in_executable_bytes :: int
  in_hello :: bool
  in_bionic :: bool
  in_art :: bool
  in_service :: bool

definition info_value :: "app_info \<Rightarrow> json" where
  "info_value i = JDict
     [(''commit'', JStr (in_commit i)), (''working_tree_dirty'', JBool (in_dirty i)), (''xcode'', JStr (in_xcode i)), (''sdk'', JStr (in_sdk i)),
      (''target'', JStr (in_target i)), (''bundle_id'', JStr (in_bundle_id i)), (''signature'', JStr ''ad-hoc transport; requires provisioning''),
      (''entitlements'', JDict []), (''device_launch_verified'', JBool False), (''ipa_sha256'', in_ipa_sha256 i), (''ipa_bytes'', JInt (in_ipa_bytes i)),
      (''executable_bytes'', JInt (in_executable_bytes i)), (''native_hello_included'', JBool (in_hello i)), (''bionic_suite_included'', JBool (in_bionic i)),
      (''art_runtime_included'', JBool (in_art i)), (''service_runtime_included'', JBool (in_service i))]"

definition provenance :: "std \<Rightarrow> tool \<Rightarrow> app_args \<Rightarrow> path \<Rightarrow> path \<Rightarrow> path \<Rightarrow> app_staged \<Rightarrow> fs \<Rightarrow> (app_msg, fs \<times> app_info) res" where
  "provenance std exec args app ipa artifacts staged fs =
     bind_res (head_revision exec fs) (\<lambda>(fs1, commit).
     bind_res (run_tool exec fs1 [''git'', ''status'', ''--porcelain'']) (\<lambda>(fs2, changes).
     bind_res (captured exec fs2 [''xcodebuild'', ''-version'']) (\<lambda>(fs3, xcode).
     bind_res (captured exec fs3 [''xcrun'', ''--sdk'', ''iphoneos'', ''--show-sdk-version'']) (\<lambda>(fs4, sdk).
     bind_res (digest_of std fs4 ipa) (\<lambda>sha.
     bind_res (file_size fs4 ipa) (\<lambda>ipa_bytes.
     bind_res (file_size fs4 (app @ [''ARTBox''])) (\<lambda>executable_bytes.
     let info = \<lparr>in_commit = commit, in_dirty = (\<not> blank changes), in_xcode = xcode, in_sdk = sdk, in_target = ''arm64-apple-ios'' @ aa_deployment_target args,
         in_bundle_id = aa_bundle_id args, in_ipa_sha256 = sha, in_ipa_bytes = ipa_bytes, in_executable_bytes = executable_bytes,
         in_hello = (st_guest staged \<noteq> None), in_bionic = (st_bionic staged \<noteq> None), in_art = (st_art staged \<noteq> None), in_service = (st_service staged \<noteq> None)\<rparr> in
     bind_res (dump_json std fs4 (artifacts @ [''build-info.json'']) (info_value info)) (\<lambda>fs5. Inr (fs5, info)))))))))"

definition ios_build ::
  "std \<Rightarrow> app_host \<Rightarrow> apple \<Rightarrow> tool \<Rightarrow> path \<Rightarrow> env \<Rightarrow> fs \<Rightarrow> app_args \<Rightarrow> path \<Rightarrow> path \<Rightarrow> (app_msg, fs \<times> app_info) res"
where
  "ios_build std ah ap exec rootdir environ fs args build artifacts =
     require (ap_darwin ap) (RuntimeError Requires_xcode)
    (bind_res (stage_content std ah ap exec rootdir args build fs) (\<lambda>(fs1, staged).
     bind_res (make_app ap exec rootdir environ args build staged fs1) (\<lambda>(fs2, app).
     bind_res (verify_content std exec app artifacts staged fs2) (\<lambda>fs3.
     bind_res (collect_reports exec app artifacts fs3) (\<lambda>(fs4, reports).
     bind_res (check_reports ap exec app (aa_deployment_target args) staged reports fs4) (\<lambda>fs5.
     bind_res (dict_get environ ''ARTBOX_TEMP_DIR'') (\<lambda>scratch_dir.
     let ipa = artifacts @ [''ARTBox.ipa''] in
     bind_res (write_ipa ah (rel_parts scratch_dir) app ipa fs5) (\<lambda>fs6.
     provenance std exec args app ipa artifacts staged fs6))))))))"

section \<open>The command\<close>

definition override_dirs :: "fs \<Rightarrow> env \<Rightarrow> app_args \<Rightarrow> (app_msg, env) res" where
  "override_dirs fs environ args =
     foldM (\<lambda>e key. case Option.bind (map_of (aa_dirs args) key) id of
         None \<Rightarrow> Inr e
       | Some p \<Rightarrow> bind_res (resolve fs p) (\<lambda>real. Inr (dict_set e (''ARTBOX_'' @ map ascii_upper key @ ''_DIR'') (abs_str real)))) environ
       [''cache'', ''temp'', ''artifacts'']"

definition app_main ::
  "std \<Rightarrow> app_host \<Rightarrow> apple \<Rightarrow> tool \<Rightarrow> env_host \<Rightarrow> env \<Rightarrow> fs \<Rightarrow> app_args \<Rightarrow> (app_msg, fs \<times> (host_metrics + app_info)) res"
where
  "app_main std ah ap exec eh environ fs args =
     require (\<not> (aa_m4_evidence args \<noteq> None \<and> (aa_m3_evidence args \<noteq> None \<or> aa_m2_evidence args \<noteq> None \<or> aa_with_guest args))) (RuntimeError Separate_service_build)
    (require (\<not> (aa_m3_evidence args \<noteq> None \<and> (aa_m2_evidence args \<noteq> None \<or> aa_with_guest args))) (RuntimeError Separate_art_build)
    (bind_res (override_dirs fs environ args) (\<lambda>environ1.
     bind_res (environment eh fs environ1) (\<lambda>(fs1, configured).
     bind_res (case aa_build_dir args of
         Some p \<Rightarrow> resolve fs1 p
       | None \<Rightarrow> bind_res (dict_get configured ''ARTBOX_BUILD_DIR'') (\<lambda>d. Inr (rel_parts d @ [aa_target args]))) (\<lambda>build.
     bind_res (dict_get configured ''ARTBOX_ARTIFACTS_DIR'') (\<lambda>d.
     let artifacts = rel_parts d in
     if aa_target args = ''host'' then
       bind_res (host_build std ah exec (eh_root eh) fs1 args build artifacts) (\<lambda>(fs2, m). Inr (fs2, Inl m))
     else
       bind_res (ios_build std ah ap exec (eh_root eh) configured fs1 args build artifacts) (\<lambda>(fs2, info). Inr (fs2, Inr info))))))))"

section \<open>What an archive guarantees\<close>

definition never_write_execute :: "string \<Rightarrow> bool" where
  "never_write_execute listing \<longleftrightarrow>
     list_all (\<lambda>seg. contains ''LC_SEGMENT_64'' seg \<longrightarrow>
       (\<exists>h. search_group app_initprot_pattern seg = Some h \<and> \<not> (bit (hex_number h) 1 \<and> bit (hex_number h) 2))) (re_split load_command_pattern listing)"

lemma bit_six: "bit (6 :: int) k \<longleftrightarrow> k = 1 \<or> k = 2"
proof (cases k)
  case (Suc j)
  then show ?thesis by (cases j) (simp_all add: bit_Suc bit_1_iff)
qed simp

lemma and_six_iff: "(n :: int) AND 6 = 6 \<longleftrightarrow> bit n 1 \<and> bit n 2"
  by (auto simp: bit_eq_iff [of "n AND 6"] bit_and_iff bit_six)

lemma check_segment_safe:
  "foldM (\<lambda>_. check_segment) () (re_split load_command_pattern listing) = Inr () \<longleftrightarrow> never_write_execute listing"
proof -
  have "check_segment seg = Inr () \<longleftrightarrow> (contains ''LC_SEGMENT_64'' seg \<longrightarrow>
      (\<exists>h. search_group app_initprot_pattern seg = Some h \<and> \<not> (bit (hex_number h) 1 \<and> bit (hex_number h) 2)))" for seg
    unfolding check_segment_def by (auto simp: and_six_iff res_simps split: option.splits)
  then show ?thesis by (simp add: foldM_unit_iff never_write_execute_def list_all_iff)
qed

lemma service_prepare_accepted:
  assumes "service_prepare std rootdir fs evidence0 output0 revision = Inr (fs', staged)"
  shows "service_validate (ss_acceptance staged) = Inr ()"
proof -
  obtain evidence fs0 report images sha where "service_checks std rootdir fs evidence revision report = Inr images"
      "staged = \<lparr>ss_commit = revision, ss_images = images, ss_acceptance = report, ss_report_sha256 = sha\<rparr>"
    using assms by (auto simp: service_prepare_def Let_def bind_res_Inr_iff ensure_Inr)
  then show ?thesis by (auto simp: service_checks_def bind_res_Inr_iff lift_msg_Inr)
qed

lemma art_prepare_accepted:
  assumes "art_prepare std fs evidence0 output0 revision = Inr (fs', staged)"
  shows "art_validate (as_acceptance staged) = Inr ()"
proof -
  obtain evidence e reports where e: "art_checks std fs evidence revision = Inr e"
      "staged = \<lparr>as_commit = revision, as_images = ae_images e, as_resources = ae_resources e, as_acceptance = ae_runtime e, as_reports = reports\<rparr>"
    using assms by (auto simp: art_prepare_def Let_def bind_res_Inr_iff ensure_Inr)
  obtain runtime where "art_validate runtime = Inr ()" "ae_runtime e = runtime"
    using e(1) unfolding art_checks_def Let_def bind_res_Inr_iff ensure_Inr lift_msg_Inr require_Inr_iff by (elim exE conjE) (auto simp: res_simps)
  then show ?thesis using e(2) by simp
qed

lemma stage_service_accepted:
  assumes "stage_service std ah exec rootdir args build fs = Inr (fs', service)"
  shows "(service \<noteq> None) = (aa_m4_evidence args \<noteq> None)"
    and "service = Some (d, staged) \<Longrightarrow> service_validate (ss_acceptance staged) = Inr ()"
  using assms by (auto simp: stage_service_def bind_res_Inr_iff lift_msg_Inr dest: service_prepare_accepted split: option.splits)

lemma stage_art_accepted:
  assumes "stage_art std ah exec args build fs = Inr (fs', art)"
  shows "(art \<noteq> None) = (aa_m3_evidence args \<noteq> None)"
    and "art = Some (d, staged) \<Longrightarrow> art_validate (as_acceptance staged) = Inr ()"
  using assms by (auto simp: stage_art_def bind_res_Inr_iff lift_msg_Inr dest: art_prepare_accepted split: option.splits)

lemma stage_content_accepted:
  assumes "stage_content std ah ap exec rootdir args build fs = Inr (fs', staged)"
  shows "(st_service staged \<noteq> None) = (aa_m4_evidence args \<noteq> None)" "(st_art staged \<noteq> None) = (aa_m3_evidence args \<noteq> None)"
    and "st_service staged = Some (d, s) \<Longrightarrow> service_validate (ss_acceptance s) = Inr ()"
    and "st_art staged = Some (d', a) \<Longrightarrow> art_validate (as_acceptance a) = Inr ()"
proof -
  obtain fs1 guest fs2 bionic fs3 art service where s: "stage_art std ah exec args build fs2 = Inr (fs3, art)"
      "stage_service std ah exec rootdir args build fs3 = Inr (fs', service)"
      "staged = \<lparr>st_guest = guest, st_bionic = bionic, st_art = art, st_service = service\<rparr>"
    using assms by (auto simp: stage_content_def bind_res_Inr_iff)
  show "(st_service staged \<noteq> None) = (aa_m4_evidence args \<noteq> None)" "(st_art staged \<noteq> None) = (aa_m3_evidence args \<noteq> None)"
    using s(3) stage_service_accepted(1) [OF s(2)] stage_art_accepted(1) [OF s(1)] by simp_all
  show "st_service staged = Some (d, s) \<Longrightarrow> service_validate (ss_acceptance s) = Inr ()"
    "st_art staged = Some (d', a) \<Longrightarrow> art_validate (as_acceptance a) = Inr ()"
    using s(3) stage_service_accepted(2) [OF s(2)] stage_art_accepted(2) [OF s(1)] by simp_all
qed

lemma verify_content_embedded:
  assumes "verify_content std exec app artifacts staged fs = Inr fs'"
  shows "st_service staged = Some (d, s) \<Longrightarrow> \<exists>fs1. service_verify_embedded std fs1 app s = Inr ()"
    and "st_art staged = Some (d', a) \<Longrightarrow> \<exists>fs1. art_verify_embedded std fs1 app a = Inr ()"
  using assms by (auto simp: verify_content_def verify_service_def verify_art_def bind_res_Inr_iff lift_msg_Inr)

lemma check_reports_accepted:
  assumes "check_reports ap exec app target staged reports fs = Inr fs'"
  shows "(\<exists>v. ap_plist_loads ap (rp_entitlements reports) = Some v \<and> py_eq v (JDict [])) \<and>
    (\<exists>listing. decode_utf8 (rp_load_commands reports) = (Inr listing :: (app_msg, string) res) \<and> never_write_execute listing) \<and>
    (\<exists>symbols. decode_utf8 (rp_symbols reports) = (Inr symbols :: (app_msg, string) res) \<and> list_all (\<lambda>name. search (entry_pattern name) symbols) (required_entries staged))"
proof -
  obtain v listing symbols where r: "ap_plist_loads ap (rp_entitlements reports) = Some v" "py_eq v (JDict [])"
      "decode_utf8 (rp_load_commands reports) = (Inr listing :: (app_msg, string) res)"
      "foldM (\<lambda>_. check_segment) () (re_split load_command_pattern listing) = Inr ()"
      "decode_utf8 (rp_symbols reports) = (Inr symbols :: (app_msg, string) res)"
      "foldM (\<lambda>_ name. require (search (entry_pattern name) symbols) (RuntimeError (Entry_not_linked name)) (Inr ())) () (required_entries staged) = Inr ()"
    using assms by (auto simp: check_reports_def read_plist_def res_simps)
  have "list_all (\<lambda>name. search (entry_pattern name) symbols) (required_entries staged)"
    using r(6) by (simp add: foldM_unit_iff list_all_iff require_Inr_iff)
  then show ?thesis using r check_segment_safe by blast
qed


text \<open>A build without guest content whose tools report an acceptable application.\<close>

definition e_std :: std where
  "e_std = \<lparr>std_sha = (\<lambda>_. ''h''), std_loads = (\<lambda>_. None), std_dumps = (\<lambda>_. [])\<rparr>"

definition e_args :: app_args where
  "e_args = \<lparr>aa_target = ''ios'', aa_build_dir = None, aa_dirs = [], aa_config = ''R'', aa_generator = [], aa_jobs = 2, aa_deployment_target = ''15.0'',
     aa_bundle_id = ''i'', aa_with_guest = False, aa_m2_evidence = None, aa_m3_evidence = None, aa_m4_evidence = None, aa_cmake_arg = []\<rparr>"

definition e_app :: path where
  "e_app = [''b'', ''R-iphoneos'', ''ARTBox.app'']"

definition e_fs :: fs where
  "e_fs = [([''b''], Dir), ([''b'', ''R-iphoneos''], Dir), ([''a''], Dir), ([''t''], Dir), ([''app''], Dir), ([''app'', ''ARTBox.entitlements''], File [] None)]"

definition e_output :: "string list \<Rightarrow> string" where
  "e_output words = (case words of
       _ # w # _ \<Rightarrow> if w = ''vtool'' then ''platform IOS minos 15.0 '' else if w = ''otool'' then ''Load command 0 LC_SEGMENT_64 initprot 0x5''
         else if w = ''nm'' then ''T _artbox_start'' else if w = ''lipo'' then ''arm64'' else []
     | _ \<Rightarrow> [])"

definition e_exec :: tool where
  "e_exec words fs = \<lparr>status = 0, out_bytes = encode_utf8 (e_output words), err_bytes = [],
     after_fs = (if hd words = ''xcodebuild'' then fs @ [(e_app, Dir), (e_app @ [''Info.plist''], File [1] None), (e_app @ [''ARTBox''], File [] None)] else fs)\<rparr>"

definition e_apple :: apple where
  "e_apple = \<lparr>ap_darwin = True, ap_python = ''p'', ap_plist_dumps = (\<lambda>_. []),
     ap_plist_loads = (\<lambda>bs. Some (JDict (if bs = [] then [] else
       [(''CFBundleIdentifier'', JStr ''i''), (''MinimumOSVersion'', JStr ''15.0''), (''CFBundleExecutable'', JStr ''ARTBox'')]))),
     ap_elapsed = (\<lambda>_. 0)\<rparr>"

definition e_host :: app_host where
  "e_host = \<lparr>ah_nt = False, ah_platform = [], ah_machine = [], ah_elapsed = (\<lambda>_. 0), ah_temp = (\<lambda>_ _ _. ''x''), ah_zip = (\<lambda>_ _. []),
     ah_canon_sha = (\<lambda>_. []), ah_contract = sample_contract\<rparr>"

definition e_env :: env where
  "e_env = [(''CLANG_MODULE_CACHE_PATH'', ''/m''), (''ARTBOX_TEMP_DIR'', ''/t'')]"

lemma e_build: "is_ok (ios_build e_std e_host e_apple e_exec [] e_env e_fs e_args [''b''] [''a''])"
  by code_simp


section \<open>The measurements\<close>

interpretation startup_samples: recording_loop "startup_sample ah exec executable" snd "\<lambda>i ts. ts = [of_int (ah_elapsed ah i) / 1000000]" for ah exec executable
  by unfold_locales (auto simp: startup_sample_def Let_def res_simps)

lemma median_bounds:
  assumes "xs \<noteq> []"
  shows "Min (set xs) \<le> median xs \<and> median xs \<le> Max (set xs)"
proof -
  have in_range: "Min (set xs) \<le> sort xs ! i \<and> sort xs ! i \<le> Max (set xs)" if "i < length xs" for i
    using that by (metis List.finite_set Max_ge Min_le length_sort nth_mem set_sort)
  have "length xs div 2 < length xs" "length xs div 2 - 1 < length xs" using assms by (simp_all add: less_imp_diff_less)
  then show ?thesis using in_range [of "length xs div 2"] in_range [of "length xs div 2 - 1"] by (auto simp: median_def Let_def field_simps)
qed

text \<open>The times are those of twenty accepted launches in order, and the median lies between the extremes.\<close>

lemma host_build_metrics:
  assumes "host_build std ah exec rootdir fs args build artifacts = Inr (fs', m)"
  shows "hm_milliseconds m = map (\<lambda>i. of_int (ah_elapsed ah i) / 1000000) [0..<20] \<and> hm_samples m = 20 \<and>
    hm_minimum m \<le> hm_median m \<and> hm_median m \<le> hm_maximum m"
proof -
  obtain executable fs3 fs4 where l: "foldM (startup_sample ah exec executable) (fs3, []) [0..<20] = Inr (fs4, hm_milliseconds m)"
    and m: "hm_samples m = length (hm_milliseconds m)" "hm_median m = median (hm_milliseconds m)"
      "hm_minimum m = Min (set (hm_milliseconds m))" "hm_maximum m = Max (set (hm_milliseconds m))"
    using assms by (auto simp: host_build_def Let_def bind_res_Inr_iff)
  have t: "hm_milliseconds m = map (\<lambda>i. of_int (ah_elapsed ah i) / 1000000) [0..<20]"
    using startup_samples.loop_records_keys [OF l, of id "\<lambda>i. [of_int (ah_elapsed ah i) / 1000000]"] by simp
  then have n: "hm_milliseconds m \<noteq> []" by simp
  show ?thesis using median_bounds [OF n] t unfolding m by simp
qed

end
