(* ===== verification/Service_Build.thy ===== *)
theory Service_Build
  imports Native_Build
begin

text \<open>
  Three native builds on top of the Binder build's checks: the VINTF libraries (\<^verbatim>\<open>build_vintf.py\<close>), the
  service manager (\<^verbatim>\<open>build_servicemanager.py\<close>) and the kernel-configuration caller
  (\<^verbatim>\<open>build_kernel_config_check.py\<close>).  What a build takes from outside is the record \<open>build_kit\<close>; units are
  compiled one after the other, as the threads of a pool write disjoint files.
\<close>

record build_kit =
  bk_std :: std
  bk_host :: host
  bk_quote :: "string \<Rightarrow> string"
  bk_ndk :: ndk_host
  bk_exec :: tool
  bk_zip :: "(string \<times> bytes) list \<Rightarrow> bytes"
  bk_root :: path
  bk_cache :: path

datatype (plugins only: code) service_msg =
    Svc_build build_msg
  | Svc_xsdc xsdc_msg
  | Vintf_failed string
  | Vintf_source_changed string
  | Generator_source_changed
  | Vintf_archive_differs
  | Java_home_local_only
  | Service_archive_differs
  | Kernel_failed string
  | Regex_pin_differs
  | Regex_member_count
  | Regex_object_changed
  | Regex_not_selected
  | Parser_input_changed string
  | Parser_license_changed string

definition fresh_output :: "fs \<Rightarrow> path \<Rightarrow> string \<Rightarrow> ('m, fs \<times> path \<times> path) res" where
  "fresh_output fs arg report =
     bind_res (resolve fs arg) (\<lambda>out.
     bind_res (mkdir_parents fs out) (\<lambda>fs1.
     let p = out @ [report] in Inr (if path_exists fs1 p then unlink_path fs1 p else fs1, out, p)))"

definition toolchain_of :: "build_kit \<Rightarrow> fs \<Rightarrow> (service_msg, fs \<times> path \<times> path \<times> (string \<Rightarrow> string)) res" where
  "toolchain_of kit fs =
     bind_res (lift_msg (\<lambda>m. Svc_build (Build_ndk m)) (ndk_obtain (bk_ndk kit) fs (bk_cache kit))) (\<lambda>(fs1, ndk).
     bind_res (lift_msg Svc_build (tools_of (nh_platform (bk_ndk kit)) ndk)) (\<lambda>tools.
     let exe = (if nh_platform (bk_ndk kit) = ''win32'' then ''.exe'' else []) in
     Inr (fs1, ndk, butlast tools, \<lambda>n. abs_str (tools @ [n @ exe]))))"

definition source_dir :: "(string \<times> path) list \<Rightarrow> string \<Rightarrow> string \<Rightarrow> ('m, path) res" where
  "source_dir sources name p = bind_res (dict_get sources name) (\<lambda>d. Inr (path_div d p))"

definition git_head :: "tool \<Rightarrow> fs \<Rightarrow> ('m, fs \<times> string) res" where
  "git_head exec fs =
     bind_res (run_tool exec fs [''git'', ''rev-parse'', ''HEAD'']) (\<lambda>(fs1, head). bind_res (decode_utf8 head) (\<lambda>s. Inr (fs1, strip_space s)))"

section \<open>The VINTF libraries\<close>

definition vintf_run :: "tool \<Rightarrow> fs \<Rightarrow> string list \<Rightarrow> path \<Rightarrow> (service_msg, fs \<times> string) res" where
  "vintf_run exec fs words logfile =
     (let r = exec words fs in
      bind_res (write_bytes (after_fs r) logfile (out_bytes r @ err_bytes r)) (\<lambda>fs1.
      require (status r = 0) (RuntimeError (Vintf_failed (abs_str logfile)))
     (bind_res (decode_utf8 (out_bytes r)) (\<lambda>s. Inr (fs1, s)))))"

definition VINTF_PROJECT :: "string list" where
  "VINTF_PROJECT = [''LICENSE'', ''THIRD_PARTY.md'', ''docs/binder-build.md'', ''scripts/build_vintf.py'', ''scripts/build_binder.py'', ''scripts/binder_aidl.py'',
     ''scripts/bionic_adapt.py'', ''scripts/art_native_tls.py'', ''scripts/tls_adapt.py'', ''scripts/environment.py'', ''scripts/sources.py'', ''scripts/ndk.py'',
     ''scripts/xsdc.py'', ''scripts/jdk.py'', ''tests/test_xsdc.py'', ''tests/test_binder_build.py'', ''third_party/binder/vintf-sources.json'',
     ''third_party/binder/vintf-libraries.json'', ''third_party/binder/xsdc.json'', ''third_party/binder/native-sources.json'', ''third_party/bionic/builtins.json'',
     ''third_party/sources.json'', ''third_party/jdk.json'']"

definition pinned_rows ::
  "(string \<Rightarrow> service_msg) \<Rightarrow> std \<Rightarrow> (string \<times> path) list \<Rightarrow> fs \<Rightarrow> string \<times> source_spec \<Rightarrow> (service_msg, (string \<times> path) list) res"
where
  "pinned_rows msg std sources fs x =
     (case x of (name, spec) \<Rightarrow>
      bind_res (of_option KeyError (sp_files spec)) (mapM (\<lambda>row.
        bind_res (source_dir sources name (pin_path row)) (\<lambda>p.
        ensure (digest_is std fs p (JStr (pin_sha256 row))) (RuntimeError (msg (pin_path row)))
          (Inr (''upstream/'' @ name @ ''/'' @ pin_path row, p))))))"

definition vintf_bundle ::
  "build_kit \<Rightarrow> xsdc_pin \<Rightarrow> fs \<Rightarrow> path \<Rightarrow> (string \<times> source_spec) list \<Rightarrow> (string \<times> path) list \<Rightarrow> path \<Rightarrow> (string \<times> path) list \<Rightarrow> (service_msg, fs \<times> bundle_record) res"
where
  "vintf_bundle kit pin fs out catalog sources xsdc notices =
     (let std = bk_std kit; rootdir = bk_root kit; generator_bundle = xsdc @ [''corresponding-source.zip'']; archive = out @ [''corresponding-source.zip''] in
      bind_res (mapM (pinned_rows Vintf_source_changed std sources fs) catalog) (\<lambda>upstream.
      bind_res (lift_msg Svc_xsdc (verify_generation std rootdir pin fs xsdc)) (\<lambda>generation.
      ensure (bind_res (digest_of std fs generator_bundle) (\<lambda>d. bind_res (jget generation ''source_bundle_sha256'') (\<lambda>e. Inr (py_eq d e))))
        (RuntimeError Generator_source_changed)
     (bind_res (jget generation ''generated_files'') (\<lambda>generated.
      bind_res (jitems generated) (\<lambda>items.
      let files = dict_update [] (concat upstream @ [(''xsdc/generation.json'', xsdc @ [''generation.json'']), (''xsdc/corresponding-source.zip'', generator_bundle)] @
            map (\<lambda>(n, _). (''xsdc/generated/'' @ n, path_div (xsdc @ [''generated'']) n)) items @
            map (\<lambda>(n, p). (''notices/'' @ n, p)) notices @ map (\<lambda>n. (''artbox/'' @ n, path_div rootdir n)) VINTF_PROJECT) in
      bind_res (lift_msg Svc_build (write_bundle (bk_zip kit) fs archive files)) (\<lambda>fs1.
      bind_res (digest_of std fs1 archive) (\<lambda>sha.
      bind_res (digest_each std fs1 (map (\<lambda>n. (n, path_div rootdir n)) VINTF_PROJECT)) (\<lambda>project_files.
      bind_res (digest_each std fs1 notices) (\<lambda>notice_hashes.
      Inr (fs1, \<lparr>br_source_bundle_sha256 = sha, br_project_files = project_files, br_source_notices = source_notices catalog,
        br_ndk_notice_hashes = notice_hashes\<rparr>)))))))))))"

definition vintf_flags :: "path \<Rightarrow> library_graph \<Rightarrow> string list" where
  "vintf_flags rootdir graph =
     [''--target='' @ gr_target graph, ''-std='' @ gr_cpp_standard graph, ''-O1'', ''-DNDEBUG'', ''-fPIC'', ''-fno-exceptions'', ''-fno-rtti'',
      ''-ffixed-x18'', ''-ffixed-x27'', ''-ffixed-x28'', ''-ffunction-sections'', ''-fdata-sections'', ''-march=armv8-a'', ''-mno-outline-atomics'',
      ''-ffile-prefix-map='' @ abs_str rootdir @ ''=.'', ''-fdebug-prefix-map='' @ abs_str rootdir @ ''=.'', ''-DLIBVINTF_TARGET'', ''-Wall'', ''-Wextra'', ''-Werror'',
      ''-Wno-unused-parameter'', ''-Wno-error=deprecated-declarations'', ''-Wno-error=inconsistent-missing-override'', ''-Wno-error=sign-compare'']"

record checked_unit =
  ck_object :: string
  ck_sha256 :: json
  ck_boundary :: object_code
  ck_command :: "string list"

definition vintf_unit ::
  "std \<Rightarrow> tool \<Rightarrow> library_graph \<Rightarrow> (string \<Rightarrow> string) \<Rightarrow> string list \<Rightarrow> string list \<Rightarrow> path \<Rightarrow> fs \<times> checked_unit list \<Rightarrow> unit_job \<Rightarrow>
   (service_msg, fs \<times> checked_unit list) res"
where
  "vintf_unit std exec graph program flags include_flags out st job =
     (case job of (library, name, source, obj) \<Rightarrow>
      bind_res (dict_get (gr_libraries graph) library) (\<lambda>spec.
      let extra = (case map_of (lb_unit_flags spec) name of None \<Rightarrow> [] | Some fl \<Rightarrow> fl); base = butlast obj;
          command = [program ''clang++''] @ flags @ extra @ include_flags @ [''-c'', abs_str source, ''-o'', abs_str obj] in
      bind_res (vintf_run exec (fst st) command (base @ [stem_of name @ ''.log''])) (\<lambda>(fs1, _).
      bind_res (vintf_run exec fs1 [program ''llvm-objdump'', ''-d'', ''--disassemble-zeroes'', ''--no-show-raw-insn'', abs_str obj] (base @ [stem_of name @ ''.asm''])) (\<lambda>(fs2, disassembly).
      bind_res (lift_msg Svc_build (verify_object_code fs2 obj disassembly)) (\<lambda>boundary.
      bind_res (digest_of std fs2 obj) (\<lambda>sha.
      Inr (fs2, snd st @ [\<lparr>ck_object = join_with ''/'' (drop (length out) obj), ck_sha256 = sha, ck_boundary = boundary, ck_command = command\<rparr>])))))))"

definition vintf_archive ::
  "std \<Rightarrow> tool \<Rightarrow> (string \<Rightarrow> string) \<Rightarrow> path \<Rightarrow> unit_job list \<Rightarrow> fs \<times> (string \<times> json) list \<Rightarrow> string \<Rightarrow> (service_msg, fs \<times> (string \<times> json) list) res"
where
  "vintf_archive std exec program out jobs st library =
     (let p = out @ [library @ ''.a'']; fs0 = (if path_exists (fst st) p then unlink_path (fst st) p else fst st);
          members = map (\<lambda>(_, _, _, obj). obj) (filter (\<lambda>(lib, _). lib = library) jobs) in
      bind_res (vintf_run exec fs0 ([program ''llvm-ar'', ''rcsD'', abs_str p] @ map abs_str members) (out @ [library @ ''-archive.log''])) (\<lambda>(fs1, _).
      bind_res (vintf_run exec fs1 [program ''llvm-ar'', ''t'', abs_str p] (out @ [library @ ''-members.log''])) (\<lambda>(fs2, listing).
      require (splitlines listing = map last members) (RuntimeError Vintf_archive_differs)
     (bind_res (digest_of std fs2 p) (\<lambda>sha. Inr (fs2, dict_set (snd st) (library @ ''.a'') sha))))))"

record vintf_report =
  vr_target :: string
  vr_units :: "checked_unit list"
  vr_archives :: "(string \<times> json) list"
  vr_generation_sha256 :: json
  vr_generated_files :: json
  vr_symbols :: symbol_sets
  vr_symbols_sha256 :: json
  vr_compiler_version :: string
  vr_flags :: "string list"
  vr_project_commit :: string
  vr_bundle :: bundle_record

record xsdc_kit =
  xk_jdk :: jdk_host
  xk_manifest :: jdk_manifest
  xk_open_zip :: "bytes \<Rightarrow> (string \<times> bytes) list option"
  xk_testzip :: "bytes \<Rightarrow> bool"
  xk_nt :: bool
  xk_tmpdir :: string
  xk_pathsep :: string

definition vintf_generation ::
  "build_kit \<Rightarrow> xsdc_kit \<Rightarrow> xsdc_pin \<Rightarrow> fs \<Rightarrow> path \<Rightarrow> path option \<Rightarrow> path option \<Rightarrow> (service_msg, fs \<times> path \<times> json) res"
where
  "vintf_generation kit xk pin fs out xsdc_arg java_arg =
     bind_res (case xsdc_arg of
         Some p \<Rightarrow> bind_res (resolve fs p) (\<lambda>q. Inr (fs, q))
       | None \<Rightarrow> bind_res (lift_msg Svc_xsdc (xsdc_prepare (bk_std kit) (bk_host kit) (bk_quote kit) (xk_jdk xk) (xk_manifest xk) (bk_exec kit) (xk_open_zip xk) (xk_testzip xk)
             (bk_zip kit) pin (xk_nt xk) (xk_tmpdir xk) (xk_pathsep xk) (bk_root kit) (bk_cache kit) fs (out @ [''xsdc'']) java_arg)) (\<lambda>(fs1, _). Inr (fs1, out @ [''xsdc'']))) (\<lambda>(fs1, xsdc).
     bind_res (lift_msg Svc_xsdc (verify_generation (bk_std kit) (bk_root kit) pin fs1 xsdc)) (\<lambda>generation. Inr (fs1, xsdc, generation)))"

definition vintf_catalog ::
  "build_kit \<Rightarrow> (string \<times> source_spec) list \<Rightarrow> (string \<times> source_spec) list \<Rightarrow> (string \<times> source_spec) list \<Rightarrow> fs \<Rightarrow> (service_msg, catalog_state) res"
where
  "vintf_catalog kit catalog0 common native fs =
     (let h = bk_host kit; quote = bk_quote kit; cache = bk_cache kit; name = ''binder-build-reference'' in
      bind_res (lift_msg Svc_build (foldM (obtain_catalog h quote ''binder-'' cache) (fs, []) catalog0)) (\<lambda>(fs1, sources0).
      bind_res (lift_msg Svc_build (foldM (add_common h quote common cache) (fs1, catalog0, sources0) [''libbase-dex'', ''liblog-dex'', ''fmtlib-references''])) (\<lambda>(fs2, catalog, sources).
      bind_res (dict_get native name) (\<lambda>spec.
      bind_res (lift_msg Svc_build (obtain_catalog h quote [] cache (fs2, sources) (name, spec))) (\<lambda>(fs3, sources1).
      Inr (fs3, dict_set catalog name spec, sources1))))))"

definition vintf_main ::
  "build_kit \<Rightarrow> xsdc_kit \<Rightarrow> xsdc_pin \<Rightarrow> (vintf_report \<Rightarrow> json) \<Rightarrow> (string \<times> source_spec) list \<Rightarrow> (string \<times> source_spec) list \<Rightarrow> (string \<times> source_spec) list \<Rightarrow> library_graph \<Rightarrow>
   fs \<Rightarrow> path option \<Rightarrow> path option \<Rightarrow> path \<Rightarrow> int \<Rightarrow> (service_msg, fs \<times> vintf_report) res"
where
  "vintf_main kit xk pin encode catalog0 common native graph fs xsdc_arg java_arg output_arg jobs_arg =
     (let std = bk_std kit; exec = bk_exec kit in
      require (1 \<le> jobs_arg) (RuntimeError (Svc_build Jobs_not_positive))
     (require (\<not> (xsdc_arg \<noteq> None \<and> java_arg \<noteq> None)) (RuntimeError Java_home_local_only)
     (bind_res (fresh_output fs output_arg ''build.json'') (\<lambda>(fs1, out, result_path).
      bind_res (vintf_generation kit xk pin fs1 out xsdc_arg java_arg) (\<lambda>(fs2, xsdc, generation).
      bind_res (vintf_catalog kit catalog0 common native fs2) (\<lambda>(fs3, catalog, sources).
      bind_res (toolchain_of kit fs3) (\<lambda>(fs4, ndk, toolchain, program).
      bind_res (lift_msg Svc_build (ndk_notices std (bk_root kit) fs4 ndk toolchain)) (\<lambda>notices.
      let flags = vintf_flags (bk_root kit) graph in
      bind_res (lift_msg Svc_build (include_paths sources (gr_includes graph))) (\<lambda>includes.
      bind_res (source_dir sources ''vintf'' ''include/vintf'') (\<lambda>quoted.
      let include_flags = [''-iquote'', abs_str quoted] @ include_words (includes @ [xsdc @ [''generated'', ''include'']]) in
      bind_res (jget generation ''generated_files'') (\<lambda>generated.
      bind_res (jitems generated) (\<lambda>items.
      bind_res (lift_msg Svc_build (foldM (add_jobs sources (xsdc @ [''generated'']) (dict_keys items) out) (fs4, []) (gr_libraries graph))) (\<lambda>(fs5, jobs).
      bind_res (foldM (vintf_unit std exec graph program flags include_flags out) (fs5, []) jobs) (\<lambda>(fs6, compiled).
      bind_res (foldM (vintf_archive std exec program out jobs) (fs6, []) (dict_keys (gr_libraries graph))) (\<lambda>(fs7, archives).
      bind_res (vintf_run exec fs7 ([program ''llvm-nm'', ''--format=posix'', ''--extern-only''] @ map (\<lambda>(n, _). abs_str (out @ [n])) archives) (out @ [''symbols.log''])) (\<lambda>(fs8, listing).
      let symbols = symbol_inventory listing in
      bind_res (dump_json std fs8 (out @ [''symbols.json'']) (symbols_value symbols)) (\<lambda>fs9.
      bind_res (digest_of std fs9 (xsdc @ [''generation.json''])) (\<lambda>generation_sha.
      bind_res (digest_of std fs9 (out @ [''symbols.json''])) (\<lambda>symbols_sha.
      bind_res (vintf_run exec fs9 [program ''clang++'', ''--version''] (out @ [''compiler.log''])) (\<lambda>(fs10, version).
      bind_res (git_head exec fs10) (\<lambda>(fs11, commit).
      bind_res (vintf_bundle kit pin fs11 out catalog sources xsdc notices) (\<lambda>(fs12, bundle).
      let result = \<lparr>vr_target = gr_target graph, vr_units = compiled, vr_archives = archives, vr_generation_sha256 = generation_sha, vr_generated_files = generated,
          vr_symbols = symbols, vr_symbols_sha256 = symbols_sha, vr_compiler_version = strip_space version,
          vr_flags = map (replace_all (abs_str (bk_root kit)) ''${ARTBOX_ROOT}'') flags, vr_project_commit = commit, vr_bundle = bundle\<rparr> in
      bind_res (dump_json std fs12 result_path (encode result)) (\<lambda>fs13. Inr (fs13, result))))))))))))))))))))))))"

section \<open>The service manager\<close>

definition service_flags :: "path \<Rightarrow> string list" where
  "service_flags rootdir =
     [''--target=aarch64-linux-android35'', ''-O1'', ''-DNDEBUG'', ''-fPIC'', ''-ffixed-x18'', ''-ffixed-x27'', ''-ffixed-x28'', ''-ffunction-sections'', ''-fdata-sections'',
      ''-march=armv8-a'', ''-mno-outline-atomics'', ''-ffile-prefix-map='' @ abs_str rootdir @ ''=.'', ''-fdebug-prefix-map='' @ abs_str rootdir @ ''=.'',
      ''-DANDROID_UTILS_CALLSTACK_ENABLED=0'', ''-DANDROID_UTILS_REF_BASE_DISABLE_IMPLICIT_CONSTRUCTION'', ''-DANDROID_BASE_UNIQUE_FD_DISABLE_IMPLICIT_CONVERSION'',
      ''-DBINDER_WITH_KERNEL_IPC'', ''-Wall'', ''-Wextra'', ''-Werror'', ''-Wno-unused-parameter'', ''-Wno-missing-field-initializers'']"

definition service_units :: "path \<Rightarrow> path \<Rightarrow> (string \<times> path) list" where
  "service_units rootdir service =
     (let fixture = (\<lambda>n. rootdir @ [''fixtures'', ''servicemanager'', n]) in
      [(''main.cpp'', service @ [''main.cpp'']), (''ServiceManager.cpp'', service @ [''ServiceManager.cpp'']), (''artbox-access.cpp'', fixture ''access.cpp''),
       (''access-check.cpp'', fixture ''access_check.cpp''), (''roles.cpp'', fixture ''roles.cpp''), (''kernel-policy.c'', fixture ''kernel_policy.c''),
       (''kernel-policy-check.cpp'', fixture ''kernel_policy_check.cpp''), (''service-policy.c'', rootdir @ [''core'', ''src'', ''service_policy.c''])])"

definition service_extra :: "string \<Rightarrow> bool \<Rightarrow> string list" where
  "service_extra name cpp =
     (if cpp then [''-std=c++20'', ''-fno-rtti'', ''-fno-exceptions'', ''-Wno-c99-designator''] else [''-std=c11'']) @
     (if name = ''ServiceManager.cpp'' then [''-Wno-error=inconsistent-missing-override'', ''-Wno-error=deprecated-declarations''] else [])"

definition service_unit ::
  "std \<Rightarrow> tool \<Rightarrow> (string \<Rightarrow> string) \<Rightarrow> string list \<Rightarrow> string list \<Rightarrow> path \<Rightarrow> fs \<times> checked_unit list \<Rightarrow> string \<times> path \<Rightarrow> (service_msg, fs \<times> checked_unit list) res"
where
  "service_unit std exec program flags inc out st item =
     (case item of (name, source) \<Rightarrow>
      let cpp = endswith (last source) ''.cpp''; obj = out @ [name @ ''.o''];
          command = [program (if cpp then ''clang++'' else ''clang'')] @ flags @ service_extra name cpp @ inc @ [''-c'', abs_str source, ''-o'', abs_str obj] in
      bind_res (lift_msg Svc_build (build_run exec (fst st) command (out @ [name @ ''.log'']))) (\<lambda>(fs1, _).
      bind_res (lift_msg Svc_build (checked_object exec (program ''llvm-objdump'') obj (out @ [name @ ''.asm'']) fs1)) (\<lambda>(fs2, boundary).
      bind_res (digest_of std fs2 obj) (\<lambda>sha.
      Inr (fs2, snd st @ [\<lparr>ck_object = name @ ''.o'', ck_sha256 = sha, ck_boundary = boundary, ck_command = command\<rparr>])))))"

definition SERVICE_PROJECT :: "string list" where
  "SERVICE_PROJECT = [''scripts/build_servicemanager.py'', ''third_party/binder/service-sources.json'', ''third_party/binder/vintf-sources.json'',
     ''core/include/artbox/service_policy.h'', ''core/src/service_policy.c'', ''tests/test_service_policy.cpp'', ''docs/DECISIONS.md'']"

text \<open>\<^verbatim>\<open>sorted(directory.glob('*'))\<close>, the regular files only.\<close>

definition glob_files :: "fs \<Rightarrow> path \<Rightarrow> string list" where
  "glob_files fs d = map hd (filter (\<lambda>rel. length rel = 1) (rglob_files fs d))"

definition service_catalog ::
  "build_kit \<Rightarrow> (string \<times> source_spec) list \<Rightarrow> (string \<times> source_spec) list \<Rightarrow> (string \<times> source_spec) list \<Rightarrow> (string \<times> source_spec) list \<Rightarrow> fs \<Rightarrow> (service_msg, catalog_state) res"
where
  "service_catalog kit native service_sources vintf common fs =
     (let h = bk_host kit; quote = bk_quote kit; cache = bk_cache kit in
      bind_res (lift_msg Svc_build (foldM (obtain_catalog h quote [] cache) (fs, []) native)) (\<lambda>(fs1, sources0).
      bind_res (mapM (\<lambda>n. bind_res (dict_get vintf n) (\<lambda>s. Inr (n, s))) [''vintf'', ''aidl-metadata'', ''hidl-metadata'']) (\<lambda>chosen.
      let selected = dict_update service_sources chosen in
      bind_res (lift_msg Svc_build (foldM (obtain_catalog h quote ''binder-'' cache) (fs1, sources0) selected)) (\<lambda>(fs2, sources1).
      lift_msg Svc_build (foldM (add_common h quote common cache) (fs2, dict_update native selected, sources1) [''binder-aidl'', ''libbase-dex'', ''liblog-dex'', ''fmtlib-references''])))))"

definition service_includes :: "path \<Rightarrow> (string \<times> path) list \<Rightarrow> library_graph \<Rightarrow> path \<Rightarrow> path \<Rightarrow> path \<Rightarrow> (service_msg, path list) res" where
  "service_includes rootdir sources graph aidl out service =
     bind_res (lift_msg Svc_build (include_paths sources (gr_includes graph))) (\<lambda>graph_paths.
     bind_res (mapM (\<lambda>(n, p). source_dir sources n p) [(''fmtlib-references'', ''include''), (''vintf'', ''include''), (''aidl-metadata'', ''metadata/include''),
        (''hidl-metadata'', ''metadata/include'')]) (\<lambda>others.
     Inr (graph_paths @ others @ [aidl @ [''generated'', ''include''], out @ [''include''], service, rootdir @ [''core'', ''include''], rootdir @ [''fixtures'', ''servicemanager'']])))"

record service_report =
  sv_project_commit :: string
  sv_dirty :: bool
  sv_units :: "checked_unit list"
  sv_archive_sha256 :: json
  sv_unit_sources :: "(string \<times> json) list"
  sv_generated_header_sha256 :: json
  sv_generation_sha256 :: json
  sv_generated_files :: json
  sv_compiler_version :: string
  sv_symbols :: symbol_sets
  sv_symbols_sha256 :: json
  sv_bundle :: bundle_record

definition service_archive ::
  "std \<Rightarrow> tool \<Rightarrow> (string \<Rightarrow> string) \<Rightarrow> path \<Rightarrow> checked_unit list \<Rightarrow> fs \<Rightarrow> (service_msg, fs \<times> symbol_sets) res"
where
  "service_archive std exec program out compiled fs =
     (let archive = out @ [''libservicemanager.a'']; fs0 = (if path_exists fs archive then unlink_path fs archive else fs); names = map ck_object compiled in
      bind_res (lift_msg Svc_build (build_run exec fs0 ([program ''llvm-ar'', ''rcsD'', abs_str archive] @ map (\<lambda>n. abs_str (out @ [n])) names) (out @ [''archive.log'']))) (\<lambda>(fs1, _).
      bind_res (lift_msg Svc_build (build_run exec fs1 [program ''llvm-ar'', ''t'', abs_str archive] (out @ [''members.log'']))) (\<lambda>(fs2, listing).
      require (splitlines listing = names) (RuntimeError Service_archive_differs)
     (bind_res (lift_msg Svc_build (build_run exec fs2 [program ''llvm-nm'', ''--format=posix'', ''--extern-only'', abs_str archive] (out @ [''symbols.log'']))) (\<lambda>(fs3, symbols_out).
      let symbols = symbol_inventory symbols_out in
      bind_res (dump_json std fs3 (out @ [''symbols.json'']) (symbols_value symbols)) (\<lambda>fs4. Inr (fs4, symbols)))))))"

definition servicemanager_main ::
  "build_kit \<Rightarrow> aidl_spec \<Rightarrow> (service_report \<Rightarrow> json) \<Rightarrow> (string \<times> source_spec) list \<Rightarrow> (string \<times> source_spec) list \<Rightarrow> (string \<times> source_spec) list \<Rightarrow> (string \<times> source_spec) list \<Rightarrow>
   library_graph \<Rightarrow> fs \<Rightarrow> path \<Rightarrow> path \<Rightarrow> int \<Rightarrow> (service_msg, fs \<times> service_report) res"
where
  "servicemanager_main kit spec encode native service_sources vintf common graph fs aidl_arg output_arg jobs_arg =
     (let std = bk_std kit; exec = bk_exec kit; rootdir = bk_root kit; header = [''include'', ''cutils'', ''android_filesystem_config.h''] in
      require (1 \<le> jobs_arg) (RuntimeError (Svc_build Jobs_not_positive))
     (bind_res (fresh_output fs output_arg ''build.json'') (\<lambda>(fs1, out, report).
      bind_res (resolve fs1 aidl_arg) (\<lambda>aidl.
      bind_res (dict_get common ''binder-aidl'') (\<lambda>aidl_source.
      bind_res (lift_msg Svc_build (verify_aidl std spec aidl_source fs1 aidl)) (\<lambda>generation.
      bind_res (service_catalog kit native service_sources vintf common fs1) (\<lambda>(fs2, catalog, sources).
      bind_res (toolchain_of kit fs2) (\<lambda>(fs3, ndk, toolchain, program).
      bind_res (source_dir sources ''servicemanager'' ''cmds/servicemanager'') (\<lambda>service.
      bind_res (mkdir_parents fs3 (out @ butlast header)) (\<lambda>fs4.
      bind_res (source_dir sources ''binder-platform'' ''libcutils/include/private/android_filesystem_config.h'') (\<lambda>private_header.
      bind_res (read_bytes fs4 private_header) (\<lambda>header_data.
      bind_res (write_bytes fs4 (out @ header) header_data) (\<lambda>fs5.
      bind_res (service_includes rootdir sources graph aidl out service) (\<lambda>includes.
      let units = service_units rootdir service in
      bind_res (foldM (service_unit std exec program (service_flags rootdir) (include_words includes) out) (fs5, []) units) (\<lambda>(fs6, compiled).
      bind_res (service_archive std exec program out compiled fs6) (\<lambda>(fs7, symbols).
      let project = SERVICE_PROJECT @ map (\<lambda>n. ''fixtures/servicemanager/'' @ n) (glob_files fs7 (rootdir @ [''fixtures'', ''servicemanager''])) in
      bind_res (git_head exec fs7) (\<lambda>(fs8, commit).
      bind_res (run_tool exec fs8 [''git'', ''status'', ''--porcelain'']) (\<lambda>(fs9, changes).
      bind_res (digest_of std fs9 (out @ [''libservicemanager.a''])) (\<lambda>archive_sha.
      bind_res (digest_each std fs9 units) (\<lambda>unit_sources.
      bind_res (digest_of std fs9 (out @ header)) (\<lambda>header_sha.
      bind_res (digest_of std fs9 (aidl @ [''generation.json''])) (\<lambda>generation_sha.
      bind_res (jget generation ''generated_files'') (\<lambda>generated.
      bind_res (lift_msg Svc_build (build_run exec fs9 [program ''clang++'', ''--version''] (out @ [''compiler.log'']))) (\<lambda>(fs10, version).
      bind_res (digest_of std fs10 (out @ [''symbols.json''])) (\<lambda>symbols_sha.
      bind_res (lift_msg Svc_build (ndk_notices std rootdir fs10 ndk toolchain)) (\<lambda>notices.
      bind_res (lift_msg Svc_build (bundle_sources std (bk_zip kit) rootdir fs10 out catalog sources aidl notices project
          [(''generated/include/cutils/android_filesystem_config.h'', out @ header)])) (\<lambda>(fs11, bundle).
      let result = \<lparr>sv_project_commit = commit, sv_dirty = (\<not> blank changes), sv_units = compiled, sv_archive_sha256 = archive_sha, sv_unit_sources = unit_sources,
          sv_generated_header_sha256 = header_sha, sv_generation_sha256 = generation_sha, sv_generated_files = generated, sv_compiler_version = strip_space version,
          sv_symbols = symbols, sv_symbols_sha256 = symbols_sha, sv_bundle = bundle\<rparr> in
      bind_res (dump_json std fs11 report (encode result)) (\<lambda>fs12. Inr (fs12, result)))))))))))))))))))))))))))))"

section \<open>The kernel-configuration caller\<close>

type_synonym kernel_state = "fs \<times> string list list"

definition kernel_run :: "tool \<Rightarrow> path \<Rightarrow> kernel_state \<Rightarrow> string list \<Rightarrow> string \<Rightarrow> (service_msg, kernel_state \<times> bytes) res" where
  "kernel_run exec out st words label =
     (let r = exec words (fst st) in
      bind_res (write_bytes (after_fs r) (out @ [label @ ''.stdout'']) (out_bytes r)) (\<lambda>fs1.
      bind_res (write_bytes fs1 (out @ [label @ ''.stderr'']) (err_bytes r)) (\<lambda>fs2.
      require (status r = 0) (RuntimeError (Kernel_failed label)) (Inr ((fs2, snd st @ [words]), out_bytes r)))))"

record regex_pin =
  rx_ndk_revision :: string
  rx_notice :: string
  rx_notice_sha256 :: string
  rx_archive :: string
  rx_member :: string
  rx_member_sha256 :: string

definition kernel_flags :: "path \<Rightarrow> string list" where
  "kernel_flags rootdir =
     [''--target=aarch64-linux-android35'', ''-std=c++20'', ''-O1'', ''-DNDEBUG'', ''-fPIC'', ''-fno-exceptions'', ''-fno-rtti'', ''-march=armv8-a'', ''-mno-outline-atomics'',
      ''-ffixed-x18'', ''-ffixed-x27'', ''-ffixed-x28'', ''-Wall'', ''-Wextra'', ''-Werror'', ''-ffile-prefix-map='' @ abs_str rootdir @ ''=.'',
      ''-fdebug-prefix-map='' @ abs_str rootdir @ ''=.'']"

definition kernel_boundary :: "tool \<Rightarrow> (string \<Rightarrow> string) \<Rightarrow> path \<Rightarrow> kernel_state \<Rightarrow> path \<Rightarrow> (service_msg, kernel_state \<times> object_code) res" where
  "kernel_boundary exec program out st obj =
     bind_res (kernel_run exec out st [program ''llvm-objdump'', ''-d'', ''--disassemble-zeroes'', ''--no-show-raw-insn'', abs_str obj] (last obj @ ''-code'')) (\<lambda>(st1, listing).
     bind_res (decode_utf8 listing) (\<lambda>disassembly.
     bind_res (lift_msg Svc_build (verify_object_code (fst st1) obj disassembly)) (\<lambda>boundary. Inr (st1, boundary))))"

type_synonym kernel_objects = "kernel_state \<times> (string \<times> json \<times> object_code) list"

definition kernel_unit ::
  "std \<Rightarrow> tool \<Rightarrow> (string \<Rightarrow> string) \<Rightarrow> path \<Rightarrow> string list \<Rightarrow> kernel_objects \<Rightarrow> string \<times> path \<Rightarrow> (service_msg, kernel_objects) res"
where
  "kernel_unit std exec program out flags st item =
     (case item of (name, source) \<Rightarrow>
      let obj = out @ [name] in
      bind_res (kernel_run exec out (fst st) ([program ''clang++''] @ flags @ [''-c'', abs_str source, ''-o'', abs_str obj]) name) (\<lambda>(st1, _).
      bind_res (digest_of std (fst st1) obj) (\<lambda>sha.
      bind_res (kernel_boundary exec program out st1 obj) (\<lambda>(st2, boundary).
      Inr (st2, snd st @ [(name, sha, boundary)])))))"

text \<open>The reviewed member of the NDK archive, extracted and checked.\<close>

definition regex_member ::
  "build_kit \<Rightarrow> regex_pin \<Rightarrow> (string \<Rightarrow> string) \<Rightarrow> path \<Rightarrow> path \<Rightarrow> kernel_state \<Rightarrow> (service_msg, kernel_state \<times> path) res"
where
  "regex_member kit rx program toolchain out st =
     (let std = bk_std kit; exec = bk_exec kit; archive = path_div toolchain (rx_archive rx); member = path_div out (rx_member rx) in
      ensure (if rx_ndk_revision rx \<noteq> REVISION then Inr False else digest_is std (fst st) (path_div toolchain (rx_notice rx)) (JStr (rx_notice_sha256 rx))) (RuntimeError Regex_pin_differs)
     (bind_res (kernel_run exec out st [program ''llvm-ar'', ''t'', abs_str archive] ''archive-members'') (\<lambda>(st1, listing).
      bind_res (decode_utf8 listing) (\<lambda>names.
      require (length (filter (\<lambda>n. n = rx_member rx) (splitlines names)) = 1) (RuntimeError Regex_member_count)
     (bind_res (kernel_run exec out st1 [program ''llvm-ar'', ''p'', abs_str archive, rx_member rx] ''extract-regex'') (\<lambda>(st2, data).
      bind_res (write_bytes (fst st2) member data) (\<lambda>fs3.
      ensure (digest_is std fs3 member (JStr (rx_member_sha256 rx))) (RuntimeError Regex_object_changed) (Inr ((fs3, snd st2), member)))))))))"

definition KERNEL_PROJECT :: "string list" where
  "KERNEL_PROJECT = [''LICENSE'', ''THIRD_PARTY.md'', ''fixtures/kernel-config/check.cpp'', ''tests/native_kernel_config.cpp'', ''scripts/build_kernel_config_check.py'',
     ''scripts/environment.py'', ''scripts/sources.py'', ''scripts/ndk.py'', ''scripts/build_binder.py'', ''scripts/binder_aidl.py'', ''scripts/bionic_adapt.py'',
     ''scripts/art_native_tls.py'', ''scripts/tls_adapt.py'', ''third_party/binder/regex-runtime.json'', ''third_party/binder/vintf-sources.json'',
     ''third_party/binder/aidl-tools.json'', ''third_party/bionic/builtins.json'']"

definition kernel_source ::
  "std \<Rightarrow> (string \<times> path) list \<Rightarrow> fs \<Rightarrow> (string \<times> path) list \<times> (string \<times> path) list \<Rightarrow> string \<times> source_spec \<Rightarrow> (service_msg, (string \<times> path) list \<times> (string \<times> path) list) res"
where
  "kernel_source std sources fs st x =
     (case x of (name, spec) \<Rightarrow>
      bind_res (pinned_rows Parser_input_changed std sources fs x) (\<lambda>rows.
      bind_res (source_dir sources name (sp_notice spec)) (\<lambda>notice.
      ensure (digest_is std fs notice (JStr (sp_notice_sha256 spec))) (RuntimeError (Parser_license_changed name))
        (Inr (dict_update (fst st) rows, dict_set (snd st) (name @ ''.txt'') notice)))))"

record kernel_report =
  kr_project_commit :: string
  kr_dirty :: bool
  kr_objects :: "(string \<times> json \<times> object_code) list"
  kr_unit_sources :: "(string \<times> json) list"
  kr_archive_sha256 :: json
  kr_reference_sha256 :: json
  kr_compiler_version :: string
  kr_commands :: "string list list"
  kr_project_sources :: "(string \<times> json) list"
  kr_notices :: "(string \<times> json) list"
  kr_bundle_sha256 :: json

definition kernel_objects_of ::
  "build_kit \<Rightarrow> regex_pin \<Rightarrow> (string \<times> path) list \<Rightarrow> (string \<Rightarrow> string) \<Rightarrow> path \<Rightarrow> kernel_state \<Rightarrow> path \<Rightarrow> (service_msg, kernel_objects \<times> (string \<times> path) list) res"
where
  "kernel_objects_of kit rx sources program out st member =
     (let std = bk_std kit; exec = bk_exec kit; rootdir = bk_root kit in
      bind_res (source_dir sources ''vintf'' ''include'') (\<lambda>inc1.
      bind_res (source_dir sources ''vintf-utils-headers'' ''libutils/binder/include'') (\<lambda>inc2.
      bind_res (source_dir sources ''vintf'' ''include/vintf'') (\<lambda>quoted.
      bind_res (source_dir sources ''vintf'' ''KernelConfigParser.cpp'') (\<lambda>parser_source.
      let flags = kernel_flags rootdir @ include_words [inc1, inc2] @ [''-iquote'', abs_str quoted];
          units = [(''check.o'', rootdir @ [''fixtures'', ''kernel-config'', ''check.cpp'']), (''KernelConfigParser.o'', parser_source),
            (''reference-main.o'', rootdir @ [''tests'', ''native_kernel_config.cpp''])] in
      bind_res (digest_of std (fst st) member) (\<lambda>member_sha.
      bind_res (kernel_boundary exec program out st member) (\<lambda>(st1, boundary).
      bind_res (foldM (kernel_unit std exec program out flags) (st1, [(last member, member_sha, boundary)]) units) (\<lambda>made.
      Inr (made, units)))))))))"

definition kernel_main ::
  "build_kit \<Rightarrow> regex_pin \<Rightarrow> (kernel_report \<Rightarrow> json) \<Rightarrow> (string \<times> source_spec) list \<Rightarrow> fs \<Rightarrow> path \<Rightarrow> (service_msg, fs \<times> kernel_report) res"
where
  "kernel_main kit rx encode selection fs output_arg =
     (let std = bk_std kit; exec = bk_exec kit; rootdir = bk_root kit in
      bind_res (fresh_output fs output_arg ''result.json'') (\<lambda>(fs1, out, report).
      bind_res (toolchain_of kit fs1) (\<lambda>(fs2, ndk, toolchain, program).
      bind_res (mapM (\<lambda>n. bind_res (dict_get selection n) (\<lambda>s. Inr (n, s))) [''vintf'', ''vintf-utils-headers'']) (\<lambda>catalog.
      bind_res (lift_msg Svc_build (foldM (obtain_catalog (bk_host kit) (bk_quote kit) ''binder-'' (bk_cache kit)) (fs2, []) catalog)) (\<lambda>(fs3, sources).
      bind_res (regex_member kit rx program toolchain out (fs3, [])) (\<lambda>(st4, member).
      bind_res (lift_msg Svc_build (ndk_notices std rootdir (fst st4) ndk toolchain)) (\<lambda>notices0.
      bind_res (kernel_objects_of kit rx sources program out st4 member) (\<lambda>((st5, objects), units).
      let binary = out @ [''linux-reference'']; extracted = out @ [''reference-extracted.tsv''] in
      bind_res (kernel_run exec out st5 [program ''clang++'', ''--target=aarch64-linux-android35'', ''-static'', ''-Wl,--build-id=none'', ''-Wl,--why-extract='' @ abs_str extracted,
          abs_str (out @ [''check.o'']), abs_str (out @ [''KernelConfigParser.o'']), abs_str (out @ [''reference-main.o'']), ''-o'', abs_str binary] ''reference-link'') (\<lambda>(st6, _).
      bind_res (read_text (fst st6) extracted) (\<lambda>selected.
      require (count_sub (''libc++_static.a'' @ [CHR 0x28] @ rx_member rx @ [CHR 0x29]) selected = 1) (RuntimeError Regex_not_selected)
     (bind_res (foldM (kernel_source std sources (fst st6)) ([], notices0) catalog) (\<lambda>(rows, notices).
      let files = dict_update rows (map (\<lambda>(n, p). (''notices/'' @ n, p)) notices @ map (\<lambda>n. (''artbox/'' @ n, path_div rootdir n)) KERNEL_PROJECT);
          bundle = out @ [''corresponding-source.zip''] in
      bind_res (lift_msg Svc_build (write_bundle (bk_zip kit) (fst st6) bundle files)) (\<lambda>fs7.
      bind_res (kernel_run exec out (fs7, snd st6) [''git'', ''rev-parse'', ''HEAD''] ''revision'') (\<lambda>(st8, head).
      bind_res (decode_utf8 head) (\<lambda>commit.
      bind_res (kernel_run exec out st8 [''git'', ''status'', ''--porcelain''] ''worktree'') (\<lambda>(st9, changes).
      bind_res (digest_each std (fst st9) units) (\<lambda>unit_sources.
      bind_res (digest_of std (fst st9) (path_div toolchain (rx_archive rx))) (\<lambda>archive_sha.
      bind_res (digest_of std (fst st9) binary) (\<lambda>reference_sha.
      bind_res (kernel_run exec out st9 [program ''clang++'', ''--version''] ''compiler'') (\<lambda>(st10, version_out).
      bind_res (decode_utf8 version_out) (\<lambda>version.
      bind_res (digest_each std (fst st10) (map (\<lambda>n. (n, path_div rootdir n)) KERNEL_PROJECT)) (\<lambda>project_sources.
      bind_res (digest_each std (fst st10) notices) (\<lambda>notice_hashes.
      bind_res (digest_of std (fst st10) bundle) (\<lambda>bundle_sha.
      let result = \<lparr>kr_project_commit = strip_space commit, kr_dirty = (\<not> blank changes), kr_objects = objects, kr_unit_sources = unit_sources, kr_archive_sha256 = archive_sha,
          kr_reference_sha256 = reference_sha, kr_compiler_version = strip_space version, kr_commands = snd st10, kr_project_sources = project_sources,
          kr_notices = notice_hashes, kr_bundle_sha256 = bundle_sha\<rparr> in
      bind_res (dump_json std (fst st10) report (encode result)) (\<lambda>fs11. Inr (fs11, result))))))))))))))))))))))))))"

section \<open>Every recorded object is within the boundary\<close>

interpretation vintf_compiled: recording_loop "vintf_unit std exec graph program flags include_flags out" snd
  "\<lambda>job us. map ck_object us = [job_object out job] \<and> list_all (\<lambda>u. within_boundary (ck_boundary u)) us" for std exec graph program flags include_flags out
  by (unfold_locales, auto simp: vintf_unit_def job_object_def Let_def bind_res_Inr_iff lift_msg_Inr, erule verify_object_code_boundary)

interpretation service_compiled: recording_loop "service_unit std exec program flags inc out" snd
  "\<lambda>item us. map ck_object us = [fst item @ ''.o''] \<and> list_all (\<lambda>u. within_boundary (ck_boundary u)) us" for std exec program flags inc out
  by (unfold_locales, auto simp: service_unit_def Let_def bind_res_Inr_iff lift_msg_Inr, erule checked_object_boundary)

lemma kernel_boundary_within: "kernel_boundary exec program out st obj = Inr (st', oc) \<Longrightarrow> within_boundary oc"
  by (auto simp: kernel_boundary_def bind_res_Inr_iff lift_msg_Inr dest: verify_object_code_boundary)

interpretation kernel_compiled: recording_loop "kernel_unit std exec program out flags" snd
  "\<lambda>item os. map fst os = [fst item] \<and> list_all (\<lambda>(_, _, oc). within_boundary oc) os" for std exec program out flags
  by (unfold_locales, auto simp: kernel_unit_def Let_def bind_res_Inr_iff, erule kernel_boundary_within)

lemma servicemanager_units_checked:
  assumes "servicemanager_main kit spec encode native service_sources vintf common graph fs aidl_arg output_arg jobs_arg = Inr (fs', r)"
  shows "map ck_object (sv_units r) = map (\<lambda>n. n @ ''.o'') [''main.cpp'', ''ServiceManager.cpp'', ''artbox-access.cpp'', ''access-check.cpp'', ''roles.cpp'',
      ''kernel-policy.c'', ''kernel-policy-check.cpp'', ''service-policy.c''] \<and> list_all (\<lambda>u. within_boundary (ck_boundary u)) (sv_units r)"
proof -
  obtain program flags inc out service fs5 fs6 where
      l: "foldM (service_unit (bk_std kit) (bk_exec kit) program flags inc out) (fs5, []) (service_units (bk_root kit) service) = Inr (fs6, sv_units r)"
    using assms unfolding servicemanager_main_def Let_def by (auto simp: bind_res_Inr_iff require_Inr_iff)
  show ?thesis
    using service_compiled.loop_records_keys [OF l, of ck_object "\<lambda>x. [fst x @ ''.o'']"]
      service_compiled.loop_records_each [OF l, of "\<lambda>u. within_boundary (ck_boundary u)"]
    by (simp add: service_units_def Let_def)
qed

lemma kernel_objects_checked:
  assumes "kernel_main kit rx encode selection fs output_arg = Inr (fs', r)"
  shows "\<exists>member. map fst (kr_objects r) = [member, ''check.o'', ''KernelConfigParser.o'', ''reference-main.o''] \<and>
    list_all (\<lambda>(_, _, oc). within_boundary oc) (kr_objects r)"
proof -
  obtain sources program out st member st5 units where k: "kernel_objects_of kit rx sources program out st member = Inr ((st5, kr_objects r), units)"
    using assms unfolding kernel_main_def Let_def by (auto simp: bind_res_Inr_iff require_Inr_iff)
  then obtain flags st1 sha oc a b c where
      l: "foldM (kernel_unit (bk_std kit) (bk_exec kit) program out flags) (st1, [(last member, sha, oc)]) [(''check.o'', a), (''KernelConfigParser.o'', b), (''reference-main.o'', c)] = Inr (st5, kr_objects r)"
      and k: "kernel_boundary (bk_exec kit) program out st member = Inr (st1, oc)"
    by (auto simp: kernel_objects_of_def Let_def bind_res_Inr_iff simp del: foldM.simps)
  note w = kernel_boundary_within [OF k]
  show ?thesis
    using kernel_compiled.loop_records_keys [OF l, of fst "\<lambda>x. [fst x]"] kernel_compiled.loop_records_each [OF l, of "\<lambda>(_, _, oc). within_boundary oc"] w
    by auto
qed

end
