(* ===== verification/Binder_Reference.thy ===== *)
theory Binder_Reference
  imports Native_Build Native_Probes
begin

text \<open>
  The native Binder reference (\<^verbatim>\<open>binder_reference.py\<close>): a pinned Debian package is fetched, two of
  its members are extracted, the kernel module is loaded and mounted for one run of the shared
  fixture and cleaned up on every path, and the portable driver is compared.  The pin is a parsed
  record; downloads, the tar reader and digests are fields of \<open>host\<close>.
\<close>

record pin_file =
  pf_path :: string
  pf_bytes :: int
  pf_sha256 :: string

record kernel_pin =
  kp_kernel :: string
  kp_architecture :: string
  kp_package :: string
  kp_version :: string
  kp_url :: string
  kp_bytes :: int
  kp_sha256 :: string
  kp_module :: pin_file
  kp_notice :: pin_file
  kp_license :: string

datatype (plugins only: code) ref_msg =
    Ref_json bundle_msg
  | Reference_differs string
  | Not_an_archive
  | Invalid_ar_header
  | Invalid_number
  | Member_escapes
  | Duplicate_data_member
  | No_data_member
  | Unreadable_tar
  | Bad_selected_member
  | Selected_missing
  | Unsafe_identity
  | Not_distinct
  | Unsafe_member
  | Unsafe_archive_name
  | Redirected_download
  | Redirected_directory
  | Provenance_changed
  | Not_the_pinned_host
  | Tools_missing
  | Module_present
  | Mount_not_empty
  | Command_failed string int
  | Vermagic_differs
  | License_differs
  | Cases_missing
  | References_remain
  | Unload_differs
  | No_cmake
  | Backing_escaped
  | Driver_differs string
  | Needs_disposable
  | Needs_native
  | No_reviewed_pin

section \<open>The package archive\<close>

definition ref_file :: "host \<Rightarrow> fs \<Rightarrow> path \<Rightarrow> int \<Rightarrow> string \<Rightarrow> (ref_msg, unit) res" where
  "ref_file h fs p bytes sha =
     require (\<not> is_symlink fs p \<and> is_file fs p) (RuntimeError (Reference_differs (last p)))
    (bind_res (read_bytes fs p) (\<lambda>data.
     require (int (length data) = bytes \<and> sha256 h data = sha) (RuntimeError (Reference_differs (last p))) (Inr ())))"

text \<open>\<^verbatim>\<open>int(text)\<close>: surrounding blanks, a sign, and digits with single underscores between them.\<close>

fun digits_value :: "bool \<Rightarrow> int \<Rightarrow> string \<Rightarrow> int option" where
  "digits_value after_digit v [] = (if after_digit then Some v else None)"
| "digits_value after_digit v (c # s) =
     (if digit_char c then digits_value True (10 * v + (of_char c - 48)) s
      else if c = CHR ''_'' \<and> after_digit then digits_value False v s
      else None)"

definition int_value :: "string \<Rightarrow> (ref_msg, int) res" where
  "int_value s =
     of_option (ValueError Invalid_number)
       (case strip_space s of
          [] \<Rightarrow> None
        | c # t \<Rightarrow> if c = CHR ''-'' then map_option uminus (digits_value False 0 t)
            else digits_value False 0 (if c = CHR ''+'' then t else c # t))"

definition remove_suffix :: "string \<Rightarrow> string \<Rightarrow> string" where
  "remove_suffix s e = (if endswith s e then take (length s - length e) s else s)"

definition remove_prefix :: "string \<Rightarrow> string \<Rightarrow> string" where
  "remove_prefix s e = (if startswith s e then drop (length e) s else s)"

definition AR_MAGIC :: bytes where
  "AR_MAGIC = [0x21, 0x3c, 0x61, 0x72, 0x63, 0x68, 0x3e, 0x0a]"

definition DATA_MEMBERS :: "string list" where
  "DATA_MEMBERS = [''data.tar'', ''data.tar.gz'', ''data.tar.xz'']"

text \<open>One header: the name, the size and the place of the contents.\<close>

definition ar_header :: "bytes \<Rightarrow> nat \<Rightarrow> bytes \<Rightarrow> (ref_msg, string \<times> nat) res" where
  "ar_header data pos header =
     require (length header = 60 \<and> drop 58 header = [0x60, 0x0a]) (RuntimeError Invalid_ar_header)
    (bind_res (decode_ascii (take 16 header)) (\<lambda>raw_name.
     bind_res (decode_ascii (take 10 (drop 48 header))) (\<lambda>raw_size.
     bind_res (int_value raw_size) (\<lambda>n.
     require (0 \<le> n \<and> int pos + 60 + n \<le> int (length data)) (RuntimeError Member_escapes)
       (Inr (remove_suffix (strip_space raw_name) ''/'', nat n))))))"

function ar_members :: "bytes \<Rightarrow> nat \<Rightarrow> (nat \<times> nat) option \<Rightarrow> (ref_msg, (nat \<times> nat) option) res" where
  "ar_members data pos found =
     (let header = take 60 (drop pos data) in
      if header = [] then Inr found
      else case ar_header data pos header of
        Inl e \<Rightarrow> Inl e
      | Inr (name, n) \<Rightarrow>
          if name \<in> set DATA_MEMBERS then
            if found \<noteq> None then Inl (RuntimeError Duplicate_data_member)
            else ar_members data (pos + 60 + n + n mod 2) (Some (pos + 60, n))
          else ar_members data (pos + 60 + n + n mod 2) found)"
  by pat_completeness auto

termination
  by (relation "measure (\<lambda>(data, pos, _). length data - pos)") auto

declare ar_members.simps [simp del]

definition select_member ::
  "host \<Rightarrow> path \<Rightarrow> (string \<times> pin_file) list \<Rightarrow> fs \<times> string list \<Rightarrow> member \<Rightarrow> (ref_msg, fs \<times> string list) res"
where
  "select_member h target selected st m =
     (let name = remove_prefix (m_name m) ''./'' in
      case map_of selected name of
        None \<Rightarrow> Inr st
      | Some spec \<Rightarrow>
          require (name \<notin> set (snd st) \<and> m_kind m = KFile \<and> m_size m = pf_bytes spec) (RuntimeError Bad_selected_member)
         (let p = target @ [path_name name] in
          bind_res (write_bytes (fst st) p (m_data m)) (\<lambda>fs1.
          bind_res (ref_file h fs1 p (pf_bytes spec) (pf_sha256 spec)) (\<lambda>_.
          Inr (fs1, snd st @ [name])))))"

definition reference_unpack_selected :: "host \<Rightarrow> fs \<Rightarrow> path \<Rightarrow> path \<Rightarrow> (string \<times> pin_file) list \<Rightarrow> (ref_msg, fs) res" where
  "reference_unpack_selected h fs archive target selected =
     bind_res (read_bytes fs archive) (\<lambda>data.
     require (take 8 data = AR_MAGIC) (RuntimeError Not_an_archive)
    (bind_res (ar_members data 8 None) (\<lambda>found.
     bind_res (of_option (RuntimeError No_data_member) found) (\<lambda>(offset, n).
     bind_res (of_option TarError (open_tar h (take n (drop offset data)))) (\<lambda>members.
     bind_res (foldM (select_member h target selected) (fs, []) members) (\<lambda>(fs1, names).
     require (set names = set (dict_keys selected)) (RuntimeError Selected_missing) (Inr fs1)))))))"

section \<open>Preparation\<close>

definition identity_char :: "string \<Rightarrow> char \<Rightarrow> bool" where
  "identity_char extra c \<longleftrightarrow> (let n = of_char c :: int in (97 \<le> n \<and> n \<le> 122) \<or> (48 \<le> n \<and> n \<le> 57)) \<or> c \<in> set extra"

definition identity :: "string \<Rightarrow> string \<Rightarrow> bool" where
  "identity extra s \<longleftrightarrow> s \<noteq> [] \<and> list_all (identity_char extra) s"

definition deb_name :: "string \<Rightarrow> bool" where
  "deb_name s \<longleftrightarrow> endswith s ''.deb'' \<and> 4 < length s \<and> list_all (\<lambda>c. word_char c \<or> c \<in> set ''.+~-'') s"

text \<open>\<^verbatim>\<open>urlsplit(url).path\<close>.\<close>

definition scheme_char :: "char \<Rightarrow> bool" where
  "scheme_char c \<longleftrightarrow> (word_char c \<and> c \<noteq> CHR ''_'') \<or> c \<in> set ''+-.''"

definition url_path :: "string \<Rightarrow> string" where
  "url_path url =
     (let scheme = takeWhile (\<lambda>c. c \<noteq> CHR '':'') url; after = drop (length scheme) url;
          rest = (if after \<noteq> [] \<and> scheme \<noteq> [] \<and> word_char (hd scheme) \<and> \<not> digit_char (hd scheme) \<and> hd scheme \<noteq> CHR ''_'' \<and> list_all scheme_char scheme
                  then tl after else url);
          no_host = (if startswith rest ''//'' then dropWhile (\<lambda>c. c \<notin> set ''/?#'') (drop 2 rest) else rest) in
      takeWhile (\<lambda>c. c \<noteq> CHR ''?'') (takeWhile (\<lambda>c. c \<noteq> CHR ''#'') no_host))"

definition selected_pins :: "kernel_pin \<Rightarrow> (string \<times> pin_file) list" where
  "selected_pins spec = dict_set [(pf_path (kp_module spec), kp_module spec)] (pf_path (kp_notice spec)) (kp_notice spec)"

definition safe_member :: "string \<Rightarrow> bool" where
  "safe_member name \<longleftrightarrow> \<not> pure_absolute name \<and> ''..'' \<notin> set (pure_parts name) \<and> BACKSLASH \<notin> set name"

definition check_pin :: "kernel_pin \<Rightarrow> (ref_msg, unit) res" where
  "check_pin spec =
     require (identity ''.+-'' (kp_package spec) \<and> identity ''.+~-'' (kp_version spec)) (RuntimeError Unsafe_identity)
    (let names = dict_keys (selected_pins spec) in
     require (length names = 2 \<and> distinct (map path_name names)) (RuntimeError Not_distinct)
    (require (list_all safe_member names) (RuntimeError Unsafe_member) (Inr ())))"

definition fetch_package :: "host \<Rightarrow> fs \<Rightarrow> kernel_pin \<Rightarrow> path \<Rightarrow> (ref_msg, fs) res" where
  "fetch_package h fs spec archive =
     (if is_file fs archive then Inr fs
      else
        let partial_file = butlast archive @ [remove_suffix (last archive) ''.deb'' @ ''.part''] in
        require (\<not> is_symlink fs partial_file) (RuntimeError Redirected_download)
       (bind_res (of_option CalledProcessError (gh_api h (kp_url spec))) (\<lambda>data.
        bind_res (write_bytes fs partial_file data) (\<lambda>fs1.
        bind_res (ref_file h fs1 partial_file (kp_bytes spec) (kp_sha256 spec)) (\<lambda>_.
        replace_path fs1 partial_file archive)))))"

definition file_value :: "pin_file \<Rightarrow> json" where
  "file_value p = JDict [(''path'', JStr (pf_path p)), (''bytes'', JInt (pf_bytes p)), (''sha256'', JStr (pf_sha256 p))]"

definition pin_value :: "kernel_pin \<Rightarrow> json" where
  "pin_value s = JDict
     [(''kernel'', JStr (kp_kernel s)), (''architecture'', JStr (kp_architecture s)), (''package'', JStr (kp_package s)), (''version'', JStr (kp_version s)),
      (''url'', JStr (kp_url s)), (''bytes'', JInt (kp_bytes s)), (''sha256'', JStr (kp_sha256 s)), (''module'', file_value (kp_module s)),
      (''notice'', file_value (kp_notice s)), (''license'', JStr (kp_license s))]"

definition install_package :: "std \<Rightarrow> host \<Rightarrow> fs \<Rightarrow> kernel_pin \<Rightarrow> path \<Rightarrow> path \<Rightarrow> path \<Rightarrow> (ref_msg, fs) res" where
  "install_package std h fs spec archive parent installed =
     (let temporary = parent @ [''extract-'' @ tmp_name h]; staged = temporary @ [''payload''] in
      bind_res (make_temporary fs temporary) (\<lambda>fs1.
      bind_res (mkdir_one fs1 staged) (\<lambda>fs2.
      bind_res (reference_unpack_selected h fs2 archive staged (selected_pins spec)) (\<lambda>fs3.
      bind_res (dump_json std fs3 (staged @ [''pin.json'']) (pin_value spec)) (\<lambda>fs4.
      bind_res (replace_path fs4 staged installed) (\<lambda>fs5.
      bind_res (resolve fs5 temporary) (\<lambda>real. Inr (rmtree fs5 real))))))))"

definition reference_prepare :: "std \<Rightarrow> host \<Rightarrow> fs \<Rightarrow> kernel_pin \<Rightarrow> path \<Rightarrow> (ref_msg, fs \<times> path) res" where
  "reference_prepare std h fs spec cache =
     bind_res (check_pin spec) (\<lambda>_.
     let downloads = cache @ [''downloads'', ''binder-reference'']; archive_name = path_name (url_path (kp_url spec)) in
     bind_res (mkdir_parents fs downloads) (\<lambda>fs1.
     require (deb_name archive_name) (RuntimeError Unsafe_archive_name)
    (let archive = downloads @ [archive_name] in
     bind_res (fetch_package h fs1 spec archive) (\<lambda>fs2.
     bind_res (ref_file h fs2 archive (kp_bytes spec) (kp_sha256 spec)) (\<lambda>_.
     let parent = cache @ [''binder-reference'']; installed = parent @ [kp_package spec @ ''-'' @ kp_version spec] in
     bind_res (mkdir_parents fs2 parent) (\<lambda>fs3.
     require (\<not> is_symlink fs3 installed) (RuntimeError Redirected_directory)
    (bind_res (if path_exists fs3 installed then Inr fs3 else install_package std h fs3 spec archive parent installed) (\<lambda>fs4.
     ensure (bind_res (lift_msg Ref_json (load_json std fs4 (installed @ [''pin.json'']))) (\<lambda>v. Inr (py_eq v (pin_value spec)))) (RuntimeError Provenance_changed)
    (bind_res (foldM (\<lambda>_ (name, item). ref_file h fs4 (installed @ [path_name name]) (pf_bytes item) (pf_sha256 item)) () (selected_pins spec)) (\<lambda>_.
     Inr (fs4, installed)))))))))))"

section \<open>The native run\<close>

text \<open>
  The run changes the kernel and must clean up on every path, so its steps carry the state through
  exceptions: an action gives its result and the state it leaves.  \<open>polls\<close> are the readings of the
  reference count until the deadline, each with whether time is left, and \<open>last_poll\<close> is the reading after them.
\<close>

record native_state =
  ns_fs :: fs
  ns_logs :: "string list"
  ns_loaded :: bool
  ns_mounted :: bool
  ns_record :: "(string \<times> json) list option"

type_synonym 'a act = "native_state \<Rightarrow> (ref_msg, 'a) res \<times> native_state"

definition bind_act :: "'a act \<Rightarrow> ('a \<Rightarrow> 'b act) \<Rightarrow> 'b act" where
  "bind_act a f st = (case a st of (Inl e, st1) \<Rightarrow> (Inl e, st1) | (Inr x, st1) \<Rightarrow> f x st1)"

definition pure_act :: "(ref_msg, 'a) res \<Rightarrow> 'a act" where
  "pure_act r st = (r, st)"

definition update_act :: "(native_state \<Rightarrow> native_state) \<Rightarrow> unit act" where
  "update_act f st = (Inr (), f st)"

definition with_fs :: "(fs \<Rightarrow> (ref_msg, 'a) res) \<Rightarrow> 'a act" where
  "with_fs f st = (f (ns_fs st), st)"

text \<open>\<^verbatim>\<open>try: ... finally: ...\<close>: an exception of the final action replaces the one of the body.\<close>

definition try_finally :: "'a act \<Rightarrow> unit act \<Rightarrow> 'a act" where
  "try_finally body final st =
     (case body st of (r, st1) \<Rightarrow> (case final st1 of (Inl e, st2) \<Rightarrow> (Inl e, st2) | (Inr _, st2) \<Rightarrow> (r, st2)))"

definition call_entry :: "string list \<Rightarrow> string \<Rightarrow> string" where
  "call_entry words printed = join_with '' '' words @ [newline] @ printed"

definition invoke :: "tool \<Rightarrow> string list \<Rightarrow> string act" where
  "invoke exec words st =
     (let r = exec words (ns_fs st); st1 = st\<lparr>ns_fs := after_fs r\<rparr> in
      case bind_res (decode_utf8 (out_bytes r)) (\<lambda>a. bind_res (decode_utf8 (err_bytes r)) (\<lambda>b. Inr (universal_newlines a, universal_newlines b))) of
        Inl e \<Rightarrow> (Inl e, st1)
      | Inr (a, b) \<Rightarrow>
          (if status r = 0 then Inr a else Inl (RuntimeError (Command_failed (path_name (hd words)) (status r))),
           st1\<lparr>ns_logs := ns_logs st1 @ [call_entry words (a @ b)]\<rparr>))"

record native_tools =
  nt_cc :: string
  nt_sudo :: string
  nt_insmod :: string
  nt_modinfo :: string
  nt_mount :: string
  nt_umount :: string

record native_run =
  nr_tools :: native_tools
  nr_spec :: kernel_pin
  nr_root :: path
  nr_mount :: path
  nr_executable :: path
  nr_module :: path
  nr_polls :: "(string \<times> bool) list"
  nr_last_poll :: string

definition CHECK_PATTERN :: regex where
  "CHECK_PATTERN = cats [Wb, lit ''CHECK'', Cls (\<lambda>c. c = CHR 0x28)]"

definition case_count :: "path \<Rightarrow> string \<Rightarrow> int act" where
  "case_count rootdir folder =
     with_fs (\<lambda>fs. bind_res (read_text fs (rootdir @ [''fixtures'', folder, ''check.c''])) (\<lambda>s. Inr (int (length (hits CHECK_PATTERN s)) - 1)))"

definition native_expected :: "int \<Rightarrow> int \<Rightarrow> int \<Rightarrow> json" where
  "native_expected expected file_cases mapping_cases = JDict
     [(''protocol'', JInt 8), (''cases'', JInt expected), (''file_cases'', JInt file_cases), (''mapping_cases'', JInt mapping_cases),
      (''same_pid_rejected'', JBool True), (''threaded_ping_pong'', JBool True), (''death_cases'', JInt 3), (''object_handle_lifecycle'', JBool True),
      (''oneway_lifecycle'', JBool True), (''node_info_lifecycle'', JBool True), (''wait_cases'', JInt 4), (''blocking_threaded_ping_pong'', JBool True),
      (''poll_cases'', JInt 31), (''readiness_lifecycle'', JBool True), (''epoll_snapshot_cases'', JInt 31), (''epoll_registration_controls'', JBool True),
      (''epoll_death_wakeup'', JBool True), (''epoll_mapped_target_lifetime'', JBool True), (''fresh_binderfs_context'', JBool True), (''passed'', JBool True)]"

definition compile_words :: "native_run \<Rightarrow> string list" where
  "compile_words nr =
     (let below = (\<lambda>parts. abs_str (nr_root nr @ parts)) in
      [nt_cc (nr_tools nr), ''-std=c11'', ''-D_DEFAULT_SOURCE'', ''-O2'', ''-Wall'', ''-Wextra'', ''-Werror'', ''-I'', below [''core'', ''include''],
       below [''fixtures'', ''binder-device'', ''check.c''], below [''fixtures'', ''binder-file'', ''check.c''], below [''fixtures'', ''binder-mapping'', ''check.c''],
       below [''fixtures'', ''binder-poll'', ''check.c''], below [''fixtures'', ''binder-transaction'', ''check.c''], below [''core'', ''src'', ''binder_wire.c''],
       below [''tests'', ''native_binder_device.c''], below [''tests'', ''native_binder_wait.c''], below [''tests'', ''native_binder_epoll.c''], ''-pthread'', ''-o'',
       abs_str (nr_executable nr)])"

definition load_words :: "native_run \<Rightarrow> string list" where
  "load_words nr = [nt_sudo (nr_tools nr), ''-n'', nt_insmod (nr_tools nr), abs_str (nr_module nr), ''devices='']"

definition mount_words :: "native_run \<Rightarrow> string list" where
  "mount_words nr = [nt_sudo (nr_tools nr), ''-n'', nt_mount (nr_tools nr), ''-t'', ''binder'', ''-o'', ''max=1'', ''binder'', abs_str (nr_mount nr)]"

definition umount_words :: "native_run \<Rightarrow> string list" where
  "umount_words nr = [nt_sudo (nr_tools nr), ''-n'', nt_umount (nr_tools nr), abs_str (nr_mount nr)]"

definition parse_output :: "std \<Rightarrow> string \<Rightarrow> (ref_msg, json) res" where
  "parse_output std s = of_option (ValueError (Ref_json Invalid_json)) (std_loads std s)"

definition native_body :: "std \<Rightarrow> tool \<Rightarrow> native_run \<Rightarrow> unit act" where
  "native_body std exec nr =
     bind_act (invoke exec [nt_modinfo (nr_tools nr), ''-F'', ''vermagic'', abs_str (nr_module nr)]) (\<lambda>raw_version.
     let version = strip_space raw_version in
     bind_act (pure_act (require (version \<noteq> [] \<and> hd (split_fields [] version) = kp_kernel (nr_spec nr)) (RuntimeError Vermagic_differs) (Inr ()))) (\<lambda>_.
     bind_act (invoke exec [nt_modinfo (nr_tools nr), ''-F'', ''license'', abs_str (nr_module nr)]) (\<lambda>raw_license.
     let license_name = strip_space raw_license in
     bind_act (pure_act (require (license_name = ''GPL v2'') (RuntimeError License_differs) (Inr ()))) (\<lambda>_.
     bind_act (invoke exec (compile_words nr)) (\<lambda>_.
     bind_act (invoke exec (load_words nr)) (\<lambda>_.
     bind_act (update_act (\<lambda>st. st\<lparr>ns_loaded := True\<rparr>)) (\<lambda>_.
     bind_act (invoke exec (mount_words nr)) (\<lambda>_.
     bind_act (update_act (\<lambda>st. st\<lparr>ns_mounted := True\<rparr>)) (\<lambda>_.
     bind_act (invoke exec [nt_sudo (nr_tools nr), ''-n'', abs_str (nr_executable nr), abs_str (nr_mount nr @ [''binder-control'']), abs_str (nr_mount nr @ [''artbox''])]) (\<lambda>printed.
     bind_act (pure_act (parse_output std printed)) (\<lambda>result.
     bind_act (case_count (nr_root nr) ''binder-device'') (\<lambda>expected.
     bind_act (case_count (nr_root nr) ''binder-file'') (\<lambda>file_cases.
     bind_act (case_count (nr_root nr) ''binder-mapping'') (\<lambda>mapping_cases.
     bind_act (pure_act (require (py_eq result (native_expected expected file_cases mapping_cases)) (RuntimeError Cases_missing) (jitems result))) (\<lambda>items.
     bind_act (with_fs (\<lambda>fs. digest_of std fs (nr_executable nr))) (\<lambda>sha.
     update_act (\<lambda>st. st\<lparr>ns_record := Some (dict_update items [(''vermagic'', JStr version), (''module_license'', JStr license_name), (''runner_sha256'', sha)])\<rparr>)))))))))))))))))"

fun poll_references :: "(string \<times> bool) list \<Rightarrow> (ref_msg, unit) res" where
  "poll_references [] = Inr ()"
| "poll_references ((s, left_over) # rest) =
     bind_res (int_value s) (\<lambda>n. if n \<noteq> 0 \<and> left_over then poll_references rest else Inr ())"

definition MODULE_DIR :: path where
  "MODULE_DIR = [''sys'', ''module'', ''binder_linux'']"

definition unload_expected :: json where
  "unload_expected = JDict [(''result'', JInt (-1)), (''errno'', JInt 16)]"

definition cleanup_value :: "json \<Rightarrow> json" where
  "cleanup_value unload = JDict [(''binderfs_unmounted'', JBool True), (''module_references'', JInt 0), (''unload_probe'', unload),
     (''module_remains_loaded_until_host_disposal'', JBool True)]"

definition release_module :: "std \<Rightarrow> tool \<Rightarrow> native_run \<Rightarrow> unit act" where
  "release_module std exec nr =
     bind_act (pure_act (poll_references (nr_polls nr))) (\<lambda>_.
     bind_act (pure_act (bind_res (int_value (nr_last_poll nr)) (\<lambda>n. require (n = 0) (RuntimeError References_remain) (Inr ())))) (\<lambda>_.
     bind_act (invoke exec [nt_sudo (nr_tools nr), ''-n'', abs_str (nr_executable nr), ''--probe-module-unload'']) (\<lambda>printed.
     bind_act (pure_act (parse_output std printed)) (\<lambda>unload.
     bind_act (with_fs (\<lambda>fs. require (py_eq unload unload_expected \<and> path_exists fs MODULE_DIR) (RuntimeError Unload_differs) (Inr ()))) (\<lambda>_.
     update_act (\<lambda>st. st\<lparr>ns_record := map_option (\<lambda>d. dict_set d ''cleanup'' (cleanup_value unload)) (ns_record st)\<rparr>))))))"

definition native_cleanup :: "std \<Rightarrow> tool \<Rightarrow> native_run \<Rightarrow> unit act" where
  "native_cleanup std exec nr st =
     bind_act (if ns_mounted st then bind_act (invoke exec (umount_words nr)) (\<lambda>_. pure_act (Inr ())) else pure_act (Inr ())) (\<lambda>_.
       if ns_loaded st then release_module std exec nr else pure_act (Inr ())) st"

definition write_log :: "path \<Rightarrow> unit act" where
  "write_log build st =
     (case write_bytes (ns_fs st) (build @ [''reference.log'']) (encode_utf8 (join_with [newline] (ns_logs st))) of
        Inl e \<Rightarrow> (Inl e, st)
      | Inr fs1 \<Rightarrow> (Inr (), st\<lparr>ns_fs := fs1\<rparr>))"

definition native_steps :: "std \<Rightarrow> tool \<Rightarrow> native_run \<Rightarrow> path \<Rightarrow> unit act" where
  "native_steps std exec nr build = try_finally (native_body std exec nr) (try_finally (native_cleanup std exec nr) (write_log build))"

record native_host =
  nh_linux :: bool
  nh_release :: string
  nh_machine :: string
  nh_which :: "string \<Rightarrow> string option"
  nh_polls :: "(string \<times> bool) list"
  nh_last_poll :: string

definition find_tools :: "native_host \<Rightarrow> (ref_msg, native_tools) res" where
  "find_tools nh =
     (case map (nh_which nh) [''cc'', ''sudo'', ''insmod'', ''modinfo'', ''mount'', ''umount''] of
        [Some a, Some b, Some c, Some d, Some e, Some f] \<Rightarrow>
          Inr \<lparr>nt_cc = a, nt_sudo = b, nt_insmod = c, nt_modinfo = d, nt_mount = e, nt_umount = f\<rparr>
      | _ \<Rightarrow> Inl (RuntimeError Tools_missing))"

definition mount_free :: "fs \<Rightarrow> path \<Rightarrow> (ref_msg, bool) res" where
  "mount_free fs p = (if is_symlink fs p then Inr False else output_free fs p)"

text \<open>The guards before anything is run, and the places of the run.\<close>

definition native_guards :: "native_host \<Rightarrow> path \<Rightarrow> kernel_pin \<Rightarrow> path \<Rightarrow> path \<Rightarrow> fs \<Rightarrow> (ref_msg, fs \<times> native_run) res" where
  "native_guards nh rootdir spec installed build fs =
     require (nh_linux nh \<and> nh_release nh = kp_kernel spec \<and> nh_machine nh = kp_architecture spec) (RuntimeError Not_the_pinned_host)
    (bind_res (find_tools nh) (\<lambda>tools.
     require (\<not> path_exists fs MODULE_DIR) (RuntimeError Module_present)
    (bind_res (mkdir_parents fs build) (\<lambda>fs1.
     let mount = build @ [''binderfs''] in
     ensure (mount_free fs1 mount) (RuntimeError Mount_not_empty)
    (bind_res (mkdir_one fs1 mount) (\<lambda>fs2.
     Inr (fs2, \<lparr>nr_tools = tools, nr_spec = spec, nr_root = rootdir, nr_mount = mount, nr_executable = build @ [''binder-device-reference''],
       nr_module = installed @ [path_name (pf_path (kp_module spec))], nr_polls = nh_polls nh, nr_last_poll = nh_last_poll nh\<rparr>)))))))"

definition run_native ::
  "std \<Rightarrow> tool \<Rightarrow> native_host \<Rightarrow> path \<Rightarrow> kernel_pin \<Rightarrow> path \<Rightarrow> path \<Rightarrow> fs \<Rightarrow> (ref_msg, (string \<times> json) list option) res \<times> native_state"
where
  "run_native std exec nh rootdir spec installed build fs =
     (let start = \<lparr>ns_fs = fs, ns_logs = [], ns_loaded = False, ns_mounted = False, ns_record = None\<rparr> in
      case native_guards nh rootdir spec installed build fs of
        Inl e \<Rightarrow> (Inl e, start)
      | Inr (fs1, nr) \<Rightarrow>
          (case native_steps std exec nr build (start\<lparr>ns_fs := fs1\<rparr>) of
             (Inl e, st) \<Rightarrow> (Inl e, st)
           | (Inr _, st) \<Rightarrow> (Inr (ns_record st), st)))"

section \<open>The portable driver\<close>

type_synonym driver_state = "fs \<times> bytes"

definition driver_build :: "tool \<Rightarrow> driver_state \<Rightarrow> string list \<Rightarrow> (ref_msg, driver_state) res" where
  "driver_build exec st words =
     (let r = exec words (fst st) in
      require (status r = 0) CalledProcessError (Inr (after_fs r, snd st @ encode_utf8 (join_with '' '' words @ [newline]) @ out_bytes r)))"

definition driver_run :: "tool \<Rightarrow> driver_state \<Rightarrow> string list \<Rightarrow> (ref_msg, driver_state \<times> string) res" where
  "driver_run exec st words =
     (let r = exec words (fst st) in
      bind_res (decode_utf8 (out_bytes r)) (\<lambda>a.
      bind_res (decode_utf8 (err_bytes r)) (\<lambda>b.
      let printed = universal_newlines a in
      require (status r = 0) CalledProcessError
        (Inr ((after_fs r, snd st @ encode_utf8 (printed @ universal_newlines b)), printed)))))"

text \<open>A run in a temporary directory that must be empty afterwards.\<close>

definition driver_run_in :: "tool \<Rightarrow> host \<Rightarrow> path \<Rightarrow> string \<Rightarrow> driver_state \<Rightarrow> path \<Rightarrow> (ref_msg, driver_state \<times> string) res" where
  "driver_run_in exec h build start st runner =
     (let rootdir = build @ [start @ tmp_name h] in
      bind_res (make_temporary (fst st) rootdir) (\<lambda>fs1.
      bind_res (driver_run exec (fs1, snd st) [abs_str runner, abs_str rootdir]) (\<lambda>(st2, printed).
      require (\<not> any_iterdir (fst st2) rootdir) (RuntimeError Backing_escaped)
     (bind_res (resolve (fst st2) rootdir) (\<lambda>real. Inr ((rmtree (fst st2) real, snd st2), printed))))))"

type_synonym record_fields = "(string \<times> json) list"

definition from_reference :: "record_fields \<Rightarrow> (string \<times> string) list \<Rightarrow> (ref_msg, record_fields) res" where
  "from_reference reference wanted = mapM (\<lambda>(key, name). bind_res (dict_get reference name) (\<lambda>v. Inr (key, v))) wanted"

definition agrees :: "std \<Rightarrow> string \<Rightarrow> string \<Rightarrow> record_fields \<Rightarrow> (ref_msg, json) res" where
  "agrees std label printed expected =
     bind_res (parse_output std printed) (\<lambda>v. require (py_eq v (JDict expected)) (RuntimeError (Driver_differs label)) (Inr v))"

definition driver_expected :: "record_fields \<Rightarrow> (ref_msg, record_fields) res" where
  "driver_expected reference = bind_res (from_reference reference [(''protocol'', ''protocol''), (''shared_cases'', ''cases'')]) (\<lambda>d.
     Inr (d @ [(''vm_and_admission_controls'', JBool True), (''concurrent_lifecycles'', JInt 4000), (''passed'', JBool True)]))"

definition vfs_expected :: "record_fields \<Rightarrow> (ref_msg, record_fields) res" where
  "vfs_expected reference = bind_res (from_reference reference [(''shared_ioctl_cases'', ''cases''), (''shared_file_cases'', ''file_cases'')]) (\<lambda>d.
     Inr (d @ [(''concurrent_lifecycles'', JInt 4000), (''passed'', JBool True)]))"

definition receive_expected :: "record_fields \<Rightarrow> (ref_msg, record_fields) res" where
  "receive_expected reference =
     bind_res (from_reference reference [(''shared_mapping_cases'', ''mapping_cases''), (''shared_poll_cases'', ''poll_cases''), (''wait_contract_cases'', ''wait_cases''),
        (''mapped_poll_lifetime'', ''epoll_mapped_target_lifetime''), (''shared_epoll_cases'', ''epoll_snapshot_cases'')]) (\<lambda>d.
     Inr (d @ map (\<lambda>k. (k, JBool True)) [''native_alias_verified'', ''ownership_controls'', ''interrupt_epoch_injected'', ''passive_unmap_wakeup'', ''wake_observers'',
        ''epoll_lifecycle'', ''epoll_interrupt_epoch_injected'', ''passed'']))"

definition transaction_expected :: "record_fields \<Rightarrow> (ref_msg, record_fields) res" where
  "transaction_expected reference =
     bind_res (from_reference reference ((''shared_threaded_ping_pong'', ''threaded_ping_pong'') # map (\<lambda>k. (k, k)) [''same_pid_rejected'', ''death_cases'',
        ''object_handle_lifecycle'', ''oneway_lifecycle'', ''node_info_lifecycle'', ''blocking_threaded_ping_pong'', ''readiness_lifecycle''])) (\<lambda>d.
     Inr (d @ map (\<lambda>k. (k, JBool True)) [''native_aliases'', ''cleanup'', ''passed'']))"

definition DRIVER_SCOPE :: string where
  "DRIVER_SCOPE = ''Paired ioctl, descriptor, mapping, parcels, object, node-info, one-way, death, wait and level-triggered Binder epoll readiness/lifetime contracts; '' @
     ''ARTBox signal epochs injected; no eventfd/timerfd, edge/oneshot/nested epoll or signal-mask substitution''"

definition compare_driver :: "std \<Rightarrow> host \<Rightarrow> tool \<Rightarrow> native_host \<Rightarrow> path \<Rightarrow> fs \<Rightarrow> path \<Rightarrow> record_fields \<Rightarrow> (ref_msg, fs \<times> record_fields) res" where
  "compare_driver std h exec nh rootdir fs build reference =
     bind_res (of_option (RuntimeError No_cmake) (nh_which nh ''cmake'')) (\<lambda>cmake.
     bind_res (mkdir_parents fs build) (\<lambda>fs1.
     let runner = (\<lambda>n. build @ [n]) in
     bind_res (foldM (driver_build exec) (fs1, [])
        [[cmake, ''-S'', abs_str rootdir, ''-B'', abs_str build, ''-DCMAKE_BUILD_TYPE=Release''],
         [cmake, ''--build'', abs_str build, ''--target'', ''test_binder_device'', ''test_binder_vfs'', ''test_binder_receive'', ''test_binder_transactions'', ''--parallel'', ''2'']]) (\<lambda>st1.
     bind_res (driver_run exec st1 [abs_str (runner ''test_binder_device'')]) (\<lambda>(st2, device_out).
     bind_res (driver_run exec st2 [abs_str (runner ''test_binder_vfs'')]) (\<lambda>(st3, vfs_out).
     bind_res (driver_run_in exec h build ''receive-'' st3 (runner ''test_binder_receive'')) (\<lambda>(st4, receive_out).
     bind_res (driver_run_in exec h build ''transactions-'' st4 (runner ''test_binder_transactions'')) (\<lambda>(st5, transaction_out).
     bind_res (write_bytes (fst st5) (build @ [''comparison.log'']) (snd st5)) (\<lambda>fs6.
     bind_res (driver_expected reference) (\<lambda>e1. bind_res (agrees std ''driver'' device_out e1) (\<lambda>device_result.
     bind_res (vfs_expected reference) (\<lambda>e2. bind_res (agrees std ''vfs'' vfs_out e2) (\<lambda>vfs_result.
     bind_res (receive_expected reference) (\<lambda>e3. bind_res (agrees std ''receive'' receive_out e3) (\<lambda>receive_result.
     bind_res (transaction_expected reference) (\<lambda>e4. bind_res (agrees std ''transactions'' transaction_out e4) (\<lambda>transaction_result.
     bind_res (jitems device_result) (\<lambda>items.
     bind_res (mapM (\<lambda>n. digest_of std fs6 (runner n)) [''test_binder_device'', ''test_binder_vfs'', ''test_binder_receive'', ''test_binder_transactions'']) (\<lambda>shas.
     Inr (fs6, dict_update items [(''runner_sha256'', shas ! 0), (''vfs'', vfs_result), (''vfs_runner_sha256'', shas ! 1), (''receive'', receive_result),
       (''receive_runner_sha256'', shas ! 2), (''transactions'', transaction_result), (''transaction_runner_sha256'', shas ! 3), (''scope'', JStr DRIVER_SCOPE)])))))))))))))))))))"

section \<open>The command\<close>

record ref_args =
  ra_run_native :: bool
  ra_disposable :: bool
  ra_compare :: bool
  ra_kernel :: "string option"

definition COMPARED :: "string list" where
  "COMPARED = [''artbox_driver_compared'', ''mapping_driver_compared'', ''transaction_driver_compared'', ''death_driver_compared'', ''object_driver_compared'',
     ''oneway_driver_compared'', ''wait_driver_compared'', ''poll_driver_compared'', ''epoll_driver_compared'', ''node_info_driver_compared'']"

definition FIXED_SOURCES :: "string list" where
  "FIXED_SOURCES = [''fixtures/binder-device/check.c'', ''fixtures/binder-device/check.h'', ''fixtures/binder-file/check.c'', ''fixtures/binder-file/check.h'',
     ''fixtures/binder-mapping/check.c'', ''fixtures/binder-mapping/check.h'', ''fixtures/binder-poll/check.c'', ''fixtures/binder-poll/check.h'',
     ''fixtures/binder-transaction/check.c'', ''fixtures/binder-transaction/check.h'', ''core/src/binder_wire.c'', ''tests/native_binder_device.c'',
     ''tests/native_binder_wait.c'', ''tests/native_binder_epoll.c'', ''tests/binder_epoll_checks.h'', ''core/include/artbox/binder_wire.h'',
     ''third_party/binder/kernel-reference.json'', ''scripts/binder_reference.py'']"

definition COMPARED_SOURCES :: "string list" where
  "COMPARED_SOURCES = [''CMakeLists.txt'', ''tests/test_binder_device.cpp'', ''tests/test_binder_vfs.cpp'', ''tests/test_binder_receive.cpp'', ''tests/test_binder_transactions.cpp'']"

definition ref_sources :: "fs \<Rightarrow> path \<Rightarrow> bool \<Rightarrow> string list list" where
  "ref_sources fs rootdir compared =
     sort (remdups (map rel_parts FIXED_SOURCES @
       (if compared then map rel_parts COMPARED_SOURCES @
          concat (map (\<lambda>folder. map ((#) folder) (filter (\<lambda>rel. list_ex (\<lambda>e. endswith (last rel) e \<and> last rel \<noteq> e) [''.c'', ''.cpp'', ''.h'', ''.S'']) (rglob_files fs (rootdir @ [folder])))) [''core'', ''platform''])
        else [])))"

definition choose_pin :: "native_host \<Rightarrow> ref_args \<Rightarrow> kernel_pin list \<Rightarrow> (ref_msg, kernel_pin) res" where
  "choose_pin nh args pins =
     bind_res (case ra_kernel args of
         Some (c # k) \<Rightarrow> Inr (c # k)
       | _ \<Rightarrow> if ra_run_native args then Inr (nh_release nh) else (case pins of [] \<Rightarrow> Inl IndexError | p # _ \<Rightarrow> Inr (kp_kernel p))) (\<lambda>kernel.
     of_option (RuntimeError No_reviewed_pin) (find (\<lambda>p. kp_kernel p = kernel) pins))"

definition native_part ::
  "std \<Rightarrow> host \<Rightarrow> tool \<Rightarrow> native_host \<Rightarrow> path \<Rightarrow> ref_args \<Rightarrow> kernel_pin \<Rightarrow> path \<Rightarrow> path \<Rightarrow> fs \<times> record_fields \<Rightarrow> (ref_msg, fs \<times> record_fields) res"
where
  "native_part std h exec nh rootdir args spec installed builds st =
     (if ra_run_native args then
        bind_res (fst (run_native std exec nh rootdir spec installed (builds @ [''m4'', ''kernel-reference'']) (fst st))) (\<lambda>native.
        let fs1 = ns_fs (snd (run_native std exec nh rootdir spec installed (builds @ [''m4'', ''kernel-reference'']) (fst st)));
            native_value = (case native of None \<Rightarrow> JNull | Some d \<Rightarrow> JDict d);
            rec1 = dict_update (snd st) [(''native'', native_value), (''native_execution_verified'', JBool True)] in
        if ra_compare args then
          bind_res (of_option TypeError native) (\<lambda>reference.
          bind_res (compare_driver std h exec nh rootdir fs1 (builds @ [''m4'', ''kernel-reference'', ''core'']) reference) (\<lambda>(fs2, driver).
          Inr (fs2, dict_update rec1 ((''driver'', JDict driver) # map (\<lambda>k. (k, JBool True)) COMPARED))))
        else Inr (fs1, rec1))
      else Inr st)"

definition reference_main ::
  "std \<Rightarrow> host \<Rightarrow> tool \<Rightarrow> native_host \<Rightarrow> path \<Rightarrow> path \<Rightarrow> path \<Rightarrow> path \<Rightarrow> string \<Rightarrow> kernel_pin list \<Rightarrow> ref_args \<Rightarrow> fs \<Rightarrow> (ref_msg, fs \<times> record_fields) res"
where
  "reference_main std h exec nh rootdir cache builds artifacts scope pins args fs =
     require (\<not> (ra_run_native args \<and> \<not> ra_disposable args)) (RuntimeError Needs_disposable)
    (require (\<not> (ra_compare args \<and> \<not> ra_run_native args)) (RuntimeError Needs_native)
    (bind_res (choose_pin nh args pins) (\<lambda>spec.
     bind_res (reference_prepare std h fs spec cache) (\<lambda>(fs1, installed).
     let start = [(''scope'', JStr scope), (''package'', pin_value spec), (''prepared'', JBool True), (''native_execution_verified'', JBool False)] @ map (\<lambda>k. (k, JBool False)) COMPARED in
     bind_res (native_part std h exec nh rootdir args spec installed builds (fs1, start)) (\<lambda>(fs2, made).
     bind_res (run_tool exec fs2 [''git'', ''rev-parse'', ''HEAD'']) (\<lambda>(fs3, head).
     bind_res (decode_utf8 head) (\<lambda>commit.
     bind_res (digest_each std fs3 (map (\<lambda>rel. (as_posix rel, rootdir @ rel)) (ref_sources fs3 rootdir (ra_compare args)))) (\<lambda>files.
     let result = dict_update made [(''project_commit'', JStr (strip_space commit)), (''project_files'', JDict files)] in
     bind_res (dump_json std fs3 (artifacts @ [''m4-binder-kernel-reference.json'']) (JDict result)) (\<lambda>fs4.
     Inr (fs4, result))))))))))"

section \<open>Reasoning about actions\<close>

text \<open>From a state with \<open>P\<close> the action returns with \<open>Q\<close> or raises with \<open>E\<close>.\<close>

definition triple :: "(native_state \<Rightarrow> bool) \<Rightarrow> 'a act \<Rightarrow> ('a \<Rightarrow> native_state \<Rightarrow> bool) \<Rightarrow> (native_state \<Rightarrow> bool) \<Rightarrow> bool" where
  "triple P a Q E \<longleftrightarrow> (\<forall>st. P st \<longrightarrow> (case a st of (Inl _, st1) \<Rightarrow> E st1 | (Inr x, st1) \<Rightarrow> Q x st1))"

lemma triple_bind: "triple P a Q E \<Longrightarrow> (\<And>x. triple (Q x) (f x) R E) \<Longrightarrow> triple P (bind_act a f) R E"
  by (fastforce simp: triple_def bind_act_def split: prod.splits sum.splits)

lemma triple_pure: "(\<And>st x. P st \<Longrightarrow> r = Inr x \<Longrightarrow> Q x st) \<Longrightarrow> (\<And>st. P st \<Longrightarrow> E st) \<Longrightarrow> triple P (pure_act r) Q E"
  by (auto simp: triple_def pure_act_def split: sum.splits)

lemma triple_with_fs: "(\<And>st x. P st \<Longrightarrow> f (ns_fs st) = Inr x \<Longrightarrow> Q x st) \<Longrightarrow> (\<And>st. P st \<Longrightarrow> E st) \<Longrightarrow> triple P (with_fs f) Q E"
  by (auto simp: triple_def with_fs_def split: sum.splits)

lemma triple_update: "(\<And>st. P st \<Longrightarrow> Q () (f st)) \<Longrightarrow> triple P (update_act f) Q E"
  by (simp add: triple_def update_act_def)

lemma triple_finally:
  assumes "triple P body Q E" and "\<And>x. triple (Q x) final (\<lambda>_. R x) F" and "triple E final (\<lambda>_. F) F"
  shows "triple P (try_finally body final) R F"
  unfolding triple_def
proof (intro allI impI)
  fix st assume "P st"
  obtain r st1 where b: "body st = (r, st1)" by fastforce
  obtain s st2 where f: "final st1 = (s, st2)" by fastforce
  show "case try_finally body final st of (Inl _, st1) \<Rightarrow> F st1 | (Inr x, st1) \<Rightarrow> R x st1"
  proof (cases r)
    case (Inl e)
    then have "E st1" using assms(1) \<open>P st\<close> b by (auto simp: triple_def)
    then show ?thesis using assms(3) b f Inl by (auto simp: triple_def try_finally_def split: sum.splits)
  next
    case (Inr x)
    then have "Q x st1" using assms(1) \<open>P st\<close> b by (auto simp: triple_def)
    then show ?thesis using assms(2) [of x] b f Inr by (auto simp: triple_def try_finally_def split: sum.splits)
  qed
qed

lemma triple_invoke:
  assumes "\<And>st logs. P st \<Longrightarrow> Q' (st\<lparr>ns_fs := after_fs (exec words (ns_fs st)), ns_logs := logs\<rparr>)"
  shows "triple P (invoke exec words) (\<lambda>_. Q') Q'"
proof -
  have "Q' (st\<lparr>ns_fs := after_fs (exec words (ns_fs st))\<rparr>)" if "P st" for st
    using assms [OF that, of "ns_logs st"] by simp
  then show ?thesis using assms by (auto simp: triple_def invoke_def Let_def split: sum.splits prod.splits)
qed

lemma triple_conseq: "triple P a Q E \<Longrightarrow> (\<And>st. P' st \<Longrightarrow> P st) \<Longrightarrow> (\<And>x st. Q x st \<Longrightarrow> Q' x st) \<Longrightarrow> (\<And>st. E st \<Longrightarrow> E' st) \<Longrightarrow> triple P' a Q' E'"
  by (fastforce simp: triple_def split: prod.splits sum.splits)

lemma triple_returns: "triple P a Q E \<Longrightarrow> P st \<Longrightarrow> a st = (Inr x, st') \<Longrightarrow> Q x st'"
  unfolding triple_def by (drule spec [of _ st]) simp

section \<open>The mount is undone on every path\<close>

text \<open>
  What the mount tools do, in terms of a predicate \<open>busy\<close> that says whether the private
  binderfs is mounted.
\<close>

definition mount_contract :: "(fs \<Rightarrow> bool) \<Rightarrow> tool \<Rightarrow> native_run \<Rightarrow> path \<Rightarrow> bool" where
  "mount_contract busy exec nr build \<longleftrightarrow>
     (\<forall>fs. utf8_valid (out_bytes (exec (mount_words nr) fs)) \<and> utf8_valid (err_bytes (exec (mount_words nr) fs))) \<and>
     (\<forall>fs. status (exec (mount_words nr) fs) \<noteq> 0 \<and> \<not> busy fs \<longrightarrow> \<not> busy (after_fs (exec (mount_words nr) fs))) \<and>
     (\<forall>fs. status (exec (umount_words nr) fs) = 0 \<longrightarrow> \<not> busy (after_fs (exec (umount_words nr) fs))) \<and>
     (\<forall>words fs. words \<noteq> mount_words nr \<and> \<not> busy fs \<longrightarrow> \<not> busy (after_fs (exec words fs))) \<and>
     (\<forall>fs bs fs'. write_bytes fs (build @ [''reference.log'']) bs = (Inr fs' :: (ref_msg, fs) res) \<longrightarrow> busy fs' = busy fs)"

definition idle :: "(fs \<Rightarrow> bool) \<Rightarrow> native_state \<Rightarrow> bool" where
  "idle busy st \<longleftrightarrow> \<not> busy (ns_fs st)"

text \<open>An unmount that fails may leave the file system mounted.\<close>

definition umount_fails :: "(fs \<Rightarrow> bool) \<Rightarrow> tool \<Rightarrow> native_run \<Rightarrow> bool" where
  "umount_fails busy exec nr \<longleftrightarrow> (\<exists>fs. status (exec (umount_words nr) fs) \<noteq> 0 \<and> busy (after_fs (exec (umount_words nr) fs)))"

definition released :: "(fs \<Rightarrow> bool) \<Rightarrow> tool \<Rightarrow> native_run \<Rightarrow> native_state \<Rightarrow> bool" where
  "released busy exec nr st \<longleftrightarrow> idle busy st \<or> umount_fails busy exec nr"

definition accounted :: "(fs \<Rightarrow> bool) \<Rightarrow> native_state \<Rightarrow> bool" where
  "accounted busy st \<longleftrightarrow> (busy (ns_fs st) \<longrightarrow> ns_mounted st)"

lemma idle_invoke: "mount_contract busy exec nr build \<Longrightarrow> words \<noteq> mount_words nr \<Longrightarrow> triple (idle busy) (invoke exec words) (\<lambda>_. idle busy) (idle busy)"
  by (rule triple_invoke) (auto simp: mount_contract_def idle_def)

lemma mount_invoke:
  assumes "mount_contract busy exec nr build"
  shows "triple (idle busy) (invoke exec (mount_words nr)) (\<lambda>_ _. True) (idle busy)"
  using assms by (auto simp: triple_def invoke_def Let_def decode_utf8_def require_def mount_contract_def idle_def split: if_splits)

lemma other_words:
  "load_words nr \<noteq> mount_words nr" "umount_words nr \<noteq> mount_words nr" "compile_words nr \<noteq> mount_words nr"
  "[a, b, c, d] \<noteq> mount_words nr" "[a, b, c, d, e] \<noteq> mount_words nr"
  by (simp_all add: load_words_def mount_words_def umount_words_def compile_words_def Let_def)

lemma body_accounts:
  assumes "mount_contract busy exec nr build"
  shows "triple (idle busy) (native_body std exec nr) (\<lambda>_. ns_mounted) (accounted busy)"
proof -
  have idle: "triple (idle busy) (invoke exec words) (\<lambda>_. idle busy) (accounted busy)" if "words \<noteq> mount_words nr" for words
    by (rule triple_conseq [OF idle_invoke [OF assms that]]) (simp_all add: idle_def accounted_def)
  have mount: "triple (idle busy) (invoke exec (mount_words nr)) (\<lambda>_ _. True) (accounted busy)"
    by (rule triple_conseq [OF mount_invoke [OF assms]]) (simp_all add: idle_def accounted_def)
  have later: "triple ns_mounted (invoke exec words) (\<lambda>_. ns_mounted) (accounted busy)" for words
    by (rule triple_conseq [OF triple_invoke [of ns_mounted ns_mounted]]) (simp_all add: accounted_def)
  show ?thesis
    unfolding native_body_def Let_def case_count_def
    by (rule triple_bind, rule idle [OF other_words(4)], rule triple_bind, rule triple_pure [where Q = "\<lambda>_. idle busy"], simp, simp add: idle_def accounted_def,
        rule triple_bind, rule idle [OF other_words(4)], rule triple_bind, rule triple_pure [where Q = "\<lambda>_. idle busy"], simp, simp add: idle_def accounted_def,
        rule triple_bind, rule idle [OF other_words(3)], rule triple_bind, rule idle [OF other_words(1)],
        rule triple_bind, rule triple_update [where Q = "\<lambda>_. idle busy"], simp add: idle_def, rule triple_bind, rule mount,
        rule triple_bind, rule triple_update [where Q = "\<lambda>_. ns_mounted"], simp, rule triple_bind, rule later,
        (rule triple_bind, (rule triple_pure [where Q = "\<lambda>_. ns_mounted"] triple_with_fs [where Q = "\<lambda>_. ns_mounted"]; simp add: accounted_def))+,
        rule triple_update, simp)
qed

lemma idle_released: "triple P a Q (idle busy) \<Longrightarrow> triple P a Q (released busy exec nr)"
  by (erule triple_conseq) (simp_all add: released_def)

lemma cleanup_unmounts:
  assumes "mount_contract busy exec nr build"
  shows "triple (accounted busy) (native_cleanup std exec nr) (\<lambda>_. idle busy) (released busy exec nr)"
proof -
  have release: "triple (idle busy) (release_module std exec nr) (\<lambda>_. idle busy) (idle busy)"
    unfolding release_module_def
    by (rule triple_bind, rule triple_pure [where Q = "\<lambda>_. idle busy"], simp, simp, rule triple_bind, rule triple_pure [where Q = "\<lambda>_. idle busy"], simp, simp,
        rule triple_bind, rule idle_invoke [OF assms other_words(4)], rule triple_bind, rule triple_pure [where Q = "\<lambda>_. idle busy"], simp, simp,
        rule triple_bind, rule triple_with_fs [where Q = "\<lambda>_. idle busy"], simp, simp, rule triple_update, simp add: idle_def)
  have skip: "triple (idle busy) (pure_act (Inr ())) (\<lambda>_. idle busy) (idle busy)" by (rule triple_pure) simp_all
  have "triple (\<lambda>_. True) (invoke exec (umount_words nr)) (\<lambda>_. idle busy) (released busy exec nr)"
    using assms by (auto simp: triple_def invoke_def Let_def mount_contract_def idle_def released_def umount_fails_def split: sum.splits prod.splits)
  then have unmount: "triple (\<lambda>_. True) (bind_act (invoke exec (umount_words nr)) (\<lambda>_. pure_act (Inr ()))) (\<lambda>_. idle busy) (released busy exec nr)"
    by (rule triple_bind) (rule idle_released [OF skip])
  have "triple (\<lambda>st'. st' = st) (bind_act (if ns_mounted st then bind_act (invoke exec (umount_words nr)) (\<lambda>_. pure_act (Inr ())) else pure_act (Inr ())) (\<lambda>_.
       if ns_loaded st then release_module std exec nr else pure_act (Inr ()))) (\<lambda>_. idle busy) (released busy exec nr)" if "accounted busy st" for st
  proof (rule triple_bind [where Q = "\<lambda>_. idle busy"])
    show "triple (\<lambda>st'. st' = st) (if ns_mounted st then bind_act (invoke exec (umount_words nr)) (\<lambda>_. pure_act (Inr ())) else pure_act (Inr ())) (\<lambda>_. idle busy) (released busy exec nr)"
      using that by (cases "ns_mounted st") (auto intro: triple_conseq [OF unmount] triple_conseq [OF idle_released [OF skip]] simp: accounted_def idle_def)
    show "triple (idle busy) (if ns_loaded st then release_module std exec nr else pure_act (Inr ())) (\<lambda>_. idle busy) (released busy exec nr)"
      using idle_released [OF release] idle_released [OF skip] by simp
  qed
  then show ?thesis by (simp add: triple_def native_cleanup_def)
qed

lemma log_keeps_idle: "mount_contract busy exec nr build \<Longrightarrow> triple (idle busy) (write_log build) (\<lambda>_. idle busy) (released busy exec nr)"
  by (auto simp: triple_def write_log_def mount_contract_def idle_def released_def split: sum.splits)

lemma log_keeps_released: "mount_contract busy exec nr build \<Longrightarrow> triple (released busy exec nr) (write_log build) (\<lambda>_. released busy exec nr) (released busy exec nr)"
  by (auto simp: triple_def write_log_def mount_contract_def idle_def released_def split: sum.splits)


definition complete_run :: "native_state \<Rightarrow> bool" where
  "complete_run st \<longleftrightarrow> ns_loaded st \<and> ns_mounted st \<and>
     (\<exists>items e f m extra. ns_record st = Some (dict_update items extra) \<and> py_eq (JDict items) (native_expected e f m) \<and>
        dict_keys extra = [''vermagic'', ''module_license'', ''runner_sha256''])"

lemma body_completes: "triple (\<lambda>_. True) (native_body std exec nr) (\<lambda>_. complete_run) (\<lambda>_. True)"
proof -
  have any: "triple (\<lambda>_. True) a (\<lambda>_ _. True) (\<lambda>_. True)" for a :: "'b act" by (auto simp: triple_def split: prod.splits sum.splits)
  have keep: "triple I (invoke exec words) (\<lambda>_. I) (\<lambda>_. True)" if "\<And>st f l. I (st\<lparr>ns_fs := f, ns_logs := l\<rparr>) = I st" for I words
    by (rule triple_conseq [OF triple_invoke [of I I]]) (simp_all add: that)
  have pure: "triple I (pure_act r) (\<lambda>_. I) (\<lambda>_. True)" "triple I (with_fs g) (\<lambda>_. I) (\<lambda>_. True)" for I and r :: "(ref_msg, 'b) res" and g :: "fs \<Rightarrow> (ref_msg, 'c) res"
    by (auto intro: triple_pure triple_with_fs)
  let ?L = "\<lambda>st. ns_loaded st" and ?M = "\<lambda>st. ns_loaded st \<and> ns_mounted st"
  show ?thesis
    unfolding native_body_def Let_def case_count_def
    by (rule triple_bind [OF any], rule triple_bind [OF any], rule triple_bind [OF any], rule triple_bind [OF any], rule triple_bind [OF any], rule triple_bind [OF any],
        rule triple_bind [where Q = "\<lambda>_. ?L"], rule triple_update, simp, rule triple_bind, rule keep, simp,
        rule triple_bind [where Q = "\<lambda>_. ?M"], rule triple_update, simp, rule triple_bind, rule keep, simp,
        rule triple_bind, rule pure(1), rule triple_bind, rule pure(2), rule triple_bind, rule pure(2), rule triple_bind, rule pure(2),
        rule triple_bind, rule triple_pure [where Q = "\<lambda>items st. ?M st \<and> (\<exists>e f m. py_eq (JDict items) (native_expected e f m))"],
        (auto simp: res_simps jitems_Inr)[2],
        rule triple_bind, rule pure(2), rule triple_update, unfold complete_run_def, force)
qed

definition cleaned_run :: "native_state \<Rightarrow> bool" where
  "cleaned_run st \<longleftrightarrow> ns_loaded st \<and> ns_mounted st \<and>
     (\<exists>items e f m extra unload. ns_record st = Some (dict_set (dict_update items extra) ''cleanup'' (cleanup_value unload)) \<and>
        py_eq (JDict items) (native_expected e f m) \<and> dict_keys extra = [''vermagic'', ''module_license'', ''runner_sha256''] \<and> py_eq unload unload_expected)"

lemma cleanup_completes: "triple complete_run (native_cleanup std exec nr) (\<lambda>_. cleaned_run) (\<lambda>_. True)"
proof -
  have keep: "triple complete_run (invoke exec words) (\<lambda>_. complete_run) (\<lambda>_. True)" for words
    by (rule triple_conseq [OF triple_invoke [of complete_run complete_run]]) (simp_all add: complete_run_def)
  have probe: "triple complete_run (bind_act (with_fs (\<lambda>fs. require (py_eq unload unload_expected \<and> path_exists fs MODULE_DIR) (RuntimeError Unload_differs) (Inr ()))) (\<lambda>_.
      update_act (\<lambda>st. st\<lparr>ns_record := map_option (\<lambda>d. dict_set d ''cleanup'' (cleanup_value unload)) (ns_record st)\<rparr>))) (\<lambda>_. cleaned_run) (\<lambda>_. True)" for unload
  proof (rule triple_bind)
    show "triple complete_run (with_fs (\<lambda>fs. require (py_eq unload unload_expected \<and> path_exists fs MODULE_DIR) (RuntimeError Unload_differs) (Inr ())))
        (\<lambda>_ st. complete_run st \<and> py_eq unload unload_expected) (\<lambda>_. True)" by (rule triple_with_fs) (simp_all add: res_simps)
    show "triple (\<lambda>st. complete_run st \<and> py_eq unload unload_expected)
        (update_act (\<lambda>st. st\<lparr>ns_record := map_option (\<lambda>d. dict_set d ''cleanup'' (cleanup_value unload)) (ns_record st)\<rparr>)) (\<lambda>_. cleaned_run) (\<lambda>_. True)"
      by (rule triple_update) (fastforce simp: complete_run_def cleaned_run_def)
  qed
  have release: "triple complete_run (release_module std exec nr) (\<lambda>_. cleaned_run) (\<lambda>_. True)"
    unfolding release_module_def
    by (rule triple_bind, rule triple_pure [where Q = "\<lambda>_. complete_run"], simp, simp, rule triple_bind, rule triple_pure [where Q = "\<lambda>_. complete_run"], simp, simp,
        rule triple_bind, rule keep, rule triple_bind, rule triple_pure [where Q = "\<lambda>_. complete_run"], simp, simp, rule probe)
  have "triple (\<lambda>st'. st' = st) (bind_act (bind_act (invoke exec (umount_words nr)) (\<lambda>_. pure_act (Inr ()))) (\<lambda>_. release_module std exec nr)) (\<lambda>_. cleaned_run) (\<lambda>_. True)"
    if "complete_run st" for st
    by (rule triple_conseq [OF triple_bind [OF triple_bind [OF keep triple_pure [where Q = "\<lambda>_. complete_run"]] release]]) (use that in auto)
  then show ?thesis by (auto simp: triple_def native_cleanup_def complete_run_def)
qed

lemma log_completes: "triple cleaned_run (write_log build) (\<lambda>_. cleaned_run) (\<lambda>_. True)"
  by (auto simp: triple_def write_log_def cleaned_run_def split: sum.splits)


section \<open>The archive format\<close>

text \<open>The members of an archive from a position on, as the format defines them.\<close>

inductive ar_entries :: "bytes \<Rightarrow> nat \<Rightarrow> (string \<times> nat \<times> nat) list \<Rightarrow> bool" where
  at_end: "length data \<le> pos \<Longrightarrow> ar_entries data pos []"
| a_member: "pos < length data \<Longrightarrow> ar_header data pos (take 60 (drop pos data)) = Inr (name, n) \<Longrightarrow>
    ar_entries data (pos + 60 + n + n mod 2) es \<Longrightarrow> ar_entries data pos ((name, pos + 60, n) # es)"

inductive_cases ar_entries_ConsE: "ar_entries data pos (e # es)"
inductive_cases ar_entries_NilE: "ar_entries data pos []"

definition data_members :: "(string \<times> nat \<times> nat) list \<Rightarrow> (nat \<times> nat) list" where
  "data_members es = map snd (filter (\<lambda>(name, _). name \<in> set DATA_MEMBERS) es)"

definition placed :: "(nat \<times> nat) option \<Rightarrow> (nat \<times> nat) list" where
  "placed r = (case r of None \<Rightarrow> [] | Some x \<Rightarrow> [x])"

lemma placed_simps [simp]: "placed None = []" "placed (Some x) = [x]"
  by (simp_all add: placed_def)

lemma placed_inj: "placed a = placed b \<longleftrightarrow> a = b"
  by (cases a; cases b) simp_all

lemma ar_entries_step:
  assumes "pos < length data"
  shows "(\<exists>es. ar_entries data pos es \<and> Q es) \<longleftrightarrow>
    (\<exists>name n es. ar_header data pos (take 60 (drop pos data)) = Inr (name, n) \<and> ar_entries data (pos + 60 + n + n mod 2) es \<and> Q ((name, pos + 60, n) # es))"
  using assms by (subst ar_entries.simps) fastforce

lemma ar_members_iff: "ar_members data pos found = Inr r \<longleftrightarrow> (\<exists>es. ar_entries data pos es \<and> placed found @ data_members es = placed r)"
proof (induction data pos found arbitrary: r rule: ar_members.induct)
  case (1 data pos found)
  show ?case
  proof (cases "length data \<le> pos")
    case True
    then have "ar_members data pos found = Inr found" by (subst ar_members.simps) simp
    moreover have "ar_entries data pos es \<longleftrightarrow> es = []" for es using True by (auto elim: ar_entries.cases intro: at_end)
    ultimately show ?thesis by (auto simp: data_members_def placed_inj)
  next
    case False
    then have h: "take 60 (drop pos data) \<noteq> []" by simp
    note split = ar_entries_step [of pos data, OF False [unfolded not_le]]
    show ?thesis
    proof (cases "ar_header data pos (take 60 (drop pos data))")
      case (Inl e)
      then show ?thesis unfolding split using h by (subst ar_members.simps) (simp add: Let_def)
    next
      case (Inr x)
      obtain name n where x: "x = (name, n)" by fastforce
      show ?thesis
      proof (cases "name \<in> set DATA_MEMBERS")
        case True
        show ?thesis
        proof (cases found)
          case None
          have "ar_members data pos found = ar_members data (pos + 60 + n + n mod 2) (Some (pos + 60, n))"
            using h Inr x True None by (subst ar_members.simps) (simp add: Let_def)
          then show ?thesis
            unfolding split using "1.IH"(1) [OF refl h Inr [unfolded x] refl True, of r] None Inr x True by (simp add: data_members_def)
        next
          case (Some y)
          have "ar_members data pos found = Inl (RuntimeError Duplicate_data_member)"
            using h Inr x True Some by (subst ar_members.simps) (simp add: Let_def)
          then show ?thesis unfolding split using Inr x True Some by (auto simp: data_members_def placed_def split: option.splits)
        qed
      next
        case False
        have "ar_members data pos found = ar_members data (pos + 60 + n + n mod 2) found"
          using h Inr x False by (subst ar_members.simps) (simp add: Let_def)
        then show ?thesis
          unfolding split using "1.IH"(2) [OF refl h Inr [unfolded x] refl False, of r] Inr x False by (simp add: data_members_def)
      qed
    qed
  qed
qed

lemma ar_entries_inside: "ar_entries data pos es \<Longrightarrow> (name, off, n) \<in> set es \<Longrightarrow> off + n \<le> length data"
  by (induction rule: ar_entries.induct) (auto simp: ar_header_def res_simps)

section \<open>What is extracted\<close>

text \<open>Writing a file changes no resolution, so it is read back at the same path.\<close>

lemma walk_file_update:
  assumes "case map_of fs q of None \<Rightarrow> True | Some (File _ _) \<Rightarrow> True | _ \<Rightarrow> False"
  shows "walk True (dict_set fs q (File bs m)) k cur p = walk True fs k cur p"
proof (induction k arbitrary: cur p)
  case 0
  then show ?case using assms by (induction p arbitrary: cur) (auto simp: walk.simps split: option.splits node.splits)
next
  case (Suc k)
  then show ?case using assms by (induction p arbitrary: cur) (auto simp: walk.simps split: option.splits node.splits)
qed

lemma read_after_write:
  assumes "write_bytes fs p bs = (Inr fs' :: ('m, fs) res)"
  shows "read_bytes fs' p = (Inr bs :: ('k, bytes) res)"
proof -
  obtain q m where q: "locate fs p = Some q" "q \<noteq> []" "fs' = dict_set fs q (File bs m)" "case map_of fs q of None \<Rightarrow> True | Some (File _ _) \<Rightarrow> True | _ \<Rightarrow> False"
    using assms by (cases "locate fs p") (auto simp: write_bytes_def node_at_def res_simps split: option.splits node.splits if_splits)
  then show ?thesis by (simp add: read_bytes_def stat_def locate_def walk_file_update node_at_def)
qed

definition named :: "string \<Rightarrow> member \<Rightarrow> bool" where
  "named name m \<longleftrightarrow> remove_prefix (m_name m) ''./'' = name"

definition matches_file :: "host \<Rightarrow> pin_file \<Rightarrow> member \<Rightarrow> bool" where
  "matches_file h spec m \<longleftrightarrow> m_kind m = KFile \<and> int (length (m_data m)) = pf_bytes spec \<and> sha256 h (m_data m) = pf_sha256 spec"

lemma select_member_step:
  assumes "select_member h target selected st m = Inr st'"
  defines "name \<equiv> remove_prefix (m_name m) ''./''"
  shows "snd st' = snd st @ (if map_of selected name = None then [] else [name])"
    and "map_of selected name = Some spec \<Longrightarrow> name \<notin> set (snd st) \<and> matches_file h spec m"
  using assms(1) unfolding select_member_def name_def [symmetric] Let_def matches_file_def ref_file_def
  by (auto simp: res_simps read_after_write split: option.splits)

lemma select_members_once:
  assumes "foldM (select_member h target selected) st members = Inr st'"
  shows "(name \<in> set (snd st') \<longleftrightarrow> name \<in> set (snd st) \<or> (map_of selected name \<noteq> None \<and> list_ex (named name) members)) \<and>
    (map_of selected name = Some spec \<longrightarrow> list_all (\<lambda>m. named name m \<longrightarrow> name \<notin> set (snd st) \<and> matches_file h spec m) members \<and>
       length (filter (named name) members) \<le> 1)"
  using assms
proof (induction members arbitrary: st)
  case (Cons m members)
  obtain st1 where s: "select_member h target selected st m = Inr st1" "foldM (select_member h target selected) st1 members = Inr st'"
    using Cons.prems by (auto simp: bind_res_Inr_iff)
  note step = select_member_step [OF s(1)] and IH = Cons.IH [OF s(2)]
  show ?case
  proof (cases "named name m")
    case True
    then have n: "remove_prefix (m_name m) ''./'' = name" by (simp add: named_def)
    have "filter (named name) members = []" if "map_of selected name = Some spec"
      using IH step(1) that unfolding n by (auto simp: filter_empty_conv list_all_iff)
    then show ?thesis using IH step True unfolding n by (auto simp: list_all_iff)
  next
    case False
    then have "name \<noteq> remove_prefix (m_name m) ''./''" by (simp add: named_def)
    then have "name \<in> set (snd st1) \<longleftrightarrow> name \<in> set (snd st)" using step(1) by auto
    then show ?thesis using IH False by (simp add: list_all_iff)
  qed
qed simp

text \<open>
  C37. Extraction from the pinned package is exact: when
  \<^verbatim>\<open>unpack_selected\<close> returns, the archive has exactly one data
  member, inside the file, the tar stream read is exactly its bytes, and every selected name
  occurs once in it, as a regular file of the pinned size and digest.
\<close>

theorem unpack_selected_exact:
  assumes "reference_unpack_selected h fs archive target selected = Inr fs'"
  shows "\<exists>data es offset n members. read_bytes fs archive = (Inr data :: (ref_msg, bytes) res) \<and> take 8 data = AR_MAGIC \<and> ar_entries data 8 es \<and>
    data_members es = [(offset, n)] \<and> offset + n \<le> length data \<and> open_tar h (take n (drop offset data)) = Some members \<and>
    (\<forall>name spec. map_of selected name = Some spec \<longrightarrow> (\<exists>m. filter (named name) members = [m] \<and> matches_file h spec m))"
proof -
  obtain data offset n members fs1 names where u: "read_bytes fs archive = (Inr data :: (ref_msg, bytes) res)" "take 8 data = AR_MAGIC"
      "ar_members data 8 None = Inr (Some (offset, n))" "open_tar h (take n (drop offset data)) = Some members"
      "foldM (select_member h target selected) (fs, []) members = Inr (fs1, names)" "set names = set (dict_keys selected)"
    using assms by (auto simp: reference_unpack_selected_def res_simps)
  obtain es where es: "ar_entries data 8 es" "data_members es = [(offset, n)]" using u(3) unfolding ar_members_iff by auto
  then have "(offset, n) \<in> set (data_members es)" by simp
  then obtain nm where "(nm, offset, n) \<in> set es" by (auto simp: data_members_def)
  then have inside: "offset + n \<le> length data" using ar_entries_inside [OF es(1)] by blast
  have "\<exists>m. filter (named name) members = [m] \<and> matches_file h spec m" if "map_of selected name = Some spec" for name spec
  proof -
    have "name \<in> set names" using u(6) that by (metis domI dom_map_of_conv_image_fst set_map)
    then have ex: "list_ex (named name) members" and le: "length (filter (named name) members) \<le> 1"
        and ok: "list_all (\<lambda>m. named name m \<longrightarrow> matches_file h spec m) members"
      using select_members_once [OF u(5), of name spec] that by (auto simp: list_all_iff)
    then obtain m where m: "m \<in> set members" "named name m" by (auto simp: list_ex_iff)
    then have "m \<in> set (filter (named name) members)" by simp
    then have "filter (named name) members = [m]" using le by (cases "filter (named name) members") auto
    then show ?thesis using m ok by (auto simp: list_all_iff)
  qed
  then show ?thesis using u(1,2,4) es inside by blast
qed

section \<open>A concrete package and a concrete run\<close>

definition f_header :: bytes where
  "f_header = encode_utf8 (''data.tar'' @ replicate 40 (CHR '' '') @ ''1'' @ replicate 9 (CHR '' '')) @ [0x60, 0x0a]"

definition f_fs :: fs where
  "f_fs = [([''a''], File (AR_MAGIC @ f_header @ [7, 0]) None), ([''t''], Dir)]"

definition f_host :: host where
  "f_host = \<lparr>sha256 = (\<lambda>_. ''h''), sha1 = (\<lambda>_. ''h''), gh_api = (\<lambda>_. None),
     open_tar = (\<lambda>bs. if bs = [7] then Some [\<lparr>m_name = ''./x/m'', m_kind = KFile, m_size = 2, m_link = [], m_mode = 0, m_data = [1, 2]\<rparr>] else None),
     dumps = (\<lambda>_. []), loads = (\<lambda>_. None), tmp_name = ''n'', is_posix = True\<rparr>"

definition f_selected :: "(string \<times> pin_file) list" where
  "f_selected = [(''x/m'', \<lparr>pf_path = ''x/m'', pf_bytes = 2, pf_sha256 = ''h''\<rparr>)]"

lemma f_unpack: "is_ok (reference_unpack_selected f_host f_fs [''a''] [''t''] f_selected)"
  by code_simp

theorem unpack_selected_exact_witness:
  "\<exists>fs' members m. reference_unpack_selected f_host f_fs [''a''] [''t''] f_selected = Inr fs' \<and> filter (named ''x/m'') members = [m] \<and>
     matches_file f_host \<lparr>pf_path = ''x/m'', pf_bytes = 2, pf_sha256 = ''h''\<rparr> m"
proof -
  obtain fs' where u: "reference_unpack_selected f_host f_fs [''a''] [''t''] f_selected = Inr fs'" using f_unpack by (auto simp: is_ok_iff)
  have "map_of f_selected ''x/m'' = Some \<lparr>pf_path = ''x/m'', pf_bytes = 2, pf_sha256 = ''h''\<rparr>" by (simp add: f_selected_def)
  then show ?thesis using u unpack_selected_exact [OF u] by blast
qed

definition f_run :: native_run where
  "f_run = \<lparr>nr_tools = \<lparr>nt_cc = ''cc'', nt_sudo = ''sudo'', nt_insmod = ''insmod'', nt_modinfo = ''modinfo'', nt_mount = ''mount'', nt_umount = ''umount''\<rparr>,
     nr_spec = \<lparr>kp_kernel = ''6'', kp_architecture = ''x'', kp_package = ''p'', kp_version = ''1'', kp_url = [], kp_bytes = 0, kp_sha256 = [],
       kp_module = \<lparr>pf_path = ''m'', pf_bytes = 0, pf_sha256 = []\<rparr>, kp_notice = \<lparr>pf_path = ''n'', pf_bytes = 0, pf_sha256 = []\<rparr>, kp_license = []\<rparr>,
     nr_root = [], nr_mount = [''b'', ''binderfs''], nr_executable = [''b'', ''binder-device-reference''], nr_module = [''i'', ''m''],
     nr_polls = [(''1'', True)], nr_last_poll = ''0''\<rparr>"

definition f_busy :: "fs \<Rightarrow> bool" where
  "f_busy fs \<longleftrightarrow> map_of fs [''mounted''] = Some (Link ''binder'')"

definition f_out :: "string list \<Rightarrow> string" where
  "f_out words = (if words ! 2 = ''vermagic'' then ''6 SMP'' else if words ! 2 = ''license'' then ''GPL v2''
     else if words ! 3 = ''--probe-module-unload'' then ''u'' else [])"

definition f_after :: "string list \<Rightarrow> fs \<Rightarrow> fs" where
  "f_after words fs = (if words = mount_words f_run then dict_set fs [''mounted''] (Link ''binder'')
     else if words = umount_words f_run then rmtree fs [''mounted'']
     else if words = load_words f_run then dict_set fs MODULE_DIR Dir else fs)"

definition f_exec :: tool where
  "f_exec words fs = \<lparr>status = 0, out_bytes = encode_utf8 (f_out words), err_bytes = [], after_fs = f_after words fs\<rparr>"

definition f_std :: std where
  "f_std = \<lparr>std_sha = (\<lambda>_. ''h''), std_loads = (\<lambda>s. Some (if s = ''u'' then unload_expected else native_expected 0 0 0)), std_dumps = (\<lambda>_. [])\<rparr>"

definition f_tree :: fs where
  "f_tree = map (\<lambda>p. (p, Dir)) [[''b''], [''sys''], [''sys'', ''module''], [''fixtures''], [''fixtures'', ''binder-device''], [''fixtures'', ''binder-file''], [''fixtures'', ''binder-mapping'']] @
     map (\<lambda>d. ([''fixtures'', d, ''check.c''], File [67, 72, 69, 67, 75, 40] None)) [''binder-device'', ''binder-file'', ''binder-mapping''] @
     [([''b'', ''binder-device-reference''], File [] None)]"

definition f_native :: native_host where
  "f_native = \<lparr>nh_linux = True, nh_release = ''6'', nh_machine = ''x'', nh_which = Some, nh_polls = [(''1'', True)], nh_last_poll = ''0''\<rparr>"

lemma f_contract: "mount_contract f_busy f_exec f_run [''b'']"
proof -
  have "f_busy fs' = f_busy fs" if "write_bytes fs p bs = (Inr fs' :: (ref_msg, fs) res)" for fs p bs fs'
    using that by (auto simp: write_bytes_def f_busy_def node_at_def res_simps split: option.splits node.splits if_splits)
  moreover have "utf8_valid (out_bytes (f_exec (mount_words f_run) fs))" for fs by (simp add: f_exec_def f_out_def mount_words_def f_run_def encode_utf8_def)
  moreover have "umount_words f_run \<noteq> mount_words f_run" by (rule other_words)
  ultimately show ?thesis by (auto simp: mount_contract_def f_exec_def f_after_def f_busy_def map_of_rmtree MODULE_DIR_def)
qed

lemma f_invoke: "invoke f_exec words st = (Inr (f_out words), st\<lparr>ns_fs := f_after words (ns_fs st), ns_logs := ns_logs st @ [call_entry words (f_out words)]\<rparr>)"
proof -
  have "(decode_utf8 (encode_utf8 s) :: (ref_msg, string) res) = Inr s \<and> universal_newlines s = s" if "s \<in> {''6 SMP'', ''GPL v2'', ''u'', []}" for s
    using that by (elim insertE emptyE) (simp_all only:, code_simp+)
  moreover have "f_out words \<in> {''6 SMP'', ''GPL v2'', ''u'', []}" by (simp add: f_out_def)
  ultimately have "(decode_utf8 (encode_utf8 (f_out words)) :: (ref_msg, string) res) = Inr (f_out words)" "universal_newlines (f_out words) = f_out words" by blast+
  then show ?thesis by (simp add: invoke_def f_exec_def Let_def decode_utf8_def [of "[]"])
qed

definition f_mounted :: fs where
  "f_mounted = dict_set (dict_set (dict_set f_tree [''b'', ''binderfs''] Dir) MODULE_DIR Dir) [''mounted''] (Link ''binder'')"

lemma f_guards: "native_guards f_native [] (nr_spec f_run) [''i''] [''b''] f_tree = Inr (dict_set f_tree [''b'', ''binderfs''] Dir, f_run)"
  by code_simp

lemma f_observed:
  "(read_text f_mounted [''fixtures'', ''binder-device'', ''check.c''] :: (ref_msg, string) res) = Inr ''CHECK(''"
  "(read_text f_mounted [''fixtures'', ''binder-file'', ''check.c''] :: (ref_msg, string) res) = Inr ''CHECK(''"
  "(read_text f_mounted [''fixtures'', ''binder-mapping'', ''check.c''] :: (ref_msg, string) res) = Inr ''CHECK(''"
  "length (hits CHECK_PATTERN ''CHECK('') = 1" "py_eq (native_expected 0 0 0) (native_expected 0 0 0)"
  "(digest_of f_std f_mounted [''b'', ''binder-device-reference''] :: (ref_msg, json) res) = Inr (JStr ''h'')"
  "strip_space ''6 SMP'' = ''6 SMP''" "split_fields [] ''6 SMP'' = [''6'', ''SMP'']" "strip_space ''GPL v2'' = ''GPL v2''"
  "int_value ''1'' = Inr 1" "int_value ''0'' = Inr 0" "py_eq unload_expected unload_expected" "path_exists (rmtree f_mounted [''mounted'']) MODULE_DIR"
  "locate (rmtree f_mounted [''mounted'']) [''b'', ''reference.log''] = Some [''b'', ''reference.log'']"
  by code_simp+

lemma f_places:
  "kp_kernel (nr_spec f_run) = ''6''" "nr_root f_run = []" "nr_executable f_run = [''b'', ''binder-device-reference'']" "nr_mount f_run = [''b'', ''binderfs'']"
  "nr_polls f_run = [(''1'', True)]" "nr_last_poll f_run = ''0''"
  by (simp_all add: f_run_def)

lemma f_steps:
  "f_after [a, ''-F'', k, m] fs = fs" "f_after (compile_words f_run) fs = fs" "f_after (load_words f_run) fs = dict_set fs MODULE_DIR Dir"
  "f_after (mount_words f_run) fs = dict_set fs [''mounted''] (Link ''binder'')" "f_after (umount_words f_run) fs = rmtree fs [''mounted'']"
  "f_after [a, ''-n'', abs_str [''b'', ''binder-device-reference''], x, y] fs = fs" "f_after [a, ''-n'', abs_str [''b'', ''binder-device-reference''], x] fs = fs"
  by (simp_all add: f_after_def compile_words_def load_words_def mount_words_def umount_words_def Let_def f_run_def abs_str_def)

lemma f_outputs:
  "f_out [a, b, ''vermagic'', m] = ''6 SMP''" "f_out [a, b, ''license'', m] = ''GPL v2''"
  "f_out [a, b, abs_str [''b'', ''binder-device-reference''], abs_str [''b'', ''binderfs'', ''binder-control''], y] = []"
  "f_out [a, b, abs_str [''b'', ''binder-device-reference''], ''--probe-module-unload''] = ''u''"
  by (simp_all add: f_out_def abs_str_def)

lemma f_parses: "parse_output f_std [] = Inr (native_expected 0 0 0)" "parse_output f_std ''u'' = Inr unload_expected"
  by (simp_all add: parse_output_def f_std_def of_option_def)

lemma f_items: "\<exists>d. (jitems (native_expected 0 0 0) :: (ref_msg, (string \<times> json) list) res) = Inr d"
  by (simp add: jitems_def native_expected_def)

lemmas f_facts = f_observed f_places f_steps f_outputs f_parses f_invoke bind_act_def pure_act_def update_act_def with_fs_def Let_def

lemma f_body:
  "\<exists>logs d. native_body f_std f_exec f_run \<lparr>ns_fs = dict_set f_tree [''b'', ''binderfs''] Dir, ns_logs = [], ns_loaded = False, ns_mounted = False, ns_record = None\<rparr> =
     (Inr (), \<lparr>ns_fs = f_mounted, ns_logs = logs, ns_loaded = True, ns_mounted = True, ns_record = Some d\<rparr>)"
proof -
  obtain d where d: "(jitems (native_expected 0 0 0) :: (ref_msg, (string \<times> json) list) res) = Inr d" using f_items by blast
  show ?thesis by (simp del: split_fields.simps add: native_body_def case_count_def f_facts f_mounted_def [symmetric] d)
qed

lemma f_cleanup:
  "\<exists>logs d. native_cleanup f_std f_exec f_run \<lparr>ns_fs = f_mounted, ns_logs = l, ns_loaded = True, ns_mounted = True, ns_record = Some r\<rparr> =
     (Inr (), \<lparr>ns_fs = rmtree f_mounted [''mounted''], ns_logs = logs, ns_loaded = True, ns_mounted = True, ns_record = Some d\<rparr>)"
  by (simp add: native_cleanup_def release_module_def f_facts)

lemma f_log: "\<exists>fs'. write_log [''b''] \<lparr>ns_fs = rmtree f_mounted [''mounted''], ns_logs = l, ns_loaded = a, ns_mounted = b, ns_record = r\<rparr> =
     (Inr (), \<lparr>ns_fs = fs', ns_logs = l, ns_loaded = a, ns_mounted = b, ns_record = r\<rparr>)"
proof -
  have "node_at (rmtree f_mounted [''mounted'']) [''b''] = Some Dir" "node_at (rmtree f_mounted [''mounted'']) [''b'', ''reference.log''] = None" by code_simp+
  then show ?thesis by (simp add: write_log_def write_bytes_def f_observed)
qed

lemma f_returns: "\<exists>r st. run_native f_std f_exec f_native [] (nr_spec f_run) [''i''] [''b''] f_tree = (Inr r, st)"
proof -
  obtain l d where body: "native_body f_std f_exec f_run \<lparr>ns_fs = dict_set f_tree [''b'', ''binderfs''] Dir, ns_logs = [], ns_loaded = False, ns_mounted = False, ns_record = None\<rparr> =
     (Inr (), \<lparr>ns_fs = f_mounted, ns_logs = l, ns_loaded = True, ns_mounted = True, ns_record = Some d\<rparr>)" using f_body by blast
  obtain l' d' where clean: "native_cleanup f_std f_exec f_run \<lparr>ns_fs = f_mounted, ns_logs = l, ns_loaded = True, ns_mounted = True, ns_record = Some d\<rparr> =
     (Inr (), \<lparr>ns_fs = rmtree f_mounted [''mounted''], ns_logs = l', ns_loaded = True, ns_mounted = True, ns_record = Some d'\<rparr>)" using f_cleanup by blast
  then show ?thesis using f_log [of l' True True "Some d'"] by (auto simp: run_native_def f_guards native_steps_def try_finally_def body clean)
qed



end
