(* ===== verification/Binder_Probe.thy ===== *)
theory Binder_Probe
  imports Environment Native_Probes
begin

text \<open>
  The read-only inventory of native Binder support, \<^verbatim>\<open>probe_binder.py\<close>.  The host is the record
  \<open>probe_host\<close> of what the operating system answers; an answer is a value, an \<^verbatim>\<open>OSError\<close> with its message, or
  another exception, which no handler of the script catches unless it says so.
\<close>

datatype (plugins only: code) failure = Os_failed string | Decode_failed string | Escaped

record probe_host =
  ph_platform :: string
  ph_release :: string
  ph_is_dir :: "path \<Rightarrow> failure + bool"
  ph_iterdir :: "path \<Rightarrow> failure + path list"
  ph_exists :: "path \<Rightarrow> failure + bool"
  ph_is_character :: "path \<Rightarrow> failure + bool"
  ph_open :: "path \<Rightarrow> failure + int"
  ph_version :: "int \<Rightarrow> failure + bytes"
  ph_close :: "int \<Rightarrow> failure + unit"
  ph_modules :: "path \<Rightarrow> failure + path list"
  ph_is_file :: "path \<Rightarrow> failure + bool"
  ph_read :: "path \<Rightarrow> failure + bytes"
  ph_gunzip :: "bytes \<Rightarrow> failure + bytes"
  ph_decode :: "bytes \<Rightarrow> failure + string"
  ph_apt_cache :: "string option"
  ph_show :: "string list \<Rightarrow> failure + (int \<times> string)"

record candidate =
  cd_query :: string
  cd_exit :: int
  cd_metadata :: "(string \<times> string) list"

record probe_record =
  pr_platform :: string
  pr_kernel :: string
  pr_available :: bool
  pr_devices :: "(path \<times> int option) list"
  pr_modules :: "path list"
  pr_configuration :: "(string \<times> string list) list"
  pr_errors :: "string list"
  pr_reason :: "string option"
  pr_candidates :: "candidate list option"

definition note_error :: "string \<Rightarrow> probe_record \<Rightarrow> probe_record" where
  "note_error m r = r\<lparr>pr_errors := pr_errors r @ [m]\<rparr>"

text \<open>\<^verbatim>\<open>except OSError\<close>, with what has been recorded before the exception.\<close>

definition caught :: "(string \<Rightarrow> string) \<Rightarrow> failure \<Rightarrow> probe_record \<Rightarrow> failure + probe_record" where
  "caught describe f r = (case f of Os_failed m \<Rightarrow> Inr (note_error (describe m) r) | _ \<Rightarrow> Inl f)"

section \<open>Devices\<close>

definition DEVICES :: "path list" where
  "DEVICES = [[''dev'', ''binder''], [''dev'', ''hwbinder''], [''dev'', ''vndbinder'']]"

definition BINDERFS :: path where
  "BINDERFS = [''dev'', ''binderfs'']"

definition device_paths :: "probe_host \<Rightarrow> probe_record \<Rightarrow> failure + (probe_record \<times> path list)" where
  "device_paths h r =
     (case bind_res (ph_is_dir h BINDERFS) (\<lambda>d. if d then ph_iterdir h BINDERFS else Inr []) of
        Inl f \<Rightarrow> bind_res (caught id f r) (\<lambda>r1. Inr (r1, sort DEVICES))
      | Inr found \<Rightarrow> Inr (r, sort (remdups (DEVICES @ filter (\<lambda>p. last p \<noteq> ''binder-control'') found))))"

definition protocol_of :: "bytes \<Rightarrow> int" where
  "protocol_of bs = to_signed 32 (le_int bs)"

definition device_error :: "path \<Rightarrow> string \<Rightarrow> string" where
  "device_error p m = abs_str p @ '': '' @ m"

definition read_version :: "probe_host \<Rightarrow> path \<Rightarrow> int \<Rightarrow> probe_record \<Rightarrow> failure option \<times> probe_record" where
  "read_version h p fd r =
     (let (failed, r1) = (case ph_version h fd of
            Inl f \<Rightarrow> (Some f, r)
          | Inr v \<Rightarrow> (None, r\<lparr>pr_devices := butlast (pr_devices r) @ [(p, Some (protocol_of v))], pr_available := pr_available r \<or> protocol_of v = 8\<rparr>)) in
      (case ph_close h fd of Inl f \<Rightarrow> (Some f, r1) | Inr _ \<Rightarrow> (failed, r1)))"

definition probe_device :: "probe_host \<Rightarrow> probe_record \<Rightarrow> path \<Rightarrow> failure + probe_record" where
  "probe_device h r p =
     (case bind_res (ph_exists h p) (\<lambda>e. if e then ph_is_character h p else Inr False) of
        Inl f \<Rightarrow> caught (device_error p) f r
      | Inr False \<Rightarrow> Inr r
      | Inr True \<Rightarrow>
          (let r1 = r\<lparr>pr_devices := pr_devices r @ [(p, None)]\<rparr> in
           case ph_open h p of
             Inl f \<Rightarrow> caught (device_error p) f r1
           | Inr fd \<Rightarrow> (case read_version h p fd r1 of (None, r2) \<Rightarrow> Inr r2 | (Some f, r2) \<Rightarrow> caught (device_error p) f r2)))"

section \<open>Modules, configuration and packages\<close>

definition probe_modules :: "probe_host \<Rightarrow> probe_record \<Rightarrow> failure + probe_record" where
  "probe_modules h r =
     (let d = [''lib'', ''modules'', ph_release h] in
      case bind_res (ph_is_dir h d) (\<lambda>b. if b then bind_res (ph_modules h d) (\<lambda>ps. Inr (Some ps)) else Inr None) of
        Inl f \<Rightarrow> caught id f r
      | Inr None \<Rightarrow> Inr r
      | Inr (Some ps) \<Rightarrow> Inr (r\<lparr>pr_modules := sort_key abs_str ps\<rparr>))"

definition config_lines :: "probe_host \<Rightarrow> path \<Rightarrow> failure + string list option" where
  "config_lines h p =
     bind_res (ph_is_file h p) (\<lambda>b.
     if \<not> b then Inr None
     else
       bind_res (bind_res (ph_read h p) (\<lambda>data. if endswith (last p) ''.gz'' then ph_gunzip h data else Inr data)) (\<lambda>data.
       bind_res (ph_decode h data) (\<lambda>s. Inr (Some (filter (contains ''CONFIG_ANDROID_BINDER'') (splitlines s))))))"

definition probe_config :: "probe_host \<Rightarrow> probe_record \<Rightarrow> path \<Rightarrow> failure + probe_record" where
  "probe_config h r p =
     (case config_lines h p of
        Inl (Decode_failed m) \<Rightarrow> Inr (note_error (device_error p m) r)
      | Inl f \<Rightarrow> caught (device_error p) f r
      | Inr None \<Rightarrow> Inr r
      | Inr (Some ls) \<Rightarrow> Inr (r\<lparr>pr_configuration := dict_set (pr_configuration r) (abs_str p) ls\<rparr>))"

definition WANTED :: "string list" where
  "WANTED = [''Package'', ''Version'', ''Architecture'', ''Size'', ''SHA256'', ''Filename'']"

definition metadata_line :: "(string \<times> string) list \<Rightarrow> string \<Rightarrow> (string \<times> string) list" where
  "metadata_line d line = (case split_first '': '' line of Some (key, v) \<Rightarrow> if key \<in> set WANTED then dict_set d key v else d | None \<Rightarrow> d)"

definition package_query :: "probe_host \<Rightarrow> string \<Rightarrow> candidate list \<Rightarrow> string \<Rightarrow> failure + candidate list" where
  "package_query h apt found start =
     (let package = start @ ph_release h in
      bind_res (ph_show h [apt, ''-o'', ''Dir::Cache::pkgcache='', ''-o'', ''Dir::Cache::srcpkgcache='', ''show'', ''--no-all-versions'', package]) (\<lambda>(status, printed).
      Inr (found @ [\<lparr>cd_query = package, cd_exit = status, cd_metadata = foldl metadata_line [] (splitlines printed)\<rparr>])))"

definition probe_packages :: "probe_host \<Rightarrow> probe_record \<Rightarrow> failure + probe_record" where
  "probe_packages h r =
     (case ph_apt_cache h of
        None \<Rightarrow> Inr r
      | Some apt \<Rightarrow>
          if pr_modules r \<noteq> [] \<or> apt = [] then Inr r
          else bind_res (foldM (package_query h apt) [] [''linux-modules-'', ''linux-modules-extra-'']) (\<lambda>cs. Inr (r\<lparr>pr_candidates := Some cs\<rparr>)))"

definition NO_LINUX :: string where
  "NO_LINUX = ''A real Linux kernel is required for the reference''"

definition NO_DEVICE :: string where
  "NO_DEVICE = ''No accessible protocol-8 Binder device; no kernel semantic comparison ran''"

definition empty_record :: "probe_host \<Rightarrow> probe_record" where
  "empty_record h = \<lparr>pr_platform = ph_platform h, pr_kernel = ph_release h, pr_available = False, pr_devices = [], pr_modules = [], pr_configuration = [],
     pr_errors = [], pr_reason = None, pr_candidates = None\<rparr>"

definition probe :: "probe_host \<Rightarrow> failure + probe_record" where
  "probe h =
     (let r0 = empty_record h in
      if ph_platform h \<noteq> ''linux'' then Inr (r0\<lparr>pr_reason := Some NO_LINUX\<rparr>)
      else
        bind_res (device_paths h r0) (\<lambda>(r1, ps).
        bind_res (foldM (probe_device h) r1 ps) (\<lambda>r2.
        bind_res (probe_modules h r2) (\<lambda>r3.
        bind_res (foldM (probe_config h) r3 [[''proc'', ''config.gz''], [''boot'', ''config-'' @ ph_release h]]) (\<lambda>r4.
        probe_packages h (if pr_available r4 then r4 else r4\<lparr>pr_reason := Some NO_DEVICE\<rparr>))))))"

definition probe_main ::
  "std \<Rightarrow> (probe_record \<Rightarrow> json) \<Rightarrow> env_host \<Rightarrow> env \<Rightarrow> probe_host \<Rightarrow> bool \<Rightarrow> fs \<Rightarrow> (failure, fs \<times> int) res"
where
  "probe_main std encode eh environ h require_device fs =
     bind_res (environment eh fs environ) (\<lambda>(fs1, configured).
     bind_res (case probe h of Inl f \<Rightarrow> Inl (RuntimeError f) | Inr r \<Rightarrow> Inr r) (\<lambda>r.
     bind_res (dict_get configured ''ARTBOX_ARTIFACTS_DIR'') (\<lambda>d.
     bind_res (dump_json std fs1 (rel_parts d @ [''m4-binder-capabilities.json'']) (encode r)) (\<lambda>fs2.
     Inr (fs2, if require_device \<and> \<not> pr_available r then 1 else 0)))))"

section \<open>The inventory is total and says what was found\<close>

text \<open>
  A host whose file operations raise nothing but \<^verbatim>\<open>OSError\<close>, whose configuration files may also fail to
  decode, and whose package query answers.
\<close>

definition os_only :: "failure + 'a \<Rightarrow> bool" where
  "os_only x \<longleftrightarrow> (case x of Inl f \<Rightarrow> (case f of Os_failed _ \<Rightarrow> True | _ \<Rightarrow> False) | Inr _ \<Rightarrow> True)"

definition well_behaved :: "probe_host \<Rightarrow> bool" where
  "well_behaved h \<longleftrightarrow> (\<forall>p. os_only (ph_is_dir h p)) \<and> (\<forall>p. os_only (ph_iterdir h p)) \<and> (\<forall>p. os_only (ph_exists h p)) \<and> (\<forall>p. os_only (ph_is_character h p)) \<and>
     (\<forall>p. os_only (ph_open h p)) \<and> (\<forall>d. os_only (ph_version h d)) \<and> (\<forall>d. os_only (ph_close h d)) \<and> (\<forall>p. os_only (ph_modules h p)) \<and>
     (\<forall>p. os_only (ph_is_file h p)) \<and> (\<forall>p. os_only (ph_read h p)) \<and> (\<forall>d. os_only (ph_gunzip h d)) \<and> (\<forall>d. ph_decode h d \<noteq> Inl Escaped) \<and>
     (\<forall>ws. \<exists>x. ph_show h ws = Inr x)"

lemma well_behavedD:
  assumes "well_behaved h"
  shows "os_only (ph_is_dir h p)" "os_only (ph_iterdir h p)" "os_only (ph_exists h p)" "os_only (ph_is_character h p)" "os_only (ph_open h p)" "os_only (ph_version h d)"
    "os_only (ph_close h d)" "os_only (ph_modules h p)" "os_only (ph_is_file h p)" "os_only (ph_read h p)" "os_only (ph_gunzip h b)" "ph_decode h b \<noteq> Inl Escaped"
    "\<exists>x. ph_show h ws = Inr x"
  using assms by (simp_all add: well_behaved_def)

lemma os_only_bind: "os_only a \<Longrightarrow> (\<And>x. os_only (f x)) \<Longrightarrow> os_only (bind_res a f)"
  by (cases a) (auto simp: os_only_def)

lemma os_only_simps [simp]: "os_only (Inr x)" "os_only (Inl f) \<longleftrightarrow> (\<exists>m. f = Os_failed m)"
  by (auto simp: os_only_def split: failure.splits)

lemma caught_os: "os_only (Inl f :: failure + unit) \<Longrightarrow> \<exists>m. caught g f r = Inr (note_error m r)"
  by (auto simp: caught_def)

definition protocols :: "probe_record \<Rightarrow> int set" where
  "protocols r = {v. \<exists>p. (p, Some v) \<in> set (pr_devices r)}"

definition agreed :: "probe_record \<Rightarrow> bool" where
  "agreed r \<longleftrightarrow> (pr_available r \<longleftrightarrow> 8 \<in> protocols r)"

text \<open>A step that keeps the devices, the verdict and the reason.\<close>

definition same_verdict :: "probe_record \<Rightarrow> probe_record \<Rightarrow> bool" where
  "same_verdict r r' \<longleftrightarrow> pr_devices r' = pr_devices r \<and> pr_available r' = pr_available r \<and> pr_reason r' = pr_reason r"

lemma same_verdict_refl [simp]: "same_verdict r r"
  by (simp add: same_verdict_def)

lemma note_error_same [simp]: "same_verdict r (note_error m r)"
  by (simp add: same_verdict_def note_error_def)

lemma same_verdict_trans: "same_verdict a b \<Longrightarrow> same_verdict b c \<Longrightarrow> same_verdict a c"
  by (simp add: same_verdict_def)

lemma read_version_step:
  assumes "well_behaved h" and "agreed r"
  obtains failed r' where "read_version h p fd (r\<lparr>pr_devices := pr_devices r @ [(p, None)]\<rparr>) = (failed, r')"
    and "case failed of None \<Rightarrow> True | Some f \<Rightarrow> \<exists>m. f = Os_failed m" and "agreed r'" and "map fst (pr_devices r') = map fst (pr_devices r) @ [p]" and "pr_reason r' = pr_reason r"
proof -
  have "agreed (r\<lparr>pr_devices := pr_devices r @ [(p, None)]\<rparr>)"
      "agreed (r\<lparr>pr_devices := pr_devices r @ [(p, Some v)], pr_available := pr_available r \<or> v = 8\<rparr>)" for v
    using assms(2) by (auto simp: agreed_def protocols_def)
  then show thesis
    using that well_behavedD(6,7) [OF assms(1), of fd]
    by (cases "ph_version h fd"; cases "ph_close h fd") (fastforce simp: read_version_def Let_def)+
qed

lemma probe_device_step:
  assumes "well_behaved h" and "agreed r"
  shows "\<exists>r'. probe_device h r p = Inr r' \<and> agreed r' \<and> (\<exists>ds. map fst (pr_devices r') = map fst (pr_devices r) @ ds \<and> (ds = [] \<or> ds = [p])) \<and> pr_reason r' = pr_reason r"
proof -
  have keep: "agreed (note_error m s) = agreed s" "pr_devices (note_error m s) = pr_devices s" "pr_reason (note_error m s) = pr_reason s" for m s
    by (simp_all add: note_error_def agreed_def protocols_def)
  have grown: "agreed (r\<lparr>pr_devices := pr_devices r @ [(p, None)]\<rparr>)" using assms(2) by (auto simp: agreed_def protocols_def)
  let ?c = "bind_res (ph_exists h p) (\<lambda>e. if e then ph_is_character h p else Inr False)"
  have os: "os_only ?c" by (intro os_only_bind) (simp_all add: well_behavedD [OF assms(1)])
  consider f where "?c = Inl f" | "?c = Inr False" | f where "?c = Inr True" "ph_open h p = Inl f" | fd where "?c = Inr True" "ph_open h p = Inr fd"
    by (cases ?c; cases "ph_open h p") (metis (full_types))+
  then show ?thesis
  proof cases
    case 1
    then show ?thesis using os assms(2) by (auto simp: probe_device_def caught_def keep)
  next
    case 2
    then show ?thesis using assms(2) by (auto simp: probe_device_def)
  next
    case 3
    then show ?thesis using well_behavedD(5) [OF assms(1), of p] grown by (auto simp: probe_device_def caught_def keep Let_def)
  next
    case 4
    obtain failed r' where v: "read_version h p fd (r\<lparr>pr_devices := pr_devices r @ [(p, None)]\<rparr>) = (failed, r')"
        "case failed of None \<Rightarrow> True | Some f \<Rightarrow> \<exists>m. f = Os_failed m" "agreed r'" "map fst (pr_devices r') = map fst (pr_devices r) @ [p]" "pr_reason r' = pr_reason r"
      by (rule read_version_step [OF assms])
    then show ?thesis using 4 by (cases failed) (auto simp: probe_device_def caught_def keep Let_def)
  qed
qed

lemma subseq_keeps: "subseq ds ps \<Longrightarrow> set ds \<subseteq> set ps \<and> (distinct ps \<longrightarrow> distinct ds) \<and> (sorted ps \<longrightarrow> sorted ds)"
  by (induction rule: list_emb.induct) auto

lemma probe_devices:
  assumes "well_behaved h" and "agreed r"
  shows "\<exists>r' ds. foldM (probe_device h) r ps = Inr r' \<and> agreed r' \<and> map fst (pr_devices r') = map fst (pr_devices r) @ ds \<and> subseq ds ps \<and> pr_reason r' = pr_reason r"
  using assms(2)
proof (induction ps arbitrary: r)
  case (Cons p ps)
  obtain r1 ds1 where a: "probe_device h r p = Inr r1" "agreed r1" "map fst (pr_devices r1) = map fst (pr_devices r) @ ds1" "ds1 = [] \<or> ds1 = [p]" "pr_reason r1 = pr_reason r"
    using probe_device_step [OF assms(1) Cons.prems, of p] by blast
  obtain r2 ds2 where b: "foldM (probe_device h) r1 ps = Inr r2" "agreed r2" "map fst (pr_devices r2) = map fst (pr_devices r1) @ ds2" "subseq ds2 ps" "pr_reason r2 = pr_reason r1"
    using Cons.IH [OF a(2)] by blast
  have "subseq (ds1 @ ds2) (p # ps)" using a(4) b(4) by auto
  then show ?case using a b by (intro exI [of _ r2] exI [of _ "ds1 @ ds2"]) simp
qed auto

lemma probe_config_step:
  assumes "well_behaved h"
  shows "\<exists>r'. probe_config h r p = Inr r' \<and> same_verdict r r'"
proof -
  have gz: "os_only (if c then ph_gunzip h b else Inr b)" for c b using well_behavedD(11) [OF assms] by simp
  have "config_lines h p \<noteq> Inl Escaped"
  proof
    assume "config_lines h p = Inl Escaped"
    then show False
      using well_behavedD(9-12) [OF assms] gz
      by (auto simp: config_lines_def bind_res_def split: sum.splits if_splits) (metis os_only_simps(2) failure.distinct)+
  qed
  then show ?thesis
    by (cases "config_lines h p") (auto simp: probe_config_def caught_def same_verdict_def note_error_def split: failure.splits option.splits)
qed

lemma probe_configs: "well_behaved h \<Longrightarrow> \<exists>r'. foldM (probe_config h) r ps = Inr r' \<and> same_verdict r r'"
proof (induction ps arbitrary: r)
  case (Cons p ps)
  obtain r1 where r1: "probe_config h r p = Inr r1" "same_verdict r r1" using probe_config_step [OF Cons.prems] by blast
  then show ?case using Cons.IH [OF Cons.prems, of r1] by (auto intro: same_verdict_trans)
qed simp

lemma device_paths_listed:
  assumes "well_behaved h"
  shows "\<exists>r' ps. device_paths h r = Inr (r', ps) \<and> same_verdict r r' \<and> distinct ps \<and> sorted ps \<and> list_all (\<lambda>p. last p \<noteq> ''binder-control'') ps"
proof -
  have fixed: "distinct DEVICES" "list_all (\<lambda>p. last p \<noteq> ''binder-control'') DEVICES" by (simp_all add: DEVICES_def)
  let ?c = "bind_res (ph_is_dir h BINDERFS) (\<lambda>d. if d then ph_iterdir h BINDERFS else Inr [])"
  have os: "os_only ?c" by (intro os_only_bind) (simp_all add: well_behavedD [OF assms])
  show ?thesis
  proof (cases ?c)
    case (Inl f)
    then show ?thesis using os fixed by (auto simp: device_paths_def caught_def list_all_iff)
  next
    case (Inr found)
    then show ?thesis using fixed(2) by (auto simp: device_paths_def list_all_iff)
  qed
qed

lemma probe_modules_step:
  assumes "well_behaved h"
  shows "\<exists>r'. probe_modules h r = Inr r' \<and> same_verdict r r'"
proof -
  let ?d = "[''lib'', ''modules'', ph_release h]"
  let ?c = "bind_res (ph_is_dir h ?d) (\<lambda>b. if b then bind_res (ph_modules h ?d) (\<lambda>ps. Inr (Some ps)) else Inr None)"
  have "os_only ?c" by (intro os_only_bind) (simp_all add: well_behavedD [OF assms] os_only_bind)
  then show ?thesis
    by (cases ?c) (auto simp: probe_modules_def Let_def caught_def same_verdict_def note_error_def split: option.splits)
qed

lemma probe_packages_step:
  assumes "well_behaved h"
  shows "\<exists>r'. probe_packages h r = Inr r' \<and> same_verdict r r'"
proof -
  have "\<exists>cs. foldM (package_query h apt) found xs = Inr cs" for apt found xs
  proof (induction xs arbitrary: found)
    case (Cons x xs)
    obtain e printed where "ph_show h [apt, ''-o'', ''Dir::Cache::pkgcache='', ''-o'', ''Dir::Cache::srcpkgcache='', ''show'', ''--no-all-versions'', x @ ph_release h] = Inr (e, printed)"
      using well_behavedD(13) [OF assms] by force
    then show ?case using Cons.IH by (simp add: package_query_def Let_def)
  qed simp
  then have "\<exists>cs. foldM (package_query h apt) [] [''linux-modules-'', ''linux-modules-extra-''] = Inr cs" for apt by blast
  then obtain cs where "foldM (package_query h (the (ph_apt_cache h))) [] [''linux-modules-'', ''linux-modules-extra-''] = Inr cs" by blast
  then show ?thesis
    by (cases "ph_apt_cache h") (simp_all add: probe_packages_def same_verdict_def del: foldM.simps)
qed


text \<open>A host with one device of protocol 8 and one that may not be opened.\<close>

definition p_host :: probe_host where
  "p_host = \<lparr>ph_platform = ''linux'', ph_release = ''6'', ph_is_dir = \<lambda>p. Inr (p = BINDERFS), ph_iterdir = \<lambda>p. Inr [p @ [''binder-control''], p @ [''artbox'']],
     ph_exists = \<lambda>p. Inr (p \<noteq> [''dev'', ''hwbinder'']), ph_is_character = \<lambda>p. Inr True, ph_open = \<lambda>p. if p = [''dev'', ''vndbinder''] then Inl (Os_failed ''denied'') else Inr 3,
     ph_version = \<lambda>_. Inr [8, 0, 0, 0], ph_close = \<lambda>_. Inr (), ph_modules = \<lambda>_. Inr [], ph_is_file = \<lambda>_. Inr False, ph_read = \<lambda>_. Inr [], ph_gunzip = Inr,
     ph_decode = \<lambda>_. Inr [], ph_apt_cache = None, ph_show = \<lambda>_. Inr (0, [])\<rparr>"


end
