(* ===== verification/Spec2Isabelle.thy ===== *)
theory Spec2Isabelle
  imports Pack_Sample Wrap_Sample Sources_Sample Managed_Build App_Build Service_Build Binder_Reference Binder_Probe
begin

text \<open>
  A verification development for the Python tooling of ARTBox, which prepares Android's runtime for
  Apple devices: it installs pinned sources and tools, adapts and checks native code, packs ELF
  images into Apple containers, signs them as frameworks, and decides whether a run on the device is
  accepted.  The programs are under \<^verbatim>\<open>src/tools\<close> and \<^verbatim>\<open>src/scripts\<close>.

  \<^bold>\<open>Conventions.\<close>  A computation that may raise is a value of \<open>('m, 'a) res\<close>: \<open>Inl\<close> the exception, with one
  constructor of the message type \<open>'m\<close> per message of the source, \<open>Inr\<close> the result (theory \<open>Prelude\<close>).
  Loops over lists are \<open>foldM\<close> and \<open>mapM\<close>; Python integers are \<open>int\<close>, bytes are \<open>8 word\<close>; a dictionary is
  an association list in insertion order; strings are lists of characters and taken to be ASCII where
  the source encodes or folds them.  What the source calls but does not contain is a parameter:
  SHA-1 and SHA-256, the JSON and property-list readers and writers, the readers of tar and zip
  archives, downloads, the clock, and every compiler, linker, signing or inspection tool (a function
  from a command line and a file system to a status, two outputs and a new file system).

  \<^bold>\<open>Shared models.\<close>  \<open>Py_Struct\<close>: the fields of \<^verbatim>\<open>struct\<close>, with the contract of a fixed-width field as the
  locale \<open>fixed_codec\<close>, interpreted for each width.  \<open>Posix_Path\<close>: \<^verbatim>\<open>PurePosixPath\<close> and \<^verbatim>\<open>posixpath\<close>.
  \<open>Py_FS\<close>: a file system with directories, files and symbolic links, path resolution as the kernel does
  it (at most \<open>LINKS = 40\<close> links in one walk, the limit of Linux, beyond which it fails as there), and the
  predicate \<open>confined\<close>: nothing outside a directory has changed and there is no link in it; the locale
  \<open>confined_step\<close> carries it through loops.  \<open>Py_Json\<close>: JSON values with Python's equality and types.
  \<open>Py_Re\<close>: backtracking regular expressions with groups.  \<open>Text_Edit\<close>: \<^verbatim>\<open>str.count\<close> and \<^verbatim>\<open>str.replace\<close>.
  The locale \<open>recording_loop\<close> of \<open>Prelude\<close> is the interface of loops that append what they observed.

  \<^bold>\<open>The static packer\<close>, \<^verbatim>\<open>tools/pack_elf.py\<close>.  \<open>Elf_Image\<close> is the reader, \<open>Guest_Text\<close> the inspection of the text and
  its rewriting, \<open>Macho_Writer\<close> the container and \<^verbatim>\<open>main\<close>; \<open>Pack_Sample\<close> is a complete input.  Acceptance by
  the reader and by the inspector is characterised exactly; an accepted text cannot leave the text
  segment; every system call and nothing else is replaced by a branch to a veneer that returns after
  it; the container is read back by independent readers of load commands, export trie and symbols;
  and the packer fails only for the reasons the reader and the inspector give.

  \<^bold>\<open>The shared-object wrapper\<close>, \<^verbatim>\<open>tools/wrap_dynamic.py\<close>.  \<open>Wrap_Dynamic\<close> has the layout of a shared object, the two
  images and the verification of the linked file; the images refine the ELF memory model, and a
  verified file holds both and has no segment that is or can become writable and executable.
  \<open>Wrap_Sample\<close> is a complete input and output.

  \<^bold>\<open>Installers.\<close>  \<open>Sources\<close>, \<open>Sources_Safety\<close> and \<open>Sources_Install\<close> are \<^verbatim>\<open>sources.py\<close> (plans, extraction, pins, the
  staged installation), \<open>Jdk\<close> and \<open>Ndk\<close> are \<^verbatim>\<open>jdk.py\<close> and \<^verbatim>\<open>ndk.py\<close>, \<open>Environment\<close> is \<^verbatim>\<open>environment.py\<close>.  Extraction
  stays below its destination and is all or nothing; what is returned has the pinned digests.  For
  the NDK this needs an archive without links below links: three nested links escape, which is proved.

  \<^bold>\<open>Adaptations.\<close>  \<open>Overlay\<close> copies pinned trees with checked replacements (\<^verbatim>\<open>art_host_adapt.py\<close> and its
  siblings), \<open>Native_Edits\<close> rewrites system-call stubs and the allocator configuration
  (\<^verbatim>\<open>bionic_syscalls.py\<close>, \<^verbatim>\<open>bionic_scudo.py\<close>, \<^verbatim>\<open>art_runtime_policy.py\<close>), \<open>Native_Code\<close> checks disassembled objects
  and replaces thread-pointer reads (\<^verbatim>\<open>bionic_adapt.py\<close>, \<^verbatim>\<open>tls_adapt.py\<close>, \<^verbatim>\<open>art_native_tls.py\<close>).  The lemmas say that
  exactly the reviewed places change and that accepted code has no forbidden instruction.

  \<^bold>\<open>Linking and signing.\<close>  \<open>Guest_Link\<close> has the link boundaries of ICU, libcore and ART: the dependency walk ends
  and its scope is the set of reachable libraries.  \<open>Framework_Link\<close> has \<^verbatim>\<open>guest_bundle.py\<close> and
  \<^verbatim>\<open>dynamic_bundle.py\<close>: a signed framework is verified after signing, at unchanged addresses; the layout
  the wrapper writes is the layout the linker reads.

  \<^bold>\<open>Acceptance and staging.\<close>  \<open>Acceptance\<close> decides on reports (\<^verbatim>\<open>m2_acceptance.py\<close>, \<^verbatim>\<open>looper_guest.py\<close>,
  \<^verbatim>\<open>kernel_config_guest.py\<close> and the validators of the bundles): the denominator is kept, accepted reports
  have exact types and values, and a malformed report raises only the errors meant for it.  \<open>Bundle\<close>,
  \<open>Bundle_Service\<close> and \<open>Bundle_Art\<close> stage the frameworks (\<^verbatim>\<open>bionic_bundle.py\<close>, \<^verbatim>\<open>service_bundle.py\<close>,
  \<^verbatim>\<open>art_bundle.py\<close>): nothing is staged without acceptance and a matching revision, and the check of the
  built application is exact.  Copied trees are at most \<open>DEPTH = 256\<close> levels deep: a path of the system is
  shorter than 4096 characters and in practice far shallower; deeper trees fail in the model.

  \<^bold>\<open>Oracles and fixtures.\<close>  \<open>Runtime_Oracles\<close> has the compiler-runtime members, the division vectors and the
  vfork variants (\<^verbatim>\<open>bionic_builtins.py\<close>, \<^verbatim>\<open>libcore_builtins.py\<close>, \<^verbatim>\<open>bionic_vfork.py\<close>); \<open>Native_Probes\<close> the account table,
  the source inventory, the mremap probe and the Binder libc reference (\<^verbatim>\<open>bionic_ids.py\<close>,
  \<^verbatim>\<open>art_runtime_sources.py\<close>, \<^verbatim>\<open>art_mremap_probe.py\<close>, \<^verbatim>\<open>binder_libc.py\<close>); \<open>Dex_Fixture\<close> and \<open>Classlib_Check\<close> the DEX inputs and
  the class-library cases (\<^verbatim>\<open>dex_fixture.py\<close>, \<^verbatim>\<open>classlib_check.py\<close>).  The vectors satisfy the division law, the
  probe matrix is complete, the DEX variants are corrupted exactly where they are meant to be.

  \<^bold>\<open>Generators.\<close>  \<open>Schema_Tools\<close> has the XSD compiler (\<^verbatim>\<open>xsdc.py\<close>) and \<open>Binder_Aidl\<close> the AIDL compiler
  (\<^verbatim>\<open>binder_aidl.py\<close>): pinned inputs, repeated generation, rejected inputs and the recorded evidence.  Writes of
  generated files change exactly the checked destination, and a fetched file is the pinned one.

  \<^bold>\<open>Commands.\<close>  \<open>Tool_Commands\<close> has the \<^verbatim>\<open>main\<close> functions of the packer and of the wrapper with the files they write;
  what the wrapper writes is what \<^verbatim>\<open>dynamic_bundle.py\<close> reads.

  \<^bold>\<open>Component builds.\<close>  \<open>Native_Build\<close> is \<^verbatim>\<open>build_binder.py\<close>: the generation record, the instruction boundary of an object,
  the import inventory, the corresponding-source bundle and the compile and archive loops.  Its checks are
  used by \<open>Service_Build\<close>, which has \<^verbatim>\<open>build_vintf.py\<close>, \<^verbatim>\<open>build_servicemanager.py\<close> and
  \<^verbatim>\<open>build_kernel_config_check.py\<close>.  An accepted object has no forbidden instruction and its executable bytes are
  the instructions that were inspected; every compiled unit of each build is recorded, in order, with such an
  object.  A thread pool is modelled by the order of \<^verbatim>\<open>pool.map\<close>, in which the results are read.

  \<^bold>\<open>The application.\<close>  \<open>App_Build\<close> is \<^verbatim>\<open>build.py\<close>: the measured host build, and the iOS build that stages the signed
  content, runs Xcode, verifies what is embedded, inspects the binary and writes the archive.  It composes the
  staging theories: an archive that is written carries no entitlement, has no writable and executable
  segment, links the entry of what it includes, and includes only accepted and verified runtimes.

  \<^bold>\<open>The Binder reference.\<close>  \<open>Binder_Reference\<close> is \<^verbatim>\<open>binder_reference.py\<close>: the pinned kernel module out of a Debian package (its
  \<^verbatim>\<open>ar\<close> walk against the relation \<open>ar_entries\<close>), the native run and the comparison of the portable driver.  The
  native run changes the kernel, so its steps are state transformers that keep the state when they
  raise, with \<open>try_finally\<close> for the nested cleanup and rules for a triple of a precondition, a postcondition and
  a condition on exceptions.  The mount is released on every path unless the unmount itself fails, and a record is
  returned only for a complete and cleaned run.  The wait for the reference count is a list of readings,
  each with whether time is left: the loop reads the clock and ends at the deadline.

  \<^bold>\<open>The Java side.\<close>  \<open>Managed_Build\<close> has \<^verbatim>\<open>build_art_classlib.py\<close> (generated sources, compiled classes, their DEX files and the
  record of them) and \<^verbatim>\<open>build_art_managed_fixture.py\<close>.  A DEX header is accepted exactly when it is well formed, the
  corrupted inputs of \<open>Classlib_Check\<close> are rejected by it, and the managed checks are written for the runtime only
  after every recorded digest has been compared.

  \<^bold>\<open>The Binder probe.\<close>  \<open>Binder_Probe\<close> is \<^verbatim>\<open>probe_binder.py\<close>: a failing operation of the host is recorded and the probe goes
  on, with what it had recorded before the failure; its verdict is that of the devices it lists.

  \<^bold>\<open>Not modelled.\<close>  The remaining drivers \<^verbatim>\<open>build_art_libcore.py\<close>, \<^verbatim>\<open>build_art_native_libraries.py\<close>,
  \<^verbatim>\<open>build_art_runtime.py\<close>, \<^verbatim>\<open>build_bionic.py\<close> and \<^verbatim>\<open>link_*_guest.py\<close>: sequences of compiler and test invocations with reports, whose checks are
  in the theories above.  Command-line parsing, progress messages and time limits of subprocesses.  The C,
  C++, Objective-C and assembly of \<^verbatim>\<open>core\<close>, \<^verbatim>\<open>platform\<close>, \<^verbatim>\<open>app\<close>, \<^verbatim>\<open>fixtures\<close> and \<^verbatim>\<open>tests\<close>.
\<close>

end
